(* ===== verification/Values.thy ===== *)
theory Values
  imports Prelude
begin

text \<open>
  Python values as the framework passes them around (\<open>Any\<close>): JSON values, tuples, pydantic
  model instances, dataclass instances and opaque objects, with the two functions of
  \<^verbatim>\<open>core/serialization.py\<close> and \<^verbatim>\<open>core/tool_arguments.py\<close> that turn them into JSON and back,
  and the arithmetic on usage numbers of \<^verbatim>\<open>core/usage.py\<close>.

  A model instance \<open>PModel cls d\<close> carries the value \<open>d\<close> that pydantic's
  \<open>model_dump(mode="json")\<close> returns for it; a dataclass instance \<open>PData cls fs\<close> carries its
  fields.  Floats are exact rationals: rounding, infinities and NaN are not modelled.
  The functions of Python that print floats and objects, format numbers and parse JSON are the
  record \<open>pytext\<close>, a parameter of the definitions that use them.
\<close>

datatype pyval =
    PNone
  | PBool bool
  | PInt int
  | PFloat rat
  | PStr string
  | PList "pyval list"
  | PTuple "pyval list"
  | PDict "(string \<times> pyval) list"
  | PModel string pyval
  | PData string "(string \<times> pyval) list"
  | PObj string string

record pytext =
  float_repr :: "rat \<Rightarrow> string"        \<comment> \<open>\<open>repr(x)\<close> of a float\<close>
  obj_str :: "pyval \<Rightarrow> string"         \<comment> \<open>\<open>str(v)\<close>\<close>
  fmt_g6 :: "pyval \<Rightarrow> string"          \<comment> \<open>\<open>format(x, ".6g")\<close>\<close>
  model_json :: "pyval \<Rightarrow> string"      \<comment> \<open>\<open>v.model_dump_json()\<close> of a model instance\<close>
  fmt_f1 :: "rat \<Rightarrow> string"            \<comment> \<open>\<open>format(x, ".1f")\<close>\<close>
  json_loads :: "string \<Rightarrow> string + pyval" \<comment> \<open>\<open>json.loads\<close>, or the decode error's text\<close>

fun type_name :: "pyval \<Rightarrow> string" where
  "type_name PNone = ''NoneType''"
| "type_name (PBool _) = ''bool''"
| "type_name (PInt _) = ''int''"
| "type_name (PFloat _) = ''float''"
| "type_name (PStr _) = ''str''"
| "type_name (PList _) = ''list''"
| "type_name (PTuple _) = ''tuple''"
| "type_name (PDict _) = ''dict''"
| "type_name (PModel c _) = c"
| "type_name (PData c _) = c"
| "type_name (PObj c _) = c"

text \<open>\<open>bool(v)\<close>; instances are true.\<close>

fun py_bool :: "pyval \<Rightarrow> bool" where
  "py_bool PNone = False"
| "py_bool (PBool b) = b"
| "py_bool (PInt i) = (i \<noteq> 0)"
| "py_bool (PFloat q) = (q \<noteq> 0)"
| "py_bool (PStr s) = (s \<noteq> [])"
| "py_bool (PList xs) = (xs \<noteq> [])"
| "py_bool (PTuple xs) = (xs \<noteq> [])"
| "py_bool (PDict d) = (d \<noteq> [])"
| "py_bool _ = True"

section \<open>\<open>to_json_value\<close>\<close>

text \<open>
  \<open>dataclasses.asdict\<close> converts nested dataclasses and containers first; \<open>to_json_value\<close>
  maps those to the same JSON, so one recursive call per field has the same result.
\<close>

primrec to_json_value :: "pyval \<Rightarrow> pyval" where
  "to_json_value PNone = PNone"
| "to_json_value (PBool b) = PBool b"
| "to_json_value (PInt i) = PInt i"
| "to_json_value (PFloat q) = PFloat q"
| "to_json_value (PStr s) = PStr s"
| "to_json_value (PList xs) = PList (map to_json_value xs)"
| "to_json_value (PTuple xs) = PList (map to_json_value xs)"
| "to_json_value (PDict d) = PDict (map (map_prod id to_json_value) d)"
| "to_json_value (PModel c d) = to_json_value d"
| "to_json_value (PData c fs) = PDict (map (map_prod id to_json_value) fs)"
| "to_json_value (PObj c s) = PObj c s"

text \<open>A value free of instances and tuples; with \<open>True\<close> also free of opaque objects.\<close>

primrec plain :: "bool \<Rightarrow> pyval \<Rightarrow> bool" where
  "plain st PNone = True"
| "plain st (PBool b) = True"
| "plain st (PInt i) = True"
| "plain st (PFloat q) = True"
| "plain st (PStr s) = True"
| "plain st (PList xs) = list_all id (map (plain st) xs)"
| "plain st (PTuple xs) = False"
| "plain st (PDict d) = list_all snd (map (map_prod id (plain st)) d)"
| "plain st (PModel c d) = False"
| "plain st (PData c fs) = False"
| "plain st (PObj c s) = (\<not> st)"

abbreviation is_json :: "pyval \<Rightarrow> bool" where
  "is_json \<equiv> plain True"

lemma plain_list [simp]: "plain st (PList xs) \<longleftrightarrow> (\<forall>x\<in>set xs. plain st x)"
  by (auto simp: list_all_iff)

lemma plain_dict [simp]: "plain st (PDict d) \<longleftrightarrow> (\<forall>kv\<in>set d. plain st (snd kv))"
  by (auto simp: list_all_iff)

declare plain.simps(6,8) [simp del]

lemma to_json_value_plain: "plain False (to_json_value v)"
  by (induction v) auto

lemma to_json_value_fix: "plain False v \<Longrightarrow> to_json_value v = v"
proof (induction v)
  case (PDict d)
  then have "map (map_prod id to_json_value) d = d"
    by (intro map_idI) (force simp: snds.simps)
  then show ?case by simp
qed (auto intro: map_idI)

lemma to_json_value_idem: "to_json_value (to_json_value v) = to_json_value v"
  by (rule to_json_value_fix) (rule to_json_value_plain)

section \<open>\<open>json.dumps\<close>\<close>

definition hex_digit :: "nat \<Rightarrow> char" where
  "hex_digit n = (if n < 10 then char_of (48 + n) else char_of (87 + n))"

text \<open>
  One character under \<open>ensure_ascii=True\<close>; a character stands for a code point below 256.
\<close>

definition json_char :: "char \<Rightarrow> string" where
  "json_char c = (let n = (of_char c :: nat) in
     if n = 34 then [char_of (92::nat), char_of (34::nat)]
     else if n = 92 then [char_of (92::nat), char_of (92::nat)]
     else if n = 10 then char_of (92::nat) # ''n''
     else if n = 13 then char_of (92::nat) # ''r''
     else if n = 9 then char_of (92::nat) # ''t''
     else if n = 12 then char_of (92::nat) # ''f''
     else if n = 8 then char_of (92::nat) # ''b''
     else if 32 \<le> n \<and> n \<le> 126 then [c]
     else char_of (92::nat) # ''u00'' @ [hex_digit (n div 16), hex_digit (n mod 16)])"

definition json_quote :: "string \<Rightarrow> string" where
  "json_quote s = char_of (34::nat) # concat (map json_char s) @ [char_of (34::nat)]"

text \<open>
  The encoder.  \<open>D\<close> is the \<open>default\<close> hook (\<open>None\<close>: no hook, a \<open>TypeError\<close>), \<open>S\<close> is
  \<open>sort_keys\<close>.  The result is \<open>None\<close> where Python raises \<open>TypeError\<close>.
\<close>

primrec json_enc ::
  "(rat \<Rightarrow> string) \<Rightarrow> (pyval \<Rightarrow> string option) \<Rightarrow> bool \<Rightarrow> pyval \<Rightarrow> string option" where
  "json_enc F D S PNone = Some ''null''"
| "json_enc F D S (PBool b) = Some (if b then ''true'' else ''false'')"
| "json_enc F D S (PInt i) = Some (int_str i)"
| "json_enc F D S (PFloat q) = Some (F q)"
| "json_enc F D S (PStr s) = Some (json_quote s)"
| "json_enc F D S (PList xs) =
     map_option (\<lambda>ps. ''['' @ str_join '', '' ps @ '']'') (those (map (json_enc F D S) xs))"
| "json_enc F D S (PTuple xs) =
     map_option (\<lambda>ps. ''['' @ str_join '', '' ps @ '']'') (those (map (json_enc F D S) xs))"
| "json_enc F D S (PDict d) =
     map_option
       (\<lambda>kvs. ''{'' @
          str_join '', '' (map (\<lambda>kv. json_quote (fst kv) @ '': '' @ snd kv)
            (if S then sort_key fst kvs else kvs)) @ ''}'')
       (those (map (\<lambda>kv. map_option (Pair (fst kv)) (snd kv))
         (map (map_prod id (json_enc F D S)) d)))"
| "json_enc F D S (PModel c d) = map_option json_quote (D (PModel c d))"
| "json_enc F D S (PData c fs) = map_option json_quote (D (PData c fs))"
| "json_enc F D S (PObj c s) = map_option json_quote (D (PObj c s))"

text \<open>\<open>json.dumps(v, ensure_ascii=True, default=str)\<close> and the forms without the hook.\<close>

definition json_dumps :: "pytext \<Rightarrow> pyval \<Rightarrow> string option" where
  "json_dumps P v = json_enc (float_repr P) (\<lambda>x. Some (obj_str P x)) False v"

definition json_dumps_strict :: "pytext \<Rightarrow> pyval \<Rightarrow> string option" where
  "json_dumps_strict P v = json_enc (float_repr P) (\<lambda>x. None) False v"

definition json_dumps_sorted :: "pytext \<Rightarrow> pyval \<Rightarrow> string option" where
  "json_dumps_sorted P v = json_enc (float_repr P) (\<lambda>x. None) True v"

lemma those_total: "(\<And>x. x \<in> set xs \<Longrightarrow> x \<noteq> None) \<Longrightarrow> those xs \<noteq> None"
  by (induction xs) (auto split: option.splits)

lemma json_enc_total_default:
  assumes "\<And>x. D x \<noteq> None"
  shows "json_enc F D S v \<noteq> None"
proof (induction v)
  case (PDict d)
  have "those (map (\<lambda>kv. map_option (Pair (fst kv)) (snd kv))
      (map (map_prod id (json_enc F D S)) d)) \<noteq> None"
    using PDict by (intro those_total) (force simp: snds.simps)
  then show ?case by (simp del: map_map)
next
  case (PList xs) then show ?case using those_total[of "map (json_enc F D S) xs"] by auto
next
  case (PTuple xs) then show ?case using those_total[of "map (json_enc F D S) xs"] by auto
qed (use assms in auto)

lemma json_enc_total_json: "is_json v \<Longrightarrow> json_enc F D S v \<noteq> None"
proof (induction v)
  case (PDict d)
  have "those (map (\<lambda>kv. map_option (Pair (fst kv)) (snd kv))
      (map (map_prod id (json_enc F D S)) d)) \<noteq> None"
    using PDict by (intro those_total) (force simp: snds.simps)
  then show ?case by (simp del: map_map)
next
  case (PList xs) then show ?case using those_total[of "map (json_enc F D S) xs"] by auto
qed auto

lemma json_dumps_total: "json_dumps P v \<noteq> None"
  unfolding json_dumps_def by (rule json_enc_total_default) simp

text \<open>The text of a dump that cannot fail.\<close>

definition json_text :: "pytext \<Rightarrow> pyval \<Rightarrow> string" where
  "json_text P v = (case json_dumps P v of Some s \<Rightarrow> s | None \<Rightarrow> [])"

section \<open>\<open>parse_tool_arguments\<close>\<close>

definition parse_tool_arguments ::
  "pytext \<Rightarrow> pyval \<Rightarrow> nat \<Rightarrow> pyval dict \<times> string option" where
  "parse_tool_arguments P value raw_limit =
     (if value = PNone \<or> value = PStr [] then ([], None)
      else case value of
        PDict d \<Rightarrow> (d, None)
      | PStr s \<Rightarrow>
          (case json_loads P s of
             Inl err \<Rightarrow> ([], Some (''Invalid JSON in tool arguments: '' @ err @ ''. Raw: '' @
                               take raw_limit s))
           | Inr (PDict d) \<Rightarrow> (d, None)
           | Inr _ \<Rightarrow> ([], Some ''Tool arguments JSON must decode to an object''))
      | _ \<Rightarrow> ([], Some (''Unsupported tool arguments type: '' @ type_name value)))"

lemma parse_tool_arguments_error_empty:
  "snd (parse_tool_arguments P v n) \<noteq> None \<Longrightarrow> fst (parse_tool_arguments P v n) = []"
  by (auto simp: parse_tool_arguments_def split: pyval.splits sum.splits if_splits)

section \<open>Numbers\<close>

fun is_number :: "pyval \<Rightarrow> bool" where
  "is_number (PInt _) = True"
| "is_number (PFloat _) = True"
| "is_number _ = False"

text \<open>The rational value of a number; \<open>a + b\<close> is a float as soon as one side is.\<close>

fun num_of :: "pyval \<Rightarrow> rat" where
  "num_of (PInt i) = of_int i"
| "num_of (PFloat q) = q"
| "num_of _ = 0"

text \<open>A \<open>bool\<close> is an \<open>int\<close> in arithmetic.\<close>

fun as_num :: "pyval \<Rightarrow> pyval option" where
  "as_num (PBool b) = Some (PInt (if b then 1 else 0))"
| "as_num (PInt i) = Some (PInt i)"
| "as_num (PFloat q) = Some (PFloat q)"
| "as_num _ = None"

text \<open>\<open>a + b\<close> where \<open>b\<close> is a number.\<close>

definition py_add :: "pyval \<Rightarrow> pyval \<Rightarrow> exc + pyval" where
  "py_add a b =
     (case (as_num a, as_num b) of
        (Some (PInt i), Some (PInt j)) \<Rightarrow> Inr (PInt (i + j))
      | (Some x, Some y) \<Rightarrow> Inr (PFloat (num_of x + num_of y))
      | _ \<Rightarrow> Inl (TypeErr ''unsupported operand type(s) for +''))"

lemma py_add_number:
  assumes "is_number a" "is_number b"
  shows "\<exists>c. py_add a b = Inr c \<and> is_number c \<and> num_of c = num_of a + num_of b"
  using assms by (cases a; cases b) (auto simp: py_add_def)

end
