(* ===== verification/Core_Types.thy ===== *)
theory Core_Types
  imports Values
begin

text \<open>
  The data types of \<^verbatim>\<open>core/\<close>, \<^verbatim>\<open>tools/base.py\<close> and \<^verbatim>\<open>store/state.py\<close>: messages, tool calls, tool
  results, tools, pending actions, events, jobs, reports and run states, each a record with the
  source's fields.  A user function (the callable of a tool, a hook, a pydantic class) is named by
  a handle; what calling it does is a parameter of the definitions that call it.
\<close>

section \<open>Literals of \<^verbatim>\<open>core/types.py\<close> and \<^verbatim>\<open>core/event_types.py\<close>\<close>

datatype role = System | User | Assistant | ToolRole

datatype action_type = Confirmation | UserInput | Handoff

datatype run_status = Completed | Paused | Failed | Running

datatype workforce_mode = Managed | Collaborate | Swarm

fun role_str :: "role \<Rightarrow> string" where
  "role_str System = ''system''"
| "role_str User = ''user''"
| "role_str Assistant = ''assistant''"
| "role_str ToolRole = ''tool''"

fun action_type_str :: "action_type \<Rightarrow> string" where
  "action_type_str Confirmation = ''confirmation''"
| "action_type_str UserInput = ''user_input''"
| "action_type_str Handoff = ''handoff''"

fun run_status_str :: "run_status \<Rightarrow> string" where
  "run_status_str Completed = ''completed''"
| "run_status_str Paused = ''paused''"
| "run_status_str Failed = ''failed''"
| "run_status_str Running = ''running''"

datatype event_type =
    RunStarted | RunCompleted | RunFailed | RunPaused | RunResumed
  | StepStarted | StepCompleted | StepPaused
  | WorkerStarted | WorkerCompleted | WorkerFailed | WorkerPaused | WorkerContextSummarized
  | WorkforceStarted | WorkforceCompleted
  | ToolStarted | ToolCompleted | ToolFailed | ToolConfirmationRequested | ToolUserInputRequested
  | StreamToken | AssistantMessage
  | LLMStarted | LLMCompleted | LLMFailed

fun event_type_str :: "event_type \<Rightarrow> string" where
  "event_type_str RunStarted = ''run.started''"
| "event_type_str RunCompleted = ''run.completed''"
| "event_type_str RunFailed = ''run.failed''"
| "event_type_str RunPaused = ''run.paused''"
| "event_type_str RunResumed = ''run.resumed''"
| "event_type_str StepStarted = ''step.started''"
| "event_type_str StepCompleted = ''step.completed''"
| "event_type_str StepPaused = ''step.paused''"
| "event_type_str WorkerStarted = ''worker.started''"
| "event_type_str WorkerCompleted = ''worker.completed''"
| "event_type_str WorkerFailed = ''worker.failed''"
| "event_type_str WorkerPaused = ''worker.paused''"
| "event_type_str WorkerContextSummarized = ''worker.context_summarized''"
| "event_type_str WorkforceStarted = ''workforce.started''"
| "event_type_str WorkforceCompleted = ''workforce.completed''"
| "event_type_str ToolStarted = ''tool.started''"
| "event_type_str ToolCompleted = ''tool.completed''"
| "event_type_str ToolFailed = ''tool.failed''"
| "event_type_str ToolConfirmationRequested = ''tool.confirmation_requested''"
| "event_type_str ToolUserInputRequested = ''tool.user_input_requested''"
| "event_type_str StreamToken = ''stream.token''"
| "event_type_str AssistantMessage = ''assistant.message''"
| "event_type_str LLMStarted = ''llm.started''"
| "event_type_str LLMCompleted = ''llm.completed''"
| "event_type_str LLMFailed = ''llm.failed''"

section \<open>Tool calls, tool results and messages\<close>

record tool_call =
  tc_id :: string
  tc_name :: string
  tc_arguments :: "pyval dict"
  tc_result :: pyval
  tc_error :: "string option"

record tool_result =
  tr_content :: "string option"
  tr_data :: pyval
  tr_error :: "string option"
  tr_timed_out :: bool
  tr_cancelled :: bool
  tr_exception_type :: "string option"

definition empty_result :: tool_result where
  "empty_result = \<lparr>tr_content = None, tr_data = PNone, tr_error = None, tr_timed_out = False,
     tr_cancelled = False, tr_exception_type = None\<rparr>"

text \<open>\<open>ToolResult(error=e)\<close>.\<close>

definition error_result :: "string \<Rightarrow> tool_result" where
  "error_result e = empty_result\<lparr>tr_error := Some e\<rparr>"

lemma error_result_simps [simp]:
  "tr_error (error_result e) = Some e" "tr_content (error_result e) = None"
  "tr_data (error_result e) = PNone" "tr_timed_out (error_result e) = False"
  "tr_cancelled (error_result e) = False" "tr_exception_type (error_result e) = None"
  by (simp_all add: error_result_def empty_result_def)

definition opt_str :: "string option \<Rightarrow> pyval" where
  "opt_str s = (case s of None \<Rightarrow> PNone | Some t \<Rightarrow> PStr t)"

text \<open>A tool result as the Python object stored in \<open>ToolCall.result\<close>.\<close>

definition result_value :: "tool_result \<Rightarrow> pyval" where
  "result_value r = PData ''ToolResult''
     [(''content'', opt_str (tr_content r)), (''data'', tr_data r), (''error'', opt_str (tr_error r)),
      (''timed_out'', PBool (tr_timed_out r)), (''cancelled'', PBool (tr_cancelled r)),
      (''exception_type'', opt_str (tr_exception_type r))]"

text \<open>The content of a message: text or a list of content blocks (dictionaries).\<close>

datatype content = CText string | CBlocks "pyval dict list"

record message =
  msg_role :: role
  msg_content :: content
  msg_reasoning :: "string option"
  msg_thinking :: "pyval dict list option"
  msg_tool_calls :: "tool_call list"
  msg_tool_call_id :: "string option"
  msg_metadata :: "pyval dict"

definition mk_message :: "role \<Rightarrow> content \<Rightarrow> message" where
  "mk_message r c = \<lparr>msg_role = r, msg_content = c, msg_reasoning = None, msg_thinking = None,
     msg_tool_calls = [], msg_tool_call_id = None, msg_metadata = []\<rparr>"

lemma mk_message_simps [simp]:
  "msg_role (mk_message r c) = r" "msg_content (mk_message r c) = c"
  "msg_reasoning (mk_message r c) = None" "msg_thinking (mk_message r c) = None"
  "msg_tool_calls (mk_message r c) = []" "msg_tool_call_id (mk_message r c) = None"
  "msg_metadata (mk_message r c) = []"
  by (simp_all add: mk_message_def)

section \<open>Pending actions, events and reports\<close>

record pending_action =
  pa_action_id :: string
  pa_type :: action_type
  pa_tool_call :: tool_call
  pa_prompt :: string
  pa_options :: "string list"
  pa_metadata :: "pyval dict"

record event =
  ev_id :: string
  ev_type :: event_type
  ev_time :: int
  ev_run_id :: string
  ev_source :: string
  ev_payload :: "pyval dict"

record report =
  rep_run_id :: string
  rep_status :: run_status
  rep_pending :: "pending_action option"
  rep_content :: "string option"
  rep_reasoning :: "string option"
  rep_data :: pyval
  rep_messages :: "message list"
  rep_tool_calls :: "tool_call list"
  rep_metrics :: "pyval dict"
  rep_events :: "event list"
  rep_errors :: "string list"

section \<open>Tools\<close>

record tool =
  tl_name :: string
  tl_description :: string
  tl_schema :: "pyval dict"
  tl_callable :: string
  tl_input_model :: string
  tl_requires_confirmation :: bool
  tl_requires_user_input :: bool
  tl_requires_handoff :: bool
  tl_external_execution :: bool
  tl_pre :: "string list"
  tl_post :: "string list"
  tl_confirmation_prompt :: "string option"
  tl_user_input_prompt :: "string option"
  tl_input_key :: "string option"
  tl_timeout :: "rat option"
  tl_retries :: int
  tl_retry_delay :: rat
  tl_output_type :: "string option"

section \<open>Jobs and run states\<close>

text \<open>A \<open>response_schema\<close>: a model class, a \<open>TypeAdapter\<close> of a model class, any other adapter.\<close>

datatype schema =
    ModelSchema string string
  | AdapterSchema string string
  | OtherAdapter string

datatype override_item = OvTool tool | OvName string | OvOther pyval

datatype stream_mode = StreamOff | StreamPreview

record job =
  job_id :: string
  job_input :: pyval
  job_expected_output :: "string option"
  job_tools_override :: "override_item list option"
  job_response_schema :: "schema option"
  job_constraints :: "pyval dict"
  job_metadata :: "pyval dict"
  job_initial_messages :: "message list option"
  job_thinking :: "pyval dict option"
  job_stream_mode :: "stream_mode option"
  job_drop_params :: "bool option"
  job_extra_body :: "pyval dict option"

text \<open>
  \<open>RunState\<close>: what a paused run is stored with.  Its \<open>payload\<close> is a dictionary whose entries
  are plain values or JSON dumps of run states, jobs and reports, kept typed here; a workforce
  state nests the state of its paused worker, so the type is a recursive datatype.  A flow state
  keeps what is left to do of composite steps: paths of steps, loops by path, index and name, and
  outputs.
\<close>

datatype run_state = RunState
    (rs_run_id: string)
    (rs_status: run_status)
    (rs_runner_type: string)
    (rs_runner_name: string)
    (rs_job: job)
    (rs_messages: "message list")
    (rs_tool_calls: "tool_call list")
    (rs_pending: "pending_action option")
    (rs_metrics: "pyval dict")
    (rs_iteration: int)
    (rs_payload: "(string \<times> payload_val) list")
  and payload_val =
    PlVal pyval
  | PlState run_state
  | PlJob job
  | PlReports "report list"
  | PlFlow "stored_continuation list"
  and stored_continuation =
    StoredSequence pyval
  | StoredLoop pyval pyval pyval
  | StoredOutputs "stored_output list"
  | StoredOther pyval
  and stored_output = StoredOutput report "run_state option" "stored_continuation list"

primrec rs_set_job :: "job \<Rightarrow> run_state \<Rightarrow> run_state" where
  "rs_set_job j (RunState i st rt n jb ms tcs p mt it pl) = RunState i st rt n j ms tcs p mt it pl"

primrec rs_set_payload :: "(string \<times> payload_val) list \<Rightarrow> run_state \<Rightarrow> run_state" where
  "rs_set_payload pl' (RunState i st rt n jb ms tcs p mt it pl) =
     RunState i st rt n jb ms tcs p mt it pl'"

lemma rs_set_job_simps [simp]:
  "rs_job (rs_set_job j s) = j" "rs_run_id (rs_set_job j s) = rs_run_id s"
  "rs_status (rs_set_job j s) = rs_status s" "rs_runner_type (rs_set_job j s) = rs_runner_type s"
  "rs_runner_name (rs_set_job j s) = rs_runner_name s" "rs_messages (rs_set_job j s) = rs_messages s"
  "rs_tool_calls (rs_set_job j s) = rs_tool_calls s" "rs_pending (rs_set_job j s) = rs_pending s"
  "rs_metrics (rs_set_job j s) = rs_metrics s" "rs_iteration (rs_set_job j s) = rs_iteration s"
  "rs_payload (rs_set_job j s) = rs_payload s"
  by (cases s; simp)+

lemma rs_set_payload_simps [simp]:
  "rs_payload (rs_set_payload p s) = p" "rs_run_id (rs_set_payload p s) = rs_run_id s"
  "rs_status (rs_set_payload p s) = rs_status s"
  "rs_runner_type (rs_set_payload p s) = rs_runner_type s"
  "rs_runner_name (rs_set_payload p s) = rs_runner_name s" "rs_job (rs_set_payload p s) = rs_job s"
  "rs_messages (rs_set_payload p s) = rs_messages s"
  "rs_tool_calls (rs_set_payload p s) = rs_tool_calls s"
  "rs_pending (rs_set_payload p s) = rs_pending s" "rs_metrics (rs_set_payload p s) = rs_metrics s"
  "rs_iteration (rs_set_payload p s) = rs_iteration s"
  by (cases s; simp)+

section \<open>JSON dumps of jobs\<close>

text \<open>
  The two serializers and the validator of \<^verbatim>\<open>core/job.py\<close>.  \<open>resolve\<close> is \<open>_resolve_ref\<close>'s
  module import and attribute walk, asked whether a module and qualified name lead to a model class.
\<close>

definition schema_ref :: "schema \<Rightarrow> pyval dict option" where
  "schema_ref s =
     (case s of
        ModelSchema m q \<Rightarrow>
          Some [(''kind'', PStr ''model''), (''module'', PStr m), (''qualname'', PStr q)]
      | AdapterSchema m q \<Rightarrow>
          Some [(''kind'', PStr ''adapter_model''), (''module'', PStr m), (''qualname'', PStr q)]
      | OtherAdapter t \<Rightarrow> None)"

text \<open>\<open>str(value)\<close> of a model class is \<open><class 'module.qualname'>\<close>, of another adapter \<open>t\<close>.\<close>

definition serialize_response_schema :: "schema option \<Rightarrow> pyval" where
  "serialize_response_schema v =
     (case v of
        None \<Rightarrow> PNone
      | Some s \<Rightarrow>
          (case schema_ref s of
             Some d \<Rightarrow> PDict d
           | None \<Rightarrow> (case s of OtherAdapter t \<Rightarrow> PStr t | _ \<Rightarrow> PNone)))"

text \<open>\<open>path.rpartition(".")\<close>: the parts before and after the last dot, if there is one.\<close>

definition rpartition_dot :: "string \<Rightarrow> (string \<times> string) option" where
  "rpartition_dot s =
     (let back = takeWhile (\<lambda>c. c \<noteq> CHR ''.'') (rev s) in
      if length back = length s then None
      else Some (take (length s - length back - 1) s, rev back))"

definition class_prefix :: string where
  "class_prefix = ''<class '' @ [char_of (39::nat)]"

definition class_suffix :: string where
  "class_suffix = [char_of (39::nat), CHR ''>'']"

definition parse_schema_string ::
  "(string \<Rightarrow> string \<Rightarrow> bool) \<Rightarrow> string \<Rightarrow> schema option" where
  "parse_schema_string resolve value =
     (if prefix class_prefix value \<and> suffix class_suffix value
      then case rpartition_dot
             (take (length value - 2 - length class_prefix) (drop (length class_prefix) value)) of
             None \<Rightarrow> None
           | Some (m, q) \<Rightarrow>
               if m \<noteq> [] \<and> q \<noteq> [] \<and> resolve m q then Some (ModelSchema m q) else None
      else None)"

definition deserialize_response_schema ::
  "(string \<Rightarrow> string \<Rightarrow> bool) \<Rightarrow> pyval \<Rightarrow> schema option" where
  "deserialize_response_schema resolve value =
     (case value of
        PDict d \<Rightarrow>
          (case (dict_get d ''module'', dict_get d ''qualname'') of
             (Some (PStr m), Some (PStr q)) \<Rightarrow>
               if resolve m q
               then Some (if dict_get d ''kind'' = Some (PStr ''adapter_model'')
                          then AdapterSchema m q else ModelSchema m q)
               else None
           | _ \<Rightarrow> None)
      | PStr s \<Rightarrow> parse_schema_string resolve s
      | _ \<Rightarrow> None)"

text \<open>\<open>[getattr(tool, "name", str(tool)) for tool in value]\<close>.\<close>

definition serialize_override_item :: "pytext \<Rightarrow> override_item \<Rightarrow> string" where
  "serialize_override_item P i =
     (case i of OvTool t \<Rightarrow> tl_name t | OvName s \<Rightarrow> s | OvOther v \<Rightarrow> obj_str P v)"

definition serialize_tools_override ::
  "pytext \<Rightarrow> override_item list option \<Rightarrow> string list option" where
  "serialize_tools_override P v = map_option (map (serialize_override_item P)) v"

text \<open>
  \<open>Job.model_validate(job.model_dump(mode="json"))\<close>: tools become names, the schema goes through
  its reference, the input and the free-form dictionaries become JSON values.
\<close>

definition reload_dict :: "pyval dict \<Rightarrow> pyval dict" where
  "reload_dict d = map (map_prod id to_json_value) d"

definition reload_tool_call :: "tool_call \<Rightarrow> tool_call" where
  "reload_tool_call c =
     c\<lparr>tc_arguments := reload_dict (tc_arguments c), tc_result := to_json_value (tc_result c)\<rparr>"

definition reload_message :: "message \<Rightarrow> message" where
  "reload_message m = m\<lparr>
     msg_tool_calls := map reload_tool_call (msg_tool_calls m),
     msg_metadata := reload_dict (msg_metadata m)\<rparr>"

definition reload_job :: "pytext \<Rightarrow> (string \<Rightarrow> string \<Rightarrow> bool) \<Rightarrow> job \<Rightarrow> job" where
  "reload_job P resolve j = j\<lparr>
     job_input := to_json_value (job_input j),
     job_tools_override :=
       map_option (map OvName) (serialize_tools_override P (job_tools_override j)),
     job_response_schema :=
       deserialize_response_schema resolve (serialize_response_schema (job_response_schema j)),
     job_constraints := reload_dict (job_constraints j),
     job_metadata := reload_dict (job_metadata j),
     job_initial_messages := map_option (map reload_message) (job_initial_messages j)\<rparr>"

lemma reload_message_frame [frame, simp]:
  "msg_role (reload_message m) = msg_role m"
  "msg_content (reload_message m) = msg_content m"
  "msg_tool_call_id (reload_message m) = msg_tool_call_id m"
  "map tc_id (msg_tool_calls (reload_message m)) = map tc_id (msg_tool_calls m)"
  by (simp_all add: reload_message_def reload_tool_call_def comp_def)

lemma reload_job_frame [frame]:
  "job_id (reload_job P r j) = job_id j"
  "job_expected_output (reload_job P r j) = job_expected_output j"
  "job_thinking (reload_job P r j) = job_thinking j"
  "job_stream_mode (reload_job P r j) = job_stream_mode j"
  by (simp_all add: reload_job_def)

lemma schema_roundtrip:
  "(case s of ModelSchema m q \<Rightarrow> resolve m q | AdapterSchema m q \<Rightarrow> resolve m q
     | OtherAdapter t \<Rightarrow> False) \<Longrightarrow>
   deserialize_response_schema resolve (serialize_response_schema (Some s)) = Some s"
  by (auto simp: deserialize_response_schema_def serialize_response_schema_def schema_ref_def
      split: schema.splits)

end
