(* ===== verification/Usage.thy ===== *)
theory Usage
  imports Core_Types
begin

text \<open>
  Token and cost accounting (\<^verbatim>\<open>core/usage.py\<close>, \<^verbatim>\<open>adapters/cost.py\<close>) and the execution limits
  (\<^verbatim>\<open>config.py\<close>).  The price table is litellm's and a parameter: the per-million or per-token
  prices of a model.
\<close>

section \<open>\<^verbatim>\<open>core/usage.py\<close>\<close>

definition USAGE_KEYS :: "string list" where
  "USAGE_KEYS = [''prompt_tokens'', ''completion_tokens'', ''total_tokens'']"

text \<open>The body of the loop over \<open>USAGE_KEYS\<close>: one key.\<close>

definition add_key :: "string \<Rightarrow> pyval dict \<Rightarrow> pyval dict \<Rightarrow> exc + pyval dict" where
  "add_key key target usage =
     (case dict_get usage key of
        Some value \<Rightarrow>
          if is_number value
          then case py_add (dict_get_or target key (PInt 0)) value of
                 Inl e \<Rightarrow> Inl e
               | Inr n \<Rightarrow> Inr (dict_set key n target)
          else Inr target
      | None \<Rightarrow> Inr target)"

fun add_keys :: "string list \<Rightarrow> pyval dict \<Rightarrow> pyval dict \<Rightarrow> exc + pyval dict" where
  "add_keys [] target usage = Inr target"
| "add_keys (k # ks) target usage =
     (case add_key k target usage of
        Inl e \<Rightarrow> Inl e
      | Inr target' \<Rightarrow> add_keys ks target' usage)"

definition add_token_usage :: "pyval dict \<Rightarrow> pyval dict \<Rightarrow> exc + pyval dict" where
  "add_token_usage target usage = add_keys USAGE_KEYS target usage"

text \<open>
  \<open>metrics.setdefault("usage", {})\<close> hands the nested dictionary to \<open>add_token_usage\<close>, which
  updates it in place; the update is written back here.
\<close>

definition record_turn ::
  "pyval dict \<Rightarrow> pyval dict \<Rightarrow> pyval dict \<Rightarrow> rat \<Rightarrow> exc + pyval dict \<times> pyval dict" where
  "record_turn metrics totals usage cost_usd =
     (case py_add (dict_get_or metrics ''cost_usd'' (PFloat 0)) (PFloat cost_usd) of
        Inl e \<Rightarrow> Inl e
      | Inr mc \<Rightarrow>
     (case py_add (dict_get_or totals ''cost_usd'' (PFloat 0)) (PFloat cost_usd) of
        Inl e \<Rightarrow> Inl e
      | Inr tc \<Rightarrow>
        (let metrics1 = dict_set ''cost_usd'' mc metrics;
             totals1 = dict_set ''cost_usd'' tc totals
         in case dict_get_or metrics1 ''usage'' (PDict []) of
              PDict u \<Rightarrow>
                (case add_token_usage u usage of
                   Inl e \<Rightarrow> Inl e
                 | Inr u' \<Rightarrow>
                (case add_token_usage totals1 usage of
                   Inl e \<Rightarrow> Inl e
                 | Inr totals2 \<Rightarrow> Inr (dict_set ''usage'' (PDict u') metrics1, totals2)))
            | _ \<Rightarrow> Inl (Exc ''AttributeError'' ''object has no attribute get''))))"

definition totals_from_metrics :: "pyval dict \<Rightarrow> exc + pyval dict" where
  "totals_from_metrics metrics =
     (let totals =
        (case dict_get metrics ''cost_usd'' of
           Some cost \<Rightarrow> if is_number cost then [(''cost_usd'', cost)] else []
         | None \<Rightarrow> [])
      in case dict_get metrics ''usage'' of
           Some (PDict u) \<Rightarrow> add_token_usage totals u
         | _ \<Rightarrow> Inr totals)"

definition restore_totals :: "pyval dict \<Rightarrow> pyval option \<Rightarrow> pyval dict" where
  "restore_totals totals stored =
     (if totals \<noteq> [] then totals
      else case stored of Some (PDict d) \<Rightarrow> dict_update totals d | _ \<Rightarrow> totals)"

definition run_metrics :: "pyval dict \<Rightarrow> pyval dict" where
  "run_metrics totals =
     (let usage = concat (map (\<lambda>k. case dict_get totals k of None \<Rightarrow> [] | Some v \<Rightarrow> [(k, v)])
                   USAGE_KEYS);
          metrics = [(''cost_usd'', dict_get_or totals ''cost_usd'' (PFloat 0))]
      in if usage \<noteq> [] then metrics @ [(''usage'', PDict usage)] else metrics)"

definition with_run_metrics :: "report \<Rightarrow> pyval dict \<Rightarrow> report" where
  "with_run_metrics rep totals =
     rep\<lparr>rep_metrics := dict_update (rep_metrics rep) (run_metrics totals)\<rparr>"

section \<open>\<^verbatim>\<open>adapters/cost.py\<close>\<close>

text \<open>\<open>int(x)\<close> of a number truncates towards zero.\<close>

fun py_int :: "pyval \<Rightarrow> int" where
  "py_int (PInt i) = i"
| "py_int (PFloat q) = (if 0 \<le> q then \<lfloor>q\<rfloor> else \<lceil>q\<rceil>)"
| "py_int (PBool b) = (if b then 1 else 0)"
| "py_int _ = 0"

definition get_prompt_cost :: "(string \<times> rat) list option \<Rightarrow> int \<Rightarrow> rat option" where
  "get_prompt_cost pricing tokens =
     (case pricing of
        None \<Rightarrow> None
      | Some p \<Rightarrow>
          (case dict_get p ''input_cost_per_million'' of
             Some c \<Rightarrow> Some (c * of_int tokens / 1000000)
           | None \<Rightarrow>
               (case dict_get p ''input_cost_per_token'' of
                  Some c \<Rightarrow> Some (c * of_int tokens)
                | None \<Rightarrow> None)))"

definition get_completion_cost :: "(string \<times> rat) list option \<Rightarrow> int \<Rightarrow> rat option" where
  "get_completion_cost pricing tokens =
     (case pricing of
        None \<Rightarrow> None
      | Some p \<Rightarrow>
          (case dict_get p ''output_cost_per_million'' of
             Some c \<Rightarrow> Some (c * of_int tokens / 1000000)
           | None \<Rightarrow>
               (case dict_get p ''output_cost_per_token'' of
                  Some c \<Rightarrow> Some (c * of_int tokens)
                | None \<Rightarrow> None)))"

text \<open>\<open>isinstance(x, (int, float))\<close>, which a \<open>bool\<close> passes too.\<close>

definition is_int_or_float :: "pyval option \<Rightarrow> bool" where
  "is_int_or_float v =
     (case v of Some (PInt _) \<Rightarrow> True | Some (PFloat _) \<Rightarrow> True | Some (PBool _) \<Rightarrow> True
      | _ \<Rightarrow> False)"

definition usage_cost :: "(string \<times> rat) list option \<Rightarrow> pyval dict \<Rightarrow> rat" where
  "usage_cost pricing usage =
     (let pt = dict_get usage ''prompt_tokens'';
          ct = dict_get usage ''completion_tokens'';
          cost1 = (if is_int_or_float pt
                   then (case get_prompt_cost pricing (py_int (the pt)) of
                           None \<Rightarrow> 0 | Some c \<Rightarrow> c) else 0);
          cost2 = (if is_int_or_float ct
                   then (case get_completion_cost pricing (py_int (the ct)) of
                           None \<Rightarrow> 0 | Some c \<Rightarrow> c) else 0)
      in cost1 + cost2)"

section \<open>\<^verbatim>\<open>config.py\<close>\<close>

text \<open>
  \<open>RunConfig\<close> without its adapter, event list and usage totals: the first is a parameter of the
  run, the last two are mutable and part of the run's state.  The emitter is the closure
  \<open>Desk._make_run_config\<close> builds; all it captures that matters is the run id it stamps on events,
  \<open>cfg_emit_run\<close>.  \<open>with_overrides\<close> copies the event list, so that a configuration it returns
  no longer sees the events appended later: \<open>cfg_events\<close> is that private copy.
\<close>

record run_config =
  cfg_run_id :: string
  cfg_emit_run :: string
  cfg_events :: "event list option"
  cfg_temperature :: "rat option"
  cfg_max_tokens :: "int option"
  cfg_stream :: bool
  cfg_stream_options :: "pyval dict option"
  cfg_structured_retries :: int
  cfg_max_iterations :: int
  cfg_max_tool_calls :: int
  cfg_num_retries :: int
  cfg_respect_context :: bool
  cfg_max_context_messages :: "int option"
  cfg_max_cost_usd :: "rat option"
  cfg_default_model :: "string option"

definition validate_execution_limits :: "run_config \<Rightarrow> exc option" where
  "validate_execution_limits c =
     (if (case cfg_max_tokens c of Some n \<Rightarrow> n < 1 | None \<Rightarrow> False)
      then Some (ValueError ''max_tokens must be >= 1'')
      else if cfg_structured_retries c < 0
      then Some (ValueError ''structured_output_retries must be >= 0'')
      else if cfg_max_iterations c < 1
      then Some (ValueError ''max_iterations must be >= 1'')
      else if cfg_max_tool_calls c < 0
      then Some (ValueError ''max_tool_calls must be >= 0'')
      else if cfg_num_retries c < 0
      then Some (ValueError ''num_retries must be >= 0'')
      else if (case cfg_max_context_messages c of Some n \<Rightarrow> n < 1 | None \<Rightarrow> False)
      then Some (ValueError ''max_context_messages must be >= 1'')
      else if (case cfg_max_cost_usd c of Some q \<Rightarrow> q < 0 | None \<Rightarrow> False)
      then Some (ValueError ''max_cost_usd must be >= 0'')
      else None)"

text \<open>\<open>with_overrides(run_id=...)\<close>; \<open>live\<close> is the shared event list.\<close>

definition with_run_id :: "run_config \<Rightarrow> string \<Rightarrow> event list \<Rightarrow> run_config" where
  "with_run_id c rid live =
     c\<lparr>cfg_run_id := rid,
       cfg_events := Some (case cfg_events c of Some es \<Rightarrow> es | None \<Rightarrow> live)\<rparr>"

text \<open>\<open>worker_model or self.default_model or ""\<close>.\<close>

definition model_name :: "run_config \<Rightarrow> string option \<Rightarrow> string" where
  "model_name c worker_model = or_str worker_model (or_str (cfg_default_model c) [])"

section \<open>Laws\<close>

text \<open>Dictionaries whose usage entries are numbers.\<close>

definition numeric_at :: "string list \<Rightarrow> pyval dict \<Rightarrow> bool" where
  "numeric_at ks d \<longleftrightarrow> (\<forall>k\<in>set ks. \<forall>v. dict_get d k = Some v \<longrightarrow> is_number v)"

text \<open>The count of a key: zero where the key is missing or not a number.\<close>

definition count_at :: "pyval dict \<Rightarrow> string \<Rightarrow> rat" where
  "count_at d k = (case dict_get d k of Some v \<Rightarrow> num_of v | None \<Rightarrow> 0)"

lemma num_of_not_number: "\<not> is_number v \<Longrightarrow> num_of v = 0"
  by (cases v) auto

lemma is_number_cases:
  assumes "is_number v" obtains i where "v = PInt i" | q where "v = PFloat q"
  using assms by (cases v) auto

text \<open>What one key becomes: the sum where the turn reports a number, else the old entry.\<close>

definition key_sum :: "pyval option \<Rightarrow> pyval option \<Rightarrow> pyval option" where
  "key_sum a b =
     (case b of
        Some v \<Rightarrow>
          if is_number v
          then (case py_add (case a of Some x \<Rightarrow> x | None \<Rightarrow> PInt 0) v of
                  Inr n \<Rightarrow> Some n | Inl e \<Rightarrow> a)
          else a
      | None \<Rightarrow> a)"

definition opt_num :: "pyval option \<Rightarrow> rat" where
  "opt_num v = (case v of Some x \<Rightarrow> num_of x | None \<Rightarrow> 0)"

definition opt_numeric :: "pyval option \<Rightarrow> bool" where
  "opt_numeric v = (case v of Some x \<Rightarrow> is_number x | None \<Rightarrow> True)"

lemma key_sum_num:
  assumes "opt_numeric a"
  shows "opt_num (key_sum a b) = opt_num a + opt_num b" "opt_numeric (key_sum a b)"
proof -
  have n: "is_number (case a of Some x \<Rightarrow> x | None \<Rightarrow> PInt 0)"
    using assms by (auto simp: opt_numeric_def split: option.splits)
  have c: "num_of (case a of Some x \<Rightarrow> x | None \<Rightarrow> PInt 0) = opt_num a"
    by (auto simp: opt_num_def split: option.splits)
  have "opt_num (key_sum a b) = opt_num a + opt_num b \<and> opt_numeric (key_sum a b)"
  proof (cases b)
    case None then show ?thesis using assms by (simp add: key_sum_def opt_num_def)
  next
    case (Some v)
    show ?thesis
    proof (cases "is_number v")
      case False
      with Some assms show ?thesis
        using num_of_not_number[OF False] by (simp add: key_sum_def opt_num_def)
    next
      case True
      from py_add_number[OF n True] Some True c show ?thesis
        by (auto simp: key_sum_def opt_num_def opt_numeric_def)
    qed
  qed
  then show "opt_num (key_sum a b) = opt_num a + opt_num b" "opt_numeric (key_sum a b)" by auto
qed

lemma numeric_at_iff: "numeric_at ks d \<longleftrightarrow> (\<forall>k\<in>set ks. opt_numeric (dict_get d k))"
  by (auto simp: numeric_at_def opt_numeric_def split: option.splits)

lemma count_at_opt_num: "count_at d k = opt_num (dict_get d k)"
  by (simp add: count_at_def opt_num_def)

lemma add_key_ok:
  assumes "opt_numeric (dict_get t k)"
  shows "\<exists>t'. add_key k t u = Inr t' \<and> dict_get t' k = key_sum (dict_get t k) (dict_get u k)
     \<and> (\<forall>k'. k' \<noteq> k \<longrightarrow> dict_get t' k' = dict_get t k')"
proof (cases "dict_get u k")
  case None then show ?thesis by (simp add: add_key_def key_sum_def)
next
  case (Some v)
  show ?thesis
  proof (cases "is_number v")
    case False
    with Some show ?thesis by (simp add: add_key_def key_sum_def)
  next
    case True
    have n: "is_number (dict_get_or t k (PInt 0))"
      using assms by (auto simp: dict_get_or_def opt_numeric_def split: option.splits)
    have d: "dict_get_or t k (PInt 0) = (case dict_get t k of Some x \<Rightarrow> x | None \<Rightarrow> PInt 0)"
      by (auto simp: dict_get_or_def split: option.splits)
    from py_add_number[OF n True] obtain s where "py_add (dict_get_or t k (PInt 0)) v = Inr s"
      by blast
    with Some True d show ?thesis by (simp add: add_key_def key_sum_def)
  qed
qed

lemma add_keys_ok:
  assumes "distinct ks" "numeric_at ks t"
  shows "\<exists>t'. add_keys ks t u = Inr t'
     \<and> (\<forall>k\<in>set ks. dict_get t' k = key_sum (dict_get t k) (dict_get u k))
     \<and> (\<forall>k'. k' \<notin> set ks \<longrightarrow> dict_get t' k' = dict_get t k')"
  using assms
proof (induction ks arbitrary: t)
  case Nil then show ?case by (simp add: numeric_at_def)
next
  case (Cons k ks)
  from Cons.prems have "opt_numeric (dict_get t k)" by (simp add: numeric_at_iff)
  from add_key_ok[OF this, of u] obtain t1 where
    t1: "add_key k t u = Inr t1" "dict_get t1 k = key_sum (dict_get t k) (dict_get u k)"
        "\<forall>k'. k' \<noteq> k \<longrightarrow> dict_get t1 k' = dict_get t k'" by blast
  have ne: "k' \<noteq> k" if "k' \<in> set ks" for k' using that Cons.prems(1) by auto
  have n1: "numeric_at ks t1" and d: "distinct ks"
    using Cons.prems t1(3) ne by (auto simp: numeric_at_iff)
  from Cons.IH[OF d n1] obtain t2 where
    t2: "add_keys ks t1 u = Inr t2"
        "\<forall>k\<in>set ks. dict_get t2 k = key_sum (dict_get t1 k) (dict_get u k)"
        "\<forall>k'. k' \<notin> set ks \<longrightarrow> dict_get t2 k' = dict_get t1 k'" by blast
  have "\<forall>k'\<in>set (k # ks). dict_get t2 k' = key_sum (dict_get t k') (dict_get u k')"
    using t2(2,3) t1(2,3) ne Cons.prems(1) by auto
  then show ?case using t1 t2 by auto
qed

lemma distinct_USAGE_KEYS: "distinct USAGE_KEYS"
  by (simp add: USAGE_KEYS_def)

lemmas add_token_usage_ok =
  add_keys_ok[OF distinct_USAGE_KEYS, folded add_token_usage_def]

lemma cost_not_usage_key: "''cost_usd'' \<notin> set USAGE_KEYS" "''usage'' \<notin> set USAGE_KEYS"
  by (simp_all add: USAGE_KEYS_def)

text \<open>
  The metrics of a worker and the totals of the run it belongs to are in step when they agree
  on the cost and on every usage key.  A run starts with both empty, and every metered turn keeps
  them in step, so the totals can be rebuilt from the metrics when a paused run is resumed.
\<close>

definition metrics_usage :: "pyval dict \<Rightarrow> pyval dict" where
  "metrics_usage m = (case dict_get m ''usage'' of Some (PDict u) \<Rightarrow> u | _ \<Rightarrow> [])"

definition metrics_ok :: "pyval dict \<Rightarrow> bool" where
  "metrics_ok m \<longleftrightarrow> opt_numeric (dict_get m ''cost_usd'')
     \<and> (dict_get m ''usage'' = None \<or> dict_get m ''usage'' = Some (PDict (metrics_usage m)))
     \<and> numeric_at USAGE_KEYS (metrics_usage m)"

definition in_step :: "pyval dict \<Rightarrow> pyval dict \<Rightarrow> bool" where
  "in_step m t \<longleftrightarrow> metrics_ok m \<and> dict_get m ''cost_usd'' = dict_get t ''cost_usd''
     \<and> (\<forall>k\<in>set USAGE_KEYS. dict_get (metrics_usage m) k = dict_get t k)"

lemma in_step_start: "in_step [] []"
  by (simp add: in_step_def metrics_ok_def metrics_usage_def numeric_at_iff opt_numeric_def)

lemma metrics_usage_get_or:
  "metrics_ok m \<Longrightarrow> dict_get_or m ''usage'' (PDict []) = PDict (metrics_usage m)"
  by (auto simp: metrics_ok_def dict_get_or_def metrics_usage_def split: option.splits pyval.splits)

lemma cost_add:
  assumes "opt_numeric (dict_get d k)"
  obtains c where "py_add (dict_get_or d k (PFloat 0)) (PFloat q) = Inr c" "is_number c"
    "num_of c = count_at d k + q"
proof -
  have n: "is_number (dict_get_or d k (PFloat 0))" "is_number (PFloat q)"
    using assms by (auto simp: dict_get_or_def opt_numeric_def split: option.splits)
  have "num_of (dict_get_or d k (PFloat 0)) = count_at d k"
    by (auto simp: dict_get_or_def count_at_def split: option.splits)
  with py_add_number[OF n] that show ?thesis by auto
qed

text \<open>The effect of one metered turn on metrics in step with the totals.\<close>

lemma record_turn_in_step:
  assumes "in_step m t"
  shows "\<exists>m' t'. record_turn m t u q = Inr (m', t') \<and> in_step m' t'
     \<and> count_at t' ''cost_usd'' = count_at t ''cost_usd'' + q
     \<and> (\<forall>k\<in>set USAGE_KEYS. count_at t' k = count_at t k + count_at u k)
     \<and> (\<forall>k. k \<noteq> ''cost_usd'' \<and> k \<notin> set USAGE_KEYS \<longrightarrow> dict_get t' k = dict_get t k)"
proof -
  from assms have ok: "metrics_ok m" and c: "dict_get m ''cost_usd'' = dict_get t ''cost_usd''"
    and us: "\<And>k. k \<in> set USAGE_KEYS \<Longrightarrow> dict_get (metrics_usage m) k = dict_get t k"
    by (auto simp: in_step_def)
  let ?u = "metrics_usage m"
  have onc: "opt_numeric (dict_get m ''cost_usd'')" using ok by (simp add: metrics_ok_def)
  from cost_add[OF onc, where q = q] obtain n where
    n: "py_add (dict_get_or m ''cost_usd'' (PFloat 0)) (PFloat q) = Inr n" "is_number n"
       "num_of n = count_at m ''cost_usd'' + q" by blast
  have n': "py_add (dict_get_or t ''cost_usd'' (PFloat 0)) (PFloat q) = Inr n"
    using n(1) c by (simp add: dict_get_or_def)
  have nu: "numeric_at USAGE_KEYS ?u" using ok by (simp add: metrics_ok_def)
  from add_token_usage_ok[OF nu, of u] obtain u' where
    u': "add_token_usage ?u u = Inr u'"
        "\<forall>k\<in>set USAGE_KEYS. dict_get u' k = key_sum (dict_get ?u k) (dict_get u k)" by blast
  let ?t1 = "dict_set ''cost_usd'' n t"
  have t1: "dict_get ?t1 k = dict_get t k" if "k \<in> set USAGE_KEYS" for k
    using that cost_not_usage_key by auto
  have nt: "numeric_at USAGE_KEYS ?t1" using nu us t1 by (auto simp: numeric_at_iff)
  from add_token_usage_ok[OF nt, of u] obtain t' where
    t': "add_token_usage ?t1 u = Inr t'"
        "\<forall>k\<in>set USAGE_KEYS. dict_get t' k = key_sum (dict_get ?t1 k) (dict_get u k)"
        "\<forall>k. k \<notin> set USAGE_KEYS \<longrightarrow> dict_get t' k = dict_get ?t1 k" by blast
  let ?m' = "dict_set ''usage'' (PDict u') (dict_set ''cost_usd'' n m)"
  have mu: "metrics_usage ?m' = u'" by (simp add: metrics_usage_def)
  have go: "dict_get_or (dict_set ''cost_usd'' n m) ''usage'' (PDict []) = PDict ?u"
    using metrics_usage_get_or[OF ok] by simp
  have r: "record_turn m t u q = Inr (?m', t')"
    unfolding record_turn_def by (simp add: n(1) n' u'(1) t'(1) metrics_usage_get_or[OF ok])
  have on: "opt_numeric (dict_get t k)" if "k \<in> set USAGE_KEYS" for k
    using nt t1 that by (auto simp: numeric_at_iff)
  have eq: "dict_get u' k = dict_get t' k" if "k \<in> set USAGE_KEYS" for k
    using u'(2) t'(2) us t1 that by auto
  have on': "opt_numeric (dict_get t' k)" if "k \<in> set USAGE_KEYS" for k
    using t'(2) t1 that key_sum_num(2)[OF on[OF that]] by simp
  have cost': "dict_get t' ''cost_usd'' = Some n" using t'(3) cost_not_usage_key by simp
  have st: "in_step ?m' t'"
    unfolding in_step_def metrics_ok_def mu
    using n(2) cost' eq on' by (auto simp: opt_numeric_def[of "Some n"] numeric_at_iff)
  have cnt: "count_at t' k = count_at t k + count_at u k" if "k \<in> set USAGE_KEYS" for k
    using t'(2) t1 that key_sum_num(1)[OF on[OF that], of "dict_get u k"]
    by (simp add: count_at_opt_num)
  have cc: "count_at t' ''cost_usd'' = count_at t ''cost_usd'' + q"
    using cost' n(3) c by (simp add: count_at_def)
  have fr: "dict_get t' k = dict_get t k" if "k \<noteq> ''cost_usd''" "k \<notin> set USAGE_KEYS" for k
    using t'(3) that by auto
  show ?thesis using r st cnt cc fr by blast
qed

lemma key_sum_zero: "opt_numeric v \<Longrightarrow> key_sum None v = v"
  by (cases v) (auto simp: key_sum_def opt_numeric_def py_add_def elim!: is_number_cases)

text \<open>Totals rebuilt from metrics in step with them are the same totals.\<close>

lemma totals_from_metrics_in_step:
  assumes "in_step m t"
  shows "\<exists>t'. totals_from_metrics m = Inr t'
     \<and> (\<forall>k. k = ''cost_usd'' \<or> k \<in> set USAGE_KEYS \<longrightarrow> dict_get t' k = dict_get t k)"
proof -
  from assms have ok: "metrics_ok m" and c: "dict_get m ''cost_usd'' = dict_get t ''cost_usd''"
    and us: "\<And>k. k \<in> set USAGE_KEYS \<Longrightarrow> dict_get (metrics_usage m) k = dict_get t k"
    by (auto simp: in_step_def)
  let ?t0 = "case dict_get m ''cost_usd'' of
      Some cost \<Rightarrow> if is_number cost then [(''cost_usd'', cost)] else [] | None \<Rightarrow> []"
  have c0: "dict_get ?t0 ''cost_usd'' = dict_get t ''cost_usd''"
    using ok c by (auto simp: metrics_ok_def opt_numeric_def split: option.splits)
  have k0: "dict_get ?t0 k = None" if "k \<in> set USAGE_KEYS" for k
    using that cost_not_usage_key by (auto split: option.splits)
  show ?thesis
  proof (cases "dict_get m ''usage''")
    case None
    then have "metrics_usage m = []" by (simp add: metrics_usage_def)
    then have "\<forall>k\<in>set USAGE_KEYS. dict_get t k = None" using us by simp
    with None c0 k0 show ?thesis by (auto simp: totals_from_metrics_def Let_def)
  next
    case (Some v)
    with ok have v: "v = PDict (metrics_usage m)" by (simp add: metrics_ok_def)
    have "numeric_at USAGE_KEYS ?t0" using k0 by (simp add: numeric_at_iff opt_numeric_def)
    from add_token_usage_ok[OF this, of "metrics_usage m"] obtain t' where
      t': "add_token_usage ?t0 (metrics_usage m) = Inr t'"
        "\<forall>k\<in>set USAGE_KEYS. dict_get t' k = key_sum (dict_get ?t0 k) (dict_get (metrics_usage m) k)"
        "\<forall>k. k \<notin> set USAGE_KEYS \<longrightarrow> dict_get t' k = dict_get ?t0 k" by blast
    have "dict_get t' k = dict_get t k" if "k \<in> set USAGE_KEYS" for k
    proof -
      have "opt_numeric (dict_get (metrics_usage m) k)"
        using ok that by (simp add: metrics_ok_def numeric_at_iff)
      then show ?thesis using t'(2) that k0 us by (auto simp: key_sum_zero)
    qed
    with t' c0 cost_not_usage_key Some v show ?thesis
      by (auto simp: totals_from_metrics_def Let_def)
  qed
qed

end
