(* ===== verification/Tools.thy ===== *)
theory Tools
  imports Usage
begin

text \<open>
  Tools: construction (\<^verbatim>\<open>tools/base.py\<close>), the toolbelt (\<^verbatim>\<open>tools/registry.py\<close>), the handoff tool
  (\<^verbatim>\<open>tools/handoff.py\<close>) and the prompts and options of interactive tools (\<^verbatim>\<open>worker_tools.py\<close>).
\<close>

section \<open>\<open>Tool.__post_init__\<close>\<close>

definition tool_check :: "tool \<Rightarrow> exc option" where
  "tool_check t =
     (if str_strip (tl_name t) = [] then Some (ValueError ''Tool name must not be empty'')
      else if of_bool (tl_requires_confirmation t) + of_bool (tl_requires_user_input t)
              + of_bool (tl_requires_handoff t) > (1 :: nat)
      then Some (ValueError ''A tool can require only one interactive action'')
      else if (case tl_timeout t of Some q \<Rightarrow> q \<le> 0 | None \<Rightarrow> False)
      then Some (ValueError ''Tool timeout must be greater than zero'')
      else if tl_retries t < 0 then Some (ValueError ''Tool retries must be non-negative'')
      else if tl_retry_delay t < 0 then Some (ValueError ''Tool retry_delay must be non-negative'')
      else None)"

abbreviation tool_ok :: "tool \<Rightarrow> bool" where
  "tool_ok t \<equiv> tool_check t = None"

lemma tool_ok_retries: "tool_ok t \<Longrightarrow> 0 \<le> tl_retries t"
  by (simp add: tool_check_def split: if_splits)

section \<open>The toolbelt\<close>

type_synonym toolbelt = "(string \<times> tool) list"

definition toolbelt_add :: "tool \<Rightarrow> toolbelt \<Rightarrow> exc + toolbelt" where
  "toolbelt_add t b =
     (if dict_has b (tl_name t)
      then Inl (ValueError (''Tool name already registered: '' @ tl_name t))
      else Inr (dict_set (tl_name t) t b))"

fun toolbelt_add_all :: "tool list \<Rightarrow> toolbelt \<Rightarrow> exc + toolbelt" where
  "toolbelt_add_all [] b = Inr b"
| "toolbelt_add_all (t # ts) b =
     (case toolbelt_add t b of Inl e \<Rightarrow> Inl e | Inr b' \<Rightarrow> toolbelt_add_all ts b')"

definition toolbelt_init :: "tool list option \<Rightarrow> exc + toolbelt" where
  "toolbelt_init ts = (case ts of None \<Rightarrow> Inr [] | Some xs \<Rightarrow> toolbelt_add_all xs [])"

definition toolbelt_resolve :: "toolbelt \<Rightarrow> string \<Rightarrow> tool option" where
  "toolbelt_resolve b n = dict_get b n"

definition toolbelt_list :: "toolbelt \<Rightarrow> tool list" where
  "toolbelt_list b = map snd b"

text \<open>Every tool sits under its own name, once.\<close>

definition wf_toolbelt :: "toolbelt \<Rightarrow> bool" where
  "wf_toolbelt b \<longleftrightarrow> distinct (map fst b) \<and> (\<forall>(n, t)\<in>set b. n = tl_name t)"

lemma wf_toolbelt_empty [simp]: "wf_toolbelt []"
  by (simp add: wf_toolbelt_def)

lemma toolbelt_add_Inr:
  "toolbelt_add t b = Inr b' \<longleftrightarrow> dict_get b (tl_name t) = None \<and> b' = b @ [(tl_name t, t)]"
  by (auto simp: toolbelt_add_def dict_set_fresh)

lemma toolbelt_add_wf [keeps]:
  "wf_toolbelt b \<Longrightarrow> toolbelt_add t b = Inr b' \<Longrightarrow> wf_toolbelt b'"
  by (auto simp: toolbelt_add_Inr wf_toolbelt_def map_of_eq_None_iff)

lemma toolbelt_add_all_spec:
  assumes "wf_toolbelt b" "toolbelt_add_all ts b = Inr b'"
  shows "wf_toolbelt b' \<and> toolbelt_list b' = toolbelt_list b @ ts"
  using assms
proof (induction ts arbitrary: b)
  case Nil then show ?case by simp
next
  case (Cons t ts)
  then obtain b1 where b1: "toolbelt_add t b = Inr b1" "toolbelt_add_all ts b1 = Inr b'"
    by (auto split: sum.splits)
  with Cons.IH[OF toolbelt_add_wf[OF Cons.prems(1) b1(1)] b1(2)] show ?case
    by (auto simp: toolbelt_add_Inr toolbelt_list_def)
qed

lemma toolbelt_add_all_fail:
  "toolbelt_add_all ts b = Inl e \<Longrightarrow>
   \<exists>t\<in>set ts. e = ValueError (''Tool name already registered: '' @ tl_name t)"
  by (induction ts arbitrary: b) (auto simp: toolbelt_add_def split: sum.splits if_splits)

lemma toolbelt_resolve_wf:
  assumes wf: "wf_toolbelt b"
  shows "toolbelt_resolve b n = Some t \<longleftrightarrow> t \<in> set (toolbelt_list b) \<and> tl_name t = n"
proof -
  have "toolbelt_resolve b n = Some t \<longleftrightarrow> (n, t) \<in> set b"
    using wf by (simp add: wf_toolbelt_def toolbelt_resolve_def)
  also have "\<dots> \<longleftrightarrow> t \<in> set (toolbelt_list b) \<and> tl_name t = n"
    using wf by (force simp: wf_toolbelt_def toolbelt_list_def)
  finally show ?thesis .
qed

lemma toolbelt_resolve_name: "wf_toolbelt b \<Longrightarrow> toolbelt_resolve b n = Some t \<Longrightarrow> tl_name t = n"
  by (simp add: toolbelt_resolve_wf)

section \<open>Interactive tools\<close>

definition tool_action_type :: "tool \<Rightarrow> action_type option" where
  "tool_action_type t =
     (if tl_requires_handoff t then Some Handoff
      else if tl_requires_confirmation t then Some Confirmation
      else if tl_requires_user_input t then Some UserInput
      else None)"

text \<open>\<open>isinstance(v, str) and v.strip()\<close> of an argument.\<close>

definition nonblank_str :: "pyval option \<Rightarrow> string option" where
  "nonblank_str v = (case v of Some (PStr s) \<Rightarrow> if str_strip s = [] then None else Some s | _ \<Rightarrow> None)"

text \<open>\<open>{value}\<close> in an f-string: a string prints as itself.\<close>

definition fstr :: "pytext \<Rightarrow> pyval \<Rightarrow> string" where
  "fstr P v = (case v of PStr s \<Rightarrow> s | _ \<Rightarrow> obj_str P v)"

definition tool_prompt :: "pytext \<Rightarrow> tool \<Rightarrow> action_type \<Rightarrow> tool_call \<Rightarrow> string" where
  "tool_prompt P t a c =
     (case a of
        Handoff \<Rightarrow>
          ''Handoff requested to agent: '' @
            fstr P (dict_get_or (tc_arguments c) ''agent_name'' (PStr ''unknown''))
      | UserInput \<Rightarrow>
          (case nonblank_str (dict_get (tc_arguments c) ''question'') of
             Some q \<Rightarrow> q
           | None \<Rightarrow> or_str (tl_user_input_prompt t)
                      (or_str (Some (tl_description t)) (''Provide input for '' @ tl_name t)))
      | Confirmation \<Rightarrow>
          (let base = or_str (tl_confirmation_prompt t)
                        (or_str (Some (tl_description t)) (''Confirm '' @ tl_name t))
           in case nonblank_str (dict_get (tc_arguments c) ''path'') of
                Some p \<Rightarrow> base @ '' ('' @ p @ '')''
              | None \<Rightarrow> base))"

definition pending_options :: "action_type \<Rightarrow> string list" where
  "pending_options a = (if a = Confirmation then [''yes'', ''no''] else [])"

definition resume_argument_key :: "pending_action \<Rightarrow> string" where
  "resume_argument_key p =
     (case dict_get (pa_metadata p) ''input_key'' of Some (PStr s) \<Rightarrow> s | _ \<Rightarrow> ''user_input'')"

definition update_arguments :: "tool_call \<Rightarrow> string \<Rightarrow> pyval \<Rightarrow> tool_call" where
  "update_arguments c key value = c\<lparr>tc_arguments := dict_set key value (tc_arguments c)\<rparr>"

lemma update_arguments_frame [frame, simp]:
  "tc_id (update_arguments c k v) = tc_id c" "tc_name (update_arguments c k v) = tc_name c"
  by (simp_all add: update_arguments_def)

section \<open>The handoff tool\<close>

text \<open>
  \<open>transfer_to_agent_tool(available_agents)\<close>: \<open>base\<close> is pydantic's schema of the input model; the
  list of agents is written into it as the \<open>enum\<close> of \<open>agent_name\<close>.
\<close>

definition handoff_schema :: "pyval dict \<Rightarrow> string list \<Rightarrow> pyval dict" where
  "handoff_schema base agents =
     (case dict_get base ''properties'' of
        Some (PDict props) \<Rightarrow>
          (case dict_get props ''agent_name'' of
             Some (PDict ans) \<Rightarrow>
               dict_set ''properties''
                 (PDict (dict_set ''agent_name''
                    (PDict (dict_set ''enum'' (PList (map PStr agents)) ans)) props)) base
           | _ \<Rightarrow> base)
      | _ \<Rightarrow> base)"

definition transfer :: "string list \<Rightarrow> string \<Rightarrow> string \<Rightarrow> tool_result" where
  "transfer agents agent_name context =
     (if agent_name \<notin> set agents
      then error_result (''Agent '' @ [char_of (39::nat)] @ agent_name @ [char_of (39::nat)] @
             '' is not available. Available agents: '' @ str_join '', '' agents)
      else empty_result\<lparr>
             tr_content := Some (''Transferred control to '' @ agent_name @ ''.''),
             tr_data := PDict [(''__handoff__'', PStr agent_name), (''context'', PStr context)]\<rparr>)"

definition transfer_to_agent_tool :: "pyval dict \<Rightarrow> string list \<Rightarrow> tool" where
  "transfer_to_agent_tool base agents =
     \<lparr>tl_name = ''transfer_to_agent'', tl_description = ''Transfer control to another agent.'',
      tl_schema = handoff_schema base agents, tl_callable = ''transfer'',
      tl_input_model = ''TransferToAgentInput'', tl_requires_confirmation = False,
      tl_requires_user_input = False, tl_requires_handoff = True, tl_external_execution = False,
      tl_pre = [], tl_post = [], tl_confirmation_prompt = None, tl_user_input_prompt = None,
      tl_input_key = None, tl_timeout = None, tl_retries = 0, tl_retry_delay = 1,
      tl_output_type = None\<rparr>"

lemma transfer_tool_ok: "tool_ok (transfer_to_agent_tool base agents)"
  by (simp add: transfer_to_agent_tool_def tool_check_def str_strip_def is_space_def)

lemma transfer_tool_action: "tool_action_type (transfer_to_agent_tool base agents) = Some Handoff"
  by (simp add: transfer_to_agent_tool_def tool_action_type_def)

lemma tool_ok_one_action:
  "tool_ok t \<Longrightarrow>
   (tool_action_type t = Some Handoff \<longleftrightarrow> tl_requires_handoff t) \<and>
   (tool_action_type t = Some Confirmation \<longleftrightarrow> tl_requires_confirmation t) \<and>
   (tool_action_type t = Some UserInput \<longleftrightarrow> tl_requires_user_input t)"
  by (auto simp: tool_check_def tool_action_type_def split: if_splits)

end
