(* ===== verification/Effects.thy ===== *)
theory Effects
  imports Prelude
begin

text \<open>
  Stateful code that may raise.  A statement of the source is a function from a state to a result
  and the state it leaves behind: \<open>Inl e\<close> when it raised \<open>e\<close>, \<open>Inr a\<close> when it returned \<open>a\<close>.
  As in Python the state reached before the exception is kept.  \<open>ebind\<close> is sequencing, \<open>try_with\<close>
  is \<open>try/except Exception\<close>, \<open>each\<close> a \<open>for\<close> loop.  \<open>wp m Q E s\<close> says that \<open>m\<close> run in
  \<open>s\<close> establishes \<open>Q\<close> on return and \<open>E\<close> on an exception; its equations are the collection
  \<open>wp_simps\<close>.
\<close>

named_theorems wp_simps "weakest preconditions of the effect combinators"

type_synonym ('s, 'a) eff = "'s \<Rightarrow> (exc + 'a) \<times> 's"

definition ret :: "'a \<Rightarrow> ('s, 'a) eff" where
  "ret a s = (Inr a, s)"

definition raise :: "exc \<Rightarrow> ('s, 'a) eff" where
  "raise e s = (Inl e, s)"

definition ebind :: "('s, 'a) eff \<Rightarrow> ('a \<Rightarrow> ('s, 'b) eff) \<Rightarrow> ('s, 'b) eff" where
  "ebind m f s = (case m s of (Inl e, s') \<Rightarrow> (Inl e, s') | (Inr a, s') \<Rightarrow> f a s')"

definition eseq :: "('s, 'a) eff \<Rightarrow> ('s, 'b) eff \<Rightarrow> ('s, 'b) eff" where
  "eseq m k = ebind m (\<lambda>_. k)"

definition try_with :: "('s, 'a) eff \<Rightarrow> (exc \<Rightarrow> ('s, 'a) eff) \<Rightarrow> ('s, 'a) eff" where
  "try_with m h s = (case m s of (Inl e, s') \<Rightarrow> h e s' | (Inr a, s') \<Rightarrow> (Inr a, s'))"

text \<open>The outcome of a statement as a value: \<open>Inl\<close> the exception it raised.\<close>

definition attempt :: "('s, 'a) eff \<Rightarrow> ('s, exc + 'a) eff" where
  "attempt m s = (case m s of (r, s') \<Rightarrow> (Inr r, s'))"

definition from_sum :: "exc + 'a \<Rightarrow> ('s, 'a) eff" where
  "from_sum r s = (r, s)"

definition gets :: "('s \<Rightarrow> 'a) \<Rightarrow> ('s, 'a) eff" where
  "gets f s = (Inr (f s), s)"

definition modify :: "('s \<Rightarrow> 's) \<Rightarrow> ('s, unit) eff" where
  "modify f s = (Inr (), f s)"

primrec each :: "('a \<Rightarrow> ('s, unit) eff) \<Rightarrow> 'a list \<Rightarrow> ('s, unit) eff" where
  "each f [] = ret ()"
| "each f (x # xs) = eseq (f x) (each f xs)"

primrec collect :: "('a \<Rightarrow> ('s, 'b) eff) \<Rightarrow> 'a list \<Rightarrow> ('s, 'b list) eff" where
  "collect f [] = ret []"
| "collect f (x # xs) = ebind (f x) (\<lambda>y. ebind (collect f xs) (\<lambda>ys. ret (y # ys)))"

definition wp ::
  "('s, 'a) eff \<Rightarrow> ('a \<Rightarrow> 's \<Rightarrow> bool) \<Rightarrow> (exc \<Rightarrow> 's \<Rightarrow> bool) \<Rightarrow> 's \<Rightarrow> bool" where
  "wp m Q E s = (case m s of (Inl e, s') \<Rightarrow> E e s' | (Inr a, s') \<Rightarrow> Q a s')"

abbreviation anything :: "exc \<Rightarrow> 's \<Rightarrow> bool" where
  "anything \<equiv> \<lambda>_ _. True"

section \<open>Laws\<close>

lemma ebind_ret [simp]: "ebind (ret a) f = f a" "ebind m ret = m"
  by (auto simp: fun_eq_iff ebind_def ret_def split: prod.splits sum.splits)

lemma ebind_raise [simp]: "ebind (raise e) f = raise e"
  by (simp add: fun_eq_iff ebind_def raise_def)

lemma ebind_assoc: "ebind (ebind m f) g = ebind m (\<lambda>a. ebind (f a) g)"
  by (auto simp: fun_eq_iff ebind_def split: prod.splits sum.splits)

lemma try_with_ret [simp]: "try_with (ret a) h = ret a"
  by (simp add: fun_eq_iff try_with_def ret_def)

lemma try_with_raise [simp]: "try_with (raise e) h = h e"
  by (simp add: fun_eq_iff try_with_def raise_def)

lemma wp_ret [wp_simps, simp]: "wp (ret a) Q E = Q a"
  by (simp add: wp_def ret_def fun_eq_iff)

lemma wp_raise [wp_simps, simp]: "wp (raise e) Q E = E e"
  by (simp add: wp_def raise_def fun_eq_iff)

lemma wp_ebind [wp_simps, simp]: "wp (ebind m f) Q E = wp m (\<lambda>a. wp (f a) Q E) E"
  by (auto simp: wp_def ebind_def fun_eq_iff split: prod.splits sum.splits)

lemma wp_eseq [wp_simps, simp]: "wp (eseq m k) Q E = wp m (\<lambda>_. wp k Q E) E"
  by (simp add: eseq_def)

lemma wp_try_with [wp_simps, simp]: "wp (try_with m h) Q E = wp m Q (\<lambda>e. wp (h e) Q E)"
  by (auto simp: wp_def try_with_def fun_eq_iff split: prod.splits sum.splits)

lemma wp_attempt [wp_simps, simp]:
  "wp (attempt m) Q E = wp m (\<lambda>a. Q (Inr a)) (\<lambda>e. Q (Inl e))"
  by (auto simp: wp_def attempt_def fun_eq_iff split: prod.splits sum.splits)

lemma wp_from_sum [wp_simps, simp]:
  "wp (from_sum r) Q E = (\<lambda>s. case r of Inl e \<Rightarrow> E e s | Inr a \<Rightarrow> Q a s)"
  by (auto simp: wp_def from_sum_def fun_eq_iff split: sum.splits)

lemma wp_gets [wp_simps, simp]: "wp (gets f) Q E = (\<lambda>s. Q (f s) s)"
  by (simp add: wp_def gets_def fun_eq_iff)

lemma wp_modify [wp_simps, simp]: "wp (modify f) Q E = (\<lambda>s. Q () (f s))"
  by (simp add: wp_def modify_def fun_eq_iff)

lemma wp_mono:
  "wp m Q E s \<Longrightarrow> (\<And>a s'. Q a s' \<Longrightarrow> Q' a s') \<Longrightarrow> (\<And>e s'. E e s' \<Longrightarrow> E' e s') \<Longrightarrow>
   wp m Q' E' s"
  by (auto simp: wp_def split: prod.splits sum.splits)

lemma wp_conj:
  "wp m Q E s \<Longrightarrow> wp m Q' E' s \<Longrightarrow>
   wp m (\<lambda>a s. Q a s \<and> Q' a s) (\<lambda>e s. E e s \<and> E' e s) s"
  by (auto simp: wp_def split: prod.splits sum.splits)

lemma wp_true [simp]: "wp m (\<lambda>_ _. True) (\<lambda>_ _. True) s"
  by (auto simp: wp_def split: prod.splits sum.splits)

lemma wpD:
  "wp m Q E s \<Longrightarrow> m s = (Inr a, s') \<Longrightarrow> Q a s'"
  "wp m Q E s \<Longrightarrow> m s = (Inl e, s') \<Longrightarrow> E e s'"
  by (auto simp: wp_def)

lemma wp_same_run: "m s = m' s' \<Longrightarrow> wp m' Q E s' \<Longrightarrow> wp m Q E s"
  by (simp add: wp_def)

lemma wpI:
  "(\<And>a s'. m s = (Inr a, s') \<Longrightarrow> Q a s') \<Longrightarrow> (\<And>e s'. m s = (Inl e, s') \<Longrightarrow> E e s') \<Longrightarrow> wp m Q E s"
  by (auto simp: wp_def split: prod.splits sum.splits)

text \<open>A loop keeps an invariant that each of its rounds keeps.\<close>

lemma wp_each:
  assumes "\<And>x s. x \<in> set xs \<Longrightarrow> I s \<Longrightarrow> wp (f x) (\<lambda>_. I) (\<lambda>_. I) s" "I s"
  shows "wp (each f xs) (\<lambda>_. I) (\<lambda>_. I) s"
  using assms
proof (induction xs arbitrary: s)
  case (Cons x xs)
  have "wp (f x) (\<lambda>_. I) (\<lambda>_. I) s" using Cons.prems by simp
  then show ?case
    by (simp, elim wp_mono) (use Cons in \<open>auto\<close>)
qed simp

lemma wp_collect:
  assumes "\<And>x s. x \<in> set xs \<Longrightarrow> I s \<Longrightarrow> wp (f x) (\<lambda>_. I) (\<lambda>_. I) s" "I s"
  shows "wp (collect f xs) (\<lambda>ys s. I s \<and> length ys = length xs) (\<lambda>_. I) s"
  using assms
proof (induction xs arbitrary: s)
  case (Cons x xs)
  have "wp (f x) (\<lambda>_. I) (\<lambda>_. I) s" using Cons.prems by simp
  then show ?case
    by (simp, elim wp_mono) (use Cons in \<open>auto\<close>)
qed simp

end
