(* ===== verification/Tool_Execution.thy ===== *)
theory Tool_Execution
  imports Tools Effects
begin

text \<open>
  \<^verbatim>\<open>tools/execution.py\<close>: one call of a tool with hooks, argument validation, time limit, output
  validation and the retry loop with exponential back-off, blocking and asynchronous.

  What user code and the event loop do is the record \<open>tool_ext\<close>: \<open>x_invoke\<close> calls the tool's
  function and waits for it, \<open>x_hook\<close> runs a hook, \<open>x_input\<close> is
  \<open>input_model.model_validate(args).model_dump()\<close>, \<open>x_isinstance\<close>/\<open>x_output\<close> the test and the
  validation against \<open>output_type\<close>.  A wait that ends before the function is done is
  \<open>Unfinished c e\<close>: \<open>c\<close> says whether the cancel event is what ended it, \<open>e\<close> is the exception
  other than \<open>CancelledError\<close> the cancelled function raised when it was awaited.
  Hooks do not change the call they are shown (\<open>ToolCall\<close> is frozen); cancellation of the
  awaiting task itself is not modelled.
\<close>

datatype invocation =
    Returned pyval
  | ReturnedResult tool_result
  | Raised exc
  | Unfinished bool "exc option"

record 'w tool_ext =
  x_text :: pytext
  x_invoke :: "string \<Rightarrow> pyval dict \<Rightarrow> rat option \<Rightarrow> bool \<Rightarrow> 'w \<Rightarrow> invocation \<times> 'w"
  x_hook :: "string \<Rightarrow> tool_call \<Rightarrow> tool_result option \<Rightarrow> ('w, unit) eff"
  x_input :: "string \<Rightarrow> pyval dict \<Rightarrow> exc + pyval dict"
  x_isinstance :: "string \<Rightarrow> pyval \<Rightarrow> bool"
  x_output :: "string \<Rightarrow> pyval \<Rightarrow> exc + pyval"
  x_sleep :: "rat \<Rightarrow> 'w \<Rightarrow> 'w"
  x_cancelled :: "'w \<Rightarrow> bool"
  x_wait_cancel :: "rat \<Rightarrow> 'w \<Rightarrow> bool \<times> 'w"
  x_progress :: "string \<Rightarrow> ('w, unit) eff"

section \<open>Errors\<close>

definition quoted :: "string \<Rightarrow> string" where
  "quoted s = char_of (39::nat) # s @ [char_of (39::nat)]"

definition ToolExecutionError :: "string \<Rightarrow> string \<Rightarrow> exc" where
  "ToolExecutionError n m = Exc ''ToolExecutionError'' (''Tool '' @ quoted n @ '' failed: '' @ m)"

definition ToolValidationError :: "string \<Rightarrow> string \<Rightarrow> exc" where
  "ToolValidationError n m =
     Exc ''ToolValidationError'' (''Tool '' @ quoted n @ '' validation failed: '' @ m)"

definition ToolTimeoutError :: "pytext \<Rightarrow> string \<Rightarrow> rat \<Rightarrow> exc" where
  "ToolTimeoutError P n seconds =
     Exc ''ToolTimeoutError''
       (''Tool '' @ quoted n @ '' timed out after '' @ float_repr P seconds @ ''s'')"

definition is_tool_error :: "exc \<Rightarrow> bool" where
  "is_tool_error e \<longleftrightarrow>
     exc_class e \<in> {''ToolExecutionError'', ''ToolTimeoutError'', ''ToolValidationError''}"

text \<open>\<open>ToolResult(error=str(e), exception_type=type(e).__name__)\<close>.\<close>

definition exc_result :: "exc \<Rightarrow> tool_result" where
  "exc_result e = (error_result (exc_msg e))\<lparr>tr_exception_type := Some (exc_class e)\<rparr>"

definition execution_error_result :: "tool \<Rightarrow> exc \<Rightarrow> tool_result" where
  "execution_error_result t e =
     (if is_tool_error e then exc_result e
      else exc_result (ToolExecutionError (tl_name t) (exc_msg e)))"

definition post_hook_error_result :: "tool \<Rightarrow> tool_result \<Rightarrow> exc \<Rightarrow> tool_result" where
  "post_hook_error_result t result e =
     (let hook_result = execution_error_result t e;
          hook_error = (case tr_error hook_result of Some m \<Rightarrow> m | None \<Rightarrow> ''None'')
      in result\<lparr>
           tr_error :=
             (case tr_error result of
                Some m \<Rightarrow> Some (m @ ''. Post-hook error: '' @ hook_error)
              | None \<Rightarrow> tr_error hook_result),
           tr_exception_type :=
             (if truthy (tr_exception_type result) then tr_exception_type result
              else tr_exception_type hook_result)\<rparr>)"

section \<open>Values\<close>

definition to_content :: "pytext \<Rightarrow> pyval \<Rightarrow> string" where
  "to_content P v =
     (case v of
        PNone \<Rightarrow> []
      | PStr s \<Rightarrow> s
      | PModel c d \<Rightarrow> model_json P v
      | _ \<Rightarrow> (case json_dumps P v of Some s \<Rightarrow> s | None \<Rightarrow> obj_str P v))"

definition validate_output ::
  "('w, 'x) tool_ext_scheme \<Rightarrow> pyval \<Rightarrow> string option \<Rightarrow> pyval \<times> string option" where
  "validate_output X result output_type =
     (case output_type of
        None \<Rightarrow> (result, None)
      | Some cls \<Rightarrow>
          if x_isinstance X cls result then (result, None)
          else case x_output X cls result of
                 Inr validated \<Rightarrow> (validated, None)
               | Inl e \<Rightarrow> (result, Some (''Output validation failed: '' @ exc_msg e)))"

definition validate_tool_call ::
  "('w, 'x) tool_ext_scheme \<Rightarrow> tool_call \<Rightarrow> tool \<Rightarrow> exc + pyval dict" where
  "validate_tool_call X call t = x_input X (tl_input_model t) (tc_arguments call)"

definition backoff_delay :: "rat \<Rightarrow> nat \<Rightarrow> rat" where
  "backoff_delay retry_delay k = retry_delay * 2 ^ k"

text \<open>What a finished call makes of its return value.\<close>

definition returned_result ::
  "('w, 'x) tool_ext_scheme \<Rightarrow> tool \<Rightarrow> pyval \<Rightarrow> tool_result" where
  "returned_result X t v =
     (let (validated, problem) = validate_output X v (tl_output_type t)
      in if truthy problem
         then exc_result (ToolValidationError (tl_name t) (or_str problem []))
         else empty_result\<lparr>tr_content := Some (to_content (x_text X) validated),
                           tr_data := validated\<rparr>)"

definition timeout_result :: "('w, 'x) tool_ext_scheme \<Rightarrow> tool \<Rightarrow> rat \<Rightarrow> tool_result" where
  "timeout_result X t seconds =
     (exc_result (ToolTimeoutError (x_text X) (tl_name t) seconds))\<lparr>tr_timed_out := True\<rparr>"

definition cancelled_result :: "string \<Rightarrow> tool_result" where
  "cancelled_result m = (error_result m)\<lparr>tr_cancelled := True\<rparr>"

section \<open>One attempt\<close>

definition execute_sync_once ::
  "('w, 'x) tool_ext_scheme \<Rightarrow> tool \<Rightarrow> pyval dict \<Rightarrow> rat option \<Rightarrow> 'w \<Rightarrow> tool_result \<times> 'w" where
  "execute_sync_once X t args timeout w =
     (case x_invoke X (tl_callable t) args timeout False w of
        (Returned v, w') \<Rightarrow> (returned_result X t v, w')
      | (ReturnedResult r, w') \<Rightarrow> (r, w')
      | (Raised e, w') \<Rightarrow> (execution_error_result t e, w')
      | (Unfinished c e, w') \<Rightarrow>
          (timeout_result X t (case timeout of Some q \<Rightarrow> q | None \<Rightarrow> 0), w'))"

definition execute_once ::
  "('w, 'x) tool_ext_scheme \<Rightarrow> tool \<Rightarrow> pyval dict \<Rightarrow> rat option \<Rightarrow> bool \<Rightarrow> 'w \<Rightarrow> tool_result \<times> 'w" where
  "execute_once X t args timeout cancel_event w =
     (if cancel_event \<and> x_cancelled X w
      then (cancelled_result ''Cancelled before execution'', w)
      else case x_invoke X (tl_callable t) args timeout cancel_event w of
        (Returned v, w') \<Rightarrow> (returned_result X t v, w')
      | (ReturnedResult r, w') \<Rightarrow> (r, w')
      | (Raised e, w') \<Rightarrow> (execution_error_result t e, w')
      | (Unfinished by_event e, w') \<Rightarrow>
          (case e of
             Some x \<Rightarrow> (execution_error_result t x, w')
           | None \<Rightarrow>
               if cancel_event \<and> by_event
               then (cancelled_result ''Tool execution cancelled'', w')
               else (timeout_result X t (case timeout of Some q \<Rightarrow> q | None \<Rightarrow> 0), w')))"

section \<open>The retry loops\<close>

text \<open>
  \<open>left\<close> rounds of \<open>for attempt in range(retries + 1)\<close> remain, the next is number \<open>k\<close>.
\<close>

primrec sync_retries ::
  "('w, 'x) tool_ext_scheme \<Rightarrow> tool \<Rightarrow> pyval dict \<Rightarrow> nat \<Rightarrow> nat \<Rightarrow> tool_result option \<Rightarrow>
   'w \<Rightarrow> tool_result option \<times> 'w" where
  "sync_retries X t args 0 k prev w = (prev, w)"
| "sync_retries X t args (Suc left) k prev w =
     (let (r, w1) = execute_sync_once X t args (tl_timeout t) w
      in if tr_error r = None then (Some r, w1)
         else if tr_cancelled r then (Some r, w1)
         else sync_retries X t args left (k + 1) (Some r)
                (if int k < tl_retries t
                 then x_sleep X (backoff_delay (tl_retry_delay t) k) w1 else w1))"

definition no_result :: "tool_result option \<Rightarrow> tool_result" where
  "no_result r = (case r of Some x \<Rightarrow> x | None \<Rightarrow> error_result ''No execution result'')"

definition execute_sync_with_retries ::
  "('w, 'x) tool_ext_scheme \<Rightarrow> tool \<Rightarrow> pyval dict \<Rightarrow> 'w \<Rightarrow> tool_result \<times> 'w" where
  "execute_sync_with_retries X t args w =
     (case sync_retries X t args (nat (tl_retries t + 1)) 0 None w of
        (r, w') \<Rightarrow> (no_result r, w'))"

text \<open>\<open>on_progress\<close> is called without a handler, so its exception leaves \<open>aexecute_tool\<close>.\<close>

definition report_progress ::
  "('w, 'x) tool_ext_scheme \<Rightarrow> bool \<Rightarrow> string \<Rightarrow> ('w, unit) eff" where
  "report_progress X on_progress m = (if on_progress then x_progress X m else ret ())"

text \<open>The wait between attempts; \<open>True\<close> when the cancel event was set during it.\<close>

definition retry_wait ::
  "('w, 'x) tool_ext_scheme \<Rightarrow> bool \<Rightarrow> rat \<Rightarrow> ('w, bool) eff" where
  "retry_wait X cancel_event delay w =
     (if cancel_event then (case x_wait_cancel X delay w of (b, w') \<Rightarrow> (Inr b, w'))
      else (Inr False, x_sleep X delay w))"

primrec async_retries ::
  "('w, 'x) tool_ext_scheme \<Rightarrow> tool \<Rightarrow> pyval dict \<Rightarrow> bool \<Rightarrow> bool \<Rightarrow> nat \<Rightarrow> nat \<Rightarrow>
   tool_result option \<Rightarrow> ('w, tool_result option) eff" where
  "async_retries X t args ce op 0 k prev = ret prev"
| "async_retries X t args ce op (Suc left) k prev =
     ebind (gets (x_cancelled X)) (\<lambda>cancelled.
     if ce \<and> cancelled then ret (Some (cancelled_result ''Cancelled''))
     else eseq (if k > 0
                then report_progress X op
                       (''Retry attempt '' @ nat_digits k @ ''/'' @ int_str (tl_retries t))
                else ret ())
    (ebind (\<lambda>w. apfst Inr (execute_once X t args (tl_timeout t) ce w)) (\<lambda>r.
     if tr_error r = None then ret (Some r)
     else if tr_cancelled r then ret (Some r)
     else if int k < tl_retries t then
       (let delay = backoff_delay (tl_retry_delay t) k
        in eseq (report_progress X op
                   (''Waiting '' @ fmt_f1 (x_text X) delay @ ''s before retry''))
          (ebind (retry_wait X ce delay) (\<lambda>woken.
           if woken then ret (Some (cancelled_result ''Cancelled during retry wait''))
           else async_retries X t args ce op left (k + 1) (Some r))))
     else async_retries X t args ce op left (k + 1) (Some r))))"

section \<open>A tool call\<close>

definition run_pre_hooks :: "('w, 'x) tool_ext_scheme \<Rightarrow> tool \<Rightarrow> tool_call \<Rightarrow> ('w, unit) eff" where
  "run_pre_hooks X t call = each (\<lambda>h. x_hook X h call None) (tl_pre t)"

definition run_post_hooks ::
  "('w, 'x) tool_ext_scheme \<Rightarrow> tool \<Rightarrow> tool_call \<Rightarrow> tool_result \<Rightarrow> ('w, unit) eff" where
  "run_post_hooks X t call r = each (\<lambda>h. x_hook X h call (Some r)) (tl_post t)"

text \<open>\<open>try: post hooks; except: merge the hook's error into the result\<close>.\<close>

definition finish_with_post_hooks ::
  "('w, 'x) tool_ext_scheme \<Rightarrow> tool \<Rightarrow> tool_call \<Rightarrow> tool_result \<Rightarrow> 'w \<Rightarrow> tool_result \<times> 'w" where
  "finish_with_post_hooks X t call r w =
     (case run_post_hooks X t call r w of
        (Inr _, w') \<Rightarrow> (r, w')
      | (Inl e, w') \<Rightarrow> (post_hook_error_result t r e, w'))"

definition invalid_arguments :: "tool \<Rightarrow> exc \<Rightarrow> tool_result" where
  "invalid_arguments t e = exc_result (ToolValidationError (tl_name t) (exc_msg e))"

definition execute_tool ::
  "('w, 'x) tool_ext_scheme \<Rightarrow> tool \<Rightarrow> tool_call \<Rightarrow> 'w \<Rightarrow> tool_result \<times> 'w" where
  "execute_tool X t call w =
     (case run_pre_hooks X t call w of
        (Inl e, w1) \<Rightarrow> (execution_error_result t e, w1)
      | (Inr _, w1) \<Rightarrow>
          (case validate_tool_call X call t of
             Inl e \<Rightarrow> finish_with_post_hooks X t call (invalid_arguments t e) w1
           | Inr args \<Rightarrow>
               (case execute_sync_with_retries X t args w1 of
                  (r, w2) \<Rightarrow> finish_with_post_hooks X t call r w2)))"

definition aexecute_tool ::
  "('w, 'x) tool_ext_scheme \<Rightarrow> tool \<Rightarrow> tool_call \<Rightarrow> bool \<Rightarrow> bool \<Rightarrow> ('w, tool_result) eff" where
  "aexecute_tool X t call cancel_event on_progress w =
     (case run_pre_hooks X t call w of
        (Inl e, w1) \<Rightarrow> (Inr (execution_error_result t e), w1)
      | (Inr _, w1) \<Rightarrow>
          (case validate_tool_call X call t of
             Inl e \<Rightarrow> apfst Inr (finish_with_post_hooks X t call (invalid_arguments t e) w1)
           | Inr args \<Rightarrow>
               (case async_retries X t args cancel_event on_progress
                       (nat (tl_retries t + 1)) 0 None w1 of
                  (Inl e, w2) \<Rightarrow> (Inl e, w2)
                | (Inr r, w2) \<Rightarrow>
                    apfst Inr (finish_with_post_hooks X t call (no_result r) w2))))"

section \<open>Laws\<close>

definition decisive :: "tool_result \<Rightarrow> bool" where
  "decisive r \<longleftrightarrow> tr_error r = None \<or> tr_cancelled r"

text \<open>The world in which attempt \<open>k\<close> starts, when every earlier one failed.\<close>

primrec world_before ::
  "('w, 'x) tool_ext_scheme \<Rightarrow> tool \<Rightarrow> pyval dict \<Rightarrow> 'w \<Rightarrow> nat \<Rightarrow> 'w" where
  "world_before X t args w 0 = w"
| "world_before X t args w (Suc k) =
     x_sleep X (backoff_delay (tl_retry_delay t) k)
       (snd (execute_sync_once X t args (tl_timeout t) (world_before X t args w k)))"

abbreviation attempt_at ::
  "('w, 'x) tool_ext_scheme \<Rightarrow> tool \<Rightarrow> pyval dict \<Rightarrow> 'w \<Rightarrow> nat \<Rightarrow> tool_result \<times> 'w" where
  "attempt_at X t args w k \<equiv>
     execute_sync_once X t args (tl_timeout t) (world_before X t args w k)"

lemma sync_retries_spec:
  assumes "int (k + left) = tl_retries t"
  shows "\<exists>j\<le>k + left. k \<le> j \<and> (j = k + left \<or> decisive (fst (attempt_at X t args w j)))
     \<and> (\<forall>i. k \<le> i \<and> i < j \<longrightarrow> \<not> decisive (fst (attempt_at X t args w i)))
     \<and> sync_retries X t args (Suc left) k prev (world_before X t args w k)
       = apfst Some (attempt_at X t args w j)"
  using assms
proof (induction left arbitrary: k prev)
  case 0
  then show ?case
    by (intro exI[of _ k]) (auto simp: Let_def split: prod.splits)
next
  case (Suc left)
  obtain r w1 where a: "attempt_at X t args w k = (r, w1)" by fastforce
  show ?case
  proof (cases "decisive r")
    case True
    then show ?thesis using a by (intro exI[of _ k]) (auto simp: decisive_def)
  next
    case False
    have lt: "int k < tl_retries t" using Suc.prems by simp
    from False a lt have
      step: "sync_retries X t args (Suc (Suc left)) k prev (world_before X t args w k)
        = sync_retries X t args (Suc left) (Suc k) (Some r) (world_before X t args w (Suc k))"
      by (subst sync_retries.simps(2)) (auto simp: decisive_def simp del: sync_retries.simps)
    have "int (Suc k + left) = tl_retries t" using Suc.prems by simp
    from Suc.IH[OF this, of "Some r"] obtain j where
      j: "j \<le> Suc k + left" "Suc k \<le> j"
        "j = Suc k + left \<or> decisive (fst (attempt_at X t args w j))"
        "\<forall>i. Suc k \<le> i \<and> i < j \<longrightarrow> \<not> decisive (fst (attempt_at X t args w i))"
        "sync_retries X t args (Suc left) (Suc k) (Some r) (world_before X t args w (Suc k))
          = apfst Some (attempt_at X t args w j)" by blast
    have "\<not> decisive (fst (attempt_at X t args w i))" if "k \<le> i" "i < j" for i
      using that j(4) a False by (cases "i = k") auto
    with j step show ?thesis by (intro exI[of _ j]) auto
  qed
qed

text \<open>Without cancel event and progress callback the asynchronous loop is the blocking one.\<close>

definition quiet_cancel :: "('w, 'x) tool_ext_scheme \<Rightarrow> bool" where
  "quiet_cancel X \<longleftrightarrow>
     (\<forall>f a q b w c e. fst (x_invoke X f a q b w) = Unfinished c e \<longrightarrow> e = None)"

lemma execute_once_sync:
  assumes "quiet_cancel X"
  shows "execute_once X t args timeout False w = execute_sync_once X t args timeout w"
proof -
  obtain i w' where i: "x_invoke X (tl_callable t) args timeout False w = (i, w')" by fastforce
  then have "e = None" if "i = Unfinished c e" for c e
    using assms that unfolding quiet_cancel_def by (metis fst_conv)
  with i show ?thesis
    by (auto simp: execute_once_def execute_sync_once_def split: invocation.splits)
qed

lemma async_retries_sync:
  assumes "quiet_cancel X"
  shows "async_retries X t args False False left k prev w = apfst Inr (sync_retries X t args left k prev w)"
proof (induction left arbitrary: k prev w)
  case 0 then show ?case by (simp add: ret_def)
next
  case (Suc left)
  then show ?case
    using execute_once_sync[OF assms, of t args "tl_timeout t" w]
    by (auto simp: eseq_def ebind_def gets_def ret_def report_progress_def retry_wait_def Let_def
        split: prod.splits)
qed

lemma post_hook_error_result_frame [frame]:
  "tr_content (post_hook_error_result t r e) = tr_content r"
  "tr_data (post_hook_error_result t r e) = tr_data r"
  "tr_timed_out (post_hook_error_result t r e) = tr_timed_out r"
  "tr_cancelled (post_hook_error_result t r e) = tr_cancelled r"
  by (simp_all add: post_hook_error_result_def Let_def)

lemma execution_error_result_error: "tr_error (execution_error_result t e) \<noteq> None"
  by (simp add: execution_error_result_def exc_result_def)

lemma post_hook_error_result_error: "tr_error (post_hook_error_result t r e) \<noteq> None"
  using execution_error_result_error[of t e]
  by (auto simp: post_hook_error_result_def Let_def split: option.splits)

lemma finish_with_post_hooks_cases:
  obtains w' where "run_post_hooks X t call r w = (Inr (), w')"
      "finish_with_post_hooks X t call r w = (r, w')"
  | e w' where "run_post_hooks X t call r w = (Inl e, w')"
      "finish_with_post_hooks X t call r w = (post_hook_error_result t r e, w')"
proof -
  obtain x w' where x: "run_post_hooks X t call r w = (x, w')" by fastforce
  then show thesis using that by (cases x) (auto simp: finish_with_post_hooks_def)
qed

lemma async_retries_cancelled:
  "x_cancelled X w \<Longrightarrow> left > 0 \<Longrightarrow>
   async_retries X t args True op left k prev w = (Inr (Some (cancelled_result ''Cancelled'')), w)"
  by (cases left) (simp_all add: ebind_def gets_def ret_def)

end
