(* ===== verification/Runtime.thy ===== *)
theory Runtime
  imports Tool_Execution
begin

text \<open>
  What a run works on and what it calls outside the framework.  The state of a run \<open>rt\<close> is its
  event list, the usage totals its configuration shares between workers, and the world behind
  every external call.  \<open>run_ext\<close> adds to the tools' externals the model adapter of
  \<^verbatim>\<open>adapters/base.py\<close>, litellm's token counter and price tables, identifiers and clock
  (\<^verbatim>\<open>utils.py\<close>) and the delivery of an event to the event bus and the run store.
  \<open>emit\<close> is \<open>Desk.emit\<close> as \<open>Desk._make_run_config\<close> closes it over a run.
\<close>

section \<open>\<^verbatim>\<open>adapters/base.py\<close>\<close>

text \<open>A usage object of a provider is duck-typed by its \<open>get\<close> method: it is given as a dictionary.\<close>

record model_response =
  mr_content :: "string option"
  mr_reasoning :: "string option"
  mr_thinking :: "pyval dict list option"
  mr_tool_calls :: "tool_call list"
  mr_usage :: pyval

text \<open>What \<open>complete\<close>/\<open>acomplete\<close> return: a response, a stream of chunks that may break off with
  an exception, or anything else.\<close>

datatype completion =
    CResponse model_response
  | CStream "pyval list" "exc option"
  | COther pyval

datatype structured =
    SResponse pyval pyval
  | SOther pyval

record request =
  rq_model :: string
  rq_messages :: "pyval list"
  rq_tools :: "pyval list option"
  rq_tool_choice :: "string option"
  rq_temperature :: "rat option"
  rq_max_tokens :: "int option"
  rq_stream :: bool
  rq_stream_options :: "pyval dict option"
  rq_thinking :: "pyval dict option"
  rq_drop_params :: "bool option"
  rq_extra_body :: "pyval dict option"
  rq_num_retries :: "int option"
  rq_schema :: "schema option"

record structured_request =
  sq_model :: string
  sq_messages :: "pyval list"
  sq_schema :: schema
  sq_retries :: int
  sq_options :: "pyval dict"

text \<open>Events an adapter reports through its callbacks while it serves a call.\<close>

type_synonym callback = "event_type \<times> string \<times> pyval dict"

record 'w run_ext = "'w tool_ext" +
  x_new_id :: "'w \<Rightarrow> string \<times> 'w"
  x_now :: "'w \<Rightarrow> int \<times> 'w"
  x_deliver :: "event \<Rightarrow> ('w, unit) eff"
  x_acomplete :: "request \<Rightarrow> 'w \<Rightarrow> ((exc + completion) \<times> callback list) \<times> 'w"
  x_complete :: "request \<Rightarrow> 'w \<Rightarrow> ((exc + completion) \<times> callback list) \<times> 'w"
  x_astructured :: "structured_request \<Rightarrow> 'w \<Rightarrow> ((exc + structured) \<times> callback list) \<times> 'w"
  x_structured :: "structured_request \<Rightarrow> 'w \<Rightarrow> ((exc + structured) \<times> callback list) \<times> 'w"
  x_accepts :: "string \<Rightarrow> string \<Rightarrow> bool"
  x_has_callbacks :: bool
  x_token_counter :: "string \<Rightarrow> string \<Rightarrow> int option"
  x_model_cost :: "string \<Rightarrow> bool"
  x_pricing :: "string \<Rightarrow> (string \<times> rat) list option"
  x_validate_json :: "schema \<Rightarrow> string \<Rightarrow> exc + pyval"
  x_rank :: "'w \<Rightarrow> nat \<Rightarrow> nat"

section \<open>The state of a run\<close>

record 'w rt =
  rt_events :: "event list"
  rt_totals :: "pyval dict"
  rt_world :: 'w

definition on_world :: "('w, 'a) eff \<Rightarrow> (('w, 'z) rt_scheme, 'a) eff" where
  "on_world m s = (case m (rt_world s) of (r, w) \<Rightarrow> (r, s\<lparr>rt_world := w\<rparr>))"

text \<open>A call of the world that cannot raise.\<close>

definition ask :: "('w \<Rightarrow> 'a \<times> 'w) \<Rightarrow> (('w, 'z) rt_scheme, 'a) eff" where
  "ask f = on_world (\<lambda>w. apfst Inr (f w))"

definition emit ::
  "('w, 'x) run_ext_scheme \<Rightarrow> string \<Rightarrow> event_type \<Rightarrow> string \<Rightarrow> pyval dict \<Rightarrow>
   (('w, 'z) rt_scheme, unit) eff" where
  "emit X rid ty src payload =
     ebind (ask (x_new_id X)) (\<lambda>i.
     ebind (ask (x_now X)) (\<lambda>now.
     let e = \<lparr>ev_id = i, ev_type = ty, ev_time = now, ev_run_id = rid, ev_source = src,
              ev_payload = payload\<rparr>
     in eseq (modify (\<lambda>s. s\<lparr>rt_events := rt_events s @ [e]\<rparr>))
       (on_world (x_deliver X e))))"

text \<open>The event list a report of this configuration is built from.\<close>

definition config_events :: "run_config \<Rightarrow> ('w, 'z) rt_scheme \<Rightarrow> event list" where
  "config_events c s = (case cfg_events c of Some es \<Rightarrow> es | None \<Rightarrow> rt_events s)"

section \<open>Calls of the adapter\<close>

text \<open>
  \<open>set_callback_context(run_id, emit)\<close> before and \<open>clear_callback_context()\<close> after a call: what
  the adapter reports in between is emitted in the run, provided it has the two methods.
\<close>

definition adapter_call ::
  "('w, 'x) run_ext_scheme \<Rightarrow> run_config \<Rightarrow> ('w \<Rightarrow> ((exc + 'a) \<times> callback list) \<times> 'w) \<Rightarrow>
   (('w, 'z) rt_scheme, 'a) eff" where
  "adapter_call X c f =
     ebind (ask f) (\<lambda>rc.
     eseq (if x_has_callbacks X
           then each (\<lambda>(ty, src, payload). emit X (cfg_emit_run c) ty src payload) (snd rc)
           else ret ())
       (from_sum (fst rc)))"

text \<open>\<open>asyncio.gather\<close>: the tasks run in an order the scheduler picks, the results come back in
  the order of the arguments.\<close>

definition schedule :: "('w, 'x) run_ext_scheme \<Rightarrow> 'w \<Rightarrow> nat \<Rightarrow> nat list" where
  "schedule X w n = sort_key (x_rank X w) [0..<n]"

primrec run_tasks :: "(nat \<Rightarrow> ('s, 'a) eff) \<Rightarrow> nat list \<Rightarrow> ('s, (nat \<times> 'a) list) eff" where
  "run_tasks f [] = ret []"
| "run_tasks f (i # is) =
     ebind (f i) (\<lambda>r. ebind (run_tasks f is) (\<lambda>rs. ret ((i, r) # rs)))"

definition gather ::
  "('w, 'x) run_ext_scheme \<Rightarrow> (('w, 'z) rt_scheme, 'a) eff list \<Rightarrow> (('w, 'z) rt_scheme, 'a list) eff"
where
  "gather X tasks =
     ebind (gets rt_world) (\<lambda>w.
     ebind (run_tasks (\<lambda>i. tasks ! i) (schedule X w (length tasks))) (\<lambda>rs.
     ret (map (\<lambda>i. the (map_of rs i)) [0..<length tasks])))"

section \<open>\<^verbatim>\<open>core/usage.py\<close> on the run's totals\<close>

definition record_usage ::
  "('w, 'x) run_ext_scheme \<Rightarrow> string \<Rightarrow> pyval \<Rightarrow> pyval dict \<Rightarrow> pyval dict \<Rightarrow>
   exc + pyval dict \<times> pyval dict" where
  "record_usage X model usage metrics totals =
     (if \<not> py_bool usage then Inr (metrics, totals)
      else case usage of
        PDict u \<Rightarrow> record_turn metrics totals u (usage_cost (x_pricing X model) u)
      | _ \<Rightarrow> Inl (Exc ''AttributeError'' ''object has no attribute get''))"

section \<open>Laws\<close>

lemma wp_on_world [wp_simps, simp]:
  "wp (on_world m) Q E =
   (\<lambda>s. wp m (\<lambda>a w. Q a (s\<lparr>rt_world := w\<rparr>)) (\<lambda>e w. E e (s\<lparr>rt_world := w\<rparr>)) (rt_world s))"
  by (auto simp: wp_def on_world_def fun_eq_iff split: prod.splits sum.splits)

lemma wp_ask [wp_simps, simp]:
  "wp (ask f) Q E =
   (\<lambda>s. case f (rt_world s) of (a, w) \<Rightarrow> Q a (s\<lparr>rt_world := w\<rparr>))"
  by (auto simp: ask_def wp_def fun_eq_iff split: prod.splits)

text \<open>
  Emitting touches the events and the world only: every field an extended state keeps beside
  them, and the totals, stay.
\<close>

lemma wp_emit:
  assumes "\<And>e w. Q () (s\<lparr>rt_events := rt_events s @ [e], rt_world := w\<rparr>)"
    and "\<And>x e w. E x (s\<lparr>rt_events := rt_events s @ [e], rt_world := w\<rparr>)"
  shows "wp (emit X rid ty src payload) Q E s"
  using assms by (auto simp: emit_def Let_def split: prod.splits intro!: wpI)

lemma schedule_perm: "distinct (schedule X w n)" "set (schedule X w n) = {..<n}"
  by (auto simp: schedule_def)

text \<open>Results come back in call order, whatever the schedule.\<close>

lemma run_tasks_keys:
  "run_tasks f is s = (Inr rs, s') \<Longrightarrow> map fst rs = is"
  by (induction "is" arbitrary: s rs) (auto simp: ret_def ebind_def split: prod.splits sum.splits)

lemma gather_length: "gather X ts s = (Inr rs, s') \<Longrightarrow> length rs = length ts"
  by (auto simp: gather_def ebind_def gets_def ret_def split: prod.splits sum.splits)

end
