(* ===== verification/Worker_Messages.thy ===== *)
theory Worker_Messages
  imports Runtime
begin

text \<open>
  \<^verbatim>\<open>worker_messages.py\<close>: rendering of inputs, messages and tool schemas into the adapter's
  payload, the system message of a job, fields of stream chunks, tool messages and the update of
  the list of tool calls; \<^verbatim>\<open>worker_runner_helpers.py\<close>'s reports, states and event payloads.
\<close>

section \<open>Rendering\<close>

definition known_type_fields :: "(string \<times> string list) list" where
  "known_type_fields =
     [(''text'', [''text'']), (''image_url'', [''image_url'']), (''video_url'', [''video_url'']),
      (''file'', [''file'']), (''audio_url'', [''audio_url'']), (''input_text'', [''text'']),
      (''input_image'', [''image_url'', ''file_id'']), (''input_audio'', [''input_audio''])]"

definition is_content_block :: "pyval \<Rightarrow> bool" where
  "is_content_block item =
     (case item of
        PDict d \<Rightarrow>
          (case dict_get d ''type'' of
             Some (PStr ty) \<Rightarrow>
               (case dict_get known_type_fields ty of
                  Some names \<Rightarrow> list_ex (\<lambda>f. dict_has d f) names
                | None \<Rightarrow> False)
           | _ \<Rightarrow> False)
      | _ \<Rightarrow> False)"

definition is_multimodal_content_blocks :: "pyval \<Rightarrow> bool" where
  "is_multimodal_content_blocks v =
     (case v of PList items \<Rightarrow> items \<noteq> [] \<and> list_all is_content_block items | _ \<Rightarrow> False)"

definition dict_of :: "pyval \<Rightarrow> pyval dict" where
  "dict_of v = (case v of PDict d \<Rightarrow> d | _ \<Rightarrow> [])"

definition render_input :: "pytext \<Rightarrow> pyval \<Rightarrow> content" where
  "render_input P v =
     (case v of
        PStr s \<Rightarrow> CText s
      | _ \<Rightarrow>
          (case (is_multimodal_content_blocks v, to_json_value v) of
             (True, PList items) \<Rightarrow> CBlocks (map dict_of items)
           | (_, j) \<Rightarrow> CText (json_text P j)))"

definition tool_call_payload :: "pytext \<Rightarrow> tool_call \<Rightarrow> pyval" where
  "tool_call_payload P c =
     PDict [(''id'', PStr (tc_id c)), (''type'', PStr ''function''),
            (''function'',
              PDict [(''name'', PStr (tc_name c)),
                     (''arguments'',
                       PStr (json_text P (to_json_value (PDict (tc_arguments c)))))])]"

definition content_value :: "content \<Rightarrow> pyval" where
  "content_value c = (case c of CText s \<Rightarrow> PStr s | CBlocks bs \<Rightarrow> PList (map PDict bs))"

definition message_payload :: "pytext \<Rightarrow> message \<Rightarrow> pyval" where
  "message_payload P m =
     PDict ([(''role'', PStr (role_str (msg_role m))), (''content'', content_value (msg_content m))] @
       (if msg_role m = Assistant
        then (case msg_reasoning m of Some r \<Rightarrow> [(''reasoning_content'', PStr r)] | None \<Rightarrow> []) @
             (case msg_thinking m of
                Some bs \<Rightarrow> [(''thinking_blocks'', PList (map PDict bs))] | None \<Rightarrow> []) @
             (if msg_tool_calls m \<noteq> []
              then [(''tool_calls'', PList (map (tool_call_payload P) (msg_tool_calls m)))] else [])
        else []) @
       (if msg_role m = ToolRole \<and> truthy (msg_tool_call_id m)
        then [(''tool_call_id'', PStr (or_str (msg_tool_call_id m) []))] else []))"

definition messages_to_payload :: "pytext \<Rightarrow> message list \<Rightarrow> pyval list" where
  "messages_to_payload P ms = map (message_payload P) ms"

definition tool_schemas :: "tool list \<Rightarrow> pyval list" where
  "tool_schemas ts =
     map (\<lambda>t. PDict [(''type'', PStr ''function''),
                (''function'',
                  PDict [(''name'', PStr (tl_name t)), (''description'', PStr (tl_description t)),
                         (''parameters'', PDict (tl_schema t))])]) ts"

definition nl :: string where
  "nl = [char_of (10::nat)]"

definition system_message :: "pytext \<Rightarrow> string option \<Rightarrow> job \<Rightarrow> string option" where
  "system_message P instructions j =
     (let parts =
        (if truthy instructions then [or_str instructions []] else []) @
        (if truthy (job_expected_output j)
         then [''Expected output: '' @ or_str (job_expected_output j) []] else []) @
        (if job_constraints j \<noteq> []
         then [''Constraints: '' @ json_text P (to_json_value (PDict (job_constraints j)))] else [])
      in if parts = [] then None else Some (str_join (nl @ nl) parts))"

section \<open>Fields of stream chunks\<close>

text \<open>\<open>getattr(v, key, None)\<close>, on dataclass and model instances.\<close>

definition get_attr :: "pyval \<Rightarrow> string \<Rightarrow> pyval" where
  "get_attr v key =
     (case v of
        PData c fs \<Rightarrow> dict_get_or fs key PNone
      | PModel c (PDict d) \<Rightarrow> dict_get_or d key PNone
      | _ \<Rightarrow> PNone)"

definition no_get :: exc where
  "no_get = Exc ''AttributeError'' ''object has no attribute get''"

text \<open>\<open>choices[0]\<close> of a value that is true.\<close>

definition first_choice :: "pyval \<Rightarrow> exc + pyval" where
  "first_choice v =
     (case v of
        PList (x # xs) \<Rightarrow> Inr x
      | PTuple (x # xs) \<Rightarrow> Inr x
      | _ \<Rightarrow> Inl (TypeErr ''object is not subscriptable''))"

text \<open>The steps \<open>chunk_content\<close>, \<open>chunk_reasoning_content\<close> and \<open>chunk_thinking_blocks\<close> share.\<close>

definition chunk_field :: "string \<Rightarrow> pyval \<Rightarrow> exc + pyval" where
  "chunk_field key chunk =
     (case chunk of
        PDict d \<Rightarrow>
          (let choices = dict_get_or d ''choices'' PNone
           in if \<not> py_bool choices then Inr PNone
              else case first_choice choices of
                Inl e \<Rightarrow> Inl e
              | Inr (PDict c) \<Rightarrow>
                  (let delta = dict_get_or c ''delta'' PNone
                   in if \<not> py_bool delta then Inr PNone
                      else case delta of PDict dl \<Rightarrow> Inr (dict_get_or dl key PNone)
                                       | _ \<Rightarrow> Inl no_get)
              | Inr _ \<Rightarrow> Inl no_get)
      | _ \<Rightarrow>
          (let choices = get_attr chunk ''choices''
           in if \<not> py_bool choices then Inr PNone
              else case first_choice choices of
                Inl e \<Rightarrow> Inl e
              | Inr c \<Rightarrow> Inr (get_attr (get_attr c ''delta'') key)))"

definition chunk_content :: "pyval \<Rightarrow> exc + pyval" where
  "chunk_content chunk = chunk_field ''content'' chunk"

definition chunk_reasoning_content :: "pyval \<Rightarrow> exc + pyval" where
  "chunk_reasoning_content chunk = chunk_field ''reasoning_content'' chunk"

definition chunk_usage :: "pyval \<Rightarrow> pyval" where
  "chunk_usage chunk =
     (case chunk of PDict d \<Rightarrow> dict_get_or d ''usage'' PNone | _ \<Rightarrow> get_attr chunk ''usage'')"

text \<open>\<open>None\<close> and the empty list both add nothing, the result is the list of blocks.\<close>

definition chunk_thinking_blocks :: "pyval \<Rightarrow> exc + pyval dict list" where
  "chunk_thinking_blocks chunk =
     (case chunk_field ''thinking_blocks'' chunk of
        Inl e \<Rightarrow> Inl e
      | Inr (PDict d) \<Rightarrow> Inr [d]
      | Inr (PList items) \<Rightarrow>
          Inr (concat (map (\<lambda>i. case i of PDict d \<Rightarrow> [d] | _ \<Rightarrow> []) items))
      | Inr _ \<Rightarrow> Inr [])"

section \<open>Tool results in the conversation\<close>

definition structured_content :: "pytext \<Rightarrow> pyval \<Rightarrow> string" where
  "structured_content P v =
     (case v of PModel c d \<Rightarrow> model_json P v | _ \<Rightarrow> json_text P (to_json_value v))"

definition tool_message_text :: "pytext \<Rightarrow> tool_result \<Rightarrow> string" where
  "tool_message_text P r =
     (case tr_content r of
        Some c \<Rightarrow> c
      | None \<Rightarrow>
          if tr_data r \<noteq> PNone
          then (case json_dumps P (tr_data r) of Some s \<Rightarrow> s | None \<Rightarrow> obj_str P (tr_data r))
          else or_str (tr_error r) [])"

definition tool_message :: "pytext \<Rightarrow> tool_result \<Rightarrow> tool_call \<Rightarrow> message" where
  "tool_message P r c =
     (mk_message ToolRole (CText (tool_message_text P r)))\<lparr>msg_tool_call_id := Some (tc_id c)\<rparr>"

definition tool_call_with_result :: "tool_call \<Rightarrow> tool_result \<Rightarrow> tool_call" where
  "tool_call_with_result c r = c\<lparr>tc_result := result_value r, tc_error := tr_error r\<rparr>"

fun replace_tool_call :: "tool_call list \<Rightarrow> tool_call \<Rightarrow> exc + tool_call list" where
  "replace_tool_call [] u = Inl (ValueError (''Tool call '' @ tc_id u @ '' not found''))"
| "replace_tool_call (c # cs) u =
     (if tc_id c = tc_id u then Inr (u # cs)
      else case replace_tool_call cs u of Inl e \<Rightarrow> Inl e | Inr cs' \<Rightarrow> Inr (c # cs'))"

definition tool_call_summaries :: "tool_call list \<Rightarrow> pyval list" where
  "tool_call_summaries cs =
     map (\<lambda>c. PDict [(''id'', PStr (tc_id c)), (''name'', PStr (tc_name c)),
                     (''arguments'', PDict (tc_arguments c))]) cs"

definition emit_assistant_message ::
  "('w, 'x) run_ext_scheme \<Rightarrow> run_config \<Rightarrow> string \<Rightarrow> message \<Rightarrow> (('w, 'z) rt_scheme, unit) eff" where
  "emit_assistant_message X c worker m =
     emit X (cfg_emit_run c) AssistantMessage worker
       ([(''content'', content_value (msg_content m))] @
        (if msg_tool_calls m \<noteq> []
         then [(''tool_calls'', PList (tool_call_summaries (msg_tool_calls m)))] else []))"

section \<open>Reports, states and event payloads of \<^verbatim>\<open>worker_runner_helpers.py\<close>\<close>

definition build_report ::
  "string \<Rightarrow> run_status \<Rightarrow> string option \<Rightarrow> string option \<Rightarrow> pyval \<Rightarrow> message list \<Rightarrow>
   tool_call list \<Rightarrow> pyval dict \<Rightarrow> event list \<Rightarrow> pending_action option \<Rightarrow> string list \<Rightarrow> report" where
  "build_report rid status content reasoning data messages tool_calls metrics events pending errors =
     \<lparr>rep_run_id = rid, rep_status = status, rep_pending = pending, rep_content = content,
      rep_reasoning = reasoning, rep_data = data, rep_messages = messages,
      rep_tool_calls = tool_calls, rep_metrics = metrics, rep_events = events,
      rep_errors = errors\<rparr>"

definition build_worker_state ::
  "string \<Rightarrow> run_status \<Rightarrow> string \<Rightarrow> job \<Rightarrow> message list \<Rightarrow> tool_call list \<Rightarrow>
   pending_action option \<Rightarrow> pyval dict \<Rightarrow> int \<Rightarrow> run_state" where
  "build_worker_state rid status name j messages tool_calls pending metrics iteration =
     RunState rid status ''worker'' name j messages tool_calls pending metrics iteration []"

definition build_error_report ::
  "string \<Rightarrow> message list \<Rightarrow> string list \<Rightarrow> event list \<Rightarrow> report" where
  "build_error_report rid messages errors events =
     build_report rid Failed None None PNone messages [] [] events None errors"

definition tool_result_preview ::
  "pytext \<Rightarrow> tool_result \<Rightarrow> nat \<Rightarrow> (string \<times> bool) option" where
  "tool_result_preview P r limit =
     (let clip = (\<lambda>text. if length text > limit then (take limit text @ ''...'', True)
                        else (text, False))
      in case tr_content r of
           Some c \<Rightarrow> Some (clip c)
         | None \<Rightarrow>
             if tr_data r \<noteq> PNone
             then Some (clip (case json_dumps_strict P (tr_data r) of
                               Some s \<Rightarrow> s | None \<Rightarrow> obj_str P (tr_data r)))
             else map_option clip (tr_error r))"

definition tool_event_payload :: "pytext \<Rightarrow> tool_call \<Rightarrow> tool_result \<Rightarrow> pyval dict" where
  "tool_event_payload P c r =
     [(''tool_call_id'', PStr (tc_id c))] @
     (case tool_result_preview P r 200 of
        Some (text, clip) \<Rightarrow> [(''result_preview'', PStr text), (''result_truncated'', PBool clip)]
      | None \<Rightarrow> []) @
     (if tr_timed_out r then [(''timed_out'', PBool True)] else []) @
     (if tr_cancelled r then [(''cancelled'', PBool True)] else [])"

section \<open>Laws\<close>

lemma tool_message_simps [simp]:
  "msg_role (tool_message P r c) = ToolRole" "msg_tool_calls (tool_message P r c) = []"
  "msg_tool_call_id (tool_message P r c) = Some (tc_id c)"
  by (simp_all add: tool_message_def)

lemma tool_call_with_result_simps [simp]:
  "tc_id (tool_call_with_result c r) = tc_id c" "tc_name (tool_call_with_result c r) = tc_name c"
  "tc_arguments (tool_call_with_result c r) = tc_arguments c"
  by (simp_all add: tool_call_with_result_def)

lemma replace_tool_call_ids:
  "replace_tool_call cs u = Inr cs' \<Longrightarrow> map tc_id cs' = map tc_id cs \<and> length cs' = length cs"
  by (induction cs arbitrary: cs') (auto split: if_splits sum.splits)

lemma replace_tool_call_present:
  "tc_id u \<in> tc_id ` set cs \<Longrightarrow> \<exists>cs'. replace_tool_call cs u = Inr cs'"
  by (induction cs) (auto split: sum.splits)

lemma replace_tool_call_absent:
  "tc_id u \<notin> tc_id ` set cs \<Longrightarrow> \<exists>e. replace_tool_call cs u = Inl e"
  by (induction cs) auto

lemma replace_tool_call_set:
  "replace_tool_call cs u = Inr cs' \<Longrightarrow> u \<in> set cs' \<and> set cs' \<subseteq> insert u (set cs)"
  by (induction cs arbitrary: cs') (auto split: if_splits sum.splits)

lemma to_json_value_items:
  "to_json_value (PList xs) = PList (map to_json_value xs)"
  by simp

text \<open>Content blocks survive rendering as blocks, and stay blocks.\<close>

lemma is_content_block_iff:
  "is_content_block v \<longleftrightarrow>
   (\<exists>d ty names. v = PDict d \<and> dict_get d ''type'' = Some (PStr ty)
      \<and> dict_get known_type_fields ty = Some names \<and> list_ex (\<lambda>f. dict_has d f) names)"
  by (cases v) (auto simp: is_content_block_def split: option.splits pyval.splits)

lemma dict_get_json:
  "dict_get (map (map_prod id to_json_value) d) f = map_option to_json_value (dict_get d f)"
  by (induction d) auto

lemma is_content_block_json: "is_content_block v \<Longrightarrow> is_content_block (to_json_value v)"
  unfolding is_content_block_iff by (force simp: dict_get_json)

lemma render_input_cases:
  "render_input P v =
     (case v of PStr s \<Rightarrow> CText s
      | PList items \<Rightarrow>
          if is_multimodal_content_blocks v then CBlocks (map (dict_of \<circ> to_json_value) items)
          else CText (json_text P (to_json_value v))
      | _ \<Rightarrow> CText (json_text P (to_json_value v)))"
  by (auto simp: render_input_def is_multimodal_content_blocks_def split: pyval.splits bool.splits)

end
