(* ===== verification/Conversation.thy ===== *)
theory Conversation
  imports Worker_Messages "HOL-Library.Multiset"
begin

text \<open>
  What a chat provider accepts as a conversation, the abstract specification the worker's message
  list is held against: after an assistant message with tool calls come tool messages that answer
  those calls, one each, and nothing else before every call is answered.  \<open>scan\<close> reads a message
  list with the list of unanswered call ids and is \<open>None\<close> where the rule is broken.
\<close>

fun scan_step :: "message \<Rightarrow> string list \<Rightarrow> string list option" where
  "scan_step m open_ids =
     (if msg_role m = ToolRole
      then (case msg_tool_call_id m of
              Some i \<Rightarrow> if i \<in> set open_ids \<and> i \<noteq> [] then Some (remove1 i open_ids) else None
            | None \<Rightarrow> None)
      else if open_ids \<noteq> [] then None
      else if msg_role m = Assistant then Some (map tc_id (msg_tool_calls m))
      else Some [])"

declare scan_step.simps [simp del]

fun scan :: "message list \<Rightarrow> string list \<Rightarrow> string list option" where
  "scan [] open_ids = Some open_ids"
| "scan (m # ms) open_ids =
     (case scan_step m open_ids of None \<Rightarrow> None | Some o' \<Rightarrow> scan ms o')"

definition conversation_ok :: "message list \<Rightarrow> bool" where
  "conversation_ok ms \<longleftrightarrow> scan ms [] = Some []"

text \<open>Every call but the given ones is answered.\<close>

definition waits_for :: "string list \<Rightarrow> message list \<Rightarrow> bool" where
  "waits_for is ms \<longleftrightarrow> (\<exists>o'. scan ms [] = Some o' \<and> mset o' = mset is)"

lemma scan_append: "scan (xs @ ys) os = Option.bind (scan xs os) (scan ys)"
  by (induction xs arbitrary: os) (auto split: option.splits)

lemma conversation_ok_append:
  "conversation_ok xs \<Longrightarrow> scan ys [] = Some [] \<Longrightarrow> conversation_ok (xs @ ys)"
  by (simp add: conversation_ok_def scan_append)

lemma conversation_ok_Nil [simp]: "conversation_ok []"
  by (simp add: conversation_ok_def)

lemma scan_plain [simp]:
  "msg_role m \<noteq> ToolRole \<Longrightarrow> (msg_role m = Assistant \<longrightarrow> msg_tool_calls m = []) \<Longrightarrow>
   scan (m # ms) [] = scan ms []"
  by (simp add: scan_step.simps)

lemma waits_for_Nil [simp]: "waits_for [] ms \<longleftrightarrow> conversation_ok ms"
  by (simp add: waits_for_def conversation_ok_def)

text \<open>Opening calls and answering one.\<close>

lemma waits_for_assistant:
  assumes "conversation_ok ms" "msg_role m = Assistant"
  shows "waits_for (map tc_id (msg_tool_calls m)) (ms @ [m])"
  using assms by (auto simp: waits_for_def conversation_ok_def scan_append scan_step.simps)

lemma waits_for_answer:
  assumes w: "waits_for is ms" and i: "tc_id c \<in> set is" "tc_id c \<noteq> []"
  shows "waits_for (remove1 (tc_id c) is) (ms @ [tool_message P r c])"
proof -
  from w obtain o' where o': "scan ms [] = Some o'" "mset o' = mset is" by (auto simp: waits_for_def)
  from o'(2) i(1) have "tc_id c \<in> set o'" by (metis set_mset_mset)
  with o' i(2) show ?thesis
    by (auto simp: waits_for_def scan_append scan_step.simps)
qed

lemma waits_for_mset: "waits_for is ms \<Longrightarrow> mset is = mset js \<Longrightarrow> waits_for js ms"
  by (auto simp: waits_for_def)

text \<open>Leaving out the system messages changes nothing.\<close>

lemma scan_drop_system:
  "scan ms os = Some o' \<Longrightarrow> scan (filter (\<lambda>m. msg_role m \<noteq> System) ms) os = Some o'"
  by (induction ms arbitrary: os) (auto simp: scan_step.simps split: option.splits if_splits)

lemma scan_system_only: "\<forall>m\<in>set ms. msg_role m = System \<Longrightarrow> scan ms [] = Some []"
  by (induction ms) (auto simp: scan_step.simps)

text \<open>
  Where a conversation is cut with a call open, the rest starts with the answer to one of the
  calls opened before the cut.
\<close>

lemma scan_opened_by:
  "scan ms [] = Some o' \<Longrightarrow> i \<in> set o' \<Longrightarrow>
   \<exists>m\<in>set ms. msg_role m = Assistant \<and> i \<in> tc_id ` set (msg_tool_calls m)"
proof (induction ms arbitrary: o' rule: rev_induct)
  case (snoc m ms)
  then obtain o1 where o1: "scan ms [] = Some o1" "scan_step m o1 = Some o'"
    by (auto simp: scan_append Option.bind_eq_Some_conv split: option.splits)
  show ?case
  proof (cases "msg_role m = ToolRole")
    case True
    with o1(2) snoc.prems(2) have "i \<in> set o1"
      by (auto simp: scan_step.simps split: option.splits if_splits dest: set_remove1_subset[THEN subsetD])
    from snoc.IH[OF o1(1) this] show ?thesis by auto
  next
    case False
    with o1(2) snoc.prems(2) show ?thesis
      by (auto simp: scan_step.simps split: if_splits)
  qed
qed simp

lemma scan_cut:
  assumes "scan (xs @ ys) [] = Some []"
    and "\<And>m. m \<in> set xs \<Longrightarrow> msg_role m = Assistant \<Longrightarrow>
      \<forall>t\<in>set ys. msg_role t = ToolRole \<longrightarrow> (\<forall>i. msg_tool_call_id t = Some i \<longrightarrow> i \<noteq> [] \<longrightarrow>
        i \<notin> tc_id ` set (msg_tool_calls m))"
  shows "scan ys [] = Some []"
proof -
  from assms(1) obtain o1 where o1: "scan xs [] = Some o1" "scan ys o1 = Some []"
    by (auto simp: scan_append Option.bind_eq_Some_conv)
  have "o1 = []"
  proof (rule ccontr)
    assume ne: "o1 \<noteq> []"
    with o1(2) obtain t ys' where ys: "ys = t # ys'" by (cases ys) auto
    with o1(2) ne obtain i where i: "msg_role t = ToolRole" "msg_tool_call_id t = Some i"
      "i \<in> set o1" "i \<noteq> []"
      by (auto simp: scan_step.simps split: option.splits if_splits)
    from scan_opened_by[OF o1(1) i(3)] assms(2) ys i show False by fastforce
  qed
  with o1(2) show ?thesis by simp
qed

end
