(* ===== verification/Worker_Context.thy ===== *)
theory Worker_Context
  imports Conversation
begin

text \<open>
  \<^verbatim>\<open>worker_context.py\<close>: recognising context limit errors, splitting a conversation into the part
  to summarize and the part to keep, summarizing by chunks with the model, and replacing the
  summarized part.  The blocking and the asynchronous summary differ in the model call only, so
  both are instances of \<open>summarize_with\<close>.
\<close>

section \<open>Errors and limits\<close>

definition CONTEXT_LIMIT_ERRORS :: "string list" where
  "CONTEXT_LIMIT_ERRORS =
     [''expected a string with maximum length'', ''maximum context length'',
      ''context length exceeded'', ''context_length_exceeded'', ''context window full'',
      ''too many tokens'', ''input is too long'', ''exceeds token limit'']"

definition SUMMARY_SYSTEM_PROMPT :: string where
  "SUMMARY_SYSTEM_PROMPT =
     ''You are a summarization assistant. Preserve key facts, decisions, tool results, '' @
     ''names, numbers, and user constraints. Be concise and avoid adding information.''"

definition SUMMARY_INSTRUCTION :: "string \<Rightarrow> string" where
  "SUMMARY_INSTRUCTION content =
     ''Summarize the following conversation history:'' @ nl @ nl @ content"

definition MODEL_REGISTRATION_HINT :: string where
  "MODEL_REGISTRATION_HINT =
     ''Register the model in LiteLLM with context window and token limits '' @
     ''(register_model or proxy model_info) for accurate context handling.''"

abbreviation (input) SUMMARY_CHUNK_TOKENS :: int where "SUMMARY_CHUNK_TOKENS \<equiv> 2000"
abbreviation (input) SUMMARY_TAIL_MESSAGES :: nat where "SUMMARY_TAIL_MESSAGES \<equiv> 4"
abbreviation (input) SUMMARY_ATTEMPT_LIMIT :: nat where "SUMMARY_ATTEMPT_LIMIT \<equiv> 2"
abbreviation (input) SUMMARY_MAX_OUTPUT_TOKENS :: int where "SUMMARY_MAX_OUTPUT_TOKENS \<equiv> 800"

definition is_context_limit_error :: "exc \<Rightarrow> bool" where
  "is_context_limit_error e \<longleftrightarrow>
     exc_class e = ''ContextLimitError'' \<or>
     list_ex (\<lambda>p. str_contains p (str_lower (exc_msg e))) CONTEXT_LIMIT_ERRORS"

definition context_error_message :: "bool \<Rightarrow> bool \<Rightarrow> string" where
  "context_error_message registered allow_summary =
     (let message = (if allow_summary
        then ''Context length exceeded after summarization attempts.''
        else ''Context length exceeded. Set Desk(respect_context_window=True) to allow summarization.'')
      in if registered then message else message @ '' '' @ MODEL_REGISTRATION_HINT)"

text \<open>The model name and what follows each of its slashes.\<close>

fun after_slashes :: "string \<Rightarrow> string list" where
  "after_slashes [] = []"
| "after_slashes (c # s) = (if c = CHR ''/'' then s # after_slashes s else after_slashes s)"

definition litellm_model_registered :: "('w, 'x) run_ext_scheme \<Rightarrow> string \<Rightarrow> bool" where
  "litellm_model_registered X name = list_ex (x_model_cost X) (name # after_slashes name)"

definition token_count :: "('w, 'x) run_ext_scheme \<Rightarrow> string \<Rightarrow> string \<Rightarrow> int" where
  "token_count X model txt =
     (if txt = [] then 0
      else case x_token_counter X model txt of
             Some n \<Rightarrow> n
           | None \<Rightarrow> max 1 (int (length txt) div 4))"

function pieces :: "nat \<Rightarrow> string \<Rightarrow> string list" where
  "pieces n s = (if s = [] \<or> n = 0 then [] else take n s # pieces n (drop n s))"
  by auto
termination by (relation "measure (length \<circ> snd)") auto

declare pieces.simps [simp del]

definition chunk_text ::
  "('w, 'x) run_ext_scheme \<Rightarrow> string \<Rightarrow> string \<Rightarrow> int \<Rightarrow> string list" where
  "chunk_text X model txt target_tokens =
     (if txt = [] then [[]]
      else if token_count X model txt \<le> target_tokens then [txt]
      else pieces (nat (max 200 (target_tokens * 4))) txt)"

section \<open>The text of a message\<close>

definition block_text :: "pyval dict \<Rightarrow> string list" where
  "block_text b =
     (case (dict_get b ''type'', dict_get b ''text'') of
        (Some (PStr ty), Some (PStr s)) \<Rightarrow>
          if ty \<in> {''text'', ''input_text'', ''output_text''} \<and> s \<noteq> [] then [s] else []
      | _ \<Rightarrow> [])"

definition content_summary :: "content \<Rightarrow> string list" where
  "content_summary c =
     (case c of
        CText s \<Rightarrow> if s = [] then [] else [s]
      | CBlocks bs \<Rightarrow>
          if bs = [] then []
          else (let texts = concat (map block_text bs)
                in if texts \<noteq> [] then [str_join '' '' texts] else [''[multimodal message]'']))"

text \<open>\<open>None\<close> where \<open>json.dumps\<close> of a call's arguments raises.\<close>

definition call_summary :: "pytext \<Rightarrow> tool_call \<Rightarrow> string option" where
  "call_summary P c =
     map_option (\<lambda>args. tc_name c @ ''('' @ args @ '')'')
       (json_dumps_sorted P (PDict (tc_arguments c)))"

definition not_serializable :: exc where
  "not_serializable = TypeErr ''Object is not JSON serializable''"

definition message_summary_text :: "pytext \<Rightarrow> message \<Rightarrow> exc + string" where
  "message_summary_text P m =
     (case those (map (call_summary P) (msg_tool_calls m)) of
        None \<Rightarrow> Inl not_serializable
      | Some calls \<Rightarrow>
          (let parts = content_summary (msg_content m) @
             (if msg_tool_calls m \<noteq> [] then [''tool_calls='' @ str_join ''; '' calls] else []) @
             (if msg_role m = ToolRole \<and> truthy (msg_tool_call_id m)
              then [''tool_call_id='' @ or_str (msg_tool_call_id m) []] else [])
           in Inr (if parts = [] then []
                   else role_str (msg_role m) @ '': '' @ str_join '' '' parts)))"

section \<open>Summarizing\<close>

definition summary_request :: "string \<Rightarrow> string \<Rightarrow> rat option \<Rightarrow> request" where
  "summary_request model chunk temperature =
     \<lparr>rq_model = model,
      rq_messages =
        [PDict [(''role'', PStr ''system''), (''content'', PStr SUMMARY_SYSTEM_PROMPT)],
         PDict [(''role'', PStr ''user''), (''content'', PStr (SUMMARY_INSTRUCTION chunk))]],
      rq_tools = None, rq_tool_choice = None, rq_temperature = temperature,
      rq_max_tokens = Some SUMMARY_MAX_OUTPUT_TOKENS, rq_stream = False,
      rq_stream_options = None, rq_thinking = None, rq_drop_params = None, rq_extra_body = None,
      rq_num_retries = None, rq_schema = None\<rparr>"

definition do_summarize_chunk :: "completion \<Rightarrow> string" where
  "do_summarize_chunk r = (case r of CResponse m \<Rightarrow> or_str (mr_content m) [] | _ \<Rightarrow> [])"

text \<open>An adapter call outside a callback context.\<close>

definition plain_call :: "('w \<Rightarrow> ((exc + 'a) \<times> callback list) \<times> 'w) \<Rightarrow> ('w, 'a) eff" where
  "plain_call f w = (case f w of ((r, cbs), w') \<Rightarrow> (r, w'))"

definition is_not_implemented :: "exc \<Rightarrow> bool" where
  "is_not_implemented e \<longleftrightarrow> exc_class e = ''NotImplementedError''"

definition summarize_chunk ::
  "('w, 'x) run_ext_scheme \<Rightarrow> string \<Rightarrow> rat option \<Rightarrow> string \<Rightarrow> ('w, string) eff" where
  "summarize_chunk X model temperature chunk =
     ebind (plain_call (x_complete X (summary_request model chunk temperature)))
       (\<lambda>r. ret (do_summarize_chunk r))"

definition asummarize_chunk ::
  "('w, 'x) run_ext_scheme \<Rightarrow> string \<Rightarrow> rat option \<Rightarrow> string \<Rightarrow> ('w, string) eff" where
  "asummarize_chunk X model temperature chunk =
     ebind (attempt (plain_call (x_acomplete X (summary_request model chunk temperature)))) (\<lambda>r.
     case r of
       Inr response \<Rightarrow> ret (do_summarize_chunk response)
     | Inl e \<Rightarrow> if is_not_implemented e then summarize_chunk X model temperature chunk
                else raise e)"

text \<open>The body of the \<open>try\<close>: one attempt with a chunk size.\<close>

definition summarize_attempt ::
  "('w, 'x) run_ext_scheme \<Rightarrow> (string \<Rightarrow> ('w, string) eff) \<Rightarrow> string \<Rightarrow> string \<Rightarrow> int \<Rightarrow>
   ('w, string option) eff" where
  "summarize_attempt X summarize model txt target_tokens =
     ebind (collect summarize (chunk_text X model txt target_tokens)) (\<lambda>all.
     let summaries = filter (\<lambda>s. s \<noteq> []) all;
         merged = str_join nl summaries
     in if summaries = [] then ret None
        else if length summaries > 1
        then ebind (summarize merged) (\<lambda>combined. ret (Some (or_str (Some combined) merged)))
        else ret (Some merged))"

primrec summarize_tries ::
  "('w, 'x) run_ext_scheme \<Rightarrow> (string \<Rightarrow> ('w, string) eff) \<Rightarrow> string \<Rightarrow> string \<Rightarrow> nat \<Rightarrow> int \<Rightarrow>
   ('w, string option) eff" where
  "summarize_tries X summarize model txt 0 target_tokens = ret None"
| "summarize_tries X summarize model txt (Suc left) target_tokens =
     try_with (summarize_attempt X summarize model txt target_tokens) (\<lambda>e.
       if \<not> is_context_limit_error e then raise e
       else summarize_tries X summarize model txt left (max 200 (target_tokens div 2)))"

fun summary_lines :: "pytext \<Rightarrow> message list \<Rightarrow> exc + string list" where
  "summary_lines P [] = Inr []"
| "summary_lines P (m # ms) =
     (case message_summary_text P m of
        Inl e \<Rightarrow> Inl e
      | Inr l \<Rightarrow> (case summary_lines P ms of
                    Inl e \<Rightarrow> Inl e
                  | Inr ls \<Rightarrow> Inr (if l = [] then ls else l # ls)))"

definition summarize_with ::
  "('w, 'x) run_ext_scheme \<Rightarrow> (string \<Rightarrow> ('w, string) eff) \<Rightarrow> string \<Rightarrow> message list \<Rightarrow>
   ('w, string option) eff" where
  "summarize_with X summarize model messages =
     ebind (from_sum (summary_lines (x_text X) messages)) (\<lambda>lines.
     if lines = [] then ret (Some [])
     else summarize_tries X summarize model (str_join nl lines) SUMMARY_ATTEMPT_LIMIT
            SUMMARY_CHUNK_TOKENS)"

definition summarize_messages ::
  "('w, 'x) run_ext_scheme \<Rightarrow> string \<Rightarrow> message list \<Rightarrow> rat option \<Rightarrow> ('w, string option) eff" where
  "summarize_messages X model messages temperature =
     summarize_with X (summarize_chunk X model temperature) model messages"

definition asummarize_messages ::
  "('w, 'x) run_ext_scheme \<Rightarrow> string \<Rightarrow> message list \<Rightarrow> rat option \<Rightarrow> ('w, string option) eff" where
  "asummarize_messages X model messages temperature =
     summarize_with X (asummarize_chunk X model temperature) model messages"

section \<open>Splitting the conversation\<close>

definition tool_ids :: "message list \<Rightarrow> string list" where
  "tool_ids ms =
     concat (map (\<lambda>m. if msg_role m = ToolRole \<and> truthy (msg_tool_call_id m)
                      then [or_str (msg_tool_call_id m) []] else []) ms)"

definition calls_one_of :: "string list \<Rightarrow> message \<Rightarrow> bool" where
  "calls_one_of ids m \<longleftrightarrow>
     msg_role m = Assistant \<and> list_ex (\<lambda>c. tc_id c \<in> set ids) (msg_tool_calls m)"

text \<open>The last index below \<open>b\<close> of an assistant message that made one of the calls.\<close>

primrec matching_assistant :: "message list \<Rightarrow> string list \<Rightarrow> nat \<Rightarrow> nat option" where
  "matching_assistant ms ids 0 = None"
| "matching_assistant ms ids (Suc i) =
     (if calls_one_of ids (ms ! i) then Some i else matching_assistant ms ids i)"

lemma matching_assistant_less: "matching_assistant ms ids b = Some i \<Longrightarrow> i < b"
  by (induction b) (auto split: if_splits)

function preserve_boundary :: "message list \<Rightarrow> nat \<Rightarrow> nat" where
  "preserve_boundary ms b =
     (if b = 0 then b
      else let ids = tool_ids (drop b ms)
           in if ids = [] then b
              else case matching_assistant ms ids b of
                     None \<Rightarrow> b
                   | Some i \<Rightarrow> preserve_boundary ms i)"
  by auto
termination by (relation "measure snd") (auto dest: matching_assistant_less)

declare preserve_boundary.simps [simp del]

definition preserve_tool_call_boundary :: "message list \<Rightarrow> int \<Rightarrow> nat" where
  "preserve_tool_call_boundary ms b = preserve_boundary ms (nat (min (max b 0) (int (length ms))))"

definition summary_split ::
  "message list \<Rightarrow> bool \<Rightarrow> int option \<Rightarrow> message list \<times> message list \<times> message list" where
  "summary_split ms preserve_recent message_limit =
     (let system_messages = filter (\<lambda>m. msg_role m = System) ms;
          non_system = filter (\<lambda>m. msg_role m \<noteq> System) ms
      in if non_system = [] then (system_messages, [], [])
         else
           let tail_limit =
             (case message_limit of
                None \<Rightarrow> int SUMMARY_TAIL_MESSAGES
              | Some l \<Rightarrow> min (int SUMMARY_TAIL_MESSAGES)
                            (max 0 (l - int (length system_messages) - 1)))
           in if int (length non_system) \<le> tail_limit
              then (if preserve_recent then (system_messages, [], non_system)
                    else (system_messages, non_system, []))
              else
                let boundary = preserve_tool_call_boundary non_system
                  (if preserve_recent then int (length non_system) - tail_limit
                   else int (length non_system))
                in (system_messages, take boundary non_system, drop boundary non_system))"

section \<open>Replacing the summarized part\<close>

definition append_unique :: "pyval \<Rightarrow> pyval \<Rightarrow> pyval" where
  "append_unique v x = (case v of PList xs \<Rightarrow> if x \<in> set xs then v else PList (xs @ [x]) | _ \<Rightarrow> v)"

definition append_item :: "pyval \<Rightarrow> pyval \<Rightarrow> pyval" where
  "append_item v x = (case v of PList xs \<Rightarrow> PList (xs @ [x]) | _ \<Rightarrow> v)"

text \<open>\<open>d.setdefault(k, [])\<close> followed by an update of the list in place.\<close>

definition update_default :: "string \<Rightarrow> (pyval \<Rightarrow> pyval) \<Rightarrow> pyval dict \<Rightarrow> pyval dict" where
  "update_default k f d = dict_set k (f (dict_get_or d k (PList []))) d"

definition summary_message :: "string \<Rightarrow> message" where
  "summary_message summary =
     (mk_message User (CText (''Summary of previous context:'' @ nl @ summary)))
       \<lparr>msg_metadata := [(''summary'', PBool True)]\<rparr>"

definition summary_info :: "string \<Rightarrow> message list \<Rightarrow> message list \<Rightarrow> bool \<Rightarrow> pyval dict" where
  "summary_info model head tail registered =
     [(''model'', PStr model), (''summarized_messages'', PInt (int (length head))),
      (''kept_messages'', PInt (int (length tail)))] @
     (if registered then []
      else [(''unregistered_model'', PBool True),
            (''registration_hint'', PStr MODEL_REGISTRATION_HINT)])"

definition commit_context_summary ::
  "('w, 'x) run_ext_scheme \<Rightarrow> run_config \<Rightarrow> string \<Rightarrow> string \<Rightarrow> bool \<Rightarrow> message list \<Rightarrow>
   message list \<Rightarrow> message list \<Rightarrow> string \<Rightarrow> pyval dict \<Rightarrow>
   (('w, 'z) rt_scheme, message list \<times> pyval dict) eff" where
  "commit_context_summary X c model worker registered system_messages head tail summary metrics =
     (let info = summary_info model head tail registered;
          metrics1 = (if registered then metrics
                      else update_default ''warnings''
                             (\<lambda>v. append_unique v (PStr MODEL_REGISTRATION_HINT)) metrics);
          metrics2 = update_default ''context_summaries'' (\<lambda>v. append_item v (PDict info)) metrics1
      in eseq (emit X (cfg_emit_run c) WorkerContextSummarized worker info)
           (ret (system_messages @ [summary_message summary] @ tail, metrics2)))"

text \<open>\<open>None\<close> is \<open>False\<close> (nothing changed), \<open>Some\<close> the new messages and metrics.\<close>

definition apply_summary_with ::
  "('w, 'x) run_ext_scheme \<Rightarrow> (message list \<Rightarrow> ('w, string option) eff) \<Rightarrow> run_config \<Rightarrow> string \<Rightarrow>
   string \<Rightarrow> bool \<Rightarrow> bool \<Rightarrow> int option \<Rightarrow> message list \<Rightarrow> pyval dict \<Rightarrow>
   (('w, 'z) rt_scheme, (message list \<times> pyval dict) option) eff" where
  "apply_summary_with X summarize c model worker registered preserve_recent message_limit
     messages metrics =
     (case summary_split messages preserve_recent message_limit of (system_messages, head, tail) \<Rightarrow>
        if head = [] then ret None
        else ebind (attempt (on_world (summarize head))) (\<lambda>r.
          case r of
            Inr (Some summary) \<Rightarrow>
              ebind (commit_context_summary X c model worker registered system_messages head tail
                       summary metrics) (\<lambda>mm. ret (Some mm))
          | _ \<Rightarrow> ret None))"

definition apply_context_summary ::
  "('w, 'x) run_ext_scheme \<Rightarrow> run_config \<Rightarrow> string \<Rightarrow> string \<Rightarrow> bool \<Rightarrow> bool \<Rightarrow> int option \<Rightarrow>
   message list \<Rightarrow> pyval dict \<Rightarrow> (('w, 'z) rt_scheme, (message list \<times> pyval dict) option) eff" where
  "apply_context_summary X c model worker =
     apply_summary_with X (\<lambda>head. summarize_messages X model head (cfg_temperature c)) c model worker"

definition aapply_context_summary ::
  "('w, 'x) run_ext_scheme \<Rightarrow> run_config \<Rightarrow> string \<Rightarrow> string \<Rightarrow> bool \<Rightarrow> bool \<Rightarrow> int option \<Rightarrow>
   message list \<Rightarrow> pyval dict \<Rightarrow> (('w, 'z) rt_scheme, (message list \<times> pyval dict) option) eff" where
  "aapply_context_summary X c model worker =
     apply_summary_with X (\<lambda>head. asummarize_messages X model head (cfg_temperature c)) c model worker"

section \<open>Laws\<close>

lemma concat_pieces: "n > 0 \<Longrightarrow> concat (pieces n s) = s"
  by (induction n s rule: pieces.induct) (subst pieces.simps, auto)

lemma pieces_length: "p \<in> set (pieces n s) \<Longrightarrow> p \<noteq> [] \<and> length p \<le> n"
proof (induction n s rule: pieces.induct)
  case (1 n s)
  then show ?case by (subst (asm) (2) pieces.simps) (auto split: if_splits)
qed

lemma chunk_text_concat: "concat (chunk_text X model txt n) = txt"
  by (auto simp: chunk_text_def concat_pieces)

lemma tool_ids_Nil [simp]: "tool_ids [] = []"
  by (simp add: tool_ids_def)

lemma tool_ids_mem:
  "i \<in> set (tool_ids ms) \<longleftrightarrow>
   (\<exists>m\<in>set ms. msg_role m = ToolRole \<and> msg_tool_call_id m = Some i \<and> i \<noteq> [])"
proof (induction ms)
  case (Cons m ms)
  then show ?case by (auto simp: tool_ids_def truthy_def split: option.splits)
qed simp

lemma matching_assistant_None:
  "matching_assistant ms ids b = None \<longleftrightarrow> (\<forall>i<b. \<not> calls_one_of ids (ms ! i))"
  by (induction b) (auto simp: less_Suc_eq)

text \<open>No message before the boundary made a call that is answered after it.\<close>

lemma preserve_boundary_spec:
  "preserve_boundary ms b \<le> b \<and>
   (\<forall>i<preserve_boundary ms b. \<not> calls_one_of (tool_ids (drop (preserve_boundary ms b) ms)) (ms ! i))"
proof (induction ms b rule: preserve_boundary.induct)
  case (1 ms b)
  let ?ids = "tool_ids (drop b ms)"
  show ?case
  proof (cases "b = 0 \<or> ?ids = [] \<or> matching_assistant ms ?ids b = None")
    case True
    then have "preserve_boundary ms b = b" by (subst preserve_boundary.simps) (auto simp: Let_def)
    moreover have "\<not> calls_one_of ?ids (ms ! i)" if "i < b" for i
      using True that by (auto simp: calls_one_of_def matching_assistant_None)
        (auto simp: list_ex_iff)
    ultimately show ?thesis by simp
  next
    case False
    then obtain i where i: "b \<noteq> 0" "?ids \<noteq> []" "matching_assistant ms ?ids b = Some i" by auto
    then have "preserve_boundary ms b = preserve_boundary ms i"
      by (subst preserve_boundary.simps) (simp add: Let_def)
    with 1[OF i(1) refl i(2,3)] matching_assistant_less[OF i(3)] show ?thesis by auto
  qed
qed

lemma summary_split_parts:
  assumes "summary_split ms pr limit = (sys, head, tail)"
  shows "sys = filter (\<lambda>m. msg_role m = System) ms"
    and "head @ tail = filter (\<lambda>m. msg_role m \<noteq> System) ms"
  using assms by (auto simp: summary_split_def Let_def split: if_splits)

text \<open>What is kept answers no call that is summarized away.\<close>

lemma summary_split_pairs:
  assumes s: "summary_split ms pr limit = (sys, head, tail)"
    and m: "m \<in> set head" "msg_role m = Assistant"
    and t: "t \<in> set tail" "msg_role t = ToolRole" "msg_tool_call_id t = Some i" "i \<noteq> []"
  shows "i \<notin> tc_id ` set (msg_tool_calls m)"
proof -
  let ?ns = "filter (\<lambda>m. msg_role m \<noteq> System) ms"
  have "\<exists>b. head = take (preserve_boundary ?ns b) ?ns \<and> tail = drop (preserve_boundary ?ns b) ?ns
      \<and> preserve_boundary ?ns b \<le> length ?ns"
  proof (cases "head = [] \<or> tail = []")
    case True with m(1) t(1) show ?thesis by auto
  next
    case False
    with s obtain b where b: "head = take (preserve_tool_call_boundary ?ns b) ?ns"
      "tail = drop (preserve_tool_call_boundary ?ns b) ?ns"
      by (auto simp: summary_split_def Let_def split: if_splits)
    then show ?thesis
      using preserve_boundary_spec[of ?ns "nat (min (max b 0) (int (length ?ns)))"]
      unfolding preserve_tool_call_boundary_def by (intro exI conjI) auto
  qed
  then obtain b where b: "head = take (preserve_boundary ?ns b) ?ns"
    "tail = drop (preserve_boundary ?ns b) ?ns" "preserve_boundary ?ns b \<le> length ?ns" by blast
  from m(1) b(1,3) obtain k where k: "k < preserve_boundary ?ns b" "m = ?ns ! k"
    by (auto simp: in_set_conv_nth)
  from t have "i \<in> set (tool_ids tail)" by (auto simp: tool_ids_mem)
  with preserve_boundary_spec[of ?ns b] k b(2) m(2) show ?thesis
    by (auto simp: calls_one_of_def list_ex_iff)
qed

lemma summary_message_role [simp]: "msg_role (summary_message s) = User"
  by (simp add: summary_message_def)

text \<open>A well-formed conversation stays well-formed when its head is replaced by a summary.\<close>

lemma summary_conversation_ok:
  assumes ok: "conversation_ok ms" and s: "summary_split ms pr limit = (sys, head, tail)"
  shows "conversation_ok (sys @ [summary_message summary] @ tail)"
proof -
  have "scan (head @ tail) [] = Some []"
    using ok summary_split_parts(2)[OF s] scan_drop_system
    by (simp add: conversation_ok_def)
  then have "scan tail [] = Some []"
    by (rule scan_cut) (use summary_split_pairs[OF s] in blast)
  moreover have "scan sys [] = Some []"
    by (rule scan_system_only) (simp add: summary_split_parts(1)[OF s])
  ultimately show ?thesis by (simp add: conversation_ok_def scan_append scan_step.simps)
qed

text \<open>The rule for \<open>apply_summary_with\<close>: it returns nothing, or the parts of the split around a summary.\<close>

lemma wp_apply_summary:
  assumes "\<And>s'. Q None s'"
    and "\<And>sys head tail summary metrics' s'.
      summary_split messages pr limit = (sys, head, tail) \<Longrightarrow> head \<noteq> [] \<Longrightarrow>
      Q (Some (sys @ [summary_message summary] @ tail, metrics')) s'"
    and "\<And>e s'. E e s'"
  shows "wp (apply_summary_with X f c model worker reg pr limit messages metrics) Q E s"
proof -
  obtain sys head tail where p: "summary_split messages pr limit = (sys, head, tail)"
    by (cases "summary_split messages pr limit") auto
  show ?thesis
    using assms(1,3) assms(2)[OF p]
    by (auto simp: apply_summary_with_def p commit_context_summary_def Let_def
        split: option.splits intro!: wpI)
      (auto simp: wp_def ebind_def eseq_def ret_def split: prod.splits sum.splits)
qed

end
