(* ===== verification/Streaming.thy ===== *)
theory Streaming
  imports Worker_Context
begin

text \<open>
  \<^verbatim>\<open>runner/streaming.py\<close> and the chunk loop of \<open>WorkerRunner._astream_completion\<close>: putting a
  streamed response together again.  Python shares the state dictionary of a tool call between
  \<open>tool_states\<close> and \<open>keyed_states\<close>; here the keys map to positions in the list of states.
\<close>

section \<open>\<^verbatim>\<open>runner/streaming.py\<close>\<close>

text \<open>\<open>s.find(c)\<close> and \<open>s.rfind(c)\<close>.\<close>

definition str_find :: "char \<Rightarrow> string \<Rightarrow> nat option" where
  "str_find c s = (if c \<in> set s then Some (length (takeWhile (\<lambda>x. x \<noteq> c) s)) else None)"

definition str_rfind :: "char \<Rightarrow> string \<Rightarrow> nat option" where
  "str_rfind c s = map_option (\<lambda>i. length s - 1 - i) (str_find c (rev s))"

definition str_rstrip :: "string \<Rightarrow> string" where
  "str_rstrip s = rev (dropWhile is_space (rev s))"

definition fence :: string where
  "fence = replicate 3 (char_of (96::nat))"

definition remove_suffix :: "string \<Rightarrow> string \<Rightarrow> string" where
  "remove_suffix suf s = (if suffix suf s then take (length s - length suf) s else s)"

definition after_newline :: "string \<Rightarrow> string" where
  "after_newline s = drop 1 (dropWhile (\<lambda>c. c \<noteq> char_of (10::nat)) s)"

definition option_min :: "nat option \<Rightarrow> nat option \<Rightarrow> nat option" where
  "option_min a b =
     (case (a, b) of (None, _) \<Rightarrow> b | (_, None) \<Rightarrow> a | (Some x, Some y) \<Rightarrow> Some (min x y))"

definition option_max :: "nat option \<Rightarrow> nat option \<Rightarrow> nat option" where
  "option_max a b =
     (case (a, b) of (None, _) \<Rightarrow> b | (_, None) \<Rightarrow> a | (Some x, Some y) \<Rightarrow> Some (max x y))"

definition extract_json_text :: "string \<Rightarrow> string" where
  "extract_json_text content =
     (let s1 = str_strip content;
          s2 = (if prefix fence s1 then remove_suffix fence (str_rstrip (after_newline s1)) else s1);
          start = option_min (str_find (CHR ''{'') s2) (str_find (CHR ''['') s2);
          finish = option_max (str_rfind (CHR ''}'') s2) (str_rfind (CHR '']'') s2)
      in case (start, finish) of
           (Some a, Some b) \<Rightarrow> if b < a then str_strip s2 else take (b + 1 - a) (drop a s2)
         | _ \<Rightarrow> str_strip s2)"

definition parse_structured_stream_json ::
  "('w, 'x) run_ext_scheme \<Rightarrow> schema \<Rightarrow> string \<Rightarrow> exc + pyval" where
  "parse_structured_stream_json X sch content = x_validate_json X sch (extract_json_text content)"

definition stream_value :: "pyval \<Rightarrow> string \<Rightarrow> pyval" where
  "stream_value v key = (case v of PDict d \<Rightarrow> dict_get_or d key PNone | _ \<Rightarrow> get_attr v key)"

definition append_tool_error :: "string option \<Rightarrow> string \<Rightarrow> string" where
  "append_tool_error current m = (case current of None \<Rightarrow> m | Some c \<Rightarrow> c @ ''; '' @ m)"

definition is_stream_unsupported_error :: "exc \<Rightarrow> bool" where
  "is_stream_unsupported_error e \<longleftrightarrow>
     exc_class e = ''NotImplementedError'' \<or>
     (let m = str_lower (exc_class e @ '': '' @ exc_msg e)
      in (str_contains ''stream'' m \<or> str_contains ''streaming'' m) \<and>
         list_ex (\<lambda>k. str_contains k m)
           [''unsupported'', ''not support'', ''not supported'', ''not implemented'', ''cannot stream''])"

text \<open>The deltas of a chunk, and whether they come from a whole \<open>message\<close>.\<close>

definition chunk_tool_call_deltas :: "pyval \<Rightarrow> exc + pyval list \<times> bool" where
  "chunk_tool_call_deltas chunk =
     (let choices = stream_value chunk ''choices''
      in if \<not> py_bool choices then Inr ([], False)
         else case first_choice choices of
           Inl e \<Rightarrow> Inl e
         | Inr choice \<Rightarrow>
             (case stream_value (stream_value choice ''delta'') ''tool_calls'' of
                PList (x # xs) \<Rightarrow> Inr (x # xs, False)
              | _ \<Rightarrow>
                  (let calls = stream_value (stream_value choice ''message'') ''tool_calls''
                   in if stream_value choice ''message'' = PNone then Inr ([], False)
                      else if \<not> py_bool calls then Inr ([], True)
                      else case calls of PList xs \<Rightarrow> Inr (xs, True) | _ \<Rightarrow> Inr ([], False))))"

section \<open>The state of a streamed response\<close>

datatype stream_key = KIndex int | KId string | KPosition nat

record tool_state =
  ts_id :: "string option"
  ts_name :: string
  ts_parts :: "string list"
  ts_obj :: "pyval dict option"
  ts_error :: "string option"
  ts_keys :: "stream_key list"

definition new_tool_state :: tool_state where
  "new_tool_state = \<lparr>ts_id = None, ts_name = [], ts_parts = [], ts_obj = None, ts_error = None,
     ts_keys = []\<rparr>"

record stream_acc =
  sa_content :: "pyval list"
  sa_reasoning :: "pyval list"
  sa_thinking :: "pyval dict list"
  sa_states :: "tool_state list"
  sa_keyed :: "(stream_key \<times> nat) list"
  sa_usage :: pyval

definition empty_acc :: stream_acc where
  "empty_acc = \<lparr>sa_content = [], sa_reasoning = [], sa_thinking = [], sa_states = [],
     sa_keyed = [], sa_usage = PDict []\<rparr>"

fun same_kind :: "stream_key \<Rightarrow> stream_key \<Rightarrow> bool" where
  "same_kind (KIndex _) (KIndex _) = True"
| "same_kind (KId _) (KId _) = True"
| "same_kind (KPosition _) (KPosition _) = True"
| "same_kind _ _ = False"

text \<open>\<open>isinstance(json.loads(s), dict)\<close> for arguments that are not blank.\<close>

definition arguments_complete :: "pytext \<Rightarrow> tool_state \<Rightarrow> bool" where
  "arguments_complete P st \<longleftrightarrow>
     ts_obj st \<noteq> None \<or>
     (let existing = concat (ts_parts st)
      in str_strip existing \<noteq> [] \<and>
         (case json_loads P existing of Inr (PDict d) \<Rightarrow> True | _ \<Rightarrow> False))"

definition can_reuse_position ::
  "pytext \<Rightarrow> string list \<Rightarrow> tool_state \<Rightarrow> stream_key list \<Rightarrow> nat \<Rightarrow> string \<Rightarrow> pyval \<Rightarrow> bool \<Rightarrow> bool"
where
  "can_reuse_position P known st stable_keys position name arguments_value from_message =
     (if list_ex (\<lambda>old. list_ex (\<lambda>k. same_kind old k \<and> old \<noteq> k) stable_keys) (ts_keys st)
      then False
      else if list_ex (\<lambda>k. case k of KIndex i \<Rightarrow> i \<noteq> int position | _ \<Rightarrow> False) stable_keys
      then False
      else if ts_name st \<noteq> [] \<and> name \<noteq> [] \<and> \<not> prefix (ts_name st) name
              \<and> \<not> prefix name (ts_name st) \<and> ts_name st @ name \<notin> set known
      then False
      else if stable_keys = [] \<or> \<not> arguments_complete P st then True
      else if \<not> from_message then False
      else case arguments_value of
             PStr s \<Rightarrow> s = concat (ts_parts st)
           | PDict d \<Rightarrow> ts_obj st = Some d
           | _ \<Rightarrow> False)"

definition stable_keys_of :: "pyval \<Rightarrow> pyval \<Rightarrow> stream_key list" where
  "stable_keys_of index_value call_id =
     (case index_value of
        PInt i \<Rightarrow> [KIndex i] | PBool b \<Rightarrow> [KIndex (if b then 1 else 0)] | _ \<Rightarrow> []) @
     (case call_id of PStr s \<Rightarrow> if s = [] then [] else [KId s] | _ \<Rightarrow> [])"

text \<open>The state a delta belongs to, if one exists already.\<close>

fun first_keyed :: "(stream_key \<times> nat) list \<Rightarrow> stream_key list \<Rightarrow> nat option" where
  "first_keyed keyed [] = None"
| "first_keyed keyed (k # ks) =
     (case map_of keyed k of Some i \<Rightarrow> Some i | None \<Rightarrow> first_keyed keyed ks)"

definition find_state ::
  "pytext \<Rightarrow> string list \<Rightarrow> stream_acc \<Rightarrow> stream_key list \<Rightarrow> nat \<Rightarrow> string \<Rightarrow> pyval \<Rightarrow> bool \<Rightarrow>
   nat option" where
  "find_state P known acc stable_keys position name arguments_value from_message =
     (case first_keyed (sa_keyed acc) stable_keys of
        Some i \<Rightarrow> Some i
      | None \<Rightarrow>
          (case map_of (sa_keyed acc) (KPosition position) of
             Some i \<Rightarrow>
               if can_reuse_position P known (sa_states acc ! i) stable_keys position name
                    arguments_value from_message
               then Some i else None
           | None \<Rightarrow> None))"

definition merge_name :: "string \<Rightarrow> string \<Rightarrow> string" where
  "merge_name existing name =
     (if name = [] then existing
      else if existing = [] \<or> prefix existing name then name
      else if \<not> prefix name existing then existing @ name
      else existing)"

text \<open>
  The effect of the argument field on the state of the call, and the token it reports.  \<open>Inl\<close> where
  \<open>json.dumps\<close> of an arguments object raises.
\<close>

definition take_arguments ::
  "pytext \<Rightarrow> bool \<Rightarrow> pyval \<Rightarrow> tool_state \<Rightarrow> tool_state \<times> (exc + string)" where
  "take_arguments P from_message arguments_value st =
     (case arguments_value of
        PStr s \<Rightarrow>
          if from_message
          then (if concat (ts_parts st) \<noteq> s then (st\<lparr>ts_parts := [s]\<rparr>, Inr s) else (st, Inr []))
          else (st\<lparr>ts_parts := ts_parts st @ [s]\<rparr>, Inr s)
      | PDict d \<Rightarrow>
          (st\<lparr>ts_obj := Some (dict_update (case ts_obj st of Some o' \<Rightarrow> o' | None \<Rightarrow> []) d)\<rparr>,
           (case json_dumps_strict P (PDict d) of Some s \<Rightarrow> Inr s | None \<Rightarrow> Inl not_serializable))
      | PNone \<Rightarrow> (st, Inr [])
      | v \<Rightarrow>
          (st\<lparr>ts_error := Some (append_tool_error (ts_error st)
                (''Unsupported tool arguments type: '' @ type_name v))\<rparr>, Inr []))"

definition add_keys_to :: "stream_key list \<Rightarrow> stream_key list \<Rightarrow> stream_key list" where
  "add_keys_to ks old = foldl (\<lambda>acc k. if k \<in> set acc then acc else acc @ [k]) old ks"

text \<open>One delta: the new accumulator and the token to report.\<close>

definition process_delta ::
  "pytext \<Rightarrow> string list \<Rightarrow> bool \<Rightarrow> nat \<Rightarrow> pyval \<Rightarrow> stream_acc \<Rightarrow> stream_acc \<times> (exc + string)" where
  "process_delta P known from_message position delta acc =
     (let index_value = stream_value delta ''index'';
          call_id = stream_value delta ''id'';
          function = stream_value delta ''function'';
          name_value = stream_value function ''name'';
          name = (case name_value of PStr s \<Rightarrow> str_strip s | _ \<Rightarrow> []);
          arguments_value = stream_value function ''arguments'';
          stable_keys = stable_keys_of index_value call_id;
          found = find_state P known acc stable_keys position name arguments_value from_message;
          i = (case found of Some j \<Rightarrow> j | None \<Rightarrow> length (sa_states acc));
          states = (case found of Some j \<Rightarrow> sa_states acc
                                | None \<Rightarrow> sa_states acc @ [new_tool_state]);
          keyed1 = foldl (\<lambda>kd k. dict_set k i kd) (sa_keyed acc) stable_keys;
          occupant = map_of keyed1 (KPosition position);
          keyed2 = (if occupant = None \<or> occupant = Some i \<or> stable_keys = []
                    then dict_set (KPosition position) i keyed1 else keyed1);
          st = states ! i;
          st1 = st\<lparr>ts_keys := add_keys_to stable_keys (ts_keys st),
                   ts_id := (case call_id of PStr s \<Rightarrow> if s = [] then ts_id st else Some s
                                           | _ \<Rightarrow> ts_id st),
                   ts_name := merge_name (ts_name st) name\<rparr>;
          (st2, token) = take_arguments P from_message arguments_value st1
      in (acc\<lparr>sa_states := states[i := st2], sa_keyed := keyed2\<rparr>, token))"

section \<open>A chunk\<close>

definition emit_token ::
  "('w, 'x) run_ext_scheme \<Rightarrow> run_config \<Rightarrow> string \<Rightarrow> pyval \<Rightarrow> string \<Rightarrow>
   (('w, 'z) rt_scheme, unit) eff" where
  "emit_token X c worker token kind =
     emit X (cfg_emit_run c) StreamToken worker [(''token'', token), (''type'', PStr kind)]"

primrec process_deltas ::
  "('w, 'x) run_ext_scheme \<Rightarrow> run_config \<Rightarrow> string \<Rightarrow> string list \<Rightarrow> bool \<Rightarrow> pyval list \<Rightarrow> nat \<Rightarrow>
   stream_acc \<Rightarrow> (('w, 'z) rt_scheme, stream_acc) eff" where
  "process_deltas X c worker known from_message [] position acc = ret acc"
| "process_deltas X c worker known from_message (d # ds) position acc =
     (case process_delta (x_text X) known from_message position d acc of
        (acc', Inl e) \<Rightarrow> raise e
      | (acc', Inr token) \<Rightarrow>
          eseq (if token = [] then ret () else emit_token X c worker (PStr token) ''tool_argument'')
            (process_deltas X c worker known from_message ds (position + 1) acc'))"

definition process_chunk ::
  "('w, 'x) run_ext_scheme \<Rightarrow> run_config \<Rightarrow> string \<Rightarrow> string list \<Rightarrow> stream_acc \<Rightarrow> pyval \<Rightarrow>
   (('w, 'z) rt_scheme, stream_acc) eff" where
  "process_chunk X c worker known acc chunk =
     ebind (from_sum (chunk_content chunk)) (\<lambda>token.
     eseq (if py_bool token then emit_token X c worker token ''content'' else ret ())
    (ebind (from_sum (chunk_tool_call_deltas chunk)) (\<lambda>(deltas, from_message).
     ebind (process_deltas X c worker known from_message deltas 0
              (if py_bool token then acc\<lparr>sa_content := sa_content acc @ [token]\<rparr> else acc)) (\<lambda>acc1.
     ebind (from_sum (chunk_reasoning_content chunk)) (\<lambda>reasoning.
     ebind (from_sum (chunk_thinking_blocks chunk)) (\<lambda>blocks.
     ret (acc1\<lparr>
       sa_reasoning := (if py_bool reasoning then sa_reasoning acc1 @ [reasoning]
                        else sa_reasoning acc1),
       sa_thinking := sa_thinking acc1 @ blocks,
       sa_usage := (if py_bool (chunk_usage chunk) then chunk_usage chunk else sa_usage acc1)\<rparr>)))))))"

primrec process_chunks ::
  "('w, 'x) run_ext_scheme \<Rightarrow> run_config \<Rightarrow> string \<Rightarrow> string list \<Rightarrow> pyval list \<Rightarrow> stream_acc \<Rightarrow>
   (('w, 'z) rt_scheme, stream_acc) eff" where
  "process_chunks X c worker known [] acc = ret acc"
| "process_chunks X c worker known (ch # chs) acc =
     ebind (process_chunk X c worker known acc ch) (process_chunks X c worker known chs)"

section \<open>The finished response\<close>

text \<open>\<open>"".join(parts)\<close>.\<close>

definition join_parts :: "pyval list \<Rightarrow> exc + string" where
  "join_parts vs =
     (case those (map (\<lambda>v. case v of PStr s \<Rightarrow> Some s | _ \<Rightarrow> None) vs) of
        Some ss \<Rightarrow> Inr (concat ss)
      | None \<Rightarrow> Inl (TypeErr ''sequence item: expected str instance''))"

definition streamed_tool_call ::
  "('w, 'x) run_ext_scheme \<Rightarrow> tool_state \<Rightarrow> (('w, 'z) rt_scheme, tool_call) eff" where
  "streamed_tool_call X st =
     (let name = str_strip (ts_name st);
          error1 = (if name = [] then Some (append_tool_error (ts_error st) ''Missing tool name'')
                    else ts_error st);
          (arguments, error2) =
            (case ts_obj st of
               Some d \<Rightarrow> (d, error1)
             | None \<Rightarrow>
                 (case parse_tool_arguments (x_text X) (PStr (concat (ts_parts st))) 100 of
                    (d, None) \<Rightarrow> (d, error1)
                  | (d, Some problem) \<Rightarrow> (d, Some (append_tool_error error1 problem))))
      in ebind (if truthy (ts_id st) then ret (or_str (ts_id st) []) else ask (x_new_id X)) (\<lambda>i.
         ret \<lparr>tc_id = i, tc_name = name, tc_arguments = arguments, tc_result = PNone,
              tc_error = error2\<rparr>))"

definition streamed_tool_calls ::
  "('w, 'x) run_ext_scheme \<Rightarrow> tool_state list \<Rightarrow> (('w, 'z) rt_scheme, tool_call list) eff" where
  "streamed_tool_calls X states = collect (streamed_tool_call X) states"

definition stream_response ::
  "('w, 'x) run_ext_scheme \<Rightarrow> stream_acc \<Rightarrow> (('w, 'z) rt_scheme, model_response) eff" where
  "stream_response X acc =
     ebind (from_sum (join_parts (sa_content acc))) (\<lambda>content.
     ebind (from_sum (join_parts (sa_reasoning acc))) (\<lambda>reasoning.
     ebind (streamed_tool_calls X (sa_states acc)) (\<lambda>calls.
     ret \<lparr>mr_content = Some content,
          mr_reasoning = (if reasoning = [] then None else Some reasoning),
          mr_thinking = (if sa_thinking acc = [] then None else Some (sa_thinking acc)),
          mr_tool_calls = calls, mr_usage = sa_usage acc\<rparr>)))"

definition consume_stream ::
  "('w, 'x) run_ext_scheme \<Rightarrow> run_config \<Rightarrow> string \<Rightarrow> string list \<Rightarrow> pyval list \<Rightarrow> exc option \<Rightarrow>
   (('w, 'z) rt_scheme, model_response) eff" where
  "consume_stream X c worker known chunks failure =
     ebind (process_chunks X c worker known chunks empty_acc) (\<lambda>acc.
     case failure of Some e \<Rightarrow> raise e | None \<Rightarrow> stream_response X acc)"

end
