(* ===== verification/Completion.thy ===== *)
theory Completion
  imports Streaming
begin

text \<open>
  The model calls of \<^verbatim>\<open>worker_runner.py\<close> (\<open>_acompletion\<close>, \<open>_astream_completion\<close>,
  \<open>_astructured_completion\<close>) and \<^verbatim>\<open>runner/loop_state.py\<close>: the loop state \<open>ls\<close> extends the
  state of the run by the worker's conversation, tool calls, metrics, errors and counters, and
  \<open>wctx\<close> holds what stays fixed while a worker runs.
\<close>

section \<open>The loop state\<close>

record 'w ls = "'w rt" +
  ls_messages :: "message list"
  ls_tool_calls :: "tool_call list"
  ls_metrics :: "pyval dict"
  ls_errors :: "string list"
  ls_iteration :: int
  ls_summaries :: nat

record wctx =
  cx_config :: run_config
  cx_model :: string
  cx_worker :: string
  cx_run_id :: string
  cx_registered :: bool

definition add_message :: "message \<Rightarrow> ('w ls, unit) eff" where
  "add_message m = modify (\<lambda>s. s\<lparr>ls_messages := ls_messages s @ [m]\<rparr>)"

definition record_turn_usage ::
  "('w, 'x) run_ext_scheme \<Rightarrow> wctx \<Rightarrow> pyval \<Rightarrow> ('w ls, unit) eff" where
  "record_turn_usage X cx usage s =
     (case record_usage X (cx_model cx) usage (ls_metrics s) (rt_totals s) of
        Inl e \<Rightarrow> (Inl e, s)
      | Inr (m, t) \<Rightarrow> (Inr (), s\<lparr>ls_metrics := m, rt_totals := t\<rparr>))"

section \<open>Model calls\<close>

definition make_request ::
  "pytext \<Rightarrow> run_config \<Rightarrow> string \<Rightarrow> message list \<Rightarrow> tool list \<Rightarrow> bool \<Rightarrow> job \<Rightarrow> schema option \<Rightarrow> request"
where
  "make_request P c model messages tools stream j sch =
     \<lparr>rq_model = model, rq_messages = messages_to_payload P messages,
      rq_tools = (if tools \<noteq> [] then Some (tool_schemas tools) else None),
      rq_tool_choice = (if tools \<noteq> [] then Some ''auto'' else None),
      rq_temperature = cfg_temperature c, rq_max_tokens = cfg_max_tokens c, rq_stream = stream,
      rq_stream_options = cfg_stream_options c, rq_thinking = job_thinking j,
      rq_drop_params = job_drop_params j, rq_extra_body = job_extra_body j,
      rq_num_retries = Some (cfg_num_retries c), rq_schema = sch\<rparr>"

definition empty_response :: model_response where
  "empty_response = \<lparr>mr_content = None, mr_reasoning = None, mr_thinking = None,
     mr_tool_calls = [], mr_usage = PDict []\<rparr>"

definition acompletion ::
  "('w, 'x) run_ext_scheme \<Rightarrow> run_config \<Rightarrow> string \<Rightarrow> message list \<Rightarrow> tool list \<Rightarrow> job \<Rightarrow>
   (('w, 'z) rt_scheme, model_response) eff" where
  "acompletion X c model messages tools j =
     (let rq = make_request (x_text X) c model messages tools False j None
      in ebind (try_with (adapter_call X c (x_acomplete X rq))
                 (\<lambda>e. if is_not_implemented e then adapter_call X c (x_complete X rq) else raise e))
           (\<lambda>r. ret (case r of CResponse m \<Rightarrow> m | _ \<Rightarrow> empty_response)))"

definition stream_request ::
  "('w, 'x) run_ext_scheme \<Rightarrow> run_config \<Rightarrow> string \<Rightarrow> string \<Rightarrow> message list \<Rightarrow> tool list \<Rightarrow> job \<Rightarrow>
   schema option \<Rightarrow> request" where
  "stream_request X c meth model messages tools j sch =
     make_request (x_text X) c model messages tools True j
       (if x_accepts X meth ''response_schema'' then sch else None)"

text \<open>\<open>None\<close>: streaming is not supported, \<open>_acompletion\<close> is called instead.\<close>

definition open_stream ::
  "('w, 'x) run_ext_scheme \<Rightarrow> run_config \<Rightarrow> string \<Rightarrow> message list \<Rightarrow> tool list \<Rightarrow> job \<Rightarrow>
   schema option \<Rightarrow> (('w, 'z) rt_scheme, completion option) eff" where
  "open_stream X c model messages tools j sch =
     (let unsupported = (\<lambda>e. if is_stream_unsupported_error e then ret None else raise e)
      in try_with
           (ebind (adapter_call X c
              (x_acomplete X (stream_request X c ''acomplete'' model messages tools j sch)))
              (\<lambda>r. ret (Some r)))
           (\<lambda>e. if is_not_implemented e
                then try_with
                  (ebind (adapter_call X c
                     (x_complete X (stream_request X c ''complete'' model messages tools j sch)))
                     (\<lambda>r. ret (Some r)))
                  unsupported
                else unsupported e))"

definition astream_completion ::
  "('w, 'x) run_ext_scheme \<Rightarrow> run_config \<Rightarrow> string \<Rightarrow> string \<Rightarrow> message list \<Rightarrow> tool list \<Rightarrow> job \<Rightarrow>
   schema option \<Rightarrow> (('w, 'z) rt_scheme, model_response) eff" where
  "astream_completion X c worker model messages tools j sch =
     ebind (open_stream X c model messages tools j sch) (\<lambda>r.
     case r of
       None \<Rightarrow> acompletion X c model messages tools j
     | Some (CResponse m) \<Rightarrow> ret m
     | Some (CStream chunks failure) \<Rightarrow>
         consume_stream X c worker (map tl_name tools) chunks failure
     | Some (COther v) \<Rightarrow> acompletion X c model messages tools j)"

definition rat_value :: "rat option \<Rightarrow> pyval" where
  "rat_value v = (case v of None \<Rightarrow> PNone | Some q \<Rightarrow> PFloat q)"

definition int_value :: "int option \<Rightarrow> pyval" where
  "int_value v = (case v of None \<Rightarrow> PNone | Some n \<Rightarrow> PInt n)"

definition dict_value :: "pyval dict option \<Rightarrow> pyval" where
  "dict_value v = (case v of None \<Rightarrow> PNone | Some d \<Rightarrow> PDict d)"

definition bool_value :: "bool option \<Rightarrow> pyval" where
  "bool_value v = (case v of None \<Rightarrow> PNone | Some b \<Rightarrow> PBool b)"

definition supported_kwargs ::
  "('w, 'x) run_ext_scheme \<Rightarrow> string \<Rightarrow> pyval dict \<Rightarrow> pyval dict" where
  "supported_kwargs X meth kwargs = filter (\<lambda>kv. x_accepts X meth (fst kv)) kwargs"

definition make_structured_request ::
  "('w, 'x) run_ext_scheme \<Rightarrow> run_config \<Rightarrow> string \<Rightarrow> string \<Rightarrow> message list \<Rightarrow> job \<Rightarrow> schema \<Rightarrow>
   structured_request" where
  "make_structured_request X c meth model messages j sch =
     \<lparr>sq_model = model, sq_messages = messages_to_payload (x_text X) messages, sq_schema = sch,
      sq_retries = cfg_structured_retries c,
      sq_options = supported_kwargs X meth
        [(''temperature'', rat_value (cfg_temperature c)),
         (''max_tokens'', int_value (cfg_max_tokens c)),
         (''thinking'', dict_value (job_thinking j)),
         (''drop_params'', bool_value (job_drop_params j)),
         (''extra_body'', dict_value (job_extra_body j)),
         (''num_retries'', PInt (cfg_num_retries c))]\<rparr>"

definition astructured_completion ::
  "('w, 'x) run_ext_scheme \<Rightarrow> wctx \<Rightarrow> job \<Rightarrow> schema \<Rightarrow> ('w ls, pyval) eff" where
  "astructured_completion X cx j sch =
     (let c = cx_config cx
      in ebind (gets ls_messages) (\<lambda>messages.
         ebind (try_with
             (adapter_call X c (x_astructured X
                (make_structured_request X c ''astructured_complete'' (cx_model cx) messages j sch)))
             (\<lambda>e. if is_not_implemented e
                  then adapter_call X c (x_structured X
                    (make_structured_request X c ''structured_complete'' (cx_model cx) messages j sch))
                  else raise e)) (\<lambda>r.
         case r of
           SResponse data usage \<Rightarrow> eseq (record_turn_usage X cx usage) (ret data)
         | SOther v \<Rightarrow> ret v)))"

section \<open>Ends of a run\<close>

definition report_of ::
  "wctx \<Rightarrow> run_status \<Rightarrow> string option \<Rightarrow> string option \<Rightarrow> pyval \<Rightarrow> pending_action option \<Rightarrow>
   ('w ls, report) eff" where
  "report_of cx status content reasoning data pending =
     gets (\<lambda>s. build_report (cfg_run_id (cx_config cx)) status content reasoning data
       (ls_messages s) (ls_tool_calls s) (ls_metrics s) (config_events (cx_config cx) s) pending
       (ls_errors s))"

definition fail_report :: "('w, 'x) run_ext_scheme \<Rightarrow> wctx \<Rightarrow> string \<Rightarrow> ('w ls, report) eff" where
  "fail_report X cx message =
     eseq (modify (\<lambda>s. s\<lparr>ls_errors := ls_errors s @ [message]\<rparr>))
    (eseq (emit X (cfg_emit_run (cx_config cx)) WorkerFailed (cx_worker cx)
             [(''error'', PStr message)])
          (report_of cx Failed None None PNone None))"

definition finalize_structured_response ::
  "('w, 'x) run_ext_scheme \<Rightarrow> wctx \<Rightarrow> pyval \<Rightarrow> ('w ls, report) eff" where
  "finalize_structured_response X cx data =
     (let content = structured_content (x_text X) data;
          m = mk_message Assistant (CText content)
      in eseq (add_message m)
        (eseq (emit_assistant_message X (cx_config cx) (cx_worker cx) m)
        (eseq (emit X (cfg_emit_run (cx_config cx)) WorkerCompleted (cx_worker cx) [])
              (report_of cx Completed (Some content) None data None))))"

definition finalize_plain_response ::
  "('w, 'x) run_ext_scheme \<Rightarrow> wctx \<Rightarrow> model_response \<Rightarrow> ('w ls, report) eff" where
  "finalize_plain_response X cx r =
     (let m = (mk_message Assistant (CText (or_str (mr_content r) [])))
                \<lparr>msg_reasoning := mr_reasoning r, msg_thinking := mr_thinking r\<rparr>
      in eseq (add_message m)
        (eseq (emit_assistant_message X (cx_config cx) (cx_worker cx) m)
        (eseq (emit X (cfg_emit_run (cx_config cx)) WorkerCompleted (cx_worker cx) [])
              (report_of cx Completed (mr_content r) (mr_reasoning r) PNone None))))"

definition pause ::
  "wctx \<Rightarrow> job \<Rightarrow> pending_action \<Rightarrow> ('w ls, report \<times> run_state) eff" where
  "pause cx j pending =
     gets (\<lambda>s. (build_report (cx_run_id cx) Paused None None PNone (ls_messages s)
                  (ls_tool_calls s) (ls_metrics s) (config_events (cx_config cx) s)
                  (Some pending) (ls_errors s),
                build_worker_state (cx_run_id cx) Paused (cx_worker cx) j (ls_messages s)
                  (ls_tool_calls s) (Some pending) (ls_metrics s) (ls_iteration s)))"

section \<open>Context limits\<close>

text \<open>\<open>WorkerRunner._apply_context_summary\<close>.\<close>

definition summarize_context ::
  "('w, 'x) run_ext_scheme \<Rightarrow> wctx \<Rightarrow> bool \<Rightarrow> int option \<Rightarrow> ('w ls, bool) eff" where
  "summarize_context X cx preserve_recent message_limit =
     ebind (gets (\<lambda>s. (ls_messages s, ls_metrics s))) (\<lambda>(messages, metrics).
     ebind (aapply_context_summary X (cx_config cx) (cx_model cx) (cx_worker cx)
              (cx_registered cx) preserve_recent message_limit messages metrics) (\<lambda>r.
     case r of
       None \<Rightarrow> ret False
     | Some (messages', metrics') \<Rightarrow>
         eseq (modify (\<lambda>s. s\<lparr>ls_messages := messages', ls_metrics := metrics'\<rparr>)) (ret True)))"

text \<open>\<open>aresolve_context_retry\<close>: \<open>None\<close> is the decision to retry.\<close>

definition resolve_context_retry ::
  "('w, 'x) run_ext_scheme \<Rightarrow> wctx \<Rightarrow> ('w ls, bool) eff \<Rightarrow> ('w ls, report option) eff" where
  "resolve_context_retry X cx apply_summary =
     (let failed = (\<lambda>tried. ebind
            (fail_report X cx (context_error_message (cx_registered cx) tried))
            (\<lambda>r. ret (Some r)))
      in if \<not> cfg_respect_context (cx_config cx) then failed False
         else ebind (gets ls_summaries) (\<lambda>n.
           if n \<ge> SUMMARY_ATTEMPT_LIMIT then failed True
           else ebind apply_summary (\<lambda>applied. if \<not> applied then failed True else ret None)))"

definition handle_context_limit ::
  "('w, 'x) run_ext_scheme \<Rightarrow> wctx \<Rightarrow> ('w ls, report option) eff" where
  "handle_context_limit X cx =
     ebind (resolve_context_retry X cx (summarize_context X cx False None)) (\<lambda>r.
     case r of
       Some rep \<Rightarrow> ret (Some rep)
     | None \<Rightarrow> eseq (modify (\<lambda>s. s\<lparr>ls_summaries := ls_summaries s + 1\<rparr>)) (ret None))"

end
