(* ===== verification/Worker_Plan.thy ===== *)
theory Worker_Plan
  imports Completion
begin

text \<open>
  The tool calls of a model response (\<^verbatim>\<open>worker_runner_helpers.py\<close>): \<open>plan_tool_calls\<close> decides
  which calls run, which get an immediate result and where the worker has to pause,
  \<open>aexecute_tool_calls\<close> runs them and writes their results into the conversation.
\<close>

record tool_plan =
  pl_ordered :: "tool_call list"
  pl_executable :: "(tool_call \<times> tool) list"
  pl_immediate :: "(string \<times> tool_result) list"
  pl_pending :: "pending_action option"
  pl_exceeded :: bool

definition empty_plan :: tool_plan where
  "empty_plan = \<lparr>pl_ordered = [], pl_executable = [], pl_immediate = [], pl_pending = None,
     pl_exceeded = False\<rparr>"

definition add_immediate :: "tool_call \<Rightarrow> string \<Rightarrow> tool_plan \<Rightarrow> tool_plan" where
  "add_immediate call e p = p\<lparr>pl_ordered := pl_ordered p @ [call],
     pl_immediate := dict_set (tc_id call) (error_result e) (pl_immediate p)\<rparr>"

definition skipped_error :: string where
  "skipped_error = ''Skipped: another tool requires confirmation first''"

text \<open>The calls after one that waits for the user.\<close>

fun skip_remaining ::
  "int \<Rightarrow> tool_call list \<Rightarrow> tool_call list \<Rightarrow> tool_plan \<Rightarrow> tool_plan \<times> tool_call list" where
  "skip_remaining limit [] tool_calls p = (p, tool_calls)"
| "skip_remaining limit (c # cs) tool_calls p =
     (if int (length tool_calls) \<ge> limit then (p\<lparr>pl_exceeded := True\<rparr>, tool_calls)
      else skip_remaining limit cs (tool_calls @ [c]) (add_immediate c skipped_error p))"

definition make_pending ::
  "pytext \<Rightarrow> string \<Rightarrow> tool \<Rightarrow> action_type \<Rightarrow> tool_call \<Rightarrow> pending_action" where
  "make_pending P i t a call =
     \<lparr>pa_action_id = i, pa_type = a, pa_tool_call = call, pa_prompt = tool_prompt P t a call,
      pa_options = pending_options a,
      pa_metadata = [(''tool'', PStr (tl_name t))] @
        (if truthy (tl_input_key t) then [(''input_key'', PStr (or_str (tl_input_key t) []))] else [])\<rparr>"

fun plan_calls ::
  "('w, 'x) run_ext_scheme \<Rightarrow> (string \<times> tool) list \<Rightarrow> int \<Rightarrow> tool_call list \<Rightarrow> tool_call list \<Rightarrow>
   tool_plan \<Rightarrow> 'w \<Rightarrow> (tool_plan \<times> tool_call list) \<times> 'w" where
  "plan_calls X allowed limit [] tool_calls p w = ((p, tool_calls), w)"
| "plan_calls X allowed limit (call # calls) tool_calls p w =
     (if int (length tool_calls) \<ge> limit then ((p\<lparr>pl_exceeded := True\<rparr>, tool_calls), w)
      else
        let tool_calls' = tool_calls @ [call]
        in if truthy (tc_error call)
           then plan_calls X allowed limit calls tool_calls'
                  (add_immediate call (or_str (tc_error call) []) p) w
           else case dict_get allowed (tc_name call) of
             None \<Rightarrow> plan_calls X allowed limit calls tool_calls'
                       (add_immediate call (''Tool not found: '' @ tc_name call) p) w
           | Some t \<Rightarrow>
               (case tool_action_type t of
                  Some a \<Rightarrow>
                    (case x_new_id X w of
                       (i, w') \<Rightarrow>
                         (skip_remaining limit calls tool_calls'
                            (p\<lparr>pl_pending := Some (make_pending (x_text X) i t a call)\<rparr>), w'))
                | None \<Rightarrow>
                    plan_calls X allowed limit calls tool_calls'
                      (p\<lparr>pl_ordered := pl_ordered p @ [call],
                         pl_executable := pl_executable p @ [(call, t)]\<rparr>) w))"

definition plan_tool_calls ::
  "('w, 'x) run_ext_scheme \<Rightarrow> (string \<times> tool) list \<Rightarrow> int \<Rightarrow> model_response \<Rightarrow> tool_call list \<Rightarrow>
   'w \<Rightarrow> (tool_plan \<times> tool_call list) \<times> 'w" where
  "plan_tool_calls X allowed limit response tool_calls w =
     plan_calls X allowed limit (mr_tool_calls response) tool_calls empty_plan w"

section \<open>Execution\<close>

definition run_executable ::
  "('w, 'x) run_ext_scheme \<Rightarrow> (tool_call \<times> tool) list \<Rightarrow> (('w, 'z) rt_scheme, tool_result list) eff" where
  "run_executable X xs =
     (case xs of
        [(call, t)] \<Rightarrow> ebind (on_world (aexecute_tool X t call False False)) (\<lambda>r. ret [r])
      | _ \<Rightarrow> gather X (map (\<lambda>(call, t). on_world (aexecute_tool X t call False False)) xs))"

definition collect_results ::
  "(tool_call \<times> tool) list \<Rightarrow> tool_result list \<Rightarrow> (string \<times> tool_result) list \<Rightarrow>
   (string \<times> tool_result) list" where
  "collect_results xs rs results =
     foldl (\<lambda>acc (x, r). dict_set (tc_id (fst x)) r acc) results (zip xs rs)"

text \<open>The result of a call goes into events, conversation and the list of tool calls.\<close>

definition finish_call ::
  "('w, 'x) run_ext_scheme \<Rightarrow> run_config \<Rightarrow> string \<Rightarrow> tool_call \<Rightarrow> tool_result \<Rightarrow> ('w ls, unit) eff" where
  "finish_call X c source call r =
     eseq (if truthy (tr_error r)
           then emit X (cfg_emit_run c) ToolFailed source
                  [(''tool_call_id'', PStr (tc_id call)), (''error'', opt_str (tr_error r))]
           else emit X (cfg_emit_run c) ToolCompleted source (tool_event_payload (x_text X) call r))
    (eseq (add_message (tool_message (x_text X) r call))
    (ebind (gets ls_tool_calls) (\<lambda>cs.
     ebind (from_sum (replace_tool_call cs (tool_call_with_result call r))) (\<lambda>cs'.
     modify (\<lambda>s. s\<lparr>ls_tool_calls := cs'\<rparr>)))))"

definition aexecute_tool_calls ::
  "('w, 'x) run_ext_scheme \<Rightarrow> run_config \<Rightarrow> tool_plan \<Rightarrow> ('w ls, unit) eff" where
  "aexecute_tool_calls X c p =
     eseq (each (\<lambda>(call, t). emit X (cfg_emit_run c) ToolStarted (tl_name t)
                    [(''tool_call_id'', PStr (tc_id call))]) (pl_executable p))
    (ebind (if pl_executable p = [] then ret [] else run_executable X (pl_executable p)) (\<lambda>rs.
     let results = collect_results (pl_executable p) rs (pl_immediate p)
     in each (\<lambda>call. finish_call X c (tc_name call) call
                 (dict_get_or results (tc_id call) (error_result ''Tool execution failed'')))
             (pl_ordered p)))"

section \<open>Laws of the plan\<close>

text \<open>
  What a plan does with the calls of a response: of those that are taken, each is answered in
  order, but the one that waits; those that are not taken exceed the limit.
\<close>

definition pending_calls :: "tool_plan \<Rightarrow> tool_call list" where
  "pending_calls p = (case pl_pending p of Some a \<Rightarrow> [pa_tool_call a] | None \<Rightarrow> [])"

lemma add_immediate_simps [simp]:
  "pl_ordered (add_immediate c e p) = pl_ordered p @ [c]"
  "pl_executable (add_immediate c e p) = pl_executable p"
  "pl_pending (add_immediate c e p) = pl_pending p"
  "pl_exceeded (add_immediate c e p) = pl_exceeded p"
  "pl_immediate (add_immediate c e p) = dict_set (tc_id c) (error_result e) (pl_immediate p)"
  by (simp_all add: add_immediate_def)

lemma pending_calls_simps [simp]:
  "pending_calls (add_immediate c e p) = pending_calls p"
  "pending_calls (p\<lparr>pl_exceeded := b\<rparr>) = pending_calls p"
  by (simp_all add: pending_calls_def)

lemma skip_remaining_spec:
  assumes "skip_remaining limit cs tcs p = (p', tcs')" "pl_exceeded p = False"
  shows "\<exists>n\<le>length cs. tcs' = tcs @ take n cs \<and> pl_ordered p' = pl_ordered p @ take n cs
     \<and> pl_executable p' = pl_executable p \<and> pl_pending p' = pl_pending p
     \<and> (pl_exceeded p' \<longleftrightarrow> n < length cs)
     \<and> int (length tcs') \<le> max (int (length tcs)) limit"
  using assms
proof (induction cs arbitrary: tcs p)
  case (Cons c cs)
  show ?case
  proof (cases "int (length tcs) \<ge> limit")
    case True with Cons.prems show ?thesis by (intro exI[of _ 0]) auto
  next
    case False
    with Cons.prems Cons.IH[of "tcs @ [c]" "add_immediate c skipped_error p"]
    obtain n where "n \<le> length cs" "tcs' = tcs @ [c] @ take n cs"
      "pl_ordered p' = pl_ordered p @ [c] @ take n cs" "pl_executable p' = pl_executable p"
      "pl_pending p' = pl_pending p" "pl_exceeded p' \<longleftrightarrow> n < length cs"
      "int (length tcs') \<le> max (int (length (tcs @ [c]))) limit" by auto
    with False show ?thesis by (intro exI[of _ "Suc n"]) auto
  qed
qed auto

lemma plan_calls_spec:
  assumes "plan_calls X allowed limit cs tcs p w = ((p', tcs'), w')"
    and "pl_exceeded p = False" "pl_pending p = None"
  shows "\<exists>n\<le>length cs. tcs' = tcs @ take n cs
     \<and> mset (pl_ordered p') + mset (pending_calls p') = mset (pl_ordered p) + mset (take n cs)
     \<and> (pl_exceeded p' \<longleftrightarrow> n < length cs)
     \<and> int (length tcs') \<le> max (int (length tcs)) limit
     \<and> set (pending_calls p') \<subseteq> set cs"
  using assms
proof (induction cs arbitrary: tcs p w)
  case Nil then show ?case by (auto simp: pending_calls_def)
next
  case (Cons c cs)
  show ?case
  proof (cases "int (length tcs) \<ge> limit")
    case True with Cons.prems show ?thesis by (intro exI[of _ 0]) (auto simp: pending_calls_def)
  next
    case lt: False
    have rec: ?thesis
      if "plan_calls X allowed limit cs (tcs @ [c]) q w = ((p', tcs'), w')"
        "pl_exceeded q = False" "pl_pending q = None" "pl_ordered q = pl_ordered p @ [c]" for q
    proof -
      from Cons.IH[OF that(1-3)] obtain n where "n \<le> length cs" "tcs' = tcs @ [c] @ take n cs"
        "mset (pl_ordered p') + mset (pending_calls p') = mset (pl_ordered q) + mset (take n cs)"
        "pl_exceeded p' \<longleftrightarrow> n < length cs"
        "int (length tcs') \<le> max (int (length (tcs @ [c]))) limit"
        "set (pending_calls p') \<subseteq> set cs" by auto
      with that(4) lt show ?thesis by (intro exI[of _ "Suc n"]) auto
    qed
    show ?thesis
    proof (cases "truthy (tc_error c)")
      case True
      with lt Cons.prems show ?thesis by (intro rec[of "add_immediate c _ p"]) (auto simp: Let_def)
    next
      case noerr: False
      show ?thesis
      proof (cases "dict_get allowed (tc_name c)")
        case None
        with noerr lt Cons.prems show ?thesis
          by (intro rec[of "add_immediate c _ p"]) (auto simp: Let_def)
      next
        case (Some t)
        show ?thesis
        proof (cases "tool_action_type t")
          case None
          with noerr Some lt Cons.prems show ?thesis
            by (intro rec[of "p\<lparr>pl_ordered := pl_ordered p @ [c],
                         pl_executable := pl_executable p @ [(c, t)]\<rparr>"]) (auto simp: Let_def)
        next
          case act: (Some a)
      obtain i w1 where i: "x_new_id X w = (i, w1)" by fastforce
      let ?q = "p\<lparr>pl_pending := Some (make_pending (x_text X) i t a c)\<rparr>"
      have "skip_remaining limit cs (tcs @ [c]) ?q = (p', tcs')"
        using lt Cons.prems noerr Some act i by (simp add: Let_def)
      from skip_remaining_spec[OF this] Cons.prems obtain n where
        n: "n \<le> length cs" "tcs' = tcs @ [c] @ take n cs"
        "pl_ordered p' = pl_ordered p @ take n cs" "pl_pending p' = pl_pending ?q"
        "pl_exceeded p' \<longleftrightarrow> n < length cs"
        "int (length tcs') \<le> max (int (length (tcs @ [c]))) limit" by auto
      then have "pending_calls p' = [c]" by (simp add: pending_calls_def make_pending_def)
      with n lt show ?thesis by (intro exI[of _ "Suc n"]) auto
        qed
      qed
    qed
  qed
qed

lemma plan_tool_calls_spec:
  assumes "plan_tool_calls X allowed limit r tcs w = ((p, tcs'), w')"
  shows "\<exists>n\<le>length (mr_tool_calls r). tcs' = tcs @ take n (mr_tool_calls r)
     \<and> mset (pl_ordered p) + mset (pending_calls p) = mset (take n (mr_tool_calls r))
     \<and> (pl_exceeded p \<longleftrightarrow> n < length (mr_tool_calls r))
     \<and> int (length tcs') \<le> max (int (length tcs)) limit"
  using plan_calls_spec[OF assms[unfolded plan_tool_calls_def]] by (auto simp: empty_plan_def)

text \<open>Only calls of allowed tools that need nobody's consent are run.\<close>

lemma skip_remaining_executable:
  "skip_remaining limit cs tcs p = (p', tcs') \<Longrightarrow> pl_executable p' = pl_executable p"
  by (induction cs arbitrary: tcs p) (auto split: if_splits)

lemma plan_calls_executable:
  assumes "plan_calls X allowed limit cs tcs p w = ((p', tcs'), w')"
    and "(c, t) \<in> set (pl_executable p')"
  shows "(c, t) \<in> set (pl_executable p) \<or>
    (c \<in> set cs \<and> \<not> truthy (tc_error c) \<and> dict_get allowed (tc_name c) = Some t
     \<and> tool_action_type t = None)"
  using assms
proof (induction cs arbitrary: tcs p w)
  case (Cons d cs)
  from Cons.prems Cons.IH show ?case
    by (fastforce simp: Let_def dest: skip_remaining_executable
        split: if_splits option.splits prod.splits)
qed simp

section \<open>Laws of the execution\<close>

text \<open>A tool call run by a worker has neither cancel event nor progress callback: it never raises.\<close>

lemma wp_plain [simp]: "wp (\<lambda>w. apfst Inr (m w)) Q E = (\<lambda>w. case m w of (a, w') \<Rightarrow> Q a w')"
  by (auto simp: wp_def fun_eq_iff split: prod.splits)

lemma wp_retry_wait: "(\<And>b w'. Q b w') \<Longrightarrow> wp (retry_wait X ce d) Q E w"
  by (auto simp: wp_def retry_wait_def split: prod.splits)

lemma async_retries_returns:
  "wp (async_retries X t args ce False left k prev) (\<lambda>_ _. True) (\<lambda>_ _. False) w"
proof (induction left arbitrary: k prev w)
  case (Suc left)
  then show ?case
    by (auto simp: report_progress_def Let_def split: prod.splits intro!: wp_retry_wait)
qed simp

lemma aexecute_tool_returns: "wp (aexecute_tool X t call ce False) (\<lambda>_ _. True) (\<lambda>_ _. False) w"
proof -
  have "\<exists>r w'. aexecute_tool X t call ce False w = (Inr r, w')"
  proof -
    obtain a w1 where a: "run_pre_hooks X t call w = (a, w1)" by fastforce
    show ?thesis
    proof (cases a)
      case (Inl e) with a show ?thesis by (simp add: aexecute_tool_def)
    next
      case (Inr u)
      show ?thesis
      proof (cases "validate_tool_call X call t")
        case (Inl e)
        with a Inr show ?thesis
          by (cases "finish_with_post_hooks X t call (invalid_arguments t e) w1")
            (simp add: aexecute_tool_def)
      next
        case v: (Inr args)
        obtain r w2 where r: "async_retries X t args ce False (nat (tl_retries t + 1)) 0 None w1 = (Inr r, w2)"
          using async_retries_returns[of X t args ce "nat (tl_retries t + 1)" 0 None w1]
          by (auto simp: wp_def split: prod.splits sum.splits)
        with a Inr v show ?thesis
          by (cases "finish_with_post_hooks X t call (no_result r) w2") (simp add: aexecute_tool_def)
      qed
    qed
  qed
  then show ?thesis by (auto simp: wp_def)
qed

lemma wp_aexecute_tool:
  "(\<And>r w'. Q r w') \<Longrightarrow> wp (aexecute_tool X t call ce False) Q E w"
  by (rule wp_mono[OF aexecute_tool_returns]) auto

lemma run_tasks_returns:
  assumes "\<And>i s. i \<in> set is \<Longrightarrow> I s \<Longrightarrow> wp (f i) (\<lambda>_. I) (\<lambda>_ _. False) s" "I s"
  shows "wp (run_tasks f is) (\<lambda>rs s. I s \<and> map fst rs = is) (\<lambda>_ _. False) s"
  using assms
proof (induction "is" arbitrary: s)
  case (Cons i "is")
  have "wp (f i) (\<lambda>_. I) (\<lambda>_ _. False) s" using Cons.prems by simp
  then show ?case
    by (simp, elim wp_mono) (use Cons.IH Cons.prems(1) in \<open>auto elim!: wp_mono\<close>)
qed simp

lemma wp_run_executable:
  assumes "\<And>rs w. length rs = length xs \<Longrightarrow> Q rs (s\<lparr>rt_world := w\<rparr>)"
  shows "wp (run_executable X xs) Q E s"
proof -
  define I where "I s' \<longleftrightarrow> (\<exists>w. s' = s\<lparr>rt_world := w\<rparr>)" for s'
  have I0: "I s" unfolding I_def by (rule exI[of _ "rt_world s"]) simp
  have step: "wp (aexecute_tool X t call False False) (\<lambda>a w. I (s'\<lparr>rt_world := w\<rparr>)) (\<lambda>_ _. False)
      (rt_world s')"
    if "I s'" for t call s'
    using that by (auto simp: I_def intro!: wp_aexecute_tool)
  have many: "wp (gather X (map (\<lambda>(call, t). on_world (aexecute_tool X t call False False)) xs)) Q E s"
    unfolding gather_def
  proof (simp, rule wp_mono[OF run_tasks_returns[where I = I]])
    fix i s' assume "i \<in> set (schedule X (rt_world s) (length xs))" "I s'"
    then show "wp (map (\<lambda>(call, t). on_world (aexecute_tool X t call False False)) xs ! i)
        (\<lambda>_. I) (\<lambda>_ _. False) s'"
      by (auto simp: schedule_perm(2) step split: prod.splits)
  next
    show "I s" by (rule I0)
  next
    fix rs :: "(nat \<times> tool_result) list" and s' assume "I s' \<and> map fst rs = schedule X (rt_world s) (length xs)"
    then show "Q (map (\<lambda>i. the (map_of rs i)) [0..<length xs]) s'"
      using assms by (auto simp: I_def)
  qed simp
  show ?thesis
  proof (cases "\<exists>call t. xs = [(call, t)]")
    case True
    then show ?thesis using assms by (auto simp: run_executable_def intro!: wp_aexecute_tool)
  next
    case False
    then have "run_executable X xs s =
        gather X (map (\<lambda>(call, t). on_world (aexecute_tool X t call False False)) xs) s"
      by (auto simp: run_executable_def split: list.splits)
    with many show ?thesis by (simp add: wp_def)
  qed
qed

end
