(* ===== verification/Worker_Loop.thy ===== *)
theory Worker_Loop
  imports Worker_Plan
begin

text \<open>
  \<open>WorkerRunner\<close> of \<^verbatim>\<open>worker_runner.py\<close>: messages and tools of a job, one turn of the model loop,
  the loop, \<open>arun\<close> and \<open>aresume\<close>.  The \<open>while\<close> loop is a recursion with fuel that keeps the
  source's guard; every round adds one to the iteration counter, so the number of rounds left plus
  one is enough fuel (proved in \<^verbatim>\<open>Worker_Laws\<close>).
\<close>

section \<open>Decisions of the user\<close>

definition CONFIRMATION_APPROVALS :: "string list" where
  "CONFIRMATION_APPROVALS = [''1'', ''approve'', ''approved'', ''confirm'', ''confirmed'', ''ok'',
     ''okay'', ''y'', ''yes'']"

definition CONFIRMATION_DECLINES :: "string list" where
  "CONFIRMATION_DECLINES = ['''', ''0'', ''cancel'', ''cancelled'', ''decline'', ''declined'',
     ''deny'', ''denied'', ''false'', ''n'', ''no'', ''reject'', ''rejected'']"

definition confirmation_approved :: "pyval \<Rightarrow> bool" where
  "confirmation_approved decision =
     (case decision of
        PBool b \<Rightarrow> b
      | PNone \<Rightarrow> False
      | PStr s \<Rightarrow>
          (let normalized = str_lower (str_strip s)
           in if normalized \<in> set CONFIRMATION_APPROVALS then True
              else if normalized \<in> set CONFIRMATION_DECLINES then False
              else normalized \<noteq> [])
      | v \<Rightarrow> py_bool v)"

section \<open>Messages and tools of a job\<close>

definition content_str :: "pytext \<Rightarrow> content \<Rightarrow> string" where
  "content_str P c = (case c of CText s \<Rightarrow> s | CBlocks bs \<Rightarrow> obj_str P (PList (map PDict bs)))"

definition build_messages :: "pytext \<Rightarrow> string option \<Rightarrow> job \<Rightarrow> message list" where
  "build_messages P instructions j =
     (let ms0 = (case job_initial_messages j of Some ms \<Rightarrow> ms | None \<Rightarrow> []);
          ms1 =
            (case system_message P instructions j of
               None \<Rightarrow> ms0
             | Some sc \<Rightarrow>
                 (case ms0 of
                    m # rest \<Rightarrow>
                      if msg_role m \<noteq> System then mk_message System (CText sc) # ms0
                      else m\<lparr>msg_content := CText (content_str P (msg_content m) @ nl @ nl @ sc)\<rparr> # rest
                  | [] \<Rightarrow> [mk_message System (CText sc)]))
      in ms1 @ [mk_message User (render_input P (job_input j))])"

definition resolve_tools :: "toolbelt \<Rightarrow> job \<Rightarrow> tool list" where
  "resolve_tools belt j =
     (case job_tools_override j of
        Some items \<Rightarrow>
          concat (map (\<lambda>i. case i of
              OvTool t \<Rightarrow> [t]
            | OvName n \<Rightarrow> (case toolbelt_resolve belt n of Some t \<Rightarrow> [t] | None \<Rightarrow> [])
            | OvOther v \<Rightarrow> []) items)
      | None \<Rightarrow> toolbelt_list belt)"

fun resolve_override :: "toolbelt \<Rightarrow> override_item list \<Rightarrow> string \<Rightarrow> tool option" where
  "resolve_override belt [] name = None"
| "resolve_override belt (OvTool t # items) name =
     (if tl_name t = name then Some t else resolve_override belt items name)"
| "resolve_override belt (OvName n # items) name =
     (if n = name then toolbelt_resolve belt n else resolve_override belt items name)"
| "resolve_override belt (OvOther v # items) name = resolve_override belt items name"

definition resolve_resume_tool :: "toolbelt \<Rightarrow> job \<Rightarrow> string \<Rightarrow> tool option" where
  "resolve_resume_tool belt j name =
     (case job_tools_override j of
        Some items \<Rightarrow> resolve_override belt items name
      | None \<Rightarrow> toolbelt_resolve belt name)"

text \<open>\<open>{t.name: t for t in tools}\<close>.\<close>

definition allowed_tools :: "tool list \<Rightarrow> (string \<times> tool) list" where
  "allowed_tools ts = foldl (\<lambda>d t. dict_set (tl_name t) t d) [] ts"

section \<open>A turn\<close>

definition if_context_limit ::
  "('w, 'x) run_ext_scheme \<Rightarrow> wctx \<Rightarrow> exc \<Rightarrow> ('w ls, 'a option \<times> report option) eff \<Rightarrow>
   ('w ls, 'a option \<times> report option) eff" where
  "if_context_limit X cx e otherwise =
     (if is_context_limit_error e
      then ebind (handle_context_limit X cx) (\<lambda>r. ret (None, r))
      else otherwise)"

text \<open>A structured answer: the report that ends the run, or \<open>None\<close> after a summary.\<close>

definition structured_answer ::
  "('w, 'x) run_ext_scheme \<Rightarrow> wctx \<Rightarrow> job \<Rightarrow> schema \<Rightarrow>
   ('w ls, model_response option \<times> report option) eff" where
  "structured_answer X cx j sch =
     ebind (attempt (astructured_completion X cx j sch)) (\<lambda>r.
     case r of
       Inl e \<Rightarrow> if_context_limit X cx e
                  (ebind (fail_report X cx (exc_msg e)) (\<lambda>rep. ret (None, Some rep)))
     | Inr data \<Rightarrow>
         ebind (finalize_structured_response X cx data) (\<lambda>rep. ret (None, Some rep)))"

definition acquire_turn_response ::
  "('w, 'x) run_ext_scheme \<Rightarrow> wctx \<Rightarrow> job \<Rightarrow> tool list \<Rightarrow>
   ('w ls, model_response option \<times> report option) eff" where
  "acquire_turn_response X cx j tools =
     (let c = cx_config cx;
          plain = (\<lambda>call. ebind (gets ls_messages) (\<lambda>messages.
            ebind (attempt (call messages)) (\<lambda>r.
            case r of
              Inr m \<Rightarrow> ret (Some m, None)
            | Inl e \<Rightarrow> if_context_limit X cx e (raise e))))
      in case job_response_schema j of
           None \<Rightarrow>
             if cfg_stream c
             then plain (\<lambda>messages.
                    astream_completion X c (cx_worker cx) (cx_model cx) messages tools j None)
             else plain (\<lambda>messages. acompletion X c (cx_model cx) messages tools j)
         | Some sch \<Rightarrow>
             if cfg_stream c \<and> tools = [] \<and> job_stream_mode j = Some StreamPreview
             then ebind (gets ls_messages) (\<lambda>messages.
               ebind (attempt (astream_completion X c (cx_worker cx) (cx_model cx) messages [] j
                                (Some sch))) (\<lambda>r.
               case r of
                 Inl e \<Rightarrow> if_context_limit X cx e (raise e)
               | Inr streamed \<Rightarrow>
                   eseq (record_turn_usage X cx (mr_usage streamed))
                     (case parse_structured_stream_json X sch (or_str (mr_content streamed) []) of
                        Inr data \<Rightarrow> ebind (finalize_structured_response X cx data)
                                      (\<lambda>rep. ret (None, Some rep))
                      | Inl e \<Rightarrow> structured_answer X cx j sch)))
             else if tools = [] then structured_answer X cx j sch
             else plain (\<lambda>messages. acompletion X c (cx_model cx) messages tools j))"

text \<open>The events of a pause.\<close>

definition emit_pause ::
  "('w, 'x) run_ext_scheme \<Rightarrow> wctx \<Rightarrow> pending_action \<Rightarrow> ('w ls, unit) eff" where
  "emit_pause X cx p =
     (let rid = cfg_emit_run (cx_config cx);
          call = pa_tool_call p;
          requested = (\<lambda>ty. emit X rid ty (tc_name call) [(''tool_call_id'', PStr (tc_id call))])
      in eseq (case pa_type p of
                 Confirmation \<Rightarrow> requested ToolConfirmationRequested
               | UserInput \<Rightarrow> requested ToolUserInputRequested
               | Handoff \<Rightarrow> ret ())
           (emit X rid WorkerPaused (cx_worker cx)
              [(''pending_action_type'', PStr (action_type_str (pa_type p)))]))"

definition assistant_message :: "model_response \<Rightarrow> message" where
  "assistant_message r =
     (mk_message Assistant (CText (or_str (mr_content r) [])))
       \<lparr>msg_reasoning := mr_reasoning r, msg_thinking := mr_thinking r,
        msg_tool_calls := mr_tool_calls r\<rparr>"

definition run_plan ::
  "('w, 'x) run_ext_scheme \<Rightarrow> wctx \<Rightarrow> (string \<times> tool) list \<Rightarrow> model_response \<Rightarrow>
   ('w ls, tool_plan) eff" where
  "run_plan X cx allowed r =
     ebind (gets ls_tool_calls) (\<lambda>tcs.
     ebind (ask (plan_tool_calls X allowed (cfg_max_tool_calls (cx_config cx)) r tcs)) (\<lambda>(p, tcs').
     eseq (modify (\<lambda>s. s\<lparr>ls_tool_calls := tcs'\<rparr>))
    (eseq (aexecute_tool_calls X (cx_config cx) p) (ret p))))"

text \<open>What follows the tool calls.  \<open>None\<close> is \<open>should_continue\<close>, \<open>Some\<close> the report and the state
  the run ends with.\<close>

definition after_plan ::
  "('w, 'x) run_ext_scheme \<Rightarrow> wctx \<Rightarrow> job \<Rightarrow> tool_plan \<Rightarrow>
   ('w ls, (report \<times> run_state option) option) eff" where
  "after_plan X cx j p =
     (if pl_exceeded p
      then ebind (fail_report X cx ''Max tool calls exceeded'') (\<lambda>rep. ret (Some (rep, None)))
      else case pl_pending p of
             Some a \<Rightarrow>
               eseq (emit_pause X cx a)
                 (ebind (pause cx j a) (\<lambda>(rep, st). ret (Some (rep, Some st))))
           | None \<Rightarrow> ret None)"

definition tool_turn ::
  "('w, 'x) run_ext_scheme \<Rightarrow> wctx \<Rightarrow> job \<Rightarrow> (string \<times> tool) list \<Rightarrow> model_response \<Rightarrow>
   ('w ls, (report \<times> run_state option) option) eff" where
  "tool_turn X cx j allowed r =
     (let m = assistant_message r
      in eseq (add_message m)
        (eseq (emit_assistant_message X (cx_config cx) (cx_worker cx) m)
        (ebind (run_plan X cx allowed r) (after_plan X cx j))))"

definition process_turn_response ::
  "('w, 'x) run_ext_scheme \<Rightarrow> wctx \<Rightarrow> job \<Rightarrow> (string \<times> tool) list \<Rightarrow> model_response \<Rightarrow>
   ('w ls, (report \<times> run_state option) option) eff" where
  "process_turn_response X cx j allowed r =
     eseq (record_turn_usage X cx (mr_usage r))
     (if mr_tool_calls r \<noteq> [] then tool_turn X cx j allowed r
      else case job_response_schema j of
             Some sch \<Rightarrow>
               ebind (structured_answer X cx j sch) (\<lambda>(_, rep).
               ret (map_option (\<lambda>x. (x, None)) rep))
           | None \<Rightarrow> ebind (finalize_plain_response X cx r) (\<lambda>rep. ret (Some (rep, None))))"

text \<open>The cost check: \<open>Inl\<close> where the comparison raises, \<open>Inr (Some m)\<close> when the budget is spent.\<close>

definition over_budget :: "pytext \<Rightarrow> run_config \<Rightarrow> pyval dict \<Rightarrow> exc + string option" where
  "over_budget P c totals =
     (case cfg_max_cost_usd c of
        None \<Rightarrow> Inr None
      | Some budget \<Rightarrow>
          (let spent = dict_get_or totals ''cost_usd'' (PFloat 0)
           in case as_num spent of
                None \<Rightarrow> Inl (TypeErr ''not supported between instances'')
              | Some n \<Rightarrow>
                  if num_of n > budget
                  then Inr (Some (''Cost budget exceeded: $'' @ fmt_g6 P spent @
                                  '' spent, budget is $'' @ fmt_g6 P (PFloat budget)))
                  else Inr None))"

text \<open>A conversation longer than \<open>max_context_messages\<close> is summarized first.\<close>

definition compact_if_long :: "('w, 'x) run_ext_scheme \<Rightarrow> wctx \<Rightarrow> ('w ls, unit) eff" where
  "compact_if_long X cx =
     ebind (gets (\<lambda>s. int (length (ls_messages s)))) (\<lambda>n.
     case cfg_max_context_messages (cx_config cx) of
       Some limit \<Rightarrow>
         if n > limit
         then ebind (summarize_context X cx True (Some limit)) (\<lambda>_. ret ()) else ret ()
     | None \<Rightarrow> ret ())"

definition model_turn ::
  "('w, 'x) run_ext_scheme \<Rightarrow> wctx \<Rightarrow> job \<Rightarrow> tool list \<Rightarrow>
   ('w ls, (report \<times> run_state option) option) eff" where
  "model_turn X cx j tools =
     ebind (acquire_turn_response X cx j tools) (\<lambda>(response, rep).
     case rep of
       Some x \<Rightarrow> ret (Some (x, None))
     | None \<Rightarrow>
         (case response of
            None \<Rightarrow> ret None
          | Some r \<Rightarrow> process_turn_response X cx j (allowed_tools tools) r))"

definition turn ::
  "('w, 'x) run_ext_scheme \<Rightarrow> wctx \<Rightarrow> job \<Rightarrow> tool list \<Rightarrow>
   ('w ls, (report \<times> run_state option) option) eff" where
  "turn X cx j tools =
     eseq (modify (\<lambda>s. s\<lparr>ls_iteration := ls_iteration s + 1\<rparr>))
    (ebind (gets rt_totals) (\<lambda>totals.
     ebind (from_sum (over_budget (x_text X) (cx_config cx) totals)) (\<lambda>over.
     case over of
       Some message \<Rightarrow> ebind (fail_report X cx message) (\<lambda>rep. ret (Some (rep, None)))
     | None \<Rightarrow> eseq (compact_if_long X cx) (model_turn X cx j tools))))"

section \<open>The loop\<close>

primrec loop_fuel ::
  "('w, 'x) run_ext_scheme \<Rightarrow> wctx \<Rightarrow> job \<Rightarrow> tool list \<Rightarrow> nat \<Rightarrow>
   ('w ls, (report \<times> run_state option) option) eff" where
  "loop_fuel X cx j tools 0 = ret None"
| "loop_fuel X cx j tools (Suc n) =
     ebind (gets ls_iteration) (\<lambda>i.
     if i < cfg_max_iterations (cx_config cx)
     then ebind (turn X cx j tools) (\<lambda>r.
       case r of Some x \<Rightarrow> ret (Some x) | None \<Rightarrow> loop_fuel X cx j tools n)
     else ebind (fail_report X cx ''Max iterations exceeded'') (\<lambda>rep. ret (Some (rep, None))))"

definition out_of_fuel :: exc where
  "out_of_fuel = Exc ''OutOfFuel'' []"

definition arun_loop ::
  "('w, 'x) run_ext_scheme \<Rightarrow> toolbelt \<Rightarrow> wctx \<Rightarrow> job \<Rightarrow> ('w ls, report \<times> run_state option) eff" where
  "arun_loop X belt cx j =
     ebind (gets ls_iteration) (\<lambda>i.
     ebind (loop_fuel X cx j (resolve_tools belt j)
              (nat (cfg_max_iterations (cx_config cx) - i) + 1)) (\<lambda>r.
     case r of Some x \<Rightarrow> ret x | None \<Rightarrow> raise out_of_fuel))"

section \<open>\<open>arun\<close> and \<open>aresume\<close>\<close>

text \<open>A worker's loop runs on a loop state of its own; the run keeps events, totals and world.\<close>

definition start_loop ::
  "message list \<Rightarrow> tool_call list \<Rightarrow> pyval dict \<Rightarrow> int \<Rightarrow> ('w, 'z) rt_scheme \<Rightarrow> 'w ls" where
  "start_loop messages tool_calls metrics iteration s =
     \<lparr>rt_events = rt_events s, rt_totals = rt_totals s, rt_world = rt_world s,
      ls_messages = messages, ls_tool_calls = tool_calls, ls_metrics = metrics, ls_errors = [],
      ls_iteration = iteration, ls_summaries = 0\<rparr>"

definition in_loop ::
  "message list \<Rightarrow> tool_call list \<Rightarrow> pyval dict \<Rightarrow> int \<Rightarrow> ('w ls, 'a) eff \<Rightarrow>
   (('w, 'z) rt_scheme, 'a) eff" where
  "in_loop messages tool_calls metrics iteration m s =
     (case m (start_loop messages tool_calls metrics iteration s) of
        (r, l) \<Rightarrow> (r, s\<lparr>rt_events := rt_events l, rt_totals := rt_totals l, rt_world := rt_world l\<rparr>))"

record worker =
  wk_name :: string
  wk_belt :: toolbelt
  wk_instructions :: "string option"

definition model_not_set :: string where
  "model_not_set = ''Worker model not set''"

text \<open>The report of a worker without a model.\<close>

definition no_model ::
  "('w, 'x) run_ext_scheme \<Rightarrow> run_config \<Rightarrow> string \<Rightarrow> string \<Rightarrow> message list \<Rightarrow>
   (('w, 'z) rt_scheme, report \<times> run_state option) eff" where
  "no_model X c rid worker messages =
     eseq (emit X (cfg_emit_run c) WorkerFailed worker [(''error'', PStr model_not_set)])
       (gets (\<lambda>s. (build_error_report rid messages [model_not_set] (config_events c s), None)))"

definition make_ctx :: "('w, 'x) run_ext_scheme \<Rightarrow> run_config \<Rightarrow> string \<Rightarrow> string \<Rightarrow> wctx" where
  "make_ctx X c worker model =
     \<lparr>cx_config = c, cx_model = model, cx_worker = worker, cx_run_id = cfg_run_id c,
      cx_registered = litellm_model_registered X model\<rparr>"

definition arun ::
  "('w, 'x) run_ext_scheme \<Rightarrow> worker \<Rightarrow> run_config \<Rightarrow> job \<Rightarrow> string option \<Rightarrow>
   (('w, 'z) rt_scheme, report \<times> run_state option) eff" where
  "arun X wk c j worker_model =
     (let model = model_name c worker_model;
          messages = build_messages (x_text X) (wk_instructions wk) j
      in if model = [] then no_model X c (cfg_run_id c) (wk_name wk) messages
         else in_loop messages [] [] 0
           (eseq (emit X (cfg_emit_run c) WorkerStarted (wk_name wk) [])
             (arun_loop X (wk_belt wk) (make_ctx X c (wk_name wk) model) j)))"

text \<open>The pending call of a paused run is answered: not found, declined or executed.\<close>

definition answer_pending ::
  "('w, 'x) run_ext_scheme \<Rightarrow> worker \<Rightarrow> run_config \<Rightarrow> job \<Rightarrow> pending_action \<Rightarrow> pyval \<Rightarrow>
   ('w ls, unit) eff" where
  "answer_pending X wk c j pending decision =
     (let call = pa_tool_call pending
      in case resolve_resume_tool (wk_belt wk) j (tc_name call) of
           None \<Rightarrow> finish_call X c (tc_name call) call
                     (error_result (''Tool not found: '' @ tc_name call))
         | Some t \<Rightarrow>
             if pa_type pending = Confirmation \<and> \<not> confirmation_approved decision
             then finish_call X c (tc_name call) call (error_result ''Tool execution declined'')
             else
               let call' = (if pa_type pending = UserInput
                            then update_arguments call (resume_argument_key pending) decision
                            else call)
               in eseq (emit X (cfg_emit_run c) ToolStarted (tl_name t)
                          [(''tool_call_id'', PStr (tc_id call'))])
                 (ebind (on_world (aexecute_tool X t call' False False))
                    (\<lambda>r. finish_call X c (tl_name t) call' r)))"

text \<open>The configuration is rewritten when it belongs to another run; \<open>live\<close> is its event list.\<close>

definition resume_config :: "run_config \<Rightarrow> run_state \<Rightarrow> event list \<Rightarrow> run_config" where
  "resume_config c st live =
     (if cfg_run_id c \<noteq> rs_run_id st then with_run_id c (rs_run_id st) live else c)"

definition resume_worker ::
  "('w, 'x) run_ext_scheme \<Rightarrow> worker \<Rightarrow> run_config \<Rightarrow> run_state \<Rightarrow> pending_action \<Rightarrow> pyval \<Rightarrow>
   string option \<Rightarrow> ('w ls, report \<times> run_state option) eff" where
  "resume_worker X wk c st pending decision worker_model =
     eseq (answer_pending X wk c (rs_job st) pending decision)
       (let model = model_name c worker_model
        in if model = []
           then ebind (gets ls_messages) (no_model X c (rs_run_id st) (wk_name wk))
           else eseq (emit X (cfg_emit_run c) WorkerStarted (wk_name wk) [])
                  (arun_loop X (wk_belt wk) (make_ctx X c (wk_name wk) model) (rs_job st)))"

definition aresume ::
  "('w, 'x) run_ext_scheme \<Rightarrow> worker \<Rightarrow> run_config \<Rightarrow> run_state \<Rightarrow> pyval \<Rightarrow> string option \<Rightarrow>
   (('w, 'z) rt_scheme, report \<times> run_state option) eff" where
  "aresume X wk c0 st decision worker_model =
     ebind (gets (\<lambda>s. resume_config c0 st (rt_events s))) (\<lambda>c.
     ebind (from_sum (totals_from_metrics (rs_metrics st))) (\<lambda>stored.
     eseq (modify (\<lambda>s. s\<lparr>rt_totals := restore_totals (rt_totals s) (Some (PDict stored))\<rparr>))
     (case rs_pending st of
        None \<Rightarrow>
          gets (\<lambda>s. (build_report (cfg_run_id c) Failed None None PNone (rs_messages st)
                       (rs_tool_calls st) (rs_metrics st) (config_events c s) None
                       [''No pending action''], None))
      | Some pending \<Rightarrow>
          in_loop (rs_messages st) (rs_tool_calls st) (rs_metrics st) (rs_iteration st)
            (resume_worker X wk c st pending decision worker_model))))"

end
