(* ===== verification/Worker_Laws.thy ===== *)
theory Worker_Laws
  imports Worker_Loop
begin

text \<open>
  Laws of the worker: what model calls leave alone, the invariant of the loop (the conversation
  stays well-formed, the tool calls within their limit, metrics and totals in step), and the
  outcome of \<open>arun\<close> and \<open>aresume\<close>.
\<close>

named_theorems quiet "statements that touch nothing but events and world"

section \<open>Statements that touch only events and world\<close>

definition core :: "'w ls \<Rightarrow> pyval dict \<times> message list \<times> tool_call list \<times> pyval dict \<times> string list \<times> int \<times> nat"
where
  "core s = (rt_totals s, ls_messages s, ls_tool_calls s, ls_metrics s, ls_errors s,
     ls_iteration s, ls_summaries s)"

text \<open>\<open>m\<close> leaves the core of the loop state and returns values with \<open>R\<close>.\<close>

definition yields :: "('w ls, 'a) eff \<Rightarrow> ('a \<Rightarrow> bool) \<Rightarrow> bool" where
  "yields m R \<longleftrightarrow>
     (\<forall>s. wp m (\<lambda>a s'. R a \<and> core s' = core s) (\<lambda>_ s'. core s' = core s) s)"

abbreviation silent :: "('w ls, 'a) eff \<Rightarrow> bool" where
  "silent m \<equiv> yields m (\<lambda>_. True)"

lemma wp_yields:
  assumes "yields m R" "\<And>a s'. R a \<Longrightarrow> core s' = core s \<Longrightarrow> Q a s'" "\<And>e s'. core s' = core s \<Longrightarrow> E e s'"
  shows "wp m Q E s"
  using assms(1) unfolding yields_def by (elim allE[of _ s] wp_mono) (auto intro: assms(2,3))

lemma yields_mono: "yields m R \<Longrightarrow> (\<And>a. R a \<Longrightarrow> R' a) \<Longrightarrow> yields m R'"
  unfolding yields_def
proof (intro allI)
  fix s
  assume m: "\<forall>s. wp m (\<lambda>a s'. R a \<and> core s' = core s) (\<lambda>_ s'. core s' = core s) s"
    and R: "\<And>a. R a \<Longrightarrow> R' a"
  show "wp m (\<lambda>a s'. R' a \<and> core s' = core s) (\<lambda>_ s'. core s' = core s) s"
    by (rule wp_mono[OF m[rule_format]]) (auto intro: R)
qed

lemma yields_ret [quiet]: "R a \<Longrightarrow> yields (ret a) R"
  by (simp add: yields_def)

lemma yields_raise [quiet]: "yields (raise e) R"
  by (simp add: yields_def)

lemma yields_from_sum [quiet]: "(\<And>a. r = Inr a \<Longrightarrow> R a) \<Longrightarrow> yields (from_sum r) R"
  by (auto simp: yields_def split: sum.splits)

lemma yields_gets [quiet]: "(\<And>s. R (f s)) \<Longrightarrow> yields (gets f) R"
  by (simp add: yields_def)

lemma yieldsI:
  "(\<And>s. wp m (\<lambda>a s'. R a \<and> core s' = core s) (\<lambda>_ s'. core s' = core s) s) \<Longrightarrow> yields m R"
  by (simp add: yields_def)

lemma yields_bind:
  assumes m: "yields m R1" and f: "\<And>a. R1 a \<Longrightarrow> yields (f a) R"
  shows "yields (ebind m f) R"
proof (rule yieldsI, simp, rule wp_yields[OF m])
  fix s s' :: "'a ls" and a assume "R1 a" "core s' = core s"
  then show "wp (f a) (\<lambda>a s'. R a \<and> core s' = core s) (\<lambda>_ s'. core s' = core s) s'"
    by (intro wp_yields[OF f]) auto
qed

lemma silent_bind [quiet]: "silent m \<Longrightarrow> (\<And>a. yields (f a) R) \<Longrightarrow> yields (ebind m f) R"
  by (rule yields_bind)

lemma silent_seq [quiet]: "silent m \<Longrightarrow> yields k R \<Longrightarrow> yields (eseq m k) R"
  unfolding eseq_def by (rule silent_bind)

lemma yields_try [quiet]:
  assumes m: "yields m R" and h: "\<And>e. yields (h e) R"
  shows "yields (try_with m h) R"
proof (rule yieldsI, simp, rule wp_yields[OF m])
  fix s s' :: "'a ls" and e assume "core s' = core s"
  then show "wp (h e) (\<lambda>a s'. R a \<and> core s' = core s) (\<lambda>_ s'. core s' = core s) s'"
    by (intro wp_yields[OF h]) auto
qed auto

lemma yields_on_world [quiet]: "silent (on_world m)"
  by (auto simp: yields_def core_def wp_def on_world_def split: prod.splits sum.splits)

lemma yields_ask [quiet]: "(\<And>w. R (fst (f w))) \<Longrightarrow> yields (ask f) R"
proof (rule yieldsI)
  fix s :: "'a ls" assume R: "\<And>w. R (fst (f w))"
  obtain a w' where a: "f (rt_world s) = (a, w')" by fastforce
  with R[of "rt_world s"] show "wp (ask f) (\<lambda>a s'. R a \<and> core s' = core s)
      (\<lambda>_ s'. core s' = core s) s"
    by (simp add: core_def)
qed

lemma yields_emit [quiet]: "silent (emit X rid ty src payload)"
  by (auto simp: yields_def core_def intro!: wp_emit)

lemma yields_if_emit:
  "silent (if b then emit X rid ty src payload else emit X rid' ty' src' payload')"
  by (simp add: yields_emit)

lemma yields_each [quiet]: "(\<And>x. x \<in> set xs \<Longrightarrow> silent (f x)) \<Longrightarrow> silent (each f xs)"
  by (induction xs) (auto intro!: quiet)

lemma yields_collect:
  "(\<And>x. x \<in> set xs \<Longrightarrow> yields (f x) R) \<Longrightarrow> yields (collect f xs) (\<lambda>ys. \<forall>y\<in>set ys. R y)"
proof (induction xs)
  case (Cons x xs)
  show ?case
    unfolding collect.simps
    by (rule yields_bind[of _ R] yields_bind[of _ "\<lambda>ys. \<forall>y\<in>set ys. R y"] | (auto intro!: quiet Cons)[1])+
qed (auto intro!: quiet)

lemma yields_adapter_call:
  "(\<And>w r cbs w'. f w = ((Inr r, cbs), w') \<Longrightarrow> R r) \<Longrightarrow> yields (adapter_call X c f) R"
  unfolding adapter_call_def
  by (rule yields_bind[of _ "\<lambda>rc. \<forall>r. fst rc = Inr r \<longrightarrow> R r"])
    (auto intro!: quiet split: prod.splits, metis prod.collapse)

lemma silent_adapter_call [quiet]: "silent (adapter_call X c f)"
  by (rule yields_adapter_call) simp

section \<open>Model calls\<close>

definition named_calls :: "model_response \<Rightarrow> bool" where
  "named_calls m \<longleftrightarrow> (\<forall>c\<in>set (mr_tool_calls m). tc_id c \<noteq> [])"

text \<open>
  What the worker relies on: providers and \<open>new_id\<close> give no empty identifiers.
\<close>

definition good_ids :: "('w, 'x) run_ext_scheme \<Rightarrow> bool" where
  "good_ids X \<longleftrightarrow>
     (\<forall>rq w m cbs w'. x_acomplete X rq w = ((Inr (CResponse m), cbs), w') \<longrightarrow> named_calls m) \<and>
     (\<forall>rq w m cbs w'. x_complete X rq w = ((Inr (CResponse m), cbs), w') \<longrightarrow> named_calls m) \<and>
     (\<forall>w. fst (x_new_id X w) \<noteq> [])"

definition named_completion :: "completion \<Rightarrow> bool" where
  "named_completion r = (case r of CResponse m \<Rightarrow> named_calls m | _ \<Rightarrow> True)"

lemma named_completion_simps [simp]:
  "named_completion (CResponse m) = named_calls m" "named_completion (CStream chs f)"
  "named_completion (COther v)"
  by (simp_all add: named_completion_def)

lemma good_ids_complete:
  assumes "good_ids X"
  shows "x_acomplete X rq w = ((Inr r, cbs), w') \<Longrightarrow> named_completion r"
    "x_complete X rq w = ((Inr r, cbs), w') \<Longrightarrow> named_completion r"
  using assms unfolding good_ids_def by (cases r; fastforce)+

lemma yields_complete:
  assumes "good_ids X"
  shows "yields (adapter_call X c (x_acomplete X rq)) named_completion"
    "yields (adapter_call X c (x_complete X rq)) named_completion"
  by (auto intro!: yields_adapter_call dest: good_ids_complete[OF assms])

lemma named_empty [simp]: "named_calls empty_response"
  by (simp add: named_calls_def empty_response_def)

lemma yields_acompletion:
  assumes "good_ids X"
  shows "yields (acompletion X c model ms tools j) named_calls"
  unfolding acompletion_def Let_def
  by (rule yields_bind[of _ named_completion])
    (auto intro!: quiet yields_complete[OF assms] split: completion.splits)

lemma yields_process_deltas [quiet]: "silent (process_deltas X c wk known fm ds pos acc)"
  by (induction ds arbitrary: pos acc)
    (auto intro!: quiet simp: emit_token_def split: prod.splits sum.splits)

lemma yields_process_chunks [quiet]: "silent (process_chunks X c wk known chs acc)"
  by (induction chs arbitrary: acc)
    (auto intro!: quiet simp: process_chunk_def emit_token_def split: prod.splits)

lemma yields_streamed_tool_call:
  assumes "good_ids X"
  shows "yields (streamed_tool_call X st) (\<lambda>c. tc_id c \<noteq> [])"
proof -
  have id: "yields (if truthy (ts_id st) then ret (or_str (ts_id st) []) else ask (x_new_id X))
      (\<lambda>i. i \<noteq> [])"
    using assms by (auto simp: good_ids_def truthy_def intro!: quiet split: option.splits)
  show ?thesis
    unfolding streamed_tool_call_def Let_def case_prod_beta
    by (rule yields_bind[OF id]) (auto intro!: quiet)
qed

lemma yields_stream_response:
  assumes "good_ids X"
  shows "yields (stream_response X acc) named_calls"
  unfolding stream_response_def streamed_tool_calls_def
  by (intro silent_bind quiet yields_bind[OF yields_collect[OF yields_streamed_tool_call[OF assms]]])
    (auto simp: named_calls_def)

lemma yields_consume_stream:
  assumes "good_ids X"
  shows "yields (consume_stream X c wk known chs f) named_calls"
  unfolding consume_stream_def
  by (auto intro!: quiet yields_stream_response[OF assms] split: option.splits)

lemma yields_astream:
  assumes "good_ids X"
  shows "yields (astream_completion X c wk model ms tools j sch) named_calls"
proof -
  have "yields (open_stream X c model ms tools j sch)
      (\<lambda>r. \<forall>x. r = Some x \<longrightarrow> named_completion x)"
    unfolding open_stream_def Let_def
    by (auto intro!: quiet yields_bind[OF yields_complete(1)[OF assms]]
        yields_bind[OF yields_complete(2)[OF assms]])
  then show ?thesis
    unfolding astream_completion_def
    by (rule yields_bind)
      (auto intro!: quiet yields_acompletion[OF assms] yields_consume_stream[OF assms]
        split: option.splits completion.splits)
qed

end
