(* ===== verification/Worker_Invariant.thy ===== *)
theory Worker_Invariant
  imports Worker_Laws
begin

text \<open>
  The invariant of the worker's loop and the outcome of a run: \<open>loop_inv\<close> holds between turns,
  every turn keeps it or ends the run with a \<open>good_outcome\<close>, and so do \<open>arun\<close> and \<open>aresume\<close>.
  The flag \<open>a\<close> adds the accounting part, which needs a run whose totals belong to one worker.
\<close>

text \<open>The part of the loop state that answering tool calls leaves alone.\<close>

definition aux :: "'w ls \<Rightarrow> pyval dict \<times> pyval dict \<times> string list \<times> int \<times> nat" where
  "aux s = (rt_totals s, ls_metrics s, ls_errors s, ls_iteration s, ls_summaries s)"

section \<open>Answering calls\<close>

lemma wp_silent:
  assumes "silent m" "\<And>a s'. core s' = core s \<Longrightarrow> Q a s'"
  shows "wp m Q anything s"
  by (rule wp_yields[OF assms(1)]) (auto intro: assms(2))

lemma wp_add_message [simp]:
  "wp (add_message m) Q E = (\<lambda>s. Q () (s\<lparr>ls_messages := ls_messages s @ [m]\<rparr>))"
  by (simp add: add_message_def)

lemma wp_finish_call:
  assumes "tc_id call \<in> tc_id ` set (ls_tool_calls s)"
    and "\<And>s'. aux s' = aux s \<Longrightarrow> ls_messages s' = ls_messages s @ [tool_message (x_text X) r call] \<Longrightarrow>
      map tc_id (ls_tool_calls s') = map tc_id (ls_tool_calls s) \<Longrightarrow> Q () s'"
  shows "wp (finish_call X c src call r) Q anything s"
proof -
  have ev: "silent (if truthy (tr_error r)
      then emit X (cfg_emit_run c) ToolFailed src
             [(''tool_call_id'', PStr (tc_id call)), (''error'', opt_str (tr_error r))]
      else emit X (cfg_emit_run c) ToolCompleted src (tool_event_payload (x_text X) call r))"
    by (auto intro: quiet)
  show ?thesis
    unfolding finish_call_def
  proof (simp only: wp_simps wp_add_message, rule wp_silent[OF ev])
    fix a :: unit and s1 :: "'a ls" assume s1: "core s1 = core s"
    with assms(1) have "tc_id (tool_call_with_result call r) \<in> tc_id ` set (ls_tool_calls s1)"
      by (simp add: core_def)
    from replace_tool_call_present[OF this] obtain cs where
      cs: "replace_tool_call (ls_tool_calls s1) (tool_call_with_result call r) = Inr cs" by blast
    with s1 replace_tool_call_ids[OF cs] show "case replace_tool_call
        (ls_tool_calls (s1\<lparr>ls_messages := ls_messages s1 @ [tool_message (x_text X) r call]\<rparr>))
        (tool_call_with_result call r) of
        Inl e \<Rightarrow> True
      | Inr cs' \<Rightarrow> Q () (s1\<lparr>ls_messages := ls_messages s1 @ [tool_message (x_text X) r call],
          ls_tool_calls := cs'\<rparr>)"
      by (auto simp: core_def aux_def intro!: assms(2))
  qed
qed

lemma wp_answer_all:
  assumes "waits_for (map tc_id calls @ rest) (ls_messages s)"
    and "\<forall>c\<in>set calls. tc_id c \<noteq> [] \<and> tc_id c \<in> tc_id ` set (ls_tool_calls s)"
  shows "wp (each (\<lambda>call. finish_call X c (src call) call (res call)) calls)
    (\<lambda>_ s'. waits_for rest (ls_messages s') \<and> aux s' = aux s
       \<and> map tc_id (ls_tool_calls s') = map tc_id (ls_tool_calls s)) anything s"
  using assms
proof (induction calls arbitrary: s)
  case (Cons d ds)
  have d: "tc_id d \<in> tc_id ` set (ls_tool_calls s)" "tc_id d \<noteq> []" using Cons.prems by auto
  show ?case
  proof (simp, rule wp_finish_call[OF d(1)])
    fix s' :: "'a ls" assume s': "aux s' = aux s"
      "ls_messages s' = ls_messages s @ [tool_message (x_text X) (res d) d]"
      "map tc_id (ls_tool_calls s') = map tc_id (ls_tool_calls s)"
    have "waits_for (remove1 (tc_id d) (map tc_id (d # ds) @ rest)) (ls_messages s')"
      unfolding s'(2) by (rule waits_for_answer) (use Cons.prems d in auto)
    then have w: "waits_for (map tc_id ds @ rest) (ls_messages s')" by simp
    have ids: "tc_id ` set (ls_tool_calls s') = tc_id ` set (ls_tool_calls s)"
      using s'(3) by (metis list.set_map)
    from Cons.IH[OF w] ids Cons.prems(2) s'
    show "wp (each (\<lambda>call. finish_call X c (src call) call (res call)) ds)
      (\<lambda>_ s'. waits_for rest (ls_messages s') \<and> aux s' = aux s
         \<and> map tc_id (ls_tool_calls s') = map tc_id (ls_tool_calls s)) anything s'"
      by simp
  qed
qed simp

lemma wp_aexecute_tool_calls:
  assumes "waits_for (map tc_id (pl_ordered p) @ rest) (ls_messages s)"
    and "\<forall>c\<in>set (pl_ordered p). tc_id c \<noteq> [] \<and> tc_id c \<in> tc_id ` set (ls_tool_calls s)"
  shows "wp (aexecute_tool_calls X c p)
    (\<lambda>_ s'. waits_for rest (ls_messages s') \<and> aux s' = aux s
       \<and> map tc_id (ls_tool_calls s') = map tc_id (ls_tool_calls s)) anything s"
proof -
  have st: "silent (each (\<lambda>(call, t). emit X (cfg_emit_run c) ToolStarted (tl_name t)
      [(''tool_call_id'', PStr (tc_id call))]) (pl_executable p))"
    by (auto intro!: quiet split: prod.splits)
  have ex: "silent (if pl_executable p = [] then ret [] else run_executable X (pl_executable p))"
    by (auto intro!: quiet yieldsI wp_run_executable simp: core_def)
  show ?thesis
    unfolding aexecute_tool_calls_def Let_def
  proof (simp only: wp_eseq wp_ebind, rule wp_silent[OF st], rule wp_silent[OF ex])
    fix u :: unit and rs and s1 s2 :: "'a ls" assume "core s1 = core s" "core s2 = core s1"
    then have c: "core s2 = core s" by simp
    show "wp (each (\<lambda>call. finish_call X c (tc_name call) call
          (dict_get_or (collect_results (pl_executable p) rs (pl_immediate p)) (tc_id call)
            (error_result ''Tool execution failed''))) (pl_ordered p))
      (\<lambda>_ s'. waits_for rest (ls_messages s') \<and> aux s' = aux s
       \<and> map tc_id (ls_tool_calls s') = map tc_id (ls_tool_calls s)) anything s2"
      by (rule wp_mono[OF wp_answer_all[where rest = rest]]) (use assms c in \<open>auto simp: core_def aux_def\<close>)
  qed
qed

section \<open>The invariant\<close>

definition loop_inv :: "bool \<Rightarrow> int \<Rightarrow> wctx \<Rightarrow> 'w ls \<Rightarrow> bool" where
  "loop_inv a i cx s \<longleftrightarrow> conversation_ok (ls_messages s)
     \<and> int (length (ls_tool_calls s)) \<le> cfg_max_tool_calls (cx_config cx)
     \<and> (a \<longrightarrow> in_step (ls_metrics s) (rt_totals s)) \<and> ls_iteration s = i"

text \<open>A state a run can be resumed from: exactly the call the user is asked about is unanswered.\<close>

definition paused_ok :: "int \<Rightarrow> run_state \<Rightarrow> bool" where
  "paused_ok limit st \<longleftrightarrow> rs_status st = Paused \<and> int (length (rs_tool_calls st)) \<le> limit \<and>
     (\<exists>p. rs_pending st = Some p \<and> waits_for [tc_id (pa_tool_call p)] (rs_messages st)
        \<and> tc_id (pa_tool_call p) \<noteq> []
        \<and> tc_id (pa_tool_call p) \<in> tc_id ` set (rs_tool_calls st))"

definition good_outcome ::
  "bool \<Rightarrow> int \<Rightarrow> report \<times> run_state option \<Rightarrow> pyval dict \<Rightarrow> bool" where
  "good_outcome a limit out totals \<longleftrightarrow>
     (case out of (rep, st) \<Rightarrow>
        int (length (rep_tool_calls rep)) \<le> limit \<and>
        (case rep_status rep of
           Completed \<Rightarrow> st = None \<and> rep_pending rep = None \<and> conversation_ok (rep_messages rep)
             \<and> (a \<longrightarrow> in_step (rep_metrics rep) totals)
         | Failed \<Rightarrow> st = None \<and> rep_pending rep = None \<and> rep_errors rep \<noteq> []
         | Paused \<Rightarrow>
             (\<exists>s. st = Some s \<and> paused_ok limit s \<and> rs_pending s = rep_pending rep
                \<and> rs_messages s = rep_messages rep \<and> (a \<longrightarrow> in_step (rs_metrics s) totals))
         | Running \<Rightarrow> False))"

abbreviation outcome :: "bool \<Rightarrow> wctx \<Rightarrow> report \<times> run_state option \<Rightarrow> 'w ls \<Rightarrow> bool" where
  "outcome a cx out s \<equiv> good_outcome a (cfg_max_tool_calls (cx_config cx)) out (rt_totals s)"

lemma loop_inv_core: "loop_inv a i cx s \<Longrightarrow> core s' = core s \<Longrightarrow> loop_inv a i cx s'"
  by (auto simp: core_def loop_inv_def)

lemma wp_fail_report:
  assumes "int (length (ls_tool_calls s)) \<le> cfg_max_tool_calls (cx_config cx)"
  shows "wp (fail_report X cx m) (\<lambda>rep s'. outcome a cx (rep, None) s' \<and> rep_status rep = Failed) anything s"
  unfolding fail_report_def report_of_def
  by (simp, rule wp_silent[OF yields_emit])
    (use assms in \<open>auto simp: good_outcome_def build_report_def core_def\<close>)

lemma wp_fail_outcome:
  assumes "int (length (ls_tool_calls s)) \<le> cfg_max_tool_calls (cx_config cx)"
    "\<And>rep s'. outcome a cx (rep, None) s' \<Longrightarrow> Q rep s'"
  shows "wp (fail_report X cx m) Q anything s"
  by (rule wp_mono[OF wp_fail_report[OF assms(1)]]) (auto intro: assms(2))

lemma conversation_ok_snoc:
  "conversation_ok ms \<Longrightarrow> msg_role m \<noteq> ToolRole \<Longrightarrow> msg_tool_calls m = [] \<Longrightarrow>
   conversation_ok (ms @ [m])"
  by (rule conversation_ok_append) (auto simp: scan_step.simps)

lemma wp_finalize:
  assumes inv: "loop_inv a i cx s"
    and m: "msg_role m = Assistant" "msg_tool_calls m = []"
    and Q: "\<And>rep s'. outcome a cx (rep, None) s' \<Longrightarrow> Q rep s'"
  shows "wp (eseq (add_message m)
      (eseq (emit_assistant_message X (cx_config cx) (cx_worker cx) m)
      (eseq (emit X (cfg_emit_run (cx_config cx)) WorkerCompleted (cx_worker cx) [])
            (report_of cx Completed content reasoning data None)))) Q anything s"
  unfolding emit_assistant_message_def report_of_def
proof (simp only: wp_simps wp_add_message, rule wp_silent[OF yields_emit],
    rule wp_silent[OF yields_emit], rule Q)
  fix u u' :: unit and s1 s2 :: "'a ls"
  assume s: "core s1 = core (s\<lparr>ls_messages := ls_messages s @ [m]\<rparr>)" "core s2 = core s1"
  have "conversation_ok (ls_messages s @ [m])"
    using inv m by (intro conversation_ok_snoc) (auto simp: loop_inv_def)
  with s inv show "outcome a cx (build_report (cfg_run_id (cx_config cx)) Completed content reasoning data
      (ls_messages s2) (ls_tool_calls s2) (ls_metrics s2) (config_events (cx_config cx) s2) None
      (ls_errors s2), None) s2"
    by (auto simp: good_outcome_def build_report_def core_def loop_inv_def)
qed

lemma wp_finalize_structured:
  assumes "loop_inv a i cx s" "\<And>rep s'. outcome a cx (rep, None) s' \<Longrightarrow> Q rep s'"
  shows "wp (finalize_structured_response X cx data) Q anything s"
  unfolding finalize_structured_response_def Let_def by (rule wp_finalize[OF assms(1)]) (auto intro: assms(2))

lemma wp_finalize_plain:
  assumes "loop_inv a i cx s" "\<And>rep s'. outcome a cx (rep, None) s' \<Longrightarrow> Q rep s'"
  shows "wp (finalize_plain_response X cx r) Q anything s"
  unfolding finalize_plain_response_def Let_def by (rule wp_finalize[OF assms(1)]) (auto intro: assms(2))

section \<open>Accounting and compaction keep the invariant\<close>

lemma wp_record_turn_usage:
  assumes "loop_inv a i cx s" "\<And>s'. loop_inv a i cx s' \<Longrightarrow> Q () s'" "\<And>e. E e s"
  shows "wp (record_turn_usage X cx u) Q E s"
proof -
  have "wp (record_turn_usage X cx u) (\<lambda>_. loop_inv a i cx) (\<lambda>_ s'. s' = s) s"
  proof (cases "record_usage X (cx_model cx) u (ls_metrics s) (rt_totals s)")
    case (Inl e) then show ?thesis by (simp add: wp_def record_turn_usage_def)
  next
    case (Inr mt)
    have "a \<longrightarrow> in_step (fst mt) (snd mt)"
    proof
      assume a
      with assms(1) have st: "in_step (ls_metrics s) (rt_totals s)" by (simp add: loop_inv_def)
      show "in_step (fst mt) (snd mt)"
      proof (cases "py_bool u")
        case False with Inr st show ?thesis by (auto simp: record_usage_def)
      next
        case True
        with Inr obtain d where d: "record_turn (ls_metrics s) (rt_totals s) d
            (usage_cost (x_pricing X (cx_model cx)) d) = Inr mt"
          by (auto simp: record_usage_def split: pyval.splits)
        obtain m' t' where "record_turn (ls_metrics s) (rt_totals s) d
            (usage_cost (x_pricing X (cx_model cx)) d) = Inr (m', t')" "in_step m' t'"
          using record_turn_in_step[OF st] by blast
        with d show ?thesis by auto
      qed
    qed
    with Inr assms(1) show ?thesis
      by (auto simp: wp_def record_turn_usage_def loop_inv_def split: prod.splits)
  qed
  then show ?thesis by (rule wp_mono) (auto intro: assms(2,3))
qed

text \<open>Compaction adds entries to the metrics that are no usage figures.\<close>

lemma in_step_update_default:
  assumes "in_step m t" "k \<noteq> ''cost_usd''" "k \<noteq> ''usage''"
  shows "in_step (update_default k f m) t"
proof -
  let ?m = "update_default k f m"
  have "dict_get ?m ''cost_usd'' = dict_get m ''cost_usd''" "dict_get ?m ''usage'' = dict_get m ''usage''"
    using assms(2,3) by (simp_all add: update_default_def)
  moreover from this have "metrics_usage ?m = metrics_usage m" by (simp add: metrics_usage_def)
  ultimately show ?thesis using assms(1) unfolding in_step_def metrics_ok_def by metis
qed

lemma loop_inv_compacted:
  assumes inv: "loop_inv a i cx s" and p: "summary_split (ls_messages s) pr limit = (sys, head, tail)"
    and k: "k \<noteq> ''cost_usd''" "k \<noteq> ''usage''" "k' \<noteq> ''cost_usd''" "k' \<noteq> ''usage''"
    and s': "core s' = core s" and m: "m \<in> {ls_metrics s, update_default k f (ls_metrics s)}"
  shows "loop_inv a i cx (s'\<lparr>ls_messages := sys @ [summary_message x] @ tail,
    ls_metrics := update_default k' g m\<rparr>)"
  using inv p k s' m
  by (auto simp: loop_inv_def core_def intro!: in_step_update_default
      dest: summary_conversation_ok[where summary = x])

lemma wp_summarize_context:
  assumes inv: "loop_inv a i cx s" and Q: "\<And>b s'. loop_inv a i cx s' \<Longrightarrow> Q b s'"
  shows "wp (summarize_context X cx pr limit) Q anything s"
proof -
  obtain sys head tail where p: "summary_split (ls_messages s) pr limit = (sys, head, tail)"
    by (cases "summary_split (ls_messages s) pr limit") auto
  have committed: "wp (commit_context_summary X (cx_config cx) (cx_model cx) (cx_worker cx)
      (cx_registered cx) sys head tail x (ls_metrics s))
      (\<lambda>mm s'. Q True (s'\<lparr>ls_messages := fst mm, ls_metrics := snd mm\<rparr>)) anything s1"
    if "core s1 = core s" for x s1
    unfolding commit_context_summary_def Let_def
    by (simp only: wp_simps, rule wp_silent[OF yields_emit], simp only: fst_conv snd_conv,
        intro Q loop_inv_compacted[OF inv p, where k = "''warnings''"]) (use that in auto)
  have keep: "Q False s1" if "core s1 = core s" for s1
    using Q loop_inv_core[OF inv that] by blast
  show ?thesis
    unfolding summarize_context_def aapply_context_summary_def apply_summary_with_def
    by (auto simp: p keep split: option.splits prod.splits simp del: wp_on_world
        intro!: wp_yields[OF yields_on_world] wp_mono[OF committed])
qed

section \<open>A turn\<close>

lemma loop_inv_limit: "loop_inv a i cx s \<Longrightarrow> int (length (ls_tool_calls s)) \<le> cfg_max_tool_calls (cx_config cx)"
  by (simp add: loop_inv_def)

lemma wp_handle_context_limit:
  assumes inv: "loop_inv a i cx s"
    and Some: "\<And>rep s'. outcome a cx (rep, None) s' \<Longrightarrow> Q (Some rep) s'"
    and None: "\<And>s'. loop_inv a i cx s' \<Longrightarrow> Q None s'"
  shows "wp (handle_context_limit X cx) Q anything s"
proof -
  have fail: "wp (fail_report X cx m) (\<lambda>rep. Q (Some rep)) anything s'" if "loop_inv a i cx s'" for m s'
    by (rule wp_fail_outcome[OF loop_inv_limit[OF that]]) (rule Some)
  have count: "Q None (s'\<lparr>ls_summaries := Suc (ls_summaries s')\<rparr>)" if "loop_inv a i cx s'" for s'
    using that by (intro None) (simp add: loop_inv_def)
  show ?thesis
    unfolding handle_context_limit_def resolve_context_retry_def Let_def
    by (auto simp: inv split: bool.splits intro!: fail wp_summarize_context[OF inv] count)
qed

lemma wp_if_context_limit:
  assumes inv: "loop_inv a i cx s"
    and Q: "\<And>rep s'. outcome a cx (rep, None) s' \<Longrightarrow> Q (None, Some rep) s'"
      "\<And>s'. loop_inv a i cx s' \<Longrightarrow> Q (None, None) s'"
    and other: "wp m Q anything s"
  shows "wp (if_context_limit X cx e m) Q anything s"
  unfolding if_context_limit_def
  by (auto intro!: wp_handle_context_limit[OF inv] Q other)

lemma wp_astructured:
  assumes inv: "loop_inv a i cx s"
  shows "wp (astructured_completion X cx j sch) (\<lambda>_. loop_inv a i cx) (\<lambda>_. loop_inv a i cx) s"
proof -
  have call: "silent (try_with
      (adapter_call X (cx_config cx) (x_astructured X rq))
      (\<lambda>e. if is_not_implemented e then adapter_call X (cx_config cx) (x_structured X rq') else raise e))"
    for rq rq' by (auto intro!: quiet)
  have rec: "wp (record_turn_usage X cx u) (\<lambda>_. loop_inv a i cx) (\<lambda>_. loop_inv a i cx) s'"
    if "core s' = core s" for u s'
    by (rule wp_record_turn_usage[OF loop_inv_core[OF inv that]]) (auto intro: loop_inv_core[OF inv that])
  show ?thesis
    unfolding astructured_completion_def Let_def
  proof (simp only: wp_ebind wp_gets, rule wp_yields[OF call])
    fix r and s' :: "'a ls" assume "core s' = core s"
    then show "wp (case r of SResponse data usage \<Rightarrow> eseq (record_turn_usage X cx usage) (ret data)
        | SOther v \<Rightarrow> ret v) (\<lambda>_. loop_inv a i cx) (\<lambda>_. loop_inv a i cx) s'"
      using loop_inv_core[OF inv] rec by (cases r) auto
  qed (use loop_inv_core[OF inv] in auto)
qed

text \<open>What a turn may hand on: a report that ends the run well, a response, or nothing.\<close>

definition acquired :: "bool \<Rightarrow> int \<Rightarrow> wctx \<Rightarrow> model_response option \<times> report option \<Rightarrow> 'w ls \<Rightarrow> bool" where
  "acquired a i cx mr s \<longleftrightarrow>
     (case mr of
        (_, Some rep) \<Rightarrow> outcome a cx (rep, None) s
      | (m, None) \<Rightarrow> loop_inv a i cx s \<and> (\<forall>r. m = Some r \<longrightarrow> named_calls r))"

lemma acquired_simps [simp]:
  "acquired a i cx (m, Some rep) s = outcome a cx (rep, None) s"
  "acquired a i cx (None, None) s = loop_inv a i cx s"
  "acquired a i cx (Some r, None) s \<longleftrightarrow> loop_inv a i cx s \<and> named_calls r"
  by (auto simp: acquired_def split: option.splits)

lemma wp_structured_answer:
  assumes inv: "loop_inv a i cx s"
  shows "wp (structured_answer X cx j sch)
    (\<lambda>mr s'. acquired a i cx mr s' \<and> fst mr = None) anything s"
  unfolding structured_answer_def
proof (simp only: wp_simps, rule wp_mono[OF wp_astructured[OF inv]])
  fix data and s' :: "'a ls" assume inv_i: "loop_inv a i cx s'"
  show "wp (case Inr data of
      Inl e \<Rightarrow> if_context_limit X cx e
        (ebind (fail_report X cx (exc_msg e)) (\<lambda>rep. ret (None, Some rep)))
    | Inr data \<Rightarrow> ebind (finalize_structured_response X cx data) (\<lambda>rep. ret (None, Some rep)))
      (\<lambda>mr s'. acquired a i cx mr s' \<and> fst mr = None) anything s'"
    by (auto intro!: wp_finalize_structured[OF inv_i])
next
  fix e and s' :: "'a ls" assume inv_i: "loop_inv a i cx s'"
  show "wp (case Inl e of
      Inl e \<Rightarrow> if_context_limit X cx e
        (ebind (fail_report X cx (exc_msg e)) (\<lambda>rep. ret (None, Some rep)))
    | Inr data \<Rightarrow> ebind (finalize_structured_response X cx data) (\<lambda>rep. ret (None, Some rep)))
      (\<lambda>mr s'. acquired a i cx mr s' \<and> fst mr = None) anything s'"
    by (auto intro!: wp_if_context_limit[OF inv_i] wp_fail_outcome[OF loop_inv_limit[OF inv_i]])
qed

lemma wp_model_call:
  assumes inv: "loop_inv a i cx s" and m: "yields m named_calls"
  shows "wp (ebind (attempt m) (\<lambda>r. case r of Inr x \<Rightarrow> ret (Some x, None)
      | Inl e \<Rightarrow> if_context_limit X cx e (raise e))) (acquired a i cx) anything s"
  by (simp only: wp_simps sum.case, intro wp_yields[OF m])
    (auto intro!: wp_if_context_limit[where a = a and i = i] intro: loop_inv_core[OF inv])

lemma wp_acquire:
  assumes inv: "loop_inv a i cx s" and X: "good_ids X"
  shows "wp (acquire_turn_response X cx j tools) (acquired a i cx) anything s"
proof -
  note calls = wp_model_call[OF _ yields_acompletion[OF X]] wp_model_call[OF _ yields_astream[OF X]]
  have fin: "wp (finalize_structured_response X cx data)
      (\<lambda>rep s'. outcome a cx (rep, None) s') anything s'" if "loop_inv a i cx s'" for data s'
    by (rule wp_finalize_structured[OF that])
  have ans: "wp (structured_answer X cx j sch) (acquired a i cx) anything s'" if "loop_inv a i cx s'" for sch s'
    by (rule wp_mono[OF wp_structured_answer[OF that]]) auto
  have parse: "wp (case parse_structured_stream_json X sch t of
        Inr data \<Rightarrow> ebind (finalize_structured_response X cx data) (\<lambda>rep. ret (None, Some rep))
      | Inl e \<Rightarrow> structured_answer X cx j sch) (acquired a i cx) anything s'"
    if "loop_inv a i cx s'" for sch t s'
    using fin[OF that] ans[OF that] by (auto split: sum.splits)
  have preview: "wp (ebind (attempt (astream_completion X (cx_config cx) (cx_worker cx) (cx_model cx) ms [] j
                                (Some sch))) (\<lambda>r.
               case r of
                 Inl e \<Rightarrow> if_context_limit X cx e (raise e)
               | Inr streamed \<Rightarrow>
                   eseq (record_turn_usage X cx (mr_usage streamed))
                     (case parse_structured_stream_json X sch (or_str (mr_content streamed) []) of
                        Inr data \<Rightarrow> ebind (finalize_structured_response X cx data)
                                      (\<lambda>rep. ret (None, Some rep))
                      | Inl e \<Rightarrow> structured_answer X cx j sch))) (acquired a i cx) anything s" for ms sch
    by (simp only: wp_simps sum.case, intro wp_yields[OF yields_astream[OF X]])
      (auto intro!: wp_if_context_limit[where a = a and i = i] wp_record_turn_usage[where a = a and i = i] parse
        intro: loop_inv_core[OF inv])
  show ?thesis
    unfolding acquire_turn_response_def Let_def
    using calls[OF inv] ans[OF inv] preview by (auto split: option.splits simp del: wp_ebind
        simp: wp_ebind[where m = "gets _"])
qed

end
