(* ===== verification/Worker_Outcome.thy ===== *)
theory Worker_Outcome
  imports Worker_Invariant
begin

text \<open>
  Turns, the loop, \<open>arun\<close> and \<open>aresume\<close> against the invariant of \<^verbatim>\<open>Worker_Invariant\<close>, and the
  termination of the loop: the fuel the model gives it is never used up.
\<close>

section \<open>The tool calls of a turn\<close>

lemma wp_run_plan:
  assumes w: "waits_for (map tc_id (mr_tool_calls r)) (ls_messages s)" and n: "named_calls r"
    and limit: "int (length (ls_tool_calls s)) \<le> cfg_max_tool_calls (cx_config cx)"
  shows "wp (run_plan X cx allowed r)
    (\<lambda>p s'. aux s' = aux s \<and> int (length (ls_tool_calls s')) \<le> cfg_max_tool_calls (cx_config cx)
       \<and> (\<not> pl_exceeded p \<longrightarrow> waits_for (map tc_id (pending_calls p)) (ls_messages s')
           \<and> (\<forall>c\<in>set (pending_calls p). tc_id c \<noteq> [] \<and> tc_id c \<in> tc_id ` set (ls_tool_calls s'))))
    anything s"
proof -
  let ?limit = "cfg_max_tool_calls (cx_config cx)" and ?calls = "mr_tool_calls r"
  obtain p tcs' w' where plan:
    "plan_tool_calls X allowed ?limit r (ls_tool_calls s) (rt_world s) = ((p, tcs'), w')"
    by (metis prod.collapse)
  from plan_tool_calls_spec[OF plan] obtain k where k: "k \<le> length ?calls"
    "tcs' = ls_tool_calls s @ take k ?calls"
    "mset (pl_ordered p) + mset (pending_calls p) = mset (take k ?calls)"
    "pl_exceeded p \<longleftrightarrow> k < length ?calls"
    "int (length tcs') \<le> max (int (length (ls_tool_calls s))) ?limit" by blast
  let ?rest = "map tc_id (pending_calls p @ drop k ?calls)"
  let ?s1 = "s\<lparr>rt_world := w', ls_tool_calls := tcs'\<rparr>"
  have taken: "set (pl_ordered p) \<union> set (pending_calls p) = set (take k ?calls)"
    using arg_cong[OF k(3), of set_mset] by simp
  have ids: "\<forall>c\<in>set (take k ?calls). tc_id c \<noteq> [] \<and> tc_id c \<in> tc_id ` set tcs'"
    using n k(2) by (auto simp: named_calls_def dest: in_set_takeD)
  have "mset ?calls = mset (pl_ordered p) + mset (pending_calls p) + mset (drop k ?calls)"
    unfolding k(3) by (metis append_take_drop_id mset_append)
  then have "waits_for (map tc_id (pl_ordered p) @ ?rest) (ls_messages ?s1)"
    using w by (auto intro: waits_for_mset simp: mset_map)
  moreover have "\<forall>c\<in>set (pl_ordered p). tc_id c \<noteq> [] \<and> tc_id c \<in> tc_id ` set (ls_tool_calls ?s1)"
    using ids taken by auto
  ultimately have "wp (aexecute_tool_calls X (cx_config cx) p)
    (\<lambda>_ s'. waits_for ?rest (ls_messages s') \<and> aux s' = aux ?s1
       \<and> map tc_id (ls_tool_calls s') = map tc_id (ls_tool_calls ?s1)) anything ?s1"
    by (rule wp_aexecute_tool_calls)
  then show ?thesis
    unfolding run_plan_def
  proof (simp add: plan, elim wp_mono, safe)
    fix s' :: "'a ls"
    assume s': "waits_for (map tc_id (pending_calls p) @ map tc_id (drop k ?calls)) (ls_messages s')"
      "map tc_id (ls_tool_calls s') = map tc_id tcs'"
    have len: "length (ls_tool_calls s') = length tcs'" using s'(2) map_eq_imp_length_eq by blast
    with k(5) limit show "int (length (ls_tool_calls s')) \<le> ?limit" by simp
    have ids': "tc_id ` set (ls_tool_calls s') = tc_id ` set tcs'" using s'(2) by (metis list.set_map)
    {
      assume "\<not> pl_exceeded p"
      with k s'(1) show "waits_for (map tc_id (pending_calls p)) (ls_messages s')" by simp
    next
      fix c assume "c \<in> set (pending_calls p)" "tc_id c = []"
      with ids taken show False by blast
    next
      fix c assume "c \<in> set (pending_calls p)"
      with ids taken ids' show "tc_id c \<in> tc_id ` set (ls_tool_calls s')" by blast
    }
  qed (auto simp: aux_def)
qed

section \<open>A turn\<close>

text \<open>What a turn ends with: the run's outcome, or the invariant again.\<close>

definition turn_post :: "bool \<Rightarrow> int \<Rightarrow> wctx \<Rightarrow> (report \<times> run_state option) option \<Rightarrow> 'w ls \<Rightarrow> bool" where
  "turn_post a i cx r s \<longleftrightarrow> (case r of Some out \<Rightarrow> outcome a cx out s | None \<Rightarrow> loop_inv a i cx s)"

lemma turn_post_simps [simp]:
  "turn_post a i cx (Some out) s = outcome a cx out s" "turn_post a i cx None s = loop_inv a i cx s"
  by (simp_all add: turn_post_def)

lemma aux_fields:
  "aux s' = aux s \<Longrightarrow> rt_totals s' = rt_totals s \<and> ls_metrics s' = ls_metrics s
     \<and> ls_iteration s' = ls_iteration s"
  by (simp add: aux_def)

lemma core_fields:
  "core s' = core s \<Longrightarrow> rt_totals s' = rt_totals s \<and> ls_metrics s' = ls_metrics s
     \<and> ls_messages s' = ls_messages s \<and> ls_tool_calls s' = ls_tool_calls s
     \<and> ls_iteration s' = ls_iteration s"
  by (simp add: core_def)

lemma silent_emit_pause: "silent (emit_pause X cx p)"
  unfolding emit_pause_def Let_def by (auto intro!: quiet split: action_type.splits)

lemma wp_pause:
  assumes "waits_for [tc_id (pa_tool_call p)] (ls_messages s)" "tc_id (pa_tool_call p) \<noteq> []"
    "tc_id (pa_tool_call p) \<in> tc_id ` set (ls_tool_calls s)"
    "int (length (ls_tool_calls s)) \<le> cfg_max_tool_calls (cx_config cx)"
    "a \<longrightarrow> in_step (ls_metrics s) (rt_totals s)"
  shows "wp (ebind (pause cx j p) (\<lambda>(rep, st). ret (Some (rep, Some st)))) (turn_post a i cx) anything s"
  using assms
  by (auto simp: pause_def good_outcome_def build_report_def build_worker_state_def paused_ok_def)

lemma wp_after_plan:
  assumes lim: "int (length (ls_tool_calls s)) \<le> cfg_max_tool_calls (cx_config cx)"
    and acc: "(a \<longrightarrow> in_step (ls_metrics s) (rt_totals s)) \<and> ls_iteration s = i"
    and w: "\<not> pl_exceeded p \<longrightarrow> waits_for (map tc_id (pending_calls p)) (ls_messages s)
       \<and> (\<forall>c\<in>set (pending_calls p). tc_id c \<noteq> [] \<and> tc_id c \<in> tc_id ` set (ls_tool_calls s))"
  shows "wp (after_plan X cx j p) (turn_post a i cx) anything s"
proof (cases "pl_exceeded p")
  case True
  then show ?thesis by (simp add: after_plan_def, intro wp_fail_outcome[OF lim]) simp
next
  case False
  show ?thesis
  proof (cases "pl_pending p")
    case None
    with False w lim acc show ?thesis by (simp add: after_plan_def pending_calls_def loop_inv_def)
  next
    case (Some b)
    then have pc: "pending_calls p = [pa_tool_call b]" by (simp add: pending_calls_def)
    have "wp (eseq (emit_pause X cx b) (ebind (pause cx j b) (\<lambda>(rep, st). ret (Some (rep, Some st)))))
      (turn_post a i cx) anything s"
    proof (simp only: wp_eseq, rule wp_silent[OF silent_emit_pause], rule wp_pause)
      fix v :: unit and s1 :: "'a ls" assume c: "core s1 = core s"
      show "waits_for [tc_id (pa_tool_call b)] (ls_messages s1)"
        "tc_id (pa_tool_call b) \<noteq> []" "tc_id (pa_tool_call b) \<in> tc_id ` set (ls_tool_calls s1)"
        "int (length (ls_tool_calls s1)) \<le> cfg_max_tool_calls (cx_config cx)"
        "a \<longrightarrow> in_step (ls_metrics s1) (rt_totals s1)"
        using core_fields[OF c] w lim acc pc False by auto
    qed
    with False Some show ?thesis by (simp add: after_plan_def)
  qed
qed

lemma wp_tool_turn:
  assumes inv: "loop_inv a i cx s" and n: "named_calls r"
  shows "wp (tool_turn X cx j allowed r) (turn_post a i cx) anything s"
  unfolding tool_turn_def Let_def emit_assistant_message_def
proof (simp only: wp_add_message wp_eseq wp_ebind, rule wp_silent[OF yields_emit])
  fix u :: unit and s1 :: "'a ls"
  assume s1: "core s1 = core (s\<lparr>ls_messages := ls_messages s @ [assistant_message r]\<rparr>)"
  have w: "waits_for (map tc_id (mr_tool_calls r)) (ls_messages s1)"
    using inv s1 waits_for_assistant[of "ls_messages s" "assistant_message r"]
    by (simp add: core_def loop_inv_def assistant_message_def)
  have lim: "int (length (ls_tool_calls s1)) \<le> cfg_max_tool_calls (cx_config cx)"
    and acc: "(a \<longrightarrow> in_step (ls_metrics s1) (rt_totals s1)) \<and> ls_iteration s1 = i"
    using inv s1 by (auto simp: core_def loop_inv_def)
  show "wp (run_plan X cx allowed r) (\<lambda>p. wp (after_plan X cx j p) (turn_post a i cx) anything) anything s1"
    by (rule wp_mono[OF wp_run_plan[OF w n lim]], rule wp_after_plan)
      (use acc in \<open>auto dest: aux_fields\<close>)
qed

lemma wp_process_turn:
  assumes inv: "loop_inv a i cx s" and n: "named_calls r"
  shows "wp (process_turn_response X cx j allowed r) (turn_post a i cx) anything s"
proof -
  have ans: "wp (structured_answer X cx j sch)
      (\<lambda>mr s'. turn_post a i cx (map_option (\<lambda>x. (x, None)) (snd mr)) s') anything s1"
    if "loop_inv a i cx s1" for sch s1
    by (rule wp_mono[OF wp_structured_answer[OF that]]) (auto simp: acquired_def turn_post_def split: option.splits)
  have plain: "wp (finalize_plain_response X cx r) (\<lambda>rep s'. outcome a cx (rep, None) s') anything s1"
    if "loop_inv a i cx s1" for s1
    by (rule wp_finalize_plain[OF that])
  have "wp (if mr_tool_calls r \<noteq> [] then tool_turn X cx j allowed r
      else case job_response_schema j of
             Some sch \<Rightarrow>
               ebind (structured_answer X cx j sch) (\<lambda>(_, rep).
               ret (map_option (\<lambda>x. (x, None)) rep))
           | None \<Rightarrow> ebind (finalize_plain_response X cx r) (\<lambda>rep. ret (Some (rep, None))))
     (turn_post a i cx) anything s1" if inv1: "loop_inv a i cx s1" for s1
    using wp_tool_turn[OF inv1 n] ans[OF inv1] plain[OF inv1]
    by (auto split: option.splits simp: case_prod_beta)
  then show ?thesis
    unfolding process_turn_response_def by (simp only: wp_eseq) (rule wp_record_turn_usage[OF inv], auto)
qed

lemma wp_compact: "loop_inv a i cx s \<Longrightarrow> wp (compact_if_long X cx) (\<lambda>_. loop_inv a i cx) anything s"
  by (auto simp: compact_if_long_def split: option.splits intro!: wp_summarize_context)

lemma wp_model_turn:
  assumes "loop_inv a i cx s" "good_ids X"
  shows "wp (model_turn X cx j tools) (turn_post a i cx) anything s"
  unfolding model_turn_def
  by (simp only: wp_ebind, rule wp_mono[OF wp_acquire[OF assms]])
    (auto split: option.splits intro!: wp_process_turn)

lemma wp_turn:
  assumes inv: "loop_inv a i cx s" and X: "good_ids X"
  shows "wp (turn X cx j tools) (turn_post a (i + 1) cx) anything s"
proof -
  let ?s = "s\<lparr>ls_iteration := ls_iteration s + 1\<rparr>"
  have inv1: "loop_inv a (i + 1) cx ?s" using inv by (simp add: loop_inv_def)
  have go: "wp (compact_if_long X cx) (\<lambda>_. wp (model_turn X cx j tools) (turn_post a (i + 1) cx) anything)
      anything ?s"
    by (rule wp_mono[OF wp_compact[OF inv1]]) (auto intro: wp_model_turn X)
  have fail: "wp (fail_report X cx m) (\<lambda>rep s'. outcome a cx (rep, None) s') anything ?s" for m
    by (rule wp_fail_outcome[OF loop_inv_limit[OF inv1]])
  show ?thesis
    using go fail unfolding turn_def by (auto split: sum.splits option.splits)
qed

section \<open>The loop\<close>

text \<open>With enough fuel the loop ends, and ends well.\<close>

lemma wp_loop_fuel:
  assumes "loop_inv a i cx s" and X: "good_ids X"
    and "nat (cfg_max_iterations (cx_config cx) - i) < n"
  shows "wp (loop_fuel X cx j tools n) (\<lambda>r s'. \<exists>out. r = Some out \<and> outcome a cx out s') anything s"
  using assms(1,3)
proof (induction n arbitrary: s i)
  case (Suc n)
  have it: "ls_iteration s = i" using Suc.prems(1) by (simp add: loop_inv_def)
  show ?case
  proof (cases "i < cfg_max_iterations (cx_config cx)")
    case True
    have "wp (turn X cx j tools) (\<lambda>r s'. wp (case r of Some x \<Rightarrow> ret (Some x)
      | None \<Rightarrow> loop_fuel X cx j tools n) (\<lambda>r s'. \<exists>out. r = Some out \<and> outcome a cx out s') anything s')
      anything s"
    proof (rule wp_mono[OF wp_turn[OF Suc.prems(1) X]])
      fix r and s' :: "'a ls" assume post: "turn_post a (i + 1) cx r s'"
      show "wp (case r of Some x \<Rightarrow> ret (Some x) | None \<Rightarrow> loop_fuel X cx j tools n)
        (\<lambda>r s'. \<exists>out. r = Some out \<and> outcome a cx out s') anything s'"
      proof (cases r)
        case None
        have "nat (cfg_max_iterations (cx_config cx) - (i + 1)) < n" using Suc.prems(2) True by simp
        with None post Suc.IH[of "i + 1" s'] show ?thesis by simp
      qed (use post in auto)
    qed simp
    with True it show ?thesis by simp
  next
    case False
    have "wp (fail_report X cx m) (\<lambda>rep s'. outcome a cx (rep, None) s') anything s" for m
      by (rule wp_fail_outcome[OF loop_inv_limit[OF Suc.prems(1)]])
    with False it show ?thesis by simp
  qed
qed simp

lemma wp_arun_loop:
  assumes "loop_inv a i cx s" and "good_ids X"
  shows "wp (arun_loop X belt cx j) (outcome a cx) anything s"
proof -
  have "ls_iteration s = i" using assms(1) by (simp add: loop_inv_def)
  then show ?thesis
    unfolding arun_loop_def
    by (simp only: wp_ebind wp_gets) (rule wp_mono[OF wp_loop_fuel[OF assms]], auto)
qed

section \<open>\<open>arun\<close>\<close>

lemma wp_in_loop [wp_simps, simp]:
  "wp (in_loop ms tcs m it e) Q E =
   (\<lambda>s. wp e (\<lambda>a l. Q a (s\<lparr>rt_events := rt_events l, rt_totals := rt_totals l, rt_world := rt_world l\<rparr>))
            (\<lambda>x l. E x (s\<lparr>rt_events := rt_events l, rt_totals := rt_totals l, rt_world := rt_world l\<rparr>))
            (start_loop ms tcs m it s))"
  by (auto simp: wp_def in_loop_def fun_eq_iff split: prod.splits sum.splits)

lemma start_loop_simps [simp]:
  "rt_totals (start_loop ms tcs m it s) = rt_totals s"
  "ls_messages (start_loop ms tcs m it s) = ms" "ls_tool_calls (start_loop ms tcs m it s) = tcs"
  "ls_metrics (start_loop ms tcs m it s) = m" "ls_iteration (start_loop ms tcs m it s) = it"
  by (simp_all add: start_loop_def)

lemma scan_step_content: "scan_step (m\<lparr>msg_content := c\<rparr>) os = scan_step m os"
  by (simp add: scan_step.simps)

lemma build_messages_ok:
  assumes "conversation_ok (case job_initial_messages j of Some ms \<Rightarrow> ms | None \<Rightarrow> [])"
  shows "conversation_ok (build_messages P instructions j)"
proof -
  define ms0 where "ms0 = (case job_initial_messages j of Some ms \<Rightarrow> ms | None \<Rightarrow> [])"
  have "conversation_ok ms0" using assms by (simp add: ms0_def)
  then show ?thesis
    unfolding build_messages_def Let_def ms0_def[symmetric]
    by (intro conversation_ok_snoc)
      (auto simp: conversation_ok_def scan_step_content scan_step.simps[of "mk_message _ _"]
        split: option.splits list.splits)
qed

lemma limits_ok_calls: "validate_execution_limits c = None \<Longrightarrow> 0 \<le> cfg_max_tool_calls c"
  by (simp add: validate_execution_limits_def split: if_splits)

lemma wp_no_model:
  assumes "0 \<le> limit"
  shows "wp (no_model X c rid wk ms) (\<lambda>out s'. good_outcome a limit out (rt_totals s')) anything s"
  unfolding no_model_def
  by (simp, rule wp_emit) (use assms in \<open>auto simp: good_outcome_def build_error_report_def build_report_def\<close>)

lemma wp_start:
  assumes "loop_inv a i (make_ctx X c n model) s" "good_ids X"
  shows "wp (eseq (emit X (cfg_emit_run c) WorkerStarted n [])
      (arun_loop X belt (make_ctx X c n model) j))
    (\<lambda>out s'. good_outcome a (cfg_max_tool_calls c) out (rt_totals s')) anything s"
proof (simp only: wp_eseq, rule wp_silent[OF yields_emit])
  fix u :: unit and s1 :: "'a ls" assume "core s1 = core s"
  from wp_arun_loop[OF loop_inv_core[OF assms(1) this] assms(2)]
  show "wp (arun_loop X belt (make_ctx X c n model) j)
    (\<lambda>out s'. good_outcome a (cfg_max_tool_calls c) out (rt_totals s')) anything s1"
    by (simp add: make_ctx_def)
qed

lemma wp_arun:
  assumes X: "good_ids X" and c: "validate_execution_limits c = None"
    and j: "conversation_ok (case job_initial_messages j of Some ms \<Rightarrow> ms | None \<Rightarrow> [])"
    and a: "a \<longrightarrow> rt_totals s = []"
  shows "wp (arun X wk c j wm) (\<lambda>out s'. good_outcome a (cfg_max_tool_calls c) out (rt_totals s'))
    anything s"
proof -
  let ?ms = "build_messages (x_text X) (wk_instructions wk) j"
  have inv: "loop_inv a 0 (make_ctx X c (wk_name wk) m) (start_loop ?ms [] [] 0 s)" for m
    using build_messages_ok[OF j] limits_ok_calls[OF c] a in_step_start
    by (auto simp: loop_inv_def make_ctx_def)
  show ?thesis
    unfolding arun_def Let_def
    using wp_no_model[OF limits_ok_calls[OF c]] wp_start[OF inv X]
    by (auto simp del: wp_eseq)
qed

section \<open>\<open>aresume\<close>\<close>

lemma dict_set_distinct_append:
  "k \<notin> fst ` set d \<Longrightarrow> dict_set k v d = d @ [(k, v)]"
  by (induction d) auto

lemma dict_update_distinct:
  "distinct (map fst (d @ e)) \<Longrightarrow> dict_update d e = d @ e"
  unfolding dict_update_def
  by (induction e arbitrary: d) (auto simp: dict_set_distinct_append)

lemma add_keys_distinct:
  "distinct (map fst t) \<Longrightarrow> add_keys ks t u = Inr t' \<Longrightarrow> distinct (map fst t')"
  by (induction ks arbitrary: t)
    (auto simp: add_key_def distinct_dict_set split: option.splits if_splits sum.splits)

lemma totals_from_metrics_distinct:
  "totals_from_metrics m = Inr t \<Longrightarrow> distinct (map fst t)"
  by (auto simp: totals_from_metrics_def Let_def add_token_usage_def
      split: option.splits pyval.splits if_splits elim!: add_keys_distinct[rotated])

lemma restore_totals_in_step:
  assumes "in_step m t" "totals_from_metrics m = Inr t'"
  shows "in_step m (restore_totals [] (Some (PDict t')))"
proof -
  have "restore_totals [] (Some (PDict t')) = t'"
    using dict_update_distinct[of "[]" t'] totals_from_metrics_distinct[OF assms(2)]
    by (simp add: restore_totals_def)
  with totals_from_metrics_in_step[OF assms(1)] assms show ?thesis by (auto simp: in_step_def)
qed

lemma wp_answer_pending:
  assumes w: "waits_for [tc_id (pa_tool_call p)] (ls_messages s)" "tc_id (pa_tool_call p) \<noteq> []"
    and p: "tc_id (pa_tool_call p) \<in> tc_id ` set (ls_tool_calls s)"
    and lim: "int (length (ls_tool_calls s)) \<le> cfg_max_tool_calls (cx_config cx)"
    and acc: "a \<longrightarrow> in_step (ls_metrics s) (rt_totals s)"
  shows "wp (answer_pending X wk c j p d) (\<lambda>_. loop_inv a (ls_iteration s) cx) anything s"
proof -
  have fin: "wp (finish_call X c src call r) (\<lambda>_. loop_inv a (ls_iteration s) cx) anything s1"
    if c: "core s1 = core s" and call: "tc_id call = tc_id (pa_tool_call p)" for s1 src call r
  proof (rule wp_finish_call)
    show "tc_id call \<in> tc_id ` set (ls_tool_calls s1)" using core_fields[OF c] p call by simp
  next
    fix s' :: "'a ls"
    assume s': "aux s' = aux s1" "ls_messages s' = ls_messages s1 @ [tool_message (x_text X) r call]"
      "map tc_id (ls_tool_calls s') = map tc_id (ls_tool_calls s1)"
    have "waits_for (remove1 (tc_id call) [tc_id (pa_tool_call p)]) (ls_messages s')"
      unfolding s'(2) by (rule waits_for_answer) (use core_fields[OF c] w call in auto)
    then have "conversation_ok (ls_messages s')" using call by simp
    moreover have "length (ls_tool_calls s') = length (ls_tool_calls s1)"
      using s'(3) map_eq_imp_length_eq by blast
    ultimately show "loop_inv a (ls_iteration s) cx s'"
      using core_fields[OF c] aux_fields[OF s'(1)] lim acc by (simp add: loop_inv_def)
  qed
  have run: "wp (eseq (emit X (cfg_emit_run c) ToolStarted (tl_name t) payload)
      (ebind (on_world (aexecute_tool X t call False False)) (finish_call X c (tl_name t) call)))
    (\<lambda>_. loop_inv a (ls_iteration s) cx) anything s" if "tc_id call = tc_id (pa_tool_call p)" for t call payload
    by (simp only: wp_eseq wp_ebind, rule wp_silent[OF yields_emit], rule wp_silent[OF yields_on_world],
        rule fin) (use that in auto)
  show ?thesis
    unfolding answer_pending_def Let_def
    by (auto split: option.splits simp del: wp_eseq intro!: fin run)
qed

lemma wp_resume_worker:
  assumes X: "good_ids X" and c: "0 \<le> cfg_max_tool_calls c"
    and w: "waits_for [tc_id (pa_tool_call p)] (ls_messages l)" "tc_id (pa_tool_call p) \<noteq> []"
      "tc_id (pa_tool_call p) \<in> tc_id ` set (ls_tool_calls l)"
    and lim: "int (length (ls_tool_calls l)) \<le> cfg_max_tool_calls c"
    and acc: "a \<longrightarrow> in_step (ls_metrics l) (rt_totals l)"
  shows "wp (resume_worker X wk c st p d wm)
    (\<lambda>out s'. good_outcome a (cfg_max_tool_calls c) out (rt_totals s')) anything l"
proof -
  have lim': "int (length (ls_tool_calls l))
      \<le> cfg_max_tool_calls (cx_config (make_ctx X c (wk_name wk) (model_name c wm)))"
    using lim by (simp add: make_ctx_def)
  show ?thesis
    unfolding resume_worker_def Let_def
  proof (simp only: wp_eseq[where m = "answer_pending _ _ _ _ _ _"],
      rule wp_mono[OF wp_answer_pending[OF w lim' acc]])
    fix u :: unit and l' :: "'a ls"
    assume inv: "loop_inv a (ls_iteration l) (make_ctx X c (wk_name wk) (model_name c wm)) l'"
    show "wp (if model_name c wm = [] then ebind (gets ls_messages) (no_model X c (rs_run_id st) (wk_name wk))
         else eseq (emit X (cfg_emit_run c) WorkerStarted (wk_name wk) [])
                (arun_loop X (wk_belt wk) (make_ctx X c (wk_name wk) (model_name c wm)) (rs_job st)))
      (\<lambda>out s'. good_outcome a (cfg_max_tool_calls c) out (rt_totals s')) anything l'"
      using wp_start[OF inv X] wp_no_model[OF c] by (auto simp del: wp_eseq)
  qed simp
qed

lemma wp_aresume:
  assumes X: "good_ids X" and c: "validate_execution_limits c = None"
    and st: "paused_ok (cfg_max_tool_calls c) st"
    and a: "a \<longrightarrow> rt_totals s = [] \<and> (\<exists>t. in_step (rs_metrics st) t)"
  shows "wp (aresume X wk c st d wm) (\<lambda>out s'. good_outcome a (cfg_max_tool_calls c) out (rt_totals s'))
    anything s"
proof -
  from st obtain p where p: "rs_pending st = Some p" "waits_for [tc_id (pa_tool_call p)] (rs_messages st)"
    "tc_id (pa_tool_call p) \<noteq> []" "tc_id (pa_tool_call p) \<in> tc_id ` set (rs_tool_calls st)"
    "int (length (rs_tool_calls st)) \<le> cfg_max_tool_calls c" by (auto simp: paused_ok_def)
  let ?c = "resume_config c st (rt_events s)"
  have c1: "cfg_max_tool_calls ?c = cfg_max_tool_calls c" by (simp add: resume_config_def with_run_id_def)
  have lim0: "0 \<le> cfg_max_tool_calls ?c" using limits_ok_calls[OF c] c1 by simp
  have acc: "a \<longrightarrow> in_step (rs_metrics st) (restore_totals (rt_totals s) (Some (PDict t)))"
    if "totals_from_metrics (rs_metrics st) = Inr t" for t
    using a restore_totals_in_step that by auto
  have body: "wp (resume_worker X wk ?c st p d wm)
      (\<lambda>out s'. good_outcome a (cfg_max_tool_calls c) out (rt_totals s')) anything
      (start_loop (rs_messages st) (rs_tool_calls st) (rs_metrics st) (rs_iteration st)
        (s\<lparr>rt_totals := restore_totals (rt_totals s) (Some (PDict t))\<rparr>))"
    if "totals_from_metrics (rs_metrics st) = Inr t" for t
    using wp_resume_worker[OF X lim0, where l = "start_loop (rs_messages st) (rs_tool_calls st)
      (rs_metrics st) (rs_iteration st) (s\<lparr>rt_totals := restore_totals (rt_totals s) (Some (PDict t))\<rparr>)"
      and a = a and p = p] p acc[OF that] by (simp add: c1)
  show ?thesis
    unfolding aresume_def using body by (auto simp: p(1) split: sum.splits)
qed

end
