(* ===== verification/Workforce_Helpers.thy ===== *)
theory Workforce_Helpers
  imports Worker_Loop
begin

text \<open>
  The data of a workforce and the functions of \<^verbatim>\<open>workforce_helpers.py\<close>: who is selected, how
  reports are put together, the state a paused workforce is stored with and what is read back from
  it.  A member is a worker (\<^verbatim>\<open>worker.py\<close>) with its model and its identity as an object.
\<close>

record crew_member =
  mb_ref :: nat
  mb_worker :: worker
  mb_model :: "string option"
  mb_scope :: string

abbreviation mb_name :: "crew_member \<Rightarrow> string" where
  "mb_name m \<equiv> wk_name (mb_worker m)"

text \<open>\<open>Worker.__init__\<close>.\<close>

definition make_worker ::
  "nat \<Rightarrow> string \<Rightarrow> tool list option \<Rightarrow> string option \<Rightarrow> string option \<Rightarrow> string option \<Rightarrow>
   exc + crew_member" where
  "make_worker ref name tools model instructions scope =
     (if str_strip name = [] then Inl (ValueError ''Worker name must not be empty'')
      else if (case model of Some m \<Rightarrow> str_strip m = [] | None \<Rightarrow> False)
      then Inl (ValueError ''Worker model must not be empty'')
      else case toolbelt_init tools of
             Inl e \<Rightarrow> Inl e
           | Inr belt \<Rightarrow>
               Inr \<lparr>mb_ref = ref,
                    mb_worker = \<lparr>wk_name = name, wk_belt = belt, wk_instructions = instructions\<rparr>,
                    mb_model = model, mb_scope = or_str scope (''worker:'' @ name)\<rparr>)"

text \<open>\<open>Worker.arun\<close> and \<open>Worker.aresume\<close>.\<close>

definition member_arun ::
  "('w, 'x) run_ext_scheme \<Rightarrow> crew_member \<Rightarrow> run_config \<Rightarrow> job \<Rightarrow>
   (('w, 'z) rt_scheme, report \<times> run_state option) eff" where
  "member_arun X m c j = arun X (mb_worker m) c j (mb_model m)"

definition member_aresume ::
  "('w, 'x) run_ext_scheme \<Rightarrow> crew_member \<Rightarrow> run_config \<Rightarrow> run_state \<Rightarrow> pyval \<Rightarrow>
   (('w, 'z) rt_scheme, report \<times> run_state option) eff" where
  "member_aresume X m c st d = aresume X (mb_worker m) c st d (mb_model m)"

section \<open>Selection\<close>

fun first_named_in :: "string \<Rightarrow> crew_member list \<Rightarrow> string option" where
  "first_named_in text [] = None"
| "first_named_in text (m # ms) =
     (if str_contains (mb_name m) text then Some (mb_name m) else first_named_in text ms)"

text \<open>The \<open>worker\<close> attribute of a structured answer, if it is a model instance that has one.\<close>

definition decision_worker :: "pyval \<Rightarrow> string option" where
  "decision_worker v =
     (case v of
        PModel cls (PDict d) \<Rightarrow> (case dict_get d ''worker'' of Some (PStr s) \<Rightarrow> Some s | _ \<Rightarrow> None)
      | _ \<Rightarrow> None)"

definition select_worker_name :: "report \<Rightarrow> crew_member list \<Rightarrow> string" where
  "select_worker_name rep ms =
     (let by_content = (if truthy (rep_content rep)
                        then (case first_named_in (or_str (rep_content rep) []) ms of
                                Some n \<Rightarrow> n | None \<Rightarrow> mb_name (hd ms))
                        else mb_name (hd ms))
      in case decision_worker (rep_data rep) of
           Some n \<Rightarrow> if n \<in> mb_name ` set ms then n else by_content
         | None \<Rightarrow> by_content)"

definition find_worker :: "crew_member list \<Rightarrow> string option \<Rightarrow> crew_member" where
  "find_worker ms name =
     (case name of
        None \<Rightarrow> hd ms
      | Some n \<Rightarrow> (case find (\<lambda>m. mb_name m = n) ms of Some m \<Rightarrow> m | None \<Rightarrow> hd ms))"

section \<open>Putting reports together\<close>

definition aggregate_reports ::
  "(crew_member \<times> report) list \<Rightarrow> string \<Rightarrow> event list \<Rightarrow> run_status \<Rightarrow> report" where
  "aggregate_reports reports rid events status =
     build_report rid status
       (Some (str_join (nl @ nl)
          (map (\<lambda>(m, r). ''['' @ mb_name m @ ''] '' @ or_str (rep_content r) []) reports)))
       None
       (if \<exists>(m, r)\<in>set reports. rep_data r \<noteq> PNone
        then PList (map (\<lambda>(m, r). PDict [(''worker'', PStr (mb_name m)), (''data'', rep_data r),
                                          (''content'', opt_str (rep_content r))]) reports)
        else PNone)
       (concat (map (\<lambda>(m, r). rep_messages r) reports))
       (concat (map (\<lambda>(m, r). rep_tool_calls r) reports))
       [] events None
       (concat (map (\<lambda>(m, r). rep_errors r) reports))"

definition default_reducer ::
  "(crew_member \<times> report) list \<Rightarrow> string \<Rightarrow> event list \<Rightarrow> report" where
  "default_reducer reports rid events =
     aggregate_reports reports rid events
       (if \<exists>(m, r)\<in>set reports. rep_status r = Failed then Failed else Completed)"

text \<open>Messages with a tool call id already seen are left out; messages have no other identifier.\<close>

fun unique_messages :: "message list \<Rightarrow> string list \<Rightarrow> message list" where
  "unique_messages [] seen = []"
| "unique_messages (m # ms) seen =
     (if truthy (msg_tool_call_id m)
      then (let i = or_str (msg_tool_call_id m) []
            in if i \<in> set seen then unique_messages ms seen
               else m # unique_messages ms (i # seen))
      else m # unique_messages ms seen)"

definition merge_swarm_reports :: "report list \<Rightarrow> report \<Rightarrow> report" where
  "merge_swarm_reports reports final =
     (if reports = [] then final
      else final\<lparr>
        rep_tool_calls := concat (map rep_tool_calls reports) @ rep_tool_calls final,
        rep_errors := concat (map rep_errors reports) @ rep_errors final,
        rep_messages := unique_messages (concat (map rep_messages reports)) [],
        rep_metrics := dict_update (foldl (\<lambda>d r. dict_update d (rep_metrics r)) [] reports)
                         (rep_metrics final)\<rparr>)"

section \<open>The state of a paused workforce\<close>

definition build_workforce_state ::
  "string \<Rightarrow> run_status \<Rightarrow> string \<Rightarrow> job \<Rightarrow> run_state \<Rightarrow> string \<Rightarrow>
   (string \<times> payload_val) list \<Rightarrow> pyval dict \<Rightarrow> run_state" where
  "build_workforce_state rid status name j ws stage payload totals =
     RunState rid status ''workforce'' name j (rs_messages ws) (rs_tool_calls ws) (rs_pending ws)
       (rs_metrics ws) (rs_iteration ws)
       (dict_update [(''stage'', PlVal (PStr stage)), (''worker_state'', PlState ws),
                     (''usage_totals'', PlVal (PDict totals))] payload)"

text \<open>
  \<open>model_validate(x.model_dump(mode="json"))\<close> of a run state and of a report.  An entry of the
  payload that is a dump already is read back as it is.
\<close>

definition reload_pending :: "pending_action \<Rightarrow> pending_action" where
  "reload_pending p = p\<lparr>pa_tool_call := reload_tool_call (pa_tool_call p),
                        pa_metadata := reload_dict (pa_metadata p)\<rparr>"

fun reload_payload :: "payload_val \<Rightarrow> payload_val" where
  "reload_payload (PlVal v) = PlVal (to_json_value v)"
| "reload_payload v = v"

definition reload_state ::
  "pytext \<Rightarrow> (string \<Rightarrow> string \<Rightarrow> bool) \<Rightarrow> run_state \<Rightarrow> run_state" where
  "reload_state P resolve st =
     RunState (rs_run_id st) (rs_status st) (rs_runner_type st) (rs_runner_name st)
       (reload_job P resolve (rs_job st)) (map reload_message (rs_messages st))
       (map reload_tool_call (rs_tool_calls st)) (map_option reload_pending (rs_pending st))
       (reload_dict (rs_metrics st)) (rs_iteration st)
       (map (map_prod id reload_payload) (rs_payload st))"

definition reload_report :: "report \<Rightarrow> report" where
  "reload_report r = r\<lparr>
     rep_pending := map_option reload_pending (rep_pending r),
     rep_data := to_json_value (rep_data r),
     rep_messages := map reload_message (rep_messages r),
     rep_tool_calls := map reload_tool_call (rep_tool_calls r),
     rep_metrics := reload_dict (rep_metrics r),
     rep_events := map (\<lambda>e. e\<lparr>ev_payload := reload_dict (ev_payload e)\<rparr>) (rep_events r)\<rparr>"

definition invalid :: "string \<Rightarrow> exc" where
  "invalid what = Exc ''ValidationError'' what"

definition root_job ::
  "pytext \<Rightarrow> (string \<Rightarrow> string \<Rightarrow> bool) \<Rightarrow> (string \<times> payload_val) list \<Rightarrow> job \<Rightarrow> exc + job" where
  "root_job P resolve payload fallback =
     (case dict_get payload ''root_job'' of
        None \<Rightarrow> Inr fallback
      | Some (PlVal PNone) \<Rightarrow> Inr fallback
      | Some (PlJob j) \<Rightarrow> Inr (reload_job P resolve j)
      | Some _ \<Rightarrow> Inl (invalid ''Job''))"

text \<open>\<open>payload.get(key, [])\<close> as a list of reports, not yet validated; \<open>stored_reports\<close> validates.\<close>

definition raw_reports :: "(string \<times> payload_val) list \<Rightarrow> string \<Rightarrow> payload_val" where
  "raw_reports payload key = dict_get_or payload key (PlReports [])"

fun stored_reports :: "payload_val \<Rightarrow> exc + report list" where
  "stored_reports (PlReports rs) = Inr (map reload_report rs)"
| "stored_reports (PlVal (PList [])) = Inr []"
| "stored_reports _ = Inl (invalid ''Report'')"

text \<open>An integer of the payload; a \<open>bool\<close> is an \<open>int\<close>.\<close>

fun stored_int :: "payload_val \<Rightarrow> int option" where
  "stored_int (PlVal (PInt i)) = Some i"
| "stored_int (PlVal (PBool b)) = Some (if b then 1 else 0)"
| "stored_int _ = None"

fun stored_str :: "payload_val option \<Rightarrow> string option" where
  "stored_str (Some (PlVal (PStr s))) = Some s"
| "stored_str _ = None"

fun stored_value :: "payload_val option \<Rightarrow> pyval option" where
  "stored_value (Some (PlVal v)) = Some v"
| "stored_value _ = None"

end
