(* ===== verification/Workforce.thy ===== *)
theory Workforce
  imports Workforce_Helpers
begin

text \<open>
  \<open>Workforce\<close> of \<^verbatim>\<open>workforce.py\<close>: its construction, the managed, collaborate and swarm modes,
  and the four stages it resumes from.  How a member runs and resumes is an argument (\<open>run\<close>,
  \<open>resume\<close>): the workforce calls \<open>Worker.arun\<close> and \<open>Worker.aresume\<close> only.  \<open>arun\<close> and
  \<open>aresume\<close> of a workforce are \<open>workforce_arun\<close> and \<open>workforce_aresume\<close> with the members'.
\<close>

record workforce =
  wf_members :: "crew_member list"
  wf_mode :: workforce_mode
  wf_name :: string
  wf_manager :: "crew_member option"
  wf_reducer :: "string option"

text \<open>A reducer and the modules a stored schema is looked up in are outside the framework.\<close>

record 'w force_ext = "'w run_ext" +
  x_reduce :: "string \<Rightarrow> report list \<Rightarrow> ('w, report) eff"
  x_resolves :: "string \<Rightarrow> string \<Rightarrow> bool"

type_synonym ('w, 'z) member_run =
  "crew_member \<Rightarrow> run_config \<Rightarrow> job \<Rightarrow> (('w, 'z) rt_scheme, report \<times> run_state option) eff"

type_synonym ('w, 'z) member_resume =
  "crew_member \<Rightarrow> run_config \<Rightarrow> run_state \<Rightarrow> pyval \<Rightarrow>
   (('w, 'z) rt_scheme, report \<times> run_state option) eff"

section \<open>\<open>Workforce.__init__\<close>\<close>

fun parse_mode :: "string \<Rightarrow> workforce_mode option" where
  "parse_mode s =
     (if s = ''managed'' then Some Managed
      else if s = ''collaborate'' then Some Collaborate
      else if s = ''swarm'' then Some Swarm
      else None)"

definition duplicate_names :: "string list \<Rightarrow> string list" where
  "duplicate_names names = sort (filter (\<lambda>n. count_list names n > 1) (remdups names))"

definition make_workforce ::
  "crew_member list \<Rightarrow> string \<Rightarrow> string option \<Rightarrow> crew_member option \<Rightarrow> string option \<Rightarrow>
   exc + workforce" where
  "make_workforce ms mode name manager reducer =
     (if ms = [] then Inl (ValueError ''Workforce requires at least one worker'')
      else case parse_mode mode of
        None \<Rightarrow> Inl (ValueError (''mode must be '' @ [char_of (39::nat)] @ ''managed'' @
                  [char_of (39::nat)] @ '', '' @ [char_of (39::nat)] @ ''collaborate'' @
                  [char_of (39::nat)] @ '', or '' @ [char_of (39::nat)] @ ''swarm'' @
                  [char_of (39::nat)]))
      | Some md \<Rightarrow>
          if duplicate_names (map mb_name ms) \<noteq> []
          then Inl (ValueError (''Worker names must be unique: '' @
                      str_join '', '' (duplicate_names (map mb_name ms))))
          else if (case manager of
                     Some mg \<Rightarrow> mb_name mg \<in> mb_name ` set ms \<and> mb_ref mg \<notin> mb_ref ` set ms
                   | None \<Rightarrow> False)
          then Inl (ValueError (''Manager name conflicts with worker name: '' @
                      (case manager of Some mg \<Rightarrow> mb_name mg | None \<Rightarrow> [])))
          else Inr \<lparr>wf_members = ms, wf_mode = md, wf_name = or_str name ''workforce'',
                    wf_manager = manager, wf_reducer = reducer\<rparr>)"

text \<open>\<open>_worker_by_name\<close>: the members by name, the manager over them.\<close>

definition members_by_name :: "workforce \<Rightarrow> (string \<times> crew_member) list" where
  "members_by_name crew =
     (let d = foldl (\<lambda>d m. dict_set (mb_name m) m d) [] (wf_members crew)
      in case wf_manager crew of None \<Rightarrow> d | Some mg \<Rightarrow> dict_set (mb_name mg) mg d)"

text \<open>\<open>self.manager or self.workers[0]\<close>.\<close>

definition lead :: "workforce \<Rightarrow> crew_member" where
  "lead crew = (case wf_manager crew of Some mg \<Rightarrow> mg | None \<Rightarrow> hd (wf_members crew))"

definition can_parallelize_collaborate :: "workforce \<Rightarrow> job \<Rightarrow> bool" where
  "can_parallelize_collaborate crew j =
     (case job_tools_override j of
        Some items \<Rightarrow> items = []
      | None \<Rightarrow> list_all (\<lambda>m. toolbelt_list (wk_belt (mb_worker m)) = []) (wf_members crew))"

section \<open>Reports and states\<close>

definition reduce_reports ::
  "('w, 'x) force_ext_scheme \<Rightarrow> workforce \<Rightarrow> run_config \<Rightarrow> string \<Rightarrow> (crew_member \<times> report) list \<Rightarrow>
   (('w, 'z) rt_scheme, report) eff" where
  "reduce_reports X crew c rid reports =
     (case wf_reducer crew of
        Some f \<Rightarrow> on_world (x_reduce X f (map snd reports))
      | None \<Rightarrow> gets (\<lambda>s. default_reducer reports rid (config_events c s)))"

definition aggregate_failed ::
  "run_config \<Rightarrow> string \<Rightarrow> (crew_member \<times> report) list \<Rightarrow>
   (('w, 'z) rt_scheme, report \<times> run_state option) eff" where
  "aggregate_failed c rid reports =
     gets (\<lambda>s. (aggregate_reports reports rid (config_events c s) Failed, None))"

text \<open>The report of a member that paused, with the state the workforce pauses in.\<close>

definition paused_workforce ::
  "workforce \<Rightarrow> string \<Rightarrow> report \<Rightarrow> job \<Rightarrow> run_state \<Rightarrow> string \<Rightarrow> (string \<times> payload_val) list \<Rightarrow>
   (('w, 'z) rt_scheme, report \<times> run_state option) eff" where
  "paused_workforce crew rid rep j ws stage payload =
     gets (\<lambda>s. (rep, Some (build_workforce_state rid Paused (wf_name crew) j ws stage payload
                              (rt_totals s))))"

definition resume_failed_report ::
  "run_state \<Rightarrow> run_config \<Rightarrow> string \<Rightarrow> (('w, 'z) rt_scheme, report \<times> run_state option) eff" where
  "resume_failed_report st c message =
     gets (\<lambda>s. (build_report (rs_run_id st) Failed None None PNone (rs_messages st)
                  (rs_tool_calls st) (rs_metrics st) (config_events c s) None [message], None))"

section \<open>Handoffs\<close>

definition quoted :: "string \<Rightarrow> string" where
  "quoted s = [char_of (39::nat)] @ s @ [char_of (39::nat)]"

definition swarm_worker :: "workforce \<Rightarrow> string option \<Rightarrow> exc + crew_member" where
  "swarm_worker crew name =
     (if \<not> truthy name then Inl (ValueError ''Swarm current worker is missing.'')
      else case dict_get (members_by_name crew) (or_str name []) of
             None \<Rightarrow> Inl (ValueError (''Swarm current worker '' @ quoted (or_str name []) @
                                       '' is not registered.''))
           | Some m \<Rightarrow> Inr m)"

definition swarm_handoff_budget :: "run_config \<Rightarrow> int" where
  "swarm_handoff_budget c = max 1 (min (cfg_max_iterations c) (cfg_max_tool_calls c))"

definition handoff_tool :: "crew_member \<Rightarrow> job \<Rightarrow> string \<Rightarrow> tool option" where
  "handoff_tool m j name =
     (case job_tools_override j of
        Some items \<Rightarrow>
          foldl (\<lambda>resolved i. case i of
              OvTool t \<Rightarrow> if tl_name t = name then Some t else resolved
            | OvName n \<Rightarrow>
                if n = name
                then (case toolbelt_resolve (wk_belt (mb_worker m)) n of
                        Some t \<Rightarrow> if tl_name t = name then Some t else resolved
                      | None \<Rightarrow> resolved)
                else resolved
            | OvOther v \<Rightarrow> resolved) None items
      | None \<Rightarrow> toolbelt_resolve (wk_belt (mb_worker m)) name)"

text \<open>\<open>{item for item in raw_enum if isinstance(item, str) and item}\<close>, as a list.\<close>

definition enum_names :: "pyval list \<Rightarrow> string list" where
  "enum_names xs =
     concat (map (\<lambda>v. case v of PStr s \<Rightarrow> if s = [] then [] else [s] | _ \<Rightarrow> []) xs)"

definition handoff_allowed_agents :: "crew_member \<Rightarrow> job \<Rightarrow> string \<Rightarrow> string list option" where
  "handoff_allowed_agents m j name =
     (case handoff_tool m j name of
        None \<Rightarrow> None
      | Some t \<Rightarrow>
          if \<not> tl_requires_handoff t then None
          else (case dict_get (tl_schema t) ''properties'' of
                  Some (PDict props) \<Rightarrow>
                    (case dict_get props ''agent_name'' of
                       Some (PDict ans) \<Rightarrow>
                         (case dict_get ans ''enum'' of
                            Some (PList xs) \<Rightarrow> Some (enum_names xs)
                          | _ \<Rightarrow> None)
                     | _ \<Rightarrow> None)
                | _ \<Rightarrow> None))"

definition handoff_messages :: "report \<Rightarrow> string \<Rightarrow> string \<Rightarrow> message list" where
  "handoff_messages rep target call_id =
     filter (\<lambda>m. msg_role m \<noteq> System) (rep_messages rep) @
     [(mk_message ToolRole (CText (''Transferred to '' @ target @ ''.'')))
        \<lparr>msg_tool_call_id := Some call_id\<rparr>]"

text \<open>The member and the job a paused report hands over to; \<open>Inr None\<close>: no handoff is pending.\<close>

definition handoff_to ::
  "workforce \<Rightarrow> report \<Rightarrow> job \<Rightarrow> crew_member \<Rightarrow> tool_call \<Rightarrow> string \<Rightarrow> exc + crew_member \<times> job" where
  "handoff_to crew rep j m call target =
     (let context = dict_get_or (tc_arguments call) ''context'' (PStr [])
      in if (case handoff_allowed_agents m j (tc_name call) of
               Some allowed \<Rightarrow> target \<notin> set allowed | None \<Rightarrow> False)
         then Inl (ValueError (''Handoff target '' @ quoted target @
                     '' is not allowed for worker '' @ quoted (mb_name m) @ ''.''))
         else case swarm_worker crew (Some target) of
                Inl e \<Rightarrow> Inl (ValueError (''Handoff target '' @ quoted target @
                               '' is not in the workforce.''))
              | Inr next \<Rightarrow>
                  Inr (next, j\<lparr>job_initial_messages := Some (handoff_messages rep target (tc_id call)),
                               job_input := if py_bool context then context else job_input j\<rparr>))"

definition handoff_transition ::
  "workforce \<Rightarrow> report \<Rightarrow> job \<Rightarrow> crew_member \<Rightarrow> exc + (crew_member \<times> job) option" where
  "handoff_transition crew rep j m =
     (case rep_pending rep of
        None \<Rightarrow> Inr None
      | Some p \<Rightarrow>
          if pa_type p \<noteq> Handoff then Inr None
          else (case dict_get (tc_arguments (pa_tool_call p)) ''agent_name'' of
                  Some (PStr target) \<Rightarrow>
                    if target = [] then Inl (ValueError ''Handoff target is missing or invalid.'')
                    else map_sum id Some (handoff_to crew rep j m (pa_tool_call p) target)
                | _ \<Rightarrow> Inl (ValueError ''Handoff target is missing or invalid.'')))"

definition handoff_failed_report :: "report \<Rightarrow> string \<Rightarrow> report" where
  "handoff_failed_report rep message =
     rep\<lparr>rep_status := Failed, rep_pending := None, rep_errors := rep_errors rep @ [message]\<rparr>"

end
