(* ===== verification/Scenario.thy ===== *)
theory Scenario
  imports Worker_Outcome Workforce
begin

text \<open>
  A concrete world to run the model in: the adapter answers with a script, identifiers are
  counted, tools return text.  The witnesses of the properties are runs in it.
\<close>

record script =
  sc_next :: nat
  sc_replies :: "completion list"
  sc_log :: "string list"

definition plain_text :: pytext where
  "plain_text = \<lparr>float_repr = (\<lambda>q. ''0.0''), obj_str = (\<lambda>v. ''object''), fmt_g6 = (\<lambda>v. ''0''),
     model_json = (\<lambda>v. ''{}''), fmt_f1 = (\<lambda>q. ''0.0''), json_loads = (\<lambda>s. Inr (PDict []))\<rparr>"

definition next_reply :: "request \<Rightarrow> script \<Rightarrow> ((exc + completion) \<times> callback list) \<times> script" where
  "next_reply rq w =
     (case sc_replies w of
        [] \<Rightarrow> ((Inl (ValueError ''no reply''), []), w)
      | r # rs \<Rightarrow>
          if named_completion r then ((Inr r, []), w\<lparr>sc_replies := rs\<rparr>)
          else ((Inl (ValueError ''unnamed call''), []), w\<lparr>sc_replies := rs\<rparr>))"

text \<open>A tool logs its name and fails while its name is the next entry \<open>fail\<close> of the log.\<close>

definition run_tool :: "string \<Rightarrow> pyval dict \<Rightarrow> rat option \<Rightarrow> bool \<Rightarrow> script \<Rightarrow> invocation \<times> script" where
  "run_tool f args timeout ce w =
     (case sc_log w of
        m # ms \<Rightarrow> if m = ''fail'' then (Raised (ValueError ''failed''), w\<lparr>sc_log := ms\<rparr>)
                  else (Returned (PStr ''ok''), w\<lparr>sc_log := sc_log w @ [f]\<rparr>)
      | [] \<Rightarrow> (Returned (PStr ''ok''), w\<lparr>sc_log := [f]\<rparr>))"

definition demo :: "script force_ext" where
  "demo =
     \<lparr>x_text = plain_text, x_invoke = run_tool, x_hook = (\<lambda>h c r. ret ()),
      x_input = (\<lambda>m args. Inr args), x_isinstance = (\<lambda>c v. True), x_output = (\<lambda>c v. Inr v),
      x_sleep = (\<lambda>d w. w), x_cancelled = (\<lambda>w. False), x_wait_cancel = (\<lambda>d w. (False, w)),
      x_progress = (\<lambda>m. ret ()),
      x_new_id = (\<lambda>w. (''id'' @ nat_digits (sc_next w), w\<lparr>sc_next := sc_next w + 1\<rparr>)),
      x_now = (\<lambda>w. (0, w)), x_deliver = (\<lambda>e. ret ()),
      x_acomplete = next_reply, x_complete = next_reply,
      x_astructured = (\<lambda>rq w. ((Inr (SOther PNone), []), w)),
      x_structured = (\<lambda>rq w. ((Inr (SOther PNone), []), w)),
      x_accepts = (\<lambda>m k. True), x_has_callbacks = False, x_token_counter = (\<lambda>m t. None),
      x_model_cost = (\<lambda>m. True), x_pricing = (\<lambda>m. None), x_validate_json = (\<lambda>s t. Inr PNone),
      x_rank = (\<lambda>w i. 0),
      x_reduce = (\<lambda>f rs. ret (hd rs)), x_resolves = (\<lambda>m q. True)\<rparr>"

definition demo_tool :: "string \<Rightarrow> tool" where
  "demo_tool n =
     \<lparr>tl_name = n, tl_description = ''a tool'', tl_schema = [], tl_callable = n,
      tl_input_model = ''Model'', tl_requires_confirmation = False, tl_requires_user_input = False,
      tl_requires_handoff = False, tl_external_execution = False, tl_pre = [], tl_post = [],
      tl_confirmation_prompt = None, tl_user_input_prompt = None, tl_input_key = None,
      tl_timeout = None, tl_retries = 0, tl_retry_delay = 1, tl_output_type = None\<rparr>"

definition demo_call :: "string \<Rightarrow> string \<Rightarrow> tool_call" where
  "demo_call i n = \<lparr>tc_id = i, tc_name = n, tc_arguments = [], tc_result = PNone, tc_error = None\<rparr>"

definition demo_config :: run_config where
  "demo_config =
     \<lparr>cfg_run_id = ''run'', cfg_emit_run = ''run'', cfg_events = None, cfg_temperature = None,
      cfg_max_tokens = None, cfg_stream = False, cfg_stream_options = None,
      cfg_structured_retries = 3, cfg_max_iterations = 10, cfg_max_tool_calls = 20,
      cfg_num_retries = 0, cfg_respect_context = True, cfg_max_context_messages = None,
      cfg_max_cost_usd = None, cfg_default_model = Some ''m''\<rparr>"

definition demo_job :: job where
  "demo_job =
     \<lparr>job_id = ''job'', job_input = PStr ''hello'', job_expected_output = None,
      job_tools_override = None, job_response_schema = None, job_constraints = [],
      job_metadata = [], job_initial_messages = None, job_thinking = None,
      job_stream_mode = None, job_drop_params = None, job_extra_body = None\<rparr>"

definition say :: "string \<Rightarrow> completion" where
  "say t = CResponse \<lparr>mr_content = Some t, mr_reasoning = None, mr_thinking = None,
     mr_tool_calls = [], mr_usage = PDict []\<rparr>"

definition ask_for :: "tool_call list \<Rightarrow> completion" where
  "ask_for cs = CResponse \<lparr>mr_content = None, mr_reasoning = None, mr_thinking = None,
     mr_tool_calls = cs, mr_usage = PDict [(''prompt_tokens'', PInt 7)]\<rparr>"

definition demo_run :: "completion list \<Rightarrow> script rt" where
  "demo_run rs = \<lparr>rt_events = [], rt_totals = [],
     rt_world = \<lparr>sc_next = 0, sc_replies = rs, sc_log = []\<rparr>\<rparr>"

definition echo :: tool where
  "echo = demo_tool ''echo''"

definition guarded :: tool where
  "guarded = (demo_tool ''guarded'')\<lparr>tl_requires_confirmation := True\<rparr>"

definition demo_worker :: worker where
  "demo_worker = \<lparr>wk_name = ''w'', wk_belt = [(''echo'', echo), (''guarded'', guarded)],
     wk_instructions = None\<rparr>"

lemma nat_digits_nonempty [simp]: "nat_digits n \<noteq> []"
  by (subst nat_digits.simps) simp

lemma demo_good_ids: "good_ids demo"
  by (auto simp: good_ids_def demo_def next_reply_def split: list.splits if_splits)

lemma demo_limits: "validate_execution_limits demo_config = None"
  by (simp add: demo_config_def validate_execution_limits_def)

section \<open>Evaluation\<close>

text \<open>
  A run is evaluated by rewriting: the statements are unfolded one after the other, and the rest
  of a statement is not rewritten before the statement in front of it has returned.
\<close>

lemma run_weak_cong:
  "m = m' \<Longrightarrow> ebind m f = ebind m' f" "m = m' \<Longrightarrow> eseq m k = eseq m' k"
  "m = m' \<Longrightarrow> try_with m h = try_with m' h"
  by simp_all

lemmas loop_fuel_numeral [simp] =
  loop_fuel.simps(2)[where n = "pred_numeral k" for k, folded numeral_eq_Suc]

lemma demo_simps [simp]:
  "x_text demo = plain_text" "x_invoke demo = run_tool" "x_hook demo = (\<lambda>h c r. ret ())"
  "x_input demo = (\<lambda>m args. Inr args)" "x_isinstance demo = (\<lambda>c v. True)"
  "x_sleep demo = (\<lambda>d w. w)"
  "x_new_id demo = (\<lambda>w. (''id'' @ nat_digits (sc_next w), w\<lparr>sc_next := sc_next w + 1\<rparr>))"
  "x_now demo = (\<lambda>w. (0, w))" "x_deliver demo = (\<lambda>e. ret ())"
  "x_acomplete demo = next_reply" "x_complete demo = next_reply"
  "x_has_callbacks demo = False" "x_model_cost demo = (\<lambda>m. True)"
  "x_pricing demo = (\<lambda>m. None)" "x_rank demo = (\<lambda>w i. 0)" "x_resolves demo = (\<lambda>m q. True)"
  by (simp_all add: demo_def)

lemma demo_config_simps [simp]:
  "cfg_run_id demo_config = ''run''" "cfg_emit_run demo_config = ''run''"
  "cfg_events demo_config = None" "cfg_stream demo_config = False"
  "cfg_max_iterations demo_config = 10" "cfg_max_tool_calls demo_config = 20"
  "cfg_max_context_messages demo_config = None" "cfg_max_cost_usd demo_config = None"
  "cfg_default_model demo_config = Some ''m''"
  by (simp_all add: demo_config_def)

lemma demo_job_simps [simp]:
  "job_input demo_job = PStr ''hello''" "job_expected_output demo_job = None"
  "job_tools_override demo_job = None" "job_response_schema demo_job = None"
  "job_constraints demo_job = []" "job_initial_messages demo_job = None"
  by (simp_all add: demo_job_def)

lemma demo_tool_simps [simp]:
  "tl_name echo = ''echo''" "tool_action_type echo = None" "tl_name guarded = ''guarded''"
  "tool_action_type guarded = Some Confirmation" "tl_input_key guarded = None"
  by (simp_all add: echo_def guarded_def demo_tool_def tool_action_type_def)

lemma demo_worker_simps [simp]:
  "wk_name demo_worker = ''w''" "wk_belt demo_worker = [(''echo'', echo), (''guarded'', guarded)]"
  "wk_instructions demo_worker = None"
  by (simp_all add: demo_worker_def)

lemma demo_messages [simp]:
  "build_messages plain_text None demo_job = [mk_message User (CText ''hello'')]"
  by (simp add: build_messages_def system_message_def render_input_def)

lemma demo_model [simp]: "model_name demo_config None = ''m''"
  by (simp add: model_name_def)

definition ok_result :: tool_result where
  "ok_result = empty_result\<lparr>tr_content := Some ''ok'', tr_data := PStr ''ok''\<rparr>"

lemma ok_result_simps [simp]: "tr_error ok_result = None" "tr_content ok_result = Some ''ok''"
  by (simp_all add: ok_result_def empty_result_def)

lemma demo_tool_runs [simp]:
  assumes "t = echo \<or> t = guarded"
  shows "sc_log w = [] \<Longrightarrow> aexecute_tool demo t c False False w
     = (Inr ok_result, w\<lparr>sc_log := [tl_name t]\<rparr>)"
  using assms
  by (auto simp: aexecute_tool_def echo_def guarded_def demo_tool_def run_pre_hooks_def
      run_post_hooks_def validate_tool_call_def finish_with_post_hooks_def execute_once_def
      run_tool_def returned_result_def validate_output_def to_content_def report_progress_def
      ebind_def eseq_def ret_def gets_def ok_result_def empty_result_def no_result_def)

lemmas effect_defs =
  ebind_def eseq_def ret_def raise_def try_with_def attempt_def from_sum_def gets_def modify_def
  on_world_def ask_def emit_def

lemmas accounting_defs =
  record_turn_usage_def record_usage_def record_turn_def py_add_def usage_cost_def
  is_int_or_float_def get_prompt_cost_def get_completion_cost_def add_token_usage_def
  USAGE_KEYS_def add_key_def dict_get_or_def

lemmas run_defs =
  arun_def arun_loop_def turn_def model_turn_def compact_if_long_def over_budget_def
  acquire_turn_response_def acompletion_def adapter_call_def process_turn_response_def
  finalize_plain_response_def report_of_def add_message_def emit_assistant_message_def
  in_loop_def start_loop_def make_ctx_def config_events_def build_report_def resolve_tools_def
  tool_turn_def run_plan_def plan_tool_calls_def after_plan_def aexecute_tool_calls_def
  run_executable_def finish_call_def emit_pause_def pause_def demo_run_def next_reply_def say_def
  toolbelt_list_def collect_results_def make_pending_def assistant_message_def empty_plan_def
  allowed_tools_def demo_call_def ask_for_def tool_call_with_result_def named_calls_def
  tool_event_payload_def build_worker_state_def

lemmas scenario_defs = effect_defs accounting_defs run_defs Let_def

text \<open>Two runs: a tool call and an answer; a tool call that asks for consent.\<close>

definition tool_run :: "(exc + report \<times> run_state option) \<times> script rt" where
  "tool_run = arun demo demo_worker demo_config demo_job None
     (demo_run [ask_for [demo_call ''c1'' ''echo''], say ''bye''])"

definition paused_run :: "(exc + report \<times> run_state option) \<times> script rt" where
  "paused_run = arun demo demo_worker demo_config demo_job None
     (demo_run [ask_for [demo_call ''c1'' ''echo'', demo_call ''c2'' ''guarded''], say ''bye''])"

lemma tool_run_completes:
  "\<exists>rep s'. tool_run = (Inr (rep, None), s') \<and> rep_status rep = Completed
     \<and> rep_content rep = Some ''bye''"
  by (simp add: tool_run_def scenario_defs del: One_nat_def cong: run_weak_cong)

lemma paused_run_pauses:
  "\<exists>rep st s'. paused_run = (Inr (rep, Some st), s') \<and> rep_status rep = Paused
     \<and> sc_log (rt_world s') = [''echo'']"
  by (simp add: paused_run_def scenario_defs del: One_nat_def cong: run_weak_cong)

text \<open>A paused state, and its resumption after the user said yes.\<close>

definition paused_state :: run_state where
  "paused_state = RunState ''run'' Paused ''worker'' ''w'' demo_job
     [mk_message User (CText ''hello''),
      (mk_message Assistant (CText []))\<lparr>msg_tool_calls := [demo_call ''c2'' ''guarded'']\<rparr>]
     [demo_call ''c2'' ''guarded'']
     (Some \<lparr>pa_action_id = ''id'', pa_type = Confirmation, pa_tool_call = demo_call ''c2'' ''guarded'',
            pa_prompt = ''a tool'', pa_options = [''yes'', ''no''],
            pa_metadata = [(''tool'', PStr ''guarded'')]\<rparr>)
     [] 1 []"

definition resumed_run :: "(exc + report \<times> run_state option) \<times> script rt" where
  "resumed_run = aresume demo demo_worker demo_config paused_state (PStr ''yes'') None
     (demo_run [say ''done''])"

lemma paused_state_ok: "paused_ok 20 paused_state"
  by (simp add: paused_ok_def paused_state_def waits_for_def scan_step.simps demo_call_def)

lemma yes_approves [simp]: "confirmation_approved (PStr ''yes'')"
  by (simp add: confirmation_approved_def Let_def str_lower_def str_strip_def is_space_def
      char_lower_def CONFIRMATION_APPROVALS_def)

lemma resumed_run_completes:
  "\<exists>rep s'. resumed_run = (Inr (rep, None), s') \<and> rep_status rep = Completed
     \<and> sc_log (rt_world s') = [''guarded'']"
  by (simp add: resumed_run_def paused_state_def aresume_def resume_worker_def resume_config_def
      answer_pending_def resolve_resume_tool_def toolbelt_resolve_def totals_from_metrics_def
      restore_totals_def dict_update_def scenario_defs del: One_nat_def cong: run_weak_cong)

end
