(* ===== verification/Worker_Properties.thy ===== *)
theory Worker_Properties
  imports Scenario
begin

text \<open>
  The properties of tool execution and of the worker, each with a run of \<^verbatim>\<open>Scenario\<close> in which its
  hypotheses hold.
\<close>

section \<open>Runs\<close>

definition initial_ok :: "job \<Rightarrow> bool" where
  "initial_ok j = conversation_ok (case job_initial_messages j of Some ms \<Rightarrow> ms | None \<Rightarrow> [])"

lemma outcome_cases:
  assumes "good_outcome a limit (rep, st) totals"
  shows "int (length (rep_tool_calls rep)) \<le> limit
    \<and> (rep_status rep = Completed \<and> st = None \<and> conversation_ok (rep_messages rep)
       \<or> rep_status rep = Failed \<and> st = None \<and> rep_errors rep \<noteq> []
       \<or> rep_status rep = Paused \<and> (\<exists>S. st = Some S \<and> paused_ok limit S
            \<and> rs_pending S = rep_pending rep \<and> rs_messages S = rep_messages rep))"
  using assms by (auto simp: good_outcome_def split: run_status.splits)

text \<open>
  C1: A worker run that returns ends in one of three ways.  Completed: the conversation is
  well-formed, every tool call answered exactly once.  Failed: the report names an error.
  Paused: there is a state to resume from in which exactly the call the user is asked about is
  unanswered.  Never are more tool calls made than \<open>max_tool_calls\<close>.
\<close>

theorem arun_outcome:
  assumes "good_ids X" "validate_execution_limits c = None" "initial_ok j"
    and "arun X wk c j wm s = (Inr (rep, st), s')"
  shows "int (length (rep_tool_calls rep)) \<le> cfg_max_tool_calls c
    \<and> (rep_status rep = Completed \<and> st = None \<and> conversation_ok (rep_messages rep)
       \<or> rep_status rep = Failed \<and> st = None \<and> rep_errors rep \<noteq> []
       \<or> rep_status rep = Paused \<and> (\<exists>S. st = Some S \<and> paused_ok (cfg_max_tool_calls c) S
            \<and> rs_pending S = rep_pending rep \<and> rs_messages S = rep_messages rep))"
  using wpD(1)[OF wp_arun[where a = False, OF assms(1,2) assms(3)[unfolded initial_ok_def]] assms(4)]
  by (intro outcome_cases) auto

lemma demo_initial_ok: "initial_ok demo_job"
  by (simp add: initial_ok_def)

theorem arun_outcome_witness:
  "\<exists>rep s'. tool_run = (Inr (rep, None), s') \<and> rep_status rep = Completed
     \<and> conversation_ok (rep_messages rep) \<and> length (rep_tool_calls rep) \<le> 20"
proof -
  obtain rep s' where r: "tool_run = (Inr (rep, None), s')" "rep_status rep = Completed"
    using tool_run_completes by blast
  from arun_outcome[OF demo_good_ids demo_limits demo_initial_ok r(1)[unfolded tool_run_def]] r
  show ?thesis by auto
qed

text \<open>
  C2: Resuming a paused run answers the pending call, so the conversation is well-formed again, and
  the continued run ends in one of the same three ways: pausing and resuming can be repeated.
\<close>

theorem aresume_outcome:
  assumes "good_ids X" "validate_execution_limits c = None" "paused_ok (cfg_max_tool_calls c) S0"
    and "aresume X wk c S0 decision wm s = (Inr (rep, st), s')"
  shows "int (length (rep_tool_calls rep)) \<le> cfg_max_tool_calls c
    \<and> (rep_status rep = Completed \<and> st = None \<and> conversation_ok (rep_messages rep)
       \<or> rep_status rep = Failed \<and> st = None \<and> rep_errors rep \<noteq> []
       \<or> rep_status rep = Paused \<and> (\<exists>S. st = Some S \<and> paused_ok (cfg_max_tool_calls c) S
            \<and> rs_pending S = rep_pending rep \<and> rs_messages S = rep_messages rep))"
  using wpD(1)[OF wp_aresume[where a = False, OF assms(1-3)] assms(4)]
  by (intro outcome_cases) auto

theorem aresume_outcome_witness:
  "\<exists>rep s'. resumed_run = (Inr (rep, None), s') \<and> rep_status rep = Completed
     \<and> conversation_ok (rep_messages rep)"
proof -
  obtain rep s' where r: "resumed_run = (Inr (rep, None), s')" "rep_status rep = Completed"
    using resumed_run_completes by blast
  have "paused_ok (cfg_max_tool_calls demo_config) paused_state"
    using paused_state_ok by simp
  from aresume_outcome[OF demo_good_ids demo_limits this r(1)[unfolded resumed_run_def]] r
  show ?thesis by auto
qed

text \<open>
  C3: The metrics stored with a paused run are enough to rebuild the run's totals: the cost and the
  token counts read from them are those the run had when it paused, so the cost budget goes on
  counting where it stopped.
\<close>

theorem paused_totals_restored:
  assumes "good_ids X" "validate_execution_limits c = None" "initial_ok j"
    and "rt_totals s = []" "arun X wk c j wm s = (Inr (rep, Some S), s')"
  shows "\<exists>t. totals_from_metrics (rs_metrics S) = Inr t
    \<and> (\<forall>k\<in>set (''cost_usd'' # USAGE_KEYS). dict_get t k = dict_get (rt_totals s') k)"
proof -
  from assms(4) have "True \<longrightarrow> rt_totals s = []" by simp
  from wpD(1)[OF wp_arun[OF assms(1,2) assms(3)[unfolded initial_ok_def] this] assms(5)]
  have "in_step (rs_metrics S) (rt_totals s')"
    by (auto simp: good_outcome_def split: run_status.splits)
  from totals_from_metrics_in_step[OF this] show ?thesis by auto
qed

theorem paused_totals_restored_witness:
  "\<exists>rep S s' t. paused_run = (Inr (rep, Some S), s') \<and> totals_from_metrics (rs_metrics S) = Inr t
     \<and> dict_get t ''prompt_tokens'' = dict_get (rt_totals s') ''prompt_tokens''"
proof -
  obtain rep S s' where r: "paused_run = (Inr (rep, Some S), s')" using paused_run_pauses by blast
  have "rt_totals (demo_run rs) = []" for rs by (simp add: demo_run_def)
  from paused_totals_restored[OF demo_good_ids demo_limits demo_initial_ok this
      r[unfolded paused_run_def]] r
  show ?thesis by (auto simp: USAGE_KEYS_def)
qed

text \<open>
  C4: The worker's loop ends: with as many rounds as iterations are left, plus the one that reports
  the limit, the model always has a result.
\<close>

theorem worker_loop_terminates:
  assumes "good_ids X" "loop_inv a i cx s" "nat (cfg_max_iterations (cx_config cx) - i) < fuel"
    and "loop_fuel X cx j tools fuel s = (Inr r, s')"
  shows "r \<noteq> None"
  using wpD(1)[OF wp_loop_fuel[OF assms(2,1,3)] assms(4)] by blast

text \<open>A context that never lets a turn begin, one round of fuel.\<close>

theorem worker_loop_terminates_witness:
  "\<exists>r s'. loop_fuel demo (make_ctx demo demo_config ''w'' ''m'') demo_job [] 1
      (start_loop [] [] [] 10 (demo_run [])) = (Inr r, s') \<and> r \<noteq> None"
proof -
  let ?cx = "make_ctx demo demo_config ''w'' ''m''" and ?s = "start_loop [] [] [] 10 (demo_run [])"
  have inv: "loop_inv False 10 ?cx ?s" by (simp add: loop_inv_def make_ctx_def)
  have fuel: "nat (cfg_max_iterations (cx_config ?cx) - 10) < 1" by (simp add: make_ctx_def)
  have "\<exists>r s'. loop_fuel demo ?cx demo_job [] 1 ?s = (Inr r, s')"
    by (simp add: scenario_defs fail_report_def)
  then obtain r s' where "loop_fuel demo ?cx demo_job [] 1 ?s = (Inr r, s')" by blast
  with worker_loop_terminates[OF demo_good_ids inv fuel this] show ?thesis by auto
qed

section \<open>Limits and consent\<close>

text \<open>
  C5: Once the run has spent more than its budget no turn calls the model: whatever the adapter
  would do, the turn ends the run as failed and the budget is named in the report.
\<close>

theorem budget_stops_model_calls:
  assumes "cfg_max_cost_usd (cx_config cx) = Some budget"
    and "dict_get (rt_totals s) ''cost_usd'' = Some (PFloat spent)" "budget < spent"
  shows "turn (X\<lparr>x_acomplete := f, x_complete := g, x_astructured := h, x_structured := k\<rparr>) cx j tools s
      = turn X cx j tools s
    \<and> wp (turn X cx j tools) (\<lambda>out s'. \<exists>rep. out = Some (rep, None) \<and> rep_status rep = Failed
        \<and> last (rep_errors rep) = ''Cost budget exceeded: $'' @ fmt_g6 (x_text X) (PFloat spent) @
             '' spent, budget is $'' @ fmt_g6 (x_text X) (PFloat budget)) anything s"
proof -
  define m where "m P = ''Cost budget exceeded: $'' @ fmt_g6 P (PFloat spent) @
      '' spent, budget is $'' @ fmt_g6 P (PFloat budget)" for P :: pytext
  have over: "over_budget P (cx_config cx) (rt_totals s) = Inr (Some (m P))" for P
    using assms by (simp add: over_budget_def dict_get_or_def m_def)
  have turn_fail: "turn Y cx j tools s =
      ebind (fail_report Y cx (m (x_text Y))) (\<lambda>rep. ret (Some (rep, None)))
        (s\<lparr>ls_iteration := ls_iteration s + 1\<rparr>)" for Y :: "('a, 'b) run_ext_scheme"
    by (simp add: turn_def over eseq_def ebind_def modify_def gets_def from_sum_def)
  have "turn (X\<lparr>x_acomplete := f, x_complete := g, x_astructured := h, x_structured := k\<rparr>) cx j tools s
      = turn X cx j tools s"
    unfolding turn_fail by (simp add: fail_report_def emit_def)
  moreover have "wp (turn X cx j tools) (\<lambda>out s'. \<exists>rep. out = Some (rep, None) \<and> rep_status rep = Failed
        \<and> last (rep_errors rep) = m (x_text X)) anything s"
  proof (rule wp_same_run)
    show "turn X cx j tools s = ebind (fail_report X cx (m (x_text X))) (\<lambda>rep. ret (Some (rep, None)))
        (s\<lparr>ls_iteration := ls_iteration s + 1\<rparr>)" by (rule turn_fail)
    show "wp (ebind (fail_report X cx (m (x_text X))) (\<lambda>rep. ret (Some (rep, None))))
      (\<lambda>out s'. \<exists>rep. out = Some (rep, None) \<and> rep_status rep = Failed
        \<and> last (rep_errors rep) = m (x_text X)) anything (s\<lparr>ls_iteration := ls_iteration s + 1\<rparr>)"
      unfolding fail_report_def report_of_def
      by (simp, rule wp_silent[OF yields_emit]) (auto simp: build_report_def core_def)
  qed
  ultimately show ?thesis by (simp add: m_def)
qed

theorem budget_stops_model_calls_witness:
  "turn (demo\<lparr>x_acomplete := (\<lambda>rq w. ((Inl (ValueError ''called''), []), w)), x_complete := x_complete demo,
      x_astructured := x_astructured demo, x_structured := x_structured demo\<rparr>)
     (make_ctx demo (demo_config\<lparr>cfg_max_cost_usd := Some 1\<rparr>) ''w'' ''m'') demo_job []
     (start_loop [] [] [] 0 ((demo_run [say ''x''])\<lparr>rt_totals := [(''cost_usd'', PFloat 2)]\<rparr>))
   = turn demo (make_ctx demo (demo_config\<lparr>cfg_max_cost_usd := Some 1\<rparr>) ''w'' ''m'') demo_job []
     (start_loop [] [] [] 0 ((demo_run [say ''x''])\<lparr>rt_totals := [(''cost_usd'', PFloat 2)]\<rparr>))"
  by (rule budget_stops_model_calls[where budget = 1 and spent = 2, THEN conjunct1])
    (simp_all add: make_ctx_def)

text \<open>
  C6: A worker only ever executes a call, on its own, of a tool that is allowed under the name the
  model used, that needs neither confirmation nor input nor a handoff, and whose arguments were
  read without error.
\<close>

theorem executed_without_consent:
  assumes "plan_tool_calls X allowed limit r tcs w = ((p, tcs'), w')" "(c, t) \<in> set (pl_executable p)"
  shows "c \<in> set (mr_tool_calls r) \<and> \<not> truthy (tc_error c) \<and> dict_get allowed (tc_name c) = Some t
    \<and> \<not> tl_requires_confirmation t \<and> \<not> tl_requires_user_input t \<and> \<not> tl_requires_handoff t"
proof -
  from plan_calls_executable[OF assms(1)[unfolded plan_tool_calls_def] assms(2)]
  have "c \<in> set (mr_tool_calls r) \<and> \<not> truthy (tc_error c) \<and> dict_get allowed (tc_name c) = Some t
    \<and> tool_action_type t = None" by (auto simp: empty_plan_def)
  then show ?thesis by (auto simp: tool_action_type_def split: if_splits)
qed

text \<open>
  C7: Every call of a response is dealt with exactly once.  The calls taken are a first part of the
  response, appended to the run's list; each of them is either answered in this turn or is the one
  the worker pauses for; a call is left over only when the limit is reached, and the limit holds.
\<close>

theorem plan_partition:
  assumes "plan_tool_calls X allowed limit r tcs w = ((p, tcs'), w')"
  shows "\<exists>n\<le>length (mr_tool_calls r). tcs' = tcs @ take n (mr_tool_calls r)
    \<and> mset (pl_ordered p) + mset (pending_calls p) = mset (take n (mr_tool_calls r))
    \<and> (pl_exceeded p \<longleftrightarrow> n < length (mr_tool_calls r))
    \<and> int (length tcs') \<le> max (int (length tcs)) limit"
  using plan_tool_calls_spec[OF assms] .

definition demo_response :: model_response where
  "demo_response = \<lparr>mr_content = None, mr_reasoning = None, mr_thinking = None,
     mr_tool_calls = [demo_call ''c1'' ''echo'', demo_call ''c2'' ''guarded'', demo_call ''c3'' ''echo''],
     mr_usage = PDict []\<rparr>"

definition demo_plan :: tool_plan where
  "demo_plan = fst (fst (plan_tool_calls demo [(''echo'', echo), (''guarded'', guarded)] 20
     demo_response [] (rt_world (demo_run []))))"

lemma demo_plan_eq:
  "\<exists>tcs' w'. plan_tool_calls demo [(''echo'', echo), (''guarded'', guarded)] 20
     demo_response [] (rt_world (demo_run [])) = ((demo_plan, tcs'), w')"
  unfolding demo_plan_def by (metis prod.collapse)

lemma demo_plan_fields:
  "pl_executable demo_plan = [(demo_call ''c1'' ''echo'', echo)]"
  "map tc_id (pl_ordered demo_plan) = [''c1'', ''c3'']" "pl_exceeded demo_plan = False"
  by (simp_all add: demo_plan_def demo_response_def plan_tool_calls_def empty_plan_def demo_call_def
      demo_run_def)

theorem executed_without_consent_witness:
  "\<not> tl_requires_confirmation echo \<and> (demo_call ''c1'' ''echo'', echo) \<in> set (pl_executable demo_plan)"
proof -
  obtain tcs' w' where p: "plan_tool_calls demo [(''echo'', echo), (''guarded'', guarded)] 20
     demo_response [] (rt_world (demo_run [])) = ((demo_plan, tcs'), w')" using demo_plan_eq by blast
  have m: "(demo_call ''c1'' ''echo'', echo) \<in> set (pl_executable demo_plan)"
    by (simp add: demo_plan_fields)
  from executed_without_consent[OF p m] m show ?thesis by blast
qed

theorem plan_partition_witness:
  "\<exists>n. mset (pl_ordered demo_plan) + mset (pending_calls demo_plan) = mset (take n (mr_tool_calls demo_response))
     \<and> \<not> n < length (mr_tool_calls demo_response)"
proof -
  obtain tcs' w' where "plan_tool_calls demo [(''echo'', echo), (''guarded'', guarded)] 20
     demo_response [] (rt_world (demo_run [])) = ((demo_plan, tcs'), w')" using demo_plan_eq by blast
  from plan_partition[OF this] demo_plan_fields(3) show ?thesis by auto
qed

text \<open>
  C8: A declined confirmation is never executed: whatever the tool's function and its hooks would
  do, resuming does the same, and the conversation gets one tool message that says so.
\<close>

theorem declined_not_executed:
  assumes "resolve_resume_tool (wk_belt wk) j (tc_name (pa_tool_call p)) = Some t"
    and "pa_type p = Confirmation" "\<not> confirmation_approved d"
  shows "answer_pending (X\<lparr>x_invoke := f, x_hook := h\<rparr>) wk c j p d = answer_pending X wk c j p d
    \<and> (answer_pending X wk c j p d s = (Inr (), s') \<longrightarrow>
        ls_messages s' = ls_messages s @
          [tool_message (x_text X) (error_result ''Tool execution declined'') (pa_tool_call p)])"
proof -
  let ?r = "error_result ''Tool execution declined''" and ?call = "pa_tool_call p"
  have eq: "answer_pending Y wk c j p d = finish_call Y c (tc_name ?call) ?call ?r" for Y :: "('a, 'b) run_ext_scheme"
    using assms by (simp add: answer_pending_def Let_def)
  have ext: "finish_call (X\<lparr>x_invoke := f, x_hook := h\<rparr>) c n call r = finish_call X c n call r" for n call r
    by (simp add: finish_call_def emit_def)
  have "wp (finish_call X c (tc_name ?call) ?call ?r)
      (\<lambda>_ s'. ls_messages s' = ls_messages s @ [tool_message (x_text X) ?r ?call]) anything s"
    unfolding finish_call_def
    by (simp only: wp_simps wp_add_message, rule wp_silent[OF yields_if_emit])
      (auto dest: core_fields split: sum.splits)
  then show ?thesis unfolding eq ext by (auto dest: wpD(1))
qed

theorem declined_not_executed_witness:
  "answer_pending (demo\<lparr>x_invoke := (\<lambda>g a q b w. (Raised (ValueError ''ran''), w)), x_hook := x_hook demo\<rparr>)
     demo_worker demo_config demo_job
     \<lparr>pa_action_id = ''id'', pa_type = Confirmation, pa_tool_call = demo_call ''c2'' ''guarded'',
      pa_prompt = [], pa_options = [], pa_metadata = []\<rparr> (PBool False)
   = answer_pending demo demo_worker demo_config demo_job
     \<lparr>pa_action_id = ''id'', pa_type = Confirmation, pa_tool_call = demo_call ''c2'' ''guarded'',
      pa_prompt = [], pa_options = [], pa_metadata = []\<rparr> (PBool False)"
  by (rule declined_not_executed[where t = guarded, THEN conjunct1])
    (simp_all add: resolve_resume_tool_def toolbelt_resolve_def demo_call_def confirmation_approved_def)

text \<open>The name an entry of the override stands for.\<close>

definition override_name :: "override_item \<Rightarrow> string option" where
  "override_name i = (case i of OvTool t \<Rightarrow> Some (tl_name t) | OvName n \<Rightarrow> Some n | OvOther v \<Rightarrow> None)"

lemma allowed_tools_append:
  "allowed_tools (ts @ [t]) = dict_set (tl_name t) t (allowed_tools ts)"
  by (simp add: allowed_tools_def)

lemma allowed_tools_get:
  "dict_get (allowed_tools ts) n = (case filter (\<lambda>t. tl_name t = n) (rev ts) of [] \<Rightarrow> None | t # _ \<Rightarrow> Some t)"
proof (induction ts rule: rev_induct)
  case Nil then show ?case by (simp add: allowed_tools_def)
next
  case (snoc t ts) then show ?case by (auto simp: allowed_tools_append split: list.splits)
qed

lemma override_tools_named:
  assumes "wf_toolbelt belt"
  shows "filter (\<lambda>t. tl_name t = n) (resolve_tools belt (j\<lparr>job_tools_override := Some items\<rparr>))
    = resolve_tools belt (j\<lparr>job_tools_override := Some (filter (\<lambda>i. override_name i = Some n) items)\<rparr>)"
  using toolbelt_resolve_name[OF assms]
  by (induction items)
    (auto simp: resolve_tools_def override_name_def split: override_item.splits option.splits)

text \<open>
  C9: On resume the tool of the pending call is looked up again; where no two entries of the job's
  override bear the same name, it is the tool the run was allowed to call under that name.
\<close>

theorem resume_tool_is_allowed_tool:
  assumes "wf_toolbelt belt" "job_tools_override j = Some items"
    and "distinct (filter (\<lambda>n. n \<noteq> None) (map override_name items))"
  shows "resolve_resume_tool belt j n = dict_get (allowed_tools (resolve_tools belt j)) n"
proof -
  have j: "j = j\<lparr>job_tools_override := Some items\<rparr>" using assms(2) by simp
  have "resolve_override belt items n
      = (case filter (\<lambda>t. tl_name t = n) (rev (resolve_tools belt (j\<lparr>job_tools_override := Some items\<rparr>))) of
           [] \<Rightarrow> None | t # _ \<Rightarrow> Some t)"
    using assms(3)
  proof (induction items)
    case Nil then show ?case by (simp add: resolve_tools_def)
  next
    case (Cons i items)
    have other: "filter (\<lambda>k. override_name k = Some n) items = []" if "override_name i = Some n"
      using Cons.prems that by (auto simp: filter_empty_conv image_iff)
    have IH: "resolve_override belt items n
      = (case filter (\<lambda>t. tl_name t = n) (rev (resolve_tools belt (j\<lparr>job_tools_override := Some items\<rparr>))) of
           [] \<Rightarrow> None | t # _ \<Rightarrow> Some t)"
      using Cons by (auto split: if_splits)
    have rest: "filter (\<lambda>t. tl_name t = n) (resolve_tools belt (j\<lparr>job_tools_override := Some items\<rparr>)) = []"
      if "override_name i = Some n"
      using override_tools_named[OF assms(1), where n = n and j = j and items = items] other[OF that] by (simp add: resolve_tools_def)
    show ?case
      using IH rest toolbelt_resolve_name[OF assms(1)]
      by (cases i) (auto simp: resolve_tools_def override_name_def rev_filter[symmetric]
          split: option.splits list.splits)
  qed
  then show ?thesis
    using assms(2) j by (simp add: resolve_resume_tool_def allowed_tools_get)
qed

theorem resume_tool_is_allowed_tool_witness:
  "resolve_resume_tool [(''echo'', echo)] (demo_job\<lparr>job_tools_override := Some [OvName ''echo'', OvTool guarded]\<rparr>)
     ''guarded''
   = dict_get (allowed_tools (resolve_tools [(''echo'', echo)]
       (demo_job\<lparr>job_tools_override := Some [OvName ''echo'', OvTool guarded]\<rparr>))) ''guarded''"
  by (rule resume_tool_is_allowed_tool[where items = "[OvName ''echo'', OvTool guarded]"])
    (simp_all add: wf_toolbelt_def override_name_def)

text \<open>
  Where two tools of the override bear the same name, the run calls the last one, but a resumption
  looks up the first.
\<close>

lemma resume_tool_takes_first:
  assumes "job_tools_override j = Some [OvTool t1, OvTool t2]" "tl_name t1 = n" "tl_name t2 = n"
  shows "resolve_resume_tool belt j n = Some t1 \<and> dict_get (allowed_tools (resolve_tools belt j)) n = Some t2"
  using assms by (simp add: resolve_resume_tool_def resolve_tools_def allowed_tools_def)

lemma resume_tool_takes_first_witness:
  "resolve_resume_tool [] (demo_job\<lparr>job_tools_override := Some [OvTool echo, OvTool (echo\<lparr>tl_callable := ''new''\<rparr>)]\<rparr>)
     ''echo'' = Some echo \<and> echo \<noteq> echo\<lparr>tl_callable := ''new''\<rparr>"
proof -
  have "tl_callable (echo\<lparr>tl_callable := ''new''\<rparr>) \<noteq> tl_callable echo" by (simp add: echo_def demo_tool_def)
  then have "echo \<noteq> echo\<lparr>tl_callable := ''new''\<rparr>" by metis
  then show ?thesis
    using resume_tool_takes_first[of "demo_job\<lparr>job_tools_override := Some [OvTool echo, OvTool (echo\<lparr>tl_callable := ''new''\<rparr>)]\<rparr>"
      echo "echo\<lparr>tl_callable := ''new''\<rparr>" "''echo''" "[]"] by simp
qed

section \<open>Conversations\<close>

text \<open>
  C10: Summarizing the history keeps the conversation well-formed: no tool message is kept whose call
  was summarized away, and no call whose answer was.
\<close>

theorem summary_keeps_conversation:
  assumes "conversation_ok ms"
    and "aapply_context_summary X c model worker registered preserve_recent limit ms metrics s
      = (Inr (Some (ms', metrics')), s')"
  shows "conversation_ok ms' \<and> (\<exists>summary. summary_message summary \<in> set ms')"
proof -
  have "wp (aapply_context_summary X c model worker registered preserve_recent limit ms metrics)
      (\<lambda>r s'. \<forall>ms' m'. r = Some (ms', m') \<longrightarrow> conversation_ok ms' \<and> (\<exists>x. summary_message x \<in> set ms')) anything s"
    unfolding aapply_context_summary_def
    by (rule wp_apply_summary) (auto dest: summary_conversation_ok[OF assms(1)])
  from wpD(1)[OF this assms(2)] show ?thesis by blast
qed

definition long_conversation :: "message list" where
  "long_conversation = [mk_message System (CText ''s''), mk_message User (CText ''a''),
     mk_message Assistant (CText ''b''), mk_message User (CText ''c'')]"

lemma long_conversation_summary:
  "\<exists>ms' m' s'. aapply_context_summary demo demo_config ''m'' ''w'' True False None long_conversation []
     (demo_run [say ''short'']) = (Inr (Some (ms', m')), s') \<and> length ms' = 2"
  by (simp add: aapply_context_summary_def apply_summary_with_def summary_split_def long_conversation_def
      Let_def preserve_tool_call_boundary_def preserve_boundary.simps asummarize_messages_def
      summarize_with_def message_summary_text_def content_summary_def summarize_attempt_def
      chunk_text_def token_count_def asummarize_chunk_def plain_call_def do_summarize_chunk_def
      commit_context_summary_def scenario_defs numeral_2_eq_2 demo_def plain_text_def nl_def)

theorem summary_keeps_conversation_witness:
  "\<exists>ms' m' s'. aapply_context_summary demo demo_config ''m'' ''w'' True False None long_conversation []
     (demo_run [say ''short'']) = (Inr (Some (ms', m')), s') \<and> conversation_ok ms'"
proof -
  have ok: "conversation_ok long_conversation"
    by (simp add: conversation_ok_def long_conversation_def scan_step.simps)
  obtain ms' m' s' where r: "aapply_context_summary demo demo_config ''m'' ''w'' True False None
      long_conversation [] (demo_run [say ''short'']) = (Inr (Some (ms', m')), s')"
    using long_conversation_summary by blast
  with summary_keeps_conversation[OF ok r] show ?thesis by blast
qed

text \<open>
  The chunks a long history is summarized in are, put together, that history: nothing is lost
  and nothing is read twice.
\<close>

lemma chunks_cover_text: "concat (chunk_text X model txt target_tokens) = txt"
  by (rule chunk_text_concat)

section \<open>Tool execution\<close>

text \<open>
  C11: The retry loop makes at most \<open>retries + 1\<close> attempts.  Its result is that of the first attempt
  that succeeded or was cancelled, else of the last one, and attempt \<open>k + 1\<close> runs after a wait of
  \<open>retry_delay * 2 ^ k\<close> on the world attempt \<open>k\<close> left.
\<close>

theorem retries_take_first_decisive:
  assumes "tool_ok t"
  shows "\<exists>j\<le>nat (tl_retries t).
    (j = nat (tl_retries t) \<or> decisive (fst (attempt_at X t args w j)))
    \<and> (\<forall>i<j. \<not> decisive (fst (attempt_at X t args w i)))
    \<and> execute_sync_with_retries X t args w = attempt_at X t args w j"
proof -
  have "0 \<le> tl_retries t" by (rule tool_ok_retries[OF assms])
  then have left: "int (0 + nat (tl_retries t)) = tl_retries t" and
    n: "nat (tl_retries t + 1) = Suc (nat (tl_retries t))" by auto
  from sync_retries_spec[OF left, of X args w None] obtain j where
    "j \<le> nat (tl_retries t)" "j = nat (tl_retries t) \<or> decisive (fst (attempt_at X t args w j))"
    "\<forall>i<j. \<not> decisive (fst (attempt_at X t args w i))"
    "sync_retries X t args (nat (tl_retries t + 1)) 0 None w = apfst Some (attempt_at X t args w j)"
    unfolding n by auto
  then show ?thesis
    by (intro exI[of _ j], cases "attempt_at X t args w j")
      (auto simp: execute_sync_with_retries_def no_result_def)
qed

definition stubborn :: tool where
  "stubborn = (demo_tool ''stubborn'')\<lparr>tl_retries := 2\<rparr>"

theorem retries_take_first_decisive_witness:
  "\<exists>j\<le>2. execute_sync_with_retries demo stubborn [] \<lparr>sc_next = 0, sc_replies = [], sc_log = [''fail'']\<rparr>
     = attempt_at demo stubborn [] \<lparr>sc_next = 0, sc_replies = [], sc_log = [''fail'']\<rparr> j"
proof -
  have "tool_ok stubborn"
    by (simp add: stubborn_def demo_tool_def tool_check_def str_strip_def is_space_def)
  from retries_take_first_decisive[OF this, of demo "[]" "\<lparr>sc_next = 0, sc_replies = [], sc_log = [''fail'']\<rparr>"]
  show ?thesis by (auto simp: stubborn_def)
qed

text \<open>
  The blocking and the asynchronous execution of a tool agree, when no cancel event and no progress
  callback is given and a function that is cut off does not raise: result, hooks, attempts and waits.
\<close>

lemma async_execution_is_sync:
  assumes "quiet_cancel X"
  shows "aexecute_tool X t call False False w = apfst Inr (execute_tool X t call w)"
  by (auto simp: aexecute_tool_def execute_tool_def execute_sync_with_retries_def
      async_retries_sync[OF assms] split: prod.splits sum.splits)

text \<open>
  Post hooks never turn a failure into a success and never touch what the tool produced: the
  content, the data and the timed-out and cancelled flags stay, an error stays an error.
\<close>

lemma post_hooks_keep_result:
  "(case finish_with_post_hooks X t call r w of (r', w') \<Rightarrow>
     tr_content r' = tr_content r \<and> tr_data r' = tr_data r \<and> tr_timed_out r' = tr_timed_out r
     \<and> tr_cancelled r' = tr_cancelled r \<and> (tr_error r' = None \<longrightarrow> r' = r))"
proof (rule finish_with_post_hooks_cases[of X t call r w])
  fix e w' assume "finish_with_post_hooks X t call r w = (post_hook_error_result t r e, w')"
  then show ?thesis using post_hook_error_result_error[of t r e] by (auto simp: frame)
qed simp

end
