(* ===== verification/Workforce_Modes.thy ===== *)
theory Workforce_Modes
  imports Workforce
begin

text \<open>
  The modes of a workforce and its resumption.  The swarm loop is a recursion with fuel: each
  round that hands over adds one to the handoff count and stops past the budget, so the handoffs
  left plus one is enough.  The loops of \<open>_arun_swarm_mode\<close> and \<open>_aresume_swarm_stage\<close> are the
  same loop, entered with the outcome of the member's run or of its resumption.
\<close>

section \<open>Swarm\<close>

definition swarm_payload ::
  "job \<Rightarrow> crew_member \<Rightarrow> int \<Rightarrow> report list \<Rightarrow> (string \<times> payload_val) list" where
  "swarm_payload j m passed history =
     [(''root_job'', PlJob j), (''current_worker'', PlVal (PStr (mb_name m))),
      (''handoff_count'', PlVal (PInt passed)), (''swarm_history'', PlReports history)]"

primrec swarm_rounds ::
  "('w, 'z) member_run \<Rightarrow> workforce \<Rightarrow> run_config \<Rightarrow> string \<Rightarrow> nat \<Rightarrow> crew_member \<Rightarrow> job \<Rightarrow> int \<Rightarrow>
   report list \<Rightarrow> report \<times> run_state option \<Rightarrow>
   (('w, 'z) rt_scheme, (report \<times> run_state option) option) eff" where
  "swarm_rounds run crew c rid 0 = (\<lambda>m j passed history out. ret None)"
| "swarm_rounds run crew c rid (Suc n) = (\<lambda>m j passed history (rep, st).
     case (if st \<noteq> None \<and> rep_status rep = Paused then handoff_transition crew rep j m
           else Inr None) of
       Inl e \<Rightarrow>
         ret (Some (merge_swarm_reports history (handoff_failed_report rep (exc_msg e)), None))
     | Inr (Some (m', j')) \<Rightarrow>
         (let history' = history @ [rep\<lparr>rep_pending := None\<rparr>]
          in if passed + 1 > swarm_handoff_budget c
             then ret (Some (merge_swarm_reports history'
                               (handoff_failed_report rep ''Max handoff transitions exceeded.''),
                             None))
             else ebind (run m' c j') (swarm_rounds run crew c rid n m' j' (passed + 1) history'))
     | Inr None \<Rightarrow>
         (case st of
            Some ws \<Rightarrow>
              ebind (paused_workforce crew rid rep j ws ''swarm'' (swarm_payload j m passed history))
                (\<lambda>out. ret (Some out))
          | None \<Rightarrow> ret (Some (merge_swarm_reports history rep, None))))"

definition swarm_loop ::
  "('w, 'z) member_run \<Rightarrow> workforce \<Rightarrow> run_config \<Rightarrow> string \<Rightarrow> crew_member \<Rightarrow> job \<Rightarrow> int \<Rightarrow>
   report list \<Rightarrow> report \<times> run_state option \<Rightarrow>
   (('w, 'z) rt_scheme, report \<times> run_state option) eff" where
  "swarm_loop run crew c rid m j passed history out =
     ebind (swarm_rounds run crew c rid (nat (swarm_handoff_budget c - passed) + 1) m j passed history out)
       (\<lambda>r. case r of Some x \<Rightarrow> ret x | None \<Rightarrow> raise out_of_fuel)"

definition arun_swarm_mode ::
  "('w, 'z) member_run \<Rightarrow> workforce \<Rightarrow> run_config \<Rightarrow> job \<Rightarrow>
   (('w, 'z) rt_scheme, report \<times> run_state option) eff" where
  "arun_swarm_mode run crew c j =
     ebind (run (lead crew) c j) (swarm_loop run crew c (cfg_run_id c) (lead crew) j 0 [])"

section \<open>Managed\<close>

definition manager_job :: "workforce \<Rightarrow> job \<Rightarrow> string \<Rightarrow> job" where
  "manager_job crew j i =
     \<lparr>job_id = i,
      job_input = PDict [(''task'', job_input j),
                         (''workers'', PList (map (\<lambda>m. PStr (mb_name m)) (wf_members crew)))],
      job_expected_output = None, job_tools_override = Some [],
      job_response_schema = Some (ModelSchema ''blackgeorge.workforce'' ''WorkerDecision''),
      job_constraints = [], job_metadata = [], job_initial_messages = None, job_thinking = None,
      job_stream_mode = None, job_drop_params = None, job_extra_body = None\<rparr>"

text \<open>What follows the outcome of a selected worker, and of the manager; \<open>rid\<close> is the run's id.\<close>

definition worker_done ::
  "workforce \<Rightarrow> string \<Rightarrow> job \<Rightarrow> crew_member \<Rightarrow> report \<times> run_state option \<Rightarrow>
   (('w, 'z) rt_scheme, report \<times> run_state option) eff" where
  "worker_done crew rid j m out =
     (case out of
        (rep, Some ws) \<Rightarrow>
          paused_workforce crew rid rep j ws ''worker''
            [(''root_job'', PlJob j), (''selected_worker'', PlVal (PStr (mb_name m)))]
      | (rep, None) \<Rightarrow> ret (rep, None))"

definition manager_done ::
  "('w, 'z) member_run \<Rightarrow> workforce \<Rightarrow> run_config \<Rightarrow> string \<Rightarrow> job \<Rightarrow> report \<times> run_state option \<Rightarrow>
   (('w, 'z) rt_scheme, report \<times> run_state option) eff" where
  "manager_done run crew c rid j out =
     (case out of
        (rep, Some ws) \<Rightarrow> paused_workforce crew rid rep j ws ''manager'' [(''root_job'', PlJob j)]
      | (rep, None) \<Rightarrow>
          if rep_status rep = Failed then ret (rep, None)
          else let m = find_worker (wf_members crew) (Some (select_worker_name rep (wf_members crew)))
               in ebind (run m c j) (worker_done crew rid j m))"

definition arun_managed_mode ::
  "('w, 'x) force_ext_scheme \<Rightarrow> ('w, 'z) member_run \<Rightarrow> workforce \<Rightarrow> run_config \<Rightarrow> job \<Rightarrow>
   (('w, 'z) rt_scheme, report \<times> run_state option) eff" where
  "arun_managed_mode X run crew c j =
     ebind (ask (x_new_id X)) (\<lambda>i.
     ebind (run (lead crew) c (manager_job crew j i)) (manager_done run crew c (cfg_run_id c) j))"

section \<open>Collaborate\<close>

definition collaborate_payload ::
  "job \<Rightarrow> payload_val \<Rightarrow> nat \<Rightarrow> (string \<times> payload_val) list" where
  "collaborate_payload j completed index =
     [(''root_job'', PlJob j), (''completed_reports'', completed),
      (''pending_worker_index'', PlVal (PInt (int index)))]"

text \<open>The members that have not run yet, after those with the given reports.\<close>

primrec collaborate_from ::
  "('w, 'x) force_ext_scheme \<Rightarrow> ('w, 'z) member_run \<Rightarrow> workforce \<Rightarrow> run_config \<Rightarrow> string \<Rightarrow> job \<Rightarrow>
   crew_member list \<Rightarrow> (crew_member \<times> report) list \<Rightarrow>
   (('w, 'z) rt_scheme, report \<times> run_state option) eff" where
  "collaborate_from X run crew c rid j [] = (\<lambda>reports.
     ebind (reduce_reports X crew c rid reports) (\<lambda>rep. ret (rep, None)))"
| "collaborate_from X run crew c rid j (m # ms) = (\<lambda>reports.
     ebind (run m c j) (\<lambda>out.
     case out of
       (rep, Some ws) \<Rightarrow>
         paused_workforce crew rid rep j ws ''collaborate''
           (collaborate_payload j (PlReports (map snd reports)) (length reports))
     | (rep, None) \<Rightarrow>
         if rep_status rep = Failed then aggregate_failed c rid (reports @ [(m, rep)])
         else collaborate_from X run crew c rid j ms (reports @ [(m, rep)])))"

text \<open>
  \<open>asyncio.wait(tasks, return_when=FIRST_EXCEPTION)\<close>: the tasks finish in an order the scheduler
  picks; after the first that raises the others are cancelled and have no outcome.
\<close>

primrec wait_first_exception ::
  "(nat \<Rightarrow> ('s, 'a) eff) \<Rightarrow> nat list \<Rightarrow> ('s, (nat \<times> (exc + 'a)) list) eff" where
  "wait_first_exception f [] = ret []"
| "wait_first_exception f (i # is) =
     ebind (attempt (f i)) (\<lambda>r.
     case r of
       Inl e \<Rightarrow> ret [(i, Inl e)]
     | Inr a \<Rightarrow> ebind (wait_first_exception f is) (\<lambda>rs. ret ((i, Inr a) # rs)))"

definition task_report :: "run_config \<Rightarrow> event list \<Rightarrow> string \<Rightarrow> report" where
  "task_report c events message =
     build_report (cfg_run_id c) Failed None None PNone [] [] [] events None [message]"

definition task_outcome ::
  "run_config \<Rightarrow> event list \<Rightarrow> (exc + report \<times> run_state option) option \<Rightarrow> report \<times> run_state option"
where
  "task_outcome c events r =
     (case r of
        Some (Inr out) \<Rightarrow> out
      | Some (Inl e) \<Rightarrow> (task_report c events (exc_msg e), None)
      | None \<Rightarrow> (task_report c events ''Worker cancelled due to sibling failure'', None))"

text \<open>The outcomes in worker order: \<open>Inl\<close> the first that paused with the reports before it.\<close>

fun collect_outcomes ::
  "(crew_member \<times> report \<times> run_state option) list \<Rightarrow> (crew_member \<times> report) list \<Rightarrow>
   (report \<times> run_state \<times> (crew_member \<times> report) list) + (crew_member \<times> report) list" where
  "collect_outcomes [] reports = Inr reports"
| "collect_outcomes ((m, rep, Some ws) # outs) reports = Inl (rep, ws, reports)"
| "collect_outcomes ((m, rep, None) # outs) reports = collect_outcomes outs (reports @ [(m, rep)])"

definition parallel_outcomes ::
  "('w, 'x) force_ext_scheme \<Rightarrow> ('w, 'z) member_run \<Rightarrow> workforce \<Rightarrow> run_config \<Rightarrow> job \<Rightarrow>
   (('w, 'z) rt_scheme, (crew_member \<times> report \<times> run_state option) list) eff" where
  "parallel_outcomes X run crew c j =
     ebind (gets rt_world) (\<lambda>w.
     ebind (wait_first_exception (\<lambda>i. run (wf_members crew ! i) c j)
              (schedule X w (length (wf_members crew)))) (\<lambda>rs.
     gets (\<lambda>s. map (\<lambda>i. (wf_members crew ! i, task_outcome c (config_events c s) (map_of rs i)))
                 [0..<length (wf_members crew)])))"

definition finally_do :: "('s, unit) eff \<Rightarrow> ('s, 'a) eff \<Rightarrow> ('s, 'a) eff" where
  "finally_do f m = ebind (attempt m) (\<lambda>r. eseq f (from_sum r))"

definition arun_collaborate_parallel ::
  "('w, 'x) force_ext_scheme \<Rightarrow> ('w, 'z) member_run \<Rightarrow> workforce \<Rightarrow> run_config \<Rightarrow> job \<Rightarrow>
   (('w, 'z) rt_scheme, unit) eff option \<Rightarrow>
   (('w, 'z) rt_scheme, report \<times> run_state option) eff" where
  "arun_collaborate_parallel X run crew c j drain =
     finally_do (case drain of Some d \<Rightarrow> d | None \<Rightarrow> ret ())
       (ebind (parallel_outcomes X run crew c j) (\<lambda>outs.
        case collect_outcomes outs [] of
          Inl (rep, ws, reports) \<Rightarrow>
            paused_workforce crew (cfg_run_id c) rep j ws ''collaborate''
              (collaborate_payload j (PlReports (map snd reports)) (length reports))
        | Inr reports \<Rightarrow>
            if \<exists>(m, rep)\<in>set reports. rep_status rep = Failed
            then aggregate_failed c (cfg_run_id c) reports
            else ebind (reduce_reports X crew c (cfg_run_id c) reports) (\<lambda>rep. ret (rep, None))))"

definition arun_collaborate_mode ::
  "('w, 'x) force_ext_scheme \<Rightarrow> ('w, 'z) member_run \<Rightarrow> workforce \<Rightarrow> run_config \<Rightarrow> job \<Rightarrow>
   (('w, 'z) rt_scheme, unit) eff option \<Rightarrow>
   (('w, 'z) rt_scheme, report \<times> run_state option) eff" where
  "arun_collaborate_mode X run crew c j drain =
     (if can_parallelize_collaborate crew j then arun_collaborate_parallel X run crew c j drain
      else collaborate_from X run crew c (cfg_run_id c) j (wf_members crew) [])"

section \<open>Resumption\<close>

text \<open>What the swarm and collaborate stages read from the payload.\<close>

definition stored_worker_name :: "run_state \<Rightarrow> run_state \<Rightarrow> string" where
  "stored_worker_name st ws =
     or_str (stored_str (dict_get (rs_payload st) ''current_worker'')) (rs_runner_name ws)"

definition stored_handoffs :: "run_state \<Rightarrow> int" where
  "stored_handoffs st =
     (case stored_int (dict_get_or (rs_payload st) ''handoff_count'' (PlVal (PInt 0))) of
        Some n \<Rightarrow> if n < 0 then 0 else n | None \<Rightarrow> 0)"

definition pending_index :: "workforce \<Rightarrow> run_state \<Rightarrow> nat option" where
  "pending_index crew st =
     (case stored_int (dict_get_or (rs_payload st) ''pending_worker_index'' (PlVal (PInt 0))) of
        Some i \<Rightarrow> if i < 0 \<or> i \<ge> int (length (wf_members crew)) then None else Some (nat i)
      | None \<Rightarrow> None)"

definition aresume_swarm_stage ::
  "('w, 'x) force_ext_scheme \<Rightarrow> ('w, 'z) member_run \<Rightarrow> ('w, 'z) member_resume \<Rightarrow> workforce \<Rightarrow>
   run_config \<Rightarrow> run_state \<Rightarrow> run_state \<Rightarrow> pyval \<Rightarrow>
   (('w, 'z) rt_scheme, report \<times> run_state option) eff" where
  "aresume_swarm_stage X run resume crew c st ws d =
     (case swarm_worker crew (Some (stored_worker_name st ws)) of
        Inl e \<Rightarrow> resume_failed_report st c (exc_msg e)
      | Inr m \<Rightarrow>
          ebind (from_sum (stored_reports (raw_reports (rs_payload st) ''swarm_history''))) (\<lambda>history.
          ebind (resume m c ws d)
            (swarm_loop run crew c (rs_run_id st) m (rs_job st) (stored_handoffs st) history)))"

definition stored_root_job ::
  "('w, 'x) force_ext_scheme \<Rightarrow> run_state \<Rightarrow> (('w, 'z) rt_scheme, job) eff" where
  "stored_root_job X st =
     from_sum (root_job (x_text X) (x_resolves X) (rs_payload st) (rs_job st))"

definition aresume_manager_stage ::
  "('w, 'x) force_ext_scheme \<Rightarrow> ('w, 'z) member_run \<Rightarrow> ('w, 'z) member_resume \<Rightarrow> workforce \<Rightarrow>
   run_config \<Rightarrow> run_state \<Rightarrow> run_state \<Rightarrow> pyval \<Rightarrow>
   (('w, 'z) rt_scheme, report \<times> run_state option) eff" where
  "aresume_manager_stage X run resume crew c st ws d =
     ebind (stored_root_job X st) (\<lambda>j.
     ebind (resume (lead crew) c ws d) (manager_done run crew c (rs_run_id st) j))"

text \<open>
  A stored \<open>selected_worker\<close> that is no name of a member selects the first, as \<open>find_worker\<close> does.
\<close>

definition aresume_worker_stage ::
  "('w, 'x) force_ext_scheme \<Rightarrow> ('w, 'z) member_run \<Rightarrow> ('w, 'z) member_resume \<Rightarrow> workforce \<Rightarrow>
   run_config \<Rightarrow> run_state \<Rightarrow> run_state \<Rightarrow> pyval \<Rightarrow>
   (('w, 'z) rt_scheme, report \<times> run_state option) eff" where
  "aresume_worker_stage X run resume crew c st ws d =
     ebind (stored_root_job X st) (\<lambda>j.
     let m = find_worker (wf_members crew) (stored_str (dict_get (rs_payload st) ''selected_worker''))
     in ebind (resume m c ws d) (worker_done crew (rs_run_id st) j m))"

text \<open>What follows the outcome of the member that paused, number \<open>i\<close>.\<close>

definition collaborate_done ::
  "('w, 'x) force_ext_scheme \<Rightarrow> ('w, 'z) member_run \<Rightarrow> workforce \<Rightarrow> run_config \<Rightarrow> string \<Rightarrow> job \<Rightarrow>
   payload_val \<Rightarrow> nat \<Rightarrow> report \<times> run_state option \<Rightarrow>
   (('w, 'z) rt_scheme, report \<times> run_state option) eff" where
  "collaborate_done X run crew c rid j raw i out =
     (case out of
        (rep, Some ws) \<Rightarrow>
          paused_workforce crew rid rep j ws ''collaborate'' (collaborate_payload j raw i)
      | (rep, None) \<Rightarrow>
          ebind (from_sum (stored_reports raw)) (\<lambda>completed.
          let so_far = take (i + 1) (wf_members crew)
          in if rep_status rep = Failed
             then aggregate_failed c rid (zip so_far completed @ [(wf_members crew ! i, rep)])
             else collaborate_from X run crew c rid j (drop (i + 1) (wf_members crew))
                    (zip so_far (completed @ [rep]))))"

definition aresume_collaborate_stage ::
  "('w, 'x) force_ext_scheme \<Rightarrow> ('w, 'z) member_run \<Rightarrow> ('w, 'z) member_resume \<Rightarrow> workforce \<Rightarrow>
   run_config \<Rightarrow> run_state \<Rightarrow> run_state \<Rightarrow> pyval \<Rightarrow>
   (('w, 'z) rt_scheme, report \<times> run_state option) eff" where
  "aresume_collaborate_stage X run resume crew c st ws d =
     ebind (stored_root_job X st) (\<lambda>j.
     case pending_index crew st of
       None \<Rightarrow> resume_failed_report st c ''Invalid pending worker index''
     | Some i \<Rightarrow>
         ebind (resume (wf_members crew ! i) c ws d)
           (collaborate_done X run crew c (rs_run_id st) j
              (raw_reports (rs_payload st) ''completed_reports'') i))"

section \<open>\<open>arun\<close> and \<open>aresume\<close>\<close>

text \<open>A report that ends the run carries the totals of the run.\<close>

definition with_totals ::
  "report \<times> run_state option \<Rightarrow> (('w, 'z) rt_scheme, report \<times> run_state option) eff" where
  "with_totals out =
     (case out of
        (rep, None) \<Rightarrow> gets (\<lambda>s. (with_run_metrics rep (rt_totals s), None))
      | (rep, Some st) \<Rightarrow> ret (rep, Some st))"

definition arun_mode ::
  "('w, 'x) force_ext_scheme \<Rightarrow> ('w, 'z) member_run \<Rightarrow> workforce \<Rightarrow> run_config \<Rightarrow> job \<Rightarrow>
   (('w, 'z) rt_scheme, unit) eff option \<Rightarrow>
   (('w, 'z) rt_scheme, report \<times> run_state option) eff" where
  "arun_mode X run crew c j drain =
     (case wf_mode crew of
        Swarm \<Rightarrow> arun_swarm_mode run crew c j
      | Managed \<Rightarrow> arun_managed_mode X run crew c j
      | Collaborate \<Rightarrow> arun_collaborate_mode X run crew c j drain)"

definition workforce_arun ::
  "('w, 'x) force_ext_scheme \<Rightarrow> ('w, 'z) member_run \<Rightarrow> workforce \<Rightarrow> run_config \<Rightarrow> job \<Rightarrow>
   (('w, 'z) rt_scheme, unit) eff option \<Rightarrow>
   (('w, 'z) rt_scheme, report \<times> run_state option) eff" where
  "workforce_arun X run crew c j drain =
     eseq (emit X (cfg_emit_run c) WorkforceStarted (wf_name crew) [])
    (ebind (arun_mode X run crew c j drain) (\<lambda>out.
     ebind (with_totals out) (\<lambda>out'.
     eseq (emit X (cfg_emit_run c) WorkforceCompleted (wf_name crew) []) (ret out'))))"

definition aresume_stage ::
  "('w, 'x) force_ext_scheme \<Rightarrow> ('w, 'z) member_run \<Rightarrow> ('w, 'z) member_resume \<Rightarrow> workforce \<Rightarrow>
   run_config \<Rightarrow> run_state \<Rightarrow> run_state \<Rightarrow> pyval \<Rightarrow>
   (('w, 'z) rt_scheme, report \<times> run_state option) eff" where
  "aresume_stage X run resume crew c st ws d =
     (let stage = stored_str (dict_get (rs_payload st) ''stage'')
      in if stage = Some ''swarm''
         then ebind (aresume_swarm_stage X run resume crew c st ws d) with_totals
         else if stage = Some ''manager''
         then ebind (aresume_manager_stage X run resume crew c st ws d) with_totals
         else if stage = Some ''worker''
         then ebind (aresume_worker_stage X run resume crew c st ws d) with_totals
         else if stage = Some ''collaborate''
         then ebind (aresume_collaborate_stage X run resume crew c st ws d) with_totals
         else resume_failed_report st c ''Unknown workflow stage'')"

definition workforce_aresume ::
  "('w, 'x) force_ext_scheme \<Rightarrow> ('w, 'z) member_run \<Rightarrow> ('w, 'z) member_resume \<Rightarrow> workforce \<Rightarrow>
   run_config \<Rightarrow> run_state \<Rightarrow> pyval \<Rightarrow>
   (('w, 'z) rt_scheme, report \<times> run_state option) eff" where
  "workforce_aresume X run resume crew c0 st d =
     ebind (gets (\<lambda>s. resume_config c0 st (rt_events s))) (\<lambda>c.
     eseq (modify (\<lambda>s. s\<lparr>rt_totals := restore_totals (rt_totals s)
             (stored_value (dict_get (rs_payload st) ''usage_totals''))\<rparr>))
     (case dict_get (rs_payload st) ''worker_state'' of
        None \<Rightarrow> resume_failed_report st c ''Missing worker state''
      | Some (PlVal PNone) \<Rightarrow> resume_failed_report st c ''Missing worker state''
      | Some (PlState ws) \<Rightarrow>
          aresume_stage X run resume crew c st (reload_state (x_text X) (x_resolves X) ws) d
      | Some _ \<Rightarrow> raise (invalid ''RunState'')))"

end
