(* ===== verification/Member_Contract.thy ===== *)
theory Member_Contract
  imports Workforce_Modes Worker_Outcome
begin

text \<open>
  What a workforce relies on in its members, as a locale: a run ends completed, failed or paused in
  a resumable state, the paused state names the member, the job and the run, and without tools
  nothing pauses.  The locale is interpreted on \<open>Worker.arun\<close> and \<open>Worker.aresume\<close>.
  \<open>returns\<close> is the partial correctness of a result for every state, with a rule per combinator.
\<close>

section \<open>Results whatever the state\<close>

named_theorems result_rules "rules for the results of the effect combinators"

definition returns :: "('s, 'a) eff \<Rightarrow> ('a \<Rightarrow> bool) \<Rightarrow> bool" where
  "returns m R \<longleftrightarrow> (\<forall>s. wp m (\<lambda>a _. R a) anything s)"

lemma returnsD: "returns m R \<Longrightarrow> wp m (\<lambda>a _. R a) anything s"
  by (simp add: returns_def)

lemma returns_result: "returns m R \<Longrightarrow> m s = (Inr a, s') \<Longrightarrow> R a"
  unfolding returns_def by (auto dest: wpD)

lemma returns_any [simp]: "returns m (\<lambda>_. True)"
  by (simp add: returns_def)

lemma returns_ret [result_rules]: "R a \<Longrightarrow> returns (ret a) R"
  by (simp add: returns_def)

lemma returns_raise [result_rules]: "returns (raise e) R"
  by (simp add: returns_def)

lemma returns_gets [result_rules]: "(\<And>s. R (f s)) \<Longrightarrow> returns (gets f) R"
  by (simp add: returns_def)

lemma returns_bind_rule:
  assumes "returns m R1" "\<And>a. R1 a \<Longrightarrow> returns (f a) R"
  shows "returns (ebind m f) R"
  unfolding returns_def
proof (intro allI, simp, rule wp_mono[OF returnsD[OF assms(1)]])
  fix a s' assume "R1 a"
  from returnsD[OF assms(2)[OF this]] show "wp (f a) (\<lambda>a _. R a) anything s'" .
qed simp

lemma returns_bind [result_rules]: "(\<And>a. returns (f a) R) \<Longrightarrow> returns (ebind m f) R"
  by (rule returns_bind_rule[OF returns_any])

lemma returns_seq [result_rules]: "returns k R \<Longrightarrow> returns (eseq m k) R"
  unfolding eseq_def by (rule returns_bind)

lemma returns_ask: "(\<And>w. R (fst (f w))) \<Longrightarrow> returns (ask f) R"
  unfolding returns_def by (auto split: prod.splits) (metis fst_conv)

lemma returns_if [result_rules]:
  "(b \<Longrightarrow> returns m R) \<Longrightarrow> (\<not> b \<Longrightarrow> returns m' R) \<Longrightarrow> returns (if b then m else m') R"
  by simp

lemma returns_in_loop: "returns m R \<Longrightarrow> returns (in_loop ms tcs mt i m) R"
  by (auto simp: returns_def wp_def in_loop_def split: prod.splits sum.splits)

lemma returns_mono: "returns m R \<Longrightarrow> (\<And>a. R a \<Longrightarrow> R' a) \<Longrightarrow> returns m R'"
  by (rule returns_bind_rule[of m R ret R', simplified]) (auto intro: returns_ret)

section \<open>What a worker pauses with\<close>

text \<open>A paused state names the worker, the run and the job, and there are tools to pause for.\<close>

definition pauses_as ::
  "string \<Rightarrow> string \<Rightarrow> job \<Rightarrow> bool \<Rightarrow> run_state option \<Rightarrow> bool" where
  "pauses_as name rid j tools st =
     (case st of
        None \<Rightarrow> True
      | Some s \<Rightarrow> rs_runner_type s = ''worker'' \<and> rs_runner_name s = name \<and> rs_run_id s = rid \<and> rs_job s = j \<and> tools)"

lemma pauses_as_None [simp]: "pauses_as name rid j tools None"
  by (simp add: pauses_as_def)

definition pausing :: "wctx \<Rightarrow> job \<Rightarrow> bool \<Rightarrow> (report \<times> run_state option) option \<Rightarrow> bool" where
  "pausing cx j tools out =
     (case out of None \<Rightarrow> True | Some x \<Rightarrow> pauses_as (cx_worker cx) (cx_run_id cx) j tools (snd x))"

lemma pausing_simps [simp]:
  "pausing cx j tools None"
  "pausing cx j tools (Some x) = pauses_as (cx_worker cx) (cx_run_id cx) j tools (snd x)"
  by (simp_all add: pausing_def)

lemma pausing_stateless [simp]: "pausing cx j tools (map_option (\<lambda>x. (x, None)) r)"
  by (cases r) simp_all

lemma pausing_mono: "pausing cx j t out \<Longrightarrow> (t \<Longrightarrow> t') \<Longrightarrow> pausing cx j t' out"
  by (auto simp: pausing_def pauses_as_def split: option.splits)

lemma plan_calls_toolless:
  "pl_pending (fst (fst (plan_calls X [] limit cs tcs p w))) = pl_pending p"
  by (induction cs arbitrary: tcs p w) (auto simp: add_immediate_def Let_def)

lemma run_plan_toolless:
  "returns (run_plan X cx allowed r) (\<lambda>p. allowed = [] \<longrightarrow> pl_pending p = None)"
  unfolding run_plan_def
proof (rule returns_bind)
  fix tcs
  show "returns (ebind (ask (plan_tool_calls X allowed (cfg_max_tool_calls (cx_config cx)) r tcs))
      (\<lambda>(p, tcs'). eseq (modify (\<lambda>s. s\<lparr>ls_tool_calls := tcs'\<rparr>))
        (eseq (aexecute_tool_calls X (cx_config cx) p) (ret p))))
    (\<lambda>p. allowed = [] \<longrightarrow> pl_pending p = None)"
    by (rule returns_bind_rule[where ?R1.0 = "\<lambda>x. allowed = [] \<longrightarrow> pl_pending (fst x) = None"],
        rule returns_ask)
      (auto simp: plan_tool_calls_def plan_calls_toolless empty_plan_def intro!: result_rules)
qed

lemma pause_pausing:
  "returns (ebind (pause cx j p) (\<lambda>(rep, st). ret (Some (rep, Some st)))) (pausing cx j True)"
  by (simp add: returns_def pause_def pauses_as_def build_worker_state_def)

lemma after_plan_pausing:
  "returns (after_plan X cx j p) (pausing cx j (pl_pending p \<noteq> None))"
  unfolding after_plan_def
  by (auto intro!: result_rules pause_pausing split: option.splits)

lemma tool_turn_pausing: "returns (tool_turn X cx j allowed r) (pausing cx j (allowed \<noteq> []))"
  unfolding tool_turn_def Let_def
proof (intro returns_seq)
  show "returns (ebind (run_plan X cx allowed r) (after_plan X cx j)) (pausing cx j (allowed \<noteq> []))"
  proof (rule returns_bind_rule[OF run_plan_toolless])
    fix p :: tool_plan assume "allowed = [] \<longrightarrow> pl_pending p = None"
    then show "returns (after_plan X cx j p) (pausing cx j (allowed \<noteq> []))"
      by (intro returns_mono[OF after_plan_pausing]) (auto elim: pausing_mono)
  qed
qed

lemma turn_pausing: "returns (turn X cx j tools) (pausing cx j (tools \<noteq> []))"
proof -
  have "allowed_tools [] = []" by (simp add: allowed_tools_def)
  then have "returns (tool_turn X cx j (allowed_tools tools) r) (pausing cx j (tools \<noteq> []))" for r
    by (intro returns_mono[OF tool_turn_pausing]) (auto elim!: pausing_mono)
  then show ?thesis
    unfolding turn_def model_turn_def process_turn_response_def
    by (auto intro!: result_rules split: option.splits prod.splits)
qed

lemma loop_pausing: "returns (loop_fuel X cx j tools n) (pausing cx j (tools \<noteq> []))"
proof (induction n)
  case (Suc n)
  show ?case
    unfolding loop_fuel.simps
    by (rule returns_bind, rule returns_if, rule returns_bind_rule[OF turn_pausing])
      (auto intro!: result_rules Suc split: option.splits)
qed (auto intro!: result_rules)

lemma arun_loop_pausing:
  "returns (arun_loop X belt cx j)
     (\<lambda>out. pauses_as (cx_worker cx) (cx_run_id cx) j (resolve_tools belt j \<noteq> []) (snd out))"
  unfolding arun_loop_def
  by (rule returns_bind, rule returns_bind_rule[OF loop_pausing])
    (auto intro!: result_rules split: option.splits)

lemma arun_pausing:
  "returns (arun X wk c j wm)
     (\<lambda>out. pauses_as (wk_name wk) (cfg_run_id c) j (resolve_tools (wk_belt wk) j \<noteq> []) (snd out))"
  using arun_loop_pausing[of X "wk_belt wk" "make_ctx X c (wk_name wk) m" j for m]
  by (auto simp: arun_def Let_def make_ctx_def no_model_def intro!: result_rules returns_in_loop)

lemma resume_config_run: "cfg_run_id (resume_config c st es) = rs_run_id st"
  by (simp add: resume_config_def with_run_id_def)

lemma aresume_pausing:
  "returns (aresume X wk c st d wm)
     (\<lambda>out. pauses_as (wk_name wk) (rs_run_id st) (rs_job st)
              (resolve_tools (wk_belt wk) (rs_job st) \<noteq> []) (snd out))"
  unfolding aresume_def
proof (rule returns_bind_rule[OF returns_gets[of "\<lambda>c'. cfg_run_id c' = rs_run_id st"]])
  fix c' :: run_config assume c: "cfg_run_id c' = rs_run_id st"
  show "returns (ebind (from_sum (totals_from_metrics (rs_metrics st)))
      (\<lambda>stored. eseq (modify (\<lambda>s. s\<lparr>rt_totals := restore_totals (rt_totals s) (Some (PDict stored))\<rparr>))
        (case rs_pending st of
           None \<Rightarrow> gets (\<lambda>s. (build_report (cfg_run_id c') Failed None None PNone (rs_messages st)
             (rs_tool_calls st) (rs_metrics st) (config_events c' s) None [''No pending action''], None))
         | Some p \<Rightarrow> in_loop (rs_messages st) (rs_tool_calls st) (rs_metrics st) (rs_iteration st)
             (resume_worker X wk c' st p d wm))))
    (\<lambda>out. pauses_as (wk_name wk) (rs_run_id st) (rs_job st)
              (resolve_tools (wk_belt wk) (rs_job st) \<noteq> []) (snd out))"
    using arun_loop_pausing[of X "wk_belt wk" "make_ctx X c' (wk_name wk) m" "rs_job st" for m] c
    by (auto simp: resume_worker_def Let_def make_ctx_def no_model_def split: option.splits
        intro!: result_rules returns_in_loop)
qed (simp add: resume_config_run)

section \<open>The contract\<close>

definition initial_messages :: "job \<Rightarrow> message list" where
  "initial_messages j = (case job_initial_messages j of Some ms \<Rightarrow> ms | None \<Rightarrow> [])"

text \<open>An outcome of a member for a job; what it says of a paused state needs no totals.\<close>

definition member_outcome ::
  "crew_member \<Rightarrow> run_config \<Rightarrow> job \<Rightarrow> report \<times> run_state option \<Rightarrow> bool" where
  "member_outcome m c j out \<longleftrightarrow> good_outcome False (cfg_max_tool_calls c) out [] \<and>
     (\<forall>s. snd out = Some s \<longrightarrow> rs_runner_type s = ''worker'' \<and> rs_runner_name s = mb_name m \<and>
        resolve_tools (wk_belt (mb_worker m)) j \<noteq> [])"

locale member_contract =
  fixes lawful :: bool
    and run :: "('w, 'z) member_run"
    and resume :: "('w, 'z) member_resume"
  assumes run_outcome:
    "lawful \<Longrightarrow> validate_execution_limits c = None \<Longrightarrow> conversation_ok (initial_messages j) \<Longrightarrow>
     returns (run m c j) (member_outcome m c j)"
    and resume_outcome:
    "lawful \<Longrightarrow> validate_execution_limits c = None \<Longrightarrow> paused_ok (cfg_max_tool_calls c) st \<Longrightarrow>
     returns (resume m c st d) (member_outcome m c (rs_job st))"

lemma good_outcome_totals:
  "good_outcome False limit out t \<Longrightarrow> good_outcome False limit out t'"
  by (auto simp: good_outcome_def split: run_status.splits)

lemma returns_conj: "returns m R \<Longrightarrow> returns m R' \<Longrightarrow> returns m (\<lambda>a. R a \<and> R' a)"
  unfolding returns_def
  by (intro allI) (rule wp_mono[OF wp_conj], blast+)

lemma member_arun_outcome:
  assumes "good_ids X" "validate_execution_limits c = None" "conversation_ok (initial_messages j)"
  shows "returns (member_arun X m c j) (member_outcome m c j)"
proof -
  have "returns (member_arun X m c j) (\<lambda>out. good_outcome False (cfg_max_tool_calls c) out [])"
    unfolding returns_def member_arun_def
    by (intro allI, rule wp_mono[OF wp_arun[OF assms(1,2), where a = False]])
      (use assms(3) in \<open>auto simp: initial_messages_def elim: good_outcome_totals\<close>)
  from returns_conj[OF this arun_pausing[of X "mb_worker m" c j "mb_model m",
      folded member_arun_def]]
  show ?thesis by (rule returns_mono) (auto simp: member_outcome_def pauses_as_def)
qed

lemma member_aresume_outcome:
  assumes "good_ids X" "validate_execution_limits c = None" "paused_ok (cfg_max_tool_calls c) st"
  shows "returns (member_aresume X m c st d) (member_outcome m c (rs_job st))"
proof -
  have "returns (member_aresume X m c st d)
      (\<lambda>out. good_outcome False (cfg_max_tool_calls c) out [])"
    unfolding returns_def member_aresume_def
    by (intro allI, rule wp_mono[OF wp_aresume[OF assms, where a = False]])
      (auto elim: good_outcome_totals)
  from returns_conj[OF this aresume_pausing[of X "mb_worker m" c st d "mb_model m",
      folded member_aresume_def]]
  show ?thesis by (rule returns_mono) (auto simp: member_outcome_def pauses_as_def)
qed

text \<open>A member outcome, read off by status.\<close>

lemma member_outcome_cases:
  assumes "member_outcome m c j (rep, st)"
  obtains (ended) "st = None" "rep_status rep = Completed \<or> rep_status rep = Failed"
      "rep_pending rep = None"
    | (paused) ws p where "st = Some ws" "rep_status rep = Paused" "rep_pending rep = Some p"
      "rs_pending ws = Some p" "rs_messages ws = rep_messages rep"
      "paused_ok (cfg_max_tool_calls c) ws" "rs_runner_name ws = mb_name m"
      "waits_for [tc_id (pa_tool_call p)] (rep_messages rep)" "tc_id (pa_tool_call p) \<noteq> []"
proof (cases st)
  case None
  with assms ended show thesis
    by (cases "rep_status rep") (auto simp: member_outcome_def good_outcome_def)
next
  case (Some ws)
  with assms have ws: "rep_status rep = Paused" "rs_pending ws = rep_pending rep"
    "rs_messages ws = rep_messages rep" "paused_ok (cfg_max_tool_calls c) ws"
    "rs_runner_name ws = mb_name m"
    by (auto simp: member_outcome_def good_outcome_def split: run_status.splits)
  from ws(4) obtain p where "rs_pending ws = Some p" "waits_for [tc_id (pa_tool_call p)] (rs_messages ws)"
    "tc_id (pa_tool_call p) \<noteq> []" by (auto simp: paused_ok_def)
  with ws Some show thesis by (intro paused[of ws p]) simp_all
qed

text \<open>Workers keep the contract in every world without empty identifiers.\<close>

interpretation workers: member_contract "good_ids X" "member_arun X" "member_aresume X"
  for X :: "('w, 'x) run_ext_scheme"
  by unfold_locales (auto intro: member_arun_outcome member_aresume_outcome)

end
