(* ===== verification/Workforce_Laws.thy ===== *)
theory Workforce_Laws
  imports Member_Contract
begin

text \<open>
  Laws of the workforce: what \<open>Workforce.__init__\<close> establishes (\<open>crew_ok\<close>), what a stored state
  keeps, handoffs, and inside the member contract the outcome of every mode and every resumption
  (\<open>force_outcome\<close>): ended, or paused in a state the workforce resumes at the member that paused.
\<close>

section \<open>Crews\<close>

definition crew_ok :: "workforce \<Rightarrow> bool" where
  "crew_ok crew \<longleftrightarrow> wf_members crew \<noteq> [] \<and> distinct (map mb_name (wf_members crew)) \<and>
     (\<forall>m\<in>set (wf_members crew). mb_name m \<noteq> []) \<and>
     (\<forall>mg. wf_manager crew = Some mg \<longrightarrow> mb_name mg \<noteq> [] \<and>
        (mb_name mg \<in> mb_name ` set (wf_members crew) \<longrightarrow> mg \<in> set (wf_members crew)))"

definition belongs :: "workforce \<Rightarrow> crew_member \<Rightarrow> bool" where
  "belongs crew m \<longleftrightarrow> m \<in> set (wf_members crew) \<or> wf_manager crew = Some m"

lemma foldl_members_get:
  "dict_get (foldl (\<lambda>d m. dict_set (mb_name m) m d) d ms) n =
     (case find (\<lambda>m. mb_name m = n) (rev ms) of Some m \<Rightarrow> Some m | None \<Rightarrow> dict_get d n)"
  by (induction ms arbitrary: d rule: rev_induct) auto

lemma foldl_members_find:
  "dict_get (foldl (\<lambda>d m. dict_set (mb_name m) m d) [] ms) n = find (\<lambda>m. mb_name m = n) (rev ms)"
  by (simp add: foldl_members_get split: option.split)

lemma find_name_iff:
  assumes "distinct (map mb_name ms)"
  shows "find (\<lambda>m. mb_name m = n) ms = Some m \<longleftrightarrow> m \<in> set ms \<and> mb_name m = n"
  using assms by (induction ms) (auto simp: image_iff)

lemma find_name_None: "find (\<lambda>m. mb_name m = n) ms = None \<longleftrightarrow> n \<notin> mb_name ` set ms"
  by (auto simp: find_None_iff)

lemma members_by_name_get:
  assumes "crew_ok crew"
  shows "dict_get (members_by_name crew) n = Some m \<longleftrightarrow> belongs crew m \<and> mb_name m = n"
proof -
  have d: "distinct (map mb_name (wf_members crew))" using assms by (simp add: crew_ok_def)
  then have "distinct (map mb_name (rev (wf_members crew)))" by (simp add: rev_map[symmetric])
  note f = find_name_iff[OF this, of n]
  have base: "dict_get (foldl (\<lambda>d m. dict_set (mb_name m) m d) [] (wf_members crew)) n = Some m
      \<longleftrightarrow> m \<in> set (wf_members crew) \<and> mb_name m = n" for m
    using f by (simp add: foldl_members_find)
  have inj: "m = m'" if "m \<in> set (wf_members crew)" "m' \<in> set (wf_members crew)" "mb_name m = mb_name m'"
    for m m' using d that by (auto simp: distinct_map inj_on_def)
  show ?thesis
  proof (cases "wf_manager crew")
    case None
    with base show ?thesis by (auto simp: members_by_name_def belongs_def)
  next
    case (Some mg)
    with assms have "mb_name mg \<in> mb_name ` set (wf_members crew) \<Longrightarrow> mg \<in> set (wf_members crew)"
      by (auto simp: crew_ok_def)
    then have "m' = mg" if "m' \<in> set (wf_members crew)" "mb_name m' = mb_name mg" for m'
      using that inj by (metis image_eqI)
    with Some base show ?thesis by (auto simp: members_by_name_def belongs_def Let_def)
  qed
qed

lemma belongs_named: "crew_ok crew \<Longrightarrow> belongs crew m \<Longrightarrow> mb_name m \<noteq> []"
  by (auto simp: crew_ok_def belongs_def)

lemma swarm_worker_Inr:
  assumes "crew_ok crew"
  shows "swarm_worker crew (Some n) = Inr m \<longleftrightarrow> belongs crew m \<and> mb_name m = n"
proof -
  have "swarm_worker crew (Some n) = Inr m \<longleftrightarrow> n \<noteq> [] \<and> dict_get (members_by_name crew) n = Some m"
    by (auto simp: swarm_worker_def split: option.splits)
  with members_by_name_get[OF assms] belongs_named[OF assms] show ?thesis by auto
qed

lemma swarm_worker_Inl:
  "swarm_worker crew n = Inl e \<Longrightarrow> exc_class e = ''ValueError''"
  by (auto simp: swarm_worker_def split: if_splits option.splits)

lemma lead_belongs: "crew_ok crew \<Longrightarrow> belongs crew (lead crew)"
  by (auto simp: lead_def belongs_def crew_ok_def split: option.splits)

lemma find_worker_member:
  "ms \<noteq> [] \<Longrightarrow> find_worker ms name \<in> set ms"
  by (auto simp: find_worker_def find_Some_iff split: option.splits)

lemma find_worker_named:
  "distinct (map mb_name ms) \<Longrightarrow> m \<in> set ms \<Longrightarrow> find_worker ms (Some (mb_name m)) = m"
  using find_name_iff[of ms "mb_name m" m] by (simp add: find_worker_def)

lemma first_named_in_Some:
  "first_named_in text ms = Some n \<Longrightarrow> n \<in> mb_name ` set ms \<and> sublist n text"
  by (induction ms) (auto simp: str_contains_sublist split: if_splits)

lemma select_worker_registered: "ms \<noteq> [] \<Longrightarrow> select_worker_name rep ms \<in> mb_name ` set ms"
  by (auto simp: select_worker_name_def Let_def split: option.splits dest: first_named_in_Some)

lemma duplicate_names_Nil: "duplicate_names ns = [] \<longleftrightarrow> distinct ns"
proof -
  have "duplicate_names ns = [] \<longleftrightarrow> (\<forall>n\<in>set ns. count_list ns n \<le> 1)"
    unfolding set_empty[symmetric] duplicate_names_def by (auto simp: not_less)
  also have "\<dots> \<longleftrightarrow> distinct ns"
  proof (induction ns)
    case (Cons n ns)
    have "count_list ns n = 0 \<longleftrightarrow> n \<notin> set ns" by (simp add: count_list_0_iff)
    with Cons show ?case by (auto simp: count_list_0_iff)
  qed simp
  finally show ?thesis .
qed

text \<open>Members with names, and references that tell members apart, make a good crew.\<close>

lemma make_workforce_ok:
  assumes "make_workforce ms mode name mg reducer = Inr crew"
    and "\<forall>m\<in>set ms. mb_name m \<noteq> []" "\<forall>g. mg = Some g \<longrightarrow> mb_name g \<noteq> []"
    and "\<forall>g. mg = Some g \<longrightarrow> (\<forall>m\<in>set ms. mb_ref m = mb_ref g \<longrightarrow> m = g)"
  shows "crew_ok crew"
proof -
  from assms(1) obtain md where "ms \<noteq> []" "duplicate_names (map mb_name ms) = []"
    and mg: "case mg of Some g \<Rightarrow> \<not> (mb_name g \<in> mb_name ` set ms \<and> mb_ref g \<notin> mb_ref ` set ms) | None \<Rightarrow> True"
    and crew: "wf_members crew = ms" "wf_manager crew = mg"
    unfolding make_workforce_def
    by (cases "ms = []"; cases "parse_mode mode"; cases mg) (simp_all split: if_splits, auto)
  then have "ms \<noteq> []" "distinct (map mb_name ms)" by (simp_all add: duplicate_names_Nil)
  moreover have "g \<in> set ms" if "mg = Some g" "mb_name g \<in> mb_name ` set ms" for g
    using mg that assms(4) by auto
  ultimately show ?thesis using assms(2,3) crew by (simp add: crew_ok_def)
qed

section \<open>Reading a stored state back\<close>

lemma scan_step_reload: "scan_step (reload_message m) os = scan_step m os"
  by (simp add: scan_step.simps)

lemma scan_reload: "scan (map reload_message ms) os = scan ms os"
  by (induction ms arbitrary: os) (simp_all add: scan_step_reload split: option.split)

lemma waits_for_reload [simp]: "waits_for is (map reload_message ms) = waits_for is ms"
  by (simp add: waits_for_def scan_reload)

lemma conversation_ok_reload [simp]: "conversation_ok (map reload_message ms) = conversation_ok ms"
  by (simp add: conversation_ok_def scan_reload)

lemma reload_job_conversation [simp]:
  "conversation_ok (initial_messages (reload_job P r j)) = conversation_ok (initial_messages j)"
  by (cases "job_initial_messages j") (simp_all add: initial_messages_def reload_job_def)

lemma reload_tool_call_id [simp]: "tc_id (reload_tool_call c) = tc_id c"
  by (simp add: reload_tool_call_def)

lemma reload_state_simps [simp]:
  "rs_runner_name (reload_state P r st) = rs_runner_name st"
  "rs_job (reload_state P r st) = reload_job P r (rs_job st)"
  "rs_run_id (reload_state P r st) = rs_run_id st"
  by (simp_all add: reload_state_def)

lemma paused_ok_reload: "paused_ok limit st \<Longrightarrow> paused_ok limit (reload_state P r st)"
  by (auto simp: paused_ok_def reload_state_def reload_pending_def image_image)

section \<open>Handoffs\<close>

lemma handoff_conversation:
  assumes "waits_for [i] (rep_messages rep)" "i \<noteq> []"
  shows "conversation_ok (handoff_messages rep target i)"
proof -
  from assms(1) have "scan (rep_messages rep) [] = Some [i]" by (auto simp: waits_for_def)
  from scan_drop_system[OF this] assms(2) show ?thesis
    by (simp add: conversation_ok_def handoff_messages_def scan_append scan_step.simps)
qed

lemma handoff_transition_None:
  "handoff_transition crew rep j m = Inr None \<longleftrightarrow>
     (\<forall>p. rep_pending rep = Some p \<longrightarrow> pa_type p \<noteq> Handoff)"
  by (auto simp: handoff_transition_def map_sum_def split: option.splits pyval.splits sum.splits)

text \<open>A handoff goes to a member of the crew the tool allows, with a well-formed conversation.\<close>

lemma handoff_transition_Some:
  assumes "handoff_transition crew rep j m = Inr (Some (m', j'))" "crew_ok crew"
  shows "\<exists>p. rep_pending rep = Some p \<and> pa_type p = Handoff \<and> belongs crew m' \<and>
     dict_get (tc_arguments (pa_tool_call p)) ''agent_name'' = Some (PStr (mb_name m')) \<and>
     (\<forall>allowed. handoff_allowed_agents m j (tc_name (pa_tool_call p)) = Some allowed \<longrightarrow>
        mb_name m' \<in> set allowed) \<and>
     initial_messages j' = handoff_messages rep (mb_name m') (tc_id (pa_tool_call p))"
proof -
  from assms(1) obtain p target where p: "rep_pending rep = Some p" "pa_type p = Handoff"
    "dict_get (tc_arguments (pa_tool_call p)) ''agent_name'' = Some (PStr target)" "target \<noteq> []"
    "handoff_to crew rep j m (pa_tool_call p) target = Inr (m', j')"
    by (auto simp: handoff_transition_def map_sum_def
        split: option.splits if_splits pyval.splits sum.splits)
  then have "swarm_worker crew (Some target) = Inr m'"
    "initial_messages j' = handoff_messages rep target (tc_id (pa_tool_call p))"
    "\<forall>allowed. handoff_allowed_agents m j (tc_name (pa_tool_call p)) = Some allowed \<longrightarrow>
        target \<in> set allowed"
    by (auto simp: handoff_to_def Let_def initial_messages_def split: if_splits option.splits sum.splits)
  with p show ?thesis by (auto simp: swarm_worker_Inr[OF assms(2)])
qed

lemma map_sum_Inl [simp]: "map_sum id f x = Inl e \<longleftrightarrow> x = Inl e"
  by (cases x) auto

lemma handoff_transition_Inl:
  "handoff_transition crew rep j m = Inl e \<Longrightarrow>
   \<exists>p. rep_pending rep = Some p \<and> pa_type p = Handoff \<and> exc_class e = ''ValueError''"
  by (auto simp: handoff_transition_def handoff_to_def Let_def
      split: option.splits if_splits pyval.splits sum.splits)

text \<open>The allowlist of a handoff tool is the list it was made with.\<close>

lemma enum_names_strs: "enum_names (map PStr ns) = filter (\<lambda>n. n \<noteq> []) ns"
  by (induction ns) (auto simp: enum_names_def)

lemma transfer_tool_allows:
  assumes "handoff_tool m j name = Some (transfer_to_agent_tool base agents)"
    and "dict_get base ''properties'' = Some (PDict props)"
    and "dict_get props ''agent_name'' = Some (PDict ans)"
  shows "handoff_allowed_agents m j name = Some (filter (\<lambda>n. n \<noteq> []) agents)"
  using assms by (simp add: handoff_allowed_agents_def transfer_to_agent_tool_def handoff_schema_def
      enum_names_strs)

end
