(* ===== verification/Workforce_Outcome.thy ===== *)
theory Workforce_Outcome
  imports Workforce_Laws
begin

text \<open>
  The outcome of a workforce.  \<open>waiting_member\<close> is the member a stored state resumes;
  \<open>resumable\<close> is what a pause leaves; \<open>force_outcome\<close> is what every mode and every resumption
  ends in, proved inside the member contract and read off for workers by interpretation.
\<close>

definition waiting_member :: "workforce \<Rightarrow> run_state \<Rightarrow> run_state \<Rightarrow> crew_member option" where
  "waiting_member crew st ws =
     (let stage = stored_str (dict_get (rs_payload st) ''stage'')
      in if stage = Some ''swarm''
         then (case swarm_worker crew (Some (stored_worker_name st ws)) of
                 Inr m \<Rightarrow> Some m | Inl e \<Rightarrow> None)
         else if stage = Some ''manager'' then Some (lead crew)
         else if stage = Some ''worker''
         then Some (find_worker (wf_members crew)
                      (stored_str (dict_get (rs_payload st) ''selected_worker'')))
         else if stage = Some ''collaborate''
         then map_option (\<lambda>i. wf_members crew ! i) (pending_index crew st)
         else None)"

definition stage_stored :: "workforce \<Rightarrow> run_state \<Rightarrow> bool" where
  "stage_stored crew st \<longleftrightarrow>
     (case stored_str (dict_get (rs_payload st) ''stage'') of
        None \<Rightarrow> False
      | Some stage \<Rightarrow>
          (stage = ''swarm'' \<longrightarrow>
             (\<exists>h. dict_get (rs_payload st) ''swarm_history'' = Some (PlReports h)) \<and>
             (\<forall>p. rs_pending st = Some p \<longrightarrow> pa_type p \<noteq> Handoff)) \<and>
          (stage = ''collaborate'' \<longrightarrow>
             (\<exists>rs. dict_get (rs_payload st) ''completed_reports'' = Some (PlReports rs) \<and>
                pending_index crew st = Some (length rs))))"

definition resumable :: "workforce \<Rightarrow> int \<Rightarrow> run_state \<Rightarrow> bool" where
  "resumable crew limit st \<longleftrightarrow>
     rs_status st = Paused \<and> conversation_ok (initial_messages (rs_job st)) \<and> stage_stored crew st \<and>
     (\<exists>ws m j. dict_get (rs_payload st) ''worker_state'' = Some (PlState ws) \<and>
        dict_get (rs_payload st) ''root_job'' = Some (PlJob j) \<and>
        conversation_ok (initial_messages j) \<and> paused_ok limit ws \<and>
        rs_pending st = rs_pending ws \<and> rs_messages st = rs_messages ws \<and>
        waiting_member crew st ws = Some m \<and> belongs crew m \<and> rs_runner_name ws = mb_name m)"

definition force_outcome :: "workforce \<Rightarrow> run_config \<Rightarrow> report \<times> run_state option \<Rightarrow> bool" where
  "force_outcome crew c out \<longleftrightarrow>
     (case out of
        (rep, None) \<Rightarrow> wf_reducer crew = None \<longrightarrow>
          rep_pending rep = None \<and> (rep_status rep = Completed \<or> rep_status rep = Failed)
      | (rep, Some st) \<Rightarrow> rep_status rep = Paused \<and> rs_pending st = rep_pending rep \<and>
          rs_messages st = rep_messages rep \<and> resumable crew (cfg_max_tool_calls c) st)"

section \<open>Stored payloads\<close>

lemma build_workforce_state_simps [simp]:
  "rs_status (build_workforce_state rid s n j ws stage pl t) = s"
  "rs_job (build_workforce_state rid s n j ws stage pl t) = j"
  "rs_messages (build_workforce_state rid s n j ws stage pl t) = rs_messages ws"
  "rs_pending (build_workforce_state rid s n j ws stage pl t) = rs_pending ws"
  "rs_run_id (build_workforce_state rid s n j ws stage pl t) = rid"
  by (simp_all add: build_workforce_state_def)

lemma dict_update_get:
  "distinct (map fst e) \<Longrightarrow>
   dict_get (dict_update d e) k = (case dict_get e k of Some v \<Rightarrow> Some v | None \<Rightarrow> dict_get d k)"
  unfolding dict_update_def
proof (induction e arbitrary: d)
  case (Cons kv e)
  then have "dict_get e (fst kv) = None" by (simp add: map_of_eq_None_iff)
  with Cons show ?case by (cases kv) (auto split: option.splits simp del: map_of_eq_Some_iff)
qed simp

lemma stored_payload:
  assumes "distinct (map fst pl)"
  shows "dict_get (rs_payload (build_workforce_state rid s n j ws stage pl t)) k =
     (case dict_get pl k of
        Some v \<Rightarrow> Some v
      | None \<Rightarrow> if k = ''stage'' then Some (PlVal (PStr stage))
                else if k = ''worker_state'' then Some (PlState ws)
                else if k = ''usage_totals'' then Some (PlVal (PDict t)) else None)"
  using assms by (simp add: build_workforce_state_def dict_update_get split: option.split)

text \<open>What a pause of each stage stores leads back to the member that paused.\<close>

lemma swarm_state_resumable:
  assumes "crew_ok crew" "belongs crew m" "conversation_ok (initial_messages j)"
    and "paused_ok limit ws" "rs_runner_name ws = mb_name m"
    and "\<And>p. rs_pending ws = Some p \<Longrightarrow> pa_type p \<noteq> Handoff"
  shows "resumable crew limit
    (build_workforce_state rid Paused n j ws ''swarm'' (swarm_payload j m passed h) t)"
proof -
  have "swarm_worker crew (Some (mb_name m)) = Inr m" using swarm_worker_Inr[OF assms(1)] assms(2) by simp
  with assms belongs_named[OF assms(1,2)] show ?thesis
    unfolding resumable_def stage_stored_def waiting_member_def stored_worker_name_def
      dict_get_or_def
    by (simp add: swarm_payload_def stored_payload)
qed

lemma manager_state_resumable:
  assumes "crew_ok crew" "conversation_ok (initial_messages j)"
    and "paused_ok limit ws" "rs_runner_name ws = mb_name (lead crew)"
  shows "resumable crew limit
    (build_workforce_state rid Paused n j ws ''manager'' [(''root_job'', PlJob j)] t)"
  using assms lead_belongs[OF assms(1)]
  unfolding resumable_def stage_stored_def waiting_member_def
  by (simp add: stored_payload)

lemma worker_state_resumable:
  assumes "crew_ok crew" "conversation_ok (initial_messages j)" "m \<in> set (wf_members crew)"
    and "paused_ok limit ws" "rs_runner_name ws = mb_name m"
  shows "resumable crew limit
    (build_workforce_state rid Paused n j ws ''worker''
      [(''root_job'', PlJob j), (''selected_worker'', PlVal (PStr (mb_name m)))] t)"
proof -
  have "find_worker (wf_members crew) (Some (mb_name m)) = m"
    by (rule find_worker_named) (use assms(1,3) in \<open>simp_all add: crew_ok_def\<close>)
  with assms show ?thesis
    unfolding resumable_def stage_stored_def waiting_member_def
    by (simp add: stored_payload belongs_def)
qed

lemma collaborate_state_resumable:
  assumes "crew_ok crew" "conversation_ok (initial_messages j)"
    and "length rs < length (wf_members crew)" "m = wf_members crew ! length rs"
    and "paused_ok limit ws" "rs_runner_name ws = mb_name m"
  shows "resumable crew limit
    (build_workforce_state rid Paused n j ws ''collaborate''
      (collaborate_payload j (PlReports rs) (length rs)) t)"
proof -
  have "belongs crew m" using assms(3,4) by (simp add: belongs_def)
  with assms show ?thesis
    unfolding resumable_def stage_stored_def waiting_member_def pending_index_def dict_get_or_def
    by (simp add: collaborate_payload_def stored_payload)
qed

section \<open>Ends\<close>

lemma merge_swarm_frame [simp]:
  "rep_status (merge_swarm_reports h r) = rep_status r"
  "rep_pending (merge_swarm_reports h r) = rep_pending r"
  by (simp_all add: merge_swarm_reports_def)

lemma handoff_failed_frame [simp]:
  "rep_status (handoff_failed_report r e) = Failed" "rep_pending (handoff_failed_report r e) = None"
  by (simp_all add: handoff_failed_report_def)

lemma build_report_frame [simp]:
  "rep_status (build_report rid s ct rc d ms tcs mt ev p er) = s"
  "rep_pending (build_report rid s ct rc d ms tcs mt ev p er) = p"
  by (simp_all add: build_report_def)

lemma force_outcome_ended [intro]:
  "rep_status r = Completed \<or> rep_status r = Failed \<Longrightarrow> rep_pending r = None \<Longrightarrow>
   force_outcome crew c (r, None)"
  by (simp add: force_outcome_def)

lemma aggregate_failed_ends:
  "returns (aggregate_failed c rid reports) (\<lambda>out. snd out = None \<and> force_outcome crew c' out)"
  by (auto simp: aggregate_failed_def aggregate_reports_def intro!: result_rules)

lemma aggregate_failed_outcome [result_rules]:
  "returns (aggregate_failed c rid reports) (force_outcome crew c')"
  by (rule returns_mono[OF aggregate_failed_ends]) blast

lemma resume_failed_outcome [result_rules]:
  "returns (resume_failed_report st c e) (force_outcome crew c')"
  by (auto simp: resume_failed_report_def intro!: result_rules)

lemma reduce_ends:
  "returns (ebind (reduce_reports X crew c rid reports) (\<lambda>rep. ret (rep, None)))
     (\<lambda>out. snd out = None \<and> force_outcome crew c' out)"
  by (auto simp: reduce_reports_def returns_def force_outcome_def default_reducer_def
      aggregate_reports_def split: option.splits)

lemma reduce_outcome:
  "returns (ebind (reduce_reports X crew c rid reports) (\<lambda>rep. ret (rep, None))) (force_outcome crew c')"
  by (rule returns_mono[OF reduce_ends]) blast

lemma with_totals_outcome: "force_outcome crew c out \<Longrightarrow> returns (with_totals out) (force_outcome crew c)"
  by (auto simp: with_totals_def returns_def force_outcome_def with_run_metrics_def split: option.splits prod.splits)

text \<open>A pause, from a member's outcome and the state the stage stores.\<close>

lemma paused_workforce_outcome:
  assumes "rep_status rep = Paused" "rs_pending ws = rep_pending rep" "rs_messages ws = rep_messages rep"
    and "\<And>t. resumable crew (cfg_max_tool_calls c)
           (build_workforce_state rid Paused (wf_name crew) j ws stage pl t)"
  shows "returns (paused_workforce crew rid rep j ws stage pl) (force_outcome crew c)"
  using assms by (auto simp: paused_workforce_def force_outcome_def intro!: result_rules)

section \<open>Inside the member contract\<close>

context member_contract
begin

lemma swarm_round:
  assumes law: "lawful" "validate_execution_limits c = None" "crew_ok crew"
    and m: "belongs crew m" "conversation_ok (initial_messages j)" "member_outcome m c j0 out"
    and onward: "\<And>m' j' out' history'. passed + 1 \<le> swarm_handoff_budget c \<Longrightarrow> belongs crew m' \<Longrightarrow>
      conversation_ok (initial_messages j') \<Longrightarrow> member_outcome m' c j' out' \<Longrightarrow>
      returns (swarm_rounds run crew c rid n m' j' (passed + 1) history' out')
        (\<lambda>r. \<exists>x. r = Some x \<and> force_outcome crew c x)"
  shows "returns (swarm_rounds run crew c rid (Suc n) m j passed history out)
    (\<lambda>r. \<exists>x. r = Some x \<and> force_outcome crew c x)"
proof -
  obtain rep st where out: "out = (rep, st)" by (cases out)
  from m(3)[unfolded out] show ?thesis
  proof (cases rule: member_outcome_cases)
    case ended
    then show ?thesis by (auto simp: out intro!: returns_ret force_outcome_ended)
  next
    case (paused ws p)
    consider (bad) e where "handoff_transition crew rep j m = Inl e"
      | (stay) "handoff_transition crew rep j m = Inr None"
      | (hand) m' j' where "handoff_transition crew rep j m = Inr (Some (m', j'))"
      by (cases "handoff_transition crew rep j m") (auto, metis option.exhaust surj_pair)
    then show ?thesis
    proof cases
      case bad
      with paused show ?thesis by (auto simp: out intro!: returns_ret force_outcome_ended)
    next
      case stay
      then have "\<And>p. rs_pending ws = Some p \<Longrightarrow> pa_type p \<noteq> Handoff"
        using paused by (simp add: handoff_transition_None)
      from swarm_state_resumable[OF law(3) m(1,2) paused(6,7) this] paused
      have "returns (paused_workforce crew rid rep j ws ''swarm'' (swarm_payload j m passed history))
          (force_outcome crew c)"
        by (intro paused_workforce_outcome) auto
      then have "returns (ebind (paused_workforce crew rid rep j ws ''swarm'' (swarm_payload j m passed history))
          (\<lambda>out. ret (Some out))) (\<lambda>r. \<exists>x. r = Some x \<and> force_outcome crew c x)"
        by (rule returns_bind_rule) (rule returns_ret, blast)
      with stay paused show ?thesis by (simp add: out)
    next
      case hand
      from handoff_transition_Some[OF hand law(3)] paused have m': "belongs crew m'"
        "initial_messages j' = handoff_messages rep (mb_name m') (tc_id (pa_tool_call p))" by auto
      with handoff_conversation[of "tc_id (pa_tool_call p)" rep] paused
      have conv: "conversation_ok (initial_messages j')" by simp
      show ?thesis
      proof (cases "passed + 1 > swarm_handoff_budget c")
        case True
        with paused hand show ?thesis by (auto simp: out Let_def intro!: returns_ret force_outcome_ended)
      next
        case False
        have "returns (ebind (run m' c j') (swarm_rounds run crew c rid n m' j' (passed + 1) h))
            (\<lambda>r. \<exists>x. r = Some x \<and> force_outcome crew c x)" for h
          by (rule returns_bind_rule[OF run_outcome[OF law(1,2) conv]], rule onward[OF _ m'(1) conv])
            (use False in simp_all)
        with False paused hand show ?thesis by (simp add: out Let_def)
      qed
    qed
  qed
qed

lemma swarm_rounds_outcome:
  assumes law: "lawful" "validate_execution_limits c = None" "crew_ok crew"
  shows "belongs crew m \<Longrightarrow> conversation_ok (initial_messages j) \<Longrightarrow> member_outcome m c j0 out \<Longrightarrow>
    swarm_handoff_budget c - passed \<le> int n \<Longrightarrow>
    returns (swarm_rounds run crew c rid (Suc n) m j passed history out)
      (\<lambda>r. \<exists>x. r = Some x \<and> force_outcome crew c x)"
proof (induction n arbitrary: m j j0 passed history out)
  case (0 m j j0 passed history out)
  show ?case by (rule swarm_round[OF law 0(1-3)]) (use 0(4) in simp)
next
  case (Suc n m j j0 passed history out)
  show ?case
  proof (rule swarm_round[OF law Suc(2-4)])
    fix m' j' out' history'
    assume "passed + 1 \<le> swarm_handoff_budget c" "belongs crew m'"
      "conversation_ok (initial_messages j')" "member_outcome m' c j' out'"
    with Suc(1)[of m' j' j' out' "passed + 1" history'] Suc(5)
    show "returns (swarm_rounds run crew c rid (Suc n) m' j' (passed + 1) history' out')
        (\<lambda>r. \<exists>x. r = Some x \<and> force_outcome crew c x)" by simp
  qed
qed

lemma swarm_loop_outcome:
  assumes "lawful" "validate_execution_limits c = None" "crew_ok crew" "belongs crew m"
    "conversation_ok (initial_messages j)" "member_outcome m c j0 out"
  shows "returns (swarm_loop run crew c rid m j passed history out) (force_outcome crew c)"
  unfolding swarm_loop_def
  using swarm_rounds_outcome[OF assms, of passed "nat (swarm_handoff_budget c - passed)" rid history]
  by (intro returns_bind_rule[where ?R1.0 = "\<lambda>r. \<exists>x. r = Some x \<and> force_outcome crew c x"])
    (auto intro: returns_ret simp del: swarm_rounds.simps)

lemma arun_swarm_outcome:
  assumes "lawful" "validate_execution_limits c = None" "crew_ok crew"
    "conversation_ok (initial_messages j)"
  shows "returns (arun_swarm_mode run crew c j) (force_outcome crew c)"
  unfolding arun_swarm_mode_def
  by (rule returns_bind_rule[OF run_outcome[OF assms(1,2,4)]])
    (rule swarm_loop_outcome[OF assms(1-3) lead_belongs[OF assms(3)] assms(4)])

text \<open>Managed mode and its two stages.\<close>

lemma worker_done_outcome:
  assumes "crew_ok crew" "conversation_ok (initial_messages j)" "m \<in> set (wf_members crew)"
    "member_outcome m c j0 out"
  shows "returns (worker_done crew rid j m out) (force_outcome crew c)"
proof -
  obtain rep st where out: "out = (rep, st)" by (cases out)
  from assms(4)[unfolded out] show ?thesis
  proof (cases rule: member_outcome_cases)
    case ended
    then show ?thesis by (auto simp: out worker_done_def intro!: returns_ret)
  next
    case (paused ws p)
    with worker_state_resumable[OF assms(1-3) paused(6,7)] show ?thesis
      by (simp add: out worker_done_def paused_workforce_outcome)
  qed
qed

lemma manager_done_outcome:
  assumes law: "lawful" "validate_execution_limits c = None" "crew_ok crew"
    and j: "conversation_ok (initial_messages j)" and out: "member_outcome (lead crew) c j0 out"
  shows "returns (manager_done run crew c rid j out) (force_outcome crew c)"
proof -
  obtain rep st where o: "out = (rep, st)" by (cases out)
  from out[unfolded o] show ?thesis
  proof (cases rule: member_outcome_cases)
    case ended
    have "find_worker (wf_members crew) n \<in> set (wf_members crew)" for n
      using find_worker_member law(3) by (simp add: crew_ok_def)
    with ended show ?thesis
      by (auto simp: o manager_done_def Let_def intro!: returns_ret
          returns_bind_rule[OF run_outcome[OF law(1,2) j]] worker_done_outcome[OF law(3) j])
  next
    case (paused ws p)
    with manager_state_resumable[OF law(3) j paused(6,7)] show ?thesis
      by (simp add: o manager_done_def paused_workforce_outcome)
  qed
qed

lemma arun_managed_outcome:
  assumes law: "lawful" "validate_execution_limits c = None" "crew_ok crew"
    and j: "conversation_ok (initial_messages j)"
  shows "returns (arun_managed_mode X run crew c j) (force_outcome crew c)"
proof -
  have conv: "conversation_ok (initial_messages (manager_job crew j i))" for i
    by (simp add: manager_job_def initial_messages_def)
  show ?thesis
    unfolding arun_managed_mode_def
    by (rule returns_bind, rule returns_bind_rule[OF run_outcome[OF law(1,2) conv]])
      (rule manager_done_outcome[OF law j])
qed

text \<open>Collaborate mode.\<close>

lemma collaborate_from_outcome:
  assumes law: "lawful" "validate_execution_limits c = None" "crew_ok crew"
    and j: "conversation_ok (initial_messages j)"
  shows "wf_members crew = map fst reports @ ms \<Longrightarrow>
    returns (collaborate_from X run crew c rid j ms reports) (force_outcome crew c)"
proof (induction ms arbitrary: reports)
  case Nil
  show ?case by (simp add: reduce_outcome)
next
  case (Cons m ms)
  then have m: "length (map snd reports) < length (wf_members crew)"
    "m = wf_members crew ! length (map snd reports)" by (simp_all add: nth_append)
  show ?case
    unfolding collaborate_from.simps
  proof (rule returns_bind_rule[OF run_outcome[OF law(1,2) j, of m]])
    fix out assume out: "member_outcome m c j out"
    obtain rep st where o: "out = (rep, st)" by (cases out)
    from out[unfolded o]
    show "returns (case out of
        (rep, None) \<Rightarrow> if rep_status rep = Failed then aggregate_failed c rid (reports @ [(m, rep)])
          else collaborate_from X run crew c rid j ms (reports @ [(m, rep)])
      | (rep, Some ws) \<Rightarrow> paused_workforce crew rid rep j ws ''collaborate''
          (collaborate_payload j (PlReports (map snd reports)) (length reports)))
      (force_outcome crew c)"
    proof (cases rule: member_outcome_cases)
      case ended
      then show ?thesis using Cons by (simp add: o aggregate_failed_outcome)
    next
      case (paused ws p)
      with collaborate_state_resumable[OF law(3) j m paused(6,7)] show ?thesis
        by (simp add: o paused_workforce_outcome)
    qed
  qed
qed

text \<open>Without tools no member pauses, so neither does the parallel run.\<close>

lemma parallel_toolless:
  assumes "can_parallelize_collaborate crew j" "m \<in> set (wf_members crew)"
  shows "resolve_tools (wk_belt (mb_worker m)) j = []"
  using assms by (auto simp: can_parallelize_collaborate_def resolve_tools_def list_all_iff split: option.splits)

lemma wait_outcomes:
  fixes f :: "nat \<Rightarrow> ('s, 'a) eff"
  assumes "\<And>i. i \<in> set is \<Longrightarrow> returns (f i) (R i)"
  shows "returns (wait_first_exception f is) (\<lambda>rs. \<forall>i out. map_of rs i = Some (Inr out) \<longrightarrow> R i out)"
  using assms
proof (induction "is")
  case (Cons i "is")
  have "returns (attempt (f i)) (\<lambda>r. case r of Inl e \<Rightarrow> True | Inr a \<Rightarrow> R i a)"
    using Cons.prems by (auto simp: returns_def)
  then show ?case
    unfolding wait_first_exception.simps
  proof (rule returns_bind_rule)
    fix r :: "exc + 'a" assume r: "case r of Inl e \<Rightarrow> True | Inr a \<Rightarrow> R i a"
    show "returns (case r of Inl e \<Rightarrow> ret [(i, Inl e)]
        | Inr a \<Rightarrow> ebind (wait_first_exception f is) (\<lambda>rs. ret ((i, Inr a) # rs)))
      (\<lambda>rs. \<forall>i out. map_of rs i = Some (Inr out) \<longrightarrow> R i out)"
      using r Cons by (cases r)
        (auto intro!: returns_ret returns_bind_rule[OF Cons.IH] split: if_splits)
  qed
qed (auto intro: returns_ret)

lemma parallel_outcomes_unpaused:
  assumes law: "lawful" "validate_execution_limits c = None"
    and j: "conversation_ok (initial_messages j)" "can_parallelize_collaborate crew j"
  shows "returns (parallel_outcomes X run crew c j)
    (\<lambda>outs. map fst outs = wf_members crew \<and> (\<forall>(m, rep, st)\<in>set outs. st = None))"
proof -
  have member: "st = None"
    if "member_outcome (wf_members crew ! i) c j (rep, st)" "i < length (wf_members crew)" for i rep st
    using parallel_toolless[OF j(2) nth_mem[OF that(2)]] that(1) by (cases st) (auto simp: member_outcome_def)
  show ?thesis
    unfolding parallel_outcomes_def
    by (rule returns_bind, rule returns_bind_rule[OF wait_outcomes[OF run_outcome[OF law j(1)]]],
        rule returns_gets)
      (auto simp: task_outcome_def map_nth comp_def split: option.splits sum.splits, metis member)
qed

lemma collect_unpaused:
  "\<forall>(m, rep, st)\<in>set outs. st = None \<Longrightarrow>
   collect_outcomes outs reports = Inr (reports @ map (\<lambda>(m, rep, st). (m, rep)) outs)"
  by (induction outs reports rule: collect_outcomes.induct) auto

lemma finally_outcome: "returns m R \<Longrightarrow> returns (finally_do f m) R"
  unfolding finally_do_def
  by (rule returns_bind_rule[where ?R1.0 = "\<lambda>r. \<forall>a. r = Inr a \<longrightarrow> R a"])
    (auto simp: returns_def wp_eseq split: sum.splits intro: wpI)

lemma collaborate_parallel_outcome:
  assumes law: "lawful" "validate_execution_limits c = None"
    and j: "conversation_ok (initial_messages j)" "can_parallelize_collaborate crew j"
  shows "returns (arun_collaborate_parallel X run crew c j drain) (\<lambda>out. snd out = None \<and> force_outcome crew c out)"
  unfolding arun_collaborate_parallel_def
proof (rule finally_outcome, rule returns_bind_rule[OF parallel_outcomes_unpaused[OF law j]])
  fix outs :: "(crew_member \<times> report \<times> run_state option) list"
  assume "map fst outs = wf_members crew \<and> (\<forall>(m, rep, st)\<in>set outs. st = None)"
  then have c: "collect_outcomes outs [] = Inr (map (\<lambda>(m, rep, st). (m, rep)) outs)"
    by (simp add: collect_unpaused)
  show "returns (case collect_outcomes outs [] of
      Inl (rep, ws, reports) \<Rightarrow> paused_workforce crew (cfg_run_id c) rep j ws ''collaborate''
        (collaborate_payload j (PlReports (map snd reports)) (length reports))
    | Inr reports \<Rightarrow> if \<exists>(m, rep)\<in>set reports. rep_status rep = Failed
        then aggregate_failed c (cfg_run_id c) reports
        else ebind (reduce_reports X crew c (cfg_run_id c) reports) (\<lambda>rep. ret (rep, None)))
    (\<lambda>out. snd out = None \<and> force_outcome crew c out)"
    unfolding c by (simp add: aggregate_failed_ends reduce_ends)
qed

end

end
