(* ===== verification/Workforce_Resume.thy ===== *)
theory Workforce_Resume
  imports Workforce_Outcome
begin

text \<open>
  Resuming a workforce: the stage read from the payload calls \<open>resume\<close> on the member that
  paused before anything else (\<open>resumes_at\<close>), and ends in a good outcome again.
\<close>

section \<open>Configurations\<close>

lemma resume_config_limits [simp]:
  "validate_execution_limits (resume_config c st es) = validate_execution_limits c"
  "cfg_max_tool_calls (resume_config c st es) = cfg_max_tool_calls c"
proof -
  have "validate_execution_limits (with_run_id c i es) = validate_execution_limits c" for i es
    by (simp add: validate_execution_limits_def with_run_id_def cong: if_cong option.case_cong)
  then show "validate_execution_limits (resume_config c st es) = validate_execution_limits c"
    by (simp add: resume_config_def)
qed (simp add: resume_config_def with_run_id_def)

lemma force_outcome_config: "force_outcome crew (resume_config c st es) = force_outcome crew c"
  by (simp add: force_outcome_def fun_eq_iff)

section \<open>The member a stage calls\<close>

lemma waiting_reload: "waiting_member crew st (reload_state P r ws) = waiting_member crew st ws"
  by (simp add: waiting_member_def stored_worker_name_def Let_def)

lemma from_sum_Inr [simp]: "from_sum (Inr a) = ret a"
  by (simp add: fun_eq_iff from_sum_def ret_def)

lemma root_job_stored:
  "dict_get (rs_payload st) ''root_job'' = Some (PlJob j) \<Longrightarrow>
   stored_root_job X st = ret (reload_job (x_text X) (x_resolves X) j)"
  by (simp add: stored_root_job_def root_job_def)

text \<open>What a stored stage can be, with the member it waits for.\<close>

lemma stage_cases:
  assumes "waiting_member crew st ws = Some m" "stage_stored crew st"
  obtains (swarm) h where "stored_str (dict_get (rs_payload st) ''stage'') = Some ''swarm''"
      "swarm_worker crew (Some (stored_worker_name st ws)) = Inr m"
      "dict_get (rs_payload st) ''swarm_history'' = Some (PlReports h)"
    | (manager) "stored_str (dict_get (rs_payload st) ''stage'') = Some ''manager''" "m = lead crew"
    | (worker) "stored_str (dict_get (rs_payload st) ''stage'') = Some ''worker''"
      "m = find_worker (wf_members crew) (stored_str (dict_get (rs_payload st) ''selected_worker''))"
    | (collaborate) rs where "stored_str (dict_get (rs_payload st) ''stage'') = Some ''collaborate''"
      "dict_get (rs_payload st) ''completed_reports'' = Some (PlReports rs)"
      "pending_index crew st = Some (length rs)" "m = wf_members crew ! length rs"
proof -
  from assms(2) obtain stage where s: "stored_str (dict_get (rs_payload st) ''stage'') = Some stage"
    by (auto simp: stage_stored_def split: option.splits)
  note defs = waiting_member_def stage_stored_def s Let_def
  consider "stage = ''swarm''" | "stage = ''manager''" | "stage = ''worker''" | "stage = ''collaborate''"
    using assms(1) by (simp add: defs split: if_splits)
  then show thesis
  proof cases
    case 1
    with assms s swarm show thesis by (auto simp: defs split: sum.splits)
  next
    case 2
    with assms s manager show thesis by (simp add: defs)
  next
    case 3
    with assms s worker show thesis by (simp add: defs)
  next
    case 4
    with assms s collaborate show thesis by (auto simp: defs)
  qed
qed

lemma resumes_at:
  assumes "waiting_member crew st ws = Some m" "stage_stored crew st"
    and "dict_get (rs_payload st) ''root_job'' = Some (PlJob j)"
  shows "\<exists>k. aresume_stage X run resume crew c st (reload_state P r ws) d
     = ebind (resume m c (reload_state P r ws) d) k"
  using assms(1,2)
proof (cases rule: stage_cases)
  case (swarm h)
  then have "swarm_worker crew (Some (stored_worker_name st (reload_state P r ws))) = Inr m"
    by (simp add: stored_worker_name_def)
  with swarm show ?thesis
    by (auto simp: aresume_stage_def aresume_swarm_stage_def raw_reports_def dict_get_or_def ebind_assoc)
next
  case manager
  then show ?thesis
    by (auto simp: aresume_stage_def aresume_manager_stage_def root_job_stored[OF assms(3)] ebind_assoc)
next
  case worker
  then show ?thesis
    by (auto simp: aresume_stage_def aresume_worker_stage_def root_job_stored[OF assms(3)] ebind_assoc Let_def)
next
  case (collaborate rs)
  then show ?thesis
    by (auto simp: aresume_stage_def aresume_collaborate_stage_def root_job_stored[OF assms(3)]
        ebind_assoc Let_def)
qed

lemma pending_index_less: "pending_index crew st = Some i \<Longrightarrow> i < length (wf_members crew)"
  by (auto simp: pending_index_def split: option.splits if_splits)

section \<open>Inside the member contract\<close>

context member_contract
begin

lemma collaborate_done_outcome:
  assumes law: "lawful" "validate_execution_limits c = None" "crew_ok crew"
    and j: "conversation_ok (initial_messages j)" and lt: "length rs < length (wf_members crew)"
    and out: "member_outcome (wf_members crew ! length rs) c j0 out"
  shows "returns (collaborate_done X run crew c rid j (PlReports rs) (length rs) out) (force_outcome crew c)"
proof -
  obtain rep st where o: "out = (rep, st)" by (cases out)
  have fst: "map fst (zip (take (length rs + 1) (wf_members crew)) (map reload_report rs @ [rep]))
      = take (length rs + 1) (wf_members crew)" using lt by simp
  from out[unfolded o] show ?thesis
  proof (cases rule: member_outcome_cases)
    case ended
    with fst show ?thesis
      by (auto simp: o collaborate_done_def Let_def
          intro!: aggregate_failed_outcome collaborate_from_outcome[OF law j])
  next
    case (paused ws p)
    with collaborate_state_resumable[OF law(3) j lt refl paused(6,7)] show ?thesis
      by (simp add: o collaborate_done_def paused_workforce_outcome)
  qed
qed

lemma aresume_stage_outcome:
  assumes law: "lawful" "validate_execution_limits c = None" "crew_ok crew"
    and st: "resumable crew (cfg_max_tool_calls c) st"
    and ws: "dict_get (rs_payload st) ''worker_state'' = Some (PlState ws)"
  shows "returns (aresume_stage X run resume crew c st (reload_state P r ws) d) (force_outcome crew c)"
proof -
  let ?ws = "reload_state P r ws"
  from st ws obtain m j where m: "waiting_member crew st ws = Some m" "belongs crew m"
    and j: "dict_get (rs_payload st) ''root_job'' = Some (PlJob j)" "conversation_ok (initial_messages j)"
    and stage: "stage_stored crew st" and job: "conversation_ok (initial_messages (rs_job st))"
    and p: "paused_ok (cfg_max_tool_calls c) ?ws"
    by (auto simp: resumable_def paused_ok_reload)
  let ?j = "reload_job (x_text X) (x_resolves X) j"
  have conv: "conversation_ok (initial_messages ?j)" using j(2) by simp
  note resumed = returns_bind_rule[OF resume_outcome[OF law(1,2) p]]
  note total = returns_bind_rule[OF _ with_totals_outcome]
  note root = root_job_stored[OF j(1)]
  from m(1) stage show ?thesis
  proof (cases rule: stage_cases)
    case (swarm h)
    then have "swarm_worker crew (Some (stored_worker_name st ?ws)) = Inr m"
      by (simp add: stored_worker_name_def)
    then have "returns (aresume_swarm_stage X run resume crew c st ?ws d) (force_outcome crew c)"
      by (auto simp: aresume_swarm_stage_def raw_reports_def dict_get_or_def swarm(3)
          intro!: resumed swarm_loop_outcome[OF law m(2) job])
    with swarm(1) show ?thesis by (simp add: aresume_stage_def total)
  next
    case manager
    then have "returns (aresume_manager_stage X run resume crew c st ?ws d) (force_outcome crew c)"
      by (auto simp: aresume_manager_stage_def root intro!: resumed manager_done_outcome[OF law conv])
    with manager(1) show ?thesis by (simp add: aresume_stage_def total)
  next
    case worker
    have "find_worker (wf_members crew) n \<in> set (wf_members crew)" for n
      using find_worker_member law(3) by (simp add: crew_ok_def)
    then have "returns (aresume_worker_stage X run resume crew c st ?ws d) (force_outcome crew c)"
      by (auto simp: aresume_worker_stage_def root Let_def
          intro!: resumed worker_done_outcome[OF law(3) conv])
    with worker(1) show ?thesis by (simp add: aresume_stage_def total)
  next
    case (collaborate rs)
    then have raw: "raw_reports (rs_payload st) ''completed_reports'' = PlReports rs"
      by (simp add: raw_reports_def dict_get_or_def)
    have "returns (aresume_collaborate_stage X run resume crew c st ?ws d) (force_outcome crew c)"
      by (auto simp: aresume_collaborate_stage_def root raw collaborate(3)
          intro!: resumed collaborate_done_outcome[OF law conv pending_index_less[OF collaborate(3)]])
    with collaborate(1) show ?thesis by (simp add: aresume_stage_def total)
  qed
qed

lemma workforce_aresume_outcome:
  assumes law: "lawful" "validate_execution_limits c = None" "crew_ok crew"
    and st: "resumable crew (cfg_max_tool_calls c) st"
  shows "returns (workforce_aresume X run resume crew c st d) (force_outcome crew c)"
proof -
  from st obtain ws where ws: "dict_get (rs_payload st) ''worker_state'' = Some (PlState ws)"
    by (auto simp: resumable_def)
  have "returns (aresume_stage X run resume crew (resume_config c st es) st
      (reload_state (x_text X) (x_resolves X) ws) d) (force_outcome crew (resume_config c st es))" for es
    by (rule aresume_stage_outcome) (use law st ws in simp_all)
  then show ?thesis
    unfolding workforce_aresume_def
    by (intro returns_bind_rule[OF returns_gets[where R = "\<lambda>c'. \<exists>es. c' = resume_config c st es"]])
      (auto simp: ws force_outcome_config intro!: returns_seq)
qed

lemma workforce_arun_outcome:
  assumes law: "lawful" "validate_execution_limits c = None" "crew_ok crew"
    and j: "conversation_ok (initial_messages j)"
  shows "returns (workforce_arun X run crew c j drain) (force_outcome crew c)"
proof -
  have "returns (arun_collaborate_mode X run crew c j drain) (force_outcome crew c)"
    unfolding arun_collaborate_mode_def
    by (auto intro!: returns_mono[OF collaborate_parallel_outcome[OF law(1,2) j]]
        collaborate_from_outcome[OF law j])
  then have mode: "returns (arun_mode X run crew c j drain) (force_outcome crew c)"
    by (auto simp: arun_mode_def intro: arun_swarm_outcome[OF law j] arun_managed_outcome[OF law j]
        split: workforce_mode.splits)
  show ?thesis
    unfolding workforce_arun_def
    by (rule returns_seq, rule returns_bind_rule[OF mode])
      (rule returns_bind_rule[OF with_totals_outcome], assumption, rule returns_seq, rule returns_ret)
qed

end

end
