(* ===== verification/Workforce_Scenario.thy ===== *)
theory Workforce_Scenario
  imports Scenario Workforce_Resume
begin

text \<open>
  Crews in the concrete world of \<^verbatim>\<open>Scenario\<close>: \<open>alpha\<close> hands over to \<open>beta\<close>, who asks for
  consent; the paused workforce is resumed and completes.
\<close>

definition handoff_base :: "pyval dict" where
  "handoff_base = [(''properties'', PDict [(''agent_name'', PDict [])])]"

definition handoff_echo :: tool where
  "handoff_echo = transfer_to_agent_tool handoff_base [''beta'']"

definition alpha :: crew_member where
  "alpha = \<lparr>mb_ref = 0, mb_worker = \<lparr>wk_name = ''alpha'',
     wk_belt = [(''transfer_to_agent'', handoff_echo)], wk_instructions = None\<rparr>, mb_model = None, mb_scope = ''worker'' \<rparr>"

definition beta :: crew_member where
  "beta = \<lparr>mb_ref = 1, mb_worker = \<lparr>wk_name = ''beta'',
     wk_belt = [(''echo'', echo), (''guarded'', guarded)], wk_instructions = None\<rparr>, mb_model = None, mb_scope = ''worker'' \<rparr>"

definition demo_crew :: "workforce_mode \<Rightarrow> workforce" where
  "demo_crew md = \<lparr>wf_members = [alpha, beta], wf_mode = md, wf_name = ''team'', wf_manager = None,
     wf_reducer = None\<rparr>"

definition handoff_call :: tool_call where
  "handoff_call = (demo_call ''h1'' ''transfer_to_agent'')\<lparr>
     tc_arguments := [(''agent_name'', PStr ''beta'')]\<rparr>"

definition demo_force :: "workforce_mode \<Rightarrow> completion list \<Rightarrow>
    (exc + report \<times> run_state option) \<times> script rt" where
  "demo_force md rs = workforce_arun demo (member_arun demo) (demo_crew md) demo_config demo_job None
     (demo_run rs)"

lemma crew_simps [simp]:
  "wk_name (mb_worker alpha) = ''alpha''" "wk_name (mb_worker beta) = ''beta''"
  "wk_belt (mb_worker alpha) = [(''transfer_to_agent'', handoff_echo)]"
  "wk_belt (mb_worker beta) = [(''echo'', echo), (''guarded'', guarded)]"
  "wk_instructions (mb_worker alpha) = None" "wk_instructions (mb_worker beta) = None"
  "mb_model alpha = None" "mb_model beta = None"
  "wf_members (demo_crew md) = [alpha, beta]" "wf_mode (demo_crew md) = md"
  "wf_manager (demo_crew md) = None" "wf_name (demo_crew md) = ''team''"
  "wf_reducer (demo_crew md) = None"
  by (simp_all add: alpha_def beta_def demo_crew_def)

lemma handoff_tool_simps [simp]:
  "tl_name handoff_echo = ''transfer_to_agent''" "tool_action_type handoff_echo = Some Handoff"
  "tl_requires_handoff handoff_echo" "tl_input_key handoff_echo = None"
  by (simp_all add: handoff_echo_def transfer_to_agent_tool_def tool_action_type_def)

lemma demo_crew_ok: "crew_ok (demo_crew md)"
  by (simp add: crew_ok_def)

lemma demo_lead [simp]: "lead (demo_crew md) = alpha"
  by (simp add: lead_def)

lemmas swarm_rounds_numeral [simp] =
  swarm_rounds.simps(2)[where n = "pred_numeral k" for k, folded numeral_eq_Suc]

lemma demo_job_messages [simp]:
  "build_messages plain_text None (demo_job\<lparr>job_initial_messages := Some (m # ms), job_input := PStr t\<rparr>)
     = m # ms @ [mk_message User (CText t)]"
  "build_messages plain_text None (demo_job\<lparr>job_initial_messages := Some (m # ms)\<rparr>)
     = m # ms @ [mk_message User (CText ''hello'')]"
  by (simp_all add: build_messages_def system_message_def render_input_def)

lemmas force_defs =
  workforce_arun_def arun_mode_def arun_swarm_mode_def swarm_loop_def member_arun_def
  handoff_transition_def handoff_to_def handoff_allowed_agents_def handoff_tool_def
  swarm_worker_def members_by_name_def swarm_handoff_budget_def handoff_messages_def
  paused_workforce_def with_totals_def quoted_def toolbelt_resolve_def tool_prompt_def fstr_def

lemma handoff_schema_simps [simp]:
  "dict_get (tl_schema handoff_echo) ''properties'' =
     Some (PDict [(''agent_name'', PDict [(''enum'', PList [PStr ''beta''])])])"
  by (simp add: handoff_echo_def transfer_to_agent_tool_def handoff_schema_def handoff_base_def)

lemmas resume_defs =
  workforce_aresume_def aresume_stage_def aresume_swarm_stage_def stored_worker_name_def
  stored_handoffs_def member_aresume_def aresume_def resume_worker_def resume_config_def
  answer_pending_def resolve_resume_tool_def totals_from_metrics_def restore_totals_def
  dict_update_def reload_state_def reload_job_def reload_message_def reload_tool_call_def
  reload_pending_def reload_dict_def reload_report_def build_workforce_state_def
  swarm_payload_def raw_reports_def serialize_tools_override_def serialize_response_schema_def
  deserialize_response_schema_def

definition demo_resume :: "workforce_mode \<Rightarrow> run_state \<Rightarrow> completion list \<Rightarrow>
    (exc + report \<times> run_state option) \<times> script rt" where
  "demo_resume md st rs = workforce_aresume demo (member_arun demo) (member_aresume demo)
     (demo_crew md) demo_config st (PStr ''yes'') (demo_run rs)"

lemma force_run_resumes:
  "\<exists>rep st s' rep' t'.
     demo_force Swarm [ask_for [handoff_call], ask_for [demo_call ''c2'' ''guarded'']]
       = (Inr (rep, Some st), s')
     \<and> demo_resume Swarm st [say ''done''] = (Inr (rep', None), t')"
  by (simp add: demo_force_def demo_resume_def scenario_defs force_defs resume_defs handoff_call_def
     enum_names_def del: One_nat_def cong: run_weak_cong)

lemma force_run_totals:
  "\<exists>rep st s'. demo_force Swarm [ask_for [handoff_call], ask_for [demo_call ''c2'' ''guarded'']]
     = (Inr (rep, Some st), s')
     \<and> rt_totals s' = [(''cost_usd'', PFloat 0), (''prompt_tokens'', PInt 14)]"
  by (simp add: demo_force_def scenario_defs force_defs handoff_call_def enum_names_def
     del: One_nat_def cong: run_weak_cong)

end
