(* ===== verification/Workforce_Totals.thy ===== *)
theory Workforce_Totals
  imports Workforce_Resume
begin

text \<open>
  The usage totals of a workforce run: a pause stores them, a report that ends the run carries
  them.  \<open>settles\<close> is the partial correctness of a result together with the final state.
\<close>

text \<open>A statement whose outcome satisfies \<open>Q\<close> with the state it leaves, from whatever state.\<close>

definition settles :: "('s, 'a) eff \<Rightarrow> ('a \<Rightarrow> 's \<Rightarrow> bool) \<Rightarrow> bool" where
  "settles m Q \<longleftrightarrow> (\<forall>s. wp m Q anything s)"

named_theorems settle_rules "rules for outcomes together with the final state"

lemma settles_bind [settle_rules]: "(\<And>a. settles (f a) Q) \<Longrightarrow> settles (ebind m f) Q"
  unfolding settles_def by (auto intro!: wpI dest: wpD)

lemma settles_result: "settles m Q \<Longrightarrow> m s = (Inr a, s') \<Longrightarrow> Q a s'"
  unfolding settles_def by (auto dest: wpD)

lemma settles_ret [settle_rules]: "(\<And>s. Q a s) \<Longrightarrow> settles (ret a) Q"
  by (simp add: settles_def)

lemma settles_raise [settle_rules]: "settles (raise e) Q"
  by (simp add: settles_def)

lemma settles_seq: "settles k Q \<Longrightarrow> settles (eseq m k) Q"
  unfolding eseq_def by (rule settles_bind)

lemma settles_bind_rule:
  assumes "settles m Q" "\<And>a s. Q a s \<Longrightarrow> wp (f a) R anything s"
  shows "settles (ebind m f) R"
  unfolding settles_def
proof (intro allI, simp)
  fix s
  from assms(1) have "wp m Q anything s" by (simp add: settles_def)
  then show "wp m (\<lambda>a. wp (f a) R anything) anything s" by (rule wp_mono) (auto intro: assms(2))
qed

text \<open>The state of a pause holds the totals of the run.\<close>

definition saved :: "report \<times> run_state option \<Rightarrow> ('w, 'z) rt_scheme \<Rightarrow> bool" where
  "saved out s \<longleftrightarrow> (\<forall>st. snd out = Some st \<longrightarrow>
     dict_get (rs_payload st) ''usage_totals'' = Some (PlVal (PDict (rt_totals s))))"

lemma saved_ended [simp]: "saved (rep, None) s"
  by (simp add: saved_def)

definition saved_opt :: "(report \<times> run_state option) option \<Rightarrow> ('w, 'z) rt_scheme \<Rightarrow> bool" where
  "saved_opt r s = (case r of None \<Rightarrow> True | Some out \<Rightarrow> saved out s)"

lemma saved_opt_simps [simp]: "saved_opt None s" "saved_opt (Some out) s = saved out s"
  by (simp_all add: saved_opt_def)

lemma settles_paused:
  "distinct (map fst pl) \<Longrightarrow> dict_get pl ''usage_totals'' = None \<Longrightarrow>
   settles (paused_workforce crew rid rep j ws stage pl) saved"
  by (simp add: settles_def paused_workforce_def saved_def stored_payload)

lemma settles_payloads [settle_rules]:
  "settles (paused_workforce crew rid rep j ws ''swarm'' (swarm_payload j m n h)) saved"
  "settles (paused_workforce crew rid rep j ws ''collaborate'' (collaborate_payload j raw i)) saved"
  "settles (paused_workforce crew rid rep j ws ''manager'' [(''root_job'', pj)]) saved"
  "settles (paused_workforce crew rid rep j ws ''worker'' [(''root_job'', pj), (''selected_worker'', v)]) saved"
  by (rule settles_paused; simp add: swarm_payload_def collaborate_payload_def)+

lemma settles_aggregate [settle_rules]: "settles (aggregate_failed c rid reports) saved"
  by (simp add: settles_def aggregate_failed_def)

lemma swarm_rounds_saved:
  "settles (swarm_rounds run crew c rid n m j passed history out)
     saved_opt"
proof (induction n arbitrary: m j passed history out)
  case (Suc n)
  have pause: "settles (ebind (paused_workforce crew rid rep j ws ''swarm'' (swarm_payload j m passed h))
      (\<lambda>out. ret (Some out))) saved_opt" for rep ws h
    by (rule settles_bind_rule[OF settles_payloads(1)]) auto
  show ?case
    by (auto simp: Let_def intro!: settles_ret settles_bind Suc pause
        split: prod.splits option.splits sum.splits if_splits)
qed (simp add: settles_ret)

lemma swarm_loop_saved [settle_rules]: "settles (swarm_loop run crew c rid m j passed history out) saved"
  unfolding swarm_loop_def
  by (rule settles_bind_rule[OF swarm_rounds_saved]) (auto split: option.splits)

lemma collaborate_from_saved [settle_rules]:
  "settles (collaborate_from X run crew c rid j ms reports) saved"
  by (induction ms arbitrary: reports)
    (auto intro!: settle_rules split: prod.splits option.splits)

lemma finally_nothing: "finally_do (ret ()) m = m"
  by (auto simp: finally_do_def fun_eq_iff ebind_def attempt_def eseq_def ret_def from_sum_def
      split: prod.splits sum.splits)

lemma arun_mode_saved [settle_rules]: "settles (arun_mode X run crew c j None) saved"
  by (auto simp: arun_mode_def arun_swarm_mode_def arun_managed_mode_def manager_done_def worker_done_def
      arun_collaborate_mode_def arun_collaborate_parallel_def finally_nothing Let_def
      intro!: settle_rules split: workforce_mode.splits prod.splits option.splits sum.splits)

text \<open>What the totals of a report are.\<close>

definition carries_totals :: "report \<Rightarrow> pyval dict \<Rightarrow> bool" where
  "carries_totals rep totals \<longleftrightarrow>
     dict_get (rep_metrics rep) ''cost_usd'' = Some (dict_get_or totals ''cost_usd'' (PFloat 0))
     \<and> (\<forall>k\<in>set USAGE_KEYS. dict_get totals k \<noteq> None \<longrightarrow>
          (\<exists>u. dict_get (rep_metrics rep) ''usage'' = Some (PDict u) \<and> dict_get u k = dict_get totals k))"

lemma run_usage_get:
  "distinct ks \<Longrightarrow> dict_get (concat (map (\<lambda>k. case dict_get totals k of None \<Rightarrow> [] | Some v \<Rightarrow> [(k, v)]) ks)) k
     = (if k \<in> set ks then dict_get totals k else None)"
  by (induction ks) (auto split: option.splits)

lemma with_run_metrics_carries: "carries_totals (with_run_metrics rep totals) totals"
proof -
  let ?u = "concat (map (\<lambda>k. case dict_get totals k of None \<Rightarrow> [] | Some v \<Rightarrow> [(k, v)]) USAGE_KEYS)"
  have d: "distinct (map fst (run_metrics totals))" by (simp add: run_metrics_def Let_def)
  note get = dict_update_get[OF d, of "rep_metrics rep"]
  have cost: "dict_get (run_metrics totals) ''cost_usd'' = Some (dict_get_or totals ''cost_usd'' (PFloat 0))"
    by (simp add: run_metrics_def Let_def)
  have "dict_get (run_metrics totals) ''usage'' = Some (PDict ?u) \<and> dict_get ?u k = dict_get totals k"
    if "k \<in> set USAGE_KEYS" "dict_get totals k \<noteq> None" for k
  proof -
    have u: "dict_get ?u k = dict_get totals k"
      using that(1) run_usage_get[OF distinct_USAGE_KEYS, of totals k] by simp
    with that(2) have "?u \<noteq> []" by (metis map_of.simps(1))
    with u show ?thesis by (simp add: run_metrics_def Let_def del: concat_eq_Nil_conv)
  qed
  with cost show ?thesis by (auto simp: carries_totals_def with_run_metrics_def get)
qed

text \<open>The end of a run: totals saved in the state or carried by the report.\<close>

definition accounted :: "report \<times> run_state option \<Rightarrow> ('w, 'z) rt_scheme \<Rightarrow> bool" where
  "accounted out s \<longleftrightarrow> saved out s \<and> (snd out = None \<longrightarrow> carries_totals (fst out) (rt_totals s))"

lemma workforce_arun_accounted: "settles (workforce_arun X run crew c j None) accounted"
  unfolding workforce_arun_def
proof (rule settles_seq, rule settles_bind_rule[OF arun_mode_saved])
  fix out :: "report \<times> run_state option" and s :: "('a, 'd) rt_scheme"
  assume out: "saved out s"
  then have "wp (with_totals out) (\<lambda>out' s'. accounted out' s') anything s"
    by (cases "snd out") (auto simp: with_totals_def accounted_def with_run_metrics_carries
        split: prod.splits option.splits)
  then show "wp (ebind (with_totals out) (\<lambda>out'. eseq (emit X (cfg_emit_run c) WorkforceCompleted
      (wf_name crew) []) (ret out'))) accounted anything s"
    by (simp, elim wp_mono) (auto intro!: wp_emit simp: accounted_def saved_def)
qed

end
