(* ===== verification/Workforce_Properties.thy ===== *)
theory Workforce_Properties
  imports Workforce_Scenario Workforce_Totals
begin

text \<open>
  The properties of the workforce, most of them the member contract's lemmas read off for workers
  by the interpretation \<open>workers\<close>, with runs of \<^verbatim>\<open>Workforce_Scenario\<close> as witnesses.
\<close>

text \<open>
  C12: A workforce run that returns has ended with a completed or failed report, or is paused in a
  state the workforce can be resumed from: the stored state of the paused worker is there and
  waits for exactly the call the user is asked about, the stage is known, and the member the stage
  resumes belongs to the workforce and carries the name of the worker that paused.  A swarm never
  pauses on a handoff.
\<close>

theorem workforce_run_outcome:
  assumes "good_ids X" "validate_execution_limits c = None" "crew_ok crew"
    and "conversation_ok (initial_messages j)"
    and "workforce_arun X (member_arun X) crew c j drain s = (Inr (rep, st), s')"
  shows "(st = None \<longrightarrow> wf_reducer crew = None \<longrightarrow>
        rep_pending rep = None \<and> (rep_status rep = Completed \<or> rep_status rep = Failed))
    \<and> (\<forall>S. st = Some S \<longrightarrow> rep_status rep = Paused \<and> rs_pending S = rep_pending rep
        \<and> rs_messages S = rep_messages rep \<and> resumable crew (cfg_max_tool_calls c) S)"
  using returns_result[OF workers.workforce_arun_outcome[OF assms(1-4)] assms(5)]
  by (auto simp: force_outcome_def split: option.splits)

lemma demo_conversation: "conversation_ok (initial_messages demo_job)"
  by (simp add: initial_messages_def)

theorem workforce_run_outcome_witness:
  "\<exists>rep st s'. demo_force Swarm [ask_for [handoff_call], ask_for [demo_call ''c2'' ''guarded'']]
     = (Inr (rep, Some st), s') \<and> rep_status rep = Paused \<and> resumable (demo_crew Swarm) 20 st"
proof -
  obtain rep st s' where r: "demo_force Swarm [ask_for [handoff_call],
      ask_for [demo_call ''c2'' ''guarded'']] = (Inr (rep, Some st), s')"
    using force_run_resumes by blast
  from workforce_run_outcome[OF demo_good_ids demo_limits demo_crew_ok demo_conversation
      r[unfolded demo_force_def]] r
  show ?thesis by auto
qed

text \<open>
  C13: Resuming a paused workforce, with the state written to JSON and read back, ends in the same way:
  completed, failed, or paused in a state that can be resumed again, whichever stage it paused in.
\<close>

theorem workforce_resume_outcome:
  assumes "good_ids X" "validate_execution_limits c = None" "crew_ok crew"
    and "resumable crew (cfg_max_tool_calls c) S0"
    and "workforce_aresume X (member_arun X) (member_aresume X) crew c S0 d s = (Inr (rep, st), s')"
  shows "(st = None \<longrightarrow> wf_reducer crew = None \<longrightarrow>
        rep_pending rep = None \<and> (rep_status rep = Completed \<or> rep_status rep = Failed))
    \<and> (\<forall>S. st = Some S \<longrightarrow> rep_status rep = Paused \<and> rs_pending S = rep_pending rep
        \<and> rs_messages S = rep_messages rep \<and> resumable crew (cfg_max_tool_calls c) S)"
  using returns_result[OF workers.workforce_aresume_outcome[OF assms(1-4)] assms(5)]
  by (auto simp: force_outcome_def split: option.splits)

lemma demo_force_resumable:
  assumes "demo_force Swarm rs = (Inr (rep, Some st), s')"
  shows "resumable (demo_crew Swarm) (cfg_max_tool_calls demo_config) st"
  using returns_result[OF workers.workforce_arun_outcome[OF demo_good_ids demo_limits demo_crew_ok
      demo_conversation] assms[unfolded demo_force_def]]
  by (simp add: force_outcome_def)

theorem workforce_resume_outcome_witness:
  "\<exists>rep st s' rep' t'.
     demo_force Swarm [ask_for [handoff_call], ask_for [demo_call ''c2'' ''guarded'']]
       = (Inr (rep, Some st), s')
     \<and> demo_resume Swarm st [say ''done''] = (Inr (rep', None), t')
     \<and> (rep_status rep' = Completed \<or> rep_status rep' = Failed)"
proof -
  obtain rep st s' rep' t' where r: "demo_force Swarm [ask_for [handoff_call],
      ask_for [demo_call ''c2'' ''guarded'']] = (Inr (rep, Some st), s')"
    "demo_resume Swarm st [say ''done''] = (Inr (rep', None), t')"
    using force_run_resumes by blast
  from workforce_resume_outcome[OF demo_good_ids demo_limits demo_crew_ok
      demo_force_resumable[OF r(1)] r(2)[unfolded demo_resume_def]] r
  show ?thesis by auto
qed

text \<open>
  C14: Resuming continues the worker that paused: from a stored state every stage resumes first, with
  the stored worker state and the user's decision, a member of the workforce with the name of the
  worker that paused; it never takes another worker and never fails to find one.
\<close>

theorem workforce_resumes_paused_member:
  assumes "resumable crew limit st"
  shows "\<exists>ws m. dict_get (rs_payload st) ''worker_state'' = Some (PlState ws)
    \<and> belongs crew m \<and> mb_name m = rs_runner_name ws
    \<and> (\<forall>c d s. \<exists>k. workforce_aresume X run resume crew c st d s
         = ebind (resume m (resume_config c st (rt_events s))
                    (reload_state (x_text X) (x_resolves X) ws) d) k
             (s\<lparr>rt_totals := restore_totals (rt_totals s)
                  (stored_value (dict_get (rs_payload st) ''usage_totals''))\<rparr>))"
proof -
  from assms obtain ws m j where ws: "dict_get (rs_payload st) ''worker_state'' = Some (PlState ws)"
    and m: "waiting_member crew st ws = Some m" "belongs crew m" "rs_runner_name ws = mb_name m"
    and j: "dict_get (rs_payload st) ''root_job'' = Some (PlJob j)" "stage_stored crew st"
    by (auto simp: resumable_def)
  have "\<exists>k. workforce_aresume X run resume crew c st d s
      = ebind (resume m (resume_config c st (rt_events s)) (reload_state (x_text X) (x_resolves X) ws) d) k
          (s\<lparr>rt_totals := restore_totals (rt_totals s)
               (stored_value (dict_get (rs_payload st) ''usage_totals''))\<rparr>)" for c d s
  proof -
    have run: "workforce_aresume X run resume crew c st d s
        = aresume_stage X run resume crew (resume_config c st (rt_events s)) st
            (reload_state (x_text X) (x_resolves X) ws) d
            (s\<lparr>rt_totals := restore_totals (rt_totals s)
               (stored_value (dict_get (rs_payload st) ''usage_totals''))\<rparr>)"
      by (simp add: workforce_aresume_def ws ebind_def gets_def eseq_def modify_def)
    obtain k where k: "aresume_stage X run resume crew (resume_config c st (rt_events s)) st
          (reload_state (x_text X) (x_resolves X) ws) d
        = ebind (resume m (resume_config c st (rt_events s)) (reload_state (x_text X) (x_resolves X) ws) d) k"
      using resumes_at[OF m(1) j(2,1)] by blast
    show ?thesis unfolding run k by (rule exI[of _ k]) (rule refl)
  qed
  with ws m show ?thesis by auto
qed

theorem workforce_resumes_paused_member_witness:
  "\<exists>rep st s' ws m. demo_force Swarm [ask_for [handoff_call], ask_for [demo_call ''c2'' ''guarded'']]
       = (Inr (rep, Some st), s')
     \<and> dict_get (rs_payload st) ''worker_state'' = Some (PlState ws)
     \<and> belongs (demo_crew Swarm) m \<and> mb_name m = rs_runner_name ws"
proof -
  obtain rep st s' where r: "demo_force Swarm [ask_for [handoff_call],
      ask_for [demo_call ''c2'' ''guarded'']] = (Inr (rep, Some st), s')"
    using force_run_resumes by blast
  from workforce_resumes_paused_member[OF demo_force_resumable[OF r], of demo "member_arun demo"
      "member_aresume demo"] r
  show ?thesis by blast
qed

lemma swarm_rounds_end:
  "swarm_handoff_budget c - passed \<le> int n \<Longrightarrow>
   returns (swarm_rounds run crew c rid (Suc n) m j passed history out) (\<lambda>r. r \<noteq> None)"
proof (induction n arbitrary: m j passed history out)
  case 0
  then show ?case
    by (auto simp: Let_def intro!: result_rules split: prod.splits option.splits sum.splits if_splits)
next
  case (Suc n)
  then have "returns (swarm_rounds run crew c rid (Suc n) m' j' (passed + 1) h out')
      (\<lambda>r. r \<noteq> None)" for m' j' h out' by simp
  then show ?case
    unfolding swarm_rounds.simps(2)[of _ _ _ _ "Suc n"]
    by (auto simp del: swarm_rounds.simps simp: Let_def intro!: result_rules
        split: prod.splits option.splits sum.splits if_splits)
qed

text \<open>
  The swarm loop ends within the handoffs left plus one rounds, whatever the members do:
  every round that hands over uses up one of the \<open>max(1, min(max_iterations, max_tool_calls))\<close>
  handoffs of the run.
\<close>

lemma swarm_loop_terminates:
  "returns (swarm_rounds run crew c rid (nat (swarm_handoff_budget c - passed) + 1) m j passed history out)
     (\<lambda>r. r \<noteq> None)"
  unfolding Suc_eq_plus1[symmetric] by (rule swarm_rounds_end) simp

text \<open>
  C15: A handoff with the tool of \<open>transfer_to_agent_tool(agents)\<close> goes only to an agent of that list
  that is a member of the workforce; the next member gets no system message of the previous one,
  and a well-formed conversation in which the handoff call is answered.
\<close>

theorem handoff_stays_in_allowlist:
  assumes "crew_ok crew" "rep_pending rep = Some p"
    and "handoff_transition crew rep j m = Inr (Some (m', j'))"
    and "handoff_tool m j (tc_name (pa_tool_call p)) = Some (transfer_to_agent_tool base agents)"
    and "dict_get base ''properties'' = Some (PDict props)" "dict_get props ''agent_name'' = Some (PDict ans)"
    and "waits_for [tc_id (pa_tool_call p)] (rep_messages rep)" "tc_id (pa_tool_call p) \<noteq> []"
  shows "mb_name m' \<in> set agents \<and> belongs crew m' \<and> conversation_ok (initial_messages j')
    \<and> (\<forall>msg\<in>set (initial_messages j'). msg_role msg \<noteq> System)"
proof -
  from handoff_transition_Some[OF assms(3,1)] assms(2) transfer_tool_allows[OF assms(4-6)]
  have m': "mb_name m' \<in> set agents" "belongs crew m'"
    "initial_messages j' = handoff_messages rep (mb_name m') (tc_id (pa_tool_call p))" by auto
  with handoff_conversation[OF assms(7,8)] show ?thesis by (auto simp: handoff_messages_def)
qed

definition handoff_report :: report where
  "handoff_report = build_report ''run'' Paused None None PNone
     [mk_message System (CText ''be alpha''), mk_message User (CText ''hello''),
      (mk_message Assistant (CText []))\<lparr>msg_tool_calls := [handoff_call]\<rparr>]
     [handoff_call] [] []
     (Some \<lparr>pa_action_id = ''id'', pa_type = Handoff, pa_tool_call = handoff_call, pa_prompt = [],
            pa_options = [], pa_metadata = []\<rparr>) []"

theorem handoff_stays_in_allowlist_witness:
  "\<exists>j'. handoff_transition (demo_crew Swarm) handoff_report demo_job alpha = Inr (Some (beta, j'))
     \<and> conversation_ok (initial_messages j')"
proof -
  obtain j' where r: "handoff_transition (demo_crew Swarm) handoff_report demo_job alpha
      = Inr (Some (beta, j'))"
    by (simp add: handoff_report_def build_report_def handoff_call_def demo_call_def force_defs
        enum_names_def Let_def dict_get_or_def)
  have p: "rep_pending handoff_report = Some \<lparr>pa_action_id = ''id'', pa_type = Handoff,
      pa_tool_call = handoff_call, pa_prompt = [], pa_options = [], pa_metadata = []\<rparr>"
    by (simp add: handoff_report_def)
  have "conversation_ok (initial_messages j')"
    using handoff_stays_in_allowlist[OF demo_crew_ok p r, of handoff_base "[''beta'']"]
    by (simp add: handoff_tool_def toolbelt_resolve_def handoff_call_def demo_call_def
        handoff_echo_def handoff_base_def waits_for_def scan_step.simps handoff_report_def build_report_def)
  with r show ?thesis by blast
qed

lemma first_named_in_find:
  "first_named_in text ms = map_option mb_name (find (\<lambda>m. str_contains (mb_name m) text) ms)"
  by (induction ms) auto

lemma find_False: "find (\<lambda>_. False) xs = None"
  by (induction xs) auto

text \<open>
  The manager's answer selects a worker of the workforce: the one its structured decision
  names; otherwise the first worker, in the order of the list, whose name occurs in its text; the
  first worker of all when neither names one.
\<close>

lemma manager_selects_a_worker:
  fixes ms rep
  defines "m \<equiv> find_worker ms (Some (select_worker_name rep ms))"
  assumes "ms \<noteq> []" "distinct (map mb_name ms)"
  shows "m \<in> set ms \<and> (\<forall>n\<in>mb_name ` set ms. decision_worker (rep_data rep) = Some n \<longrightarrow> mb_name m = n)
    \<and> ((\<nexists>n. decision_worker (rep_data rep) = Some n \<and> n \<in> mb_name ` set ms) \<longrightarrow>
        m = (case find (\<lambda>m. truthy (rep_content rep) \<and>
                    str_contains (mb_name m) (or_str (rep_content rep) [])) ms of
               Some w \<Rightarrow> w | None \<Rightarrow> hd ms))"
proof -
  obtain w where w: "w \<in> set ms" "mb_name w = select_worker_name rep ms"
    using select_worker_registered[OF assms(2), of rep] by (metis imageE)
  with find_worker_named[OF assms(3), of w] have m: "m = w" by (simp add: m_def)
  have named: "w' = w" if "w' \<in> set ms" "mb_name w' = select_worker_name rep ms" for w'
    using that w assms(3) by (auto simp: distinct_map inj_on_def)
  let ?found = "case find (\<lambda>m. truthy (rep_content rep) \<and>
      str_contains (mb_name m) (or_str (rep_content rep) [])) ms of Some w \<Rightarrow> w | None \<Rightarrow> hd ms"
  have hd: "hd ms \<in> set ms" using assms(2) by simp
  have "select_worker_name rep ms = n" if "n \<in> mb_name ` set ms" "decision_worker (rep_data rep) = Some n" for n
    using that by (simp add: select_worker_name_def Let_def)
  moreover have "?found = w"
    if "\<nexists>n. decision_worker (rep_data rep) = Some n \<and> n \<in> mb_name ` set ms"
  proof (rule named)
    show "?found \<in> set ms" using hd by (auto simp: find_Some_iff split: option.split)
    show "mb_name ?found = select_worker_name rep ms"
      using that by (cases "truthy (rep_content rep)")
        (auto simp: select_worker_name_def Let_def first_named_in_find find_False split: option.splits)
  qed
  ultimately show ?thesis using w m by auto
qed

section \<open>Collaboration\<close>

text \<open>
  A collaboration that runs its workers concurrently never pauses: it does so only where no worker
  can call a tool, so no work done by the workers behind a paused one is thrown away and repeated.
\<close>

lemma parallel_collaboration_never_pauses:
  assumes "good_ids X" "validate_execution_limits c = None" "conversation_ok (initial_messages j)"
    and "can_parallelize_collaborate crew j"
    and "arun_collaborate_mode X (member_arun X) crew c j drain s = (Inr (rep, st), s')"
  shows "st = None"
  using returns_result[OF workers.collaborate_parallel_outcome[OF assms(1-4)]]
    assms(4,5) by (fastforce simp: arun_collaborate_mode_def)

definition toolless_job :: job where
  "toolless_job = demo_job\<lparr>job_tools_override := Some []\<rparr>"

lemma toolless_messages [simp]:
  "build_messages plain_text None toolless_job = [mk_message User (CText ''hello'')]"
  "job_tools_override toolless_job = Some []" "job_response_schema toolless_job = None"
  "job_initial_messages toolless_job = None"
  by (simp_all add: toolless_job_def build_messages_def system_message_def render_input_def)

lemma parallel_run_completes:
  "\<exists>rep s'. arun_collaborate_mode demo (member_arun demo) (demo_crew Collaborate) demo_config toolless_job
      None (demo_run [say ''one'', say ''two'']) = (Inr (rep, None), s')
     \<and> rep_content rep = Some (''[alpha] one'' @ nl @ nl @ ''[beta] two'')"
  by (simp add: arun_collaborate_mode_def can_parallelize_collaborate_def arun_collaborate_parallel_def
      finally_do_def parallel_outcomes_def schedule_def task_outcome_def reduce_reports_def
      default_reducer_def aggregate_reports_def scenario_defs force_defs upt_rec
      del: One_nat_def cong: run_weak_cong)

text \<open>The workers of a list ran one after the other, each with a report that did not fail.\<close>

inductive worked ::
  "('w, 'z) member_run \<Rightarrow> run_config \<Rightarrow> job \<Rightarrow> crew_member list \<Rightarrow> ('w, 'z) rt_scheme \<Rightarrow>
   (crew_member \<times> report) list \<Rightarrow> ('w, 'z) rt_scheme \<Rightarrow> bool"
  for run :: "('w, 'z) member_run" and c :: run_config and j :: job where
  worked_none: "worked run c j [] s [] s"
| worked_one: "run m c j s = (Inr (rep, None), s1) \<Longrightarrow> rep_status rep \<noteq> Failed \<Longrightarrow>
    worked run c j ms s1 reports s2 \<Longrightarrow> worked run c j (m # ms) s ((m, rep) # reports) s2"

lemma collaborate_from_worked:
  "worked run c j ms s reports s1 \<Longrightarrow>
   collaborate_from X run crew c rid j (ms @ later) before s
     = collaborate_from X run crew c rid j later (before @ reports) s1"
  by (induction arbitrary: before rule: worked.induct) (simp_all add: ebind_def)

text \<open>
  Outside the concurrent case the workers run one after the other and the first failure ends the
  collaboration: the later workers do not run, and the failed report holds the reports so far in
  worker order with the failed one last.
\<close>

lemma collaboration_stops_at_failure:
  assumes "\<not> can_parallelize_collaborate crew j" "wf_members crew = ms @ m # later"
    and "worked run c j ms s reports s1" "run m c j s1 = (Inr (rep, None), s2)"
    and "rep_status rep = Failed"
  shows "arun_collaborate_mode X run crew c j drain s
    = (Inr (aggregate_reports (reports @ [(m, rep)]) (cfg_run_id c) (config_events c s2) Failed, None), s2)"
  using collaborate_from_worked[OF assms(3), of X crew "cfg_run_id c" "m # later" "[]"] assms
  by (simp add: arun_collaborate_mode_def ebind_def aggregate_failed_def gets_def)

definition stub_run :: "(script, unit) member_run" where
  "stub_run m c j = ret (handoff_report\<lparr>rep_pending := None,
     rep_status := (if mb_name m = ''alpha'' then Completed else Failed)\<rparr>, None)"

section \<open>Reports\<close>

text \<open>
  After a handoff the messages of the workforce's report are those of the earlier workers alone:
  whatever conversation the last worker had, the merged report is the same.
\<close>

lemma swarm_report_omits_last_messages:
  assumes "history \<noteq> []"
  shows "merge_swarm_reports history (r\<lparr>rep_messages := ms\<rparr>) = merge_swarm_reports history r
    \<and> set (rep_messages (merge_swarm_reports history r)) \<subseteq> set (concat (map rep_messages history))"
proof -
  have "set (unique_messages ms seen) \<subseteq> set ms" for ms seen
    by (induction ms seen rule: unique_messages.induct) (auto simp: Let_def)
  from this[of "concat (map rep_messages history)" "[]"] assms show ?thesis
    by (simp add: merge_swarm_reports_def)
qed

lemma swarm_report_omits_last_messages_witness:
  "rep_messages (merge_swarm_reports [handoff_report]
     (handoff_report\<lparr>rep_messages := [mk_message User (CText ''answer'')]\<rparr>))
   = rep_messages (merge_swarm_reports [handoff_report] handoff_report)"
  using swarm_report_omits_last_messages[of "[handoff_report]"] by simp



section \<open>Construction\<close>

text \<open>
  C17: A workforce that is constructed has at least one worker, no two workers of one name and a
  manager whose name is its own, so every name leads to one member: the lookup of
  \<open>_worker_by_name\<close> finds a member exactly under its name.
\<close>

theorem workforce_construction:
  assumes "make_workforce ms mode name mg reducer = Inr crew"
    and "\<forall>m\<in>set ms. mb_name m \<noteq> []" "\<forall>g. mg = Some g \<longrightarrow> mb_name g \<noteq> []"
    and "\<forall>g. mg = Some g \<longrightarrow> (\<forall>m\<in>set ms. mb_ref m = mb_ref g \<longrightarrow> m = g)"
  shows "crew_ok crew \<and> wf_members crew = ms
    \<and> (\<forall>n m. swarm_worker crew (Some n) = Inr m \<longleftrightarrow> (m \<in> set ms \<or> mg = Some m) \<and> mb_name m = n)"
proof -
  note ok = make_workforce_ok[OF assms]
  have "wf_members crew = ms" "wf_manager crew = mg"
    using assms(1) by (auto simp: make_workforce_def split: if_splits option.splits)
  with ok swarm_worker_Inr[OF ok] show ?thesis by (simp add: belongs_def)
qed

theorem workforce_construction_witness:
  "\<exists>crew. make_workforce [alpha, beta] ''swarm'' None None None = Inr crew \<and> crew_ok crew"
proof -
  obtain crew where r: "make_workforce [alpha, beta] ''swarm'' None None None = Inr crew"
    by (simp add: make_workforce_def duplicate_names_def)
  from workforce_construction[OF r] r show ?thesis by auto
qed

end
