(* ===== verification/Run_Store.thy ===== *)
theory Run_Store
  imports Workforce_Helpers
begin

text \<open>
  The run stores of \<^verbatim>\<open>store/\<close>: the interface (\<^verbatim>\<open>base.py\<close>) as a record of operations, the
  in-memory store as two dictionaries, the SQLite store as two tables with their rows in rowid
  order.  A JSON column holds the value its text encodes, \<open>None\<close> is SQL's \<open>NULL\<close>; time stamps
  are numbers, which ISO 8601 texts of one time zone are ordered like.
\<close>

record run_record =
  rc_id :: string
  rc_status :: run_status
  rc_input :: pyval
  rc_output :: "string option"
  rc_output_json :: pyval
  rc_created :: int
  rc_updated :: int
  rc_state :: "run_state option"

text \<open>The operations a run store offers; the clock's reading is an argument.\<close>

record 'st store_ops =
  so_create :: "string \<Rightarrow> pyval \<Rightarrow> int \<Rightarrow> 'st \<Rightarrow> exc + 'st"
  so_update :: "string \<Rightarrow> run_status \<Rightarrow> string option \<Rightarrow> pyval \<Rightarrow> run_state option \<Rightarrow> int \<Rightarrow> 'st \<Rightarrow>
    exc + 'st"
  so_get :: "string \<Rightarrow> 'st \<Rightarrow> exc + run_record option"
  so_list :: "run_status option \<Rightarrow> int option \<Rightarrow> int \<Rightarrow> 'st \<Rightarrow> exc + run_record list"
  so_add_event :: "event \<Rightarrow> 'st \<Rightarrow> exc + 'st"
  so_events :: "string \<Rightarrow> 'st \<Rightarrow> exc + event list"

definition new_record :: "string \<Rightarrow> pyval \<Rightarrow> int \<Rightarrow> run_record" where
  "new_record rid v now =
     \<lparr>rc_id = rid, rc_status = Running, rc_input = v, rc_output = None, rc_output_json = PNone,
      rc_created = now, rc_updated = now, rc_state = None\<rparr>"

definition run_exists :: "string \<Rightarrow> exc" where
  "run_exists rid = ValueError (''Run '' @ [char_of (39::nat)] @ rid @ [char_of (39::nat)] @
     '' already exists'')"

definition check_page :: "int option \<Rightarrow> int \<Rightarrow> exc option" where
  "check_page limit offset =
     (if (case limit of Some n \<Rightarrow> n < 0 | None \<Rightarrow> False)
      then Some (ValueError ''limit must be non-negative'')
      else if offset < 0 then Some (ValueError ''offset must be non-negative'')
      else None)"

text \<open>\<open>xs[offset:][:limit]\<close>, and \<open>LIMIT\<close> \<open>OFFSET\<close> where \<open>-1\<close> is no limit.\<close>

definition page :: "int option \<Rightarrow> int \<Rightarrow> 'a list \<Rightarrow> 'a list" where
  "page limit offset xs =
     (case limit of Some n \<Rightarrow> take (nat n) (drop (nat offset) xs) | None \<Rightarrow> drop (nat offset) xs)"

section \<open>In memory\<close>

record mem_store =
  ms_runs :: "(string \<times> run_record) list"
  ms_events :: "(string \<times> event list) list"

definition mem_empty :: mem_store where
  "mem_empty = \<lparr>ms_runs = [], ms_events = []\<rparr>"

definition mem_create_run :: "string \<Rightarrow> pyval \<Rightarrow> int \<Rightarrow> mem_store \<Rightarrow> exc + mem_store" where
  "mem_create_run rid v now s =
     (if dict_has (ms_runs s) rid then Inl (run_exists rid)
      else Inr (s\<lparr>ms_runs := dict_set rid (new_record rid v now) (ms_runs s),
                  ms_events := dict_set rid [] (ms_events s)\<rparr>))"

definition mem_update_run ::
  "string \<Rightarrow> run_status \<Rightarrow> string option \<Rightarrow> pyval \<Rightarrow> run_state option \<Rightarrow> int \<Rightarrow> mem_store \<Rightarrow>
   exc + mem_store" where
  "mem_update_run rid status output json state now s =
     Inr (s\<lparr>ms_runs := dict_set rid
        (case dict_get (ms_runs s) rid of
           None \<Rightarrow>
             \<lparr>rc_id = rid, rc_status = status, rc_input = PNone, rc_output = output,
              rc_output_json = json, rc_created = now, rc_updated = now, rc_state = state\<rparr>
         | Some r \<Rightarrow>
             r\<lparr>rc_status := status, rc_output := output, rc_output_json := json,
               rc_updated := now, rc_state := state\<rparr>) (ms_runs s)\<rparr>)"

definition mem_get_run :: "string \<Rightarrow> mem_store \<Rightarrow> exc + run_record option" where
  "mem_get_run rid s = Inr (dict_get (ms_runs s) rid)"

text \<open>A descending sort in Python keeps the order of equal keys.\<close>

definition mem_list_runs ::
  "run_status option \<Rightarrow> int option \<Rightarrow> int \<Rightarrow> mem_store \<Rightarrow> exc + run_record list" where
  "mem_list_runs status limit offset s =
     (case check_page limit offset of
        Some e \<Rightarrow> Inl e
      | None \<Rightarrow>
          Inr (page limit offset (sort_key (\<lambda>r. - rc_created r)
            (filter (\<lambda>r. case status of None \<Rightarrow> True | Some x \<Rightarrow> rc_status r = x)
               (map snd (ms_runs s))))))"

definition mem_add_event :: "event \<Rightarrow> mem_store \<Rightarrow> exc + mem_store" where
  "mem_add_event e s =
     Inr (s\<lparr>ms_events := dict_set (ev_run_id e)
              (dict_get_or (ms_events s) (ev_run_id e) [] @ [e]) (ms_events s)\<rparr>)"

definition mem_get_events :: "string \<Rightarrow> mem_store \<Rightarrow> exc + event list" where
  "mem_get_events rid s = Inr (dict_get_or (ms_events s) rid [])"

definition mem_ops :: "mem_store store_ops" where
  "mem_ops = \<lparr>so_create = mem_create_run, so_update = mem_update_run, so_get = mem_get_run,
     so_list = mem_list_runs, so_add_event = mem_add_event, so_events = mem_get_events\<rparr>"

section \<open>SQLite\<close>

record run_row =
  rr_id :: string
  rr_status :: run_status
  rr_input :: "pyval option"
  rr_output :: "string option"
  rr_output_json :: "pyval option"
  rr_state :: "run_state option"
  rr_created :: int
  rr_updated :: int

record sql_store =
  sq_runs :: "run_row list"
  sq_events :: "event list"

definition sql_empty :: sql_store where
  "sql_empty = \<lparr>sq_runs = [], sq_events = []\<rparr>"

text \<open>\<open>_serialize\<close>: \<open>json.dumps\<close> raises on an opaque object.\<close>

definition sql_serialize :: "pyval \<Rightarrow> exc + pyval" where
  "sql_serialize v =
     (if is_json (to_json_value v) then Inr (to_json_value v)
      else Inl (TypeErr ''Object is not JSON serializable''))"

definition sql_column :: "pyval option \<Rightarrow> pyval" where
  "sql_column v = (case v of None \<Rightarrow> PNone | Some x \<Rightarrow> x)"

definition row_to_record ::
  "(run_state \<Rightarrow> run_state) \<Rightarrow> run_row \<Rightarrow> run_record" where
  "row_to_record load r =
     \<lparr>rc_id = rr_id r, rc_status = rr_status r, rc_input = sql_column (rr_input r),
      rc_output = rr_output r, rc_output_json = sql_column (rr_output_json r),
      rc_created = rr_created r, rc_updated = rr_updated r,
      rc_state = map_option load (rr_state r)\<rparr>"

definition sql_create_run :: "string \<Rightarrow> pyval \<Rightarrow> int \<Rightarrow> sql_store \<Rightarrow> exc + sql_store" where
  "sql_create_run rid v now s =
     (case sql_serialize v of
        Inl e \<Rightarrow> Inl e
      | Inr t \<Rightarrow>
          if \<exists>r\<in>set (sq_runs s). rr_id r = rid then Inl (run_exists rid)
          else Inr (s\<lparr>sq_runs := sq_runs s @
            [\<lparr>rr_id = rid, rr_status = Running, rr_input = Some t, rr_output = None,
              rr_output_json = None, rr_state = None, rr_created = now, rr_updated = now\<rparr>]\<rparr>))"

definition sql_update_run ::
  "string \<Rightarrow> run_status \<Rightarrow> string option \<Rightarrow> pyval \<Rightarrow> run_state option \<Rightarrow> int \<Rightarrow> sql_store \<Rightarrow>
   exc + sql_store" where
  "sql_update_run rid status output json state now s =
     (case (if json = PNone then Inr None else map_sum id Some (sql_serialize json)) of
        Inl e \<Rightarrow> Inl e
      | Inr t \<Rightarrow>
          Inr (s\<lparr>sq_runs := map (\<lambda>r. if rr_id r = rid
             then r\<lparr>rr_status := status, rr_output := output, rr_output_json := t,
                    rr_state := state, rr_updated := now\<rparr>
             else r) (sq_runs s)\<rparr>))"

definition sql_get_run ::
  "(run_state \<Rightarrow> run_state) \<Rightarrow> string \<Rightarrow> sql_store \<Rightarrow> exc + run_record option" where
  "sql_get_run load rid s =
     Inr (map_option (row_to_record load) (find (\<lambda>r. rr_id r = rid) (sq_runs s)))"

text \<open>\<open>ORDER BY created_at DESC, rowid DESC\<close>.\<close>

definition sql_list_runs ::
  "(run_state \<Rightarrow> run_state) \<Rightarrow> run_status option \<Rightarrow> int option \<Rightarrow> int \<Rightarrow> sql_store \<Rightarrow>
   exc + run_record list" where
  "sql_list_runs load status limit offset s =
     (case check_page limit offset of
        Some e \<Rightarrow> Inl e
      | None \<Rightarrow>
          Inr (map (row_to_record load)
            (page limit offset (sort_key (\<lambda>r. - rr_created r)
               (rev (filter (\<lambda>r. case status of None \<Rightarrow> True | Some x \<Rightarrow> rr_status r = x)
                       (sq_runs s)))))))"

text \<open>The event id is the primary key of the table.\<close>

definition sql_add_event :: "event \<Rightarrow> sql_store \<Rightarrow> exc + sql_store" where
  "sql_add_event e s =
     (case sql_serialize (PDict (ev_payload e)) of
        Inl x \<Rightarrow> Inl x
      | Inr t \<Rightarrow>
          if ev_id e \<in> ev_id ` set (sq_events s)
          then Inl (Exc ''IntegrityError'' ''UNIQUE constraint failed: events.id'')
          else Inr (s\<lparr>sq_events := sq_events s @ [e]\<rparr>))"

definition reload_event :: "event \<Rightarrow> event" where
  "reload_event e = e\<lparr>ev_payload := reload_dict (ev_payload e)\<rparr>"

text \<open>\<open>ORDER BY timestamp ASC, rowid ASC\<close>.\<close>

definition sql_get_events :: "string \<Rightarrow> sql_store \<Rightarrow> exc + event list" where
  "sql_get_events rid s =
     Inr (map reload_event (sort_key ev_time (filter (\<lambda>e. ev_run_id e = rid) (sq_events s))))"

definition sql_ops :: "(run_state \<Rightarrow> run_state) \<Rightarrow> sql_store store_ops" where
  "sql_ops load = \<lparr>so_create = sql_create_run, so_update = sql_update_run, so_get = sql_get_run load,
     so_list = sql_list_runs load, so_add_event = sql_add_event, so_events = sql_get_events\<rparr>"

end
