(* ===== verification/Run_Store_Laws.thy ===== *)
theory Run_Store_Laws
  imports Run_Store
begin

text \<open>
  What the desk relies on in a run store, as a locale interpreted on both stores, and the
  refinement between them: as long as the two are used in step (\<open>stores_agree\<close>) they give the
  same answers up to the JSON round trip of what SQLite stores.
\<close>

section \<open>Histories of calls\<close>

text \<open>The calls that change a store, and a history of calls; a call that raises changes nothing.\<close>

datatype store_call =
    CreateRun string pyval int
  | UpdateRun string run_status "string option" pyval "run_state option" int
  | AddEvent event

fun perform :: "'st store_ops \<Rightarrow> store_call \<Rightarrow> 'st \<Rightarrow> exc + 'st" where
  "perform ops (CreateRun rid v now) s = so_create ops rid v now s"
| "perform ops (UpdateRun rid st out json state now) s = so_update ops rid st out json state now s"
| "perform ops (AddEvent e) s = so_add_event ops e s"

definition performed :: "'st \<Rightarrow> exc + 'st \<Rightarrow> 'st" where
  "performed s r = (case r of Inl e \<Rightarrow> s | Inr s' \<Rightarrow> s')"

lemma performed_simps [simp]: "performed s (Inl e) = s" "performed s (Inr s') = s'"
  by (simp_all add: performed_def)

definition perform_all :: "'st store_ops \<Rightarrow> store_call list \<Rightarrow> 'st \<Rightarrow> 'st" where
  "perform_all ops cs s = foldl (\<lambda>s c. performed s (perform ops c s)) s cs"

section \<open>The contract\<close>

text \<open>\<open>view\<close> is the record a look-up returns, \<open>events_of\<close> the events, \<open>load\<close> what storing does to a
  run state.\<close>

locale run_store =
  fixes ops :: "'st store_ops"
    and inv :: "'st \<Rightarrow> bool"
    and view :: "'st \<Rightarrow> string \<Rightarrow> run_record option"
    and load :: "run_state \<Rightarrow> run_state"
  assumes get: "so_get ops rid s = Inr (view s rid)"
    and events_total: "\<exists>es. so_events ops rid s = Inr es"
    and create: "inv s \<Longrightarrow> so_create ops rid v now s = Inr s' \<Longrightarrow>
      inv s' \<and> view s rid = None \<and>
      (\<exists>r. view s' rid = Some r \<and> rc_status r = Running \<and> rc_state r = None) \<and>
      (\<forall>rid'. rid' \<noteq> rid \<longrightarrow> view s' rid' = view s rid')"
    and create_taken: "view s rid \<noteq> None \<Longrightarrow> \<exists>e. so_create ops rid v now s = Inl e"
    and update: "inv s \<Longrightarrow> view s rid = Some r \<Longrightarrow>
      so_update ops rid status output json state now s = Inr s' \<Longrightarrow>
      inv s' \<and>
      (\<exists>r'. view s' rid = Some r' \<and> rc_id r' = rid \<and> rc_status r' = status \<and> rc_output r' = output \<and>
         to_json_value (rc_output_json r') = to_json_value json \<and> rc_state r' = map_option load state \<and> rc_created r' = rc_created r \<and> rc_input r' = rc_input r) \<and>
      (\<forall>rid'. rid' \<noteq> rid \<longrightarrow> view s' rid' = view s rid')"
    and update_frame: "inv s \<Longrightarrow> so_update ops rid status output json state now s = Inr s' \<Longrightarrow>
      inv s' \<and> (\<forall>rid'. rid' \<noteq> rid \<longrightarrow> view s' rid' = view s rid')"
    and add_event: "inv s \<Longrightarrow> so_add_event ops e s = Inr s' \<Longrightarrow> inv s' \<and> view s' = view s"
begin

lemma created_then_taken:
  "inv s \<Longrightarrow> so_create ops rid v now s = Inr s' \<Longrightarrow> \<exists>e. so_create ops rid v' now' s' = Inl e"
  using create[of s rid v now s'] create_taken[of s' rid v' now'] by auto

text \<open>A run that was created keeps its creation time and input through every update.\<close>

lemma update_twice:
  assumes "inv s" "view s rid = Some r" "so_update ops rid st1 o1 j1 x1 t1 s = Inr s1"
    and "so_update ops rid st2 o2 j2 x2 t2 s1 = Inr s2"
  shows "\<exists>r'. view s2 rid = Some r' \<and> rc_status r' = st2 \<and> rc_state r' = map_option load x2
    \<and> rc_created r' = rc_created r \<and> rc_input r' = rc_input r"
proof -
  from update[OF assms(1-3)] obtain r1 where "inv s1" "view s1 rid = Some r1"
    "rc_created r1 = rc_created r" "rc_input r1 = rc_input r" by auto
  with update[OF this(1,2) assms(4)] show ?thesis by auto
qed

text \<open>Whatever is called afterwards, a run keeps its creation time and its input.\<close>

definition keeps_run :: "string \<Rightarrow> run_record \<Rightarrow> 'st \<Rightarrow> bool" where
  "keeps_run rid r s \<longleftrightarrow> inv s \<and>
     (\<exists>r'. view s rid = Some r' \<and> rc_created r' = rc_created r \<and> rc_input r' = rc_input r)"

lemma keeps_run_call: "keeps_run rid r s \<Longrightarrow> perform ops c s = Inr s' \<Longrightarrow> keeps_run rid r s'"
proof (cases c)
  case (CreateRun i v now)
  assume "keeps_run rid r s" "perform ops c s = Inr s'"
  with CreateRun create[of s i v now s'] show ?thesis
    by (cases "i = rid") (auto simp: keeps_run_def)
next
  case (UpdateRun i st out json state now)
  assume a: "keeps_run rid r s" "perform ops c s = Inr s'"
  then obtain r0 where r0: "inv s" "view s rid = Some r0" "rc_created r0 = rc_created r"
    "rc_input r0 = rc_input r" by (auto simp: keeps_run_def)
  from a UpdateRun have u: "so_update ops i st out json state now s = Inr s'" by simp
  show ?thesis
  proof (cases "i = rid")
    case True
    with update[of s rid r0 st out json state now s'] u r0 show ?thesis by (auto simp: keeps_run_def)
  next
    case False
    with update_frame[OF r0(1) u] r0 show ?thesis by (auto simp: keeps_run_def)
  qed
next
  case (AddEvent e)
  assume "keeps_run rid r s" "perform ops c s = Inr s'"
  with AddEvent add_event[of s e s'] show ?thesis by (auto simp: keeps_run_def)
qed

lemma keeps_run_calls: "keeps_run rid r s \<Longrightarrow> keeps_run rid r (perform_all ops cs s)"
  unfolding perform_all_def
proof (induction cs arbitrary: s)
  case (Cons c cs)
  then show ?case using keeps_run_call[of rid r s c] by (cases "perform ops c s") auto
qed simp

end

section \<open>In memory\<close>

definition mem_inv :: "mem_store \<Rightarrow> bool" where
  "mem_inv s \<longleftrightarrow> distinct (map fst (ms_runs s)) \<and> (\<forall>(i, r)\<in>set (ms_runs s). rc_id r = i)"

lemma mem_inv_get: "mem_inv s \<Longrightarrow> dict_get (ms_runs s) i = Some r \<Longrightarrow> rc_id r = i"
  by (auto simp: mem_inv_def dest: map_of_SomeD)

lemma set_dict_set: "set (dict_set k v d) \<subseteq> insert (k, v) (set d)"
  by (induction d) auto

lemma mem_inv_set:
  assumes "mem_inv s" "rc_id r = i"
  shows "mem_inv (s\<lparr>ms_runs := dict_set i r (ms_runs s)\<rparr>)"
  using assms set_dict_set[of i r "ms_runs s"]
  by (auto simp: mem_inv_def distinct_dict_set)

lemma mem_inv_events [simp]: "mem_inv (s\<lparr>ms_events := es\<rparr>) = mem_inv s"
  by (simp add: mem_inv_def)

interpretation mem: run_store mem_ops mem_inv "\<lambda>s. dict_get (ms_runs s)" "\<lambda>st. st"
proof (unfold_locales, goal_cases)
  case (3 s rid v now s')
  then show ?case
    using mem_inv_set[OF 3(1), of "new_record rid v now" rid]
    by (auto simp: mem_ops_def mem_create_run_def new_record_def split: if_splits)
next
  case (5 s rid r status out json state now s')
  then show ?case
    using mem_inv_get[OF 5(1,2)]
    by (auto simp: mem_ops_def mem_update_run_def option.map_ident intro!: mem_inv_set[OF 5(1)])
next
  case (6 s rid status out json state now s')
  then show ?case
    using mem_inv_get[OF 6(1), of rid]
    by (auto simp: mem_ops_def mem_update_run_def intro!: mem_inv_set[OF 6(1)] split: option.splits)
qed (auto simp: mem_ops_def mem_get_run_def mem_get_events_def mem_create_run_def mem_add_event_def)

section \<open>SQLite\<close>

definition sql_inv :: "sql_store \<Rightarrow> bool" where
  "sql_inv s \<longleftrightarrow> distinct (map rr_id (sq_runs s)) \<and> distinct (map ev_id (sq_events s))"

definition sql_view :: "(run_state \<Rightarrow> run_state) \<Rightarrow> sql_store \<Rightarrow> string \<Rightarrow> run_record option" where
  "sql_view load s rid = map_option (row_to_record load) (find (\<lambda>r. rr_id r = rid) (sq_runs s))"

lemma find_map_id:
  "(\<And>r. rr_id (f r) = rr_id r) \<Longrightarrow>
   find (\<lambda>r. rr_id r = i) (map f rs) = map_option f (find (\<lambda>r. rr_id r = i) rs)"
  by (induction rs) auto

lemma find_row_id: "find (\<lambda>r. rr_id r = i) rs = Some r \<Longrightarrow> rr_id r = i"
  by (auto simp: find_Some_iff)

lemma find_append: "find P (xs @ ys) = (case find P xs of Some x \<Rightarrow> Some x | None \<Rightarrow> find P ys)"
  by (induction xs) auto

definition sql_written where
  "sql_written rid status out t state now s = s\<lparr>sq_runs := map (\<lambda>r. if rr_id r = rid
     then r\<lparr>rr_status := status, rr_output := out, rr_output_json := t, rr_state := state,
            rr_updated := now\<rparr> else r) (sq_runs s)\<rparr>"

lemma sql_update_written:
  assumes "sql_update_run rid status out json state now s = Inr s'"
  obtains t where "s' = sql_written rid status out t state now s"
    "to_json_value (sql_column t) = to_json_value json"
  using assms by (auto simp: sql_update_run_def sql_written_def sql_serialize_def sql_column_def
      to_json_value_idem split: sum.splits if_splits)

lemma sql_written_inv [keeps]: "sql_inv s \<Longrightarrow> sql_inv (sql_written rid status out t state now s)"
proof -
  have "map rr_id (sq_runs (sql_written rid status out t state now s)) = map rr_id (sq_runs s)"
    "sq_events (sql_written rid status out t state now s) = sq_events s"
    by (auto simp: sql_written_def)
  then show "sql_inv s \<Longrightarrow> sql_inv (sql_written rid status out t state now s)"
    by (simp only: sql_inv_def)
qed

lemma sql_written_same:
  "find (\<lambda>r. rr_id r = rid) (sq_runs s) = Some row \<Longrightarrow>
   sql_view load (sql_written rid status out t state now s) rid = Some (row_to_record load
     (row\<lparr>rr_status := status, rr_output := out, rr_output_json := t, rr_state := state, rr_updated := now\<rparr>))"
  by (auto simp: sql_view_def sql_written_def find_map_id dest: find_row_id)

lemma sql_written_other:
  "rid' \<noteq> rid \<Longrightarrow> sql_view load (sql_written rid status out t state now s) rid' = sql_view load s rid'"
  by (auto simp: sql_view_def sql_written_def find_map_id comp_def option.map_comp
      intro!: map_option_cong dest: find_row_id)

interpretation sql: run_store "sql_ops load" sql_inv "sql_view load" load
  for load :: "run_state \<Rightarrow> run_state"
proof (unfold_locales, goal_cases)
  case (3 s rid v now s')
  then obtain t where t: "sql_serialize v = Inr t" "\<forall>r\<in>set (sq_runs s). rr_id r \<noteq> rid"
    "s' = s\<lparr>sq_runs := sq_runs s @ [\<lparr>rr_id = rid, rr_status = Running, rr_input = Some t,
       rr_output = None, rr_output_json = None, rr_state = None, rr_created = now, rr_updated = now\<rparr>]\<rparr>"
    by (auto simp: sql_ops_def sql_create_run_def split: sum.splits if_splits)
  then have "find (\<lambda>r. rr_id r = rid) (sq_runs s) = None" by (simp add: find_None_iff)
  with t 3(1) show ?case
    by (auto simp: sql_view_def sql_inv_def find_append row_to_record_def split: option.splits)
next
  case (4 s rid v now)
  then show ?case
    by (auto simp: sql_ops_def sql_create_run_def sql_view_def find_Some_iff split: sum.splits)
next
  case (5 s rid r status out json state now s')
  then obtain row t where row: "find (\<lambda>r. rr_id r = rid) (sq_runs s) = Some row" "r = row_to_record load row"
    and s': "s' = sql_written rid status out t state now s"
      "to_json_value (sql_column t) = to_json_value json"
    by (auto simp: sql_ops_def sql_view_def elim: sql_update_written)
  with 5(1) sql_written_inv sql_written_other sql_written_same[OF row(1)] find_row_id[OF row(1)]
  show ?case by (auto simp: row_to_record_def)
next
  case (6 s rid status out json state now s')
  then obtain t where "s' = sql_written rid status out t state now s"
    by (auto simp: sql_ops_def elim: sql_update_written)
  with 6(1) sql_written_inv sql_written_other show ?case by auto
qed (auto simp: sql_ops_def sql_get_run_def sql_view_def sql_get_events_def sql_add_event_def sql_inv_def
    fun_eq_iff split: sum.splits if_splits)

section \<open>Refinement\<close>

definition all_events :: "mem_store \<Rightarrow> event set" where
  "all_events m = (\<Union>es\<in>snd ` set (ms_events m). set es)"

text \<open>How the desk uses a store: JSON values, updates and events of runs that exist, events in the
  order of the clock with identifiers of their own.\<close>

fun call_ok :: "mem_store \<Rightarrow> store_call \<Rightarrow> bool" where
  "call_ok m (CreateRun rid v now) = is_json (to_json_value v)"
| "call_ok m (UpdateRun rid st out json state now) =
     (dict_has (ms_runs m) rid \<and> is_json (to_json_value json))"
| "call_ok m (AddEvent e) =
     (dict_has (ms_runs m) (ev_run_id e) \<and> is_json (to_json_value (PDict (ev_payload e))) \<and>
      (\<forall>x\<in>all_events m. ev_id x \<noteq> ev_id e \<and> ev_time x \<le> ev_time e))"

fun calls_ok :: "mem_store \<Rightarrow> store_call list \<Rightarrow> bool" where
  "calls_ok m [] = True"
| "calls_ok m (c # cs) \<longleftrightarrow> call_ok m c \<and>
     calls_ok (performed m (perform mem_ops c m)) cs"

definition loaded :: "(run_state \<Rightarrow> run_state) \<Rightarrow> run_record \<Rightarrow> run_record" where
  "loaded load r = r\<lparr>rc_input := to_json_value (rc_input r),
     rc_output_json := to_json_value (rc_output_json r), rc_state := map_option load (rc_state r)\<rparr>"

definition stores_agree :: "(run_state \<Rightarrow> run_state) \<Rightarrow> mem_store \<Rightarrow> sql_store \<Rightarrow> bool" where
  "stores_agree load m s \<longleftrightarrow> mem_inv m \<and>
     map rr_id (sq_runs s) = map fst (ms_runs m) \<and>
     map (row_to_record load) (sq_runs s) = map (\<lambda>x. loaded load (snd x)) (ms_runs m) \<and>
     (\<forall>rid. filter (\<lambda>e. ev_run_id e = rid) (sq_events s) = dict_get_or (ms_events m) rid []) \<and>
     fst ` set (ms_events m) \<subseteq> fst ` set (ms_runs m) \<and>
     sorted (map ev_time (sq_events s)) \<and> distinct (map fst (ms_events m)) \<and>
     set (sq_events s) = all_events m"

lemma stores_agree_empty: "stores_agree load mem_empty sql_empty"
  by (simp add: stores_agree_def mem_empty_def sql_empty_def mem_inv_def dict_get_or_def all_events_def)

lemma agree_find:
  assumes "stores_agree load m s"
  shows "map_option (row_to_record load) (find (\<lambda>r. rr_id r = rid) (sq_runs s))
    = map_option (loaded load) (dict_get (ms_runs m) rid)"
proof -
  have "map_option (row_to_record load) (find (\<lambda>r. rr_id r = rid) rs)
      = map_option (loaded load) (dict_get ds rid)"
    if "map rr_id rs = map fst ds" "map (row_to_record load) rs = map (\<lambda>x. loaded load (snd x)) ds" for rs ds
    using that by (induction rs arbitrary: ds) (auto simp: Cons_eq_map_conv)
  with assms show ?thesis by (simp add: stores_agree_def)
qed

lemma agree_rows:
  "map (row_to_record load) rs = map (\<lambda>x. loaded load (snd x)) ds \<Longrightarrow> map rr_id rs = map fst ds \<Longrightarrow>
   dict_get ds i = Some r0 \<Longrightarrow> distinct (map fst ds) \<Longrightarrow>
   (\<And>row r. row_to_record load row = loaded load r \<Longrightarrow> row_to_record load (f row) = loaded load (g r)) \<Longrightarrow>
   map (row_to_record load) (map (\<lambda>row. if rr_id row = i then f row else row) rs)
     = map (\<lambda>x. loaded load (snd x)) (dict_set i (g r0) ds)"
proof (induction rs arbitrary: ds)
  case (Cons row rs)
  then obtain d ds' where ds: "ds = d # ds'" "row_to_record load row = loaded load (snd d)" "rr_id row = fst d"
    "map (row_to_record load) rs = map (\<lambda>x. loaded load (snd x)) ds'" "map rr_id rs = map fst ds'"
    by (auto simp: Cons_eq_map_conv)
  show ?case
  proof (cases "fst d = i")
    case True
    with Cons.prems ds have "i \<notin> rr_id ` set rs" by (metis distinct.simps(2) list.simps(9) list.set_map)
    then have "map (\<lambda>row. if rr_id row = i then f row else row) rs = rs"
      by (intro map_idI) auto
    with True ds Cons.prems show ?thesis by (cases d) auto
  next
    case False
    with Cons.prems Cons.IH[OF ds(4,5)] ds show ?thesis by (cases d) auto
  qed
qed simp

lemma agree_ids: "stores_agree load m s \<Longrightarrow> (\<exists>r\<in>set (sq_runs s). rr_id r = i) \<longleftrightarrow> dict_has (ms_runs m) i"
proof -
  assume "stores_agree load m s"
  then have "map rr_id (sq_runs s) = map fst (ms_runs m)" by (simp add: stores_agree_def)
  then have "rr_id ` set (sq_runs s) = fst ` set (ms_runs m)" by (metis list.set_map)
  moreover have "(\<exists>r\<in>set (sq_runs s). rr_id r = i) \<longleftrightarrow> i \<in> rr_id ` set (sq_runs s)" by force
  ultimately show ?thesis by (simp add: map_of_eq_None_iff)
qed

lemma agree_create:
  assumes a: "stores_agree load m s" and v: "is_json (to_json_value v)"
  shows "case (mem_create_run i v now m, sql_create_run i v now s) of
      (Inr m', Inr s') \<Rightarrow> stores_agree load m' s' | (Inl e, Inl e') \<Rightarrow> e = e' | _ \<Rightarrow> False"
proof (cases "dict_has (ms_runs m) i")
  case True
  with agree_ids[OF a, of i] v show ?thesis
    by (simp add: mem_create_run_def sql_create_run_def sql_serialize_def)
next
  case False
  then have n: "dict_get (ms_runs m) i = None" "i \<notin> fst ` set (ms_runs m)" by (simp_all add: map_of_eq_None_iff)
  with a have e: "dict_get (ms_events m) i = None" by (auto simp: stores_agree_def map_of_eq_None_iff)
  have inv: "mem_inv (m\<lparr>ms_runs := dict_set i (new_record i v now) (ms_runs m)\<rparr>)"
    using a by (intro mem_inv_set) (simp_all add: stores_agree_def new_record_def)
  have all: "all_events (m\<lparr>ms_runs := r, ms_events := ms_events m @ [(i, [])]\<rparr>) = all_events m" for r
    by (simp add: all_events_def)
  have evs: "dict_get_or (ms_events m @ [(i, [])]) rid [] = dict_get_or (ms_events m) rid []" for rid
    using e by (cases "dict_get (ms_events m) rid") (auto simp: dict_get_or_def map_add_def)
  have keys: "i \<notin> fst ` set (ms_events m)" using e by (simp add: map_of_eq_None_iff)
  from a n e inv all evs keys False agree_ids[OF a, of i] v show ?thesis
    by (auto simp: mem_create_run_def sql_create_run_def sql_serialize_def stores_agree_def
        dict_set_fresh new_record_def row_to_record_def loaded_def sql_column_def)
qed

lemma agree_update:
  assumes a: "stores_agree load m s" and i: "dict_get (ms_runs m) i = Some r0"
    and v: "is_json (to_json_value json)"
  shows "\<exists>m' s'. mem_update_run i st out json state now m = Inr m' \<and>
    sql_update_run i st out json state now s = Inr s' \<and> stores_agree load m' s'"
proof -
  define g where "g = (\<lambda>r :: run_record. r\<lparr>rc_status := st, rc_output := out, rc_output_json := json, rc_updated := now,
    rc_state := state\<rparr>)"
  define t where "t = (if json = PNone then None else Some (to_json_value json))"
  define f where "f = (\<lambda>row :: run_row. row\<lparr>rr_status := st, rr_output := out, rr_output_json := t, rr_state := state,
    rr_updated := now\<rparr>)"
  have fg: "row_to_record load (f row) = loaded load (g r)" if "row_to_record load row = loaded load r" for row r
    using that by (cases r; cases row) (auto simp: f_def g_def t_def row_to_record_def loaded_def sql_column_def)
  have m': "mem_update_run i st out json state now m = Inr (m\<lparr>ms_runs := dict_set i (g r0) (ms_runs m)\<rparr>)"
    by (simp add: mem_update_run_def i g_def)
  have s': "sql_update_run i st out json state now s
      = Inr (s\<lparr>sq_runs := map (\<lambda>row. if rr_id row = i then f row else row) (sq_runs s)\<rparr>)"
    using v by (auto simp: sql_update_run_def sql_serialize_def f_def t_def)
  have ids: "map rr_id (map (\<lambda>row. if rr_id row = i then f row else row) (sq_runs s)) = map rr_id (sq_runs s)"
    by (auto simp: f_def)
  have rows: "map (row_to_record load) (map (\<lambda>row. if rr_id row = i then f row else row) (sq_runs s))
      = map (\<lambda>x. loaded load (snd x)) (dict_set i (g r0) (ms_runs m))"
    by (rule agree_rows[OF _ _ i _ fg]) (use a in \<open>simp_all add: stores_agree_def mem_inv_def\<close>)
  have keys: "map fst (dict_set i (g r0) (ms_runs m)) = map fst (ms_runs m)"
    by (rule keys_dict_set_present[OF i])
  have inv: "mem_inv (m\<lparr>ms_runs := dict_set i (g r0) (ms_runs m)\<rparr>)"
    using a mem_inv_get[of m, OF _ i] by (intro mem_inv_set) (simp_all add: stores_agree_def g_def)
  have ev: "fst ` set (dict_set i (g r0) (ms_runs m)) = fst ` set (ms_runs m)"
    using keys by (metis list.set_map)
  have "stores_agree load (m\<lparr>ms_runs := dict_set i (g r0) (ms_runs m)\<rparr>)
      (s\<lparr>sq_runs := map (\<lambda>row. if rr_id row = i then f row else row) (sq_runs s)\<rparr>)"
    using a inv ids rows keys ev unfolding stores_agree_def all_events_def by simp
  with m' s' show ?thesis by blast
qed

lemma events_dict_set:
  "distinct (map fst d) \<Longrightarrow>
   (\<Union>es\<in>snd ` set (dict_set k (dict_get_or d k [] @ [e]) d). set es) = insert e (\<Union>es\<in>snd ` set d. set es)"
proof (induction d)
  case (Cons x d)
  then have "dict_get d (fst x) = None" by (simp add: map_of_eq_None_iff)
  with Cons show ?case by (cases x) (auto simp: dict_get_or_def)
qed (simp add: dict_get_or_def)

lemma agree_event:
  assumes a: "stores_agree load m s" and c: "call_ok m (AddEvent e)"
  shows "\<exists>m' s'. mem_add_event e m = Inr m' \<and> sql_add_event e s = Inr s' \<and> stores_agree load m' s'"
proof -
  let ?i = "ev_run_id e"
  let ?es = "dict_set ?i (dict_get_or (ms_events m) ?i [] @ [e]) (ms_events m)"
  have evs: "set (sq_events s) = all_events m" and d: "distinct (map fst (ms_events m))"
    using a by (simp_all add: stores_agree_def)
  have fresh: "ev_id e \<notin> ev_id ` set (sq_events s)" using c evs by auto
  have all: "all_events (m\<lparr>ms_events := ?es\<rparr>) = insert e (all_events m)"
    using events_dict_set[OF d] by (simp add: all_events_def)
  have sorted: "sorted (map ev_time (sq_events s @ [e]))"
    using a c evs by (auto simp: stores_agree_def sorted_append)
  have i: "?i \<in> fst ` set (ms_runs m)" using c by (simp add: map_of_eq_None_iff)
  have sub: "fst ` set ?es \<subseteq> insert ?i (fst ` set (ms_events m))"
    using image_mono[OF set_dict_set[of ?i "dict_get_or (ms_events m) ?i [] @ [e]" "ms_events m"], of fst]
    by simp
  have old: "fst ` set (ms_events m) \<subseteq> fst ` set (ms_runs m)" using a by (simp add: stores_agree_def)
  have keys: "fst ` set ?es \<subseteq> fst ` set (ms_runs m)"
    by (rule subset_trans[OF sub]) (rule insert_subsetI[OF i old])
  have "stores_agree load (m\<lparr>ms_events := ?es\<rparr>) (s\<lparr>sq_events := sq_events s @ [e]\<rparr>)"
    using a all sorted keys evs distinct_dict_set[OF d] by (simp add: stores_agree_def)
  moreover have "sql_add_event e s = Inr (s\<lparr>sq_events := sq_events s @ [e]\<rparr>)"
    using c fresh by (auto simp: sql_add_event_def sql_serialize_def)
  ultimately show ?thesis by (simp add: mem_add_event_def)
qed

lemma agree_call:
  assumes "stores_agree load m s" "call_ok m c"
  shows "stores_agree load (performed m (perform mem_ops c m))
    (performed s (perform (sql_ops load) c s))
    \<and> (\<forall>e. perform mem_ops c m = Inl e \<longleftrightarrow> perform (sql_ops load) c s = Inl e)"
proof (cases c)
  case (CreateRun rid v now)
  with assms agree_create[OF assms(1), of v rid now] show ?thesis
    by (auto simp: mem_ops_def sql_ops_def split: sum.splits)
next
  case (UpdateRun rid st out json state now)
  with assms obtain r0 where "dict_get (ms_runs m) rid = Some r0" by auto
  with agree_update[OF assms(1) this, of json st out state now] assms UpdateRun show ?thesis
    by (auto simp: mem_ops_def sql_ops_def)
next
  case (AddEvent e)
  with agree_event[OF assms(1), of e] assms(2) show ?thesis by (auto simp: mem_ops_def sql_ops_def)
qed

lemma agree_calls:
  "stores_agree load m s \<Longrightarrow> calls_ok m cs \<Longrightarrow>
   stores_agree load (perform_all mem_ops cs m) (perform_all (sql_ops load) cs s)"
  unfolding perform_all_def
proof (induction cs arbitrary: m s)
  case (Cons c cs)
  from Cons.prems agree_call[OF Cons.prems(1), of c] Cons.IH show ?case by simp
qed simp

section \<open>What the stores answer\<close>

lemma sort_key_rev: "distinct (map f xs) \<Longrightarrow> sort_key f (rev xs) = sort_key f xs"
  by (rule sort_key_inj_key_eq) (auto simp: distinct_map)

lemma page_map: "page limit offset (map g xs) = map g (page limit offset xs)"
  by (simp add: page_def take_map drop_map split: option.split)

lemma agree_list:
  assumes a: "stores_agree load m s" and d: "distinct (map (\<lambda>r. rc_created (snd r)) (ms_runs m))"
    and p: "check_page limit offset = None"
  shows "sql_list_runs load st limit offset s = map_sum id (map (loaded load)) (mem_list_runs st limit offset m)"
proof -
  let ?k = "\<lambda>r. case st of None \<Rightarrow> True | Some x \<Rightarrow> rc_status r = x"
  have rows: "map (row_to_record load) (sq_runs s) = map (loaded load) (map snd (ms_runs m))"
    using a by (simp add: stores_agree_def comp_def)
  have created: "rc_created (loaded load r) = rc_created r" "rc_status (loaded load r) = rc_status r" for r
    by (simp_all add: loaded_def)
  have row: "rr_created r = rc_created (row_to_record load r)" "rr_status r = rc_status (row_to_record load r)" for r
    by (simp_all add: row_to_record_def)
  have dist: "distinct (map (\<lambda>r. - rc_created r) (filter ?k (map snd (ms_runs m))))"
  proof -
    have "distinct (map rc_created (map snd (ms_runs m)))" using d by (simp add: comp_def)
    then have "distinct (map rc_created (filter ?k (map snd (ms_runs m))))" by (rule distinct_map_filter)
    then show ?thesis by (simp add: distinct_map inj_on_def)
  qed
  have "map (row_to_record load) (sort_key (\<lambda>r. - rr_created r) (rev (filter (\<lambda>r. case st of None \<Rightarrow> True
        | Some x \<Rightarrow> rr_status r = x) (sq_runs s))))
      = sort_key (\<lambda>r. - rc_created r) (rev (filter ?k (map (row_to_record load) (sq_runs s))))"
    unfolding row by (simp add: filter_map comp_def rev_map sort_key_map cong: option.case_cong)
  also have "\<dots> = map (loaded load) (sort_key (\<lambda>r. - rc_created r) (rev (filter ?k (map snd (ms_runs m)))))"
    unfolding rows
    by (simp add: filter_map comp_def rev_map sort_key_map created cong: option.case_cong)
  also have "sort_key (\<lambda>r. - rc_created r) (rev (filter ?k (map snd (ms_runs m))))
      = sort_key (\<lambda>r. - rc_created r) (filter ?k (map snd (ms_runs m)))"
    by (rule sort_key_rev[OF dist])
  finally show ?thesis
    using p by (simp add: sql_list_runs_def mem_list_runs_def page_map[symmetric])
qed

lemma agree_events:
  assumes "stores_agree load m s"
  shows "sql_get_events rid s = map_sum id (map reload_event) (mem_get_events rid m)"
proof -
  have "sorted (map ev_time (filter (\<lambda>e. ev_run_id e = rid) (sq_events s)))"
    using assms by (intro sorted_filter) (simp add: stores_agree_def)
  then have "sort_key ev_time (filter (\<lambda>e. ev_run_id e = rid) (sq_events s))
      = filter (\<lambda>e. ev_run_id e = rid) (sq_events s)" by (rule sort_key_id_if_sorted)
  with assms show ?thesis by (simp add: sql_get_events_def mem_get_events_def stores_agree_def)
qed

lemma agree_get:
  assumes "stores_agree load m s"
  shows "sql_get_run load rid s = map_sum id (map_option (loaded load)) (mem_get_run rid m)"
  using agree_find[OF assms] by (simp add: sql_get_run_def mem_get_run_def)

end
