(* ===== verification/Channel.thy ===== *)
theory Channel
  imports Core_Types "HOL-Library.Multiset"
begin

text \<open>
  The message channel between workers (\<^verbatim>\<open>collaboration/channel.py\<close>): direct messages by
  recipient, one list of broadcasts and for every recipient how many of them it has received.
  Values are copied on the way in and out (\<open>deepcopy\<close>), so messages are values here.  The
  identifier and the time stamp of a new message are arguments.
\<close>

record channel_message =
  cm_id :: string
  cm_sender :: string
  cm_recipient :: "string option"
  cm_content :: pyval
  cm_time :: int
  cm_metadata :: "pyval dict"

record channel =
  ch_messages :: "(string \<times> channel_message list) list"
  ch_broadcast :: "channel_message list"
  ch_positions :: "(string \<times> nat) list"

definition channel_init :: channel where
  "channel_init = \<lparr>ch_messages = [], ch_broadcast = [], ch_positions = []\<rparr>"

definition make_channel_message ::
  "string \<Rightarrow> int \<Rightarrow> string \<Rightarrow> string option \<Rightarrow> pyval \<Rightarrow> pyval dict option \<Rightarrow> channel_message" where
  "make_channel_message i now sender recipient v metadata =
     \<lparr>cm_id = i, cm_sender = sender, cm_recipient = recipient, cm_content = v, cm_time = now,
      cm_metadata = (case metadata of Some d \<Rightarrow> d | None \<Rightarrow> [])\<rparr>"

definition channel_send ::
  "string \<Rightarrow> int \<Rightarrow> string \<Rightarrow> string \<Rightarrow> pyval \<Rightarrow> pyval dict option \<Rightarrow> channel \<Rightarrow>
   channel_message \<times> channel" where
  "channel_send i now sender recipient v metadata ch =
     (let m = make_channel_message i now sender (Some recipient) v metadata
      in (m, ch\<lparr>ch_messages := dict_set recipient
                   (dict_get_or (ch_messages ch) recipient [] @ [m]) (ch_messages ch)\<rparr>))"

definition channel_broadcast ::
  "string \<Rightarrow> int \<Rightarrow> string \<Rightarrow> pyval \<Rightarrow> pyval dict option \<Rightarrow> channel \<Rightarrow> channel_message \<times> channel" where
  "channel_broadcast i now sender v metadata ch =
     (let m = make_channel_message i now sender None v metadata
      in (m, ch\<lparr>ch_broadcast := ch_broadcast ch @ [m]\<rparr>))"

definition mode_error :: exc where
  "mode_error = ValueError (''broadcast_mode must be '' @ [char_of (39::nat)] @ ''one_shot'' @
     [char_of (39::nat)] @ '' or '' @ [char_of (39::nat)] @ ''all'' @ [char_of (39::nat)])"

definition channel_receive ::
  "string \<Rightarrow> bool \<Rightarrow> string \<Rightarrow> channel \<Rightarrow> exc + channel_message list \<times> channel" where
  "channel_receive recipient clear mode ch =
     (if mode \<noteq> ''one_shot'' \<and> mode \<noteq> ''all'' then Inl mode_error
      else
        let direct = dict_get_or (ch_messages ch) recipient [];
            ch1 = (if clear then ch\<lparr>ch_messages := dict_set recipient [] (ch_messages ch)\<rparr> else ch);
            start = dict_get_or (ch_positions ch) recipient 0;
            broadcasts = (if mode = ''one_shot'' then drop start (ch_broadcast ch)
                          else ch_broadcast ch);
            ch2 = (if mode = ''one_shot'' \<and> clear
                   then ch1\<lparr>ch_positions := dict_set recipient (length (ch_broadcast ch))
                               (ch_positions ch1)\<rparr>
                   else ch1)
        in Inr (sort_key cm_time (direct @ broadcasts), ch2))"

definition channel_peek :: "string \<Rightarrow> channel \<Rightarrow> exc + channel_message list \<times> channel" where
  "channel_peek recipient ch = channel_receive recipient False ''one_shot'' ch"

definition channel_clear :: "string option \<Rightarrow> channel \<Rightarrow> channel" where
  "channel_clear recipient ch =
     (case recipient of
        None \<Rightarrow> ch\<lparr>ch_messages := [], ch_broadcast := [], ch_positions := []\<rparr>
      | Some r \<Rightarrow>
          ch\<lparr>ch_messages := dict_set r [] (ch_messages ch),
             ch_positions := dict_set r (length (ch_broadcast ch)) (ch_positions ch)\<rparr>)"

definition channel_all_messages :: "channel \<Rightarrow> channel_message list" where
  "channel_all_messages ch =
     sort_key cm_time (concat (map snd (ch_messages ch)) @ ch_broadcast ch)"

section \<open>Laws\<close>

text \<open>What a recipient has not received yet.\<close>

definition undelivered :: "string \<Rightarrow> channel \<Rightarrow> channel_message list" where
  "undelivered r ch = dict_get_or (ch_messages ch) r [] @
     drop (dict_get_or (ch_positions ch) r 0) (ch_broadcast ch)"

definition channel_ok :: "channel \<Rightarrow> bool" where
  "channel_ok ch \<longleftrightarrow> (\<forall>r. dict_get_or (ch_positions ch) r 0 \<le> length (ch_broadcast ch))"

lemma channel_init_ok [keeps]: "channel_ok channel_init" "undelivered r channel_init = []"
  by (simp_all add: channel_ok_def channel_init_def undelivered_def dict_get_or_def)

lemma channel_send_ok [keeps]: "channel_ok ch \<Longrightarrow> channel_ok (snd (channel_send i now s r v md ch))"
  by (simp add: channel_ok_def channel_send_def Let_def)

lemma channel_broadcast_ok [keeps]:
  "channel_ok ch \<Longrightarrow> channel_ok (snd (channel_broadcast i now s v md ch))"
  by (auto simp: channel_ok_def channel_broadcast_def le_SucI Let_def)

lemma channel_receive_ok [keeps]:
  "channel_ok ch \<Longrightarrow> channel_receive r b mode ch = Inr (ms, ch') \<Longrightarrow> channel_ok ch'"
  by (auto simp: channel_ok_def channel_receive_def Let_def split: if_splits)

lemma channel_clear_ok [keeps]: "channel_ok ch \<Longrightarrow> channel_ok (channel_clear r ch)"
  by (auto simp: channel_ok_def channel_clear_def dict_get_or_def split: option.split)

lemma undelivered_send:
  "mset (undelivered r (snd (channel_send i now s to v md ch)))
     = mset (undelivered r ch)
       + (if to = r then {#make_channel_message i now s (Some to) v md#} else {#})"
  by (simp add: undelivered_def channel_send_def Let_def)

lemma undelivered_broadcast:
  "channel_ok ch \<Longrightarrow> undelivered r (snd (channel_broadcast i now s v md ch))
     = undelivered r ch @ [make_channel_message i now s None v md]"
  by (simp add: undelivered_def channel_broadcast_def channel_ok_def Let_def)

lemma receive_one_shot:
  "channel_receive r True ''one_shot'' ch = Inr (ms, ch') \<Longrightarrow>
   mset ms = mset (undelivered r ch) \<and> undelivered r ch' = [] \<and>
   (r' \<noteq> r \<longrightarrow> undelivered r' ch' = undelivered r' ch)"
  by (auto simp: channel_receive_def undelivered_def Let_def)

lemma receive_other:
  "channel_receive r b mode ch = Inr (ms, ch') \<Longrightarrow> r' \<noteq> r \<Longrightarrow> undelivered r' ch' = undelivered r' ch"
  by (auto simp: channel_receive_def undelivered_def Let_def split: if_splits)

lemma receive_peek: "channel_receive r False mode ch = Inr (ms, ch') \<Longrightarrow> ch' = ch"
  by (auto simp: channel_receive_def Let_def split: if_splits)

section \<open>Histories\<close>

text \<open>
  A channel used by any number of workers, seen from the recipient \<open>r\<close>, who empties it in the
  default mode: \<open>sent\<close> is what was addressed to \<open>r\<close> or broadcast, \<open>got\<close> what \<open>r\<close> received.
\<close>

inductive history ::
  "string \<Rightarrow> channel \<Rightarrow> channel_message list \<Rightarrow> channel_message list \<Rightarrow> bool" for r :: string where
  start: "history r channel_init [] []"
| sending: "history r ch sent got \<Longrightarrow> channel_send i now s to v md ch = (m, ch') \<Longrightarrow>
    history r ch' (if to = r then sent @ [m] else sent) got"
| casting: "history r ch sent got \<Longrightarrow> channel_broadcast i now s v md ch = (m, ch') \<Longrightarrow>
    history r ch' (sent @ [m]) got"
| receiving: "history r ch sent got \<Longrightarrow> channel_receive r True ''one_shot'' ch = Inr (ms, ch') \<Longrightarrow>
    history r ch' sent (got @ ms)"
| peeking: "history r ch sent got \<Longrightarrow> channel_receive r False mode ch = Inr (ms, ch') \<Longrightarrow>
    history r ch' sent got"
| others: "history r ch sent got \<Longrightarrow> r' \<noteq> r \<Longrightarrow> channel_receive r' b mode ch = Inr (ms, ch') \<Longrightarrow>
    history r ch' sent got"

inductive_cases history_startE: "history r channel_init sent got"

lemma history_balance:
  "history r ch sent got \<Longrightarrow> channel_ok ch \<and> mset got + mset (undelivered r ch) = mset sent"
proof (induction rule: history.induct)
  case (sending ch sent got i now s to v md m ch')
  then have "ch' = snd (channel_send i now s to v md ch)" "m = make_channel_message i now s (Some to) v md"
    by (auto simp: channel_send_def Let_def)
  with sending undelivered_send[of r i now s to v md ch] channel_send_ok show ?case by auto
next
  case (casting ch sent got i now s v md m ch')
  then have "ch' = snd (channel_broadcast i now s v md ch)" "m = make_channel_message i now s None v md"
    by (auto simp: channel_broadcast_def Let_def)
  with casting undelivered_broadcast[of ch r i now s v md] channel_broadcast_ok show ?case by auto
next
  case (receiving ch sent got ms ch')
  with receive_one_shot[OF receiving(2)] channel_receive_ok show ?case by auto
next
  case (peeking ch sent got mode ms ch')
  with receive_peek show ?case by blast
next
  case (others ch sent got r' b mode ms ch')
  with receive_other[OF others(3), of r] channel_receive_ok show ?case by auto
qed (simp_all add: keeps)

end
