(* ===== verification/Blackboard.thy ===== *)
theory Blackboard
  imports Core_Types Effects
begin

text \<open>
  The shared blackboard (\<^verbatim>\<open>collaboration/blackboard.py\<close>): entries by key, the subscribers
  of a key and the global ones.  A callback is a number; what it does when called is an argument
  (\<open>call\<close>), an effect on the whole state, since it runs outside the lock and may use the board
  itself.  Values are copied on the way in and out, so they are values here.
\<close>

record board_entry =
  be_key :: string
  be_value :: pyval
  be_author :: string
  be_created :: int
  be_updated :: int

record board =
  bb_data :: "(string \<times> board_entry) list"
  bb_subscribers :: "(string \<times> nat list) list"
  bb_global :: "nat list"

type_synonym 'z board_call = "nat \<Rightarrow> string \<Rightarrow> pyval \<Rightarrow> string \<Rightarrow> ('z board_scheme, unit) eff"

definition board_init :: board where
  "board_init = \<lparr>bb_data = [], bb_subscribers = [], bb_global = []\<rparr>"

text \<open>What \<open>write\<close> does under the lock.\<close>

definition board_entry_for :: "string \<Rightarrow> pyval \<Rightarrow> string \<Rightarrow> int \<Rightarrow> board_entry option \<Rightarrow> board_entry" where
  "board_entry_for k v author now old =
     (case old of
        Some e \<Rightarrow> \<lparr>be_key = k, be_value = v, be_author = author, be_created = be_created e,
                   be_updated = now\<rparr>
      | None \<Rightarrow> \<lparr>be_key = k, be_value = v, be_author = author, be_created = now, be_updated = now\<rparr>)"

definition board_put :: "string \<Rightarrow> pyval \<Rightarrow> string \<Rightarrow> int \<Rightarrow> 'z board_scheme \<Rightarrow> 'z board_scheme" where
  "board_put k v author now b =
     b\<lparr>bb_data := dict_set k (board_entry_for k v author now (dict_get (bb_data b) k)) (bb_data b)\<rparr>"

definition board_write ::
  "'z board_call \<Rightarrow> string \<Rightarrow> pyval \<Rightarrow> string \<Rightarrow> int \<Rightarrow> ('z board_scheme, unit) eff" where
  "board_write call k v author now =
     eseq (modify (board_put k v author now))
    (ebind (gets (\<lambda>b. (dict_get_or (bb_subscribers b) k [], bb_global b))) (\<lambda>(callbacks, global).
     eseq (each (\<lambda>h. call h k v author) callbacks)
          (each (\<lambda>h. call h k v author) global)))"

definition board_read :: "string \<Rightarrow> 'z board_scheme \<Rightarrow> pyval" where
  "board_read k b = (case dict_get (bb_data b) k of Some e \<Rightarrow> be_value e | None \<Rightarrow> PNone)"

definition board_read_entry :: "string \<Rightarrow> 'z board_scheme \<Rightarrow> board_entry option" where
  "board_read_entry k b = dict_get (bb_data b) k"

definition board_exists :: "string \<Rightarrow> 'z board_scheme \<Rightarrow> bool" where
  "board_exists k b \<longleftrightarrow> dict_has (bb_data b) k"

definition board_delete :: "string \<Rightarrow> 'z board_scheme \<Rightarrow> bool \<times> 'z board_scheme" where
  "board_delete k b =
     (if dict_has (bb_data b) k then (True, b\<lparr>bb_data := dict_pop k (bb_data b)\<rparr>) else (False, b))"

definition board_keys :: "'z board_scheme \<Rightarrow> string list" where
  "board_keys b = map fst (bb_data b)"

definition board_all_entries :: "'z board_scheme \<Rightarrow> (string \<times> board_entry) list" where
  "board_all_entries b = bb_data b"

definition board_subscribe :: "string \<Rightarrow> nat \<Rightarrow> 'z board_scheme \<Rightarrow> 'z board_scheme" where
  "board_subscribe k h b =
     b\<lparr>bb_subscribers := dict_set k (dict_get_or (bb_subscribers b) k [] @ [h]) (bb_subscribers b)\<rparr>"

definition board_subscribe_all :: "nat \<Rightarrow> 'z board_scheme \<Rightarrow> 'z board_scheme" where
  "board_subscribe_all h b = b\<lparr>bb_global := bb_global b @ [h]\<rparr>"

definition board_unsubscribe_all :: "nat \<Rightarrow> 'z board_scheme \<Rightarrow> 'z board_scheme" where
  "board_unsubscribe_all h b = b\<lparr>bb_global := filter (\<lambda>r. r \<noteq> h) (bb_global b)\<rparr>"

definition board_unsubscribe :: "string \<Rightarrow> nat \<Rightarrow> 'z board_scheme \<Rightarrow> 'z board_scheme" where
  "board_unsubscribe k h b =
     (case dict_get (bb_subscribers b) k of
        None \<Rightarrow> b
      | Some hs \<Rightarrow>
          b\<lparr>bb_subscribers := dict_set k (filter (\<lambda>cb. cb \<noteq> h) hs) (bb_subscribers b)\<rparr>)"

definition board_clear :: "'z board_scheme \<Rightarrow> 'z board_scheme" where
  "board_clear b = b\<lparr>bb_data := []\<rparr>"

section \<open>Histories\<close>

text \<open>The calls that change the entries, oldest first, and how the board answers them; a write whose
  callback raises has stored its value.\<close>

datatype board_op =
    BWrite string pyval string int
  | BDelete string
  | BClear

fun board_do :: "'z board_call \<Rightarrow> board_op \<Rightarrow> 'z board_scheme \<Rightarrow> 'z board_scheme" where
  "board_do call (BWrite k v author now) b = snd (board_write call k v author now b)"
| "board_do call (BDelete k) b = snd (board_delete k b)"
| "board_do call BClear b = board_clear b"

definition board_history :: "'z board_call \<Rightarrow> board_op list \<Rightarrow> 'z board_scheme \<Rightarrow> 'z board_scheme" where
  "board_history call ops b = foldl (\<lambda>b x. board_do call x b) b ops"

text \<open>What a key holds after a history, read off the history: the writes of the key after the last
  call that removed it, latest first.\<close>

fun removes :: "string \<Rightarrow> board_op \<Rightarrow> bool" where
  "removes k (BDelete k') = (k' = k)"
| "removes k BClear = True"
| "removes k (BWrite k' v a t) = False"

fun writes_key :: "string \<Rightarrow> board_op \<Rightarrow> bool" where
  "writes_key k (BWrite k' v a t) = (k' = k)"
| "writes_key k _ = False"

definition live_writes :: "string \<Rightarrow> board_op list \<Rightarrow> board_op list" where
  "live_writes k ops = filter (writes_key k) (takeWhile (\<lambda>x. \<not> removes k x) (rev ops))"

fun written_entry :: "board_op \<Rightarrow> board_op \<Rightarrow> board_entry option" where
  "written_entry (BWrite k v a t) (BWrite k' v' a' t') =
     Some \<lparr>be_key = k, be_value = v, be_author = a, be_created = t', be_updated = t\<rparr>"
| "written_entry _ _ = None"

definition promised_entry :: "string \<Rightarrow> board_op list \<Rightarrow> board_entry option" where
  "promised_entry k ops =
     (case live_writes k ops of [] \<Rightarrow> None | w # ws \<Rightarrow> written_entry w (last (w # ws)))"

text \<open>Callbacks that leave the entries alone.\<close>

definition quiet :: "'z board_call \<Rightarrow> bool" where
  "quiet call \<longleftrightarrow> (\<forall>h k v a b. bb_data (snd (call h k v a b)) = bb_data b)"

lemma each_data:
  "(\<And>x b. bb_data (snd (f x b)) = bb_data b) \<Longrightarrow> bb_data (snd (each f xs b)) = bb_data b"
proof (induction xs arbitrary: b)
  case (Cons x xs)
  from Cons.prems[of x b] Cons.IH[OF Cons.prems] show ?case
    by (auto simp: eseq_def ebind_def split: prod.splits sum.splits)
qed (simp add: ret_def)

lemma write_data:
  assumes "quiet call"
  shows "bb_data (snd (board_write call k v a t b)) = bb_data (board_put k v a t b)"
proof -
  have q: "bb_data (snd (each (\<lambda>h. call h k v a) hs b)) = bb_data b" for hs b
    using assms by (intro each_data) (simp add: quiet_def)
  have "bb_data (snd (eseq (each (\<lambda>h. call h k v a) hs) (each (\<lambda>h. call h k v a) gs) b)) = bb_data b"
    for hs gs b
    using q[of hs b] by (cases "each (\<lambda>h. call h k v a) hs b")
      (auto simp: eseq_def ebind_def q split: sum.splits)
  then show ?thesis by (simp add: board_write_def eseq_def ebind_def modify_def gets_def)
qed

lemma live_writes_snoc:
  "live_writes k (ops @ [x]) = (if removes k x then [] else if writes_key k x
     then x # live_writes k ops else live_writes k ops)"
  by (cases "removes k x"; cases "writes_key k x") (simp_all add: live_writes_def)

lemma live_writes_all: "x \<in> set (live_writes k ops) \<Longrightarrow> writes_key k x"
  by (simp add: live_writes_def)

lemma promised_write:
  "promised_entry k (ops @ [BWrite k v a t]) = Some (board_entry_for k v a t (promised_entry k ops))"
proof (cases "live_writes k ops")
  case Nil
  then show ?thesis by (simp add: promised_entry_def live_writes_snoc board_entry_for_def)
next
  case (Cons w ws)
  then have all: "writes_key k x" if "x \<in> set (w # ws)" for x
    using that live_writes_all[of x k ops] by simp
  have "writes_key k w" by (rule all) simp
  moreover have "writes_key k (last (w # ws))" by (rule all, rule last_in_set) simp
  ultimately obtain v1 a1 t1 v2 a2 t2 where "w = BWrite k v1 a1 t1" "last (w # ws) = BWrite k v2 a2 t2"
    by (cases w; cases "last (w # ws)") auto
  with Cons show ?thesis by (simp add: promised_entry_def live_writes_snoc board_entry_for_def)
qed

lemma board_history_entry:
  assumes "quiet call" "bb_data b0 = []"
  shows "board_read_entry k (board_history call ops b0) = promised_entry k ops"
  unfolding board_history_def
proof (induction ops rule: rev_induct)
  case (snoc x ops)
  let ?b = "foldl (\<lambda>b x. board_do call x b) b0 ops"
  show ?case
  proof (cases x)
    case (BWrite k' v a t)
    with snoc write_data[OF assms(1), of k' v a t ?b] promised_write[of k ops v a t] show ?thesis
      by (cases "k' = k") (auto simp: board_read_entry_def board_put_def promised_entry_def live_writes_snoc)
  qed (use snoc in \<open>auto simp: board_read_entry_def board_delete_def board_clear_def promised_entry_def
    live_writes_snoc\<close>)
qed (simp add: board_read_entry_def assms(2) promised_entry_def live_writes_def)

end
