(* ===== verification/Collaboration_Tools.thy ===== *)
theory Collaboration_Tools
  imports Channel Blackboard
begin

text \<open>
  The functions behind the channel and blackboard tools (\<^verbatim>\<open>collaboration/tools.py\<close>): what
  the tool's caller gets and the channel or board it leaves.  \<open>stamp\<close> prints a time stamp.
\<close>

definition channel_send_tool ::
  "string \<Rightarrow> string \<Rightarrow> int \<Rightarrow> string \<Rightarrow> pyval \<Rightarrow> pyval dict option \<Rightarrow> channel \<Rightarrow> string \<times> channel" where
  "channel_send_tool sender i now recipient v metadata ch =
     (let (m, ch') = channel_send i now sender recipient v metadata ch in (cm_id m, ch'))"

definition channel_broadcast_tool ::
  "string \<Rightarrow> string \<Rightarrow> int \<Rightarrow> pyval \<Rightarrow> pyval dict option \<Rightarrow> channel \<Rightarrow> string \<times> channel" where
  "channel_broadcast_tool sender i now v metadata ch =
     (let (m, ch') = channel_broadcast i now sender v metadata ch in (cm_id m, ch'))"

definition message_row :: "(int \<Rightarrow> string) \<Rightarrow> channel_message \<Rightarrow> pyval" where
  "message_row stamp m = PDict
     [(''id'', PStr (cm_id m)), (''sender'', PStr (cm_sender m)),
      (''recipient'', (case cm_recipient m of Some r \<Rightarrow> PStr r | None \<Rightarrow> PNone)),
      (''content'', cm_content m), (''timestamp'', PStr (stamp (cm_time m))),
      (''metadata'', PDict (cm_metadata m))]"

definition channel_receive_tool ::
  "(int \<Rightarrow> string) \<Rightarrow> string \<Rightarrow> string \<Rightarrow> bool \<Rightarrow> channel \<Rightarrow> exc + pyval \<times> channel" where
  "channel_receive_tool stamp recipient mode clear ch =
     map_sum id (\<lambda>(ms, ch'). (PList (map (message_row stamp) ms), ch'))
       (channel_receive recipient clear mode ch)"

definition blackboard_write_tool ::
  "'z board_call \<Rightarrow> string \<Rightarrow> int \<Rightarrow> string \<Rightarrow> pyval \<Rightarrow> ('z board_scheme, string) eff" where
  "blackboard_write_tool call author now k v = eseq (board_write call k v author now) (ret k)"

definition blackboard_read_tool :: "string \<Rightarrow> 'z board_scheme \<Rightarrow> pyval" where
  "blackboard_read_tool k b = board_read k b"

end
