(* ===== verification/Event_Bus.thy ===== *)
theory Event_Bus
  imports Core_Types Effects "HOL-Library.Multiset"
begin

text \<open>
  The event bus (\<^verbatim>\<open>event_bus.py\<close>): handlers by event type, the tasks of asynchronous
  handlers that are under way, and the errors of handlers.  A handler and an awaitable it returns
  are numbers; what they do is an argument (\<open>handler_env\<close>), an effect on the whole state, since a
  handler may use the bus.  A task runs when the loop gets to it, which is a step of its own.
  \<open>CancelledError\<close> is the one exception class \<open>except Exception\<close> does not catch; further
  \<open>BaseException\<close>s are not modelled.
\<close>

datatype returned = Plain | Awaits nat

record bus_task =
  bt_id :: nat
  bt_awaits :: nat
  bt_type :: "string option"

record bus =
  eb_handlers :: "(string \<times> nat list) list"
  eb_pending :: "bus_task list"
  eb_errors :: "(string \<times> exc) list"
  eb_next :: nat

record 'z handler_env =
  hd_call :: "nat \<Rightarrow> event \<Rightarrow> ('z bus_scheme, returned) eff"
  hd_await :: "nat \<Rightarrow> ('z bus_scheme, unit) eff"

definition is_cancelled :: "exc \<Rightarrow> bool" where
  "is_cancelled e \<longleftrightarrow> exc_class e = ''CancelledError''"

definition bus_subscribe :: "string \<Rightarrow> nat \<Rightarrow> 'z bus_scheme \<Rightarrow> 'z bus_scheme" where
  "bus_subscribe ty h b =
     b\<lparr>eb_handlers := dict_set ty (dict_get_or (eb_handlers b) ty [] @ [h]) (eb_handlers b)\<rparr>"

definition bus_unsubscribe :: "string \<Rightarrow> nat \<Rightarrow> 'z bus_scheme \<Rightarrow> 'z bus_scheme" where
  "bus_unsubscribe ty h b =
     (case dict_get (eb_handlers b) ty of
        None \<Rightarrow> b
      | Some hs \<Rightarrow>
          let hs' = filter (\<lambda>r. r \<noteq> h) hs
          in b\<lparr>eb_handlers := (if hs' = [] then dict_pop ty (eb_handlers b)
                                else dict_set ty hs' (eb_handlers b))\<rparr>)"

text \<open>The handlers an event is given to: those of its type, then those of every type.\<close>

definition handlers_for :: "string \<Rightarrow> 'z bus_scheme \<Rightarrow> nat list" where
  "handlers_for ty b = dict_get_or (eb_handlers b) ty [] @ dict_get_or (eb_handlers b) ''*'' []"

definition record_error :: "string option \<Rightarrow> exc \<Rightarrow> ('z bus_scheme, unit) eff" where
  "record_error ty e = modify (\<lambda>b. b\<lparr>eb_errors := eb_errors b @ [(or_str ty ''unknown'', e)]\<rparr>)"

definition track_task :: "nat \<Rightarrow> string option \<Rightarrow> ('z bus_scheme, unit) eff" where
  "track_task a ty = modify (\<lambda>b. b\<lparr>eb_pending := eb_pending b @
     [\<lparr>bt_id = eb_next b, bt_awaits = a, bt_type = ty\<rparr>], eb_next := Suc (eb_next b)\<rparr>)"

text \<open>With a running loop (\<open>running\<close>) the awaitable becomes a task; without one it is run to its end
  at once, and a cancelled one is dropped.\<close>

definition run_async ::
  "'z handler_env \<Rightarrow> bool \<Rightarrow> nat \<Rightarrow> string option \<Rightarrow> ('z bus_scheme, unit) eff" where
  "run_async H running a ty =
     (if running then track_task a ty
      else try_with (hd_await H a) (\<lambda>e. if is_cancelled e then ret () else record_error ty e))"

definition emit_one ::
  "'z handler_env \<Rightarrow> bool \<Rightarrow> event \<Rightarrow> nat \<Rightarrow> ('z bus_scheme, unit) eff" where
  "emit_one H running e h =
     ebind (attempt (hd_call H h e)) (\<lambda>r.
     case r of
       Inl x \<Rightarrow> if is_cancelled x then raise x
                else record_error (Some (event_type_str (ev_type e))) x
     | Inr Plain \<Rightarrow> ret ()
     | Inr (Awaits a) \<Rightarrow> run_async H running a (Some (event_type_str (ev_type e))))"

definition bus_emit :: "'z handler_env \<Rightarrow> bool \<Rightarrow> event \<Rightarrow> ('z bus_scheme, unit) eff" where
  "bus_emit H running e =
     ebind (gets (handlers_for (event_type_str (ev_type e)))) (\<lambda>hs. each (emit_one H running e) hs)"

definition aemit_one :: "'z handler_env \<Rightarrow> event \<Rightarrow> nat \<Rightarrow> ('z bus_scheme, unit) eff" where
  "aemit_one H e h =
     try_with
       (ebind (hd_call H h e) (\<lambda>r. case r of Plain \<Rightarrow> ret () | Awaits a \<Rightarrow> hd_await H a))
       (\<lambda>x. if is_cancelled x then raise x
            else record_error (Some (event_type_str (ev_type e))) x)"

definition bus_aemit :: "'z handler_env \<Rightarrow> event \<Rightarrow> ('z bus_scheme, unit) eff" where
  "bus_aemit H e =
     ebind (gets (handlers_for (event_type_str (ev_type e)))) (\<lambda>hs. each (aemit_one H e) hs)"

text \<open>\<open>_handle_task\<close>: a task that is done leaves the pending ones, its exception is recorded.\<close>

definition handle_task :: "bus_task \<Rightarrow> exc + unit \<Rightarrow> ('z bus_scheme, unit) eff" where
  "handle_task t r =
     eseq (modify (\<lambda>b. b\<lparr>eb_pending := filter (\<lambda>x. bt_id x \<noteq> bt_id t) (eb_pending b)\<rparr>))
       (case r of
          Inr _ \<Rightarrow> ret ()
        | Inl e \<Rightarrow> if is_cancelled e then ret () else record_error (bt_type t) e)"

definition finish_task :: "'z handler_env \<Rightarrow> bus_task \<Rightarrow> ('z bus_scheme, unit) eff" where
  "finish_task H t = ebind (attempt (hd_await H (bt_awaits t))) (handle_task t)"

definition bus_get_errors :: "'z bus_scheme \<Rightarrow> (string \<times> exc) list" where
  "bus_get_errors b = eb_errors b"

definition bus_clear_errors :: "'z bus_scheme \<Rightarrow> 'z bus_scheme" where
  "bus_clear_errors b = b\<lparr>eb_errors := []\<rparr>"

text \<open>\<open>await_pending\<close>: rounds of \<open>gather\<close> over the tasks that are pending at the start of the round,
  in the order \<open>order\<close> the loop runs them; \<open>None\<close> when the rounds do not end.\<close>

fun drain_rounds ::
  "'z handler_env \<Rightarrow> (bus_task list \<Rightarrow> bus_task list) \<Rightarrow> nat \<Rightarrow> 'z bus_scheme \<Rightarrow> 'z bus_scheme option" where
  "drain_rounds H order 0 b = (if eb_pending b = [] then Some b else None)"
| "drain_rounds H order (Suc n) b =
     (if eb_pending b = [] then Some b
      else drain_rounds H order n (snd (each (finish_task H) (order (eb_pending b)) b)))"

definition await_pending ::
  "'z handler_env \<Rightarrow> (bus_task list \<Rightarrow> bus_task list) \<Rightarrow> bool \<Rightarrow> nat \<Rightarrow> 'z bus_scheme \<Rightarrow>
   ((string \<times> exc) + (string \<times> exc) list) option \<times> 'z bus_scheme" where
  "await_pending H order raise_on_error n b =
     (case drain_rounds H order n b of
        None \<Rightarrow> (None, b)
      | Some b' \<Rightarrow>
          (Some (if raise_on_error \<and> eb_errors b' \<noteq> [] then Inl (hd (eb_errors b'))
                 else Inr (bus_get_errors b')), b'))"

section \<open>Laws\<close>

text \<open>Handlers that are not cancelled while they run, which is all \<open>emit\<close> needs to return.\<close>

definition uncancelled :: "'z handler_env \<Rightarrow> bool" where
  "uncancelled H \<longleftrightarrow> (\<forall>h e b x. fst (hd_call H h e b) = Inl x \<longrightarrow> \<not> is_cancelled x)"

lemma emit_one_returns: "uncancelled H \<Longrightarrow> \<exists>b'. emit_one H running e h b = (Inr (), b')"
  by (auto simp: emit_one_def ebind_def attempt_def uncancelled_def run_async_def record_error_def
      track_task_def modify_def try_with_def ret_def split: prod.split sum.split returned.split)
    (metis fst_conv)

lemma each_returns:
  "(\<And>x b. \<exists>b'. f x b = (Inr (), b')) \<Longrightarrow> \<exists>b'. each f xs b = (Inr (), b')"
proof (induction xs arbitrary: b)
  case (Cons x xs)
  from Cons.prems[of x b] obtain b1 where "f x b = (Inr (), b1)" by auto
  with Cons.IH[OF Cons.prems, of b1] show ?case by (auto simp: eseq_def ebind_def)
qed (simp add: ret_def)

text \<open>
  Handlers that do their work beside the bus: the outcome of a handler and of an awaitable is fixed
  (\<open>res\<close>, \<open>aw\<close>), what they do to the rest of the state is \<open>act\<close> and \<open>wait\<close>.
\<close>

definition beside_bus ::
  "'z handler_env \<Rightarrow> event \<Rightarrow> (nat \<Rightarrow> exc + returned) \<Rightarrow> (nat \<Rightarrow> 'z \<Rightarrow> 'z) \<Rightarrow> (nat \<Rightarrow> exc + unit) \<Rightarrow>
   (nat \<Rightarrow> 'z \<Rightarrow> 'z) \<Rightarrow> bool" where
  "beside_bus H e res act aw wait \<longleftrightarrow>
     (\<forall>h b. hd_call H h e b = (res h, bus.more_update (act h) b)) \<and>
     (\<forall>a b. hd_await H a b = (aw a, bus.more_update (wait a) b)) \<and>
     (\<forall>h x. res h = Inl x \<longrightarrow> \<not> is_cancelled x)"

definition raised :: "string \<Rightarrow> (nat \<Rightarrow> exc + 'a) \<Rightarrow> nat \<Rightarrow> (string \<times> exc) list" where
  "raised ty res h = (case res h of Inl x \<Rightarrow> [(ty, x)] | Inr _ \<Rightarrow> [])"

definition awaited :: "(nat \<Rightarrow> exc + returned) \<Rightarrow> nat \<Rightarrow> nat list" where
  "awaited res h = (case res h of Inr (Awaits a) \<Rightarrow> [a] | _ \<Rightarrow> [])"

definition bus_ids :: "'z bus_scheme \<Rightarrow> bool" where
  "bus_ids b \<longleftrightarrow> distinct (map bt_id (eb_pending b)) \<and> (\<forall>t\<in>set (eb_pending b). bt_id t < eb_next b)"

definition new_tasks :: "string \<Rightarrow> nat list \<Rightarrow> nat \<Rightarrow> bus_task list" where
  "new_tasks ty as n =
     map (\<lambda>i. \<lparr>bt_id = n + i, bt_awaits = as ! i, bt_type = Some ty\<rparr>) [0..<length as]"

lemma new_tasks_Nil [simp]: "new_tasks ty [] n = []"
  by (simp add: new_tasks_def)

lemma new_tasks_Cons: "new_tasks ty (a # as) n
    = \<lparr>bt_id = n, bt_awaits = a, bt_type = Some ty\<rparr> # new_tasks ty as (Suc n)"
  by (simp add: new_tasks_def upt_conv_Cons del: upt_Suc)
    (simp add: map_Suc_upt[symmetric] comp_def del: upt_Suc)

text \<open>What \<open>emit\<close> leaves, handler by handler.\<close>

definition emitted ::
  "string \<Rightarrow> (nat \<Rightarrow> exc + returned) \<Rightarrow> (nat \<Rightarrow> 'z \<Rightarrow> 'z) \<Rightarrow> nat list \<Rightarrow> 'z bus_scheme \<Rightarrow> 'z bus_scheme" where
  "emitted ty res act hs b =
     b\<lparr>eb_errors := eb_errors b @ concat (map (raised ty res) hs),
       eb_pending := eb_pending b @ new_tasks ty (concat (map (awaited res) hs)) (eb_next b),
       eb_next := eb_next b + length (concat (map (awaited res) hs)),
       bus.more := fold act hs (bus.more b)\<rparr>"

lemma emit_each:
  assumes "beside_bus H e res act aw wait" "event_type_str (ev_type e) = ty" "ty \<noteq> []"
  shows "each (emit_one H True e) hs b = (Inr (), emitted ty res act hs b)"
proof (induction hs arbitrary: b)
  case (Cons h hs)
  have "emit_one H True e h b = (Inr (), emitted ty res act [h] b)"
    using assms by (auto simp: beside_bus_def emit_one_def ebind_def attempt_def run_async_def
        record_error_def track_task_def modify_def ret_def emitted_def raised_def awaited_def
        new_tasks_Cons split: sum.split returned.split)
  moreover have "emitted ty res act hs (emitted ty res act [h] b) = emitted ty res act (h # hs) b"
    by (cases "res h") (auto simp: emitted_def raised_def awaited_def new_tasks_Cons split: returned.split)
  ultimately show ?case using Cons by (simp add: eseq_def ebind_def)
qed (simp add: emitted_def ret_def)

section \<open>Draining\<close>

definition task_error :: "(nat \<Rightarrow> exc + unit) \<Rightarrow> bus_task \<Rightarrow> (string \<times> exc) list" where
  "task_error aw t =
     (case aw (bt_awaits t) of
        Inr _ \<Rightarrow> []
      | Inl x \<Rightarrow> if is_cancelled x then [] else [(or_str (bt_type t) ''unknown'', x)])"

definition finished ::
  "(nat \<Rightarrow> exc + unit) \<Rightarrow> (nat \<Rightarrow> 'z \<Rightarrow> 'z) \<Rightarrow> bus_task list \<Rightarrow> 'z bus_scheme \<Rightarrow> 'z bus_scheme" where
  "finished aw wait ts b =
     b\<lparr>eb_pending := filter (\<lambda>x. bt_id x \<notin> bt_id ` set ts) (eb_pending b),
       eb_errors := eb_errors b @ concat (map (task_error aw) ts),
       bus.more := fold (\<lambda>t. wait (bt_awaits t)) ts (bus.more b)\<rparr>"

lemma finish_each:
  assumes "beside_bus H e res act aw wait"
  shows "each (finish_task H) ts b = (Inr (), finished aw wait ts b)"
proof (induction ts arbitrary: b)
  case (Cons t ts)
  have "finish_task H t b = (Inr (), finished aw wait [t] b)"
    using assms by (auto simp: beside_bus_def finish_task_def handle_task_def ebind_def eseq_def
        attempt_def record_error_def modify_def ret_def finished_def task_error_def
        split: sum.split)
  moreover have "finished aw wait ts (finished aw wait [t] b) = finished aw wait (t # ts) b"
    by (simp add: finished_def conj_commute)
  ultimately show ?case using Cons by (simp add: eseq_def ebind_def)
qed (simp add: finished_def ret_def)

lemma drained_in_one_round:
  assumes "beside_bus H e res act aw wait" "mset (order (eb_pending b)) = mset (eb_pending b)"
  shows "drain_rounds H order (Suc n) b = Some (finished aw wait (order (eb_pending b)) b)"
proof -
  have same: "set (order (eb_pending b)) = set (eb_pending b)" using assms(2) by (metis set_mset_mset)
  then have none: "eb_pending (finished aw wait (order (eb_pending b)) b) = []"
    by (simp add: finished_def filter_empty_conv)
  show ?thesis
  proof (cases "eb_pending b = []")
    case True
    with same have "order [] = []" by simp
    with True show ?thesis by (simp add: finished_def)
  next
    case False
    with none finish_each[OF assms(1)] show ?thesis by (cases n) simp_all
  qed
qed

end
