(* ===== verification/Support_Properties.thy ===== *)
theory Support_Properties
  imports Run_Store_Laws Collaboration_Tools Event_Bus
begin

text \<open>
  The properties of the parts around a run: the run stores, the channel, the blackboard and the
  event bus.
\<close>

section \<open>Run stores\<close>

text \<open>
  C18: The SQLite run store refines the in-memory store: after any calls the desk makes (runs that
  exist are updated, events in clock order with fresh identifiers, JSON payloads) both return the
  same record for every run and the same events, up to the JSON round trip of what SQLite stores,
  and list the same pages when no two runs were created at the same instant.
\<close>

theorem stores_refine:
  assumes "calls_ok mem_empty cs" and "m = perform_all mem_ops cs mem_empty"
    and "s = perform_all (sql_ops load) cs sql_empty"
  shows "sql_get_run load rid s = map_sum id (map_option (loaded load)) (mem_get_run rid m)
    \<and> sql_get_events rid s = map_sum id (map reload_event) (mem_get_events rid m)
    \<and> (distinct (map (\<lambda>r. rc_created (snd r)) (ms_runs m)) \<longrightarrow>
        sql_list_runs load st limit offset s
          = map_sum id (map (loaded load)) (mem_list_runs st limit offset m))"
proof -
  have a: "stores_agree load m s"
    using agree_calls[OF stores_agree_empty assms(1)] assms(2,3) by simp
  show ?thesis
  proof (intro conjI impI)
    assume d: "distinct (map (\<lambda>r. rc_created (snd r)) (ms_runs m))"
    show "sql_list_runs load st limit offset s
        = map_sum id (map (loaded load)) (mem_list_runs st limit offset m)"
      using agree_list[OF a d, of limit offset st]
      by (cases "check_page limit offset") (simp_all add: sql_list_runs_def mem_list_runs_def)
  qed (simp_all add: agree_get[OF a] agree_events[OF a])
qed

definition demo_calls :: "store_call list" where
  "demo_calls =
     [CreateRun ''r1'' (PStr ''hi'') 5, CreateRun ''r2'' (PInt 3) 6,
      AddEvent \<lparr>ev_id = ''e1'', ev_type = RunStarted, ev_time = 6, ev_run_id = ''r1'',
                ev_source = ''desk'', ev_payload = []\<rparr>,
      UpdateRun ''r1'' Completed (Some ''done'') PNone None 7]"

lemma demo_calls_ok: "calls_ok mem_empty demo_calls"
  by (simp add: demo_calls_def mem_empty_def mem_ops_def mem_create_run_def mem_add_event_def
      dict_get_or_def all_events_def)

theorem stores_refine_witness:
  "sql_get_run id ''r1'' (perform_all (sql_ops id) demo_calls sql_empty)
     = map_sum id (map_option (loaded id)) (mem_get_run ''r1'' (perform_all mem_ops demo_calls mem_empty))"
  using stores_refine[OF demo_calls_ok refl refl, of id "''r1''"] by blast

text \<open>
  C19: In both stores a run that was created keeps its input and its creation time whatever is
  called afterwards, and its identifier stays taken.
\<close>

theorem run_keeps_creation:
  assumes "mem_inv m" "mem_create_run rid v now m = Inr m'"
    and "sql_inv s" "sql_create_run rid v now s = Inr s'"
  shows "(\<exists>r. dict_get (ms_runs (perform_all mem_ops cs m')) rid = Some r \<and> rc_input r = v \<and> rc_created r = now)
    \<and> (\<exists>r. sql_view load (perform_all (sql_ops load) cs s') rid = Some r
          \<and> rc_input r = to_json_value v \<and> rc_created r = now)
    \<and> (\<exists>e. mem_create_run rid v2 now2 (perform_all mem_ops cs m') = Inl e)
    \<and> (\<exists>e. sql_create_run rid v2 now2 (perform_all (sql_ops load) cs s') = Inl e)"
proof -
  have m: "mem_inv m'" using mem.create[of m rid v now m'] assms(1,2) by (simp add: mem_ops_def)
  have mr: "dict_get (ms_runs m') rid = Some (new_record rid v now)"
    using assms(2) by (auto simp: mem_create_run_def split: if_splits)
  have s: "sql_inv s'" using sql.create[of s load rid v now s'] assms(3,4) by (simp add: sql_ops_def)
  obtain row where row: "sql_view load s' rid = Some row" "rc_input row = to_json_value v" "rc_created row = now"
  proof -
    obtain t where t: "sql_serialize v = Inr t" "find (\<lambda>r. rr_id r = rid) (sq_runs s) = None"
      "s' = s\<lparr>sq_runs := sq_runs s @ [\<lparr>rr_id = rid, rr_status = Running, rr_input = Some t,
         rr_output = None, rr_output_json = None, rr_state = None, rr_created = now, rr_updated = now\<rparr>]\<rparr>"
      using assms(4) by (auto simp: sql_create_run_def find_None_iff split: sum.splits if_splits)
    then have "t = to_json_value v" by (auto simp: sql_serialize_def split: if_splits)
    with t that show thesis
      by (auto simp: sql_view_def find_append row_to_record_def sql_column_def)
  qed
  have km: "mem.keeps_run rid (new_record rid v now) (perform_all mem_ops cs m')"
    by (rule mem.keeps_run_calls) (use m mr in \<open>auto simp: mem.keeps_run_def\<close>)
  have ks: "sql.keeps_run load rid row (perform_all (sql_ops load) cs s')"
    by (rule sql.keeps_run_calls) (use s row in \<open>auto simp: sql.keeps_run_def\<close>)
  have tm: "\<exists>e. so_create mem_ops rid v2 now2 (perform_all mem_ops cs m') = Inl e"
    by (rule mem.create_taken) (use km in \<open>auto simp: mem.keeps_run_def\<close>)
  have ts: "\<exists>e. so_create (sql_ops load) rid v2 now2 (perform_all (sql_ops load) cs s') = Inl e"
    by (rule sql.create_taken[where load = load]) (use ks in \<open>auto simp: sql.keeps_run_def\<close>)
  from km ks tm ts row show ?thesis
    by (auto simp: mem.keeps_run_def sql.keeps_run_def new_record_def mem_ops_def sql_ops_def)
qed

theorem run_keeps_creation_witness:
  "\<exists>m' r. mem_create_run ''r1'' (PStr ''hi'') 5 mem_empty = Inr m'
     \<and> dict_get (ms_runs (perform_all mem_ops [UpdateRun ''r1'' Failed None PNone None 9] m')) ''r1'' = Some r
     \<and> rc_input r = PStr ''hi''"
proof -
  obtain m' s' where r: "mem_create_run ''r1'' (PStr ''hi'') 5 mem_empty = Inr m'"
    "sql_create_run ''r1'' (PStr ''hi'') 5 sql_empty = Inr s'"
    by (simp add: mem_create_run_def mem_empty_def sql_create_run_def sql_empty_def sql_serialize_def)
  have "mem_inv mem_empty" "sql_inv sql_empty"
    by (simp_all add: mem_inv_def sql_inv_def mem_empty_def sql_empty_def)
  from run_keeps_creation[OF this(1) r(1) this(2) r(2), where cs = "[UpdateRun ''r1'' Failed None PNone None 9]"] r(1)
  show ?thesis by blast
qed

section \<open>Collaboration\<close>

text \<open>
  C20: A recipient that empties its channel in the default mode gets every message sent to it and
  every broadcast exactly once, whatever the others send, receive or peek in between: what it has
  got and what still waits for it are together what was addressed to it.
\<close>

theorem channel_delivers_once:
  assumes "history r ch sent got"
  shows "mset got + mset (undelivered r ch) = mset sent
    \<and> (\<exists>ms ch'. channel_receive r True ''one_shot'' ch = Inr (ms, ch') \<and> mset (got @ ms) = mset sent
         \<and> sorted (map cm_time ms) \<and> channel_receive r True ''one_shot'' ch' = Inr ([], ch'))"
proof -
  obtain ms ch' where c: "channel_receive r True ''one_shot'' ch = Inr (ms, ch')"
    by (cases "channel_receive r True ''one_shot'' ch") (auto simp: channel_receive_def Let_def)
  then have ms: "mset ms = mset (undelivered r ch)" "sorted (map cm_time ms)"
    using receive_one_shot[OF c] by (auto simp: channel_receive_def Let_def)
  have again: "channel_receive r True ''one_shot'' ch' = Inr ([], ch')"
    using c by (auto simp: channel_receive_def Let_def dict_get_or_def)
  from history_balance[OF assms] ms again c show ?thesis by auto
qed

theorem channel_delivers_once_witness:
  "\<exists>m1 ch1 m2 ch2 ms ch3. channel_send ''m1'' 1 ''a'' ''b'' (PInt 1) None channel_init = (m1, ch1)
     \<and> channel_broadcast ''m2'' 2 ''c'' (PInt 2) None ch1 = (m2, ch2)
     \<and> channel_receive ''b'' True ''one_shot'' ch2 = Inr (ms, ch3) \<and> mset ms = {#m1, m2#}"
proof -
  obtain m1 ch1 where s: "channel_send ''m1'' 1 ''a'' ''b'' (PInt 1) None channel_init = (m1, ch1)" by fastforce
  obtain m2 ch2 where b: "channel_broadcast ''m2'' 2 ''c'' (PInt 2) None ch1 = (m2, ch2)" by fastforce
  have "history ''b'' ch1 [m1] []" using history.sending[OF history.start s, of "''b''"] by simp
  from history.casting[OF this b] have h: "history ''b'' ch2 ([m1] @ [m2]) []" .
  from channel_delivers_once[OF h] s b show ?thesis by (fastforce simp: add_mset_commute)
qed

text \<open>
  The blackboard is a map with creation times: after any history of writes, deletions and
  clears a key holds the last value written since it was last removed, with its author and time,
  and the creation time of the first write since then.
\<close>

lemma board_holds_last_write:
  assumes "quiet call" "bb_data b = []"
  shows "board_read_entry k (board_history call ops b) = promised_entry k ops
    \<and> board_exists k (board_history call ops b) = (live_writes k ops \<noteq> [])"
proof -
  have "promised_entry k ops = None \<longleftrightarrow> live_writes k ops = []"
  proof (cases "live_writes k ops")
    case (Cons w ws)
    have "writes_key k w" "writes_key k (last (w # ws))"
      using live_writes_all[of _ k ops] last_in_set[of "w # ws"] unfolding Cons by auto
    then show ?thesis
      using Cons by (cases w; cases "last (w # ws)") (auto simp: promised_entry_def)
  qed (simp add: promised_entry_def)
  with board_history_entry[OF assms] show ?thesis
    by (simp add: board_exists_def board_read_entry_def)
qed

section \<open>The event bus\<close>

text \<open>
  Emitting an event never raises, whatever the handlers do short of being cancelled; handlers
  that keep off the bus are each called once, those of the type before those of every type, each
  exception becomes one recorded error and each awaitable one pending task.
\<close>

lemma emit_isolates_handlers:
  assumes "uncancelled H"
  shows "(\<exists>b'. bus_emit H running e b = (Inr (), b'))
    \<and> (beside_bus H e res act aw wait \<longrightarrow>
        bus_emit H True e b
          = (Inr (), emitted (event_type_str (ev_type e)) res act (handlers_for (event_type_str (ev_type e)) b) b))"
proof (intro conjI impI)
  show "\<exists>b'. bus_emit H running e b = (Inr (), b')"
    using each_returns[of "emit_one H running e", OF emit_one_returns[OF assms]]
    by (simp add: bus_emit_def ebind_def gets_def)
  assume "beside_bus H e res act aw wait"
  from emit_each[OF this refl] show "bus_emit H True e b = (Inr (), emitted (event_type_str (ev_type e)) res act
      (handlers_for (event_type_str (ev_type e)) b) b)"
    by (cases "ev_type e") (simp_all add: bus_emit_def ebind_def gets_def)
qed

definition demo_handlers :: "unit handler_env" where
  "demo_handlers = \<lparr>hd_call = (\<lambda>h e b. ((if h = 0 then Inl (ValueError ''no'') else Inr (Awaits h)), b)),
     hd_await = (\<lambda>a b. (Inl (ValueError ''late''), b))\<rparr>"


definition demo_event :: event where
  "demo_event = \<lparr>ev_id = ''e'', ev_type = RunStarted, ev_time = 0, ev_run_id = ''r'', ev_source = ''desk'', ev_payload = []\<rparr>"

lemma demo_uncancelled: "uncancelled demo_handlers"
  by (simp add: uncancelled_def demo_handlers_def is_cancelled_def)




end
