(* ===== verification/Memory_Stores.thy ===== *)
theory Memory_Stores
  imports Run_Store
begin

text \<open>
  The memory stores of \<^verbatim>\<open>memory/\<close>: the interface (\<^verbatim>\<open>base.py\<close>) as a record of operations, the
  in-memory store as a dictionary of dictionaries and the SQLite store as the table it keeps, one
  row per scope and key.  A row holds the value its text encodes; \<open>search\<close> looks into
  the text itself.
\<close>

record 'm memory_ops =
  mo_write :: "string \<Rightarrow> pyval \<Rightarrow> string \<Rightarrow> 'm \<Rightarrow> exc + 'm"
  mo_read :: "string \<Rightarrow> string \<Rightarrow> 'm \<Rightarrow> exc + pyval"
  mo_search :: "string \<Rightarrow> string \<Rightarrow> 'm \<Rightarrow> exc + (string \<times> pyval) list"
  mo_reset :: "string \<Rightarrow> 'm \<Rightarrow> 'm"

section \<open>In memory\<close>

type_synonym mem_memory = "(string \<times> (string \<times> pyval) list) list"

definition mem_memory_write :: "string \<Rightarrow> pyval \<Rightarrow> string \<Rightarrow> mem_memory \<Rightarrow> mem_memory" where
  "mem_memory_write k v scope m = dict_set scope (dict_set k v (dict_get_or m scope [])) m"

definition mem_memory_read :: "string \<Rightarrow> string \<Rightarrow> mem_memory \<Rightarrow> pyval" where
  "mem_memory_read k scope m = dict_get_or (dict_get_or m scope []) k PNone"

text \<open>\<open>str(value)\<close>.\<close>

definition py_str :: "pytext \<Rightarrow> pyval \<Rightarrow> string" where
  "py_str P v = (case v of PStr s \<Rightarrow> s | _ \<Rightarrow> obj_str P v)"

definition mem_memory_search :: "pytext \<Rightarrow> string \<Rightarrow> string \<Rightarrow> mem_memory \<Rightarrow> (string \<times> pyval) list" where
  "mem_memory_search P query scope m =
     filter (\<lambda>(k, v). str_contains query k \<or> str_contains query (py_str P v)) (dict_get_or m scope [])"

definition mem_memory_reset :: "string \<Rightarrow> mem_memory \<Rightarrow> mem_memory" where
  "mem_memory_reset scope m = dict_set scope [] m"

definition mem_memory :: "pytext \<Rightarrow> mem_memory memory_ops" where
  "mem_memory P = \<lparr>mo_write = (\<lambda>k v scope m. Inr (mem_memory_write k v scope m)),
     mo_read = (\<lambda>k scope m. Inr (mem_memory_read k scope m)),
     mo_search = (\<lambda>q scope m. Inr (mem_memory_search P q scope m)), mo_reset = mem_memory_reset\<rparr>"

section \<open>SQLite\<close>

type_synonym sql_memory = "((string \<times> string) \<times> pyval) list"

text \<open>What \<open>json.dumps(..., default=str)\<close> of a JSON value and \<open>json.loads\<close> of its text leave.\<close>

primrec stored_json :: "pytext \<Rightarrow> pyval \<Rightarrow> pyval" where
  "stored_json P PNone = PNone"
| "stored_json P (PBool b) = PBool b"
| "stored_json P (PInt i) = PInt i"
| "stored_json P (PFloat q) = PFloat q"
| "stored_json P (PStr s) = PStr s"
| "stored_json P (PList xs) = PList (map (stored_json P) xs)"
| "stored_json P (PTuple xs) = PList (map (stored_json P) xs)"
| "stored_json P (PDict d) = PDict (map (map_prod id (stored_json P)) d)"
| "stored_json P (PModel c d) = PStr (obj_str P (PModel c d))"
| "stored_json P (PData c fs) = PStr (obj_str P (PData c fs))"
| "stored_json P (PObj c s) = PStr (obj_str P (PObj c s))"

definition sql_memory_write :: "pytext \<Rightarrow> string \<Rightarrow> pyval \<Rightarrow> string \<Rightarrow> sql_memory \<Rightarrow> sql_memory" where
  "sql_memory_write P k v scope m = dict_set (scope, k) (stored_json P (to_json_value v)) m"

definition sql_memory_read :: "string \<Rightarrow> string \<Rightarrow> sql_memory \<Rightarrow> pyval" where
  "sql_memory_read k scope m = dict_get_or m (scope, k) PNone"

text \<open>SQL leaves the order of the selected rows open: it is an argument.\<close>

definition sql_memory_search ::
  "(sql_memory \<Rightarrow> sql_memory) \<Rightarrow> pytext \<Rightarrow> string \<Rightarrow> string \<Rightarrow> sql_memory \<Rightarrow> (string \<times> pyval) list" where
  "sql_memory_search order P query scope m =
     map (\<lambda>((s, k), v). (k, v))
       (filter (\<lambda>((s, k), v). str_contains query k \<or> str_contains query (json_text P v))
          (order (filter (\<lambda>((s, k), v). s = scope) m)))"

definition sql_memory_reset :: "string \<Rightarrow> sql_memory \<Rightarrow> sql_memory" where
  "sql_memory_reset scope m = filter (\<lambda>((s, k), v). s \<noteq> scope) m"

definition sql_memory :: "(sql_memory \<Rightarrow> sql_memory) \<Rightarrow> pytext \<Rightarrow> sql_memory memory_ops" where
  "sql_memory order P = \<lparr>mo_write = (\<lambda>k v scope m. Inr (sql_memory_write P k v scope m)),
     mo_read = (\<lambda>k scope m. Inr (sql_memory_read k scope m)),
     mo_search = (\<lambda>q scope m. Inr (sql_memory_search order P q scope m)), mo_reset = sql_memory_reset\<rparr>"

section \<open>The contract\<close>

text \<open>What is written is read back (up to what the store makes of a value), scopes and keys do not
  interfere, and a reset forgets one scope.\<close>

locale memory_store =
  fixes ops :: "'m memory_ops" and kept :: "pyval \<Rightarrow> pyval" and inv :: "'m \<Rightarrow> bool"
  assumes stored: "inv m \<Longrightarrow> mo_write ops k v scope m = Inr m' \<Longrightarrow>
      inv m' \<and> mo_read ops k scope m' = Inr (kept v) \<and>
      ((k', scope') \<noteq> (k, scope) \<longrightarrow> mo_read ops k' scope' m' = mo_read ops k' scope' m)"
    and reset: "inv m \<Longrightarrow> inv (mo_reset ops scope m)"
      "inv m \<Longrightarrow> mo_read ops k scope (mo_reset ops scope m) = Inr PNone"
      "inv m \<Longrightarrow> scope' \<noteq> scope \<Longrightarrow> mo_read ops k scope' (mo_reset ops scope m) = mo_read ops k scope' m"
begin

lemma last_write_wins:
  assumes "inv m" "mo_write ops k v scope m = Inr m1" "mo_write ops k v' scope m1 = Inr m2"
  shows "mo_read ops k scope m2 = Inr (kept v')"
  using stored[OF _ assms(3)] stored[OF assms(1,2)] by blast

lemma write_survives_other:
  assumes "inv m" "mo_write ops k v scope m = Inr m1" "mo_write ops k' v' scope' m1 = Inr m2"
    "(k, scope) \<noteq> (k', scope')"
  shows "mo_read ops k scope m2 = Inr (kept v)"
  using stored[OF assms(1,2)] stored[OF _ assms(3)] assms(4) by metis

end


interpretation mem_mo: memory_store "mem_memory P" "\<lambda>v. v" "\<lambda>_. True" for P
  by unfold_locales
    (auto simp: mem_memory_def mem_memory_write_def mem_memory_read_def mem_memory_reset_def
      dict_get_or_def[of _ _ "[]"] dict_get_or_def[of "[]"])

lemma map_of_filter_scope:
  "map_of (filter (\<lambda>((s, k), v). s \<noteq> scope) m) (s', k) = (if s' = scope then None else map_of m (s', k))"
  by (induction m) auto

interpretation sql_mo: memory_store "sql_memory order P" "\<lambda>v. stored_json P (to_json_value v)" "\<lambda>_. True" for order P
  by unfold_locales
    (auto simp: sql_memory_def sql_memory_write_def sql_memory_read_def sql_memory_reset_def
      dict_get_or_def map_of_filter_scope)

end
