(* ===== verification/Sanitize.thy ===== *)
theory Sanitize
  imports Prelude
begin

text \<open>
  How the desk cleans the text of an exception before it stores it (\<open>_sanitize_exception_message\<close>,
  \<^verbatim>\<open>desk.py\<close>).  A compiled pattern is a matcher: from the character before the position and
  the rest of the text to the length of its first group and of the match; \<open>sub_with\<close> is \<open>sub\<close>.  The
  four patterns need no backtracking: what each repetition takes cannot be taken by what follows,
  and the last of the path pattern always ends at the next space or colon.
\<close>

type_synonym matcher = "char option \<Rightarrow> string \<Rightarrow> (nat \<times> nat) option"

text \<open>Word characters (\<open>str.isalnum\<close> or the underscore) below code point 256.\<close>

definition is_alnum :: "char \<Rightarrow> bool" where
  "is_alnum c = (let n = (of_char c :: nat) in
     48 \<le> n \<and> n \<le> 57 \<or> 65 \<le> n \<and> n \<le> 90 \<or> 97 \<le> n \<and> n \<le> 122)"

definition is_word :: "char \<Rightarrow> bool" where
  "is_word c = (let n = (of_char c :: nat) in
     is_alnum c \<or> n \<in> {95, 170, 178, 179, 181, 185, 186, 188, 189, 190} \<or>
     192 \<le> n \<and> n \<noteq> 215 \<and> n \<noteq> 247)"

definition key_char :: "char \<Rightarrow> bool" where
  "key_char c \<longleftrightarrow> is_alnum c \<or> c \<in> set ''_-''"

definition bearer_char :: "char \<Rightarrow> bool" where
  "bearer_char c \<longleftrightarrow> is_alnum c \<or> c \<in> set ''._~+/-''"

text \<open>The case-insensitive word at the start of a text.\<close>

definition starts_with :: "string \<Rightarrow> string \<Rightarrow> bool" where
  "starts_with w s \<longleftrightarrow> str_lower (take (length w) s) = w"

text \<open>\<open>sk-[A-Za-z0-9_-]+\<close>.\<close>

definition match_api_key :: matcher where
  "match_api_key prev s =
     (let n = length (takeWhile key_char (drop 3 s))
      in if prefix ''sk-'' s \<and> n > 0 then Some (0, 3 + n) else None)"

text \<open>\<open>(?i)(bearer\s+)[A-Za-z0-9._~+/-]+=*\<close>.\<close>

definition match_bearer :: matcher where
  "match_bearer prev s =
     (if \<not> starts_with ''bearer'' s then None
      else let sp = length (takeWhile is_space (drop 6 s));
               t = drop (6 + sp) s;
               n = length (takeWhile bearer_char t);
               eqs = length (takeWhile (\<lambda>c. c = CHR ''='') (drop n t))
           in if sp > 0 \<and> n > 0 then Some (6 + sp, 6 + sp + n + eqs) else None)"

text \<open>\<open>(?:api[_-]?key|token|secret|password|authorization)\<close>: the length of the word.\<close>

definition secret_word :: "string \<Rightarrow> nat option" where
  "secret_word s =
     (if starts_with ''api_key'' s \<or> starts_with ''api-key'' s then Some 7
      else if starts_with ''apikey'' s then Some 6
      else if starts_with ''token'' s then Some 5
      else if starts_with ''secret'' s then Some 6
      else if starts_with ''password'' s then Some 8
      else if starts_with ''authorization'' s then Some 13
      else None)"

text \<open>\<open>(?i)(word\s*[=:]\s*)\S+\<close>.\<close>

definition match_secret :: matcher where
  "match_secret prev s =
     (case secret_word s of
        None \<Rightarrow> None
      | Some w \<Rightarrow>
          (let sp = length (takeWhile is_space (drop w s))
           in case drop (w + sp) s of
                [] \<Rightarrow> None
              | c # t \<Rightarrow>
                  (let sp2 = length (takeWhile is_space t);
                       n = length (takeWhile (\<lambda>x. \<not> is_space x) (drop sp2 t));
                       g = w + sp + 1 + sp2
                   in if c \<in> set ''=:'' \<and> n > 0 then Some (g, g + n) else None)))"

text \<open>\<open>(?<!\w)/(?:[^\s:/]+/)+[^\s:]+\<close>.\<close>

definition match_path :: matcher where
  "match_path prev s =
     (case s of
        [] \<Rightarrow> None
      | c # t \<Rightarrow>
          (let r = takeWhile (\<lambda>x. \<not> is_space x \<and> x \<noteq> CHR '':'') t;
               seg = takeWhile (\<lambda>x. x \<noteq> CHR ''/'') r
           in if c = CHR ''/'' \<and> (case prev of Some p \<Rightarrow> \<not> is_word p | None \<Rightarrow> True) \<and>
                 seg \<noteq> [] \<and> length r > length seg + 1
              then Some (0, 1 + length r) else None))"

text \<open>\<open>pattern.sub(...)\<close>: the first group of a match is kept, the rest replaced by the token.\<close>

function sub_with :: "matcher \<Rightarrow> string \<Rightarrow> char option \<Rightarrow> string \<Rightarrow> string" where
  "sub_with f tok prev [] = []"
| "sub_with f tok prev (c # s) =
     (case f prev (c # s) of
        Some (g, n) \<Rightarrow>
          take g (c # s) @ tok @ sub_with f tok (Some ((c # s) ! (n - 1))) (drop (n - 1) s)
      | None \<Rightarrow> c # sub_with f tok (Some c) s)"
  by pat_completeness auto
termination by (relation "measure (\<lambda>(f, tok, prev, s). length s)") auto

definition UNEXPECTED_FAILURE_MESSAGE :: string where
  "UNEXPECTED_FAILURE_MESSAGE = ''An unexpected error occurred''"

definition redact :: "string \<Rightarrow> string" where
  "redact m =
     sub_with match_path ''[path]'' None
       (sub_with match_secret ''[redacted]'' None
         (sub_with match_bearer ''[redacted]'' None
           (sub_with match_api_key ''[redacted]'' None m)))"

definition sanitize_exception_message :: "exc \<Rightarrow> string" where
  "sanitize_exception_message e =
     (if exc_class e = ''CancelledError'' then ''Run cancelled''
      else let message = str_strip (exc_msg e)
           in if message = [] then UNEXPECTED_FAILURE_MESSAGE
              else if redact message = [] then UNEXPECTED_FAILURE_MESSAGE
              else redact message)"

section \<open>Laws\<close>

text \<open>A text in which no API key starts.\<close>

definition api_key_at :: "string \<Rightarrow> bool" where
  "api_key_at s \<longleftrightarrow> (\<exists>c t. s = ''sk-'' @ c # t \<and> key_char c)"

definition keyless :: "string \<Rightarrow> bool" where
  "keyless s \<longleftrightarrow> (\<forall>u. suffix u s \<longrightarrow> \<not> api_key_at u)"

lemma match_api_key_iff: "match_api_key prev s = None \<longleftrightarrow> \<not> api_key_at s"
proof (cases "prefix ''sk-'' s")
  case True
  then obtain t where "s = ''sk-'' @ t" by (auto elim: prefixE)
  then show ?thesis by (cases t) (simp_all add: match_api_key_def api_key_at_def)
next
  case False
  then show ?thesis by (auto simp: match_api_key_def api_key_at_def)
qed

lemma prefix_before: "prefix p (a @ x # b) \<Longrightarrow> x \<notin> set p \<Longrightarrow> prefix p a"
proof (induction a arbitrary: p)
  case Nil then show ?case by (cases p) auto
next
  case (Cons c a) then show ?case by (cases p) auto
qed

lemma api_key_at_prefix: "api_key_at s \<longleftrightarrow> (\<exists>c. key_char c \<and> prefix (''sk-'' @ [c]) s)"
  by (auto simp: api_key_at_def prefix_def)

lemma key_char_bracket: "key_char c \<Longrightarrow> c \<noteq> CHR ''[''"
  by (auto simp: key_char_def is_alnum_def Let_def)

lemma keyless_Nil [simp]: "keyless []"
  by (simp add: keyless_def api_key_at_def)

lemma keyless_Cons: "keyless (c # s) \<longleftrightarrow> \<not> api_key_at (c # s) \<and> keyless s"
  by (auto simp: keyless_def suffix_Cons)

lemma keyless_drop: "keyless s \<Longrightarrow> keyless (drop n s)"
  by (meson keyless_def suffix_drop suffix_order.trans)

text \<open>Up to the first bracket a substitution leaves a prefix of the text.\<close>

lemma prefix_sub_with:
  "prefix p (sub_with f (CHR ''['' # tok) prev s) \<Longrightarrow> CHR ''['' \<notin> set p \<Longrightarrow> prefix p s"
proof (induction f "CHR ''['' # tok" prev s arbitrary: p rule: sub_with.induct)
  case (2 f prev c s)
  show ?case
  proof (cases "f prev (c # s)")
    case None
    with 2 show ?thesis by (cases p) auto
  next
    case (Some gn)
    obtain g n where gn: "gn = (g, n)" by fastforce
    with Some 2(3) have "prefix p (take g (c # s) @ CHR ''['' # tok @
        sub_with f (CHR ''['' # tok) (Some ((c # s) ! (n - 1))) (drop (n - 1) s))" by simp
    then have "prefix p (take g (c # s))" using 2(4) by (auto intro: prefix_before)
    then show ?thesis using take_is_prefix prefix_order.trans by blast
  qed
qed simp

text \<open>A substitution that keeps parts of the text brings in no API key; the one for API keys leaves
  none.\<close>

definition harmless :: "string \<Rightarrow> bool" where
  "harmless tok \<longleftrightarrow> tok \<noteq> [] \<and> hd tok = CHR ''['' \<and> CHR ''s'' \<notin> set tok"

lemma api_key_prefix: "api_key_at s \<Longrightarrow> prefix s s' \<Longrightarrow> api_key_at s'"
  by (auto simp: api_key_at_def prefix_def)

lemma api_key_bracket:
  assumes "api_key_at (a @ CHR ''['' # b)" shows "api_key_at a"
proof -
  obtain c where c: "key_char c" "prefix (''sk-'' @ [c]) (a @ CHR ''['' # b)"
    using assms unfolding api_key_at_prefix by blast
  have "CHR ''['' \<notin> set (''sk-'' @ [c])" using key_char_bracket[OF c(1)] by auto
  from prefix_before[OF c(2) this] c(1) show ?thesis unfolding api_key_at_prefix by blast
qed

lemma keyless_append_token:
  assumes "keyless a" "harmless tok" "keyless r"
  shows "keyless (a @ tok @ r)"
proof -
  have tok: "keyless (t @ r)" if "CHR ''s'' \<notin> set t" for t
    using that assms(3) by (induction t) (auto simp: keyless_Cons api_key_at_def)
  from assms(1) show ?thesis
  proof (induction a)
    case Nil with tok assms(2) show ?case by (simp add: harmless_def)
  next
    case (Cons c a)
    obtain tok' where "tok = CHR ''['' # tok'" using assms(2) by (cases tok) (auto simp: harmless_def)
    with Cons api_key_bracket[of "c # a" "tok' @ r"] show ?case by (auto simp: keyless_Cons)
  qed
qed

lemma keyless_take: "keyless s \<Longrightarrow> keyless (take n s)"
proof (induction s arbitrary: n)
  case (Cons c s)
  then show ?case
    by (cases n) (auto simp: keyless_Cons dest: api_key_prefix[of _ "c # s"] simp: take_is_prefix)
qed simp

lemma sub_with_keyless:
  assumes "harmless tok" "keyless s \<or> f = match_api_key"
  shows "keyless (sub_with f tok prev s)"
  using assms
proof (induction f tok prev s rule: sub_with.induct)
  case (2 f tok prev c s)
  obtain tok' where tok: "tok = CHR ''['' # tok'" using 2(3) by (cases tok) (auto simp: harmless_def)
  show ?case
  proof (cases "f prev (c # s)")
    case None
    have "\<not> api_key_at (c # sub_with f tok (Some c) s)"
    proof
      assume "api_key_at (c # sub_with f tok (Some c) s)"
      then obtain d t where d: "c = CHR ''s''" "sub_with f tok (Some c) s = ''k-'' @ d # t" "key_char d"
        by (auto simp: api_key_at_def)
      from d(3) have "CHR ''['' \<notin> set (''k-'' @ [d])" by (auto simp: key_char_def is_alnum_def Let_def)
      from prefix_sub_with[of "''k-'' @ [d]" f tok' "Some c" s, OF _ this] d(2) tok
      have "prefix (''k-'' @ [d]) s" by (simp add: prefix_def)
      with d have "api_key_at (c # s)" by (auto simp: api_key_at_def prefix_def)
      with None match_api_key_iff[of prev "c # s"] 2(4) show False by (auto simp: keyless_Cons)
    qed
    moreover have "keyless (sub_with f tok (Some c) s)"
      using 2(1)[OF None 2(3)] 2(4) by (auto simp: keyless_Cons)
    ultimately show ?thesis using None by (simp add: keyless_Cons)
  next
    case (Some gn)
    obtain g n where gn: "gn = (g, n)" by fastforce
    have "keyless (sub_with f tok (Some ((c # s) ! (n - 1))) (drop (n - 1) s))"
      using 2(2)[OF Some gn[symmetric] 2(3)] 2(4) keyless_drop by (auto simp: keyless_Cons)
    moreover have "keyless (take g (c # s))"
    proof (cases "f = match_api_key")
      case True
      with Some gn have "g = 0" by (auto simp: match_api_key_def Let_def split: if_splits)
      then show ?thesis by simp
    next
      case False
      with 2(4) keyless_take show ?thesis by blast
    qed
    ultimately show ?thesis using Some gn keyless_append_token[OF _ 2(3)] by simp
  qed
qed simp

lemma redact_keyless: "keyless (redact m)"
  unfolding redact_def
  by (intro sub_with_keyless disjI1 sub_with_keyless[where f = match_api_key] disjI2 refl)
    (simp_all add: harmless_def)

end
