(* ===== verification/Desk.thy ===== *)
theory Desk
  imports Workforce_Modes Event_Bus Memory_Stores Sanitize
begin

text \<open>
  \<open>Desk\<close> (\<^verbatim>\<open>desk.py\<close>): it gives workers and workforces their configuration, emits and stores
  their events, stores what a run comes to and resumes paused runs.  The world of a desk extends
  the event bus by the contents of its run store and its memory store; what user code does lives in
  the further extension.  A desk's registries and the tools it remembers for paused runs extend the
  state of the run, whose events and totals are those of the run at hand.

  The run store, the memory store, the event handlers and pydantic's dump of a job are fields of
  the record \<open>desk\<close>.  Flows are numbers; how one is resumed is an argument.
\<close>

record ('st, 'm) desk_world = bus +
  dw_store :: 'st
  dw_memory :: 'm

record 'w desk_state = "'w rt" +
  dk_workers :: "(string \<times> crew_member) list"
  dk_workforces :: "(string \<times> workforce) list"
  dk_flows :: "(string \<times> nat) list"
  dk_overrides :: "(string \<times> tool list) list"
  dk_closed :: bool

record ('st, 'm, 'u) desk =
  ds_model :: string
  ds_temperature :: "rat option"
  ds_max_tokens :: "int option"
  ds_stream :: bool
  ds_stream_mode :: stream_mode
  ds_structured_retries :: int
  ds_max_iterations :: int
  ds_max_tool_calls :: int
  ds_num_retries :: int
  ds_respect_context :: bool
  ds_max_context_messages :: "int option"
  ds_max_cost_usd :: "rat option"
  ds_store :: "'st store_ops"
  ds_memory :: "'m memory_ops option"
  ds_handlers :: "('st, 'm, 'u) desk_world_ext handler_env"
  ds_task_order :: "bus_task list \<Rightarrow> bus_task list"
  ds_rounds :: nat
  ds_dump_job :: "job \<Rightarrow> exc + pyval"

datatype runner = RWorker crew_member | RWorkforce workforce | ROther string

type_synonym ('st, 'm, 'u, 'a) desk_eff =
  "(('st, 'm, 'u) desk_world_scheme desk_state, 'a) eff"

section \<open>Configuration\<close>

definition make_run_config :: "('st, 'm, 'u) desk \<Rightarrow> string \<Rightarrow> bool \<Rightarrow> run_config" where
  "make_run_config D rid stream_enabled =
     \<lparr>cfg_run_id = rid, cfg_emit_run = rid, cfg_events = None, cfg_temperature = ds_temperature D,
      cfg_max_tokens = ds_max_tokens D, cfg_stream = stream_enabled,
      cfg_stream_options = (if stream_enabled then Some [(''include_usage'', PBool True)] else None),
      cfg_structured_retries = ds_structured_retries D, cfg_max_iterations = ds_max_iterations D,
      cfg_max_tool_calls = ds_max_tool_calls D, cfg_num_retries = ds_num_retries D,
      cfg_respect_context = ds_respect_context D,
      cfg_max_context_messages = ds_max_context_messages D, cfg_max_cost_usd = ds_max_cost_usd D,
      cfg_default_model = Some (ds_model D)\<rparr>"

text \<open>\<open>RunConfig\<close> checks its limits when it is built.\<close>

definition checked_config :: "run_config \<Rightarrow> exc + run_config" where
  "checked_config c = (case validate_execution_limits c of Some e \<Rightarrow> Inl e | None \<Rightarrow> Inr c)"

definition parse_stream_mode :: "string \<Rightarrow> stream_mode option" where
  "parse_stream_mode s =
     (if s = ''off'' then Some StreamOff else if s = ''preview'' then Some StreamPreview else None)"

text \<open>\<open>Desk.__init__\<close>: the checks, in their order, on a desk with the given settings.\<close>

definition make_desk :: "('st, 'm, 'u) desk \<Rightarrow> string \<Rightarrow> exc + ('st, 'm, 'u) desk" where
  "make_desk D mode =
     (if str_strip (ds_model D) = [] then Inl (ValueError ''model must not be empty'')
      else if (case ds_temperature D of Some t \<Rightarrow> t < 0 | None \<Rightarrow> False)
      then Inl (ValueError ''temperature must be non-negative'')
      else case validate_execution_limits (make_run_config D [] False) of
        Some e \<Rightarrow> Inl e
      | None \<Rightarrow>
          (case parse_stream_mode mode of
             None \<Rightarrow> Inl (ValueError (''structured_stream_mode must be '' @ quoted ''off'' @
                            '' or '' @ quoted ''preview''))
           | Some md \<Rightarrow> Inr (D\<lparr>ds_stream_mode := md\<rparr>)))"

section \<open>Registries\<close>

definition register_worker :: "crew_member \<Rightarrow> 'w desk_state \<Rightarrow> 'w desk_state" where
  "register_worker m s = s\<lparr>dk_workers := dict_set (mb_name m) m (dk_workers s)\<rparr>"

definition register_workforce :: "workforce \<Rightarrow> 'w desk_state \<Rightarrow> 'w desk_state" where
  "register_workforce crew s = s\<lparr>dk_workforces := dict_set (wf_name crew) crew (dk_workforces s)\<rparr>"

definition unregister_worker :: "string \<Rightarrow> 'w desk_state \<Rightarrow> 'w desk_state" where
  "unregister_worker name s = s\<lparr>dk_workers := dict_pop name (dk_workers s)\<rparr>"

definition unregister_workforce :: "string \<Rightarrow> 'w desk_state \<Rightarrow> 'w desk_state" where
  "unregister_workforce name s = s\<lparr>dk_workforces := dict_pop name (dk_workforces s)\<rparr>"

definition get_worker :: "string \<Rightarrow> 'w desk_state \<Rightarrow> crew_member option" where
  "get_worker name s = dict_get (dk_workers s) name"

definition get_workforce :: "string \<Rightarrow> 'w desk_state \<Rightarrow> workforce option" where
  "get_workforce name s = dict_get (dk_workforces s) name"

definition register_flow_run :: "string \<Rightarrow> nat \<Rightarrow> 'w desk_state \<Rightarrow> 'w desk_state" where
  "register_flow_run rid f s = s\<lparr>dk_flows := dict_set rid f (dk_flows s)\<rparr>"

definition unregister_flow_run :: "string \<Rightarrow> 'w desk_state \<Rightarrow> 'w desk_state" where
  "unregister_flow_run rid s = s\<lparr>dk_flows := dict_pop rid (dk_flows s)\<rparr>"

definition ensure_open :: "('w desk_state, unit) eff" where
  "ensure_open =
     ebind (gets dk_closed) (\<lambda>c. if c then raise (Exc ''RuntimeError'' ''Desk is closed'') else ret ())"

section \<open>The stores and the bus in the world\<close>

definition on_store ::
  "('st \<Rightarrow> exc + 'st) \<Rightarrow> (('st, 'm, 'u) desk_world_scheme, unit) eff" where
  "on_store f w = (case f (dw_store w) of Inl e \<Rightarrow> (Inl e, w) | Inr st \<Rightarrow> (Inr (), w\<lparr>dw_store := st\<rparr>))"

definition on_memory ::
  "('m \<Rightarrow> exc + 'm) \<Rightarrow> (('st, 'm, 'u) desk_world_scheme, unit) eff" where
  "on_memory f w = (case f (dw_memory w) of Inl e \<Rightarrow> (Inl e, w) | Inr m \<Rightarrow> (Inr (), w\<lparr>dw_memory := m\<rparr>))"

text \<open>\<open>self.event_bus.emit(event); self.run_store.add_event(event)\<close>, in a running loop.\<close>

definition desk_deliver ::
  "('st, 'm, 'u) desk \<Rightarrow> event \<Rightarrow> (('st, 'm, 'u) desk_world_scheme, unit) eff" where
  "desk_deliver D e = eseq (bus_emit (ds_handlers D) True e) (on_store (so_add_event (ds_store D) e))"

text \<open>The externals of a run of this desk: its events are delivered by the desk.\<close>

definition desk_env ::
  "('st, 'm, 'u) desk \<Rightarrow> (('st, 'm, 'u) desk_world_scheme, 'x) force_ext_scheme \<Rightarrow>
   (('st, 'm, 'u) desk_world_scheme, 'x) force_ext_scheme" where
  "desk_env D X = X\<lparr>x_deliver := desk_deliver D\<rparr>"

definition desk_emit ::
  "('st, 'm, 'u) desk \<Rightarrow> (('st, 'm, 'u) desk_world_scheme, 'x) force_ext_scheme \<Rightarrow> string \<Rightarrow>
   event_type \<Rightarrow> pyval dict \<Rightarrow> ('st, 'm, 'u, unit) desk_eff" where
  "desk_emit D X rid ty payload = emit (desk_env D X) rid ty ''desk'' payload"

definition create_run ::
  "('st, 'm, 'u) desk \<Rightarrow> (('st, 'm, 'u) desk_world_scheme, 'x) force_ext_scheme \<Rightarrow> string \<Rightarrow> pyval \<Rightarrow>
   ('st, 'm, 'u, unit) desk_eff" where
  "create_run D X rid v =
     ebind (ask (x_now X)) (\<lambda>now. on_world (on_store (so_create (ds_store D) rid v now)))"

definition update_run ::
  "('st, 'm, 'u) desk \<Rightarrow> (('st, 'm, 'u) desk_world_scheme, 'x) force_ext_scheme \<Rightarrow> string \<Rightarrow>
   run_status \<Rightarrow> string option \<Rightarrow> pyval \<Rightarrow> run_state option \<Rightarrow> ('st, 'm, 'u, unit) desk_eff" where
  "update_run D X rid status out json st =
     ebind (ask (x_now X)) (\<lambda>now.
     on_world (on_store (so_update (ds_store D) rid status out json st now)))"

text \<open>\<open>drain_handlers\<close>, with the rounds of \<open>await_pending\<close> bounded by the desk's fuel.\<close>

definition drain_handlers :: "('st, 'm, 'u) desk \<Rightarrow> ('st, 'm, 'u, unit) desk_eff" where
  "drain_handlers D =
     on_world (\<lambda>w. case drain_rounds (ds_handlers D) (ds_task_order D) (ds_rounds D) w of
        Some w' \<Rightarrow> (Inr (), w') | None \<Rightarrow> (Inl out_of_fuel, w))"

section \<open>Memory\<close>

definition memory_message :: "pytext \<Rightarrow> pyval \<Rightarrow> message" where
  "memory_message P v =
     mk_message System (CText (''Memory:'' @ nl @ (case v of PStr s \<Rightarrow> s | _ \<Rightarrow> json_text P v)))"

text \<open>The memory goes behind the leading system messages.\<close>

definition insert_memory :: "message \<Rightarrow> message list option \<Rightarrow> message list" where
  "insert_memory m initial =
     (case initial of
        None \<Rightarrow> [m]
      | Some ms \<Rightarrow> takeWhile (\<lambda>x. msg_role x = System) ms @ [m] @
                   dropWhile (\<lambda>x. msg_role x = System) ms)"

definition apply_memory ::
  "('st, 'm, 'u) desk \<Rightarrow> pytext \<Rightarrow> crew_member \<Rightarrow> job \<Rightarrow> ('st, 'm, 'u, job) desk_eff" where
  "apply_memory D P m j =
     (case ds_memory D of
        None \<Rightarrow> ret j
      | Some ops \<Rightarrow>
          ebind (gets (\<lambda>s. mo_read ops ''context'' (mb_scope m) (dw_memory (rt_world s)))) (\<lambda>r.
          ebind (from_sum r) (\<lambda>v.
          ret (if v = PNone then j
               else j\<lparr>job_initial_messages :=
                        Some (insert_memory (memory_message P v) (job_initial_messages j))\<rparr>))))"

definition resolve_stream_mode :: "('st, 'm, 'u) desk \<Rightarrow> job \<Rightarrow> job" where
  "resolve_stream_mode D j =
     (if job_stream_mode j \<noteq> None then j else j\<lparr>job_stream_mode := Some (ds_stream_mode D)\<rparr>)"

definition prepare_job ::
  "('st, 'm, 'u) desk \<Rightarrow> pytext \<Rightarrow> runner \<Rightarrow> job \<Rightarrow> ('st, 'm, 'u, job) desk_eff" where
  "prepare_job D P r j =
     (case r of
        RWorker m \<Rightarrow> apply_memory D P m (resolve_stream_mode D j)
      | _ \<Rightarrow> ret (resolve_stream_mode D j))"

definition memory_value :: "report \<Rightarrow> pyval" where
  "memory_value rep =
     (let v = (if rep_data rep \<noteq> PNone then rep_data rep else opt_str (rep_content rep))
      in case v of PModel c d \<Rightarrow> d | _ \<Rightarrow> v)"

definition write_memory ::
  "('st, 'm, 'u) desk \<Rightarrow> crew_member \<Rightarrow> report \<Rightarrow> ('st, 'm, 'u, unit) desk_eff" where
  "write_memory D m rep =
     (case ds_memory D of
        None \<Rightarrow> ret ()
      | Some ops \<Rightarrow>
          if rep_status rep \<noteq> Completed then ret ()
          else if rep_data rep = PNone \<and> rep_content rep = None then ret ()
          else on_world (on_memory (mo_write ops ''last_output'' (memory_value rep) (mb_scope m))))"

definition record_memory ::
  "('st, 'm, 'u) desk \<Rightarrow> crew_member option \<Rightarrow> report \<Rightarrow> ('st, 'm, 'u, unit) desk_eff" where
  "record_memory D m rep = (case m of Some w \<Rightarrow> write_memory D w rep | None \<Rightarrow> ret ())"

section \<open>Tools of paused runs\<close>

definition override_tools :: "override_item list \<Rightarrow> tool list" where
  "override_tools items = concat (map (\<lambda>i. case i of OvTool t \<Rightarrow> [t] | _ \<Rightarrow> []) items)"

definition pop_override :: "string \<Rightarrow> 'w desk_state \<Rightarrow> 'w desk_state" where
  "pop_override rid s = s\<lparr>dk_overrides := dict_pop rid (dk_overrides s)\<rparr>"

definition remember_override :: "string \<Rightarrow> run_state \<Rightarrow> 'w desk_state \<Rightarrow> 'w desk_state" where
  "remember_override rid st s =
     (case job_tools_override (rs_job st) of
        None \<Rightarrow> pop_override rid s
      | Some items \<Rightarrow>
          if override_tools items = [] then s
          else s\<lparr>dk_overrides := dict_set rid (override_tools items) (dk_overrides s)\<rparr>)"

text \<open>The loop over the stored override: names the desk remembers become tools again, what is left
  of them goes to the end.\<close>

fun restore_items :: "override_item list \<Rightarrow> (string \<times> tool) list \<Rightarrow> override_item list" where
  "restore_items [] by_name = map (\<lambda>kv. OvTool (snd kv)) by_name"
| "restore_items (OvName n # items) by_name =
     (case dict_get by_name n of
        Some t \<Rightarrow> OvTool t # restore_items items (dict_pop n by_name)
      | None \<Rightarrow> OvName n # restore_items items by_name)"
| "restore_items (OvTool t # items) by_name = OvTool t # restore_items items (dict_pop (tl_name t) by_name)"
| "restore_items (OvOther v # items) by_name = OvOther v # restore_items items by_name"

definition restore_override :: "tool list option \<Rightarrow> run_state \<Rightarrow> run_state" where
  "restore_override tools st =
     (case (tools, job_tools_override (rs_job st)) of
        (Some (t # ts), Some items) \<Rightarrow>
          rs_set_job ((rs_job st)\<lparr>job_tools_override := Some (restore_items items (allowed_tools (t # ts)))\<rparr>) st
      | _ \<Rightarrow> st)"

section \<open>The end of a run\<close>

definition error_list :: "string list \<Rightarrow> pyval" where
  "error_list errors = PList (map PStr errors)"

text \<open>\<open>state.payload["stream"] = stream_enabled\<close>.\<close>

definition with_stream :: "pyval \<Rightarrow> run_state \<Rightarrow> run_state" where
  "with_stream v st = rs_set_payload (dict_set ''stream'' (PlVal v) (rs_payload st)) st"

definition finalize_run ::
  "('st, 'm, 'u) desk \<Rightarrow> (('st, 'm, 'u) desk_world_scheme, 'x) force_ext_scheme \<Rightarrow>
   crew_member option \<Rightarrow> string \<Rightarrow> pyval \<Rightarrow> report \<times> run_state option \<Rightarrow>
   ('st, 'm, 'u, report) desk_eff" where
  "finalize_run D X m rid stream_enabled = (\<lambda>(rep, st).
     eseq
      (if st \<noteq> None \<and> rep_status rep = Paused
       then let st' = with_stream stream_enabled (the st)
            in eseq (modify (remember_override rid st'))
              (eseq (desk_emit D X rid RunPaused [])
                    (update_run D X rid Paused (rep_content rep) PNone (Some st')))
       else if rep_status rep = Completed
       then eseq (modify (pop_override rid))
           (eseq (desk_emit D X rid RunCompleted [])
           (eseq (update_run D X rid Completed (rep_content rep) (to_json_value (rep_data rep)) None)
                 (record_memory D m rep)))
       else eseq (modify (pop_override rid))
           (eseq (desk_emit D X rid RunFailed [(''errors'', error_list (rep_errors rep))])
                 (update_run D X rid Failed (rep_content rep) (to_json_value (rep_data rep)) None)))
      (ret rep))"

text \<open>The report is built, and copies the events, before the failure is emitted.\<close>

definition fail_resume ::
  "('st, 'm, 'u) desk \<Rightarrow> (('st, 'm, 'u) desk_world_scheme, 'x) force_ext_scheme \<Rightarrow> report \<Rightarrow> string \<Rightarrow>
   ('st, 'm, 'u, report) desk_eff" where
  "fail_resume D X rep message =
     ebind (gets (\<lambda>s. build_report (rep_run_id rep) Failed None None PNone (rep_messages rep)
                        (rep_tool_calls rep) (rep_metrics rep) (rt_events s) None [message])) (\<lambda>failed.
     eseq (desk_emit D X (rep_run_id rep) RunFailed [(''errors'', error_list [message])])
    (eseq (update_run D X (rep_run_id rep) Failed None PNone None)
    (eseq (modify (pop_override (rep_run_id rep)))
          (ret failed))))"

text \<open>\<open>try: emit; finally: forget the tools, store the failure\<close>.\<close>

definition record_unexpected_failure ::
  "('st, 'm, 'u) desk \<Rightarrow> (('st, 'm, 'u) desk_world_scheme, 'x) force_ext_scheme \<Rightarrow> string \<Rightarrow> exc \<Rightarrow>
   ('st, 'm, 'u, unit) desk_eff" where
  "record_unexpected_failure D X rid e =
     (let error_message = sanitize_exception_message e;
          error_type = exc_class e
      in finally_do
           (eseq (modify (pop_override rid))
                 (update_run D X rid Failed None
                    (PDict [(''error'', PStr error_message), (''error_type'', PStr error_type)]) None))
           (desk_emit D X rid RunFailed
              [(''errors'', error_list [error_message]), (''error_type'', PStr error_type)]))"

section \<open>\<open>arun\<close>\<close>

definition start_run :: "('st, 'm, 'u, unit) desk_eff" where
  "start_run = modify (\<lambda>s. s\<lparr>rt_events := [], rt_totals := []\<rparr>)"

definition the_run_id ::
  "(('st, 'm, 'u) desk_world_scheme, 'x) force_ext_scheme \<Rightarrow> string option \<Rightarrow>
   ('st, 'm, 'u, string) desk_eff" where
  "the_run_id X rid = (if truthy rid then ret (or_str rid []) else ask (x_new_id X))"

text \<open>The call of the runner; \<open>X\<close> are the externals of the desk's run.\<close>

definition run_runner ::
  "('st, 'm, 'u) desk \<Rightarrow> (('st, 'm, 'u) desk_world_scheme, 'x) force_ext_scheme \<Rightarrow> runner \<Rightarrow>
   run_config \<Rightarrow> job \<Rightarrow> ('st, 'm, 'u, report \<times> run_state option) desk_eff" where
  "run_runner D X r c j =
     (case r of
        RWorker m \<Rightarrow> eseq (modify (register_worker m)) (member_arun (desk_env D X) m c j)
      | RWorkforce crew \<Rightarrow>
          eseq (modify (register_workforce crew))
            (workforce_arun (desk_env D X) (member_arun (desk_env D X)) crew c j
               (Some (drain_handlers D)))
      | ROther t \<Rightarrow> raise (TypeErr ''Runner must be Worker or Workforce''))"

text \<open>The \<open>try\<close> around it: whatever it raises is recorded and raised again.\<close>

definition guarded_run ::
  "('st, 'm, 'u) desk \<Rightarrow> (('st, 'm, 'u) desk_world_scheme, 'x) force_ext_scheme \<Rightarrow> runner \<Rightarrow>
   string \<Rightarrow> run_config \<Rightarrow> job \<Rightarrow> ('st, 'm, 'u, report \<times> run_state option) desk_eff" where
  "guarded_run D X r rid c j =
     try_with (run_runner D X r c j)
       (\<lambda>e. eseq (record_unexpected_failure D X rid e) (raise e))"

definition runner_worker :: "runner \<Rightarrow> crew_member option" where
  "runner_worker r = (case r of RWorker m \<Rightarrow> Some m | _ \<Rightarrow> None)"

definition desk_arun ::
  "('st, 'm, 'u) desk \<Rightarrow> (('st, 'm, 'u) desk_world_scheme, 'x) force_ext_scheme \<Rightarrow> runner \<Rightarrow> job \<Rightarrow>
   bool option \<Rightarrow> string option \<Rightarrow> ('st, 'm, 'u, report) desk_eff" where
  "desk_arun D X r j0 stream rid0 =
     eseq ensure_open
    (ebind (the_run_id X rid0) (\<lambda>rid.
     eseq start_run
    (let stream_enabled = (case stream of None \<Rightarrow> ds_stream D | Some b \<Rightarrow> b)
     in ebind (prepare_job D (x_text X) r j0) (\<lambda>j.
        ebind (from_sum (ds_dump_job D j)) (\<lambda>dump.
        eseq (create_run D X rid dump)
       (eseq (desk_emit D X rid RunStarted [(''job_id'', PStr (job_id j))])
       (ebind (from_sum (checked_config (make_run_config D rid stream_enabled))) (\<lambda>c.
        ebind (guarded_run D X r rid c j)
          (finalize_run D X (runner_worker r) rid (PBool stream_enabled))))))))))"

section \<open>\<open>aresume\<close>\<close>

definition missing_run_report :: "report \<Rightarrow> report" where
  "missing_run_report rep =
     build_report (rep_run_id rep) Failed None None PNone (rep_messages rep) (rep_tool_calls rep)
       (rep_metrics rep) (rep_events rep) None [''No stored state'']"

text \<open>\<open>stream if stream is not None else state.payload.get("stream", self.stream)\<close>.\<close>

definition resume_stream :: "('st, 'm, 'u) desk \<Rightarrow> bool option \<Rightarrow> run_state \<Rightarrow> pyval" where
  "resume_stream D stream st =
     (case stream of
        Some b \<Rightarrow> PBool b
      | None \<Rightarrow> (case stored_value (dict_get (rs_payload st) ''stream'') of
                   Some v \<Rightarrow> v | None \<Rightarrow> PBool (ds_stream D)))"

text \<open>The rest of \<open>aresume\<close> for a worker or workforce state.\<close>

definition resume_runner ::
  "('st, 'm, 'u) desk \<Rightarrow> (('st, 'm, 'u) desk_world_scheme, 'x) force_ext_scheme \<Rightarrow> report \<Rightarrow>
   run_state \<Rightarrow> pyval \<Rightarrow> pyval \<Rightarrow> run_config \<Rightarrow> ('st, 'm, 'u, report) desk_eff" where
  "resume_runner D X rep st d stream_enabled c =
     (if rs_runner_type st = ''worker''
      then ebind (gets (get_worker (rs_runner_name st))) (\<lambda>w.
        case w of
          None \<Rightarrow> fail_resume D X rep ''Worker not registered''
        | Some m \<Rightarrow> ebind (member_aresume (desk_env D X) m c st d)
                      (finalize_run D X (Some m) (rep_run_id rep) stream_enabled))
      else if rs_runner_type st = ''workforce''
      then ebind (gets (get_workforce (rs_runner_name st))) (\<lambda>w.
        case w of
          None \<Rightarrow> fail_resume D X rep ''Workforce not registered''
        | Some crew \<Rightarrow>
            ebind (workforce_aresume (desk_env D X) (member_arun (desk_env D X))
                     (member_aresume (desk_env D X)) crew c st d)
              (finalize_run D X None (rep_run_id rep) stream_enabled))
      else fail_resume D X rep ''Unknown runner type'')"

definition desk_aresume ::
  "('st, 'm, 'u) desk \<Rightarrow> (('st, 'm, 'u) desk_world_scheme, 'x) force_ext_scheme \<Rightarrow>
   (nat \<Rightarrow> report \<Rightarrow> pyval \<Rightarrow> bool option \<Rightarrow> ('st, 'm, 'u, report) desk_eff) \<Rightarrow> report \<Rightarrow> pyval \<Rightarrow>
   bool option \<Rightarrow> ('st, 'm, 'u, report) desk_eff" where
  "desk_aresume D X flow_aresume rep d stream =
     eseq ensure_open
    (ebind (gets (\<lambda>s. so_get (ds_store D) (rep_run_id rep) (dw_store (rt_world s)))) (\<lambda>r.
     ebind (from_sum r) (\<lambda>record.
     case record of
       None \<Rightarrow> ret (missing_run_report rep)
     | Some rc \<Rightarrow>
         ebind (gets (\<lambda>s. so_events (ds_store D) (rep_run_id rep) (dw_store (rt_world s)))) (\<lambda>es.
         ebind (from_sum es) (\<lambda>events.
         eseq (modify (\<lambda>s. s\<lparr>rt_events := events, rt_totals := []\<rparr>))
         (case rc_state rc of
            None \<Rightarrow> fail_resume D X rep ''No stored state''
          | Some st0 \<Rightarrow>
              ebind (gets (\<lambda>s. restore_override (dict_get (dk_overrides s) (rep_run_id rep)) st0)) (\<lambda>st.
              if rs_runner_type st = ''flow''
              then ebind (gets (\<lambda>s. dict_get (dk_flows s) (rep_run_id rep))) (\<lambda>f.
                case f of
                  None \<Rightarrow> fail_resume D X rep ''Flow not registered''
                | Some flow \<Rightarrow> flow_aresume flow rep d stream)
              else
                let stream_enabled = resume_stream D stream st
                in eseq (desk_emit D X (rep_run_id rep) RunResumed [])
                  (ebind (from_sum (checked_config (make_run_config D (rep_run_id rep) (py_bool stream_enabled))))
                     (resume_runner D X rep st d stream_enabled)))))))))"

text \<open>\<open>close\<close>; whether the run store is closed first, and fails to, is an argument.\<close>

definition desk_close :: "('w desk_state, unit) eff \<Rightarrow> ('w desk_state, unit) eff \<Rightarrow> ('w desk_state, unit) eff" where
  "desk_close close_store close_memory =
     ebind (gets dk_closed) (\<lambda>c.
     if c then ret ()
     else finally_do (eseq close_memory (modify (\<lambda>s. s\<lparr>dk_closed := True\<rparr>))) close_store)"

end
