(* ===== verification/World_Moves.thy ===== *)
theory World_Moves
  imports Workforce_Modes
begin

text \<open>
  How far a run reaches: whatever the externals of a run do to the world along a preorder \<open>W\<close>, a
  whole worker or workforce run does (locales \<open>world_moves\<close> and \<open>force_moves\<close>, whose assumptions are
  one law per external).  The desk uses it with \<open>W\<close> the relation "the stored runs are the same".
  The calculus is \<open>moving R m\<close>: from every state \<open>m\<close> leaves a state in relation \<open>R\<close>, whether it
  returns or raises.  \<open>via W\<close> relates the worlds of two states of a run, \<open>still W\<close> also leaves
  everything alone that a run's state is extended by.
\<close>

named_theorems moves "rules for where an effect moves its state"

section \<open>The calculus\<close>

definition moving :: "('s \<Rightarrow> 's \<Rightarrow> bool) \<Rightarrow> ('s, 'a) eff \<Rightarrow> bool" where
  "moving R m \<longleftrightarrow> (\<forall>s. R s (snd (m s)))"

definition pre :: "('s \<Rightarrow> 's \<Rightarrow> bool) \<Rightarrow> bool" where
  "pre R \<longleftrightarrow> (\<forall>s. R s s) \<and> (\<forall>a b c. R a b \<longrightarrow> R b c \<longrightarrow> R a c)"

lemma preD: "pre R \<Longrightarrow> R s s" "pre R \<Longrightarrow> R a b \<Longrightarrow> R b c \<Longrightarrow> R a c"
  by (auto simp: pre_def)

lemma movingD: "moving R m \<Longrightarrow> m s = (r, s') \<Longrightarrow> R s s'"
  by (metis moving_def snd_conv)

lemma moving_ret [moves]: "pre R \<Longrightarrow> moving R (ret a)"
  by (simp add: moving_def ret_def preD)

lemma moving_raise [moves]: "pre R \<Longrightarrow> moving R (raise e)"
  by (simp add: moving_def raise_def preD)

lemma moving_gets [moves]: "pre R \<Longrightarrow> moving R (gets f)"
  by (simp add: moving_def gets_def preD)

lemma moving_from_sum [moves]: "pre R \<Longrightarrow> moving R (from_sum r)"
  by (simp add: moving_def from_sum_def preD)

lemma moving_ebind [moves]:
  "pre R \<Longrightarrow> moving R m \<Longrightarrow> (\<And>a. moving R (f a)) \<Longrightarrow> moving R (ebind m f)"
  by (auto simp: moving_def ebind_def split: prod.split sum.split) (metis preD(2) snd_conv)+

lemma moving_eseq [moves]: "pre R \<Longrightarrow> moving R m \<Longrightarrow> moving R k \<Longrightarrow> moving R (eseq m k)"
  unfolding eseq_def by (rule moving_ebind)

lemma moving_try [moves]:
  "pre R \<Longrightarrow> moving R m \<Longrightarrow> (\<And>e. moving R (h e)) \<Longrightarrow> moving R (try_with m h)"
  by (auto simp: moving_def try_with_def split: prod.split sum.split) (metis preD(2) snd_conv)+

lemma moving_attempt [moves]: "moving R m \<Longrightarrow> moving R (attempt m)"
  by (simp add: moving_def attempt_def split: prod.split) (metis snd_conv)

lemma moving_each [moves]: "pre R \<Longrightarrow> (\<And>x. moving R (f x)) \<Longrightarrow> moving R (each f xs)"
  by (induction xs) (auto intro!: moves)

lemma moving_collect [moves]: "pre R \<Longrightarrow> (\<And>x. moving R (f x)) \<Longrightarrow> moving R (collect f xs)"
  by (induction xs) (auto intro!: moves)

lemma moving_if [moves]: "(b \<Longrightarrow> moving R m) \<Longrightarrow> (\<not> b \<Longrightarrow> moving R m') \<Longrightarrow> moving R (if b then m else m')"
  by simp

lemma moving_finally [moves]: "pre R \<Longrightarrow> moving R f \<Longrightarrow> moving R m \<Longrightarrow> moving R (finally_do f m)"
  by (simp add: finally_do_def moves)

lemma moving_run_tasks [moves]: "pre R \<Longrightarrow> (\<And>i. moving R (f i)) \<Longrightarrow> moving R (run_tasks f is)"
  by (induction "is") (auto intro!: moves)

lemma moving_wait [moves]: "pre R \<Longrightarrow> (\<And>i. moving R (f i)) \<Longrightarrow> moving R (wait_first_exception f is)"
  by (induction "is") (auto intro!: moves split: sum.split)

lemma moving_wp: "moving R m \<Longrightarrow> wp m (\<lambda>_. R s) (\<lambda>_. R s) s"
  by (auto simp: moving_def wp_def split: prod.splits sum.splits) (metis snd_conv)+

definition via :: "('w \<Rightarrow> 'w \<Rightarrow> bool) \<Rightarrow> ('w, 'z) rt_scheme \<Rightarrow> ('w, 'z) rt_scheme \<Rightarrow> bool" where
  "via W s s' \<longleftrightarrow> W (rt_world s) (rt_world s')"

definition still :: "('w \<Rightarrow> 'w \<Rightarrow> bool) \<Rightarrow> ('w, 'z) rt_scheme \<Rightarrow> ('w, 'z) rt_scheme \<Rightarrow> bool" where
  "still W s s' \<longleftrightarrow> W (rt_world s) (rt_world s') \<and> rt.more s' = rt.more s"

text \<open>Relations a run may use freely: they do not look at its events and totals.\<close>

definition over :: "('w \<Rightarrow> 'w \<Rightarrow> bool) \<Rightarrow> (('w, 'z) rt_scheme \<Rightarrow> ('w, 'z) rt_scheme \<Rightarrow> bool) \<Rightarrow> bool" where
  "over W R \<longleftrightarrow> pre R \<and>
     (\<forall>s es t w. W (rt_world s) w \<longrightarrow> R s (s\<lparr>rt_events := es, rt_totals := t, rt_world := w\<rparr>))"

lemma over_via: "pre W \<Longrightarrow> over W (via W)"
  by (auto simp: over_def pre_def via_def)

lemma over_still: "pre W \<Longrightarrow> over W (still W)"
  by (auto simp: over_def pre_def still_def)

lemma over_pre: "over W R \<Longrightarrow> pre R"
  by (simp add: over_def)

lemma over_worlds:
  assumes "over W R" "W (rt_world s) w"
  shows "R s (s\<lparr>rt_world := w\<rparr>)" "R s (s\<lparr>rt_events := es, rt_totals := t, rt_world := w\<rparr>)"
proof -
  have all: "R s (s\<lparr>rt_events := es, rt_totals := t, rt_world := w\<rparr>)" for es t
    using assms by (simp add: over_def)
  show "R s (s\<lparr>rt_world := w\<rparr>)" using all[where es = "rt_events s" and t = "rt_totals s"] by simp
  show "R s (s\<lparr>rt_events := es, rt_totals := t, rt_world := w\<rparr>)" by (rule all)
qed

lemma moving_on_world: "over W R \<Longrightarrow> moving W m \<Longrightarrow> moving R (on_world m)"
  by (auto simp: moving_def on_world_def split: prod.split)
    (metis over_worlds(1) snd_conv)

lemma moving_ask: "over W R \<Longrightarrow> (\<And>w. W w (snd (f w))) \<Longrightarrow> moving R (ask f)"
  unfolding ask_def by (rule moving_on_world) (auto simp: moving_def)

lemma moving_modify_via [moves]:
  "pre W \<Longrightarrow> (\<And>s. rt_world (f s) = rt_world s) \<Longrightarrow> moving (via W) (modify f)"
  by (simp add: moving_def modify_def via_def preD)

lemma moving_modify_still [moves]:
  "pre W \<Longrightarrow> (\<And>s. rt_world (f s) = rt_world s) \<Longrightarrow> (\<And>s. rt.more (f s) = rt.more s) \<Longrightarrow>
   moving (still W) (modify f)"
  by (simp add: moving_def modify_def still_def preD)

lemma moving_in_loop: "over W R \<Longrightarrow> moving (via W) m \<Longrightarrow> moving R (in_loop ms tcs mt i m)"
  by (auto simp: moving_def in_loop_def start_loop_def via_def split: prod.split)
    (metis over_worlds(2) rt.select_convs(3) snd_conv)

section \<open>Workers\<close>

locale world_moves =
  fixes W :: "'w \<Rightarrow> 'w \<Rightarrow> bool"
    and X :: "('w, 'x) run_ext_scheme"
  assumes pre_W [simp]: "pre W"
    and invoke: "W w (snd (x_invoke X f args q b w))"
    and hook: "moving W (x_hook X h c r)"
    and sleep: "W w (x_sleep X d w)"
    and wait_cancel: "W w (snd (x_wait_cancel X d w))"
    and progress: "moving W (x_progress X m)"
    and new_id: "W w (snd (x_new_id X w))"
    and now: "W w (snd (x_now X w))"
    and deliver: "moving W (x_deliver X e)"
    and complete: "W w (snd (x_complete X rq w))" "W w (snd (x_acomplete X rq w))"
    and structured: "W w (snd (x_structured X srq w))" "W w (snd (x_astructured X srq w))"
begin

lemma via_over [simp]: "over W (via W)" "pre (via W)"
  using over_via[OF pre_W] over_pre by blast+

lemma still_over [simp]: "over W (still W)" "pre (still W)"
  using over_still[OF pre_W] over_pre by blast+

lemma step: "W a b \<Longrightarrow> W b c \<Longrightarrow> W a c"
  by (rule preD(2)[OF pre_W])

lemma stay [simp]: "W w w"
  by (rule preD(1)[OF pre_W])

lemma world_rules [moves]:
  "over W R \<Longrightarrow> moving W m \<Longrightarrow> moving R (on_world m)"
  "over W R \<Longrightarrow> (\<And>w. W w (snd (f w))) \<Longrightarrow> moving R (ask f)"
  "over W R' \<Longrightarrow> moving (via W) l \<Longrightarrow> moving R' (in_loop ms tcs mt i l)"
  by (rule moving_on_world moving_ask moving_in_loop; assumption)+

lemma execute_once_moves: "W w (snd (execute_once X t args q b w))"
  using invoke[of w "tl_callable t" args q b]
  by (auto simp: execute_once_def split: prod.splits invocation.splits option.splits)

lemma async_retries_moves: "moving W (async_retries X t args ce op n k p)"
proof (induction n arbitrary: k p)
  case (Suc n)
  have once: "moving W (\<lambda>w. apfst Inr (execute_once X t args q b w))" for q b
    using execute_once_moves by (auto simp: moving_def)
  have wait: "moving W (retry_wait X b d)" for b d
    using sleep wait_cancel by (auto simp: moving_def retry_wait_def split: prod.split) (metis snd_conv)
  have report: "moving W (report_progress X op m)" for m
    by (auto simp: report_progress_def intro!: moves progress)
  show ?case
    by (auto simp: Let_def intro!: moves once wait report Suc)
qed (auto intro!: moves)

lemma post_hooks_moves: "W w (snd (finish_with_post_hooks X t c r w))"
proof -
  have "moving W (run_post_hooks X t c r)" by (auto simp: run_post_hooks_def intro!: moves hook)
  then show ?thesis
    by (auto simp: finish_with_post_hooks_def dest: movingD split: prod.split sum.split)
qed

lemma aexecute_tool_moves [moves]: "moving W (aexecute_tool X t c ce op)"
  unfolding moving_def
proof
  fix w
  have pre: "moving W (run_pre_hooks X t c)" by (auto simp: run_pre_hooks_def intro!: moves hook)
  obtain r w1 where r: "run_pre_hooks X t c w = (r, w1)" by fastforce
  then have 1: "W w w1" by (rule movingD[OF pre])
  note post = step[OF _ post_hooks_moves]
  show "W w (snd (aexecute_tool X t c ce op w))"
  proof (cases "validate_tool_call X c t")
    case (Inl e)
    with r 1 post show ?thesis by (cases r) (auto simp: aexecute_tool_def)
  next
    case (Inr args)
    obtain q w2 where q: "async_retries X t args ce op (nat (tl_retries t + 1)) 0 None w1 = (q, w2)"
      by fastforce
    then have "W w w2" using movingD[OF async_retries_moves] 1 step by blast
    with r 1 Inr q post show ?thesis by (cases r; cases q) (auto simp: aexecute_tool_def)
  qed
qed

lemma emit_moves [moves]: "over W R \<Longrightarrow> moving R (emit X rid ty src payload)"
proof -
  assume R: "over W R"
  then have "pre R" by (rule over_pre)
  moreover have "moving R (modify (\<lambda>s. s\<lparr>rt_events := rt_events s @ [e]\<rparr>))" for e
    unfolding moving_def
  proof
    fix s
    from over_worlds(2)[OF R stay, where s = s and es = "rt_events s @ [e]" and t = "rt_totals s"]
    show "R s (snd (modify (\<lambda>s. s\<lparr>rt_events := rt_events s @ [e]\<rparr>) s))" by (simp add: modify_def)
  qed
  ultimately show ?thesis
    using R by (auto simp: emit_def Let_def intro!: moves new_id now deliver)
qed

lemma adapter_call_moves [moves]:
  "(\<And>w. W w (snd (f w))) \<Longrightarrow> moving (via W) (adapter_call X c f)"
  by (auto simp: adapter_call_def intro!: moves)

lemma summarize_chunk_moves: "moving W (asummarize_chunk X model q chunk)"
proof -
  have plain: "moving W (plain_call (x_complete X rq))" "moving W (plain_call (x_acomplete X rq))" for rq
    using complete by (auto simp: moving_def plain_call_def split: prod.split) (metis snd_conv)+
  show ?thesis
    by (auto simp: asummarize_chunk_def summarize_chunk_def intro!: moves plain split: sum.split)
qed

lemma summarize_moves: "moving W (asummarize_messages X model ms q)"
proof -
  have attempt: "moving W (summarize_attempt X (asummarize_chunk X model q) model tx n)" for tx n
    by (auto simp: summarize_attempt_def Let_def intro!: moves summarize_chunk_moves)
  have tries: "moving W (summarize_tries X (asummarize_chunk X model q) model tx k n)" for tx k n
    by (induction k arbitrary: n) (auto intro!: moves attempt)
  show ?thesis
    by (auto simp: asummarize_messages_def summarize_with_def intro!: moves tries)
qed

lemma summary_moves [moves]: "moving (via W) (aapply_context_summary X c model worker reg b l ms mt)"
  by (auto simp: aapply_context_summary_def apply_summary_with_def commit_context_summary_def Let_def
      intro!: moves summarize_moves split: prod.split sum.split option.split)

lemma process_deltas_moves: "moving (via W) (process_deltas X c worker known b ds n acc)"
  by (induction ds arbitrary: n acc)
    (auto simp: emit_token_def intro!: moves split: prod.split sum.split)

lemma consume_stream_moves [moves]: "moving (via W) (consume_stream X c worker known chs failure)"
proof -
  have "moving (via W) (process_chunks X c worker known chs acc)" for acc
    by (induction chs arbitrary: acc)
      (auto simp: process_chunk_def emit_token_def intro!: moves process_deltas_moves split: prod.split)
  moreover have "moving (via W) (stream_response X acc)" for acc
    by (auto simp: stream_response_def streamed_tool_calls_def streamed_tool_call_def Let_def
        intro!: moves new_id split: prod.split option.split)
  ultimately show ?thesis
    by (auto simp: consume_stream_def intro!: moves split: option.split)
qed

lemma acompletion_moves [moves]: "moving (via W) (acompletion X c model ms ts j)"
  by (auto simp: acompletion_def Let_def intro!: moves complete)

lemma astream_moves [moves]: "moving (via W) (astream_completion X c worker model ms ts j sch)"
  by (auto simp: astream_completion_def open_stream_def Let_def intro!: moves complete
      split: option.split completion.split)

lemma record_turn_usage_moves [moves]: "moving (via W) (record_turn_usage X cx u)"
  by (auto simp: moving_def record_turn_usage_def via_def split: sum.split prod.split)

lemma astructured_moves [moves]: "moving (via W) (astructured_completion X cx j sch)"
  by (auto simp: astructured_completion_def Let_def intro!: moves structured split: structured.split)

lemma add_message_moves [moves]: "moving (via W) (add_message m)"
  by (auto simp: add_message_def intro!: moves)

lemma ends_moves [moves]:
  "moving (via W) (report_of cx st a b d p)" "moving (via W) (fail_report X cx msg)"
  "moving (via W) (finalize_structured_response X cx data)"
  "moving (via W) (finalize_plain_response X cx r)" "moving (via W) (pause cx j pa)"
  "moving (via W) (emit_assistant_message X c worker m)"
  by (auto simp: report_of_def fail_report_def finalize_structured_response_def
      finalize_plain_response_def pause_def emit_assistant_message_def Let_def intro!: moves)

lemma handle_context_limit_moves [moves]: "moving (via W) (handle_context_limit X cx)"
  "moving (via W) (summarize_context X cx b l)"
  by (auto simp: handle_context_limit_def resolve_context_retry_def summarize_context_def Let_def
      intro!: moves split: option.split prod.split)

lemma finish_call_moves [moves]: "moving (via W) (finish_call X c src call r)"
  by (auto simp: finish_call_def intro!: moves)

lemma gather_tools_moves:
  "moving (via W) (gather X (map (\<lambda>(call, t). on_world (aexecute_tool X t call False False)) ys))"
  (is "moving _ (gather X ?ts)")
proof -
  have "moving (via W) (run_tasks (\<lambda>i. ?ts ! i) is)" if "set is \<subseteq> {..<length ys}" for "is"
    using that
  proof (induction "is")
    case (Cons i "is")
    then show ?case by (auto intro!: moves split: prod.split)
  qed (auto intro!: moves)
  then have "moving (via W) (run_tasks (\<lambda>i. ?ts ! i) (schedule X w (length ?ts)))" for w
    by (simp add: schedule_perm)
  then show ?thesis
    unfolding gather_def by (intro moving_ebind moving_gets moving_ret via_over)
qed

lemma run_executable_many:
  "\<nexists>x. xs = [x] \<Longrightarrow>
   run_executable X xs = gather X (map (\<lambda>(call, t). on_world (aexecute_tool X t call False False)) xs)"
  by (auto simp: run_executable_def split: list.split)

lemma run_executable_moves [moves]: "moving (via W) (run_executable X xs)"
proof (cases "\<exists>x. xs = [x]")
  case True
  then show ?thesis by (auto simp: run_executable_def intro!: moves split: prod.split)
qed (simp add: run_executable_many gather_tools_moves)

lemma aexecute_tool_calls_moves [moves]: "moving (via W) (aexecute_tool_calls X c p)"
  by (auto simp: aexecute_tool_calls_def Let_def intro!: moves split: prod.split)

lemma acquire_moves [moves]: "moving (via W) (acquire_turn_response X cx j ts)"
  "moving (via W) (structured_answer X cx j sch)"
  by (auto simp: acquire_turn_response_def structured_answer_def if_context_limit_def Let_def
      intro!: moves split: option.split sum.split)

lemma run_plan_moves [moves]: "moving (via W) (run_plan X cx allowed r)"
proof -
  have plan: "W w (snd (plan_calls X allowed l cs tcs p w))" for l cs tcs p w
    by (induction cs arbitrary: tcs p w)
      (auto simp: Let_def split: option.split prod.split, metis new_id snd_conv)
  show ?thesis
    by (auto simp: run_plan_def plan_tool_calls_def intro!: moves plan split: prod.split)
qed

lemma turn_moves [moves]: "moving (via W) (turn X cx j ts)"
  by (auto simp: turn_def model_turn_def process_turn_response_def tool_turn_def after_plan_def
      emit_pause_def compact_if_long_def Let_def intro!: moves
      split: option.split prod.split action_type.split)

lemma arun_loop_moves [moves]: "moving (via W) (arun_loop X belt cx j)"
proof -
  have "moving (via W) (loop_fuel X cx j ts n)" for ts n
    by (induction n) (auto intro!: moves split: option.split)
  then show ?thesis by (auto simp: arun_loop_def intro!: moves split: option.split)
qed

lemma arun_moves: "moving (still W) (arun X wk c j model)"
  by (auto simp: arun_def no_model_def Let_def intro!: moves)

lemma aresume_moves: "moving (still W) (aresume X wk c st d model)"
proof -
  have "moving (via W) (answer_pending X wk cc jj pa d)" for cc jj pa
    by (auto simp: answer_pending_def Let_def intro!: moves split: option.split)
  then show ?thesis
    by (auto simp: aresume_def resume_worker_def no_model_def Let_def intro!: moves split: option.split)
qed

end

section \<open>Workforces\<close>

locale force_moves = world_moves W X
  for W :: "'w \<Rightarrow> 'w \<Rightarrow> bool" and X :: "('w, 'x) force_ext_scheme" +
  assumes reduce: "moving W (x_reduce X f reps)"
begin

lemma paused_moves [moves]: "moving (still W) (paused_workforce crew rid rep j ws stage payload)"
  "moving (still W) (aggregate_failed c rid reports)" "moving (still W) (resume_failed_report st c msg)"
  "moving (still W) (reduce_reports X crew c rid reports)" "moving (still W) (with_totals out)"
  "moving (still W) (stored_root_job X st)"
  by (auto simp: paused_workforce_def aggregate_failed_def resume_failed_report_def reduce_reports_def
      with_totals_def stored_root_job_def intro!: moves reduce split: option.split prod.split)

lemma member_moves [moves]:
  "moving (still W) (member_arun X m c j)" "moving (still W) (member_aresume X m c st d)"
  by (simp_all add: member_arun_def member_aresume_def arun_moves aresume_moves)

lemma swarm_moves [moves]: "moving (still W) (swarm_loop (member_arun X) crew c rid m j n h out)"
proof -
  have rounds: "moving (still W) (swarm_rounds (member_arun X) crew c rid k m j n h out)" for k m j n h out
    by (induction k arbitrary: m j n h out)
      (auto simp: Let_def intro!: moves split: prod.split sum.split option.split)
  show ?thesis
    by (auto simp: swarm_loop_def simp del: swarm_rounds.simps intro!: moves rounds split: option.split)
qed

lemma managed_moves [moves]: "moving (still W) (manager_done (member_arun X) crew c rid j out)"
  "moving (still W) (worker_done crew rid j m out)"
  by (auto simp: manager_done_def worker_done_def Let_def intro!: moves split: prod.split option.split)

lemma collaborate_moves [moves]:
  "moving (still W) (collaborate_from X (member_arun X) crew c rid j ms reports)"
  by (induction ms arbitrary: reports) (auto intro!: moves split: prod.split option.split)

lemma parallel_moves [moves]:
  "(\<And>d. drain = Some d \<Longrightarrow> moving (still W) d) \<Longrightarrow>
   moving (still W) (arun_collaborate_parallel X (member_arun X) crew c j drain)"
  by (auto simp: arun_collaborate_parallel_def parallel_outcomes_def intro!: moves
      split: option.split sum.split prod.split)

lemma workforce_arun_moves:
  "(\<And>d. drain = Some d \<Longrightarrow> moving (still W) d) \<Longrightarrow>
   moving (still W) (workforce_arun X (member_arun X) crew c j drain)"
  by (auto simp: workforce_arun_def arun_mode_def arun_swarm_mode_def arun_managed_mode_def
      arun_collaborate_mode_def intro!: moves new_id split: workforce_mode.split)

lemma workforce_aresume_moves:
  "moving (still W) (workforce_aresume X (member_arun X) (member_aresume X) crew c st d)"
  by (auto simp: workforce_aresume_def aresume_stage_def aresume_swarm_stage_def
      aresume_manager_stage_def aresume_worker_stage_def aresume_collaborate_stage_def
      collaborate_done_def Let_def intro!: moves
      split: option.split sum.split prod.split payload_val.split pyval.split)

end

end
