(* ===== verification/Desk_Laws.thy ===== *)
theory Desk_Laws
  imports Desk World_Moves Run_Store_Laws Member_Contract
begin

text \<open>
  What the desk guarantees over any run store that keeps the contract \<open>run_store\<close>, when neither
  the externals of its runs nor its event handlers write to the store themselves: the locale
  \<open>desk_runs\<close>, whose client lemmas say what is stored of a run at each of its ends.
\<close>

definition same_store :: "('st, 'm, 'u) desk_world_scheme \<Rightarrow> ('st, 'm, 'u) desk_world_scheme \<Rightarrow> bool" where
  "same_store w w' \<longleftrightarrow> dw_store w' = dw_store w"

lemma pre_same_store [simp]: "pre same_store"
  by (simp add: pre_def same_store_def)

abbreviation stored :: "('st, 'm, 'u) desk_world_scheme desk_state \<Rightarrow> 'st" where
  "stored s \<equiv> dw_store (rt_world s)"

text \<open>What \<open>finalize_run\<close> leaves in the record of a run, and its part a reader of the report knows:
  the status the report has, a state exactly when the run can be resumed.\<close>

definition final_record ::
  "(run_state \<Rightarrow> run_state) \<Rightarrow> pyval \<Rightarrow> report \<times> run_state option \<Rightarrow> run_record \<Rightarrow> bool" where
  "final_record load se = (\<lambda>(rep, st) r. rc_output r = rep_content rep \<and>
     (if st \<noteq> None \<and> rep_status rep = Paused
      then rc_status r = Paused \<and> rc_state r = Some (load (with_stream se (the st)))
      else rc_status r = (if rep_status rep = Completed then Completed else Failed) \<and> rc_state r = None))"

definition recorded :: "report \<Rightarrow> run_record \<Rightarrow> bool" where
  "recorded rep r \<longleftrightarrow> rc_output r = rep_content rep \<and>
     (case rc_status r of
        Paused \<Rightarrow> rep_status rep = Paused \<and> rc_state r \<noteq> None
      | Completed \<Rightarrow> rep_status rep = Completed \<and> rc_state r = None
      | Failed \<Rightarrow> rep_status rep \<noteq> Completed \<and> rc_state r = None
      | Running \<Rightarrow> False)"

lemma final_record_recorded: "final_record load se (rep, st) r \<Longrightarrow> recorded rep r"
  by (auto simp: final_record_def recorded_def split: if_splits)

definition end_event :: "run_status \<Rightarrow> event_type" where
  "end_event st = (case st of Paused \<Rightarrow> RunPaused | Completed \<Rightarrow> RunCompleted | _ \<Rightarrow> RunFailed)"

section \<open>Tools of paused runs\<close>

fun item_name :: "override_item \<Rightarrow> string" where
  "item_name (OvTool t) = tl_name t"
| "item_name (OvName n) = n"
| "item_name (OvOther v) = []"

definition usual_items :: "override_item list \<Rightarrow> bool" where
  "usual_items items \<longleftrightarrow> distinct (map item_name items) \<and> (\<forall>v. OvOther v \<notin> set items)"

definition by_names :: "override_item list \<Rightarrow> (string \<times> tool) list" where
  "by_names items = map (\<lambda>t. (tl_name t, t)) (override_tools items)"

lemma by_names_simps [simp]:
  "by_names [] = []" "by_names (OvTool t # items) = (tl_name t, t) # by_names items"
  "by_names (OvName n # items) = by_names items" "by_names (OvOther v # items) = by_names items"
  by (simp_all add: by_names_def override_tools_def)

lemma by_names_keys: "fst ` set (by_names items) \<subseteq> item_name ` set items"
proof (induction items)
  case (Cons i items) then show ?case by (cases i) auto
qed simp

lemma by_names_fresh: "n \<notin> item_name ` set items \<Longrightarrow> dict_get (by_names items) n = None \<and> dict_pop n (by_names items) = by_names items"
proof -
  assume "n \<notin> item_name ` set items"
  then have "n \<notin> fst ` set (by_names items)" using by_names_keys by blast
  then show ?thesis by (simp add: map_of_eq_None_iff)
qed

lemma usual_items_Cons:
  "usual_items (i # items) \<longleftrightarrow> item_name i \<notin> item_name ` set items \<and> (\<forall>v. i \<noteq> OvOther v) \<and> usual_items items"
  by (auto simp: usual_items_def)

lemma restore_names_back:
  "usual_items items \<Longrightarrow> restore_items (map (\<lambda>i. OvName (item_name i)) items) (by_names items) = items"
proof (induction items)
  case (Cons i items)
  then show ?case
    by (cases i) (simp_all add: usual_items_Cons by_names_fresh)
qed simp

lemma restore_items_back: "usual_items items \<Longrightarrow> restore_items items (by_names items) = items"
proof (induction items)
  case (Cons i items)
  then show ?case
    by (cases i) (simp_all add: usual_items_Cons by_names_fresh)
qed simp

lemma allowed_by_names:
  assumes "usual_items items" shows "allowed_tools (override_tools items) = by_names items"
proof -
  have "foldl (\<lambda>d t. dict_set (tl_name t) t d) d (override_tools items) = d @ by_names items"
    if "usual_items items" "\<forall>i\<in>set items. dict_get d (item_name i) = None" for d
    using that
  proof (induction items arbitrary: d)
    case (Cons i items)
    have rest: "\<forall>i'\<in>set items. dict_get (d @ [(item_name i, t)]) (item_name i') = None" for t
      using Cons.prems by (auto simp: usual_items_Cons map_add_def image_iff split: option.split)
    show ?case
    proof (cases i)
      case (OvTool t)
      with Cons rest[of t] show ?thesis
        by (simp add: override_tools_def usual_items_Cons dict_set_fresh)
    qed (use Cons in \<open>simp_all add: override_tools_def usual_items_Cons\<close>)
  qed (simp add: override_tools_def)
  from this[OF assms, of "[]"] show ?thesis by (simp add: allowed_tools_def)
qed

lemma override_back:
  assumes j: "job_tools_override (rs_job st) = Some items" "usual_items items"
    and s: "dict_get (dk_overrides s) rid = None"
    and st': "job_tools_override (rs_job st') = Some items'"
      "items' = items \<or> items' = map (\<lambda>i. OvName (item_name i)) items"
  shows "job_tools_override (rs_job (restore_override (dict_get (dk_overrides (remember_override rid st s)) rid) st'))
    = Some items"
proof (cases "override_tools items = []")
  case True
  then have "\<forall>i\<in>set items. \<exists>n. i = OvName n"
    using j(2) by (auto simp: override_tools_def usual_items_def split: override_item.splits) (metis override_item.exhaust)
  then have "map (\<lambda>i. OvName (item_name i)) items = items" by (intro map_idI) auto
  with True j s st' show ?thesis by (auto simp: remember_override_def restore_override_def)
next
  case False
  then obtain t ts where "override_tools items = t # ts" by (cases "override_tools items") auto
  with j st' allowed_by_names[OF j(2)] restore_items_back[OF j(2)] restore_names_back[OF j(2)] show ?thesis
    by (auto simp: remember_override_def restore_override_def)
qed

section \<open>The desk over a store\<close>

locale desk_runs = run_store ops inv view load
  for ops :: "'st store_ops" and inv view load +
  fixes D :: "('st, 'm, 'u) desk"
    and X :: "(('st, 'm, 'u) desk_world_scheme, 'x) force_ext_scheme"
  assumes store: "ds_store D = ops"
    and externals: "force_moves same_store X"
    and handlers: "moving same_store (hd_call (ds_handlers D) h e)"
      "moving same_store (hd_await (ds_handlers D) a)"
begin

interpretation X: force_moves same_store X by (rule externals)

section \<open>Events leave the stored runs alone\<close>

definition runs_kept :: "('st, 'm, 'u) desk_world_scheme \<Rightarrow> ('st, 'm, 'u) desk_world_scheme \<Rightarrow> bool" where
  "runs_kept w w' \<longleftrightarrow> (inv (dw_store w) \<longrightarrow> inv (dw_store w') \<and> view (dw_store w') = view (dw_store w))"

lemma pre_runs_kept [simp]: "pre runs_kept"
  by (auto simp: pre_def runs_kept_def)

lemma same_kept: "same_store w w' \<Longrightarrow> runs_kept w w'"
  by (simp add: same_store_def runs_kept_def)

lemma moving_kept: "moving same_store m \<Longrightarrow> moving runs_kept m"
  by (auto simp: moving_def intro: same_kept)

lemma bus_record_moves [moves]: "moving same_store (record_error ty e)" "moving same_store (track_task a ty)"
  by (simp_all add: moving_def record_error_def track_task_def modify_def same_store_def)

lemma bus_emit_moves: "moving same_store (bus_emit (ds_handlers D) b e)"
  by (auto simp: bus_emit_def emit_one_def run_async_def intro!: moves handlers
      split: sum.split returned.split)

lemma finish_task_moves: "moving same_store (finish_task (ds_handlers D) t)"
proof -
  have "moving same_store (modify (\<lambda>b. b\<lparr>eb_pending := f b\<rparr>))" for f :: "('st, 'm, 'u) desk_world_scheme \<Rightarrow> bus_task list"
    by (simp add: moving_def modify_def same_store_def)
  then show ?thesis
    by (auto simp: finish_task_def handle_task_def intro!: moves handlers split: sum.split)
qed

lemma drain_moves: "drain_rounds (ds_handlers D) order n w = Some w' \<Longrightarrow> same_store w w'"
proof (induction n arbitrary: w)
  case (Suc n)
  have "moving same_store (each (finish_task (ds_handlers D)) ts)" for ts
    by (auto intro!: moves finish_task_moves)
  then have "same_store w (snd (each (finish_task (ds_handlers D)) (order (eb_pending w)) w))"
    by (simp add: moving_def)
  with Suc show ?case by (auto split: if_splits simp: same_store_def)
qed (auto simp: same_store_def split: if_splits)

lemma deliver_moves: "moving runs_kept (desk_deliver D e)"
proof -
  have "moving runs_kept (on_store (so_add_event (ds_store D) e))"
    using add_event by (auto simp: moving_def on_store_def runs_kept_def store split: sum.split)
  then show ?thesis
    unfolding desk_deliver_def by (intro moves moving_kept[OF bus_emit_moves]) simp_all
qed

lemma env_moves: "force_moves runs_kept (desk_env D X)"
  by unfold_locales
    (simp_all add: desk_env_def deliver_moves X.invoke X.sleep X.wait_cancel X.new_id X.now X.complete
      X.structured same_kept moving_kept X.hook X.progress X.reduce)

sublocale env: force_moves runs_kept "desk_env D X" by (rule env_moves)

lemma desk_emit_moves [moves]: "moving (still runs_kept) (desk_emit D X rid ty payload)"
  by (simp add: desk_emit_def env.emit_moves)

lemma drain_handlers_moves: "moving (still runs_kept) (drain_handlers D)"
proof -
  have "moving runs_kept (\<lambda>w. case drain_rounds (ds_handlers D) (ds_task_order D) (ds_rounds D) w of
      Some w' \<Rightarrow> (Inr (), w') | None \<Rightarrow> (Inl out_of_fuel, w))"
    using drain_moves same_kept by (auto simp: moving_def split: option.split)
  then show ?thesis by (auto simp: drain_handlers_def intro!: moves)
qed

section \<open>Single statements\<close>

lemma env_emit_appends:
  "wp (emit (desk_env D X) rid ty src payload) (\<lambda>_ s'. still runs_kept s s' \<and>
     (\<exists>e. rt_events s' = rt_events s @ [e] \<and> ev_type e = ty \<and> ev_run_id e = rid)) anything s"
proof (rule wpI)
  fix a s' assume r: "emit (desk_env D X) rid ty src payload s = (Inr a, s')"
  have "\<exists>e. rt_events s' = rt_events s @ [e] \<and> ev_type e = ty \<and> ev_run_id e = rid"
    using r by (auto simp: emit_def ebind_def eseq_def ask_def on_world_def modify_def Let_def
        split: prod.splits sum.splits)
  moreover have "still runs_kept s s'"
    by (rule movingD[of _ "emit (desk_env D X) rid ty src payload", OF env.emit_moves r]) simp
  ultimately show "still runs_kept s s' \<and>
     (\<exists>e. rt_events s' = rt_events s @ [e] \<and> ev_type e = ty \<and> ev_run_id e = rid)" by blast
qed simp

lemma emit_appends:
  "wp (desk_emit D X rid ty payload) (\<lambda>_ s'. still runs_kept s s' \<and>
     (\<exists>e. rt_events s' = rt_events s @ [e] \<and> ev_type e = ty \<and> ev_run_id e = rid)) anything s"
  unfolding desk_emit_def by (rule env_emit_appends)

definition others_kept :: "string \<Rightarrow> 'st \<Rightarrow> 'st \<Rightarrow> bool" where
  "others_kept rid a b \<longleftrightarrow> inv b \<and> (\<forall>i. i \<noteq> rid \<longrightarrow> view b i = view a i)"

lemma others_kept_trans: "others_kept rid a b \<Longrightarrow> others_kept rid b c \<Longrightarrow> others_kept rid a c"
  by (simp add: others_kept_def)

lemma others_kept_still: "inv (stored s) \<Longrightarrow> still runs_kept s s' \<Longrightarrow> others_kept rid (stored s) (stored s')"
  by (simp add: others_kept_def still_def runs_kept_def)

lemma update_records:
  assumes "inv (stored s)" "view (stored s) rid = Some r"
  shows "wp (update_run D X rid status out json st) (\<lambda>_ s'. others_kept rid (stored s) (stored s') \<and>
    (\<exists>r'. view (stored s') rid = Some r' \<and> rc_status r' = status \<and> rc_output r' = out \<and>
       to_json_value (rc_output_json r') = to_json_value json \<and>
       rc_state r' = map_option load st \<and> rc_created r' = rc_created r \<and> rc_input r' = rc_input r) \<and>
    rt.more s' = rt.more s \<and> rt_events s' = rt_events s) anything s"
proof (rule wpI)
  fix a s' assume u: "update_run D X rid status out json st s = (Inr a, s')"
  obtain now w where n: "x_now X (rt_world s) = (now, w)" by fastforce
  with X.now[of "rt_world s"] have w: "dw_store w = stored s" by (simp add: same_store_def)
  from u n obtain st' where st': "so_update ops rid status out json st now (stored s) = Inr st'"
    "s' = s\<lparr>rt_world := w\<lparr>dw_store := st'\<rparr>\<rparr>"
    by (auto simp: update_run_def ebind_def ask_def on_world_def on_store_def w store split: sum.splits)
  with update[OF assms st'(1)] show "others_kept rid (stored s) (stored s') \<and>
    (\<exists>r'. view (stored s') rid = Some r' \<and> rc_status r' = status \<and> rc_output r' = out \<and>
       to_json_value (rc_output_json r') = to_json_value json \<and>
       rc_state r' = map_option load st \<and> rc_created r' = rc_created r \<and> rc_input r' = rc_input r) \<and>
    rt.more s' = rt.more s \<and> rt_events s' = rt_events s"
    by (auto simp: others_kept_def)
qed simp

lemma create_records:
  assumes "inv (stored s)"
  shows "wp (create_run D X rid v) (\<lambda>_ s'. others_kept rid (stored s) (stored s') \<and>
    view (stored s) rid = None \<and> view (stored s') rid \<noteq> None \<and> rt.more s' = rt.more s) anything s"
proof (rule wpI)
  fix a s' assume u: "create_run D X rid v s = (Inr a, s')"
  obtain now w where n: "x_now X (rt_world s) = (now, w)" by fastforce
  with X.now[of "rt_world s"] have w: "dw_store w = stored s" by (simp add: same_store_def)
  from u n obtain st' where st': "so_create ops rid v now (stored s) = Inr st'"
    "s' = s\<lparr>rt_world := w\<lparr>dw_store := st'\<rparr>\<rparr>"
    by (auto simp: create_run_def ebind_def ask_def on_world_def on_store_def w store split: sum.splits)
  with create[OF assms st'(1)] show "others_kept rid (stored s) (stored s') \<and>
    view (stored s) rid = None \<and> view (stored s') rid \<noteq> None \<and> rt.more s' = rt.more s"
    by (auto simp: others_kept_def)
qed simp

lemma record_memory_moves: "moving (still same_store) (record_memory D m rep)"
proof -
  have "moving same_store (on_memory f)" for f
    by (simp add: moving_def on_memory_def same_store_def split: sum.split)
  then show ?thesis
    by (auto simp: record_memory_def write_memory_def intro!: moves over_pre[OF over_still] moving_on_world[of same_store] over_still
        split: option.split)
qed

section \<open>The ends of a run\<close>

text \<open>What is true when a run of \<open>rid\<close> has ended with \<open>out\<close>.\<close>

definition run_ended ::
  "string \<Rightarrow> 'st \<Rightarrow> event list \<Rightarrow> pyval \<Rightarrow> report \<times> run_state option \<Rightarrow>
   ('st, 'm, 'u) desk_world_scheme desk_state \<Rightarrow> bool" where
  "run_ended rid before es se out s' \<longleftrightarrow> others_kept rid before (stored s') \<and>
     (\<exists>r. view (stored s') rid = Some r \<and> final_record load se out r \<and>
        (\<exists>e. rt_events s' = es @ [e] \<and> ev_type e = end_event (rc_status r) \<and> ev_run_id e = rid))"

lemma end_with_status:
  assumes s: "inv (stored s)" "view (stored s) rid = Some r"
    and ty: "ty = end_event status"
    and rec: "\<And>r'. rc_status r' = status \<Longrightarrow> rc_output r' = out \<Longrightarrow> rc_state r' = map_option load st \<Longrightarrow>
      final_record load se out' r'"
  shows "wp (eseq (desk_emit D X rid ty payload) (update_run D X rid status out json st))
    (\<lambda>_ s'. run_ended rid (stored s) (rt_events s) se out' s' \<and> rt.more s' = rt.more s) anything s"
proof (simp, rule wp_mono[OF emit_appends])
  fix a s1
  assume "still runs_kept s s1 \<and> (\<exists>e. rt_events s1 = rt_events s @ [e] \<and> ev_type e = ty \<and> ev_run_id e = rid)"
  then obtain e where k: "still runs_kept s s1" and e: "rt_events s1 = rt_events s @ [e]" "ev_type e = ty"
    "ev_run_id e = rid" by blast
  from k s have s1: "inv (stored s1)" "view (stored s1) rid = Some r" "rt.more s1 = rt.more s"
    by (auto simp: still_def runs_kept_def)
  note oth = others_kept_still[OF s(1) k]
  show "wp (update_run D X rid status out json st)
      (\<lambda>_ s'. run_ended rid (stored s) (rt_events s) se out' s' \<and> rt.more s' = rt.more s) anything s1"
    by (rule wp_mono[OF update_records[OF s1(1,2)]])
      (use e ty s1(3) rec in \<open>auto simp: run_ended_def intro: others_kept_trans[OF oth]\<close>)
qed simp

lemma record_memory_ended:
  "run_ended rid b es se out s \<Longrightarrow> wp (record_memory D m rep) (\<lambda>_ s'. run_ended rid b es se out s') anything s"
proof (rule wpI)
  fix a s' assume r: "run_ended rid b es se out s" "record_memory D m rep s = (Inr a, s')"
  have "rt_events s' = rt_events s"
    using r(2) by (auto simp: record_memory_def write_memory_def on_world_def ret_def
        split: option.splits if_splits prod.splits)
  with r(1) movingD[OF record_memory_moves r(2)] show "run_ended rid b es se out s'"
    by (simp add: run_ended_def still_def same_store_def)
qed simp

lemma finalize_records:
  assumes "inv (stored s)" "view (stored s) rid = Some r"
  shows "wp (finalize_run D X m rid se (rep, st))
    (\<lambda>rep' s'. rep' = rep \<and> run_ended rid (stored s) (rt_events s) se (rep, st) s') anything s"
proof -
  have *: "wp (desk_emit D X rid ty payload) (\<lambda>_. wp (update_run D X rid status out json st')
      (\<lambda>_. Q) anything) anything s2"
    if "rt_world s2 = rt_world s" "rt_events s2 = rt_events s" "ty = end_event status"
      "\<And>r'. rc_status r' = status \<Longrightarrow> rc_output r' = out \<Longrightarrow> rc_state r' = map_option load st' \<Longrightarrow>
        final_record load se (rep, st) r'"
      "\<And>s'. run_ended rid (stored s) (rt_events s) se (rep, st) s' \<Longrightarrow> Q s'" for s2 ty payload status out json st' Q
  proof -
    have "wp (eseq (desk_emit D X rid ty payload) (update_run D X rid status out json st'))
        (\<lambda>_ s'. run_ended rid (stored s2) (rt_events s2) se (rep, st) s' \<and> rt.more s' = rt.more s2) anything s2"
      using end_with_status[of s2 rid r ty status out st' se "(rep, st)" payload json] assms that by simp
    then have "wp (eseq (desk_emit D X rid ty payload) (update_run D X rid status out json st'))
        (\<lambda>_. Q) anything s2"
      by (rule wp_mono) (use that in auto)
    then show ?thesis by simp
  qed
  have remember: "rt_world (remember_override rid q s) = rt_world s"
    "rt_events (remember_override rid q s) = rt_events s" for q and s :: "('st, 'm, 'u) desk_world_scheme desk_state"
    by (simp_all add: remember_override_def pop_override_def split: option.split)
  show ?thesis
  proof (cases "st \<noteq> None \<and> rep_status rep = Paused")
    case True
    then show ?thesis
      by (auto simp: finalize_run_def Let_def remember final_record_def end_event_def
          intro!: *)
  next
    case False
    then show ?thesis
      by (auto simp: finalize_run_def remember final_record_def end_event_def pop_override_def
          intro!: * record_memory_ended)
  qed
qed

section \<open>Whole runs\<close>

lemma still_via: "moving (still W) m \<Longrightarrow> moving (via W) m"
  by (simp add: moving_def still_def via_def)

lemma run_runner_moves: "moving (via runs_kept) (run_runner D X r c j)"
proof -
  have reg: "moving (via runs_kept) (modify (register_worker m))"
    "moving (via runs_kept) (modify (register_workforce crew))" for m crew
    by (rule moving_modify_via; simp add: register_worker_def register_workforce_def)+
  have "moving (still runs_kept) (workforce_arun (desk_env D X) (member_arun (desk_env D X)) crew c j
      (Some (drain_handlers D)))" for crew
    by (rule env.workforce_arun_moves) (simp add: drain_handlers_moves)
  note runs = still_via[OF this] still_via[OF env.member_moves(1)]
  show ?thesis
    by (auto simp: run_runner_def split: runner.split intro!: moving_eseq moving_raise reg runs)
qed

lemma via_kept:
  "inv (stored s) \<Longrightarrow> via runs_kept s s' \<Longrightarrow> inv (stored s') \<and> view (stored s') = view (stored s)"
  by (simp add: via_def runs_kept_def)

lemma guarded_run_keeps:
  assumes "wp (run_runner D X r c j) G anything s"
  shows "wp (guarded_run D X r rid c j) (\<lambda>out s'. via runs_kept s s' \<and> G out s') anything s"
  unfolding guarded_run_def wp_try_with
  by (rule wp_mono[OF wp_conj[OF moving_wp[OF run_runner_moves] assms]]) (auto simp: wp_mono[OF wp_true])

lemma scan_step_system: "msg_role m = System \<Longrightarrow> scan_step m [] = Some []"
  by (simp add: scan_step.simps)

lemma memory_keeps_conversation:
  assumes "conversation_ok ms" "msg_role m = System"
  shows "conversation_ok (takeWhile (\<lambda>x. msg_role x = System) ms @ m # dropWhile (\<lambda>x. msg_role x = System) ms)"
proof -
  have sys: "scan (takeWhile (\<lambda>x. msg_role x = System) ms @ r) [] = scan r []" for r
    by (induction ms) (auto simp: scan_step_system)
  have "scan (dropWhile (\<lambda>x. msg_role x = System) ms) [] = scan ms []"
    using sys[of "dropWhile (\<lambda>x. msg_role x = System) ms"] by simp
  with assms sys[of "m # dropWhile (\<lambda>x. msg_role x = System) ms"] show ?thesis
    by (simp add: conversation_ok_def scan_step_system)
qed

lemma memory_message_role [simp]: "msg_role (memory_message P v) = System"
  by (simp add: memory_message_def mk_message_def)

lemma prepare_job_still:
  "wp (prepare_job D P r j0) (\<lambda>j s'. s' = s \<and>
     (conversation_ok (initial_messages j0) \<longrightarrow> conversation_ok (initial_messages j))) anything s"
  by (auto simp: prepare_job_def apply_memory_def resolve_stream_mode_def initial_messages_def
      insert_memory_def memory_keeps_conversation memory_keeps_conversation[of "[]", simplified]
      split: runner.split option.split sum.split)

text \<open>The workers a desk knows: only a run registers one.\<close>

definition same_workers :: "'w desk_state \<Rightarrow> 'w desk_state \<Rightarrow> bool" where
  "same_workers s s' \<longleftrightarrow> dk_workers s' = dk_workers s"

lemma pre_same_workers [simp]: "pre same_workers"
  by (simp add: pre_def same_workers_def)

lemma still_workers: "moving (still W) m \<Longrightarrow> moving same_workers m"
proof -
  have "dk_workers s' = dk_workers s" if "rt.more s' = rt.more s" for s s' :: "'w desk_state"
    using that by (cases s; cases s') simp
  then show "moving (still W) m \<Longrightarrow> moving same_workers m"
    by (auto simp: moving_def still_def same_workers_def)
qed

lemma update_still: "moving (still (\<lambda>_ _. True)) (update_run D X rid st out json q)"
  by (simp add: moving_def still_def update_run_def ebind_def ask_def on_world_def split: prod.split sum.split)

lemma finalize_workers: "moving same_workers (finalize_run D X m rid se out)"
proof -
  have "moving same_workers (modify (remember_override rid st))" "moving same_workers (modify (pop_override rid))" for st
    by (simp_all add: moving_def modify_def same_workers_def remember_override_def pop_override_def split: option.split)
  then show ?thesis
    by (auto simp: finalize_run_def Let_def split: prod.split
        intro!: moves still_workers[OF desk_emit_moves] still_workers[OF update_still] still_workers[OF record_memory_moves])
qed

theorem desk_arun_records:
  assumes "inv (stored s)" "rid \<noteq> []"
    and run: "\<And>c j s1. validate_execution_limits c = None \<Longrightarrow> cfg_max_tool_calls c = ds_max_tool_calls D \<Longrightarrow>
      (conversation_ok (initial_messages j0) \<longrightarrow> conversation_ok (initial_messages j)) \<Longrightarrow>
      wp (run_runner D X r c j) G anything s1"
    and stable: "\<And>out s s'. G out s \<Longrightarrow> dk_workers s' = dk_workers s \<Longrightarrow> G out s'"
  shows "wp (desk_arun D X r j0 stream (Some rid)) (\<lambda>rep s'. view (stored s) rid = None \<and>
    (\<exists>es se st. run_ended rid (stored s) es se (rep, st) s' \<and> G (rep, st) s')) anything s"
proof -
  define fin where "fin = (\<lambda>rep (s' :: ('st, 'm, 'u) desk_world_scheme desk_state). view (stored s) rid = None \<and>
    (\<exists>es se st. run_ended rid (stored s) es se (rep, st) s' \<and> G (rep, st) s'))"
  define ready where "ready = (\<lambda>s1 :: ('st, 'm, 'u) desk_world_scheme desk_state. others_kept rid (stored s) (stored s1) \<and> view (stored s1) rid \<noteq> None \<and>
    view (stored s) rid = None)"
  define good where "good = (\<lambda>j. conversation_ok (initial_messages j0) \<longrightarrow> conversation_ok (initial_messages j))"
  have before: "run_ended rid (stored s) es se out s'"
    if "run_ended rid (stored s4) es se out s'" "ready s4" for es se out s' s4
    using that by (auto simp: run_ended_def others_kept_def ready_def)
  have ending: "wp (finalize_run D X m rid se out) fin anything s4" if "ready s4" "G out s4" for m se out s4
  proof -
    obtain rep st where out: "out = (rep, st)" by fastforce
    from that obtain r0 where r0: "inv (stored s4)" "view (stored s4) rid = Some r0"
      by (auto simp: ready_def others_kept_def)
    have w: "wp (finalize_run D X m rid se (rep, st)) (\<lambda>_. same_workers s4) anything s4"
      by (rule wp_mono[OF moving_wp[OF finalize_workers]]) auto
    have "fin rep' s'" if "(rep' = rep \<and> run_ended rid (stored s4) (rt_events s4) se (rep, st) s') \<and> same_workers s4 s'"
      for rep' s'
    proof -
      have "run_ended rid (stored s) (rt_events s4) se (rep, st) s'" using that before \<open>ready s4\<close> by blast
      moreover have "G (rep, st) s'" using stable[OF \<open>G out s4\<close>] that by (simp add: same_workers_def out)
      ultimately show ?thesis using that \<open>ready s4\<close> unfolding fin_def ready_def by blast
    qed
    with wp_conj[OF finalize_records[OF r0] w] show ?thesis
      unfolding out by (auto elim: wp_mono)
  qed
  have run': "wp (guarded_run D X r rid c j) (\<lambda>out. wp (finalize_run D X m rid se out) fin anything) anything s3"
    if "ready s3" "validate_execution_limits c = None" "cfg_max_tool_calls c = ds_max_tool_calls D" "good j"
    for c j m se s3
    by (rule wp_mono[OF guarded_run_keeps[OF run[OF that(2,3) that(4)[unfolded good_def]]]])
      (use that(1) via_kept in \<open>auto intro!: ending simp: ready_def others_kept_def\<close>)
  have started: "wp (desk_emit D X rid RunStarted pl) (\<lambda>_ s3.
      (\<forall>c'. checked_config (make_run_config D rid b) = Inr c' \<longrightarrow>
        wp (guarded_run D X r rid c' j) (\<lambda>out. wp (finalize_run D X m rid se out) fin anything) anything s3))
      anything s2"
    if s2: "ready s2" "good j" for pl b j m se s2
  proof (rule wp_mono[OF emit_appends])
    fix a s3
    assume "still runs_kept s2 s3 \<and> (\<exists>e. rt_events s3 = rt_events s2 @ [e] \<and> ev_type e = RunStarted \<and> ev_run_id e = rid)"
    with s2 have "ready s3" by (auto simp: still_def runs_kept_def others_kept_def ready_def)
    with s2(2) show "\<forall>c'. checked_config (make_run_config D rid b) = Inr c' \<longrightarrow>
        wp (guarded_run D X r rid c' j) (\<lambda>out. wp (finalize_run D X m rid se out) fin anything) anything s3"
      by (auto intro!: run' simp: checked_config_def make_run_config_def split: option.splits)
  qed simp
  have create: "wp (create_run D X rid v) (\<lambda>_. wp (desk_emit D X rid RunStarted pl) (\<lambda>_ s3.
      (\<forall>c'. checked_config (make_run_config D rid b) = Inr c' \<longrightarrow>
        wp (guarded_run D X r rid c' j) (\<lambda>out. wp (finalize_run D X m rid se out) fin anything) anything s3))
      anything) anything s1" if "stored s1 = stored s" "good j" for v pl b j m se s1
    by (rule wp_mono[OF create_records])
      (use assms(1) that in \<open>auto intro!: started simp: ready_def\<close>)
  have prep: "wp (prepare_job D P r j0) Q anything s1" if "\<And>j. good j \<Longrightarrow> Q j s1" for P Q s1
    by (rule wp_mono[OF prepare_job_still]) (use that in \<open>auto simp: good_def\<close>)
  show ?thesis
    unfolding desk_arun_def fin_def[symmetric]
    using assms(2)
    by (auto simp: ensure_open_def the_run_id_def start_run_def Let_def intro!: prep create
        split: sum.split)
qed

section \<open>Worker runs\<close>

text \<open>What a worker's run under this desk ends with, and that the desk knows the worker.\<close>

definition worker_end :: "crew_member \<Rightarrow> report \<times> run_state option \<Rightarrow> 'w desk_state \<Rightarrow> bool" where
  "worker_end m = (\<lambda>(rep, st) s. get_worker (mb_name m) s = Some m \<and>
     (st \<noteq> None \<longleftrightarrow> rep_status rep = Paused) \<and> rep_status rep \<noteq> Running \<and>
     (rep_status rep = Completed \<longrightarrow> conversation_ok (rep_messages rep)) \<and>
     (\<forall>q. st = Some q \<longrightarrow> paused_ok (ds_max_tool_calls D) q \<and> rs_runner_type q = ''worker'' \<and>
        rs_runner_name q = mb_name m \<and> rs_pending q = rep_pending rep))"

lemma worker_end_conversation:
  "worker_end m (rep, st) s \<Longrightarrow> rep_status rep = Completed \<Longrightarrow> conversation_ok (rep_messages rep)"
  by (simp add: worker_end_def)

lemma worker_end_stable: "worker_end m out s \<Longrightarrow> dk_workers s' = dk_workers s \<Longrightarrow> worker_end m out s'"
  by (simp add: worker_end_def get_worker_def split: prod.splits)

lemma member_outcome_end:
  assumes "member_outcome m c j out" "cfg_max_tool_calls c = ds_max_tool_calls D" "get_worker (mb_name m) s = Some m"
  shows "worker_end m out s"
proof -
  obtain rep st where out: "out = (rep, st)" by fastforce
  from assms(1) have ty: "\<forall>q. st = Some q \<longrightarrow> rs_runner_type q = ''worker''"
    by (simp add: out member_outcome_def)
  from assms(1) have conv: "rep_status rep = Completed \<longrightarrow> conversation_ok (rep_messages rep)"
    by (auto simp: out member_outcome_def good_outcome_def)
  from assms(1)[unfolded out] show ?thesis
    by (cases rule: member_outcome_cases) (use assms(2,3) ty conv out in \<open>auto simp: worker_end_def\<close>)
qed

lemma good_ids_env: "good_ids X \<Longrightarrow> good_ids (desk_env D X)"
  by (simp add: good_ids_def desk_env_def)

lemma run_worker_end:
  assumes "good_ids X" "conversation_ok (initial_messages j)" "validate_execution_limits c = None"
    and "cfg_max_tool_calls c = ds_max_tool_calls D"
  shows "wp (run_runner D X (RWorker m) c j) (worker_end m) anything s"
proof -
  have runs: "wp (member_arun (desk_env D X) m c j) (\<lambda>out s'. member_outcome m c j out \<and> same_workers s1 s') anything s1" for s1
    by (rule wp_mono[OF wp_conj[OF returnsD[OF member_arun_outcome[OF good_ids_env[OF assms(1)] assms(3,2)]]
            moving_wp[OF still_workers[OF env.member_moves(1)]]]]) auto
  have "worker_end m out s'" if "member_outcome m c j out \<and> same_workers (register_worker m s) s'" for out s'
    by (rule member_outcome_end[of m c j])
      (use that assms(4) in \<open>auto simp: same_workers_def register_worker_def get_worker_def\<close>)
  with wp_mono[OF runs, of "register_worker m s" "worker_end m" anything] show ?thesis
    by (auto simp: run_runner_def)
qed

theorem worker_arun_records:
  assumes "inv (stored s)" "rid \<noteq> []" "good_ids X" "conversation_ok (initial_messages j0)"
  shows "wp (desk_arun D X (RWorker m) j0 stream (Some rid)) (\<lambda>rep s'.
    \<exists>es se st. run_ended rid (stored s) es se (rep, st) s' \<and> worker_end m (rep, st) s') anything s"
  by (rule wp_mono[OF desk_arun_records[OF assms(1,2), where G = "worker_end m"]])
    (use assms(3,4) in \<open>auto intro: run_worker_end worker_end_stable\<close>)

text \<open>Storing keeps what a resumption needs.\<close>

definition loads_well :: bool where
  "loads_well \<longleftrightarrow> (\<forall>l st. paused_ok l st \<longrightarrow> paused_ok l (load st)) \<and>
     (\<forall>st. rs_runner_type (load st) = rs_runner_type st \<and> rs_runner_name (load st) = rs_runner_name st)"

text \<open>A run the desk can resume: it is stored as paused with a good state of a worker it knows.\<close>

definition resumable_run :: "string \<Rightarrow> ('st, 'm, 'u) desk_world_scheme desk_state \<Rightarrow> bool" where
  "resumable_run rid s \<longleftrightarrow> inv (stored s) \<and>
     (\<exists>r st m. view (stored s) rid = Some r \<and> rc_status r = Paused \<and> rc_state r = Some st \<and>
        paused_ok (ds_max_tool_calls D) st \<and> rs_runner_type st = ''worker'' \<and>
        get_worker (rs_runner_name st) s = Some m \<and> mb_name m = rs_runner_name st)"

lemma run_ended_resumable:
  assumes "run_ended rid b es se (rep, st) s" "worker_end m (rep, st) s" loads_well "rep_status rep = Paused"
  shows "resumable_run rid s"
proof -
  from assms(2,4) obtain q where q: "st = Some q" "paused_ok (ds_max_tool_calls D) q"
    "rs_runner_type q = ''worker''" "rs_runner_name q = mb_name m" "get_worker (mb_name m) s = Some m"
    by (auto simp: worker_end_def)
  then have "paused_ok (ds_max_tool_calls D) (with_stream se q)" "rs_runner_type (with_stream se q) = ''worker''"
    "rs_runner_name (with_stream se q) = mb_name m"
    by (simp_all add: with_stream_def paused_ok_def)
  with assms(1,3,4) q show ?thesis
    by (auto simp: run_ended_def final_record_def resumable_run_def loads_well_def others_kept_def)
qed

lemma restore_override_frame:
  "rs_runner_type (restore_override ts st) = rs_runner_type st"
  "rs_runner_name (restore_override ts st) = rs_runner_name st"
  "paused_ok l (restore_override ts st) = paused_ok l st"
  by (auto simp: restore_override_def paused_ok_def split: option.splits list.splits)

theorem worker_aresume_records:
  assumes r: "resumable_run (rep_run_id rep) s" and g: "good_ids X"
  shows "wp (desk_aresume D X fl rep d stream) (\<lambda>rep' s'.
    \<exists>es se st m. run_ended (rep_run_id rep) (stored s) es se (rep', st) s' \<and> worker_end m (rep', st) s') anything s"
proof -
  let ?rid = "rep_run_id rep"
  from r obtain rc st0 m where s: "inv (stored s)" "view (stored s) ?rid = Some rc" "rc_state rc = Some st0"
    "paused_ok (ds_max_tool_calls D) st0" "rs_runner_type st0 = ''worker''"
    "get_worker (rs_runner_name st0) s = Some m" "mb_name m = rs_runner_name st0"
    by (auto simp: resumable_run_def)
  define fin where "fin = (\<lambda>rep' (s' :: ('st, 'm, 'u) desk_world_scheme desk_state).
    \<exists>es se st m. run_ended ?rid (stored s) es se (rep', st) s' \<and> worker_end m (rep', st) s')"
  define ready where "ready = (\<lambda>s1 :: ('st, 'm, 'u) desk_world_scheme desk_state.
    inv (stored s1) \<and> view (stored s1) = view (stored s) \<and> get_worker (mb_name m) s1 = Some m)"
  have ending: "wp (finalize_run D X mo ?rid se out) fin anything s4" if "ready s4" "worker_end m out s4" for mo se out s4
  proof -
    obtain rep1 st1 where out: "out = (rep1, st1)" by fastforce
    from that s have r0: "inv (stored s4)" "view (stored s4) ?rid = Some rc" by (auto simp: ready_def)
    have w: "wp (finalize_run D X mo ?rid se (rep1, st1)) (\<lambda>_. same_workers s4) anything s4"
      by (rule wp_mono[OF moving_wp[OF finalize_workers]]) auto
    have "fin rep' s'" if "(rep' = rep1 \<and> run_ended ?rid (stored s4) (rt_events s4) se (rep1, st1) s') \<and> same_workers s4 s'"
      for rep' s'
    proof -
      have "run_ended ?rid (stored s) (rt_events s4) se (rep1, st1) s'"
        using that \<open>ready s4\<close> by (auto simp: run_ended_def others_kept_def ready_def)
      moreover have "worker_end m (rep1, st1) s'"
        using worker_end_stable[OF \<open>worker_end m out s4\<close>, of s'] that unfolding same_workers_def out by blast
      ultimately show ?thesis using that unfolding fin_def by blast
    qed
    with wp_conj[OF finalize_records[OF r0] w] show ?thesis
      unfolding out by (auto elim: wp_mono)
  qed
  have run: "wp (resume_runner D X rep st d se c) fin anything s3"
    if "ready s3" "validate_execution_limits c = None" "cfg_max_tool_calls c = ds_max_tool_calls D"
      "rs_runner_type st = ''worker''" "rs_runner_name st = mb_name m" "paused_ok (ds_max_tool_calls D) st" for st se c s3
  proof -
    have p: "paused_ok (cfg_max_tool_calls c) st" using that by simp
    have "wp (member_aresume (desk_env D X) m c st d) (\<lambda>out. wp (finalize_run D X (Some m) ?rid se out) fin anything) anything s3"
    proof (rule wp_mono[OF wp_conj[OF returnsD[OF member_aresume_outcome[OF good_ids_env[OF g] that(2) p]]
            moving_wp[OF env.member_moves(2)]]])
      fix out s4 assume o: "member_outcome m c (rs_job st) out \<and> still runs_kept s3 s4"
      have "get_worker (mb_name m) s4 = get_worker (mb_name m) s3"
        using o by (cases s3; cases s4) (simp add: still_def get_worker_def)
      with o that(1) have "ready s4" by (auto simp: ready_def still_def runs_kept_def)
      with o that(3) show "wp (finalize_run D X (Some m) ?rid se out) fin anything s4"
        by (auto intro!: ending member_outcome_end simp: ready_def)
    qed simp
    with that show ?thesis by (simp add: resume_runner_def ready_def)
  qed
  have started: "wp (desk_emit D X ?rid RunResumed []) (\<lambda>_ s3.
      \<forall>c. checked_config (make_run_config D ?rid b) = Inr c \<longrightarrow>
        wp (resume_runner D X rep (restore_override ts st0) d se c) fin anything s3) anything s2"
    if "ready s2" for b ts se s2
  proof (rule wp_mono[OF moving_wp[OF desk_emit_moves]])
    fix a s3 assume k: "still runs_kept s2 s3"
    have "get_worker (mb_name m) s3 = get_worker (mb_name m) s2"
      using k by (cases s2; cases s3) (simp add: still_def get_worker_def)
    with k that have "ready s3" by (auto simp: ready_def still_def runs_kept_def)
    then show "\<forall>c. checked_config (make_run_config D ?rid b) = Inr c \<longrightarrow>
        wp (resume_runner D X rep (restore_override ts st0) d se c) fin anything s3"
      using s by (auto intro!: run simp: restore_override_frame checked_config_def make_run_config_def split: option.splits)
  qed simp
  have "wp (desk_aresume D X fl rep d stream) fin anything s"
    unfolding desk_aresume_def
    using s by (auto simp: ensure_open_def store get Let_def restore_override_frame ready_def get_worker_def
        intro!: started split: sum.split)
  then show ?thesis by (simp add: fin_def)
qed

section \<open>Failures\<close>

text \<open>The store takes a failure of a run it holds: the payload is JSON.\<close>

definition failure_value :: "exc \<Rightarrow> pyval" where
  "failure_value e = PDict [(''error'', PStr (sanitize_exception_message e)), (''error_type'', PStr (exc_class e))]"

definition takes_failures :: bool where
  "takes_failures \<longleftrightarrow> (\<forall>st rid e now. inv st \<longrightarrow> view st rid \<noteq> None \<longrightarrow>
     (\<exists>st'. so_update ops rid Failed None (failure_value e) None now st = Inr st'))"

lemma update_returns:
  assumes takes_failures "inv (stored s)" "view (stored s) rid \<noteq> None"
  shows "\<exists>s'. update_run D X rid Failed None (failure_value e) None s = (Inr (), s')"
proof -
  obtain now w where n: "x_now X (rt_world s) = (now, w)" by fastforce
  with X.now[of "rt_world s"] have w: "dw_store w = stored s" by (simp add: same_store_def)
  from assms have "\<exists>st'. so_update ops rid Failed None (failure_value e) None now (stored s) = Inr st'"
    by (simp add: takes_failures_def)
  with n show ?thesis
    by (auto simp: update_run_def ebind_def ask_def on_world_def on_store_def w store)
qed

lemma failure_recorded:
  assumes run: "run_runner D X r c j s = (Inl e, s1)" and s: "inv (stored s)" "view (stored s) rid = Some rec"
    and t: takes_failures
  shows "\<exists>x s'. guarded_run D X r rid c j s = (Inl x, s') \<and>
    (x = e \<or> (\<exists>s2. desk_emit D X rid RunFailed [(''errors'', error_list [sanitize_exception_message e]),
        (''error_type'', PStr (exc_class e))] s1 = (Inl x, s2))) \<and>
    others_kept rid (stored s) (stored s') \<and>
    (\<exists>r'. view (stored s') rid = Some r' \<and> rc_status r' = Failed \<and> rc_state r' = None \<and>
       to_json_value (rc_output_json r') = failure_value e \<and> rc_input r' = rc_input rec)"
proof -
  let ?pl = "[(''errors'', error_list [sanitize_exception_message e]), (''error_type'', PStr (exc_class e))]"
  have s1: "inv (stored s1)" "view (stored s1) = view (stored s)"
    using via_kept[OF s(1)] movingD[OF run_runner_moves run] by blast+
  obtain q s2 where q: "desk_emit D X rid RunFailed ?pl s1 = (q, s2)" by fastforce
  define s3 where "s3 = pop_override rid s2"
  have s3: "stored s3 = stored s2" by (simp add: s3_def pop_override_def)
  from movingD[OF desk_emit_moves q] s1 have s2: "inv (stored s2)" "view (stored s2) = view (stored s)"
    by (auto simp: still_def runs_kept_def)
  have at3: "inv (stored s3)" "view (stored s3) rid = Some rec" using s2 s(2) s3 by auto
  then have "view (stored s3) rid \<noteq> None" by simp
  from update_returns[OF t at3(1) this, of e] obtain s4 where
    u: "update_run D X rid Failed None (failure_value e) None s3 = (Inr (), s4)" by blast
  from wpD(1)[OF update_records[OF at3, of Failed None "failure_value e" None] u]
  have up: "others_kept rid (stored s3) (stored s4)" "\<exists>r'. view (stored s4) rid = Some r' \<and> rc_status r' = Failed \<and>
     to_json_value (rc_output_json r') = to_json_value (failure_value e) \<and> rc_state r' = None \<and> rc_input r' = rc_input rec"
    by auto
  have val: "to_json_value (failure_value e) = failure_value e" by (simp add: failure_value_def)
  have tail: "eseq (modify (pop_override rid)) (update_run D X rid Failed None (failure_value e) None) s2
      = (Inr (), s4)"
    using u by (simp add: eseq_def ebind_def modify_def s3_def)
  have "record_unexpected_failure D X rid e s1 = (q, s4)"
    unfolding record_unexpected_failure_def failure_value_def[symmetric] Let_def finally_do_def
    using q tail by (simp add: ebind_def attempt_def eseq_def[of _ "from_sum q"] from_sum_def)
  then have "guarded_run D X r rid c j s = (case q of Inl x \<Rightarrow> Inl x | Inr u \<Rightarrow> Inl e, s4)"
    using run by (cases q) (simp_all add: guarded_run_def try_with_def ebind_def eseq_def raise_def)
  moreover have "others_kept rid (stored s) (stored s4)"
    using up(1) s3 s2 by (auto simp: others_kept_def)
  ultimately show ?thesis
    using up(2) q val by (cases q) auto
qed

section \<open>Resumption\<close>

lemma resume_unknown:
  "\<not> dk_closed s \<Longrightarrow> view (stored s) (rep_run_id rep) = None \<Longrightarrow>
   desk_aresume D X fl rep d stream s = (Inr (missing_run_report rep), s)"
  by (simp add: desk_aresume_def ensure_open_def ebind_def eseq_def gets_def from_sum_def ret_def
      store get)

definition resume_failed :: "report \<Rightarrow> string \<Rightarrow> 'st \<Rightarrow> report \<Rightarrow> ('st, 'm, 'u) desk_world_scheme desk_state \<Rightarrow> bool" where
  "resume_failed rep message before rep' s' \<longleftrightarrow> rep_status rep' = Failed \<and> rep_errors rep' = [message] \<and>
     rep_messages rep' = rep_messages rep \<and>
     others_kept (rep_run_id rep) before (stored s') \<and>
     (\<exists>r'. view (stored s') (rep_run_id rep) = Some r' \<and> rc_status r' = Failed \<and> rc_output r' = None \<and>
        rc_state r' = None)"

lemma fail_resume_records:
  assumes "inv (stored s)" "view (stored s) (rep_run_id rep) = Some r" "stored s1 = stored s"
  shows "wp (fail_resume D X rep message) (resume_failed rep message (stored s)) anything s1"
proof -
  have s1: "inv (stored s1)" "view (stored s1) (rep_run_id rep) = Some r" using assms by simp_all
  define failed where "failed = build_report (rep_run_id rep) Failed None None PNone (rep_messages rep)
    (rep_tool_calls rep) (rep_metrics rep) (rt_events s1) None [message]"
  have "wp (desk_emit D X (rep_run_id rep) RunFailed pl) (\<lambda>_. wp (update_run D X (rep_run_id rep) Failed None PNone None)
      (\<lambda>_ s'. resume_failed rep message (stored s) failed (pop_override (rep_run_id rep) s')) anything) anything s1" for pl
  proof (rule wp_mono[OF emit_appends])
    fix a s2
    assume k: "still runs_kept s1 s2 \<and> (\<exists>e. rt_events s2 = rt_events s1 @ [e] \<and> ev_type e = RunFailed \<and>
      ev_run_id e = rep_run_id rep)"
    with s1 have s2: "inv (stored s2)" "view (stored s2) (rep_run_id rep) = Some r"
      and oth: "others_kept i (stored s) (stored s2)" for i
      using others_kept_still[of s1 s2] assms(3) by (auto simp: still_def runs_kept_def)
    show "wp (update_run D X (rep_run_id rep) Failed None PNone None)
      (\<lambda>_ s'. resume_failed rep message (stored s) failed (pop_override (rep_run_id rep) s')) anything s2"
      by (rule wp_mono[OF update_records[OF s2]])
        (auto simp: resume_failed_def failed_def build_report_def pop_override_def
          intro: others_kept_trans[OF oth])
  qed simp
  then show ?thesis by (simp add: fail_resume_def failed_def[symmetric])
qed

text \<open>A run without a stored state, be it completed, ends up failed.\<close>

lemma resume_stateless:
  assumes "inv (stored s)" "view (stored s) (rep_run_id rep) = Some r" "rc_state r = None"
  shows "wp (desk_aresume D X fl rep d stream) (resume_failed rep ''No stored state'' (stored s)) anything s"
proof -
  note fail = fail_resume_records
  show ?thesis
    unfolding desk_aresume_def
    by (auto simp: ensure_open_def store get assms(2,3) intro!: fail assms split: sum.split)
qed

end

end
