(* ===== verification/Desk_Scenario.thy ===== *)
theory Desk_Scenario
  imports Desk_Laws Scenario
begin

text \<open>
  A concrete desk: the in-memory stores, no event handlers, and the scripted externals of
  \<^verbatim>\<open>Scenario\<close> in the part of the world below the desk's own.
\<close>

type_synonym demo_world = "(mem_store, mem_memory, script) desk_world_scheme"

definition below ::
  "(script \<Rightarrow> 'a \<times> script) \<Rightarrow> ('st, 'm, script) desk_world_scheme \<Rightarrow>
   'a \<times> ('st, 'm, script) desk_world_scheme" where
  "below f w = (case f (desk_world.more w) of (a, u) \<Rightarrow> (a, w\<lparr>desk_world.more := u\<rparr>))"

definition demo_externals :: "('st, 'm, script) desk_world_scheme force_ext" where
  "demo_externals =
     \<lparr>x_text = plain_text, x_invoke = (\<lambda>f args timeout ce. below (run_tool f args timeout ce)),
      x_hook = (\<lambda>h c r. ret ()),
      x_input = (\<lambda>m args. Inr args), x_isinstance = (\<lambda>c v. True), x_output = (\<lambda>c v. Inr v),
      x_sleep = (\<lambda>d w. w), x_cancelled = (\<lambda>w. False), x_wait_cancel = (\<lambda>d w. (False, w)),
      x_progress = (\<lambda>m. ret ()),
      x_new_id = below (\<lambda>w. (''id'' @ nat_digits (sc_next w), w\<lparr>sc_next := sc_next w + 1\<rparr>)),
      x_now = (\<lambda>w. (0, w)), x_deliver = (\<lambda>e. ret ()),
      x_acomplete = (\<lambda>rq. below (next_reply rq)), x_complete = (\<lambda>rq. below (next_reply rq)),
      x_astructured = (\<lambda>rq w. ((Inr (SOther PNone), []), w)),
      x_structured = (\<lambda>rq w. ((Inr (SOther PNone), []), w)),
      x_accepts = (\<lambda>m k. True), x_has_callbacks = False, x_token_counter = (\<lambda>m t. None),
      x_model_cost = (\<lambda>m. True), x_pricing = (\<lambda>m. None), x_validate_json = (\<lambda>s t. Inr PNone),
      x_rank = (\<lambda>w i. 0),
      x_reduce = (\<lambda>f rs. ret (hd rs)), x_resolves = (\<lambda>m q. True)\<rparr>"

definition demo_desk :: "(mem_store, mem_memory, script) desk" where
  "demo_desk =
     \<lparr>ds_model = ''m'', ds_temperature = None, ds_max_tokens = None, ds_stream = False,
      ds_stream_mode = StreamOff, ds_structured_retries = 3, ds_max_iterations = 10,
      ds_max_tool_calls = 20, ds_num_retries = 0, ds_respect_context = True,
      ds_max_context_messages = None, ds_max_cost_usd = None, ds_store = mem_ops,
      ds_memory = Some (mem_memory plain_text),
      ds_handlers = \<lparr>hd_call = (\<lambda>h e. ret Plain), hd_await = (\<lambda>a. ret ())\<rparr>,
      ds_task_order = (\<lambda>ts. ts), ds_rounds = 1, ds_dump_job = (\<lambda>j. Inr (PStr ''job''))\<rparr>"

definition demo_member :: crew_member where
  "demo_member = \<lparr>mb_ref = 0, mb_worker = demo_worker, mb_model = None, mb_scope = ''worker:w''\<rparr>"

definition demo_start :: "completion list \<Rightarrow> demo_world desk_state" where
  "demo_start rs =
     \<lparr>rt_events = [], rt_totals = [],
      rt_world = \<lparr>eb_handlers = [], eb_pending = [], eb_errors = [], eb_next = 0,
                  dw_store = mem_empty, dw_memory = [],
                  \<dots> = \<lparr>sc_next = 0, sc_replies = rs, sc_log = []\<rparr>\<rparr>,
      dk_workers = [], dk_workforces = [], dk_flows = [], dk_overrides = [], dk_closed = False\<rparr>"

lemma below_store [simp]: "dw_store (snd (below f w)) = dw_store w"
  by (simp add: below_def split: prod.split)

lemma below_fst: "fst (below f w) = fst (f (desk_world.more w))"
  by (simp add: below_def split: prod.split)

lemma demo_externals_moves: "force_moves same_store demo_externals"
  by unfold_locales (simp_all add: demo_externals_def moving_def same_store_def ret_def)

lemma demo_desk_runs:
  "desk_runs mem_ops mem_inv (\<lambda>s. dict_get (ms_runs s)) (\<lambda>st. st) demo_desk demo_externals"
  by (intro desk_runs.intro desk_runs_axioms.intro mem.run_store_axioms demo_externals_moves)
    (auto simp: demo_desk_def intro!: moves)

interpretation demo_runs: desk_runs mem_ops mem_inv "\<lambda>s. dict_get (ms_runs s)" "\<lambda>st. st" demo_desk demo_externals
  by (rule demo_desk_runs)

lemma demo_externals_ids: "good_ids demo_externals"
proof -
  have named: "next_reply rq w = ((Inr (CResponse m), cbs), w') \<Longrightarrow> named_calls m" for rq w m cbs w'
    by (auto simp: next_reply_def split: list.splits if_splits)
  then have "below (next_reply rq) w = ((Inr (CResponse m), cbs), w') \<Longrightarrow> named_calls m" for rq w m cbs w'
    by (auto simp: below_def split: prod.splits)
  then show ?thesis
    using demo_good_ids by (auto simp: good_ids_def demo_externals_def demo_def below_fst)
qed

lemma demo_inv: "mem_inv (stored (demo_start rs))"
  by (simp add: demo_start_def mem_inv_def mem_empty_def)

section \<open>Evaluation\<close>

lemma demo_externals_simps [simp]:
  "x_text demo_externals = plain_text" "x_invoke demo_externals = (\<lambda>f args timeout ce. below (run_tool f args timeout ce))"
  "x_hook demo_externals = (\<lambda>h c r. ret ())"
  "x_input demo_externals = (\<lambda>m args. Inr args)" "x_isinstance demo_externals = (\<lambda>c v. True)"
  "x_sleep demo_externals = (\<lambda>d w. w)"
  "x_new_id demo_externals = below (\<lambda>w. (''id'' @ nat_digits (sc_next w), w\<lparr>sc_next := sc_next w + 1\<rparr>))"
  "x_now demo_externals = (\<lambda>w. (0, w))"
  "x_acomplete demo_externals = (\<lambda>rq. below (next_reply rq))"
  "x_has_callbacks demo_externals = False" "x_model_cost demo_externals = (\<lambda>m. True)"
  "x_pricing demo_externals = (\<lambda>m. None)" "x_rank demo_externals = (\<lambda>w i. 0)" "x_resolves demo_externals = (\<lambda>m q. True)"
  by (simp_all add: demo_externals_def)

lemma desk_env_simps [simp]:
  "x_text (desk_env D X) = x_text X" "x_invoke (desk_env D X) = x_invoke X" "x_hook (desk_env D X) = x_hook X"
  "x_input (desk_env D X) = x_input X" "x_isinstance (desk_env D X) = x_isinstance X"
  "x_sleep (desk_env D X) = x_sleep X" "x_new_id (desk_env D X) = x_new_id X" "x_now (desk_env D X) = x_now X"
  "x_acomplete (desk_env D X) = x_acomplete X" "x_has_callbacks (desk_env D X) = x_has_callbacks X"
  "x_model_cost (desk_env D X) = x_model_cost X" "x_pricing (desk_env D X) = x_pricing X"
  "x_rank (desk_env D X) = x_rank X" "x_resolves (desk_env D X) = x_resolves X"
  "x_deliver (desk_env D X) = desk_deliver D"
  by (simp_all add: desk_env_def)

lemma demo_desk_simps [simp]:
  "ds_store demo_desk = mem_ops" "ds_memory demo_desk = Some (mem_memory plain_text)"
  "ds_dump_job demo_desk = (\<lambda>j. Inr (PStr ''job''))" "ds_stream demo_desk = False"
  "ds_stream_mode demo_desk = StreamOff" "ds_model demo_desk = ''m''" "ds_temperature demo_desk = None"
  "ds_max_tokens demo_desk = None" "ds_structured_retries demo_desk = 3" "ds_max_iterations demo_desk = 10"
  "ds_max_tool_calls demo_desk = 20" "ds_num_retries demo_desk = 0" "ds_respect_context demo_desk = True"
  "ds_max_context_messages demo_desk = None" "ds_max_cost_usd demo_desk = None"
  by (simp_all add: demo_desk_def)

lemma mem_simps [simp]:
  "so_create mem_ops = mem_create_run" "so_update mem_ops = mem_update_run" "so_get mem_ops = mem_get_run"
  "so_events mem_ops = mem_get_events"
  "mo_read (mem_memory P) = (\<lambda>k scope m. Inr (mem_memory_read k scope m))"
  "mo_write (mem_memory P) = (\<lambda>k v scope m. Inr (mem_memory_write k v scope m))"
  by (simp_all add: mem_ops_def mem_memory_def)

lemma demo_job_mode [simp]: "job_stream_mode demo_job = None" "job_id demo_job = ''job''"
  by (simp_all add: demo_job_def)

lemma demo_prompt [simp]:
  "build_messages plain_text None (demo_job\<lparr>job_stream_mode := md\<rparr>) = [mk_message User (CText ''hello'')]"
  by (simp add: build_messages_def system_message_def render_input_def)

lemma demo_member_simps [simp]:
  "mb_worker demo_member = demo_worker" "mb_model demo_member = None" "mb_scope demo_member = ''worker:w''" 
  by (simp_all add: demo_member_def)

lemma demo_delivers [simp]:
  "eb_handlers w = [] \<Longrightarrow> desk_deliver demo_desk e w =
    (case mem_add_event e (dw_store w) of Inl x \<Rightarrow> (Inl x, w) | Inr st \<Rightarrow> (Inr (), w\<lparr>dw_store := st\<rparr>))"
  by (cases "ev_type e"; simp add: desk_deliver_def bus_emit_def eseq_def ebind_def gets_def handlers_for_def
      dict_get_or_def ret_def on_store_def mem_ops_def split: sum.split)

lemma desk_tool_runs [simp]:
  assumes "t = echo \<or> t = guarded"
  shows "sc_log (desk_world.more w) = [] \<Longrightarrow> aexecute_tool (desk_env D demo_externals) t c False False w
     = (Inr ok_result, w\<lparr>desk_world.more := (desk_world.more w)\<lparr>sc_log := [tl_name t]\<rparr>\<rparr>)"
  using assms
  by (auto simp: aexecute_tool_def echo_def guarded_def demo_tool_def run_pre_hooks_def
      run_post_hooks_def validate_tool_call_def finish_with_post_hooks_def execute_once_def
      run_tool_def returned_result_def validate_output_def to_content_def report_progress_def below_def
      ebind_def eseq_def ret_def gets_def ok_result_def empty_result_def no_result_def)

definition demo_arun :: "completion list \<Rightarrow> (exc + report) \<times> demo_world desk_state" where
  "demo_arun rs = desk_arun demo_desk demo_externals (RWorker demo_member) demo_job None (Some ''run'') (demo_start rs)"

lemmas desk_defs = desk_arun_def ensure_open_def the_run_id_def start_run_def prepare_job_def apply_memory_def
  resolve_stream_mode_def create_run_def desk_emit_def checked_config_def make_run_config_def guarded_run_def
  run_runner_def runner_worker_def finalize_run_def update_run_def record_memory_def write_memory_def
  member_arun_def on_store_def on_memory_def below_def demo_start_def
  mem_memory_read_def mem_memory_write_def mem_create_run_def mem_add_event_def mem_update_run_def
  register_worker_def mem_empty_def pop_override_def remember_override_def with_stream_def


lemma demo_arun_completes:
  "\<exists>rep s'. demo_arun [say ''bye''] = (Inr rep, s') \<and> rep_status rep = Completed"
  by (simp add: demo_arun_def desk_defs scenario_defs dict_get_or_def validate_execution_limits_def
      model_name_def del: One_nat_def cong: run_weak_cong)

lemmas desk_resume_defs = desk_aresume_def resume_runner_def resume_stream_def restore_override_def get_worker_def
  member_aresume_def aresume_def resume_worker_def resume_config_def
  answer_pending_def resolve_resume_tool_def totals_from_metrics_def restore_totals_def
  dict_update_def mem_get_run_def mem_get_events_def toolbelt_resolve_def tool_prompt_def fstr_def

lemma demo_arun_pauses:
  "\<exists>rep s'. demo_arun [ask_for [demo_call ''c2'' ''guarded''], say ''done''] = (Inr rep, s') \<and> rep_status rep = Paused
     \<and> (\<exists>rep' s''. desk_aresume demo_desk demo_externals (\<lambda>_ _ _ _. raise out_of_fuel) rep (PStr ''yes'') None s' = (Inr rep', s'')
         \<and> rep_status rep' = Completed)"
  by (simp add: demo_arun_def desk_defs desk_resume_defs scenario_defs dict_get_or_def validate_execution_limits_def
      model_name_def del: One_nat_def cong: run_weak_cong)

section \<open>Over SQLite\<close>

text \<open>The same desk with a SQLite run store.\<close>

definition sql_desk :: "(sql_store, mem_memory, script) desk" where
  "sql_desk =
     \<lparr>ds_model = ''m'', ds_temperature = None, ds_max_tokens = None, ds_stream = False,
      ds_stream_mode = StreamOff, ds_structured_retries = 3, ds_max_iterations = 10,
      ds_max_tool_calls = 20, ds_num_retries = 0, ds_respect_context = True,
      ds_max_context_messages = None, ds_max_cost_usd = None,
      ds_store = sql_ops (reload_state plain_text (\<lambda>_ _. True)),
      ds_memory = None,
      ds_handlers = \<lparr>hd_call = (\<lambda>h e. ret Plain), hd_await = (\<lambda>a. ret ())\<rparr>,
      ds_task_order = (\<lambda>ts. ts), ds_rounds = 1, ds_dump_job = (\<lambda>j. Inr (PStr ''job''))\<rparr>"

definition sql_start :: "completion list \<Rightarrow> (sql_store, mem_memory, script) desk_world_scheme desk_state" where
  "sql_start rs =
     \<lparr>rt_events = [], rt_totals = [],
      rt_world = \<lparr>eb_handlers = [], eb_pending = [], eb_errors = [], eb_next = 0,
                  dw_store = sql_empty, dw_memory = [],
                  \<dots> = \<lparr>sc_next = 0, sc_replies = rs, sc_log = []\<rparr>\<rparr>,
      dk_workers = [], dk_workforces = [], dk_flows = [], dk_overrides = [], dk_closed = False\<rparr>"

lemma sql_desk_simps [simp]:
  "ds_store sql_desk = sql_ops (reload_state plain_text (\<lambda>_ _. True))" "ds_memory sql_desk = None"
  "ds_dump_job sql_desk = (\<lambda>j. Inr (PStr ''job''))" "ds_stream sql_desk = False"
  "ds_stream_mode sql_desk = StreamOff" "ds_model sql_desk = ''m''" "ds_temperature sql_desk = None"
  "ds_max_tokens sql_desk = None" "ds_structured_retries sql_desk = 3" "ds_max_iterations sql_desk = 10"
  "ds_max_tool_calls sql_desk = 20" "ds_num_retries sql_desk = 0" "ds_respect_context sql_desk = True"
  "ds_max_context_messages sql_desk = None" "ds_max_cost_usd sql_desk = None"
  by (simp_all add: sql_desk_def)

lemma sql_delivers [simp]:
  "eb_handlers w = [] \<Longrightarrow> desk_deliver sql_desk e w =
    (case sql_add_event e (dw_store w) of Inl x \<Rightarrow> (Inl x, w) | Inr st \<Rightarrow> (Inr (), w\<lparr>dw_store := st\<rparr>))"
  by (cases "ev_type e"; simp add: desk_deliver_def bus_emit_def eseq_def ebind_def gets_def handlers_for_def
      dict_get_or_def ret_def on_store_def sql_ops_def sql_desk_def split: sum.split)

lemma sql_simps [simp]:
  "so_create (sql_ops load) = sql_create_run" "so_update (sql_ops load) = sql_update_run"
  by (simp_all add: sql_ops_def)

lemma small_digits [simp]: "n < 10 \<Longrightarrow> nat_digits n = [char_of (48 + n)]"
  by (simp add: nat_digits.simps)

lemma sql_arun_pauses:
  "\<exists>rep s'. desk_arun sql_desk demo_externals (RWorker demo_member) demo_job None (Some ''run'')
       (sql_start [ask_for [demo_call ''c2'' ''guarded''], say ''done'']) = (Inr rep, s') \<and> rep_status rep = Paused"
  by (simp add: desk_defs scenario_defs dict_get_or_def validate_execution_limits_def sql_start_def sql_empty_def
      sql_create_run_def sql_add_event_def sql_update_run_def sql_serialize_def char_of_eq_iff
      tool_call_summaries_def content_value_def
      model_name_def del: One_nat_def cong: run_weak_cong)

end
