(* ===== verification/Desk_Properties.thy ===== *)
theory Desk_Properties
  imports Desk_Scenario Workforce_Laws
begin

text \<open>
  The properties of the desk over its two run stores, as facts of the interpretation of
  \<open>desk_runs\<close>; the witnesses are runs of the desk of \<^verbatim>\<open>Desk_Scenario\<close>.
\<close>

definition leaves_store ::
  "('st, 'm, 'u) desk \<Rightarrow> (('st, 'm, 'u) desk_world_scheme, 'x) force_ext_scheme \<Rightarrow> bool" where
  "leaves_store D X \<longleftrightarrow> force_moves same_store X \<and>
     (\<forall>h e. moving same_store (hd_call (ds_handlers D) h e)) \<and>
     (\<forall>a. moving same_store (hd_await (ds_handlers D) a))"

lemma over_memory:
  "leaves_store D X \<Longrightarrow> ds_store D = mem_ops \<Longrightarrow>
   desk_runs mem_ops mem_inv (\<lambda>s. dict_get (ms_runs s)) (\<lambda>st. st) D X"
  by (intro desk_runs.intro desk_runs_axioms.intro mem.run_store_axioms) (auto simp: leaves_store_def)

lemma over_sqlite:
  "leaves_store D X \<Longrightarrow> ds_store D = sql_ops load \<Longrightarrow>
   desk_runs (sql_ops load) sql_inv (sql_view load) load D X"
  by (intro desk_runs.intro desk_runs_axioms.intro sql.run_store_axioms) (auto simp: leaves_store_def)


section \<open>Runs that end\<close>



section \<open>Runs that pause\<close>

text \<open>A run the desk can resume, in the terms of the SQLite store.\<close>

definition sql_resumable ::
  "(run_state \<Rightarrow> run_state) \<Rightarrow> (sql_store, 'm, 'u) desk \<Rightarrow> string \<Rightarrow>
   (sql_store, 'm, 'u) desk_world_scheme desk_state \<Rightarrow> bool" where
  "sql_resumable load D rid s \<longleftrightarrow> sql_inv (stored s) \<and>
     (\<exists>r st m. sql_get_run load rid (stored s) = Inr (Some r) \<and> rc_status r = Paused \<and> rc_state r = Some st \<and>
        paused_ok (ds_max_tool_calls D) st \<and> rs_runner_type st = ''worker'' \<and>
        get_worker (rs_runner_name st) s = Some m \<and> mb_name m = rs_runner_name st)"

lemma sql_resumable_iff:
  "leaves_store D X \<Longrightarrow> ds_store D = sql_ops load \<Longrightarrow>
   desk_runs.resumable_run sql_inv (sql_view load) D rid s = sql_resumable load D rid s"
  by (auto simp: desk_runs.resumable_run_def[OF over_sqlite] sql_resumable_def sql_get_run_def sql_view_def)

lemma reload_loads_well:
  assumes "leaves_store D X" "ds_store D = sql_ops (reload_state P resolve)"
  shows "desk_runs.loads_well (reload_state P resolve)"
  unfolding desk_runs.loads_well_def[OF over_sqlite[OF assms]]
  using paused_ok_reload by (auto simp: reload_state_def)

text \<open>The histories of one worker run: it is started, and resumed with its report whenever it has
  paused; in between the desk may do anything that leaves its record and its registrations alone.\<close>

inductive worker_history ::
  "(sql_store, 'm, 'u) desk \<Rightarrow> ((sql_store, 'm, 'u) desk_world_scheme, 'x) force_ext_scheme \<Rightarrow> string \<Rightarrow>
   report \<Rightarrow> (sql_store, 'm, 'u) desk_world_scheme desk_state \<Rightarrow> bool" for D X rid where
  started: "sql_inv (stored s) \<Longrightarrow> rid \<noteq> [] \<Longrightarrow> conversation_ok (initial_messages j) \<Longrightarrow>
    desk_arun D X (RWorker m) j stream (Some rid) s = (Inr rep, s') \<Longrightarrow> worker_history D X rid rep s'"
| resumed: "worker_history D X rid rep s \<Longrightarrow> rep_status rep = Paused \<Longrightarrow> rep_run_id rep = rid \<Longrightarrow>
    desk_aresume D X fl rep d stream s = (Inr rep', s') \<Longrightarrow> worker_history D X rid rep' s'"
| elsewhere: "worker_history D X rid rep s \<Longrightarrow> sql_inv (stored s') \<Longrightarrow>
    (\<And>load. sql_get_run load rid (stored s') = sql_get_run load rid (stored s)) \<Longrightarrow>
    dk_workers s' = dk_workers s \<Longrightarrow> worker_history D X rid rep s'"

lemma sql_ended:
  fixes D :: "(sql_store, 'm, 'u) desk" and s :: "(sql_store, 'm, 'u) desk_world_scheme desk_state"
  assumes "leaves_store D X" "ds_store D = sql_ops load"
    and e: "desk_runs.run_ended sql_inv (sql_view load) load rid b es se (rep, st) s"
  shows "\<exists>r. sql_get_run load rid (stored s) = Inr (Some r) \<and> recorded rep r"
proof -
  from e obtain r where "sql_view load (stored s) rid = Some r" "final_record load se (rep, st) r"
    unfolding desk_runs.run_ended_def[OF over_sqlite[OF assms(1,2)]] by auto
  with final_record_recorded show ?thesis by (auto simp: sql_get_run_def sql_view_def)
qed

lemma worker_ended_facts:
  fixes D :: "(sql_store, 'm, 'u) desk" and s :: "(sql_store, 'm, 'u) desk_world_scheme desk_state"
  assumes D: "leaves_store D X" "ds_store D = sql_ops (reload_state P resolve)"
    and e: "desk_runs.run_ended sql_inv (sql_view (reload_state P resolve)) (reload_state P resolve) rid b es se (rep, st) s"
    and w: "desk_runs.worker_end D m (rep, st) s"
  shows "(\<exists>r. sql_get_run (reload_state P resolve) rid (stored s) = Inr (Some r) \<and> recorded rep r)
    \<and> (rep_status rep = Paused \<longrightarrow> sql_resumable (reload_state P resolve) D rid s)
    \<and> (rep_status rep = Completed \<longrightarrow> conversation_ok (rep_messages rep))"
proof -
  note desk = over_sqlite[OF D]
  have "rep_status rep = Paused \<Longrightarrow> sql_resumable (reload_state P resolve) D rid s"
    using desk_runs.run_ended_resumable[OF desk e w reload_loads_well[OF D]] sql_resumable_iff[OF D] by simp
  moreover have "\<exists>r. sql_get_run (reload_state P resolve) rid (stored s) = Inr (Some r) \<and> recorded rep r"
    by (rule sql_ended[OF D e])
  ultimately show ?thesis using desk_runs.worker_end_conversation[OF desk w] by blast
qed

lemma worker_history_facts:
  assumes "ds_store D = sql_ops (reload_state P resolve)" "leaves_store D X" "good_ids X"
    and "worker_history D X rid rep s"
  shows "(\<exists>r. sql_get_run (reload_state P resolve) rid (stored s) = Inr (Some r) \<and> recorded rep r)
    \<and> (rep_status rep = Paused \<longrightarrow> sql_resumable (reload_state P resolve) D rid s)
    \<and> (rep_status rep = Completed \<longrightarrow> conversation_ok (rep_messages rep))"
  using assms(4)
proof induction
  case (started s j m stream rep s')
  note desk = over_sqlite[OF assms(2,1)]
  from wpD(1)[OF desk_runs.worker_arun_records[OF desk started(1,2) assms(3) started(3)] started(4)]
  show ?case
    using worker_ended_facts[OF assms(2,1)] by blast
next
  case (resumed rep s fl d stream rep' s')
  note desk = over_sqlite[OF assms(2,1)]
  from resumed have "desk_runs.resumable_run sql_inv (sql_view (reload_state P resolve)) D (rep_run_id rep) s"
    using sql_resumable_iff[OF assms(2,1)] desk_runs.worker_end_conversation[OF desk] by blast
  from wpD(1)[OF desk_runs.worker_aresume_records[OF desk this assms(3)] resumed(4)] resumed(3)
  show ?case
    using worker_ended_facts[OF assms(2,1)] by blast
next
  case (elsewhere rep s s')
  then show ?case by (simp add: sql_resumable_def get_worker_def)
qed

text \<open>
  C23: With SQLite a worker run that pauses can be resumed, however often it pauses: at any time
  the store holds the run as its last report describes it, and while it is paused its state, which
  has made the round trip through the store, still waits for the pending call of a worker the desk
  knows.
\<close>

theorem paused_run_stays_resumable:
  assumes "ds_store D = sql_ops (reload_state P resolve)" "leaves_store D X" "good_ids X"
    and "worker_history D X rid rep s"
  shows "(\<exists>r. sql_get_run (reload_state P resolve) rid (stored s) = Inr (Some r) \<and> recorded rep r)
    \<and> (rep_status rep = Paused \<longrightarrow> sql_resumable (reload_state P resolve) D rid s)"
  using worker_history_facts[OF assms] by blast

lemma sql_desk_leaves: "leaves_store sql_desk demo_externals"
  using demo_externals_moves by (auto simp: leaves_store_def sql_desk_def intro!: moves)

theorem paused_run_stays_resumable_witness:
  "\<exists>rep s'. desk_arun sql_desk demo_externals (RWorker demo_member) demo_job None (Some ''run'')
       (sql_start [ask_for [demo_call ''c2'' ''guarded''], say ''done'']) = (Inr rep, s')
     \<and> sql_resumable (reload_state plain_text (\<lambda>_ _. True)) sql_desk ''run'' s'"
proof -
  obtain rep s' where r: "desk_arun sql_desk demo_externals (RWorker demo_member) demo_job None (Some ''run'')
       (sql_start [ask_for [demo_call ''c2'' ''guarded''], say ''done'']) = (Inr rep, s')" "rep_status rep = Paused"
    using sql_arun_pauses by blast
  have "worker_history sql_desk demo_externals ''run'' rep s'"
    by (rule worker_history.started[OF _ _ _ r(1)])
      (simp_all add: sql_start_def sql_inv_def sql_empty_def initial_messages_def)
  from paused_run_stays_resumable[OF sql_desk_simps(1) sql_desk_leaves demo_externals_ids this] r show ?thesis by blast
qed

section \<open>Failures\<close>






text \<open>
  Resuming a run the store does not know returns a failed report and changes nothing at all.
  Resuming one without a stored state, be it one that has completed, returns a failed report and
  makes the stored run failed.
\<close>

lemma resume_without_state:
  assumes "ds_store D = mem_ops" "leaves_store D X" "mem_inv (stored s)" "\<not> dk_closed s"
  shows "(dict_get (ms_runs (stored s)) (rep_run_id rep) = None \<longrightarrow>
      (\<exists>rep'. desk_aresume D X fl rep d stream s = (Inr rep', s) \<and> rep_status rep' = Failed))
    \<and> (\<forall>q rep' s'. dict_get (ms_runs (stored s)) (rep_run_id rep) = Some q \<and> rc_state q = None \<and>
          desk_aresume D X fl rep d stream s = (Inr rep', s') \<longrightarrow>
        rep_status rep' = Failed \<and> rep_messages rep' = rep_messages rep \<and>
        (\<exists>q'. dict_get (ms_runs (stored s')) (rep_run_id rep) = Some q' \<and> rc_status q' = Failed \<and>
           rc_output q' = None) \<and>
        (\<forall>i. i \<noteq> rep_run_id rep \<longrightarrow> dict_get (ms_runs (stored s')) i = dict_get (ms_runs (stored s)) i))"
proof (intro conjI allI impI)
  note desk = over_memory[OF assms(2,1)]
  assume "dict_get (ms_runs (stored s)) (rep_run_id rep) = None"
  from desk_runs.resume_unknown[OF desk assms(4) this, of fl d stream]
  show "\<exists>rep'. desk_aresume D X fl rep d stream s = (Inr rep', s) \<and> rep_status rep' = Failed"
    by (auto simp: missing_run_report_def build_report_def)
next
  note desk = over_memory[OF assms(2,1)]
  fix q rep' s'
  assume "dict_get (ms_runs (stored s)) (rep_run_id rep) = Some q \<and> rc_state q = None \<and>
    desk_aresume D X fl rep d stream s = (Inr rep', s')"
  then have q: "dict_get (ms_runs (stored s)) (rep_run_id rep) = Some q" "rc_state q = None"
    and run: "desk_aresume D X fl rep d stream s = (Inr rep', s')" by blast+
  from wpD(1)[OF desk_runs.resume_stateless[OF desk assms(3) q] run]
  have *: "rep_status rep' = Failed" "rep_messages rep' = rep_messages rep"
    "\<exists>q'. dict_get (ms_runs (stored s')) (rep_run_id rep) = Some q' \<and> rc_status q' = Failed \<and> rc_output q' = None"
    "\<forall>i. i \<noteq> rep_run_id rep \<longrightarrow> dict_get (ms_runs (stored s')) i = dict_get (ms_runs (stored s)) i"
    unfolding desk_runs.resume_failed_def[OF desk] desk_runs.others_kept_def[OF desk] by blast+
  show "rep_status rep' = Failed" "rep_messages rep' = rep_messages rep"
    "\<exists>q'. dict_get (ms_runs (stored s')) (rep_run_id rep) = Some q' \<and> rc_status q' = Failed \<and> rc_output q' = None"
    by (fact *)+
  show "i \<noteq> rep_run_id rep \<Longrightarrow> dict_get (ms_runs (stored s')) i = dict_get (ms_runs (stored s)) i" for i
    using *(4) by blast
qed

definition demo_report :: report where
  "demo_report = build_report ''lost'' Paused None None PNone [] [] [] [] None []"

section \<open>Tools of a paused run\<close>




end
