(* ===== verification/Workflow_Context.thy ===== *)
theory Workflow_Context
  imports Desk
begin

text \<open>
  \<^verbatim>\<open>workflow/context.py\<close> and \<^verbatim>\<open>workflow/result.py\<close>: what the steps of a flow share, and what a
  step returns.  A report of a flow is a Python object whose identity \<open>add_output\<close> compares: it is
  given a number when it is made.  The nodes of a flow are objects too, compared by identity when a
  paused flow is stored, and numbered likewise; user callables of nodes are numbers.
\<close>

section \<open>Nodes\<close>

record step_head =
  sh_id :: nat
  sh_name :: string
  sh_runner :: runner
  sh_builder :: "nat option"

text \<open>\<open>Condition\<close> and \<open>AsyncCondition\<close>, \<open>Loop\<close> and \<open>AsyncLoop\<close> differ in their names only.\<close>

record condition_head =
  ch_id :: nat
  ch_async :: bool
  ch_predicate :: nat

record router_head =
  rh_id :: nat
  rh_selector :: nat

record loop_head =
  lh_id :: nat
  lh_async :: bool
  lh_stop :: nat
  lh_max :: int
  lh_explicit :: bool
  lh_name :: string

datatype node =
    Step step_head
  | Parallel nat "node list"
  | Condition condition_head "node list" "node list"
  | Router router_head "(string \<times> node list) list"
  | Loop loop_head "node list"

primrec node_id :: "node \<Rightarrow> nat" where
  "node_id (Step h) = sh_id h"
| "node_id (Parallel i ns) = i"
| "node_id (Condition h ts fs) = ch_id h"
| "node_id (Router h rs) = rh_id h"
| "node_id (Loop h ns) = lh_id h"

section \<open>Results\<close>

type_synonym flow_report = "nat \<times> report"

text \<open>
  A continuation is one of the classes of \<^verbatim>\<open>nodes.py\<close> that have the protocol \<open>WorkflowContinuation\<close>; outputs and
  continuations refer to each other.
\<close>

datatype step_output =
    PlainReport flow_report
  | StepResult flow_report "run_state option" "continuation_object list"
  and continuation_object =
    SequenceContinuation "node list"
  | LoopContinuation node int "string option"
  | OutputContinuation "step_output list"

type_synonym continuation = continuation_object

primrec output_report :: "step_output \<Rightarrow> flow_report" where
  "output_report (PlainReport r) = r"
| "output_report (StepResult r st cs) = r"

abbreviation report_for :: "step_output \<Rightarrow> report" where
  "report_for out \<equiv> snd (output_report out)"

primrec as_result :: "step_output \<Rightarrow> flow_report \<times> run_state option \<times> continuation list" where
  "as_result (PlainReport r) = (r, None, [])"
| "as_result (StepResult r st cs) = (r, st, cs)"

section \<open>The context\<close>

record workflow_context =
  wx_job :: job
  wx_outputs :: "flow_report list"
  wx_artifacts :: "pyval dict"
  wx_loops :: "(string \<times> int) list"

definition new_context :: "job \<Rightarrow> flow_report list \<Rightarrow> workflow_context" where
  "new_context j outs = \<lparr>wx_job = j, wx_outputs = outs, wx_artifacts = [], wx_loops = []\<rparr>"

definition add_output :: "flow_report \<Rightarrow> workflow_context \<Rightarrow> workflow_context" where
  "add_output r c =
     (if \<exists>e\<in>set (wx_outputs c). fst e = fst r then c
      else c\<lparr>wx_outputs := wx_outputs c @ [r]\<rparr>)"

definition loop_iteration :: "string \<Rightarrow> workflow_context \<Rightarrow> int" where
  "loop_iteration name c = dict_get_or (wx_loops c) name 0"

definition set_loop_iteration :: "string \<Rightarrow> int \<Rightarrow> workflow_context \<Rightarrow> workflow_context" where
  "set_loop_iteration name i c = c\<lparr>wx_loops := dict_set name i (wx_loops c)\<rparr>"

definition increment_loop_iteration :: "string \<Rightarrow> workflow_context \<Rightarrow> workflow_context" where
  "increment_loop_iteration name c = set_loop_iteration name (loop_iteration name c + 1) c"

text \<open>\<open>snapshot\<close>: the artifacts must be JSON.\<close>

definition snapshot :: "workflow_context \<Rightarrow> exc + pyval" where
  "snapshot c =
     (let artifacts = to_json_value (PDict (wx_artifacts c))
      in if is_json artifacts
         then Inr (PDict [(''artifacts'', artifacts),
                          (''loop_iterations'', PDict (map (map_prod id PInt) (wx_loops c)))])
         else Inl (TypeErr ''Workflow context artifacts must be JSON-serializable''))"

fun count_value :: "pyval \<Rightarrow> int option" where
  "count_value (PInt i) = (if i < 0 then None else Some i)"
| "count_value _ = None"

definition restore_context :: "job \<Rightarrow> flow_report list \<Rightarrow> pyval \<Rightarrow> exc + workflow_context" where
  "restore_context j outs payload =
     (case payload of
        PNone \<Rightarrow> Inr (new_context j outs)
      | PDict d \<Rightarrow>
          (case dict_get_or d ''artifacts'' (PDict []) of
             PDict artifacts \<Rightarrow>
               (case dict_get_or d ''loop_iterations'' (PDict []) of
                  PDict loops \<Rightarrow>
                    if \<exists>kv\<in>set loops. count_value (snd kv) = None
                    then Inl (ValueError ''Invalid workflow loop iterations'')
                    else Inr \<lparr>wx_job = j, wx_outputs = outs, wx_artifacts = artifacts,
                              wx_loops = map (\<lambda>(k, v). (k, the (count_value v))) loops\<rparr>
                | _ \<Rightarrow> Inl (ValueError ''Invalid workflow loop iterations''))
           | _ \<Rightarrow> Inl (ValueError ''Invalid workflow context artifacts''))
      | _ \<Rightarrow> Inl (ValueError ''Invalid workflow context''))"

section \<open>Outputs that stop a sequence\<close>

definition should_stop :: "step_output list \<Rightarrow> bool" where
  "should_stop outs \<longleftrightarrow> (\<exists>out\<in>set outs. rep_status (report_for out) \<in> {Paused, Failed})"

definition some_paused :: "step_output list \<Rightarrow> bool" where
  "some_paused outs \<longleftrightarrow> (\<exists>out\<in>set outs. rep_status (report_for out) = Paused)"

definition publish_outputs :: "step_output list \<Rightarrow> workflow_context \<Rightarrow> workflow_context" where
  "publish_outputs outs c =
     foldl (\<lambda>c out. if rep_status (report_for out) = Completed then add_output (output_report out) c
                    else c) c outs"

text \<open>The first paused output takes what comes after it along, to be done when it is resumed.\<close>

fun defer_first :: "step_output list \<Rightarrow> continuation list \<Rightarrow> step_output list" where
  "defer_first [] cs = []"
| "defer_first (out # outs) cs =
     (if rep_status (report_for out) \<noteq> Paused then out # defer_first outs cs
      else case as_result out of
        (r, st, own) \<Rightarrow>
          [StepResult r st (own @ (if outs \<noteq> [] then [OutputContinuation outs] else []) @ cs)])"

definition defer_after_pause :: "step_output list \<Rightarrow> continuation list \<Rightarrow> step_output list" where
  "defer_after_pause outs cs =
     (let failures = filter (\<lambda>out. rep_status (report_for out) = Failed) outs
      in if failures \<noteq> [] then failures else defer_first outs cs)"

end
