(* ===== verification/Workflow_Nodes.thy ===== *)
theory Workflow_Nodes
  imports Workflow_Context
begin

text \<open>
  The nodes of \<^verbatim>\<open>workflow/nodes.py\<close>: how each executes, and what is left of one that pauses.  The
  state of a flow run is the desk's with the context the nodes share, the reports collected so far
  and the next number of a report.  \<open>flow_calls\<close> are the user's callables, which see and may change
  the context, the digest of a flow's shape, and a bound on the rounds of a loop (\<open>fe_rounds\<close>): a
  loop that does not end within it raises \<open>out_of_fuel\<close>.  Executables of the user's own are left out.
\<close>

record 'w flow_state =
  fs_desk :: "'w desk_state"
  fs_context :: workflow_context
  fs_reports :: "flow_report list"
  fs_stream :: bool
  fs_run_id :: string
  fs_next :: nat

type_synonym ('w, 'a) user_call = "(workflow_context \<times> 'w, 'a) eff"

record 'w flow_calls =
  fe_builder :: "nat \<Rightarrow> ('w, job) user_call"
  fe_test :: "nat \<Rightarrow> ('w, bool) user_call"
  fe_select :: "nat \<Rightarrow> ('w, string) user_call"
  fe_digest :: "pyval \<Rightarrow> string"
  fe_rounds :: nat

type_synonym ('st, 'm, 'u, 'a) flow_eff =
  "(('st, 'm, 'u) desk_world_scheme flow_state, 'a) eff"

section \<open>Reaching into the state\<close>

definition on_desk :: "('w desk_state, 'a) eff \<Rightarrow> ('w flow_state, 'a) eff" where
  "on_desk m s = (case m (fs_desk s) of (r, d) \<Rightarrow> (r, s\<lparr>fs_desk := d\<rparr>))"

definition on_context :: "(workflow_context \<Rightarrow> workflow_context) \<Rightarrow> ('w flow_state, unit) eff" where
  "on_context f = modify (\<lambda>s. s\<lparr>fs_context := f (fs_context s)\<rparr>)"

definition on_user :: "('w, 'a) user_call \<Rightarrow> ('w flow_state, 'a) eff" where
  "on_user m s =
     (case m (fs_context s, rt_world (fs_desk s)) of
        (r, c, w) \<Rightarrow> (r, s\<lparr>fs_context := c, fs_desk := (fs_desk s)\<lparr>rt_world := w\<rparr>\<rparr>))"

definition fresh_report :: "report \<Rightarrow> ('w flow_state, flow_report) eff" where
  "fresh_report rep s = (Inr (fs_next s, rep), s\<lparr>fs_next := fs_next s + 1\<rparr>)"

text \<open>\<open>Flow.emit\<close> and \<open>Flow._make_run_config\<close>; the configuration is checked when it is built.\<close>

definition flow_emit ::
  "('st, 'm, 'u) desk \<Rightarrow> (('st, 'm, 'u) desk_world_scheme, 'x) force_ext_scheme \<Rightarrow> event_type \<Rightarrow>
   string \<Rightarrow> pyval dict \<Rightarrow> ('st, 'm, 'u, unit) flow_eff" where
  "flow_emit D X ty source payload =
     ebind (gets fs_run_id) (\<lambda>rid.
     if rid = [] then ret () else on_desk (emit (desk_env D X) rid ty source payload))"

definition flow_config :: "('st, 'm, 'u) desk \<Rightarrow> ('st, 'm, 'u, run_config) flow_eff" where
  "flow_config D =
     ebind (gets (\<lambda>s. make_run_config D (fs_run_id s) (fs_stream s))) (\<lambda>c. from_sum (checked_config c))"

definition flow_run_runner ::
  "('st, 'm, 'u) desk \<Rightarrow> (('st, 'm, 'u) desk_world_scheme, 'x) force_ext_scheme \<Rightarrow> runner \<Rightarrow> job \<Rightarrow>
   ('st, 'm, 'u, report \<times> run_state option) flow_eff" where
  "flow_run_runner D X r j =
     ebind (flow_config D) (\<lambda>c.
     on_desk
       (case r of
          RWorker m \<Rightarrow>
            eseq (modify (register_worker m))
           (ebind (prepare_job D (x_text X) r j) (\<lambda>j'.
            ebind (member_arun (desk_env D X) m c j') (\<lambda>(rep, st).
            eseq (record_memory D (Some m) rep) (ret (rep, st)))))
        | RWorkforce crew \<Rightarrow>
            eseq (modify (register_workforce crew))
           (ebind (prepare_job D (x_text X) r j) (\<lambda>j'.
            workforce_arun (desk_env D X) (member_arun (desk_env D X)) crew c j' None))
        | ROther t \<Rightarrow> raise (TypeErr ''Runner must be Worker or Workforce'')))"

section \<open>Sequences, loops and parallel steps\<close>

text \<open>A step comes with how it executes: the recursion over the nodes is in \<open>execute\<close>.\<close>

type_synonym ('st, 'm, 'u) runnable = "node \<times> ('st, 'm, 'u, step_output list) flow_eff"

fun sequence_from ::
  "('st, 'm, 'u) runnable list \<Rightarrow> step_output list \<Rightarrow> ('st, 'm, 'u, step_output list) flow_eff" where
  "sequence_from [] outs = ret outs"
| "sequence_from ((n, m) # steps) outs =
     ebind m (\<lambda>step_outs.
     eseq (on_context (publish_outputs step_outs))
     (if \<not> should_stop step_outs then sequence_from steps (outs @ step_outs)
      else if some_paused step_outs
      then ret (defer_after_pause (outs @ step_outs)
                  (if steps \<noteq> [] then [SequenceContinuation (map fst steps)] else []))
      else ret (outs @ step_outs)))"

definition execute_sequence ::
  "('st, 'm, 'u) runnable list \<Rightarrow> ('st, 'm, 'u, step_output list) flow_eff" where
  "execute_sequence steps = sequence_from steps []"

text \<open>One round of a loop from the step \<open>index\<close> on: \<open>Inl\<close> what the loop returns at once, \<open>Inr\<close> the
  outputs of a round that came to its end.\<close>

fun loop_round ::
  "node \<Rightarrow> ('st, 'm, 'u) runnable list \<Rightarrow> int \<Rightarrow> step_output list \<Rightarrow>
   ('st, 'm, 'u, step_output list + step_output list) flow_eff" where
  "loop_round lp [] index outs = ret (Inr outs)"
| "loop_round lp ((n, m) # steps) index outs =
     ebind m (\<lambda>step_outs.
     eseq (on_context (publish_outputs step_outs))
     (if \<not> should_stop step_outs then loop_round lp steps (index + 1) (outs @ step_outs)
      else if some_paused step_outs
      then ret (Inl (defer_after_pause (outs @ step_outs) [LoopContinuation lp (index + 1) None]))
      else ret (Inl (outs @ step_outs))))"

primrec run_iterations ::
  "nat \<Rightarrow> ('st, 'm, 'u) desk_world_scheme flow_calls \<Rightarrow> loop_head \<Rightarrow> node \<Rightarrow> ('st, 'm, 'u) runnable list \<Rightarrow> step_output list \<Rightarrow> int \<Rightarrow>
   bool \<Rightarrow> ('st, 'm, 'u, step_output list) flow_eff" where
  "run_iterations 0 U h lp steps outs start started = raise out_of_fuel"
| "run_iterations (Suc n) U h lp steps outs start started =
     ebind (gets (\<lambda>s. loop_iteration (lh_name h) (fs_context s))) (\<lambda>i.
     if started \<or> i < lh_max h
     then eseq (if started then ret () else on_context (increment_loop_iteration (lh_name h)))
         (ebind (loop_round lp (drop (nat start) steps) start outs) (\<lambda>r.
          case r of
            Inl final \<Rightarrow> ret final
          | Inr outs' \<Rightarrow>
              ebind (on_user (fe_test U (lh_stop h))) (\<lambda>stop.
              if stop then ret outs' else run_iterations n U h lp steps outs' 0 False)))
     else ret outs)"

text \<open>\<open>asyncio.gather\<close>: every step runs to its end, in the order the loop picks; the first exception
  is raised, else the results come back in the order of the steps.\<close>

definition gather_steps ::
  "(('st, 'm, 'u) desk_world_scheme, 'x) force_ext_scheme \<Rightarrow>
   ('st, 'm, 'u, step_output list) flow_eff list \<Rightarrow> ('st, 'm, 'u, step_output list list) flow_eff" where
  "gather_steps X tasks =
     ebind (gets (\<lambda>s. schedule X (rt_world (fs_desk s)) (length tasks))) (\<lambda>order.
     ebind (run_tasks (\<lambda>i. attempt (tasks ! i)) order) (\<lambda>rs.
     case find (\<lambda>(i, r). isl r) rs of
       Some (i, Inl e) \<Rightarrow> raise e
     | _ \<Rightarrow> ret (map (\<lambda>i. projr (the (map_of rs i))) [0..<length tasks])))"

section \<open>\<open>execute\<close>\<close>

definition execute_step ::
  "('st, 'm, 'u) desk \<Rightarrow> (('st, 'm, 'u) desk_world_scheme, 'x) force_ext_scheme \<Rightarrow>
   ('st, 'm, 'u) desk_world_scheme flow_calls \<Rightarrow> step_head \<Rightarrow>
   ('st, 'm, 'u, step_output list) flow_eff" where
  "execute_step D X U h =
     ebind (case sh_builder h of
              Some b \<Rightarrow> on_user (fe_builder U b)
            | None \<Rightarrow> gets (\<lambda>s. wx_job (fs_context s))) (\<lambda>j.
     eseq (flow_emit D X StepStarted (sh_name h) [])
    (ebind (flow_run_runner D X (sh_runner h) j) (\<lambda>(rep, st).
     eseq (flow_emit D X (if st \<noteq> None \<and> rep_status rep = Paused then StepPaused else StepCompleted)
             (sh_name h) [(''status'', PStr (run_status_str (rep_status rep)))])
    (ebind (fresh_report rep) (\<lambda>r. ret [StepResult r st []])))))"

fun execute ::
  "('st, 'm, 'u) desk \<Rightarrow> (('st, 'm, 'u) desk_world_scheme, 'x) force_ext_scheme \<Rightarrow>
   ('st, 'm, 'u) desk_world_scheme flow_calls \<Rightarrow> node \<Rightarrow>
   ('st, 'm, 'u, step_output list) flow_eff" where
  "execute D X U (Step h) = execute_step D X U h"
| "execute D X U (Parallel i ns) =
     ebind (gather_steps X (map (\<lambda>n. execute D X U n) ns)) (\<lambda>groups.
     ret (defer_after_pause (concat groups) []))"
| "execute D X U (Condition h ts fs) =
     ebind (on_user (fe_test U (ch_predicate h))) (\<lambda>b.
     if b then execute_sequence (map (\<lambda>n. (n, execute D X U n)) ts)
     else execute_sequence (map (\<lambda>n. (n, execute D X U n)) fs))"
| "execute D X U (Router h routes) =
     ebind (on_user (fe_select U (rh_selector h))) (\<lambda>key.
     case dict_get (map (\<lambda>(k, ns). (k, map (\<lambda>n. (n, execute D X U n)) ns)) routes) key of
       None \<Rightarrow> execute_sequence []
     | Some steps \<Rightarrow> execute_sequence steps)"
| "execute D X U (Loop h ns) =
     eseq (on_context (set_loop_iteration (lh_name h) 0))
       (run_iterations (fe_rounds U) U h (Loop h ns) (map (\<lambda>n. (n, execute D X U n)) ns) [] 0 False)"

text \<open>What a continuation does when the flow is resumed.\<close>

definition run_continuation ::
  "('st, 'm, 'u) desk \<Rightarrow> (('st, 'm, 'u) desk_world_scheme, 'x) force_ext_scheme \<Rightarrow>
   ('st, 'm, 'u) desk_world_scheme flow_calls \<Rightarrow> continuation \<Rightarrow>
   ('st, 'm, 'u, step_output list) flow_eff" where
  "run_continuation D X U c =
     (case c of
        SequenceContinuation ns \<Rightarrow> execute_sequence (map (\<lambda>n. (n, execute D X U n)) ns)
      | OutputContinuation outs \<Rightarrow> ret outs
      | LoopContinuation lp start previous \<Rightarrow>
          (case lp of
             Loop h ns \<Rightarrow>
               eseq (case previous of
                       Some name \<Rightarrow>
                         if name \<noteq> lh_name h
                         then on_context (\<lambda>c. set_loop_iteration (lh_name h) (loop_iteration name c) c)
                         else ret ()
                     | None \<Rightarrow> ret ())
                 (run_iterations (fe_rounds U) U h lp (map (\<lambda>n. (n, execute D X U n)) ns) [] start True)
           | _ \<Rightarrow> raise (Exc ''AttributeError'' ''object has no attribute run_iterations'')))"

section \<open>The checks of the constructors\<close>

definition make_parallel :: "nat \<Rightarrow> node list \<Rightarrow> exc + node" where
  "make_parallel i ns =
     (if ns = [] then Inl (ValueError ''Parallel requires at least one step'') else Inr (Parallel i ns))"

text \<open>A loop without a name takes the next of its class's counter.\<close>

definition make_loop ::
  "nat \<Rightarrow> bool \<Rightarrow> node list \<Rightarrow> nat \<Rightarrow> int \<Rightarrow> string option \<Rightarrow> nat \<Rightarrow> exc + node" where
  "make_loop i async ns stop limit name counter =
     (if ns = [] then Inl (ValueError ''Loop requires at least one step'')
      else if limit < 1 then Inl (ValueError ''max_iterations must be >= 1'')
      else if (case name of Some n \<Rightarrow> str_strip n = [] | None \<Rightarrow> False)
      then Inl (ValueError ''Loop name must not be empty'')
      else Inr (Loop \<lparr>lh_id = i, lh_async = async, lh_stop = stop, lh_max = limit,
                      lh_explicit = (name \<noteq> None),
                      lh_name = (case name of Some n \<Rightarrow> n
                                 | None \<Rightarrow> (if async then ''async_loop_'' else ''loop_'') @ nat_digits counter)\<rparr>
                 ns))"

definition make_step :: "nat \<Rightarrow> runner \<Rightarrow> string option \<Rightarrow> string \<Rightarrow> nat option \<Rightarrow> node" where
  "make_step i r name runner_name builder =
     Step \<lparr>sh_id = i, sh_name = or_str name runner_name, sh_runner = r, sh_builder = builder\<rparr>"

end
