(* ===== verification/Workflow_Graph.thy ===== *)
theory Workflow_Graph
  imports Workflow_Context Workforce_Helpers
begin

text \<open>
  The graph of a flow (\<open>WorkflowGraph\<close> and what follows it in \<^verbatim>\<open>workflow/nodes.py\<close>): the path of
  each node, the shape a stored flow must still have, and how the continuations of a paused flow
  are written and read.  A path is a list of numbers and strings; a dumped report or state stays
  typed and is reloaded when it is read.
\<close>

section \<open>Paths\<close>

type_synonym step_path = "pyval list"

lemma route_size: "r \<in> set routes \<Longrightarrow> size_list size (snd r) < Suc (size_list (size_prod (\<lambda>_. 0) (size_list size)) routes)"
proof -
  assume "r \<in> set routes"
  then have "size_prod (\<lambda>_. 0) (size_list size) r \<le> size_list (size_prod (\<lambda>_. 0) (size_list size)) routes"
    by (rule size_list_estimation'[OF _ order_refl])
  then show ?thesis by (cases r) simp
qed

function executable_entries :: "step_path \<Rightarrow> nat \<Rightarrow> node list \<Rightarrow> (step_path \<times> node) list" where
  "executable_entries base i [] = []"
| "executable_entries base i (n # ns) =
     (let path = base @ [PInt (int i)]
      in (path, n) #
         (case n of
            Step h \<Rightarrow> []
          | Parallel j ks \<Rightarrow> executable_entries (path @ [PStr ''parallel'']) 0 ks
          | Condition h ts fs \<Rightarrow>
              executable_entries (path @ [PStr ''true'']) 0 ts @
              executable_entries (path @ [PStr ''false'']) 0 fs
          | Router h routes \<Rightarrow>
              concat (map (\<lambda>r. executable_entries (path @ [PStr ''route'', PStr (fst r)]) 0 (snd r)) routes)
          | Loop h ks \<Rightarrow> executable_entries (path @ [PStr ''loop'']) 0 ks) @
         executable_entries base (i + 1) ns)"
  by pat_completeness auto
termination
  by (relation "measure (\<lambda>(p, i, ns). size_list size ns)") (auto dest: route_size)

text \<open>\<open>path_for\<close> compares by identity, \<open>resolve\<close> takes the first node at the path.\<close>

definition path_for :: "node list \<Rightarrow> node \<Rightarrow> exc + step_path" where
  "path_for steps target =
     (case map fst (filter (\<lambda>(p, n). node_id n = node_id target) (executable_entries [] 0 steps)) of
        [] \<Rightarrow> Inl (ValueError ''Workflow continuation references a step outside the flow'')
      | [p] \<Rightarrow> Inr p
      | _ \<Rightarrow> Inl (ValueError ''Workflow step instances cannot be reused across continuation paths''))"

definition resolve_path :: "node list \<Rightarrow> step_path \<Rightarrow> exc + node" where
  "resolve_path steps path =
     (case find (\<lambda>(p, n). p = path) (executable_entries [] 0 steps) of
        None \<Rightarrow> Inl (ValueError ''Workflow continuation path does not exist in this flow'')
      | Some (p, n) \<Rightarrow> Inr n)"

definition parse_step_path :: "pyval \<Rightarrow> exc + step_path" where
  "parse_step_path payload =
     (case payload of
        PList parts \<Rightarrow>
          if \<forall>part\<in>set parts. (case part of PInt i \<Rightarrow> True | PStr s \<Rightarrow> True | _ \<Rightarrow> False)
          then Inr parts
          else Inl (ValueError ''Invalid workflow continuation path'')
      | _ \<Rightarrow> Inl (ValueError ''Invalid workflow continuation path''))"

section \<open>The shape of a flow\<close>

definition node_type :: "string \<Rightarrow> pyval" where
  "node_type name = PStr (''blackgeorge.workflow.nodes.'' @ name)"

fun runner_type :: "runner \<Rightarrow> pyval" where
  "runner_type (RWorker m) = PStr ''blackgeorge.worker.Worker''"
| "runner_type (RWorkforce crew) = PStr ''blackgeorge.workforce.Workforce''"
| "runner_type (ROther t) = PStr t"

fun runner_name_value :: "runner \<Rightarrow> pyval" where
  "runner_name_value (RWorker m) = PStr (mb_name m)"
| "runner_name_value (RWorkforce crew) = PStr (wf_name crew)"
| "runner_name_value (ROther t) = PNone"

fun executable_shape :: "node \<Rightarrow> pyval" where
  "executable_shape (Step h) =
     PDict [(''type'', node_type ''Step''), (''name'', PStr (sh_name h)),
            (''runner_type'', runner_type (sh_runner h)), (''runner_name'', runner_name_value (sh_runner h))]"
| "executable_shape (Parallel i ns) =
     PDict [(''type'', node_type ''Parallel''), (''steps'', PList (map executable_shape ns))]"
| "executable_shape (Condition h ts fs) =
     PDict [(''type'', node_type (if ch_async h then ''AsyncCondition'' else ''Condition'')),
            (''true'', PList (map executable_shape ts)), (''false'', PList (map executable_shape fs))]"
| "executable_shape (Router h routes) =
     PDict [(''type'', node_type ''Router''),
            (''routes'', PDict (map (\<lambda>(k, ns). (k, PList (map executable_shape ns))) routes))]"
| "executable_shape (Loop h ns) =
     PDict [(''type'', node_type (if lh_async h then ''AsyncLoop'' else ''Loop'')),
            (''name'', (if lh_explicit h then PStr (lh_name h) else PNone)),
            (''max_iterations'', PInt (lh_max h)), (''steps'', PList (map executable_shape ns))]"

text \<open>\<open>json.dumps(..., sort_keys=True)\<close>: dictionaries come in the order of their keys.\<close>

fun sorted_keys :: "pyval \<Rightarrow> pyval" where
  "sorted_keys (PDict d) = PDict (sort_key fst (map (\<lambda>(k, v). (k, sorted_keys v)) d))"
| "sorted_keys (PList xs) = PList (map sorted_keys xs)"
| "sorted_keys v = v"

text \<open>The digest stands for SHA-256 of the JSON text.\<close>

definition signature :: "(pyval \<Rightarrow> string) \<Rightarrow> node list \<Rightarrow> string" where
  "signature digest steps = digest (sorted_keys (PList (map executable_shape steps)))"

section \<open>Writing continuations\<close>

primrec sum_map :: "('a \<Rightarrow> exc + 'b) \<Rightarrow> 'a list \<Rightarrow> exc + 'b list" where
  "sum_map f [] = Inr []"
| "sum_map f (x # xs) =
     (case f x of
        Inl e \<Rightarrow> Inl e
      | Inr y \<Rightarrow> (case sum_map f xs of Inl e \<Rightarrow> Inl e | Inr ys \<Rightarrow> Inr (y # ys)))"

lemma sum_map_cong [fundef_cong]:
  "xs = ys \<Longrightarrow> (\<And>x. x \<in> set ys \<Longrightarrow> f x = g x) \<Longrightarrow> sum_map f xs = sum_map g ys"
proof (induction xs arbitrary: ys)
  case (Cons x xs)
  then have "sum_map f xs = sum_map g xs" "f x = g x" by auto
  then show ?case using Cons.prems(1) by (auto split: sum.split)
qed auto

fun serialize_step_output :: "node list \<Rightarrow> step_output \<Rightarrow> exc + stored_output"
  and serialize_continuation :: "node list \<Rightarrow> continuation \<Rightarrow> exc + stored_continuation" where
  "serialize_step_output g (PlainReport r) = Inr (StoredOutput (snd r) None [])"
| "serialize_step_output g (StepResult r st cs) =
     map_sum id (StoredOutput (snd r) st) (sum_map (serialize_continuation g) cs)"
| "serialize_continuation g (SequenceContinuation ns) =
     map_sum id (\<lambda>ps. StoredSequence (PList (map PList ps))) (sum_map (path_for g) ns)"
| "serialize_continuation g (LoopContinuation lp start previous) =
     map_sum id (\<lambda>p. StoredLoop (PList p) (PInt start)
         (PStr (case lp of Loop h ns \<Rightarrow> lh_name h | _ \<Rightarrow> []))) (path_for g lp)"
| "serialize_continuation g (OutputContinuation outs) =
     map_sum id StoredOutputs (sum_map (serialize_step_output g) outs)"

definition serialize_continuations :: "node list \<Rightarrow> continuation list \<Rightarrow> exc + stored_continuation list" where
  "serialize_continuations g cs = sum_map (serialize_continuation g) cs"

section \<open>Reading continuations\<close>

definition restore_sequence :: "node list \<Rightarrow> pyval \<Rightarrow> exc + continuation" where
  "restore_sequence g paths =
     (case paths of
        PList ps \<Rightarrow>
          map_sum id SequenceContinuation
            (sum_map (\<lambda>p. case parse_step_path p of Inl e \<Rightarrow> Inl e | Inr path \<Rightarrow> resolve_path g path) ps)
      | _ \<Rightarrow> Inl (ValueError ''Invalid sequence continuation''))"

definition restore_loop :: "node list \<Rightarrow> pyval \<Rightarrow> pyval \<Rightarrow> pyval \<Rightarrow> exc + continuation" where
  "restore_loop g path start name =
     (case (case parse_step_path path of Inl e \<Rightarrow> Inl e | Inr p \<Rightarrow> resolve_path g p) of
        Inl e \<Rightarrow> Inl e
      | Inr lp \<Rightarrow>
          (case (lp, start, name) of
             (Loop h ns, PInt i, PStr s) \<Rightarrow>
               if i < 0 \<or> i > int (length ns)
               then Inl (ValueError ''Invalid loop continuation index'')
               else Inr (LoopContinuation lp i (Some s))
           | _ \<Rightarrow> Inl (ValueError ''Invalid loop continuation'')))"

text \<open>The restored reports are new objects, numbered by \<open>k\<close> on.\<close>

fun restore_step_output ::
  "pytext \<Rightarrow> (string \<Rightarrow> string \<Rightarrow> bool) \<Rightarrow> node list \<Rightarrow> stored_output \<Rightarrow> nat \<Rightarrow> exc + step_output \<times> nat"
  and restore_continuation ::
  "pytext \<Rightarrow> (string \<Rightarrow> string \<Rightarrow> bool) \<Rightarrow> node list \<Rightarrow> stored_continuation \<Rightarrow> nat \<Rightarrow>
   exc + continuation \<times> nat"
  and restore_outputs ::
  "pytext \<Rightarrow> (string \<Rightarrow> string \<Rightarrow> bool) \<Rightarrow> node list \<Rightarrow> stored_output list \<Rightarrow> nat \<Rightarrow>
   exc + step_output list \<times> nat"
  and restore_continuations ::
  "pytext \<Rightarrow> (string \<Rightarrow> string \<Rightarrow> bool) \<Rightarrow> node list \<Rightarrow> stored_continuation list \<Rightarrow> nat \<Rightarrow>
   exc + continuation list \<times> nat" where
  "restore_step_output P rs g (StoredOutput rep st cs) k =
     (case restore_continuations P rs g cs (k + 1) of
        Inl e \<Rightarrow> Inl e
      | Inr (cs', k') \<Rightarrow>
          Inr (StepResult (k, reload_report rep) (map_option (reload_state P rs) st) cs', k'))"
| "restore_continuation P rs g (StoredSequence paths) k = map_sum id (\<lambda>c. (c, k)) (restore_sequence g paths)"
| "restore_continuation P rs g (StoredLoop path start name) k =
     map_sum id (\<lambda>c. (c, k)) (restore_loop g path start name)"
| "restore_continuation P rs g (StoredOutputs outs) k =
     map_sum id (map_prod OutputContinuation id) (restore_outputs P rs g outs k)"
| "restore_continuation P rs g (StoredOther v) k =
     Inl (ValueError (case v of PDict d \<Rightarrow> ''Unknown workflow continuation type''
                      | _ \<Rightarrow> ''Invalid workflow continuation''))"
| "restore_outputs P rs g [] k = Inr ([], k)"
| "restore_outputs P rs g (out # outs) k =
     (case restore_step_output P rs g out k of
        Inl e \<Rightarrow> Inl e
      | Inr (out', k') \<Rightarrow>
          (case restore_outputs P rs g outs k' of
             Inl e \<Rightarrow> Inl e | Inr (outs', k'') \<Rightarrow> Inr (out' # outs', k'')))"
| "restore_continuations P rs g [] k = Inr ([], k)"
| "restore_continuations P rs g (c # cs) k =
     (case restore_continuation P rs g c k of
        Inl e \<Rightarrow> Inl e
      | Inr (c', k') \<Rightarrow>
          (case restore_continuations P rs g cs k' of
             Inl e \<Rightarrow> Inl e | Inr (cs', k'') \<Rightarrow> Inr (c' # cs', k'')))"

end
