(* ===== verification/Flow.thy ===== *)
theory Flow
  imports Workflow_Nodes Workflow_Graph
begin

text \<open>
  \<open>Flow\<close> of \<^verbatim>\<open>workflow/flow.py\<close>: it runs its steps in the desk's run store and event bus, pauses
  with the first step that pauses and resumes from the stored state.  The list of reports collected
  so far is part of the state (\<open>fs_reports\<close>), as the methods that are given it append to it.
\<close>

record flow =
  fl_name :: string
  fl_steps :: "node list"
  fl_key :: nat

definition make_flow :: "node list \<Rightarrow> string option \<Rightarrow> nat \<Rightarrow> flow" where
  "make_flow steps name key = \<lparr>fl_name = or_str name ''flow'', fl_steps = steps, fl_key = key\<rparr>"

text \<open>\<open>desk.emit(self._events, self._run_id, ty, self.name, payload)\<close>.\<close>

definition flow_announce ::
  "('st, 'm, 'u) desk \<Rightarrow> (('st, 'm, 'u) desk_world_scheme, 'x) force_ext_scheme \<Rightarrow> flow \<Rightarrow>
   event_type \<Rightarrow> pyval dict \<Rightarrow> ('st, 'm, 'u, unit) flow_eff" where
  "flow_announce D X F ty payload =
     ebind (gets fs_run_id) (\<lambda>rid. on_desk (emit (desk_env D X) rid ty (fl_name F) payload))"

definition flow_update ::
  "('st, 'm, 'u) desk \<Rightarrow> (('st, 'm, 'u) desk_world_scheme, 'x) force_ext_scheme \<Rightarrow> run_status \<Rightarrow>
   string option \<Rightarrow> pyval \<Rightarrow> run_state option \<Rightarrow> ('st, 'm, 'u, unit) flow_eff" where
  "flow_update D X status out json st =
     ebind (gets fs_run_id) (\<lambda>rid. on_desk (update_run D X rid status out json st))"

definition flow_unregister :: "('st, 'm, 'u, unit) flow_eff" where
  "flow_unregister = ebind (gets fs_run_id) (\<lambda>rid. on_desk (modify (unregister_flow_run rid)))"

section \<open>Ends of a run\<close>

definition end_flow ::
  "('st, 'm, 'u) desk \<Rightarrow> (('st, 'm, 'u) desk_world_scheme, 'x) force_ext_scheme \<Rightarrow> flow \<Rightarrow>
   event_type \<Rightarrow> run_status \<Rightarrow> string option \<Rightarrow> pyval \<Rightarrow> ('st, 'm, 'u, unit) flow_eff" where
  "end_flow D X F ty status out json =
     eseq (flow_announce D X F ty [])
    (eseq (flow_update D X status out json None) flow_unregister)"

definition emit_run_failed ::
  "('st, 'm, 'u) desk \<Rightarrow> (('st, 'm, 'u) desk_world_scheme, 'x) force_ext_scheme \<Rightarrow> flow \<Rightarrow>
   report \<Rightarrow> ('st, 'm, 'u, unit) flow_eff" where
  "emit_run_failed D X F rep =
     end_flow D X F RunFailed Failed (rep_content rep) (to_json_value (rep_data rep))"

definition emit_run_completed ::
  "('st, 'm, 'u) desk \<Rightarrow> (('st, 'm, 'u) desk_world_scheme, 'x) force_ext_scheme \<Rightarrow> flow \<Rightarrow>
   report \<Rightarrow> ('st, 'm, 'u, unit) flow_eff" where
  "emit_run_completed D X F rep =
     end_flow D X F RunCompleted Completed (rep_content rep) (to_json_value (rep_data rep))"

text \<open>A failed report in the run's name, built before the failure is announced.\<close>

definition flow_events :: "'w flow_state \<Rightarrow> event list" where
  "flow_events s = rt_events (fs_desk s)"

definition failed_report :: "report \<Rightarrow> string \<Rightarrow> 'w flow_state \<Rightarrow> report" where
  "failed_report rep message s =
     build_report (fs_run_id s) Failed None None PNone (rep_messages rep) (rep_tool_calls rep)
       (rep_metrics rep) (flow_events s) None [message]"

definition missing_state ::
  "('st, 'm, 'u) desk \<Rightarrow> (('st, 'm, 'u) desk_world_scheme, 'x) force_ext_scheme \<Rightarrow> flow \<Rightarrow>
   report \<Rightarrow> ('st, 'm, 'u, report) flow_eff" where
  "missing_state D X F rep =
     ebind (gets (failed_report rep ''Missing runner state'')) (\<lambda>failed.
     eseq (end_flow D X F RunFailed Failed None PNone) (ret failed))"

definition numbered :: "nat \<Rightarrow> 'a list \<Rightarrow> (nat \<times> 'a) list" where
  "numbered k xs = zip [k..<k + length xs] xs"

definition combine_reports :: "report list \<Rightarrow> 'w flow_state \<Rightarrow> report" where
  "combine_reports reports s =
     with_run_metrics
       (build_report (fs_run_id s) Completed
          (Some (str_join (nl @ nl)
             (map (\<lambda>(k, r). ''[step '' @ nat_digits k @ ''] '' @ or_str (rep_content r) []) (numbered 1 reports))))
          None
          (PList (map (\<lambda>(k, r). PDict [(''index'', PInt (int k)), (''content'', opt_str (rep_content r)),
                                        (''data'', rep_data r)]) (numbered 1 reports)))
          (concat (map rep_messages reports)) (concat (map rep_tool_calls reports)) []
          (flow_events s) None (concat (map rep_errors reports)))
       (rt_totals (fs_desk s))"

definition finalize_flow_run ::
  "('st, 'm, 'u) desk \<Rightarrow> (('st, 'm, 'u) desk_world_scheme, 'x) force_ext_scheme \<Rightarrow> flow \<Rightarrow>
   ('st, 'm, 'u, report) flow_eff" where
  "finalize_flow_run D X F =
     ebind (gets fs_reports) (\<lambda>reports.
     if reports = []
     then ebind (gets (\<lambda>s. build_report (fs_run_id s) Failed None None PNone [] [] [] (flow_events s) None
                              [''No steps executed''])) (\<lambda>rep.
          eseq (end_flow D X F RunFailed Failed None PNone) (ret rep))
     else ebind (if length reports > 1 then gets (combine_reports (map snd reports))
                 else ret (snd (hd reports))) (\<lambda>rep.
          eseq (emit_run_completed D X F rep) (ret rep)))"

section \<open>Pausing\<close>

definition build_flow_state ::
  "flow \<Rightarrow> (pyval \<Rightarrow> string) \<Rightarrow> job \<Rightarrow> nat \<Rightarrow> run_state \<Rightarrow> continuation list \<Rightarrow> 'w flow_state \<Rightarrow>
   exc + run_state" where
  "build_flow_state F digest j step_index st cs s =
     (case snapshot (fs_context s) of
        Inl e \<Rightarrow> Inl e
      | Inr context \<Rightarrow>
     (case serialize_continuations (fl_steps F) cs of
        Inl e \<Rightarrow> Inl e
      | Inr stored \<Rightarrow>
          Inr (RunState (fs_run_id s) Paused ''flow'' (fl_name F) j (rs_messages st) (rs_tool_calls st)
                 (rs_pending st) (rs_metrics st) (rs_iteration st)
                 [(''step_index'', PlVal (PInt (int step_index))),
                  (''outputs'', PlReports (map snd (fs_reports s))),
                  (''step_state'', PlState st),
                  (''stream'', PlVal (PBool (fs_stream s))),
                  (''flow_signature'', PlVal (PStr (signature digest (fl_steps F)))),
                  (''context'', PlVal context),
                  (''continuations'', PlFlow stored),
                  (''usage_totals'', PlVal (PDict (rt_totals (fs_desk s))))])))"

text \<open>All that goes wrong in \<open>build_flow_state\<close> is a \<open>TypeError\<close> or a \<open>ValueError\<close>.\<close>

definition pause_flow ::
  "('st, 'm, 'u) desk \<Rightarrow> (('st, 'm, 'u) desk_world_scheme, 'x) force_ext_scheme \<Rightarrow>
   ('st, 'm, 'u) desk_world_scheme flow_calls \<Rightarrow> flow \<Rightarrow> report \<Rightarrow> run_state \<Rightarrow> job \<Rightarrow> nat \<Rightarrow>
   continuation list \<Rightarrow> ('st, 'm, 'u, report) flow_eff" where
  "pause_flow D X U F rep st j step_index cs =
     ebind (gets (\<lambda>s. build_flow_state F (fe_digest U) j step_index
                        (with_stream (PBool (fs_stream s)) st) cs s)) (\<lambda>r.
     case r of
       Inl e \<Rightarrow>
         (let failed = rep\<lparr>rep_status := Failed, rep_pending := None,
                rep_errors := rep_errors rep @ [''Could not persist flow state: '' @ exc_msg e]\<rparr>
          in eseq (emit_run_failed D X F failed) (ret failed))
     | Inr state \<Rightarrow>
         eseq (flow_announce D X F RunPaused [])
        (eseq (flow_update D X Paused (rep_content rep) PNone (Some state)) (ret rep)))"

section \<open>Results of steps\<close>

text \<open>The results of a step, of a continuation or of what is left of them (\<open>rest\<close>): the report the
  flow ends with here, if any.\<close>

fun step_results ::
  "('st, 'm, 'u) desk \<Rightarrow> (('st, 'm, 'u) desk_world_scheme, 'x) force_ext_scheme \<Rightarrow>
   ('st, 'm, 'u) desk_world_scheme flow_calls \<Rightarrow> flow \<Rightarrow> job \<Rightarrow> nat \<Rightarrow> continuation list \<Rightarrow>
   step_output list \<Rightarrow> ('st, 'm, 'u, report option) flow_eff" where
  "step_results D X U F j step_index rest [] = ret None"
| "step_results D X U F j step_index rest (out # outs) =
     (case as_result out of
        (r, st, own) \<Rightarrow>
          if rep_status (snd r) = Paused
          then case st of
                 None \<Rightarrow> ebind (missing_state D X F (snd r)) (\<lambda>rep. ret (Some rep))
               | Some state \<Rightarrow>
                   ebind (pause_flow D X U F (snd r) state j step_index
                     (own @
                      (if outs \<noteq> []
                       then [OutputContinuation (map (\<lambda>out. case as_result out of (r, st, cs) \<Rightarrow> StepResult r st cs) outs)]
                       else []) @ rest))
                     (\<lambda>rep. ret (Some rep))
          else if rep_status (snd r) = Failed
          then eseq (emit_run_failed D X F (snd r)) (ret (Some (snd r)))
          else eseq (modify (\<lambda>s. s\<lparr>fs_reports := fs_reports s @ [r], fs_context := add_output r (fs_context s)\<rparr>))
                 (step_results D X U F j step_index rest outs))"

fun run_steps ::
  "('st, 'm, 'u) desk \<Rightarrow> (('st, 'm, 'u) desk_world_scheme, 'x) force_ext_scheme \<Rightarrow>
   ('st, 'm, 'u) desk_world_scheme flow_calls \<Rightarrow> flow \<Rightarrow> job \<Rightarrow> node list \<Rightarrow> nat \<Rightarrow>
   ('st, 'm, 'u, report option) flow_eff" where
  "run_steps D X U F j [] i = ret None"
| "run_steps D X U F j (n # ns) i =
     ebind (execute D X U n) (\<lambda>outs.
     ebind (step_results D X U F j i [] outs) (\<lambda>r.
     case r of Some rep \<Rightarrow> ret (Some rep) | None \<Rightarrow> run_steps D X U F j ns (i + 1)))"

definition finish_flow ::
  "('st, 'm, 'u) desk \<Rightarrow> (('st, 'm, 'u) desk_world_scheme, 'x) force_ext_scheme \<Rightarrow>
   ('st, 'm, 'u) desk_world_scheme flow_calls \<Rightarrow> flow \<Rightarrow> job \<Rightarrow> node list \<Rightarrow> nat \<Rightarrow>
   ('st, 'm, 'u, report) flow_eff" where
  "finish_flow D X U F j ns i =
     ebind (run_steps D X U F j ns i) (\<lambda>r.
     case r of Some rep \<Rightarrow> ret rep | None \<Rightarrow> finalize_flow_run D X F)"

section \<open>\<open>arun\<close>\<close>

definition flow_start :: "flow \<Rightarrow> ('st, 'm, 'u) desk \<Rightarrow> string \<Rightarrow> ('st, 'm, 'u, unit) flow_eff" where
  "flow_start F D rid =
     modify (\<lambda>s. s\<lparr>fs_run_id := rid, fs_stream := ds_stream D,
       fs_desk := (fs_desk s)\<lparr>rt_events := [], rt_totals := []\<rparr>\<rparr>)"

text \<open>The fields of the flow are set before the run is created; the reports and the context are new.\<close>

definition flow_arun ::
  "('st, 'm, 'u) desk \<Rightarrow> (('st, 'm, 'u) desk_world_scheme, 'x) force_ext_scheme \<Rightarrow>
   ('st, 'm, 'u) desk_world_scheme flow_calls \<Rightarrow> flow \<Rightarrow> job \<Rightarrow> ('st, 'm, 'u, report) flow_eff" where
  "flow_arun D X U F j =
     eseq (on_desk ensure_open)
    (ebind (on_desk (ask (x_new_id X))) (\<lambda>rid.
     eseq (flow_start F D rid)
    (ebind (from_sum (ds_dump_job D j)) (\<lambda>dump.
     eseq (on_desk (create_run D X rid dump))
    (eseq (on_desk (modify (register_flow_run rid (fl_key F))))
    (eseq (flow_announce D X F RunStarted [(''job_id'', PStr (job_id j))])
    (eseq (modify (\<lambda>s. s\<lparr>fs_context := new_context j [], fs_reports := []\<rparr>))
          (finish_flow D X U F j (fl_steps F) 0))))))))"

section \<open>\<open>aresume\<close>\<close>

text \<open>The report of a state that cannot be resumed: from the state, in its own run.\<close>

definition state_failed :: "run_state \<Rightarrow> string \<Rightarrow> 'w flow_state \<Rightarrow> report" where
  "state_failed st message s =
     build_report (rs_run_id st) Failed None None PNone (rs_messages st) (rs_tool_calls st)
       (rs_metrics st) (flow_events s) None [message]"

definition flow_resume_runner ::
  "('st, 'm, 'u) desk \<Rightarrow> (('st, 'm, 'u) desk_world_scheme, 'x) force_ext_scheme \<Rightarrow> run_state \<Rightarrow>
   pyval \<Rightarrow> ('st, 'm, 'u, report \<times> run_state option) flow_eff" where
  "flow_resume_runner D X st d =
     ebind (flow_config D) (\<lambda>c.
     if rs_runner_type st = ''worker''
     then ebind (gets (\<lambda>s. get_worker (rs_runner_name st) (fs_desk s))) (\<lambda>w.
       case w of
         None \<Rightarrow> gets (\<lambda>s. (state_failed st ''Worker not registered'' s, None))
       | Some m \<Rightarrow>
           ebind (on_desk (member_aresume (desk_env D X) m c st d)) (\<lambda>(rep, st').
           eseq (on_desk (record_memory D (Some m) rep)) (ret (rep, st'))))
     else if rs_runner_type st = ''workforce''
     then ebind (gets (\<lambda>s. get_workforce (rs_runner_name st) (fs_desk s))) (\<lambda>w.
       case w of
         None \<Rightarrow> gets (\<lambda>s. (state_failed st ''Workforce not registered'' s, None))
       | Some crew \<Rightarrow>
           on_desk (workforce_aresume (desk_env D X) (member_arun (desk_env D X))
                      (member_aresume (desk_env D X)) crew c st d))
     else gets (\<lambda>s. (state_failed st ''Unknown runner type'' s, None)))"

definition resume_failure ::
  "('st, 'm, 'u) desk \<Rightarrow> (('st, 'm, 'u) desk_world_scheme, 'x) force_ext_scheme \<Rightarrow> flow \<Rightarrow>
   run_state \<Rightarrow> string \<Rightarrow> ('st, 'm, 'u, report) flow_eff" where
  "resume_failure D X F st message =
     ebind (gets (state_failed st message)) (\<lambda>rep. eseq (emit_run_failed D X F rep) (ret rep))"

text \<open>\<open>while continuations: continuations.pop(0)(self, context)\<close>.\<close>

fun run_continuations ::
  "('st, 'm, 'u) desk \<Rightarrow> (('st, 'm, 'u) desk_world_scheme, 'x) force_ext_scheme \<Rightarrow>
   ('st, 'm, 'u) desk_world_scheme flow_calls \<Rightarrow> flow \<Rightarrow> job \<Rightarrow> nat \<Rightarrow> continuation list \<Rightarrow>
   ('st, 'm, 'u, report option) flow_eff" where
  "run_continuations D X U F j i [] = ret None"
| "run_continuations D X U F j i (c # cs) =
     ebind (run_continuation D X U c) (\<lambda>outs.
     ebind (step_results D X U F j i cs outs) (\<lambda>r.
     case r of Some rep \<Rightarrow> ret (Some rep) | None \<Rightarrow> run_continuations D X U F j i cs))"

text \<open>What is read of a stored flow state: the index of the paused step, the reports, the context, the
  continuations, the state of the runner, and the next number of a report.\<close>

type_synonym flow_snapshot =
  "flow_report list \<times> workflow_context \<times> continuation list \<times> run_state \<times> nat"

definition flow_outputs :: "payload_val option \<Rightarrow> exc + report list" where
  "flow_outputs v =
     (case v of
        None \<Rightarrow> Inr []
      | Some (PlVal PNone) \<Rightarrow> Inr []
      | Some (PlReports rs) \<Rightarrow> Inr (map reload_report rs)
      | Some (PlVal (PList [])) \<Rightarrow> Inr []
      | Some (PlVal (PList (x # xs))) \<Rightarrow> Inl (invalid ''Report'')
      | Some v \<Rightarrow> Inl (ValueError ''Invalid flow outputs''))"

definition flow_context_value :: "payload_val option \<Rightarrow> pyval" where
  "flow_context_value v = (case v of None \<Rightarrow> PNone | Some (PlVal x) \<Rightarrow> x | Some _ \<Rightarrow> PBool True)"

definition flow_continuations :: "payload_val option \<Rightarrow> exc + stored_continuation list" where
  "flow_continuations v =
     (case v of
        None \<Rightarrow> Inr []
      | Some (PlFlow cs) \<Rightarrow> Inr cs
      | Some (PlVal (PList xs)) \<Rightarrow> Inr (map StoredOther xs)
      | Some _ \<Rightarrow> Inl (ValueError ''Invalid workflow continuations''))"

definition read_flow_state ::
  "pytext \<Rightarrow> (string \<Rightarrow> string \<Rightarrow> bool) \<Rightarrow> flow \<Rightarrow> run_state \<Rightarrow> nat \<Rightarrow> exc + flow_snapshot" where
  "read_flow_state P rs F st k =
     (let payload = rs_payload st
      in case flow_outputs (dict_get payload ''outputs'') of
           Inl e \<Rightarrow> Inl e
         | Inr reports \<Rightarrow>
        (let all_reports = numbered k reports
         in case restore_context (rs_job st) all_reports (flow_context_value (dict_get payload ''context'')) of
              Inl e \<Rightarrow> Inl e
            | Inr context \<Rightarrow>
           (case flow_continuations (dict_get payload ''continuations'') of
              Inl e \<Rightarrow> Inl e
            | Inr stored \<Rightarrow>
           (case restore_continuations P rs (fl_steps F) stored (k + length reports) of
              Inl e \<Rightarrow> Inl e
            | Inr (cs, k') \<Rightarrow>
           (case dict_get payload ''step_state'' of
              Some (PlState q) \<Rightarrow> Inr (all_reports, context, cs, reload_state P rs q, k')
            | _ \<Rightarrow> Inl (invalid ''RunState''))))))"

text \<open>After the runner of the paused step has been resumed.\<close>

definition resumed_step ::
  "('st, 'm, 'u) desk \<Rightarrow> (('st, 'm, 'u) desk_world_scheme, 'x) force_ext_scheme \<Rightarrow>
   ('st, 'm, 'u) desk_world_scheme flow_calls \<Rightarrow> flow \<Rightarrow> job \<Rightarrow> nat \<Rightarrow> continuation list \<Rightarrow>
   report \<times> run_state option \<Rightarrow> ('st, 'm, 'u, report) flow_eff" where
  "resumed_step D X U F j i cs = (\<lambda>(rep, st).
     if rep_status rep = Paused
     then (case st of
             None \<Rightarrow> missing_state D X F rep
           | Some state \<Rightarrow> pause_flow D X U F rep state j i cs)
     else if rep_status rep = Failed then eseq (emit_run_failed D X F rep) (ret rep)
     else ebind (fresh_report rep) (\<lambda>r.
          eseq (modify (\<lambda>s. s\<lparr>fs_reports := fs_reports s @ [r], fs_context := add_output r (fs_context s)\<rparr>))
         (ebind (run_continuations D X U F j i cs) (\<lambda>r.
          case r of
            Some rep \<Rightarrow> ret rep
          | None \<Rightarrow> finish_flow D X U F j (drop (i + 1) (fl_steps F)) (i + 1)))))"

definition flow_stream :: "('st, 'm, 'u) desk \<Rightarrow> bool option \<Rightarrow> payload_val option \<Rightarrow> bool" where
  "flow_stream D stream v =
     (case stream of
        Some b \<Rightarrow> b
      | None \<Rightarrow> (case v of Some (PlVal (PBool b)) \<Rightarrow> b | _ \<Rightarrow> ds_stream D))"

definition resume_flow ::
  "('st, 'm, 'u) desk \<Rightarrow> (('st, 'm, 'u) desk_world_scheme, 'x) force_ext_scheme \<Rightarrow>
   ('st, 'm, 'u) desk_world_scheme flow_calls \<Rightarrow> flow \<Rightarrow> run_state \<Rightarrow> pyval \<Rightarrow> bool option \<Rightarrow>
   nat \<Rightarrow> flow_snapshot \<Rightarrow> ('st, 'm, 'u, report) flow_eff" where
  "resume_flow D X U F st d stream i = (\<lambda>(reports, context, cs, step_state, k).
     eseq (modify (\<lambda>s. s\<lparr>fs_reports := reports, fs_context := context, fs_next := k,
       fs_desk := (fs_desk s)\<lparr>rt_totals := restore_totals [] (stored_value (dict_get (rs_payload st) ''usage_totals''))\<rparr>\<rparr>))
    (eseq (on_desk (modify (register_flow_run (rs_run_id st) (fl_key F))))
    (eseq (flow_announce D X F RunResumed [])
    (let b = flow_stream D stream (dict_get (rs_payload st) ''stream'')
     in eseq (modify (\<lambda>s. s\<lparr>fs_stream := b\<rparr>))
       (ebind (flow_resume_runner D X (with_stream (PBool b) step_state) d)
          (resumed_step D X U F (rs_job st) i cs))))))"

definition resume_state ::
  "('st, 'm, 'u) desk \<Rightarrow> (('st, 'm, 'u) desk_world_scheme, 'x) force_ext_scheme \<Rightarrow>
   ('st, 'm, 'u) desk_world_scheme flow_calls \<Rightarrow> flow \<Rightarrow> run_state \<Rightarrow> pyval \<Rightarrow> bool option \<Rightarrow>
   ('st, 'm, 'u, report) flow_eff" where
  "resume_state D X U F st d stream =
     ebind (gets (\<lambda>s. so_events (ds_store D) (rs_run_id st) (dw_store (rt_world (fs_desk s))))) (\<lambda>es.
     ebind (from_sum es) (\<lambda>events.
     eseq (modify (\<lambda>s. s\<lparr>fs_run_id := rs_run_id st, fs_desk := (fs_desk s)\<lparr>rt_events := events\<rparr>\<rparr>))
    (let payload = rs_payload st
     in case (dict_get payload ''step_index'', dict_get payload ''step_state'') of
          (Some (PlVal (PInt i)), Some q) \<Rightarrow>
            if q = PlVal PNone then resume_failure D X F st ''Invalid flow state''
            else if i < 0 \<or> i \<ge> int (length (fl_steps F)) then resume_failure D X F st ''Invalid step index''
            else if (case dict_get payload ''flow_signature'' of
                       None \<Rightarrow> False
                     | Some v \<Rightarrow> v \<noteq> PlVal PNone \<and> v \<noteq> PlVal (PStr (signature (fe_digest U) (fl_steps F))))
            then resume_failure D X F st ''Flow definition does not match stored state''
            else if dict_get payload ''continuations'' = None
                 \<and> (case fl_steps F ! nat i of Step h \<Rightarrow> False | _ \<Rightarrow> True)
            then resume_failure D X F st ''Stored flow state does not include composite continuation data''
            else ebind (gets (\<lambda>s. read_flow_state (x_text X) (x_resolves X) F st (fs_next s))) (\<lambda>r.
              case r of
                Inl e \<Rightarrow> resume_failure D X F st (''Invalid flow state: '' @ exc_msg e)
              | Inr snap \<Rightarrow> resume_flow D X U F st d stream (nat i) snap)
        | _ \<Rightarrow> resume_failure D X F st ''Invalid flow state'')))"

definition refused_resume :: "report \<Rightarrow> string \<Rightarrow> report" where
  "refused_resume rep message =
     build_report (rep_run_id rep) Failed None None PNone (rep_messages rep) (rep_tool_calls rep)
       (rep_metrics rep) (rep_events rep) None [message]"

definition flow_aresume ::
  "('st, 'm, 'u) desk \<Rightarrow> (('st, 'm, 'u) desk_world_scheme, 'x) force_ext_scheme \<Rightarrow>
   ('st, 'm, 'u) desk_world_scheme flow_calls \<Rightarrow> flow \<Rightarrow> report \<Rightarrow> pyval \<Rightarrow> bool option \<Rightarrow>
   ('st, 'm, 'u, report) flow_eff" where
  "flow_aresume D X U F rep d stream =
     eseq (on_desk ensure_open)
    (ebind (gets (\<lambda>s. so_get (ds_store D) (rep_run_id rep) (dw_store (rt_world (fs_desk s))))) (\<lambda>r.
     ebind (from_sum r) (\<lambda>record.
     case record of
       None \<Rightarrow> ret (refused_resume rep ''No stored state'')
     | Some rc \<Rightarrow>
         (case rc_state rc of
            None \<Rightarrow> ret (refused_resume rep ''No stored state'')
          | Some st \<Rightarrow>
              if rs_runner_type st \<noteq> ''flow'' then ret (refused_resume rep ''Run is not a flow'')
              else resume_state D X U F st d stream))))"

text \<open>A registered flow as the desk resumes it: what it works on beside the desk is its own.\<close>

definition flow_as_resumable ::
  "('st, 'm, 'u) desk \<Rightarrow> (('st, 'm, 'u) desk_world_scheme, 'x) force_ext_scheme \<Rightarrow>
   ('st, 'm, 'u) desk_world_scheme flow_calls \<Rightarrow> (nat \<Rightarrow> flow) \<Rightarrow> job \<Rightarrow> nat \<Rightarrow> report \<Rightarrow> pyval \<Rightarrow>
   bool option \<Rightarrow> ('st, 'm, 'u, report) desk_eff" where
  "flow_as_resumable D X U flows j0 key rep d stream s =
     (case flow_aresume D X U (flows key) rep d stream
         \<lparr>fs_desk = s, fs_context = new_context j0 [], fs_reports = [], fs_stream = False,
          fs_run_id = [], fs_next = 0\<rparr> of
        (r, s') \<Rightarrow> (r, fs_desk s'))"

end
