(* ===== verification/Workflow_Graph_Laws.thy ===== *)
theory Workflow_Graph_Laws
  imports Flow Member_Contract
begin

text \<open>
  What a stored flow keeps: paths find the nodes they were written for, and the continuations of a
  paused flow come back the same, up to the reloading of the reports they carry.
\<close>

section \<open>Paths\<close>

fun routes_ok :: "node \<Rightarrow> bool" where
  "routes_ok (Step h) = True"
| "routes_ok (Parallel i ns) = (\<forall>n\<in>set ns. routes_ok n)"
| "routes_ok (Condition h ts fs) = ((\<forall>n\<in>set ts. routes_ok n) \<and> (\<forall>n\<in>set fs. routes_ok n))"
| "routes_ok (Router h routes) = (distinct (map fst routes) \<and> (\<forall>r\<in>set routes. \<forall>n\<in>set (snd r). routes_ok n))"
| "routes_ok (Loop h ns) = (\<forall>n\<in>set ns. routes_ok n)"

definition nodes_of :: "node list \<Rightarrow> node set" where
  "nodes_of g = snd ` set (executable_entries [] 0 g)"

text \<open>A flow whose nodes are used once: what a user builds without sharing node objects.\<close>

definition graph_ok :: "node list \<Rightarrow> bool" where
  "graph_ok g \<longleftrightarrow> (\<forall>n\<in>set g. routes_ok n) \<and> distinct (map (\<lambda>e. node_id (snd e)) (executable_entries [] 0 g))"

lemma entries_prefix:
  "(p, n) \<in> set (executable_entries base i ns) \<Longrightarrow> \<exists>j r. p = base @ PInt (int j) # r \<and> i \<le> j"
proof (induction base i ns arbitrary: p n rule: executable_entries.induct)
  case (2 base i m ns)
  have rest: "\<exists>j r. p = base @ PInt (int j) # r \<and> i \<le> j" if "(p, n) \<in> set (executable_entries base (i + 1) ns)"
    using 2(6)[OF refl that] by (metis Suc_eq_plus1 Suc_leD)
  show ?case
  proof (cases m)
    case (Step h) with 2(7) rest show ?thesis by (auto simp: Let_def)
  next
    case (Parallel j ks) with 2(7) rest 2(1)[OF refl Parallel] show ?thesis by (fastforce simp: Let_def)
  next
    case (Condition h ts fs)
    with 2(7) rest 2(2)[OF refl Condition] 2(3)[OF refl Condition] show ?thesis by (fastforce simp: Let_def)
  next
    case (Router h rs)
    with 2(7) rest 2(4)[OF refl Router] show ?thesis by (fastforce simp: Let_def)
  next
    case (Loop h ks)
    with 2(7) rest 2(5)[OF refl Loop] show ?thesis by (fastforce simp: Let_def)
  qed
qed simp

text \<open>The entries below one node.\<close>

definition below_node :: "step_path \<Rightarrow> node \<Rightarrow> (step_path \<times> node) list" where
  "below_node path n =
     (case n of
        Step h \<Rightarrow> []
      | Parallel j ks \<Rightarrow> executable_entries (path @ [PStr ''parallel'']) 0 ks
      | Condition h ts fs \<Rightarrow>
          executable_entries (path @ [PStr ''true'']) 0 ts @
          executable_entries (path @ [PStr ''false'']) 0 fs
      | Router h routes \<Rightarrow>
          concat (map (\<lambda>r. executable_entries (path @ [PStr ''route'', PStr (fst r)]) 0 (snd r)) routes)
      | Loop h ks \<Rightarrow> executable_entries (path @ [PStr ''loop'']) 0 ks)"

lemma below_node_simps [simp]:
  "below_node path (Step h) = []"
  "below_node path (Parallel j ks) = executable_entries (path @ [PStr ''parallel'']) 0 ks"
  "below_node path (Condition c ts fs) =
     executable_entries (path @ [PStr ''true'']) 0 ts @ executable_entries (path @ [PStr ''false'']) 0 fs"
  "below_node path (Router t routes) =
     concat (map (\<lambda>r. executable_entries (path @ [PStr ''route'', PStr (fst r)]) 0 (snd r)) routes)"
  "below_node path (Loop l ks) = executable_entries (path @ [PStr ''loop'']) 0 ks"
  by (simp_all add: below_node_def)

lemma entries_Cons:
  "executable_entries base i (n # ns) =
     (base @ [PInt (int i)], n) # below_node (base @ [PInt (int i)]) n @ executable_entries base (i + 1) ns"
  by (simp add: below_node_def Let_def)

declare executable_entries.simps(2) [simp del]

lemma below_prefix: "(p, m) \<in> set (below_node path n) \<Longrightarrow> \<exists>x r. p = path @ PStr x # r"
  by (cases n) (fastforce simp: below_node_def dest: entries_prefix)+

lemma routes_distinct:
  assumes "distinct (map fst routes)"
    and "\<And>r. r \<in> set routes \<Longrightarrow> distinct (map fst (executable_entries (path @ [PStr ''route'', PStr (fst r)]) 0 (snd r)))"
  shows "distinct (map fst (concat (map (\<lambda>r. executable_entries (path @ [PStr ''route'', PStr (fst r)]) 0 (snd r)) routes)))"
  using assms
proof (induction routes)
  case (Cons r rs)
  have "fst r \<notin> fst ` set rs" using Cons.prems(1) by simp
  then have "(p, m) \<in> set (executable_entries (path @ [PStr ''route'', PStr (fst r)]) 0 (snd r)) \<Longrightarrow>
    r' \<in> set rs \<Longrightarrow> (p, m') \<notin> set (executable_entries (path @ [PStr ''route'', PStr (fst r')]) 0 (snd r'))" for p m m' r'
    by (fastforce dest!: entries_prefix)
  with Cons show ?case by fastforce
qed simp

lemma entries_distinct: "\<forall>n\<in>set ns. routes_ok n \<Longrightarrow> distinct (map fst (executable_entries base i ns))"
proof (induction base i ns rule: executable_entries.induct)
  case (2 base i n ns)
  let ?path = "base @ [PInt (int i)]"
  have rest: "distinct (map fst (executable_entries base (i + 1) ns))" using 2(6)[OF refl] 2(7) by simp
  have ok: "routes_ok n" using 2(7) by simp
  have two: "distinct (map fst (executable_entries (?path @ [PStr x]) 0 ts @ executable_entries (?path @ [PStr y]) 0 fs))"
    if "distinct (map fst (executable_entries (?path @ [PStr x]) 0 ts))"
      "distinct (map fst (executable_entries (?path @ [PStr y]) 0 fs))" "x \<noteq> y" for x y ts fs
    using that by (fastforce dest!: entries_prefix)
  have sub: "distinct (map fst (below_node ?path n))"
  proof (cases n)
    case (Parallel j ks) then show ?thesis using 2(1)[OF refl Parallel] ok by (simp add: below_node_def)
  next
    case (Condition h ts fs)
    then show ?thesis using 2(2,3)[OF refl Condition] ok two[of "''true''" ts "''false''" fs]
      by (simp add: below_node_def)
  next
    case (Router h rs)
    then show ?thesis using routes_distinct[of rs ?path] 2(4)[OF refl Router] ok by (simp add: below_node_def)
  next
    case (Loop h ks) then show ?thesis using 2(5)[OF refl Loop] ok by (simp add: below_node_def)
  qed (simp add: below_node_def)
  have "(p, m) \<in> set (below_node ?path n) \<Longrightarrow> p \<noteq> ?path \<and> (p, m') \<notin> set (executable_entries base (i + 1) ns)" for p m m'
    by (fastforce dest!: below_prefix entries_prefix)
  moreover have "(?path, m) \<notin> set (executable_entries base (i + 1) ns)" for m
    by (fastforce dest!: entries_prefix)
  ultimately show ?case using sub rest by (fastforce simp: entries_Cons)
qed simp

text \<open>Paths are written as JSON and read back.\<close>

definition path_part :: "pyval \<Rightarrow> bool" where
  "path_part v \<longleftrightarrow> (case v of PInt i \<Rightarrow> True | PStr s \<Rightarrow> True | _ \<Rightarrow> False)"

lemma path_part_simps [simp]: "path_part (PInt i)" "path_part (PStr s)"
  by (simp_all add: path_part_def)

lemma entries_parts:
  "(p, n) \<in> set (executable_entries base i ns) \<Longrightarrow> \<forall>v\<in>set base. path_part v \<Longrightarrow> \<forall>v\<in>set p. path_part v"
proof (induction base i ns arbitrary: p n rule: executable_entries.induct)
  case (2 base i m ns)
  let ?path = "base @ [PInt (int i)]"
  have at: "\<forall>v\<in>set ?path. path_part v" using 2(8) by simp
  have sub: "\<forall>v\<in>set p. path_part v" if "(p, n) \<in> set (below_node ?path m)"
    using that at
  proof (cases m)
    case (Parallel j ks)
    with that show ?thesis using 2(1)[OF refl Parallel, of p n] at by (simp add: below_node_def)
  next
    case (Condition h ts fs)
    with that show ?thesis using 2(2,3)[OF refl Condition, of p n] at by (auto simp: below_node_def)
  next
    case (Router h rs)
    with that obtain r where "r \<in> set rs"
      "(p, n) \<in> set (executable_entries (?path @ [PStr ''route'', PStr (fst r)]) 0 (snd r))"
      by (auto simp: below_node_def)
    with 2(4)[OF refl Router, of r p n] at show ?thesis by simp
  next
    case (Loop h ks)
    with that show ?thesis using 2(5)[OF refl Loop, of p n] at by (simp add: below_node_def)
  qed (simp add: below_node_def)
  from 2(7) consider "p = ?path" | "(p, n) \<in> set (below_node ?path m)" | "(p, n) \<in> set (executable_entries base (i + 1) ns)"
    by (auto simp: entries_Cons)
  then show ?case using sub at 2(6)[OF refl _ 2(8), of p n] by cases blast+
qed simp

lemma find_key: "distinct (map f xs) \<Longrightarrow> x \<in> set xs \<Longrightarrow> find (\<lambda>y. f y = f x) xs = Some x"
  by (induction xs) (auto intro: rev_image_eqI)

lemma filter_key: "distinct (map f xs) \<Longrightarrow> x \<in> set xs \<Longrightarrow> filter (\<lambda>y. f y = f x) xs = [x]"
  by (induction xs) (auto simp: filter_empty_conv rev_image_eqI)

lemma path_found:
  assumes g: "graph_ok g" and n: "n \<in> nodes_of g"
  shows "\<exists>p. path_for g n = Inr p \<and> resolve_path g p = Inr n \<and> parse_step_path (PList p) = Inr p"
proof -
  let ?E = "executable_entries [] 0 g"
  from n obtain p where p: "(p, n) \<in> set ?E" by (auto simp: nodes_of_def)
  have "filter (\<lambda>y. node_id (snd y) = node_id (snd (p, n))) ?E = [(p, n)]"
    using g by (intro filter_key p) (simp add: graph_ok_def)
  then have "path_for g n = Inr p" by (simp add: path_for_def case_prod_unfold)
  moreover have "find (\<lambda>y. fst y = fst (p, n)) ?E = Some (p, n)"
    using g by (intro find_key p entries_distinct) (simp add: graph_ok_def)
  then have "resolve_path g p = Inr n" by (simp add: resolve_path_def case_prod_unfold)
  moreover have "parse_step_path (PList p) = Inr p"
    using entries_parts[OF p] by (auto simp: parse_step_path_def path_part_def)
  ultimately show ?thesis by blast
qed

section \<open>Continuations\<close>

text \<open>The continuations of a flow: of its own nodes, with loops entered at one of their steps.\<close>

fun in_flow :: "node list \<Rightarrow> continuation \<Rightarrow> bool"
  and output_in_flow :: "node list \<Rightarrow> step_output \<Rightarrow> bool" where
  "in_flow g (SequenceContinuation ns) = (set ns \<subseteq> nodes_of g)"
| "in_flow g (LoopContinuation lp i previous) =
     (lp \<in> nodes_of g \<and> 0 \<le> i \<and> (case lp of Loop h ns \<Rightarrow> i \<le> int (length ns) | _ \<Rightarrow> False))"
| "in_flow g (OutputContinuation outs) = (\<forall>out\<in>set outs. output_in_flow g out)"
| "output_in_flow g (PlainReport r) = True"
| "output_in_flow g (StepResult r st cs) = (\<forall>c\<in>set cs. in_flow g c)"

text \<open>What comes back: the same, with new report objects, reloaded states, and the name a loop had.\<close>

inductive same_continuation ::
  "pytext \<Rightarrow> (string \<Rightarrow> string \<Rightarrow> bool) \<Rightarrow> continuation \<Rightarrow> continuation \<Rightarrow> bool"
  and same_output :: "pytext \<Rightarrow> (string \<Rightarrow> string \<Rightarrow> bool) \<Rightarrow> step_output \<Rightarrow> step_output \<Rightarrow> bool"
  for P rs where
  same_sequence: "same_continuation P rs (SequenceContinuation ns) (SequenceContinuation ns)"
| same_loop: "same_continuation P rs (LoopContinuation (Loop h ns) i previous)
     (LoopContinuation (Loop h ns) i (Some (lh_name h)))"
| same_outputs: "list_all2 (same_output P rs) outs outs' \<Longrightarrow>
     same_continuation P rs (OutputContinuation outs) (OutputContinuation outs')"
| same_plain: "same_output P rs (PlainReport (k, rep)) (StepResult (k', reload_report rep) None [])"
| same_result: "list_all2 (same_continuation P rs) cs cs' \<Longrightarrow>
     same_output P rs (StepResult (k, rep) st cs)
       (StepResult (k', reload_report rep) (map_option (reload_state P rs) st) cs')"

lemma sum_map_paths:
  assumes "graph_ok g" "set ns \<subseteq> nodes_of g"
  shows "\<exists>ps. sum_map (path_for g) ns = Inr ps \<and>
    sum_map (\<lambda>p. case parse_step_path p of Inl e \<Rightarrow> Inl e | Inr path \<Rightarrow> resolve_path g path) (map PList ps) = Inr ns"
  using assms(2)
proof (induction ns)
  case (Cons n ns)
  then show ?case using path_found[OF assms(1), of n] by fastforce
qed simp

text \<open>A list is written and read elementwise.\<close>

lemma written_list:
  assumes "\<And>x. x \<in> set xs \<Longrightarrow> \<exists>y. ser x = Inr y \<and> (\<forall>k. \<exists>x' k'. res y k = Inr (x', k') \<and> same x x')"
    and nil: "\<And>k. res_list [] k = Inr ([], k)"
    and step: "\<And>y ys k. res_list (y # ys) k = (case res y k of Inl e \<Rightarrow> Inl e | Inr (x', k') \<Rightarrow>
      (case res_list ys k' of Inl e \<Rightarrow> Inl e | Inr (xs', k'') \<Rightarrow> Inr (x' # xs', k'')))"
  shows "\<exists>ys. sum_map ser xs = Inr ys \<and> (\<forall>k. \<exists>xs' k'. res_list ys k = Inr (xs', k') \<and> list_all2 same xs xs')"
  using assms(1)
proof (induction xs)
  case Nil show ?case by (simp add: nil)
next
  case (Cons x xs)
  obtain y where y: "ser x = Inr y" "\<And>k. \<exists>x' k'. res y k = Inr (x', k') \<and> same x x'"
    using Cons.prems[of x] by auto
  from Cons obtain ys where ys: "sum_map ser xs = Inr ys"
    "\<And>k. \<exists>xs' k'. res_list ys k = Inr (xs', k') \<and> list_all2 same xs xs'" by auto
  have "\<exists>xs' k'. res_list (y # ys) k = Inr (xs', k') \<and> list_all2 same (x # xs) xs'" for k
  proof -
    from y(2)[of k] obtain x' k' where "res y k = Inr (x', k')" "same x x'" by blast
    moreover from ys(2)[of k'] obtain xs' k'' where "res_list ys k' = Inr (xs', k'')" "list_all2 same xs xs'" by blast
    ultimately show ?thesis by (auto simp: step)
  qed
  with y(1) ys(1) show ?case by auto
qed

lemma continuation_back:
  "graph_ok g \<Longrightarrow> in_flow g c \<Longrightarrow> \<exists>sc. serialize_continuation g c = Inr sc \<and>
      (\<forall>k. \<exists>c' k'. restore_continuation P rs g sc k = Inr (c', k') \<and> same_continuation P rs c c')"
  "graph_ok g \<Longrightarrow> output_in_flow g out \<Longrightarrow> \<exists>so. serialize_step_output g out = Inr so \<and>
      (\<forall>k. \<exists>out' k'. restore_step_output P rs g so k = Inr (out', k') \<and> same_output P rs out out')"
proof (induction g c and g out rule: in_flow_output_in_flow.induct)
  case (1 g ns)
  then obtain ps where "sum_map (path_for g) ns = Inr ps"
    "sum_map (\<lambda>p. case parse_step_path p of Inl e \<Rightarrow> Inl e | Inr path \<Rightarrow> resolve_path g path) (map PList ps) = Inr ns"
    using sum_map_paths by force
  then show ?case by (auto simp: restore_sequence_def intro: same_sequence)
next
  case (2 g lp i previous)
  then obtain h ns where lp: "lp = Loop h ns" "i \<le> int (length ns)" by (auto split: node.splits)
  from 2 path_found[of g lp] obtain p where "path_for g lp = Inr p" "resolve_path g p = Inr lp"
    "parse_step_path (PList p) = Inr p" by auto
  with 2 lp show ?case by (auto simp: restore_loop_def intro: same_loop)
next
  case (3 g outs)
  have "\<exists>ys. sum_map (serialize_step_output g) outs = Inr ys \<and>
      (\<forall>k. \<exists>xs' k'. restore_outputs P rs g ys k = Inr (xs', k') \<and> list_all2 (same_output P rs) outs xs')"
    by (rule written_list) (use 3 in auto)
  then obtain ys where ys: "sum_map (serialize_step_output g) outs = Inr ys"
    "\<And>k. \<exists>xs' k'. restore_outputs P rs g ys k = Inr (xs', k') \<and> list_all2 (same_output P rs) outs xs'"
    by blast
  have "\<exists>c' k'. restore_continuation P rs g (StoredOutputs ys) k = Inr (c', k') \<and>
      same_continuation P rs (OutputContinuation outs) c'" for k
    using ys(2)[of k] by (auto intro: same_outputs)
  with ys(1) show ?case by simp
next
  case (4 g r)
  then show ?case by (cases r) (auto intro: same_plain)
next
  case (5 g r st cs)
  have "\<exists>ys. sum_map (serialize_continuation g) cs = Inr ys \<and>
      (\<forall>k. \<exists>xs' k'. restore_continuations P rs g ys k = Inr (xs', k') \<and> list_all2 (same_continuation P rs) cs xs')"
    by (rule written_list) (use 5 in auto)
  then obtain ys where ys: "sum_map (serialize_continuation g) cs = Inr ys"
    "\<And>k. \<exists>xs' k'. restore_continuations P rs g ys k = Inr (xs', k') \<and> list_all2 (same_continuation P rs) cs xs'"
    by blast
  have "\<exists>out' k'. restore_step_output P rs g (StoredOutput (snd r) st ys) k = Inr (out', k') \<and>
      same_output P rs (StepResult r st cs) out'" for k
    using ys(2)[of "k + 1"] by (cases r) (auto intro: same_result)
  with ys(1) show ?case by simp
qed

lemma continuations_back:
  assumes "graph_ok g" "\<forall>c\<in>set cs. in_flow g c"
  shows "\<exists>ys. serialize_continuations g cs = Inr ys \<and>
    (\<forall>k. \<exists>cs' k'. restore_continuations P rs g ys k = Inr (cs', k') \<and> list_all2 (same_continuation P rs) cs cs')"
  unfolding serialize_continuations_def
  by (rule written_list) (use assms continuation_back(1) in auto)

section \<open>Executing stays in the flow\<close>

lemma entries_heads: "set ns \<subseteq> snd ` set (executable_entries base i ns)"
proof (induction ns arbitrary: i)
  case (Cons n ns)
  from Cons[of "i + 1"] show ?case by (auto simp: entries_Cons)
qed simp

lemma below_entries: "(p, n) \<in> set (executable_entries base i ns) \<Longrightarrow> set (below_node p n) \<subseteq> set (executable_entries base i ns)"
proof (induction base i ns arbitrary: p n rule: executable_entries.induct)
  case (2 base i m ns)
  let ?path = "base @ [PInt (int i)]"
  have sub: "set (below_node p n) \<subseteq> set (below_node ?path m)" if "(p, n) \<in> set (below_node ?path m)"
    using that
  proof (cases m)
    case (Parallel j ks) with that show ?thesis using 2(1)[OF refl Parallel, of p n] by (simp add: below_node_def)
  next
    case (Condition h ts fs)
    with that show ?thesis using 2(2,3)[OF refl Condition, of p n] by auto
  next
    case (Router h rs)
    with that obtain r where r: "r \<in> set rs"
      "(p, n) \<in> set (executable_entries (?path @ [PStr ''route'', PStr (fst r)]) 0 (snd r))"
      by (auto simp: below_node_def)
    from 2(4)[OF refl Router r] r(1) Router show ?thesis by auto
  next
    case (Loop h ks) with that show ?thesis using 2(5)[OF refl Loop, of p n] by (simp add: below_node_def)
  qed (simp add: below_node_def)
  from 2(7) consider "p = ?path" "n = m" | "(p, n) \<in> set (below_node ?path m)"
    | "(p, n) \<in> set (executable_entries base (i + 1) ns)"
    by (auto simp: entries_Cons)
  then show ?case using sub 2(6)[OF refl, of p n] by cases (auto simp: entries_Cons)
qed simp

lemma children_in:
  "n \<in> nodes_of g \<Longrightarrow> (case n of Step h \<Rightarrow> True | Parallel j ks \<Rightarrow> set ks \<subseteq> nodes_of g
     | Condition h ts fs \<Rightarrow> set ts \<subseteq> nodes_of g \<and> set fs \<subseteq> nodes_of g
     | Router h rs \<Rightarrow> \<forall>r\<in>set rs. set (snd r) \<subseteq> nodes_of g | Loop h ks \<Rightarrow> set ks \<subseteq> nodes_of g)"
proof -
  assume "n \<in> nodes_of g"
  then obtain p where "(p, n) \<in> set (executable_entries [] 0 g)" by (auto simp: nodes_of_def)
  then have sub: "snd ` set (below_node p n) \<subseteq> nodes_of g"
    using below_entries[of p n "[]" 0 g] by (auto simp: nodes_of_def)
  have at: "set ks \<subseteq> nodes_of g" if "set (executable_entries q 0 ks) \<subseteq> set (below_node p n)" for q ks
    using entries_heads[of ks q 0] that sub by blast
  show ?thesis
  proof (cases n)
    case (Router h rs)
    have "set (snd r) \<subseteq> nodes_of g" if "r \<in> set rs" for r
      by (rule at[of "p @ [PStr ''route'', PStr (fst r)]"]) (use that Router in \<open>auto simp: below_node_def\<close>)
    with Router show ?thesis by simp
  qed (auto simp: below_node_def intro!: at subsetI)
qed

abbreviation outs_in_flow :: "node list \<Rightarrow> step_output list \<Rightarrow> bool" where
  "outs_in_flow g outs \<equiv> \<forall>out\<in>set outs. output_in_flow g out"

lemma result_in_flow: "as_result out = (r, st, cs) \<Longrightarrow> output_in_flow g out \<Longrightarrow> \<forall>c\<in>set cs. in_flow g c"
  by (cases out) auto

lemma defer_in_flow:
  assumes "outs_in_flow g outs" "\<forall>c\<in>set cs. in_flow g c"
  shows "outs_in_flow g (defer_after_pause outs cs)"
proof -
  have "outs_in_flow g (defer_first outs cs)"
    using assms(1)
  proof (induction outs)
    case (Cons out outs)
    obtain r st own where out: "as_result out = (r, st, own)" by (cases "as_result out") auto
    then have "\<forall>c\<in>set own. in_flow g c" using Cons.prems result_in_flow by auto
    then show ?case using Cons assms(2) out by auto
  qed simp
  with assms(1) show ?thesis by (auto simp: defer_after_pause_def Let_def)
qed

lemma returns_sequence:
  assumes "\<forall>(n, m)\<in>set steps. n \<in> nodes_of g \<and> returns m (outs_in_flow g)" "outs_in_flow g outs"
  shows "returns (sequence_from steps outs) (outs_in_flow g)"
  using assms
proof (induction steps outs rule: sequence_from.induct)
  case (2 n m steps outs)
  have steps: "set (map fst steps) \<subseteq> nodes_of g" and m: "returns m (outs_in_flow g)" using 2(2) by auto
  have body: "returns (if \<not> should_stop so then sequence_from steps (outs @ so)
      else if some_paused so then ret (defer_after_pause (outs @ so)
        (if steps \<noteq> [] then [SequenceContinuation (map fst steps)] else []))
      else ret (outs @ so)) (outs_in_flow g)" if so: "outs_in_flow g so" for so
  proof -
    have all: "outs_in_flow g (outs @ so)" using 2(3) so by auto
    have "returns (sequence_from steps (outs @ so)) (outs_in_flow g)" if "\<not> should_stop so"
      by (rule 2(1)) (use 2(2) all that in auto)
    moreover have "outs_in_flow g (defer_after_pause (outs @ so)
        (if steps \<noteq> [] then [SequenceContinuation (map fst steps)] else []))"
      by (rule defer_in_flow[OF all]) (use steps in auto)
    ultimately show ?thesis using all by (auto intro: returns_ret)
  qed
  show ?case
    unfolding sequence_from.simps by (rule returns_bind_rule[OF m], rule returns_seq, rule body)
qed (auto intro: result_rules)

lemma returns_round:
  assumes "\<forall>(n, m)\<in>set steps. n \<in> nodes_of g \<and> returns m (outs_in_flow g)" "outs_in_flow g outs"
    and "Loop h ns \<in> nodes_of g" "0 \<le> i" "i + int (length steps) \<le> int (length ns)"
  shows "returns (loop_round (Loop h ns) steps i outs) (\<lambda>r. outs_in_flow g (case r of Inl o1 \<Rightarrow> o1 | Inr o2 \<Rightarrow> o2))"
  using assms
proof (induction "Loop h ns" steps i outs rule: loop_round.induct)
  case (2 n m steps i outs)
  have m: "returns m (outs_in_flow g)" using 2(2) by auto
  have body: "returns (if \<not> should_stop so then loop_round (Loop h ns) steps (i + 1) (outs @ so)
      else if some_paused so then ret (Inl (defer_after_pause (outs @ so) [LoopContinuation (Loop h ns) (i + 1) None]))
      else ret (Inl (outs @ so))) (\<lambda>r. outs_in_flow g (case r of Inl o1 \<Rightarrow> o1 | Inr o2 \<Rightarrow> o2))"
    if so: "outs_in_flow g so" for so
  proof -
    have all: "outs_in_flow g (outs @ so)" using 2(3) so by auto
    have "returns (loop_round (Loop h ns) steps (i + 1) (outs @ so)) (\<lambda>r. outs_in_flow g (case r of Inl o1 \<Rightarrow> o1 | Inr o2 \<Rightarrow> o2))"
      if "\<not> should_stop so"
      by (rule 2(1)) (use 2 all that in auto)
    moreover have "outs_in_flow g (defer_after_pause (outs @ so) [LoopContinuation (Loop h ns) (i + 1) None])"
      by (rule defer_in_flow[OF all]) (use 2 in auto)
    ultimately show ?thesis using all by (auto intro: returns_ret)
  qed
  show ?case
    unfolding loop_round.simps by (rule returns_bind_rule[OF m], rule returns_seq, rule body)
qed (auto intro: result_rules)

lemma returns_iterations:
  assumes "\<forall>(n, m)\<in>set steps. n \<in> nodes_of g \<and> returns m (outs_in_flow g)" "outs_in_flow g outs"
    and "Loop h ns \<in> nodes_of g" "length steps = length ns" "0 \<le> i" "i \<le> int (length ns)"
  shows "returns (run_iterations k U h2 (Loop h ns) steps outs i b) (outs_in_flow g)"
  using assms(2,5,6)
proof (induction k arbitrary: outs i b)
  case (Suc k)
  have round: "returns (loop_round (Loop h ns) (drop (nat i) steps) i outs)
      (\<lambda>r. outs_in_flow g (case r of Inl o1 \<Rightarrow> o1 | Inr o2 \<Rightarrow> o2))"
    by (rule returns_round) (use assms Suc.prems in \<open>auto dest: in_set_dropD\<close>)
  show ?case
    using Suc.prems Suc.IH[of _ 0 False]
    by (auto intro!: result_rules returns_bind_rule[OF round] split: sum.split)
qed (auto intro: result_rules)

lemma run_tasks_results:
  assumes "\<forall>i\<in>set is. returns (f i) (P i)"
  shows "returns (run_tasks f is) (\<lambda>rs. map fst rs = is \<and> (\<forall>(i, r)\<in>set rs. P i r))"
  using assms
proof (induction "is")
  case (Cons i "is")
  have f: "returns (f i) (P i)" using Cons.prems by simp
  have rest: "returns (run_tasks f is) (\<lambda>rs. map fst rs = is \<and> (\<forall>(i, r)\<in>set rs. P i r))" using Cons by simp
  show ?case
    unfolding run_tasks.simps
    by (rule returns_bind_rule[OF f], rule returns_bind_rule[OF rest], rule returns_ret) auto
qed (auto intro: result_rules)

lemma returns_attempt: "returns m P \<Longrightarrow> returns (attempt m) (\<lambda>r. \<forall>a. r = Inr a \<longrightarrow> P a)"
  by (simp add: returns_def)

lemma find_isl: "find (\<lambda>(i, r). isl r) rs = Some (i, r) \<Longrightarrow> isl r"
  by (induction rs) (auto split: if_splits)

lemma returns_gather:
  assumes "\<forall>m\<in>set tasks. returns m P"
  shows "returns (gather_steps X tasks) (\<lambda>gs. \<forall>g\<in>set gs. P g)"
proof -
  have pick: "\<forall>i<length tasks. P (projr (the (map_of rs i)))"
    if "map fst rs = order" "\<forall>(i, r)\<in>set rs. \<forall>a. r = Inr a \<longrightarrow> P a" "find (\<lambda>(i, r). isl r) rs = None"
      "set order = {..<length tasks}" for rs order
  proof (intro allI impI)
    fix i assume "i < length tasks"
    then have "i \<in> fst ` set rs" using that(1,4) by (metis lessThan_iff list.set_map)
    then obtain r where r: "map_of rs i = Some r" by (metis map_of_eq_None_iff not_None_eq)
    then have "(i, r) \<in> set rs" by (rule map_of_SomeD)
    with that(2,3) show "P (projr (the (map_of rs i)))" using r by (cases r) (force simp: find_None_iff)+
  qed
  have tasks: "returns (run_tasks (\<lambda>i. attempt (tasks ! i)) order)
      (\<lambda>rs. map fst rs = order \<and> (\<forall>(i, r)\<in>set rs. \<forall>a. r = Inr a \<longrightarrow> P a))"
    if "set order = {..<length tasks}" for order
    by (rule run_tasks_results) (use assms that in \<open>auto intro!: returns_attempt\<close>)
  have "wp (gather_steps X tasks) (\<lambda>gs _. \<forall>g\<in>set gs. P g) anything s" for s
  proof -
    let ?order = "schedule X (rt_world (fs_desk s)) (length tasks)"
    have *: "case find (\<lambda>(i, r). isl r) rs of
        Some (i, Inl e) \<Rightarrow> True | _ \<Rightarrow> \<forall>i<length tasks. P (projr (the (map_of rs i)))"
      if "map fst rs = ?order \<and> (\<forall>(i, r)\<in>set rs. \<forall>a. r = Inr a \<longrightarrow> P a)" for rs
      using pick[OF conjunct1[OF that] conjunct2[OF that] _ schedule_perm(2)]
      by (auto split: option.split sum.split dest!: find_isl)
    show ?thesis
      unfolding gather_steps_def
      by (simp, rule wp_mono[OF returnsD[OF tasks[OF schedule_perm(2)]]])
        (use * in \<open>fastforce split: option.splits sum.splits\<close>)+
  qed
  then show ?thesis by (simp add: returns_def)
qed

lemma on_desk_any: "returns (on_desk m) (\<lambda>_. True)"
  by simp

theorem execute_in_flow:
  "n \<in> nodes_of g \<Longrightarrow> returns (execute D X U n) (outs_in_flow g)"
proof (induction D X U n rule: execute.induct)
  case (1 D X U h)
  show ?case
    unfolding execute.simps execute_step_def
    by (auto intro!: result_rules split: prod.split)
next
  case (2 D X U i ns)
  have "set ns \<subseteq> nodes_of g" using children_in[OF 2(2)] by simp
  then have "\<forall>m\<in>set (map (\<lambda>n. execute D X U n) ns). returns m (outs_in_flow g)"
    using 2(1) by auto
  from returns_gather[OF this] show ?case
    unfolding execute.simps by (rule returns_bind_rule, intro returns_ret defer_in_flow) auto
next
  case (3 D X U h ts fs)
  have kids: "set ts \<subseteq> nodes_of g" "set fs \<subseteq> nodes_of g" using children_in[OF 3(3)] by auto
  have "\<forall>n\<in>set ts. returns (execute D X U n) (outs_in_flow g)"
    "\<forall>n\<in>set fs. returns (execute D X U n) (outs_in_flow g)"
    using 3(1)[OF TrueI] 3(2)[of False] kids by blast+
  with kids show ?case
    unfolding execute.simps execute_sequence_def by (auto intro!: result_rules returns_sequence)
next
  case (4 D X U h routes)
  have kids: "\<forall>r\<in>set routes. set (snd r) \<subseteq> nodes_of g" using children_in[OF 4(2)] by simp
  have "returns (execute_sequence (map (\<lambda>n. (n, execute D X U n)) ns)) (outs_in_flow g)"
    if "(k, ns) \<in> set routes" for k ns
    unfolding execute_sequence_def
    by (rule returns_sequence) (use that kids 4(1) in fastforce)+
  then have "returns (execute_sequence steps) (outs_in_flow g)"
    if "dict_get (map (\<lambda>(k, ns). (k, map (\<lambda>n. (n, execute D X U n)) ns)) routes) key = Some steps" for steps key
    using map_of_SomeD[OF that] by auto
  moreover have "returns (execute_sequence []) (outs_in_flow g)"
    by (simp add: execute_sequence_def returns_ret)
  ultimately show ?case
    unfolding execute.simps by (auto intro!: result_rules split: option.split)
next
  case (5 D X U h ns)
  have "set ns \<subseteq> nodes_of g" using children_in[OF 5(2)] by simp
  then have "\<forall>n\<in>set ns. n \<in> nodes_of g \<and> returns (execute D X U n) (outs_in_flow g)" using 5(1) by blast
  with 5(2) show ?case
    unfolding execute.simps by (auto intro!: result_rules returns_iterations)
qed

theorem continuation_in_flow:
  assumes "in_flow g c"
  shows "returns (run_continuation D X U c) (outs_in_flow g)"
proof (cases c)
  case (SequenceContinuation ns)
  then show ?thesis
    using assms unfolding run_continuation_def execute_sequence_def
    by (auto intro!: returns_sequence execute_in_flow)
next
  case (LoopContinuation lp i previous)
  with assms obtain h ns where lp: "lp = Loop h ns" "Loop h ns \<in> nodes_of g" "0 \<le> i" "i \<le> int (length ns)"
    by (auto split: node.splits)
  then have "set ns \<subseteq> nodes_of g" using children_in[of "Loop h ns" g] by simp
  with lp LoopContinuation show ?thesis
    by (auto simp: run_continuation_def intro!: result_rules returns_iterations execute_in_flow)
next
  case (OutputContinuation outs)
  with assms show ?thesis by (simp add: run_continuation_def returns_ret)
qed

end
