(* ===== verification/Flow_Laws.thy ===== *)
theory Flow_Laws
  imports Workflow_Graph_Laws Desk_Laws
begin

text \<open>
  What a flow guarantees: a pause stores a state from which the flow can be read back, and every end
  of a run is recorded.  The locale \<open>flow_runs\<close> extends \<open>desk_runs\<close> by the laws of the user's
  callables: they leave the run store alone and the loop counters non-negative.
\<close>

section \<open>Reading a stored flow\<close>

definition loops_ok :: "workflow_context \<Rightarrow> bool" where
  "loops_ok c \<longleftrightarrow> (\<forall>kv\<in>set (wx_loops c). 0 \<le> snd kv)"

definition ended_well :: "report \<Rightarrow> bool" where
  "ended_well rep \<longleftrightarrow> rep_status rep \<noteq> Paused \<and> rep_status rep \<noteq> Failed"

definition reports_ok :: "'w flow_state \<Rightarrow> bool" where
  "reports_ok s \<longleftrightarrow> (\<forall>r\<in>set (fs_reports s). ended_well (snd r))"

text \<open>A state the flow accepts: nothing \<open>resume_state\<close> checks before the runner is resumed fails.\<close>

definition flow_readable ::
  "pytext \<Rightarrow> (string \<Rightarrow> string \<Rightarrow> bool) \<Rightarrow> (pyval \<Rightarrow> string) \<Rightarrow> flow \<Rightarrow> run_state \<Rightarrow> bool" where
  "flow_readable P rs digest F q \<longleftrightarrow> rs_runner_type q = ''flow'' \<and> rs_status q = Paused \<and>
     (\<exists>i st. dict_get (rs_payload q) ''step_index'' = Some (PlVal (PInt (int i))) \<and> i < length (fl_steps F) \<and>
        dict_get (rs_payload q) ''step_state'' = Some (PlState st)) \<and>
     dict_get (rs_payload q) ''flow_signature'' = Some (PlVal (PStr (signature digest (fl_steps F)))) \<and>
     dict_get (rs_payload q) ''continuations'' \<noteq> None \<and>
     (\<forall>reports. dict_get (rs_payload q) ''outputs'' = Some (PlReports reports) \<longrightarrow> list_all ended_well reports) \<and>
     (\<forall>k. \<exists>snap. read_flow_state P rs F q k = Inr snap)"

text \<open>The parts of a stored flow state, and their reading.\<close>

definition flow_payload ::
  "nat \<Rightarrow> report list \<Rightarrow> run_state \<Rightarrow> bool \<Rightarrow> string \<Rightarrow> pyval \<Rightarrow> stored_continuation list \<Rightarrow> pyval dict \<Rightarrow>
   (string \<times> payload_val) list" where
  "flow_payload i reports st b sig ctx kept totals =
     [(''step_index'', PlVal (PInt (int i))), (''outputs'', PlReports reports), (''step_state'', PlState st),
      (''stream'', PlVal (PBool b)), (''flow_signature'', PlVal (PStr sig)), (''context'', PlVal ctx),
      (''continuations'', PlFlow kept), (''usage_totals'', PlVal (PDict totals))]"

lemma flow_payload_get [simp]:
  "dict_get (flow_payload i reports st b sig ctx kept totals) ''step_index'' = Some (PlVal (PInt (int i)))"
  "dict_get (flow_payload i reports st b sig ctx kept totals) ''outputs'' = Some (PlReports reports)"
  "dict_get (flow_payload i reports st b sig ctx kept totals) ''step_state'' = Some (PlState st)"
  "dict_get (flow_payload i reports st b sig ctx kept totals) ''flow_signature'' = Some (PlVal (PStr sig))"
  "dict_get (flow_payload i reports st b sig ctx kept totals) ''context'' = Some (PlVal ctx)"
  "dict_get (flow_payload i reports st b sig ctx kept totals) ''continuations'' = Some (PlFlow kept)"
  "dict_get (flow_payload i reports st b sig ctx kept totals) ''usage_totals'' = Some (PlVal (PDict totals))"
  by (simp_all add: flow_payload_def)

lemma flow_payload_reload [simp]:
  "map (map_prod id reload_payload) (flow_payload i reports st b sig ctx kept totals)
     = flow_payload i reports st b sig (to_json_value ctx) kept (reload_dict totals)"
  by (simp add: flow_payload_def reload_dict_def)

text \<open>What comes back of the reports, the context and the continuations.\<close>

definition flow_back ::
  "pytext \<Rightarrow> (string \<Rightarrow> string \<Rightarrow> bool) \<Rightarrow> 'w flow_state \<Rightarrow> run_state \<Rightarrow> continuation list \<Rightarrow>
   flow_snapshot \<Rightarrow> bool" where
  "flow_back P rs s st cs = (\<lambda>(reports, context, cs', st', k).
     map snd reports = map (\<lambda>r. reload_report (snd r)) (fs_reports s) \<and> distinct (map fst reports) \<and>
     wx_outputs context = reports \<and>
     PDict (wx_artifacts context) = to_json_value (PDict (wx_artifacts (fs_context s))) \<and>
     wx_loops context = wx_loops (fs_context s) \<and>
     list_all2 (same_continuation P rs) cs cs' \<and> st' = reload_state P rs st)"

lemma numbered_simps [simp]: "map snd (numbered k xs) = xs" "distinct (map fst (numbered k xs))"
  by (simp_all add: numbered_def)

lemma loops_restored:
  assumes "loops_ok c"
  shows "restore_context j outs (PDict [(''artifacts'', PDict d), (''loop_iterations'', PDict (map (map_prod id PInt) (wx_loops c)))])
    = Inr \<lparr>wx_job = j, wx_outputs = outs, wx_artifacts = d, wx_loops = wx_loops c\<rparr>"
proof -
  have "map ((\<lambda>(k, v). (k, the (count_value v))) \<circ> map_prod id PInt) (wx_loops c) = map id (wx_loops c)"
    by (rule map_cong) (use assms in \<open>auto simp: loops_ok_def\<close>)
  then show ?thesis
    using assms by (auto simp: restore_context_def dict_get_or_def loops_ok_def not_less)
qed

lemma snapshot_restored:
  assumes "loops_ok c" "snapshot c = Inr v"
  shows "\<exists>d. PDict d = to_json_value (PDict (wx_artifacts c)) \<and> to_json_value v = v \<and> (\<forall>j outs.
    restore_context j outs v = Inr \<lparr>wx_job = j, wx_outputs = outs, wx_artifacts = d, wx_loops = wx_loops c\<rparr>)"
proof -
  have v: "v = PDict [(''artifacts'', to_json_value (PDict (wx_artifacts c))),
      (''loop_iterations'', PDict (map (map_prod id PInt) (wx_loops c)))]"
    using assms(2) by (auto simp: snapshot_def Let_def split: if_splits)
  have "to_json_value v = v"
    using to_json_value_idem[of "PDict (wx_artifacts c)"] by (simp add: v comp_def map_prod_def case_prod_unfold)
  with v loops_restored[OF assms(1)] show ?thesis by auto
qed

lemma flow_state_back:
  assumes g: "graph_ok (fl_steps F)" and cs: "\<forall>c\<in>set cs. in_flow (fl_steps F) c"
    and s: "loops_ok (fs_context s)" and b: "build_flow_state F digest j i st cs s = Inr q"
    and q: "q' = q \<or> q' = reload_state P rs q"
  shows "\<exists>snap. read_flow_state P rs F q' k = Inr snap \<and> flow_back P rs s st cs snap"
proof -
  from b obtain ctx kept where c: "snapshot (fs_context s) = Inr ctx"
    and kept: "serialize_continuations (fl_steps F) cs = Inr kept"
    and q0: "rs_payload q = flow_payload i (map snd (fs_reports s)) st (fs_stream s)
      (signature digest (fl_steps F)) ctx kept (rt_totals (fs_desk s))"
    by (auto simp: build_flow_state_def flow_payload_def split: sum.splits)
  from snapshot_restored[OF s c] obtain d where d: "PDict d = to_json_value (PDict (wx_artifacts (fs_context s)))"
    "to_json_value ctx = ctx"
    "\<And>j outs. restore_context j outs ctx =
      Inr \<lparr>wx_job = j, wx_outputs = outs, wx_artifacts = d, wx_loops = wx_loops (fs_context s)\<rparr>"
    by blast
  have pl: "\<exists>totals. rs_payload q' = flow_payload i (map snd (fs_reports s)) st (fs_stream s)
      (signature digest (fl_steps F)) ctx kept totals"
    using q q0 d(2) by (auto simp: reload_state_def)
  from continuations_back[OF g cs, of P rs] kept obtain cs' k' where
    "restore_continuations P rs (fl_steps F) kept (k + length (fs_reports s)) = Inr (cs', k')"
    "list_all2 (same_continuation P rs) cs cs'" by fastforce
  with pl d show ?thesis
    by (auto simp: read_flow_state_def flow_outputs_def flow_context_value_def flow_continuations_def Let_def
        flow_back_def comp_def)
qed

lemma built_readable:
  assumes "graph_ok (fl_steps F)" "\<forall>c\<in>set cs. in_flow (fl_steps F) c" "loops_ok (fs_context s)"
    and r: "reports_ok s" and b: "build_flow_state F digest j i st cs s = Inr q" and i: "i < length (fl_steps F)"
    and q: "q' = q \<or> q' = reload_state P rs q"
  shows "flow_readable P rs digest F q'"
proof -
  from b obtain ctx kept where q0: "rs_payload q = flow_payload i (map snd (fs_reports s)) st (fs_stream s)
      (signature digest (fl_steps F)) ctx kept (rt_totals (fs_desk s))"
    "rs_runner_type q = ''flow''" "rs_status q = Paused"
    by (auto simp: build_flow_state_def flow_payload_def split: sum.splits)
  then obtain ctx' totals where "rs_payload q' = flow_payload i (map snd (fs_reports s)) st (fs_stream s)
      (signature digest (fl_steps F)) ctx' kept totals" "rs_runner_type q' = ''flow''" "rs_status q' = Paused"
    using q by (auto simp: reload_state_def)
  moreover have "\<forall>k. \<exists>snap. read_flow_state P rs F q' k = Inr snap"
    using flow_state_back[OF assms(1-3) b q] by blast
  ultimately show ?thesis using i r by (simp add: flow_readable_def reports_ok_def list_all_iff)
qed

section \<open>What is read belongs to the flow\<close>

lemma resolved_node: "resolve_path g p = Inr n \<Longrightarrow> n \<in> nodes_of g"
  by (force simp: resolve_path_def nodes_of_def find_Some_iff split: option.splits dest: nth_mem)

lemma sum_map_all: "sum_map f xs = Inr ys \<Longrightarrow> (\<And>x y. f x = Inr y \<Longrightarrow> P y) \<Longrightarrow> \<forall>y\<in>set ys. P y"
  by (induction xs arbitrary: ys) (auto split: sum.splits)

lemma restored_sequence: "restore_sequence g v = Inr c \<Longrightarrow> in_flow g c"
proof -
  assume r: "restore_sequence g v = Inr c"
  let ?node = "\<lambda>p. case parse_step_path p of Inl e \<Rightarrow> Inl e | Inr path \<Rightarrow> resolve_path g path"
  from r obtain ps ns where ns: "v = PList ps" "sum_map ?node ps = Inr ns" "c = SequenceContinuation ns"
    by (auto simp: restore_sequence_def map_sum_def split: pyval.splits sum.splits)
  have "\<forall>n\<in>set ns. n \<in> nodes_of g"
    by (rule sum_map_all[OF ns(2)]) (auto split: sum.splits dest: resolved_node)
  with ns show ?thesis by auto
qed

lemma restored_loop: "restore_loop g v start name = Inr c \<Longrightarrow> in_flow g c"
  by (auto simp: restore_loop_def split: sum.splits node.splits pyval.splits if_splits dest: resolved_node)

lemma map_sum_Inr [simp]: "map_sum f g r = Inr y \<longleftrightarrow> (\<exists>x. r = Inr x \<and> y = g x)"
  by (cases r) auto

lemma restored_in_flow:
  "restore_step_output P rs g out k = Inr (out', k') \<Longrightarrow> output_in_flow g out'"
  "restore_continuation P rs g c k = Inr (c', k') \<Longrightarrow> in_flow g c'"
  "restore_outputs P rs g outs k = Inr (outs', k') \<Longrightarrow> outs_in_flow g outs'"
  "restore_continuations P rs g cs k = Inr (cs', k') \<Longrightarrow> \<forall>c\<in>set cs'. in_flow g c"
proof (induction P rs g out k and P rs g c k and P rs g outs k and P rs g cs k
    arbitrary: out' k' and c' k' and outs' k' and cs' k'
    rule: restore_step_output_restore_continuation_restore_outputs_restore_continuations.induct)
  case (2 P rs g paths k) then show ?case by (auto dest: restored_sequence)
next
  case (3 P rs g path start name k) then show ?case by (auto dest: restored_loop)
qed (auto split: sum.splits prod.splits)

lemma restored_loops: "restore_context j outs v = Inr c \<Longrightarrow> loops_ok c \<and> wx_outputs c = outs"
proof -
  have "0 \<le> i" if "count_value x = Some i" for x i using that by (cases x) (auto split: if_splits)
  then show "restore_context j outs v = Inr c \<Longrightarrow> loops_ok c \<and> wx_outputs c = outs"
    by (fastforce simp: restore_context_def new_context_def loops_ok_def split: pyval.splits if_splits)
qed

lemma read_state_ok:
  assumes "read_flow_state P rs F q k = Inr (reports, c, cs, st, k')"
    and "\<And>rs. dict_get (rs_payload q) ''outputs'' = Some (PlReports rs) \<Longrightarrow> list_all ended_well rs"
  shows "loops_ok c" "\<forall>c\<in>set cs. in_flow (fl_steps F) c" "\<forall>r\<in>set reports. ended_well (snd r)"
proof -
  from assms(1) obtain rs0 stored where r: "flow_outputs (dict_get (rs_payload q) ''outputs'') = Inr rs0"
    "reports = numbered k rs0"
    "restore_context (rs_job q) (numbered k rs0) (flow_context_value (dict_get (rs_payload q) ''context'')) = Inr c"
    "restore_continuations P rs (fl_steps F) stored (k + length rs0) = Inr (cs, k')"
    by (auto simp: read_flow_state_def Let_def split: sum.splits option.splits payload_val.splits prod.splits)
  show "loops_ok c" using restored_loops[OF r(3)] by blast
  show "\<forall>c\<in>set cs. in_flow (fl_steps F) c" using restored_in_flow(4)[OF r(4)] .
  have "list_all ended_well rs0"
    using r(1) assms(2) by (auto simp: flow_outputs_def list_all_iff ended_well_def reload_report_def
        split: option.splits payload_val.splits pyval.splits list.splits)
  then show "\<forall>r\<in>set reports. ended_well (snd r)"
    by (auto simp: r(2) numbered_def list_all_iff dest!: set_zip_rightD)
qed

section \<open>Where a flow moves\<close>

definition user_law ::
  "('w \<Rightarrow> 'w \<Rightarrow> bool) \<Rightarrow> workflow_context \<times> 'w \<Rightarrow> workflow_context \<times> 'w \<Rightarrow> bool" where
  "user_law W = (\<lambda>(c, w) (c', w'). W w w' \<and> (loops_ok c \<longrightarrow> loops_ok c'))"

definition desk_kept :: "('w \<Rightarrow> 'w \<Rightarrow> bool) \<Rightarrow> 'w desk_state \<Rightarrow> 'w desk_state \<Rightarrow> bool" where
  "desk_kept W s s' \<longleftrightarrow> W (rt_world s) (rt_world s') \<and> dk_flows s' = dk_flows s"

definition flow_kept :: "('w \<Rightarrow> 'w \<Rightarrow> bool) \<Rightarrow> 'w flow_state \<Rightarrow> 'w flow_state \<Rightarrow> bool" where
  "flow_kept W s s' \<longleftrightarrow> desk_kept W (fs_desk s) (fs_desk s') \<and> fs_run_id s' = fs_run_id s \<and>
     fs_stream s' = fs_stream s \<and> fs_reports s' = fs_reports s \<and>
     (loops_ok (fs_context s) \<longrightarrow> loops_ok (fs_context s'))"

lemma pre_desk_kept [simp]: "pre W \<Longrightarrow> pre (desk_kept W)"
  by (auto simp: pre_def desk_kept_def)

lemma pre_flow_kept [simp]: "pre W \<Longrightarrow> pre (flow_kept W)"
  by (auto simp: pre_def flow_kept_def desk_kept_def)

lemma moving_on_desk [moves]: "moving (desk_kept W) m \<Longrightarrow> moving (flow_kept W) (on_desk m)"
  by (auto simp: moving_def on_desk_def flow_kept_def split: prod.split) (metis snd_conv)

lemma moving_on_user [moves]: "moving (user_law W) m \<Longrightarrow> moving (flow_kept W) (on_user m)"
  by (auto simp: moving_def on_user_def flow_kept_def desk_kept_def user_law_def split: prod.split)
    (metis case_prodD snd_conv)+

lemma moving_on_context [moves]:
  "pre W \<Longrightarrow> (\<And>c. loops_ok c \<Longrightarrow> loops_ok (f c)) \<Longrightarrow> moving (flow_kept W) (on_context f)"
  by (simp add: moving_def on_context_def modify_def flow_kept_def desk_kept_def preD(1))

lemma still_desk_kept: "moving (still W) m \<Longrightarrow> moving (desk_kept W) m"
proof -
  have "dk_flows s' = dk_flows s" if "rt.more s' = rt.more s" for s s' :: "'w desk_state"
    using that by (cases s; cases s') simp
  then show "moving (still W) m \<Longrightarrow> moving (desk_kept W) m"
    by (auto simp: moving_def still_def desk_kept_def)
qed

lemma fresh_moves [moves]: "pre W \<Longrightarrow> moving (flow_kept W) (fresh_report rep)"
  by (simp add: moving_def fresh_report_def flow_kept_def desk_kept_def preD(1))

lemma loops_ok_steps:
  "loops_ok (publish_outputs outs c) = loops_ok c"
  "loops_ok c \<Longrightarrow> 0 \<le> i \<Longrightarrow> loops_ok (set_loop_iteration name i c)"
  "loops_ok c \<Longrightarrow> 0 \<le> loop_iteration name c"
  "loops_ok c \<Longrightarrow> loops_ok (increment_loop_iteration name c)"
  "loops_ok (add_output r c) = loops_ok c"
proof -
  show add: "loops_ok (add_output r c) = loops_ok c" for r c by (simp add: add_output_def loops_ok_def)
  show "loops_ok (publish_outputs outs c) = loops_ok c"
    by (induction outs arbitrary: c) (auto simp: publish_outputs_def add)
  have set_ok: "\<forall>kv\<in>set (dict_set k v d). 0 \<le> snd kv" if "\<forall>kv\<in>set d. 0 \<le> snd kv" "0 \<le> v" for k v and d :: "(string \<times> int) list"
    using that by (induction d) auto
  show set: "loops_ok c \<Longrightarrow> 0 \<le> i \<Longrightarrow> loops_ok (set_loop_iteration name i c)" for i
    using set_ok by (simp add: loops_ok_def set_loop_iteration_def)
  show it: "loops_ok c \<Longrightarrow> 0 \<le> loop_iteration name c"
    by (auto simp: loops_ok_def loop_iteration_def dict_get_or_def split: option.split dest!: map_of_SomeD)
  show "loops_ok c \<Longrightarrow> loops_ok (increment_loop_iteration name c)"
    using it by (simp add: increment_loop_iteration_def set)
qed

end
