(* ===== verification/Node_Moves.thy ===== *)
theory Node_Moves
  imports Flow_Laws
begin

text \<open>
  Where the execution of a node moves the state of a flow: along any preorder that its steps, the
  user's callables and the counting of its loops move along (locale \<open>node_moves\<close>).
\<close>

lemma moving_run_tasks_in:
  "pre R \<Longrightarrow> \<forall>i\<in>set is. moving R (f i) \<Longrightarrow> moving R (run_tasks f is)"
  by (induction "is") (auto intro!: moves)

lemma moving_gets_bind: "(\<And>s. moving R (k (f s))) \<Longrightarrow> moving R (ebind (gets f) k)"
  by (simp add: moving_def ebind_def gets_def)

text \<open>The loops of a node, itself included.\<close>

fun loop_heads :: "node \<Rightarrow> loop_head list" where
  "loop_heads (Step h) = []"
| "loop_heads (Parallel i ns) = concat (map loop_heads ns)"
| "loop_heads (Condition h ts fs) = concat (map loop_heads ts) @ concat (map loop_heads fs)"
| "loop_heads (Router h routes) = concat (map (\<lambda>r. concat (map loop_heads (snd r))) routes)"
| "loop_heads (Loop h ns) = h # concat (map loop_heads ns)"

locale node_moves =
  fixes R :: "('st, 'm, 'u) desk_world_scheme flow_state \<Rightarrow> ('st, 'm, 'u) desk_world_scheme flow_state \<Rightarrow> bool"
    and D :: "('st, 'm, 'u) desk"
    and X :: "(('st, 'm, 'u) desk_world_scheme, 'x) force_ext_scheme"
    and U :: "('st, 'm, 'u) desk_world_scheme flow_calls"
    and L :: "loop_head \<Rightarrow> bool"
  assumes pre_R [simp]: "pre R"
    and step: "moving R (execute_step D X U sh)"
    and test: "moving R (on_user (fe_test U t))"
    and select: "moving R (on_user (fe_select U t))"
    and publish: "moving R (on_context (publish_outputs outs))"
    and counting: "L h \<Longrightarrow> moving R (on_context (set_loop_iteration (lh_name h) 0))"
      "L h \<Longrightarrow> moving R (on_context (increment_loop_iteration (lh_name h)))"
begin

lemmas node_rules = step test select publish counting

lemma sequence_moves:
  "\<forall>nm\<in>set steps. moving R (snd nm) \<Longrightarrow> moving R (sequence_from steps outs)"
proof (induction steps outs rule: sequence_from.induct)
  case (2 n m steps outs)
  then show ?case by (auto intro!: moves node_rules)
qed (auto intro!: moves)

lemma round_moves:
  "\<forall>nm\<in>set steps. moving R (snd nm) \<Longrightarrow> moving R (loop_round lp steps i outs)"
proof (induction lp steps i outs rule: loop_round.induct)
  case (2 lp n m steps i outs)
  then show ?case by (auto intro!: moves node_rules)
qed (auto intro!: moves)

lemma iterations_moves:
  assumes "\<forall>nm\<in>set steps. moving R (snd nm)" "L h"
  shows "moving R (run_iterations k U h lp steps outs i b)"
proof (induction k arbitrary: outs i b)
  case (Suc k)
  have "moving R (loop_round lp (drop (nat i) steps) i outs)"
    by (rule round_moves) (use assms in \<open>auto dest: in_set_dropD\<close>)
  with Suc assms(2) show ?case by (auto intro!: moves node_rules split: sum.split)
qed (auto intro!: moves)

lemma gather_steps_moves:
  assumes "\<forall>m\<in>set tasks. moving R m" shows "moving R (gather_steps X tasks)"
proof -
  have tasks: "moving R (run_tasks (\<lambda>i. attempt (tasks ! i)) (schedule X w (length tasks)))" for w
    by (rule moving_run_tasks_in) (use assms schedule_perm(2)[of X w "length tasks"] in \<open>auto intro!: moving_attempt\<close>)
  have "moving R (case find (\<lambda>(i, r). isl r) rs of Some (i, Inl e) \<Rightarrow> raise e | _ \<Rightarrow> ret (f rs))" for rs f
    by (auto intro!: moves split: option.split sum.split)
  then show ?thesis
    unfolding gather_steps_def by (intro moving_gets_bind moving_ebind pre_R tasks)
qed

theorem execute_moves: "\<forall>h\<in>set (loop_heads n). L h \<Longrightarrow> moving R (execute D X U n)"
proof (induction n)
  case (Step h)
  show ?case by (simp add: step)
next
  case (Parallel i ns)
  then show ?case by (auto intro!: moves gather_steps_moves)
next
  case (Condition h ts fs)
  then have "\<forall>n\<in>set ts. moving R (execute D X U n)" "\<forall>n\<in>set fs. moving R (execute D X U n)"
    by (auto simp: ball_Un)
  then show ?case by (auto simp: execute_sequence_def intro!: moves node_rules sequence_moves)
next
  case (Router h routes)
  have "moving R (execute_sequence steps)"
    if "dict_get (map (\<lambda>(k, ns). (k, map (\<lambda>n. (n, execute D X U n)) ns)) routes) key = Some steps" for key steps
  proof -
    from map_of_SomeD[OF that] obtain ns where ns: "(key, ns) \<in> set routes" "steps = map (\<lambda>n. (n, execute D X U n)) ns"
      by auto
    have "moving R (execute D X U n)" if "n \<in> set ns" for n
      by (rule Router.IH[OF ns(1)]) (use that Router.prems ns(1) in \<open>force simp: snds.simps\<close>)+
    with ns(2) show ?thesis by (auto simp: execute_sequence_def intro!: sequence_moves)
  qed
  then show ?case by (auto simp: execute_sequence_def intro!: moves node_rules sequence_moves split: option.split)
next
  case (Loop h ns)
  then show ?case by (auto intro!: moves node_rules iterations_moves)
qed

end

end
