(* ===== verification/Flow_Runs.thy ===== *)
theory Flow_Runs
  imports Node_Moves
begin

text \<open>
  Runs of a flow over a run store: the locale \<open>flow_runs\<close> extends \<open>desk_runs\<close> by the laws of the
  user's callables, which leave the run store alone and the loop counters non-negative, and by how
  the store loads a state.  Its lemmas say what a run of a flow leaves behind wherever it returns.
\<close>

lemma user_law_mono:
  assumes "\<And>a b. W a b \<Longrightarrow> W' a b" "moving (user_law W) m" shows "moving (user_law W') m"
  using assms by (auto simp: moving_def user_law_def split: prod.splits)

lemma pre_user_law: "pre W \<Longrightarrow> pre (user_law W)"
  by (auto simp: pre_def user_law_def)

locale flow_runs = desk_runs ops inv view load D X
  for ops :: "'st store_ops" and inv view load
    and D :: "('st, 'm, 'u) desk"
    and X :: "(('st, 'm, 'u) desk_world_scheme, 'x) force_ext_scheme" +
  fixes U :: "('st, 'm, 'u) desk_world_scheme flow_calls"
  assumes callables: "moving (user_law same_store) (fe_builder U b)"
      "moving (user_law same_store) (fe_test U t)" "moving (user_law same_store) (fe_select U t)"
    and loads: "load q = q \<or> load q = reload_state (x_text X) (x_resolves X) q"
begin

abbreviation flow_moves :: "('st, 'm, 'u, 'a) flow_eff \<Rightarrow> bool" where
  "flow_moves m \<equiv> moving (flow_kept runs_kept) m"

lemma pre_kept [simp]: "pre (flow_kept runs_kept)" "pre (desk_kept runs_kept)"
  by simp_all

lemmas user_moves [moves] =
  moving_on_user[OF user_law_mono[OF same_kept callables(1)]]
  moving_on_user[OF user_law_mono[OF same_kept callables(2)]]
  moving_on_user[OF user_law_mono[OF same_kept callables(3)]]

lemmas context_moves [moves] = moving_on_context[OF pre_runs_kept]

section \<open>Steps leave the records of runs alone\<close>

lemma desk_moves [moves]:
  "moving (desk_kept runs_kept) (emit (desk_env D X) rid ty src payload)"
  "moving (desk_kept runs_kept) (modify (register_worker m))"
  "moving (desk_kept runs_kept) (modify (register_workforce crew))"
  "moving (desk_kept runs_kept) (prepare_job D P r j)"
  "moving (desk_kept runs_kept) (member_arun (desk_env D X) m c j)"
  "moving (desk_kept runs_kept) (member_aresume (desk_env D X) m c st d)"
  "moving (desk_kept runs_kept) (workforce_arun (desk_env D X) (member_arun (desk_env D X)) crew c j None)"
  "moving (desk_kept runs_kept) (workforce_aresume (desk_env D X) (member_arun (desk_env D X))
     (member_aresume (desk_env D X)) crew c st d)"
  "moving (desk_kept runs_kept) (record_memory D mo rep)"
proof -
  show "moving (desk_kept runs_kept) (emit (desk_env D X) rid ty src payload)"
    by (rule still_desk_kept, rule env.emit_moves) simp
  show "moving (desk_kept runs_kept) (member_arun (desk_env D X) m c j)"
    "moving (desk_kept runs_kept) (member_aresume (desk_env D X) m c st d)"
    by (rule still_desk_kept, rule env.member_moves)+
  show "moving (desk_kept runs_kept) (workforce_arun (desk_env D X) (member_arun (desk_env D X)) crew c j None)"
    by (rule still_desk_kept, rule env.workforce_arun_moves) simp
  show "moving (desk_kept runs_kept) (workforce_aresume (desk_env D X) (member_arun (desk_env D X))
     (member_aresume (desk_env D X)) crew c st d)"
    by (rule still_desk_kept, rule env.workforce_aresume_moves)
  show "moving (desk_kept runs_kept) (record_memory D mo rep)"
    using record_memory_moves[of mo rep]
    by (intro still_desk_kept) (auto simp: moving_def still_def same_store_def runs_kept_def)
  show "moving (desk_kept runs_kept) (modify (register_worker m))"
    "moving (desk_kept runs_kept) (modify (register_workforce crew))"
    by (simp_all add: moving_def modify_def desk_kept_def register_worker_def register_workforce_def preD(1))
  show "moving (desk_kept runs_kept) (prepare_job D P r j)"
    by (auto simp: prepare_job_def apply_memory_def intro!: moves split: runner.split option.split)
qed

lemma run_runner_keeps [moves]: "flow_moves (flow_run_runner D X r j)"
  by (auto simp: flow_run_runner_def flow_config_def intro!: moves split: runner.split prod.split)

lemma resume_runner_keeps [moves]: "flow_moves (flow_resume_runner D X st d)"
  by (auto simp: flow_resume_runner_def flow_config_def intro!: moves split: option.split prod.split)

lemma step_moves [moves]: "flow_moves (execute_step D X U h)"
  by (auto simp: execute_step_def flow_emit_def intro!: moves split: option.split prod.split)

lemma flow_node_moves: "node_moves (flow_kept runs_kept) D X U (\<lambda>_. True)"
  by unfold_locales (auto intro!: moves simp: loops_ok_steps)

sublocale nodes: node_moves "flow_kept runs_kept" D X U "\<lambda>_. True" by (rule flow_node_moves)

lemma execute_moves: "flow_moves (execute D X U n)"
  by (rule nodes.execute_moves) simp

lemma continuation_moves: "flow_moves (run_continuation D X U c)"
  by (auto simp: run_continuation_def execute_sequence_def execute_moves loops_ok_steps
      intro!: moves nodes.sequence_moves nodes.iterations_moves split: continuation_object.split node.split option.split)

section \<open>The ends of a run\<close>

text \<open>A flow run in progress, and what it leaves behind.\<close>

definition run_open :: "string \<Rightarrow> flow \<Rightarrow> 'st \<Rightarrow> ('st, 'm, 'u) desk_world_scheme flow_state \<Rightarrow> bool" where
  "run_open rid F before s \<longleftrightarrow> others_kept rid before (stored (fs_desk s)) \<and>
     view (stored (fs_desk s)) rid \<noteq> None \<and> fs_run_id s = rid \<and>
     dict_get (dk_flows (fs_desk s)) rid = Some (fl_key F)"

definition flow_ready :: "string \<Rightarrow> flow \<Rightarrow> 'st \<Rightarrow> ('st, 'm, 'u) desk_world_scheme flow_state \<Rightarrow> bool" where
  "flow_ready rid F before s \<longleftrightarrow> run_open rid F before s \<and> loops_ok (fs_context s) \<and> reports_ok s"

definition flow_recorded ::
  "string \<Rightarrow> flow \<Rightarrow> 'st \<Rightarrow> report \<Rightarrow> ('st, 'm, 'u) desk_world_scheme flow_state \<Rightarrow> bool" where
  "flow_recorded rid F before rep s \<longleftrightarrow> fs_run_id s = rid \<and> others_kept rid before (stored (fs_desk s)) \<and>
     (\<exists>r. view (stored (fs_desk s)) rid = Some r \<and> rc_output r = rep_content rep \<and>
        (\<exists>es e. flow_events s = es @ [e] \<and> ev_type e = end_event (rc_status r) \<and> ev_run_id e = rid) \<and>
        (case rc_status r of
           Paused \<Rightarrow> rep_status rep = Paused \<and> dict_get (dk_flows (fs_desk s)) rid = Some (fl_key F) \<and>
             (\<exists>q. rc_state r = Some q \<and> rs_run_id q = rid \<and>
                flow_readable (x_text X) (x_resolves X) (fe_digest U) F q)
         | Failed \<Rightarrow> rep_status rep = Failed \<and> rc_state r = None \<and> dict_get (dk_flows (fs_desk s)) rid = None
         | Completed \<Rightarrow> ended_well rep \<and> rc_state r = None \<and>
             dict_get (dk_flows (fs_desk s)) rid = None
         | Running \<Rightarrow> False))"

lemma open_moved: "run_open rid F before s \<Longrightarrow> flow_kept runs_kept s s' \<Longrightarrow> run_open rid F before s'"
  by (auto simp: run_open_def flow_kept_def desk_kept_def runs_kept_def others_kept_def)

lemma ready_moved: "flow_ready rid F before s \<Longrightarrow> flow_kept runs_kept s s' \<Longrightarrow> flow_ready rid F before s'"
  using open_moved by (auto simp: flow_ready_def flow_kept_def reports_ok_def)

lemma wp_on_desk [simp]: "wp (on_desk m) Q E s = wp m (\<lambda>a d. Q a (s\<lparr>fs_desk := d\<rparr>)) (\<lambda>e d. E e (s\<lparr>fs_desk := d\<rparr>)) (fs_desk s)"
  by (auto simp: wp_def on_desk_def split: prod.split sum.split)

text \<open>An event and an update of the record: all that ends of a run consist of.\<close>

lemma announce_update:
  assumes s: "run_open rid F before s" and ty: "ty = end_event status"
    and Q: "\<And>s' r. others_kept rid before (stored (fs_desk s')) \<Longrightarrow> view (stored (fs_desk s')) rid = Some r \<Longrightarrow>
      rc_status r = status \<Longrightarrow> rc_output r = out \<Longrightarrow> rc_state r = map_option load st \<Longrightarrow>
      (\<exists>es e. flow_events s' = es @ [e] \<and> ev_type e = ty \<and> ev_run_id e = rid) \<Longrightarrow>
      fs_run_id s' = rid \<Longrightarrow> dict_get (dk_flows (fs_desk s')) rid = Some (fl_key F) \<Longrightarrow> Q () s'"
  shows "wp (eseq (flow_announce D X F ty payload) (flow_update D X status out json st)) Q anything s"
proof -
  let ?d = "fs_desk s"
  from s obtain r0 where s0: "others_kept rid before (stored ?d)" "inv (stored ?d)" "view (stored ?d) rid = Some r0"
    "fs_run_id s = rid" "dict_get (dk_flows ?d) rid = Some (fl_key F)"
    by (auto simp: run_open_def others_kept_def)
  have "wp (emit (desk_env D X) rid ty (fl_name F) payload) (\<lambda>_. wp (update_run D X rid status out json st)
      (\<lambda>a d. Q a (s\<lparr>fs_desk := d\<rparr>)) anything) anything ?d"
  proof (rule wp_mono[OF env_emit_appends])
    fix a s1
    assume "still runs_kept ?d s1 \<and> (\<exists>e. rt_events s1 = rt_events ?d @ [e] \<and> ev_type e = ty \<and> ev_run_id e = rid)"
    then obtain e where k: "still runs_kept ?d s1" and e: "rt_events s1 = rt_events ?d @ [e]" "ev_type e = ty"
      "ev_run_id e = rid" by blast
    from k s0 have s1: "inv (stored s1)" "view (stored s1) rid = Some r0" "rt.more s1 = rt.more ?d"
      by (auto simp: still_def runs_kept_def)
    have flows: "dk_flows s' = dk_flows ?d" if "rt.more s' = rt.more s1" for s' :: "('st, 'm, 'u) desk_world_scheme desk_state"
      using that s1(3) by (cases s'; cases ?d) simp
    note oth = others_kept_trans[OF s0(1) others_kept_still[OF s0(2) k]]
    show "wp (update_run D X rid status out json st) (\<lambda>a d. Q a (s\<lparr>fs_desk := d\<rparr>)) anything s1"
      by (rule wp_mono[OF update_records[OF s1(1,2)]])
        (use e s0 flows oth in \<open>auto simp: flow_events_def intro!: Q intro: others_kept_trans\<close>)
  qed simp
  then show ?thesis
    by (simp add: flow_announce_def flow_update_def s0(4))
qed

lemma end_flow_records:
  assumes "run_open rid F before s" "ty = end_event status" "status \<noteq> Paused" "status \<noteq> Running"
    and "out = rep_content rep"
    and "if status = Failed then rep_status rep = Failed else ended_well rep"
  shows "wp (end_flow D X F ty status out json) (\<lambda>_. flow_recorded rid F before rep) anything s"
proof -
  have split: "wp (end_flow D X F ty status out json) Q anything s =
    wp (eseq (flow_announce D X F ty []) (flow_update D X status out json None)) (\<lambda>_. wp flow_unregister Q anything) anything s" for Q
    by (simp add: end_flow_def)
  show ?thesis
    unfolding split
    by (rule announce_update[OF assms(1,2)])
      (use assms in \<open>auto simp: flow_unregister_def flow_recorded_def flow_events_def unregister_flow_run_def
        split: run_status.split if_splits\<close>)
qed

lemma failed_recorded:
  assumes "run_open rid F before s" "rep_status rep = Failed"
  shows "wp (emit_run_failed D X F rep) (\<lambda>_. flow_recorded rid F before rep) anything s"
  unfolding emit_run_failed_def
  by (rule end_flow_records[OF assms(1)]) (use assms(2) in \<open>simp_all add: end_event_def ended_well_def\<close>)

lemma completed_recorded:
  assumes "run_open rid F before s" "ended_well rep"
  shows "wp (emit_run_completed D X F rep) (\<lambda>_. flow_recorded rid F before rep) anything s"
  unfolding emit_run_completed_def
  by (rule end_flow_records[OF assms(1)]) (use assms(2) in \<open>simp_all add: end_event_def ended_well_def\<close>)

lemma empty_failed:
  assumes "run_open rid F before s" "rep_status rep = Failed" "rep_content rep = None"
  shows "wp (end_flow D X F RunFailed Failed None json) (\<lambda>_. flow_recorded rid F before rep) anything s"
  by (rule end_flow_records[OF assms(1)]) (use assms(2,3) in \<open>simp_all add: end_event_def\<close>)

lemma missing_state_records:
  "run_open rid F before s \<Longrightarrow> wp (missing_state D X F rep) (flow_recorded rid F before) anything s"
  by (auto simp: missing_state_def failed_report_def build_report_def intro!: empty_failed)

text \<open>A pause stores a state the flow can be resumed from, or fails the run.\<close>

lemma pause_flow_records:
  assumes s: "flow_ready rid F before s" and F: "graph_ok (fl_steps F)" "i < length (fl_steps F)"
    and cs: "\<forall>c\<in>set cs. in_flow (fl_steps F) c" and rep: "rep_status rep = Paused"
  shows "wp (pause_flow D X U F rep st j i cs) (flow_recorded rid F before) anything s"
proof -
  from s have o: "run_open rid F before s" by (simp add: flow_ready_def)
  show ?thesis
proof (cases "build_flow_state F (fe_digest U) j i (with_stream (PBool (fs_stream s)) st) cs s")
  case (Inl e)
  then show ?thesis by (auto simp: pause_flow_def Let_def intro!: failed_recorded o)
next
  case (Inr q)
  from s have l: "loops_ok (fs_context s)" "reports_ok s" by (simp_all add: flow_ready_def)
  have readable: "flow_readable (x_text X) (x_resolves X) (fe_digest U) F (load q)"
    using loads by (intro built_readable[OF F(1) cs l Inr F(2)]) auto
  have "rs_run_id q = fs_run_id s" using Inr by (auto simp: build_flow_state_def split: sum.splits)
  moreover have "rs_run_id (load q) = rs_run_id q" using loads[of q] by (auto simp: reload_state_def)
  ultimately have rid: "rs_run_id (load q) = rid" using o by (simp add: run_open_def)
  have split: "wp (pause_flow D X U F rep st j i cs) Q anything s =
    wp (eseq (flow_announce D X F RunPaused []) (flow_update D X Paused (rep_content rep) PNone (Some q))) (\<lambda>_. Q rep) anything s" for Q
    using Inr by (simp add: pause_flow_def)
  show ?thesis
    unfolding split
    by (rule announce_update[OF o]) (use rep readable rid in \<open>auto simp: end_event_def flow_recorded_def\<close>)
qed
qed

end

end
