(* ===== verification/Flow_Outcome.thy ===== *)
theory Flow_Outcome
  imports Flow_Runs
begin

text \<open>
  Where a run of a flow returns, started or resumed, what it leaves behind is recorded: in the
  context of \<open>flow_runs\<close>, from the results of one step up to whole runs.
\<close>

lemma normalized_in_flow [simp]:
  "output_in_flow g (case as_result out of (r, st, cs) \<Rightarrow> StepResult r st cs) = output_in_flow g out"
  by (cases out) simp_all

context flow_runs
begin

section \<open>Results of steps\<close>

text \<open>After some results: the run goes on, or has ended with a report.\<close>

definition flow_goes_on ::
  "string \<Rightarrow> flow \<Rightarrow> 'st \<Rightarrow> report option \<Rightarrow> ('st, 'm, 'u) desk_world_scheme flow_state \<Rightarrow> bool" where
  "flow_goes_on rid F before r s =
     (case r of None \<Rightarrow> flow_ready rid F before s | Some rep \<Rightarrow> flow_recorded rid F before rep s)"

lemma flow_goes_on_simps [simp]:
  "flow_goes_on rid F before None s = flow_ready rid F before s"
  "flow_goes_on rid F before (Some rep) s = flow_recorded rid F before rep s"
  by (simp_all add: flow_goes_on_def)

lemma step_results_record:
  assumes F: "graph_ok (fl_steps F)" "i < length (fl_steps F)" "\<forall>c\<in>set rest. in_flow (fl_steps F) c"
  shows "outs_in_flow (fl_steps F) outs \<Longrightarrow> flow_ready rid F before s \<Longrightarrow>
    wp (step_results D X U F j i rest outs) (flow_goes_on rid F before) anything s"
proof (induction outs arbitrary: s)
  case (Cons out outs)
  obtain r st own where r: "as_result out = (r, st, own)" by (cases "as_result out") auto
  have own: "\<forall>c\<in>set own. in_flow (fl_steps F) c" using result_in_flow[OF r] Cons.prems(1) by simp
  have tail: "in_flow (fl_steps F) (OutputContinuation (map (\<lambda>out. case as_result out of (r, st, cs) \<Rightarrow> StepResult r st cs) outs))"
    using Cons.prems(1) by (simp add: normalized_in_flow)
  have all: "\<forall>c\<in>set (own @ (if outs \<noteq> [] then [OutputContinuation (map (\<lambda>out. case as_result out of (r, st, cs) \<Rightarrow>
      StepResult r st cs) outs)] else []) @ rest). in_flow (fl_steps F) c"
    using own tail F(3) by auto
  from Cons.prems(2) have opn: "run_open rid F before s" by (simp add: flow_ready_def)
  show ?case
  proof (cases "rep_status (snd r) = Paused")
    case True
    note paused = pause_flow_records[OF Cons.prems(2) F(1,2) all True]
    show ?thesis
      using True r paused missing_state_records[OF opn] by (cases "outs = []") (simp_all split: option.split)
  next
    case False
    show ?thesis
    proof (cases "rep_status (snd r) = Failed")
      case True
      then show ?thesis using False r failed_recorded[OF opn, of "snd r"] by simp
    next
      case ok: False
    have kept: "flow_ready rid F before (s\<lparr>fs_reports := fs_reports s @ [r], fs_context := add_output r (fs_context s)\<rparr>)"
      using Cons.prems(2) ok False by (simp add: flow_ready_def run_open_def loops_ok_steps reports_ok_def ended_well_def ball_Un)
    have go_on: "wp (step_results D X U F j i rest outs) (flow_goes_on rid F before) anything
        (s\<lparr>fs_reports := fs_reports s @ [r], fs_context := add_output r (fs_context s)\<rparr>)"
      by (rule Cons.IH[OF _ kept]) (use Cons.prems(1) in simp)
      show ?thesis using False ok r go_on by simp
    qed
  qed
qed simp

section \<open>The steps of a flow\<close>

lemma node_goes_on:
  assumes "n \<in> nodes_of g" "flow_ready rid F before s"
  shows "wp (execute D X U n) (\<lambda>outs s'. outs_in_flow g outs \<and> flow_ready rid F before s') anything s"
  by (rule wp_mono[OF wp_conj[OF returnsD[OF execute_in_flow[OF assms(1)]] moving_wp[OF execute_moves]]])
    (use ready_moved[OF assms(2)] in auto)

lemma continuation_goes_on:
  assumes "in_flow g c" "flow_ready rid F before s"
  shows "wp (run_continuation D X U c) (\<lambda>outs s'. outs_in_flow g outs \<and> flow_ready rid F before s') anything s"
  by (rule wp_mono[OF wp_conj[OF returnsD[OF continuation_in_flow[OF assms(1)]] moving_wp[OF continuation_moves]]])
    (use ready_moved[OF assms(2)] in auto)

lemma run_steps_record:
  assumes F: "graph_ok (fl_steps F)"
  shows "set ns \<subseteq> nodes_of (fl_steps F) \<Longrightarrow> i + length ns \<le> length (fl_steps F) \<Longrightarrow> flow_ready rid F before s \<Longrightarrow>
    wp (run_steps D X U F j ns i) (flow_goes_on rid F before) anything s"
proof (induction ns arbitrary: i s)
  case (Cons n ns)
  have rest: "wp (case r of Some rep \<Rightarrow> ret (Some rep) | None \<Rightarrow> run_steps D X U F j ns (i + 1))
      (flow_goes_on rid F before) anything s'" if "flow_goes_on rid F before r s'" for r s'
    using that Cons by (cases r) simp_all
  have results: "wp (step_results D X U F j i [] outs) (\<lambda>r. wp (case r of Some rep \<Rightarrow> ret (Some rep)
      | None \<Rightarrow> run_steps D X U F j ns (i + 1)) (flow_goes_on rid F before) anything) anything s'"
    if "outs_in_flow (fl_steps F) outs \<and> flow_ready rid F before s'" for outs s'
    by (rule wp_mono[OF step_results_record[OF F]]) (use that Cons.prems rest in auto)
  show ?case
    unfolding run_steps.simps wp_ebind
    by (rule wp_mono[OF node_goes_on[of n "fl_steps F"]]) (use Cons.prems results in auto)
qed simp

lemma run_continuations_record:
  assumes F: "graph_ok (fl_steps F)" "i < length (fl_steps F)"
  shows "\<forall>c\<in>set cs. in_flow (fl_steps F) c \<Longrightarrow> flow_ready rid F before s \<Longrightarrow>
    wp (run_continuations D X U F j i cs) (flow_goes_on rid F before) anything s"
proof (induction cs arbitrary: s)
  case (Cons c cs)
  have rest: "wp (case r of Some rep \<Rightarrow> ret (Some rep) | None \<Rightarrow> run_continuations D X U F j i cs)
      (flow_goes_on rid F before) anything s'" if "flow_goes_on rid F before r s'" for r s'
    using that Cons by (cases r) simp_all
  have results: "wp (step_results D X U F j i cs outs) (\<lambda>r. wp (case r of Some rep \<Rightarrow> ret (Some rep)
      | None \<Rightarrow> run_continuations D X U F j i cs) (flow_goes_on rid F before) anything) anything s'"
    if "outs_in_flow (fl_steps F) outs \<and> flow_ready rid F before s'" for outs s'
    by (rule wp_mono[OF step_results_record[OF F]]) (use that Cons.prems rest in auto)
  show ?case
    unfolding run_continuations.simps wp_ebind
    by (rule wp_mono[OF continuation_goes_on[of "fl_steps F" c]]) (use Cons.prems results in auto)
qed simp

text \<open>The report of a finished flow is a completed one, or that of its only step.\<close>

lemma finalize_flow_records:
  assumes "flow_ready rid F before s"
  shows "wp (finalize_flow_run D X F) (flow_recorded rid F before) anything s"
proof -
  have "ended_well (combine_reports reports s)" for reports
    by (simp add: ended_well_def combine_reports_def with_run_metrics_def build_report_def)
  moreover have "ended_well (snd (hd (fs_reports s)))" if "fs_reports s \<noteq> []"
    using assms that by (simp add: flow_ready_def reports_ok_def)
  ultimately show ?thesis
    using assms by (auto simp: flow_ready_def finalize_flow_run_def build_report_def
        intro!: completed_recorded empty_failed)
qed

lemma finish_flow_records:
  assumes "graph_ok (fl_steps F)" "set ns \<subseteq> nodes_of (fl_steps F)" "i + length ns \<le> length (fl_steps F)"
    and "flow_ready rid F before s"
  shows "wp (finish_flow D X U F j ns i) (flow_recorded rid F before) anything s"
  unfolding finish_flow_def wp_ebind
  by (rule wp_mono[OF run_steps_record[OF assms]])
    (auto simp: flow_goes_on_def finalize_flow_records split: option.splits)

section \<open>Whole runs\<close>

lemma announce_keeps:
  assumes "run_open rid F before s"
  shows "wp (flow_announce D X F ty payload) (\<lambda>_ s'. run_open rid F before s' \<and>
    fs_stream s' = fs_stream s \<and> fs_context s' = fs_context s \<and> fs_reports s' = fs_reports s) anything s"
proof -
  have m: "flow_moves (flow_announce D X F ty payload)"
    by (auto simp: flow_announce_def intro!: moves)
  have "wp (flow_announce D X F ty payload) (\<lambda>_ s'. fs_stream s' = fs_stream s \<and>
      fs_context s' = fs_context s \<and> fs_reports s' = fs_reports s) anything s"
    by (simp add: flow_announce_def)
  from wp_conj[OF moving_wp[OF m] this] show ?thesis
    by (rule wp_mono) (use open_moved[OF assms] in auto)
qed

lemma new_id_store: "x_new_id X w = (a, w') \<Longrightarrow> dw_store w' = dw_store w"
  using world_moves.new_id[OF force_moves.axioms(1)[OF externals], of w] by (simp add: same_store_def)

theorem flow_arun_records:
  assumes inv: "inv (stored (fs_desk s))" and F: "graph_ok (fl_steps F)"
  shows "wp (flow_arun D X U F j) (\<lambda>rep s'. \<exists>rid. view (stored (fs_desk s)) rid = None \<and>
    flow_recorded rid F (stored (fs_desk s)) rep s') anything s"
proof -
  let ?b = "stored (fs_desk s)"
  define fin where "fin = (\<lambda>rep s'. \<exists>rid. view ?b rid = None \<and> flow_recorded rid F ?b rep s')"
  define clear where "clear = (\<lambda>s :: ('st, 'm, 'u) desk_world_scheme flow_state. s\<lparr>fs_context := new_context j [], fs_reports := []\<rparr>)"
  define begun where "begun = (\<lambda>rid s2. view ?b rid = None \<and> run_open rid F ?b s2)"
  have heads: "set (fl_steps F) \<subseteq> nodes_of (fl_steps F)" unfolding nodes_of_def by (rule entries_heads)
  have tail: "wp (finish_flow D X U F j (fl_steps F) 0) fin anything (clear s3)" if "begun rid s3" for rid s3
  proof -
    have "flow_ready rid F ?b (clear s3)"
      using that by (simp add: flow_ready_def run_open_def begun_def clear_def loops_ok_def new_context_def reports_ok_def)
    from finish_flow_records[OF F heads _ this] show ?thesis
      by (rule wp_mono) (use that in \<open>auto simp: begun_def fin_def\<close>)
  qed
  have start: "wp (flow_announce D X F RunStarted pl) (\<lambda>_ s3. wp (finish_flow D X U F j (fl_steps F) 0) fin anything (clear s3))
      anything s2" if "begun rid s2" for rid s2 pl
    by (rule wp_mono[OF announce_keeps]) (use that tail in \<open>auto simp: begun_def\<close>)
  have created: "wp (create_run D X rid dump) (\<lambda>_ d. wp (flow_announce D X F RunStarted pl)
      (\<lambda>_ s3. wp (finish_flow D X U F j (fl_steps F) 0) fin anything (clear s3)) anything
      (s\<lparr>fs_run_id := rid, fs_stream := b, fs_desk := register_flow_run rid (fl_key F) d\<rparr>)) anything d0"
    if s1: "stored d0 = ?b" for rid dump pl b d0
    by (rule wp_mono[OF create_records])
      (use inv s1 in \<open>auto intro!: start simp: begun_def run_open_def register_flow_run_def\<close>)
  have "wp (flow_arun D X U F j) fin anything s"
    unfolding flow_arun_def
    by (auto simp: ensure_open_def flow_start_def clear_def[symmetric] new_id_store intro!: created split: sum.split)
  then show ?thesis by (simp add: fin_def)
qed

section \<open>Resumption\<close>

lemma resumed_step_records:
  assumes F: "graph_ok (fl_steps F)" "i < length (fl_steps F)" "\<forall>c\<in>set cs. in_flow (fl_steps F) c"
    and s: "flow_ready rid F before s"
  shows "wp (resumed_step D X U F j i cs out) (flow_recorded rid F before) anything s"
proof -
  obtain rep st where out: "out = (rep, st)" by fastforce
  from s have o: "run_open rid F before s" by (simp add: flow_ready_def)
  show ?thesis
  proof (cases "ended_well rep")
    case False
    then show ?thesis
      using missing_state_records[OF o] pause_flow_records[OF s F] failed_recorded[OF o, of rep]
      by (auto simp: resumed_step_def out ended_well_def split: option.split)
  next
    case True
    let ?s = "s\<lparr>fs_next := fs_next s + 1, fs_reports := fs_reports s @ [(fs_next s, rep)],
      fs_context := add_output (fs_next s, rep) (fs_context s)\<rparr>"
    have ready: "flow_ready rid F before ?s"
      using s True by (simp add: flow_ready_def run_open_def reports_ok_def loops_ok_steps ball_Un)
    have heads: "set (drop (Suc i) (fl_steps F)) \<subseteq> nodes_of (fl_steps F)"
      unfolding nodes_of_def by (rule subset_trans[OF set_drop_subset entries_heads])
    have finish: "wp (finish_flow D X U F j (drop (Suc i) (fl_steps F)) (Suc i)) (flow_recorded rid F before) anything s'"
      if "flow_ready rid F before s'" for s'
      by (rule finish_flow_records[OF F(1) heads _ that]) (use F(2) in simp)
    have "wp (run_continuations D X U F j i cs) (\<lambda>r. wp (case r of Some rep \<Rightarrow> ret rep
        | None \<Rightarrow> finish_flow D X U F j (drop (Suc i) (fl_steps F)) (Suc i)) (flow_recorded rid F before) anything) anything ?s"
      by (rule wp_mono[OF run_continuations_record[OF F ready]])
        (use finish in \<open>auto simp: flow_goes_on_def split: option.splits\<close>)
    moreover have "wp (fresh_report rep) Q anything s = Q (fs_next s, rep) (s\<lparr>fs_next := fs_next s + 1\<rparr>)" for Q
      by (simp add: wp_def fresh_report_def)
    ultimately show ?thesis
      using True by (simp add: resumed_step_def out ended_well_def Suc_eq_plus1[symmetric] del: Suc_eq_plus1)
  qed
qed

text \<open>A readable state is not refused: its runner is resumed.\<close>

lemma readable_resumed:
  assumes q: "flow_readable (x_text X) (x_resolves X) (fe_digest U) F q"
    and Q: "\<And>i snap events. i < length (fl_steps F) \<Longrightarrow>
      read_flow_state (x_text X) (x_resolves X) F q (fs_next s) = Inr snap \<Longrightarrow>
      wp (resume_flow D X U F q d stream i snap) Q anything
        (s\<lparr>fs_run_id := rs_run_id q, fs_desk := (fs_desk s)\<lparr>rt_events := events\<rparr>\<rparr>)"
  shows "wp (resume_state D X U F q d stream) Q anything s"
proof -
  from q obtain i st where i: "dict_get (rs_payload q) ''step_index'' = Some (PlVal (PInt (int i)))"
    "i < length (fl_steps F)" "dict_get (rs_payload q) ''step_state'' = Some (PlState st)"
    by (auto simp: flow_readable_def)
  have sig: "dict_get (rs_payload q) ''flow_signature'' = Some (PlVal (PStr (signature (fe_digest U) (fl_steps F))))"
    "dict_get (rs_payload q) ''continuations'' \<noteq> None"
    using q by (simp_all add: flow_readable_def)
  have "\<exists>snap. read_flow_state (x_text X) (x_resolves X) F q (fs_next s) = Inr snap"
    using q unfolding flow_readable_def by blast
  then obtain snap where "read_flow_state (x_text X) (x_resolves X) F q (fs_next s) = Inr snap" by blast
  with Q[OF i(2) this] show ?thesis
    using i sig by (auto simp: resume_state_def Let_def split: sum.split)
qed

lemma resume_flow_records:
  assumes F: "graph_ok (fl_steps F)" "i < length (fl_steps F)"
    and q: "flow_readable (x_text X) (x_resolves X) (fe_digest U) F q"
    and snap: "read_flow_state (x_text X) (x_resolves X) F q k = Inr snap"
    and s: "others_kept rid before (stored (fs_desk s))" "view (stored (fs_desk s)) rid \<noteq> None"
      "fs_run_id s = rid" "rs_run_id q = rid"
  shows "wp (resume_flow D X U F q d stream i snap) (flow_recorded rid F before) anything s"
proof -
  obtain reports c cs st k' where sn: "snap = (reports, c, cs, st, k')" by (cases snap) auto
  have outs: "list_all ended_well rs" if "dict_get (rs_payload q) ''outputs'' = Some (PlReports rs)" for rs
    using q that by (simp add: flow_readable_def)
  note ok = read_state_ok[OF snap[unfolded sn] outs]
  have runner: "wp (flow_resume_runner D X st' d) (\<lambda>out. wp (resumed_step D X U F j i cs out) (flow_recorded rid F before) anything)
      anything s1" if "flow_ready rid F before s1" for st' s1 j
    by (rule wp_mono[OF moving_wp[OF resume_runner_keeps]])
      (use ready_moved[OF that] in \<open>auto intro!: resumed_step_records F ok(2)\<close>)
  have start: "wp (flow_announce D X F ty pl) (\<lambda>_ s2. wp (flow_resume_runner D X st' d)
      (\<lambda>out. wp (resumed_step D X U F j i cs out) (flow_recorded rid F before) anything) anything (s2\<lparr>fs_stream := b\<rparr>))
      anything s1" if "run_open rid F before s1" "fs_reports s1 = reports" "fs_context s1 = c" for s1 ty pl b st' j
    by (rule wp_mono[OF announce_keeps[OF that(1)]])
      (use that ok in \<open>auto intro!: runner simp: flow_ready_def run_open_def reports_ok_def\<close>)
  have "run_open rid F before (s\<lparr>fs_reports := reports, fs_context := c, fs_next := k',
      fs_desk := register_flow_run rid (fl_key F) ((fs_desk s)\<lparr>rt_totals := t\<rparr>)\<rparr>)" for t
    using s by (simp add: run_open_def register_flow_run_def)
  from start[OF this] show ?thesis
    using s(4) by (simp add: resume_flow_def sn Let_def)
qed

theorem flow_aresume_records:
  assumes s: "inv (stored (fs_desk s))" "view (stored (fs_desk s)) (rep_run_id rep) = Some rc"
      "rc_state rc = Some q" "rs_run_id q = rep_run_id rep"
    and F: "graph_ok (fl_steps F)" and q: "flow_readable (x_text X) (x_resolves X) (fe_digest U) F q"
  shows "wp (flow_aresume D X U F rep d stream) (flow_recorded (rep_run_id rep) F (stored (fs_desk s))) anything s"
proof -
  have "rs_runner_type q = ''flow''" using q by (simp add: flow_readable_def)
  moreover have "wp (resume_state D X U F q d stream) (flow_recorded (rep_run_id rep) F (stored (fs_desk s))) anything s"
    by (rule readable_resumed[OF q], rule resume_flow_records[OF F _ q])
      (use s in \<open>auto simp: others_kept_def\<close>)
  ultimately show ?thesis
    using s by (auto simp: flow_aresume_def ensure_open_def store get split: sum.split)
qed

text \<open>The desk resumes a flow it has registered.\<close>

theorem desk_aresume_flow_records:
  assumes s: "inv (stored s)" "view (stored s) (rep_run_id rep) = Some rc"
      "rc_state rc = Some q" "rs_run_id q = rep_run_id rep"
      "dict_get (dk_flows s) (rep_run_id rep) = Some (fl_key F)" "flows (fl_key F) = F"
    and F: "graph_ok (fl_steps F)" and q: "flow_readable (x_text X) (x_resolves X) (fe_digest U) F q"
  shows "wp (desk_aresume D X (flow_as_resumable D X U flows j) rep d stream)
    (\<lambda>rep' s'. \<exists>fs. s' = fs_desk fs \<and> flow_recorded (rep_run_id rep) F (stored s) rep' fs) anything s"
proof -
  have run: "wp (flow_as_resumable D X U flows j (fl_key F) rep d stream)
    (\<lambda>rep' s'. \<exists>fs. s' = fs_desk fs \<and> flow_recorded (rep_run_id rep) F (stored s) rep' fs) anything s1"
    if "stored s1 = stored s" for s1
  proof -
    let ?fs = "\<lparr>fs_desk = s1, fs_context = new_context j [], fs_reports = [], fs_stream = False, fs_run_id = [], fs_next = 0\<rparr>"
    have "wp (flow_aresume D X U F rep d stream) (flow_recorded (rep_run_id rep) F (stored (fs_desk ?fs))) anything ?fs"
      by (rule flow_aresume_records[OF _ _ s(3,4) F q]) (use s that in simp_all)
    then show ?thesis
      using that s(6) unfolding wp_def flow_as_resumable_def by (auto split: prod.split sum.split prod.splits sum.splits)
  qed
  have "rs_runner_type q = ''flow''" using q by (simp add: flow_readable_def)
  then show ?thesis
    unfolding desk_aresume_def
    using s by (auto simp: ensure_open_def store get Let_def restore_override_frame intro!: run split: sum.split)
qed

end

end
