(* ===== verification/Flow_Scenario.thy ===== *)
theory Flow_Scenario
  imports Flow_Outcome Desk_Properties
begin

text \<open>
  A concrete flow on the desk of \<^verbatim>\<open>Desk_Scenario\<close> with SQLite: a loop of at most two rounds around
  one step of the scripted worker, whose guarded tool call pauses the flow in its first round.
\<close>

definition demo_calls :: "'w flow_calls" where
  "demo_calls = \<lparr>fe_builder = (\<lambda>b. raise (ValueError ''no job'')), fe_test = (\<lambda>t. ret False), fe_select = (\<lambda>t. ret []),
     fe_digest = (\<lambda>v. ''digest''), fe_rounds = 3\<rparr>"

definition demo_step :: node where
  "demo_step = Step \<lparr>sh_id = 1, sh_name = ''w'', sh_runner = RWorker demo_member, sh_builder = None\<rparr>"

definition demo_loop :: node where
  "demo_loop = Loop \<lparr>lh_id = 0, lh_async = False, lh_stop = 0, lh_max = 2, lh_explicit = True, lh_name = ''l''\<rparr> [demo_step]"

definition demo_flow :: flow where
  "demo_flow = make_flow [demo_loop] None 7"

definition over_desk :: "'w desk_state \<Rightarrow> 'w flow_state" where
  "over_desk s = \<lparr>fs_desk = s, fs_context = new_context demo_job [], fs_reports = [], fs_stream = False,
     fs_run_id = [], fs_next = 0\<rparr>"

lemma demo_flow_steps [simp]: "fl_steps demo_flow = [demo_loop]" "fl_key demo_flow = 7" "fl_name demo_flow = ''flow''"
  by (simp_all add: demo_flow_def make_flow_def)

lemma demo_graph: "graph_ok [demo_loop]"
  by (simp add: graph_ok_def demo_loop_def demo_step_def executable_entries.simps Let_def)

lemma demo_calls_simps [simp]:
  "fe_builder demo_calls = (\<lambda>b. raise (ValueError ''no job''))" "fe_test demo_calls = (\<lambda>t. ret False)"
  "fe_select demo_calls = (\<lambda>t. ret [])" "fe_digest demo_calls = (\<lambda>v. ''digest'')" "fe_rounds demo_calls = 3"
  by (simp_all add: demo_calls_def)

lemmas flow_defs = flow_arun_def flow_start_def flow_announce_def flow_update_def finish_flow_def on_desk_def
  on_user_def on_context_def execute_step_def execute_sequence_def flow_emit_def flow_run_runner_def flow_config_def
  fresh_report_def pause_flow_def build_flow_state_def snapshot_def serialize_continuations_def
  path_for_def register_flow_run_def set_loop_iteration_def increment_loop_iteration_def
  loop_iteration_def new_context_def publish_outputs_def should_stop_def some_paused_def defer_after_pause_def
  demo_loop_def demo_step_def over_desk_def signature_def executable_entries.simps

lemma demo_flow_pauses:
  "\<exists>rep s'. flow_arun sql_desk demo_externals demo_calls demo_flow demo_job
       (over_desk (sql_start [ask_for [demo_call ''c2'' ''guarded''], say ''done''])) = (Inr rep, s')
     \<and> rep_status rep = Paused \<and> fs_run_id s' = ''id0''"
  by (simp add: flow_defs desk_defs scenario_defs dict_get_or_def validate_execution_limits_def sql_start_def sql_empty_def
      sql_create_run_def sql_add_event_def sql_update_run_def sql_serialize_def char_of_eq_iff
      tool_call_summaries_def content_value_def numeral_3_eq_3 numeral_2_eq_2
      model_name_def del: One_nat_def cong: run_weak_cong)

text \<open>Two loops one inside the other, of different names and with nothing to do.\<close>

definition demo_rounds :: node where
  "demo_rounds = Loop \<lparr>lh_id = 0, lh_async = False, lh_stop = 0, lh_max = 2, lh_explicit = True, lh_name = ''l''\<rparr>
     [Loop \<lparr>lh_id = 1, lh_async = False, lh_stop = 0, lh_max = 1, lh_explicit = True, lh_name = ''m''\<rparr>
        [Router \<lparr>rh_id = 2, rh_selector = 0\<rparr> []]]"

end
