(* ===== verification/Loop_Laws.thy ===== *)
theory Loop_Laws
  imports Node_Moves
begin

text \<open>
  Loops end: each round of a \<open>Loop\<close> counts the loop's counter up, and stops at \<open>max_iterations\<close> at
  the latest, where no loop inside it has the same name and the user's callables leave the counters
  alone.  The fuel of \<open>run_iterations\<close> is then no matter; with the same name inside it never ends.
\<close>

section \<open>Names of loops\<close>

definition loop_names :: "node list \<Rightarrow> string set" where
  "loop_names ns = lh_name ` set (concat (map loop_heads ns))"

text \<open>No loop is inside one of its name, and each has fewer rounds than there is fuel.\<close>

fun loops_bounded :: "nat \<Rightarrow> node \<Rightarrow> bool" where
  "loops_bounded k (Step h) = True"
| "loops_bounded k (Parallel i ns) = (\<forall>n\<in>set ns. loops_bounded k n)"
| "loops_bounded k (Condition h ts fs) = ((\<forall>n\<in>set ts. loops_bounded k n) \<and> (\<forall>n\<in>set fs. loops_bounded k n))"
| "loops_bounded k (Router h routes) = (\<forall>r\<in>set routes. \<forall>n\<in>set (snd r). loops_bounded k n)"
| "loops_bounded k (Loop h ns) =
     (nat (lh_max h) < k \<and> lh_name h \<notin> loop_names ns \<and> (\<forall>n\<in>set ns. loops_bounded k n))"

section \<open>Counters\<close>

definition same_count :: "string \<Rightarrow> 'w flow_state \<Rightarrow> 'w flow_state \<Rightarrow> bool" where
  "same_count name s s' \<longleftrightarrow> loop_iteration name (fs_context s') = loop_iteration name (fs_context s)"

definition same_loops :: "workflow_context \<times> 'w \<Rightarrow> workflow_context \<times> 'w \<Rightarrow> bool" where
  "same_loops = (\<lambda>(c, w) (c', w'). wx_loops c' = wx_loops c)"

definition keeps_counters :: "'w flow_calls \<Rightarrow> bool" where
  "keeps_counters U \<longleftrightarrow> (\<forall>b. moving same_loops (fe_builder U b)) \<and>
     (\<forall>t. moving same_loops (fe_test U t)) \<and> (\<forall>t. moving same_loops (fe_select U t))"

lemma pre_same_count [simp]: "pre (same_count name)"
  by (simp add: pre_def same_count_def)

lemma pre_same_loops [simp]: "pre same_loops"
  by (auto simp: pre_def same_loops_def)

lemma iteration_set [simp]:
  "loop_iteration name (set_loop_iteration name' i c) = (if name = name' then i else loop_iteration name c)"
  "loop_iteration name (increment_loop_iteration name' c) = loop_iteration name c + (if name = name' then 1 else 0)"
  by (simp_all add: loop_iteration_def set_loop_iteration_def increment_loop_iteration_def dict_get_or_def)

lemma iteration_output [simp]: "loop_iteration name (add_output r c) = loop_iteration name c"
  by (simp add: loop_iteration_def add_output_def)

lemma iteration_publish [simp]: "loop_iteration name (publish_outputs outs c) = loop_iteration name c"
proof (induction outs arbitrary: c)
  case (Cons out outs)
  then show ?case by (simp add: publish_outputs_def)
qed (simp add: publish_outputs_def)

lemma count_moves [moves]:
  "moving (same_count name) (on_desk m)"
  "(\<And>c. loop_iteration name (f c) = loop_iteration name c) \<Longrightarrow> moving (same_count name) (on_context f)"
  "moving (same_count name) (fresh_report rep)"
  by (simp_all add: moving_def on_desk_def on_context_def modify_def fresh_report_def same_count_def split: prod.split)

lemma user_count:
  fixes u :: "('w, 'a) user_call"
  assumes "moving same_loops u" shows "moving (same_count name) (on_user u)"
proof (unfold moving_def, rule allI)
  fix s :: "'w flow_state"
  obtain r c w where r: "u (fs_context s, rt_world (fs_desk s)) = (r, c, w)"
    by (cases "u (fs_context s, rt_world (fs_desk s))") auto
  from movingD[OF assms r] show "same_count name s (snd (on_user u s))"
    by (simp add: on_user_def r same_count_def loop_iteration_def same_loops_def)
qed

lemma user_counts [moves]:
  assumes "keeps_counters U"
  shows "moving (same_count name) (on_user (fe_builder U b))" "moving (same_count name) (on_user (fe_test U t))"
    "moving (same_count name) (on_user (fe_select U t))"
  using assms by (simp_all add: keeps_counters_def user_count)

lemma step_counts [moves]: "keeps_counters U \<Longrightarrow> moving (same_count name) (execute_step D X U h)"
  by (auto simp: execute_step_def flow_run_runner_def flow_config_def flow_emit_def intro!: moves
      split: option.split prod.split)

lemma counter_nodes: "keeps_counters U \<Longrightarrow> node_moves (same_count name) D X U (\<lambda>h. lh_name h \<noteq> name)"
  by unfold_locales (auto intro!: moves)

lemma executes_counted:
  assumes "keeps_counters U" "name \<notin> loop_names ns" "n \<in> set ns"
  shows "moving (same_count name) (execute D X U n)"
  using assms(2,3) by (intro node_moves.execute_moves[OF counter_nodes[OF assms(1)]]) (auto simp: loop_names_def)

section \<open>Enough fuel\<close>

lemma run_gets: "ebind (gets f) g s = g (f s) s"
  by (simp add: ebind_def gets_def)

lemma run_on_context: "ebind (on_context f) g s = g () (s\<lparr>fs_context := f (fs_context s)\<rparr>)"
  by (simp add: ebind_def on_context_def modify_def)

text \<open>Effects that do not run out of fuel.\<close>

definition ends_at :: "('s, 'a) eff \<Rightarrow> 's \<Rightarrow> bool" where
  "ends_at m s \<longleftrightarrow> fst (m s) \<noteq> Inl out_of_fuel"

definition ends :: "('s, 'a) eff \<Rightarrow> bool" where
  "ends m \<longleftrightarrow> (\<forall>s. ends_at m s)"

lemma ends_at_bind:
  "ends_at m s \<Longrightarrow> (\<And>a s'. m s = (Inr a, s') \<Longrightarrow> ends_at (f a) s') \<Longrightarrow> ends_at (ebind m f) s"
  by (auto simp: ends_at_def ebind_def split: prod.splits sum.splits)

lemma ends_basic [simp]: "ends_at (ret a) s" "ends_at (gets f) s" "ends_at (on_context g) s'"
  by (simp_all add: ends_at_def ret_def gets_def on_context_def modify_def)

lemma ends_bind: "ends m \<Longrightarrow> (\<And>a. ends (f a)) \<Longrightarrow> ends (ebind m f)"
  by (simp add: ends_def ends_at_bind)

lemma ends_seq: "ends m \<Longrightarrow> ends k \<Longrightarrow> ends (eseq m k)"
  unfolding eseq_def by (rule ends_bind)

lemma ends_if: "(b \<Longrightarrow> ends m) \<Longrightarrow> (\<not> b \<Longrightarrow> ends k) \<Longrightarrow> ends (if b then m else k)"
  by simp

lemma ends_ret: "ends (ret a)" and ends_context: "ends (on_context g)" and ends_user: "ends u \<Longrightarrow> ends (on_user u)"
  by (auto simp: ends_def ends_at_def on_user_def on_context_def modify_def ret_def split: prod.split)
    (metis fst_conv)

lemmas ends_rules = ends_bind ends_seq ends_if ends_ret ends_context ends_user

lemma ends_sequence: "\<forall>nm\<in>set steps. ends (snd nm) \<Longrightarrow> ends (sequence_from steps outs)"
  by (induction steps outs rule: sequence_from.induct) (auto intro!: ends_rules)

lemma ends_round: "\<forall>nm\<in>set steps. ends (snd nm) \<Longrightarrow> ends (loop_round lp steps i outs)"
  by (induction lp steps i outs rule: loop_round.induct) (auto intro!: ends_rules)

lemma ends_gather:
  assumes "\<forall>m\<in>set tasks. ends m" shows "ends (gather_steps X tasks)"
proof -
  have tasks: "run_tasks (\<lambda>i. attempt (tasks ! i)) order s = (r, s') \<Longrightarrow> \<forall>i\<in>set order. i < length tasks \<Longrightarrow>
      \<exists>rs. r = Inr rs \<and> (\<forall>(i, q)\<in>set rs. q \<noteq> Inl out_of_fuel)" for order s r s'
  proof (induction order arbitrary: s r s')
    case (Cons i order)
    obtain q s1 where q: "(tasks ! i) s = (q, s1)" by fastforce
    have "ends (tasks ! i)" using assms Cons.prems(2) by simp
    with q have "q \<noteq> Inl out_of_fuel" by (auto simp: ends_def ends_at_def) (metis fst_conv)
    moreover obtain r1 s2 where r1: "run_tasks (\<lambda>i. attempt (tasks ! i)) order s1 = (r1, s2)" by fastforce
    moreover from Cons.IH[OF r1] Cons.prems(2) obtain rs where "r1 = Inr rs" "\<forall>(i, q)\<in>set rs. q \<noteq> Inl out_of_fuel" by auto
    moreover have "attempt (tasks ! i) s = (Inr q, s1)" by (simp add: attempt_def q)
    ultimately show ?case using Cons.prems(1) by (auto simp: ebind_def ret_def)
  qed (auto simp: ret_def)
  have "ends_at (gather_steps X tasks) s" for s
  proof -
    let ?order = "schedule X (rt_world (fs_desk s)) (length tasks)"
    obtain r s1 where r: "run_tasks (\<lambda>i. attempt (tasks ! i)) ?order s = (r, s1)" by fastforce
    have "\<forall>i\<in>set ?order. i < length tasks" using schedule_perm(2)[of X _ "length tasks"] by auto
    from tasks[OF r this] obtain rs where rs: "r = Inr rs" "\<forall>(i, q)\<in>set rs. q \<noteq> Inl out_of_fuel" by blast
    have bad: "e \<noteq> out_of_fuel" if "find (\<lambda>(i, r). isl r) rs = Some (i, Inl e)" for i e
    proof -
      from that have "(i, Inl e) \<in> set rs" by (auto simp: find_Some_iff) (metis nth_mem)
      with rs(2) show ?thesis by auto
    qed
    have "gather_steps X tasks s = (case find (\<lambda>(i, r). isl r) rs of Some (i, Inl e) \<Rightarrow> raise e
        | _ \<Rightarrow> ret (map (\<lambda>i. projr (the (map_of rs i))) [0..<length tasks])) s1"
      by (simp add: gather_steps_def run_gets ebind_def[of "run_tasks _ _"] r rs(1))
    then show ?thesis
      using bad by (cases "find (\<lambda>(i, r). isl r) rs") (auto simp: ends_at_def raise_def ret_def split: sum.splits)
  qed
  then show ?thesis by (simp add: ends_def)
qed

lemma ends_iterations:
  assumes u: "keeps_counters U" and steps: "\<forall>nm\<in>set steps. moving (same_count (lh_name h)) (snd nm) \<and> ends (snd nm)"
    and test: "\<And>t. ends (fe_test U t)"
  shows "nat (lh_max h - loop_iteration (lh_name h) (fs_context s)) + (if b then 1 else 0) < k \<Longrightarrow>
    ends_at (run_iterations k U h lp steps outs i b) s"
proof (induction k arbitrary: s outs i b)
  case (Suc k)
  let ?n = "\<lambda>s. loop_iteration (lh_name h) (fs_context s)"
  let ?next = "\<lambda>r. case r of Inl final \<Rightarrow> ret final
      | Inr outs' \<Rightarrow> ebind (on_user (fe_test U (lh_stop h))) (\<lambda>stop. if stop then ret outs' else run_iterations k U h lp steps outs' 0 False)"
  let ?round = "loop_round lp (drop (nat i) steps) i outs"
  have drop: "\<forall>nm\<in>set (drop (nat i) steps). moving (same_count (lh_name h)) (snd nm) \<and> ends (snd nm)"
    using steps by (auto dest: in_set_dropD)
  have round: "moving (same_count (lh_name h)) ?round"
    by (rule node_moves.round_moves[OF counter_nodes[OF u]]) (use drop in auto)
  have next_round: "ends_at (?next r) s2" if "nat (lh_max h - ?n s2) < k" for r s2
  proof -
    have "ends_at (on_user (fe_test U (lh_stop h))) s2" using ends_user[OF test] by (simp add: ends_def)
    moreover have "ends_at (run_iterations k U h lp steps outs' 0 False) s3"
      if "on_user (fe_test U (lh_stop h)) s2 = (Inr stop, s3)" for stop outs' s3
      using movingD[OF user_counts(2)[OF u] that, of "lh_name h"] \<open>nat (lh_max h - ?n s2) < k\<close>
      by (intro Suc.IH) (simp add: same_count_def)
    ultimately show ?thesis by (auto intro!: ends_at_bind split: sum.split)
  qed
  have rounds: "ends_at (ebind ?round ?next) s1" if "nat (lh_max h - ?n s1) < k" for s1
  proof (rule ends_at_bind)
    have "ends ?round" by (rule ends_round) (use drop in auto)
    then show "ends_at ?round s1" by (simp add: ends_def)
    show "?round s1 = (Inr a, s') \<Longrightarrow> ends_at (?next a) s'" for a s'
      by (rule next_round) (use movingD[OF round, of s1] that in \<open>auto simp: same_count_def\<close>)
  qed
  show ?case
  proof (cases b)
    case True
    then show ?thesis using rounds[of s] Suc.prems by (simp add: run_gets eseq_def ends_at_def)
  next
    case False
    then show ?thesis using rounds[of "s\<lparr>fs_context := increment_loop_iteration (lh_name h) (fs_context s)\<rparr>"] Suc.prems
      by (auto simp add: run_gets run_on_context eseq_def ends_at_def ret_def)
  qed
qed simp

fun step_heads :: "node \<Rightarrow> step_head list" where
  "step_heads (Step h) = [h]"
| "step_heads (Parallel i ns) = concat (map step_heads ns)"
| "step_heads (Condition h ts fs) = concat (map step_heads ts) @ concat (map step_heads fs)"
| "step_heads (Router h routes) = concat (map (\<lambda>r. concat (map step_heads (snd r))) routes)"
| "step_heads (Loop h ns) = concat (map step_heads ns)"

lemma execute_ends:
  assumes u: "keeps_counters U" and user: "\<And>t. ends (fe_test U t)" "\<And>t. ends (fe_select U t)"
  shows "loops_bounded (fe_rounds U) n \<Longrightarrow> \<forall>h\<in>set (step_heads n). ends (execute_step D X U h) \<Longrightarrow>
    ends (execute D X U n)"
proof (induction n)
  case (Parallel i ns)
  then have "ends (gather_steps X (map (\<lambda>n. execute D X U n) ns))" by (intro ends_gather) auto
  then show ?case by (auto intro!: ends_rules)
next
  case (Condition h ts fs)
  then have "\<forall>n\<in>set ts. ends (execute D X U n)" "\<forall>n\<in>set fs. ends (execute D X U n)" by (auto simp: ball_Un)
  then show ?case by (auto simp: execute_sequence_def user intro!: ends_rules ends_sequence)
next
  case (Router h routes)
  have one: "ends (execute D X U n)" if "(k, ns) \<in> set routes" "n \<in> set ns" for k ns n
    by (rule Router.IH[OF that(1)]) (use that Router.prems in \<open>force simp: snds.simps\<close>)+
  have "ends (execute_sequence steps)"
    if "dict_get (map (\<lambda>(k, ns). (k, map (\<lambda>n. (n, execute D X U n)) ns)) routes) key = Some steps" for key steps
    using map_of_SomeD[OF that] one by (auto simp: execute_sequence_def intro!: ends_sequence)
  moreover have "ends (execute_sequence [])" by (auto simp: execute_sequence_def intro: ends_ret)
  ultimately show ?case by (auto simp: user intro!: ends_rules split: option.split)
next
  case (Loop h ns)
  let ?steps = "map (\<lambda>n. (n, execute D X U n)) ns"
  have "\<forall>nm\<in>set ?steps. moving (same_count (lh_name h)) (snd nm) \<and> ends (snd nm)"
    using Loop executes_counted[OF u, of "lh_name h" ns] by auto
  then have "ends_at (run_iterations (fe_rounds U) U h (Loop h ns) ?steps [] 0 False) s"
    if "loop_iteration (lh_name h) (fs_context s) = 0" for s
    using Loop.prems that user by (intro ends_iterations[OF u]) simp_all
  then show ?case
    by (simp add: ends_def ends_at_def eseq_def run_on_context)
qed auto

section \<open>The count of a loop\<close>

lemma iterations_bounded:
  assumes u: "keeps_counters U" and steps: "\<forall>nm\<in>set steps. moving (same_count (lh_name h)) (snd nm)"
  shows "loop_iteration (lh_name h) (fs_context s) \<le> lh_max h \<Longrightarrow>
    wp (run_iterations k U h lp steps outs i b)
      (\<lambda>_ s'. loop_iteration (lh_name h) (fs_context s') \<in> {loop_iteration (lh_name h) (fs_context s)..lh_max h})
      (\<lambda>_ s'. loop_iteration (lh_name h) (fs_context s') \<in> {loop_iteration (lh_name h) (fs_context s)..lh_max h}) s"
proof (induction k arbitrary: s outs i b)
  case (Suc k)
  let ?n = "\<lambda>s. loop_iteration (lh_name h) (fs_context s)"
  let ?in = "\<lambda>m s'. ?n s' \<in> {m..lh_max h}"
  have round: "moving (same_count (lh_name h)) (loop_round lp (drop (nat i) steps) i outs)"
    by (rule node_moves.round_moves[OF counter_nodes[OF u]]) (use steps in \<open>auto dest: in_set_dropD\<close>)
  have again: "wp (run_iterations k U h lp steps outs' 0 False) (\<lambda>_. ?in (?n s)) (\<lambda>_. ?in (?n s)) s3"
    if "?in (?n s) s3" for outs' s3
    by (rule wp_mono[OF Suc.IH]) (use that in auto)
  have stop: "wp (on_user (fe_test U (lh_stop h))) (\<lambda>stop. wp (if stop then ret outs' else run_iterations k U h lp steps outs' 0 False)
      (\<lambda>_. ?in (?n s)) (\<lambda>_. ?in (?n s))) (\<lambda>_. ?in (?n s)) s2" if "?in (?n s) s2" for outs' s2
    by (rule wp_mono[OF moving_wp[OF user_counts(2)[OF u, where name = "lh_name h"]]]) (use again that in \<open>auto simp: same_count_def\<close>)
  have rounds: "wp (loop_round lp (drop (nat i) steps) i outs) (\<lambda>r. wp (case r of Inl final \<Rightarrow> ret final
      | Inr outs' \<Rightarrow> ebind (on_user (fe_test U (lh_stop h))) (\<lambda>stop. if stop then ret outs' else run_iterations k U h lp steps outs' 0 False))
      (\<lambda>_. ?in (?n s)) (\<lambda>_. ?in (?n s))) (\<lambda>_. ?in (?n s)) s1" if "?in (?n s) s1" for s1
    by (rule wp_mono[OF moving_wp[OF round]]) (use stop that in \<open>auto simp: same_count_def split: sum.split\<close>)
  show ?case
    using Suc.prems by (auto simp: on_context_def intro!: rounds[simplified])
qed simp

text \<open>A loop inside one of its name sets the counter of the outer one back, which goes on forever.\<close>

definition twin_loops :: "string \<Rightarrow> node" where
  "twin_loops name =
     Loop \<lparr>lh_id = 0, lh_async = False, lh_stop = 0, lh_max = 2, lh_explicit = True, lh_name = name\<rparr>
       [Loop \<lparr>lh_id = 1, lh_async = False, lh_stop = 0, lh_max = 1, lh_explicit = True, lh_name = name\<rparr>
          [Router \<lparr>rh_id = 2, rh_selector = 0\<rparr> []]]"

lemma run_on_user: "ebind (on_user (ret a)) g s = g a s"
  by (simp add: ebind_def on_user_def ret_def)

lemma inner_twin:
  fixes U :: "('st, 'm, 'u) desk_world_scheme flow_calls"
  assumes "fe_test U = (\<lambda>t. ret False)" "fe_select U = (\<lambda>t. ret [])"
  shows "\<exists>r s'. execute D X U (Loop \<lparr>lh_id = 1, lh_async = False, lh_stop = 0, lh_max = 1, lh_explicit = True, lh_name = name\<rparr>
      [Router \<lparr>rh_id = 2, rh_selector = 0\<rparr> []]) s = (r, s') \<and>
    (r = Inl out_of_fuel \<or> r = Inr [] \<and> loop_iteration name (fs_context s') = 1)"
proof -
  let ?h = "\<lparr>lh_id = 1, lh_async = False, lh_stop = 0, lh_max = 1, lh_explicit = True, lh_name = name\<rparr>"
  define n where "n = Router \<lparr>rh_id = 2, rh_selector = 0\<rparr> []"
  define m where "m = execute D X U n"
  have once: "loop_round lp [(n, m)] i [] s = (Inr (Inr []), s)" for lp i s
    using assms by (simp add: m_def n_def run_on_user execute_sequence_def eseq_def run_on_context publish_outputs_def
        should_stop_def ret_def ebind_assoc)
  have rounds: "\<exists>r s'. run_iterations k U ?h (Loop ?h [n]) [(n, m)] [] 0 False s = (r, s') \<and>
      (r = Inl out_of_fuel \<or> r = Inr [] \<and> loop_iteration name (fs_context s') = 1)"
    if "loop_iteration name (fs_context s) = 0 \<or> loop_iteration name (fs_context s) = 1" for k s
    using that
  proof (induction k arbitrary: s)
    case (Suc k)
    show ?case
    proof (cases "loop_iteration name (fs_context s) = 0")
      case True
      let ?s = "s\<lparr>fs_context := increment_loop_iteration name (fs_context s)\<rparr>"
      have "run_iterations (Suc k) U ?h (Loop ?h [n]) [(n, m)] [] 0 False s
          = run_iterations k U ?h (Loop ?h [n]) [(n, m)] [] 0 False ?s"
        using True assms(1)
        by (simp add: run_gets eseq_def run_on_context ebind_def[of "loop_round _ _ _ _"] once run_on_user del: loop_round.simps)
      then show ?thesis using Suc.IH[of ?s] True by simp
    next
      case False
      then show ?thesis using Suc.prems by (simp add: run_gets ret_def)
    qed
  qed (simp add: raise_def)
  show ?thesis
    unfolding n_def[symmetric] using rounds[of "s\<lparr>fs_context := set_loop_iteration name 0 (fs_context s)\<rparr>" "fe_rounds U"]
    by (simp add: eseq_def run_on_context m_def del: run_iterations.simps)
qed

theorem twin_loops_never_end:
  fixes U :: "('st, 'm, 'u) desk_world_scheme flow_calls"
  assumes "fe_test U = (\<lambda>t. ret False)" "fe_select U = (\<lambda>t. ret [])"
  shows "fst (execute D X U (twin_loops name) s) = Inl out_of_fuel"
proof -
  let ?h = "\<lparr>lh_id = 0, lh_async = False, lh_stop = 0, lh_max = 2, lh_explicit = True, lh_name = name\<rparr>"
  let ?inner = "Loop \<lparr>lh_id = 1, lh_async = False, lh_stop = 0, lh_max = 1, lh_explicit = True, lh_name = name\<rparr>
      [Router \<lparr>rh_id = 2, rh_selector = 0\<rparr> []]"
  have "fst (run_iterations k U ?h (twin_loops name) [(?inner, execute D X U ?inner)] [] 0 False s) = Inl out_of_fuel"
    if "loop_iteration name (fs_context s) < 2" for k and s :: "('st, 'm, 'u) desk_world_scheme flow_state"
    using that
  proof (induction k arbitrary: s)
    case (Suc k)
    let ?s = "s\<lparr>fs_context := increment_loop_iteration name (fs_context s)\<rparr>"
    obtain r s' where r: "execute D X U ?inner ?s = (r, s')"
      "r = Inl out_of_fuel \<or> r = Inr [] \<and> loop_iteration name (fs_context s') = 1"
      using inner_twin[OF assms] by blast
    then have "fst (run_iterations k U ?h (twin_loops name) [(?inner, execute D X U ?inner)] [] 0 False s') = Inl out_of_fuel \<or>
        r = Inl out_of_fuel" using Suc.IH by auto
    with r Suc.prems assms(1) show ?case
      by (auto simp del: execute.simps simp: eseq_def run_gets run_on_context ebind_def[of "execute _ _ _ _"] ebind_assoc
          run_on_user publish_outputs_def should_stop_def ebind_def[of "loop_round _ _ _ _"])
  qed (simp add: raise_def)
  then show ?thesis
    by (simp add: twin_loops_def eseq_def run_on_context execute.simps(5) del: execute.simps(1-4) run_iterations.simps)
qed

end
