(* ===== verification/Flow_Properties.thy ===== *)
theory Flow_Properties
  imports Flow_Scenario Loop_Laws
begin

text \<open>
  The properties of flows, as facts of the interpretation of \<open>flow_runs\<close> over the SQLite store; the
  witnesses run the flow of \<^verbatim>\<open>Flow_Scenario\<close>.
\<close>

section \<open>Runs of a flow are recorded\<close>

definition leaves_user :: "('st, 'm, 'u) desk_world_scheme flow_calls \<Rightarrow> bool" where
  "leaves_user U \<longleftrightarrow> (\<forall>b. moving (user_law same_store) (fe_builder U b)) \<and>
     (\<forall>t. moving (user_law same_store) (fe_test U t)) \<and> (\<forall>t. moving (user_law same_store) (fe_select U t))"

abbreviation sql_desk_of ::
  "(sql_store, 'm, 'u) desk \<Rightarrow> ((sql_store, 'm, 'u) desk_world_scheme, 'x) force_ext_scheme \<Rightarrow> bool" where
  "sql_desk_of D X \<equiv> ds_store D = sql_ops (reload_state (x_text X) (x_resolves X)) \<and> leaves_store D X"

lemma flows_over_sqlite:
  assumes "sql_desk_of D X" "leaves_user U"
  shows "flow_runs (sql_ops (reload_state (x_text X) (x_resolves X))) sql_inv
    (sql_view (reload_state (x_text X) (x_resolves X))) (reload_state (x_text X) (x_resolves X)) D X U"
  using assms by (intro flow_runs.intro flow_runs_axioms.intro over_sqlite) (auto simp: leaves_user_def)

text \<open>The histories of one run of a flow over SQLite: it is started, and resumed with its report
  whenever it has paused, by the flow itself or by the desk, which looks it up; in between the desk
  may do anything that leaves the record of the run and its registration alone.\<close>

inductive flow_history ::
  "(sql_store, 'm, 'u) desk \<Rightarrow> ((sql_store, 'm, 'u) desk_world_scheme, 'x) force_ext_scheme \<Rightarrow>
   (sql_store, 'm, 'u) desk_world_scheme flow_calls \<Rightarrow> flow \<Rightarrow> string \<Rightarrow>
   report \<Rightarrow> (sql_store, 'm, 'u) desk_world_scheme desk_state \<Rightarrow> bool" for D X U F rid where
  started: "sql_inv (stored (fs_desk s)) \<Longrightarrow> flow_arun D X U F j s = (Inr rep, s') \<Longrightarrow> fs_run_id s' = rid \<Longrightarrow>
    flow_history D X U F rid rep (fs_desk s')"
| resumed: "flow_history D X U F rid rep (fs_desk s) \<Longrightarrow> rep_status rep = Paused \<Longrightarrow> rep_run_id rep = rid \<Longrightarrow>
    flow_aresume D X U F rep d stream s = (Inr rep', s') \<Longrightarrow> flow_history D X U F rid rep' (fs_desk s')"
| desk_resumed: "flow_history D X U F rid rep s \<Longrightarrow> rep_status rep = Paused \<Longrightarrow> rep_run_id rep = rid \<Longrightarrow>
    flows (fl_key F) = F \<Longrightarrow>
    desk_aresume D X (flow_as_resumable D X U flows j) rep d stream s = (Inr rep', s') \<Longrightarrow>
    flow_history D X U F rid rep' s'"
| elsewhere: "flow_history D X U F rid rep s \<Longrightarrow> sql_inv (stored s') \<Longrightarrow>
    (\<And>load. sql_get_run load rid (stored s') = sql_get_run load rid (stored s)) \<Longrightarrow>
    dict_get (dk_flows s') rid = dict_get (dk_flows s) rid \<Longrightarrow> flow_history D X U F rid rep s'"

text \<open>What the store holds of a run whose last report is given.\<close>

definition flow_stored ::
  "((sql_store, 'm, 'u) desk_world_scheme, 'x) force_ext_scheme \<Rightarrow> (pyval \<Rightarrow> string) \<Rightarrow> flow \<Rightarrow> string \<Rightarrow>
   report \<Rightarrow> (sql_store, 'm, 'u) desk_world_scheme desk_state \<Rightarrow> bool" where
  "flow_stored X digest F rid rep s \<longleftrightarrow> sql_inv (stored s) \<and>
     (\<exists>r. sql_get_run (reload_state (x_text X) (x_resolves X)) rid (stored s) = Inr (Some r) \<and>
        rc_output r = rep_content rep \<and>
        (case rc_status r of
           Paused \<Rightarrow> rep_status rep = Paused \<and> dict_get (dk_flows s) rid = Some (fl_key F) \<and>
             (\<exists>q. rc_state r = Some q \<and> rs_run_id q = rid \<and>
                flow_readable (x_text X) (x_resolves X) digest F q)
         | Failed \<Rightarrow> rep_status rep = Failed \<and> rc_state r = None \<and> dict_get (dk_flows s) rid = None
         | Completed \<Rightarrow> ended_well rep \<and> rc_state r = None \<and> dict_get (dk_flows s) rid = None
         | Running \<Rightarrow> False))"

lemma recorded_stored:
  assumes "flow_runs ops sql_inv (sql_view (reload_state (x_text X) (x_resolves X))) (reload_state (x_text X) (x_resolves X)) D X U"
    and "flow_runs.flow_recorded sql_inv (sql_view (reload_state (x_text X) (x_resolves X))) X U rid F b rep s"
  shows "flow_stored X (fe_digest U) F rid rep (fs_desk s)"
  using assms(2) unfolding flow_runs.flow_recorded_def[OF assms(1)] flow_stored_def sql_get_run_def sql_view_def
    desk_runs.others_kept_def[OF flow_runs.axioms(1)[OF assms(1)]]
  by auto

lemma stored_paused:
  assumes "flow_stored X digest F rid rep s" "rep_status rep = Paused"
  shows "\<exists>r q. sql_view (reload_state (x_text X) (x_resolves X)) (stored s) rid = Some r \<and> rc_state r = Some q \<and>
    rs_run_id q = rid \<and> flow_readable (x_text X) (x_resolves X) digest F q \<and>
    dict_get (dk_flows s) rid = Some (fl_key F)"
proof -
  from assms(1) obtain r where r: "sql_view (reload_state (x_text X) (x_resolves X)) (stored s) rid = Some r"
    "case rc_status r of
       Paused \<Rightarrow> rep_status rep = Paused \<and> dict_get (dk_flows s) rid = Some (fl_key F) \<and>
         (\<exists>q. rc_state r = Some q \<and> rs_run_id q = rid \<and> flow_readable (x_text X) (x_resolves X) digest F q)
     | Failed \<Rightarrow> rep_status rep = Failed \<and> rc_state r = None \<and> dict_get (dk_flows s) rid = None
     | Completed \<Rightarrow> ended_well rep \<and> rc_state r = None \<and> dict_get (dk_flows s) rid = None
     | Running \<Rightarrow> False"
    by (auto simp: flow_stored_def sql_get_run_def sql_view_def)
  then show ?thesis using assms(2) by (cases "rc_status r") (auto simp: ended_well_def)
qed

text \<open>
  C26: A run of a flow is recorded wherever it returns, however often it pauses and is resumed: over
  SQLite the store holds it with the status and the output of the report that was returned; while it
  is paused the desk knows the flow, and the state that was stored, which has made the round trip
  through the store, is one the flow does not refuse.
\<close>

theorem flow_run_recorded:
  assumes "sql_desk_of D X" "leaves_user U" "graph_ok (fl_steps F)"
    and "flow_history D X U F rid rep s"
  shows "flow_stored X (fe_digest U) F rid rep s"
  using assms(4)
proof induction
  case (started s j rep s')
  note runs = flows_over_sqlite[OF assms(1,2)]
  from wpD(1)[OF flow_runs.flow_arun_records[OF runs started(1) assms(3)] started(2)] started(3)
  obtain rid' where rec: "flow_runs.flow_recorded sql_inv (sql_view (reload_state (x_text X) (x_resolves X))) X U rid' F
      (stored (fs_desk s)) rep s'" by blast
  then have "rid' = rid" using started(3) by (simp add: flow_runs.flow_recorded_def[OF runs])
  with rec show ?case using recorded_stored[OF runs] by simp
next
  case (resumed rep s d stream rep' s')
  note runs = flows_over_sqlite[OF assms(1,2)]
  from stored_paused[OF resumed(5,2)] obtain r q where r: "sql_view (reload_state (x_text X) (x_resolves X))
      (stored (fs_desk s)) (rep_run_id rep) = Some r" "rc_state r = Some q" "rs_run_id q = rep_run_id rep"
    "flow_readable (x_text X) (x_resolves X) (fe_digest U) F q" unfolding resumed(3) by auto
  have "sql_inv (stored (fs_desk s))" using resumed(5) by (simp add: flow_stored_def)
  from wpD(1)[OF flow_runs.flow_aresume_records[OF runs this r(1-3) assms(3) r(4)] resumed(4)] resumed(3)
  show ?case using recorded_stored[OF runs] by blast
next
  case (desk_resumed rep s flows j d stream rep' s')
  note runs = flows_over_sqlite[OF assms(1,2)]
  from stored_paused[OF desk_resumed(6,2)] obtain r q where r: "sql_view (reload_state (x_text X) (x_resolves X))
      (stored s) (rep_run_id rep) = Some r" "rc_state r = Some q" "rs_run_id q = rep_run_id rep"
    "flow_readable (x_text X) (x_resolves X) (fe_digest U) F q" "dict_get (dk_flows s) (rep_run_id rep) = Some (fl_key F)"
    unfolding desk_resumed(3) by auto
  have "sql_inv (stored s)" using desk_resumed(6) by (simp add: flow_stored_def)
  from wpD(1)[OF flow_runs.desk_aresume_flow_records[where F = F and flows = flows and rep = rep and s = s and q = q,
      OF runs this r(1-3) r(5) desk_resumed(4) assms(3) r(4)] desk_resumed(5)]
    desk_resumed(3)
  show ?case using recorded_stored[OF runs] by blast
next
  case (elsewhere rep s s')
  then show ?case unfolding flow_stored_def elsewhere(3,4) by blast
qed

lemma demo_leaves_user: "leaves_user (demo_calls :: ('st, 'm, 'u) desk_world_scheme flow_calls)"
  by (simp add: leaves_user_def pre_user_law moving_ret moving_raise)

theorem flow_run_recorded_witness:
  "\<exists>rep s'. flow_arun sql_desk demo_externals demo_calls demo_flow demo_job
       (over_desk (sql_start [ask_for [demo_call ''c2'' ''guarded''], say ''done''])) = (Inr rep, s')
     \<and> rep_status rep = Paused \<and> flow_stored demo_externals (\<lambda>v. ''digest'') demo_flow ''id0'' rep (fs_desk s')"
proof -
  obtain rep s' where r: "flow_arun sql_desk demo_externals demo_calls demo_flow demo_job
       (over_desk (sql_start [ask_for [demo_call ''c2'' ''guarded''], say ''done''])) = (Inr rep, s')"
    "rep_status rep = Paused" "fs_run_id s' = ''id0''"
    using demo_flow_pauses by blast
  have "flow_history sql_desk demo_externals demo_calls demo_flow ''id0'' rep (fs_desk s')"
    by (rule flow_history.started[OF _ r(1,3)])
      (simp add: over_desk_def sql_start_def sql_inv_def sql_empty_def)
  from flow_run_recorded[OF _ demo_leaves_user _ this] sql_desk_leaves r show ?thesis
    by (auto simp: demo_graph)
qed

section \<open>The stored state\<close>

text \<open>
  C27: A paused flow comes back: what \<open>build_flow_state\<close> stores, before or after the round trip
  through the store, is read as the same reports (reloaded), artifacts (as JSON), loop counters,
  state of the paused runner and continuations, these at the same nodes of the flow.
\<close>

theorem flow_state_round_trip:
  assumes "graph_ok (fl_steps F)" "\<forall>c\<in>set cs. in_flow (fl_steps F) c" "loops_ok (fs_context s)"
    and "build_flow_state F digest j i st cs s = Inr q" "q' \<in> {q, reload_state P resolve q}"
  shows "\<exists>snap. read_flow_state P resolve F q' k = Inr snap \<and> flow_back P resolve s st cs snap"
  using assms by (intro flow_state_back) auto

definition demo_state :: run_state where
  "demo_state = RunState ''id0'' Paused ''worker'' ''w'' demo_job [] [] None [] 1 []"

definition demo_paused :: "demo_world flow_state" where
  "demo_paused = (over_desk (demo_start []))\<lparr>fs_context := set_loop_iteration ''l'' 1 (new_context demo_job [])\<rparr>"

lemma demo_loop_in: "demo_loop \<in> nodes_of [demo_loop]"
  unfolding nodes_of_def using entries_heads[of "[demo_loop]" "[]" 0] by auto

theorem flow_state_round_trip_witness:
  "\<exists>q snap. build_flow_state demo_flow (\<lambda>v. ''digest'') demo_job 0 demo_state [LoopContinuation demo_loop 1 None] demo_paused = Inr q
     \<and> read_flow_state plain_text (\<lambda>m c. True) demo_flow (reload_state plain_text (\<lambda>m c. True) q) 5 = Inr snap
     \<and> flow_back plain_text (\<lambda>m c. True) demo_paused demo_state [LoopContinuation demo_loop 1 None] snap"
proof -
  have "\<exists>q. build_flow_state demo_flow (\<lambda>v. ''digest'') demo_job 0 demo_state [LoopContinuation demo_loop 1 None] demo_paused = Inr q"
    by (simp add: demo_paused_def flow_defs Let_def)
  then obtain q where q: "build_flow_state demo_flow (\<lambda>v. ''digest'') demo_job 0 demo_state
      [LoopContinuation demo_loop 1 None] demo_paused = Inr q" ..
  have cs: "\<forall>c\<in>set [LoopContinuation demo_loop 1 None]. in_flow (fl_steps demo_flow) c"
    using demo_loop_in by (auto simp: demo_loop_def)
  have l: "loops_ok (fs_context demo_paused)"
    by (simp add: demo_paused_def loops_ok_def set_loop_iteration_def new_context_def)
  from flow_state_round_trip[OF _ cs l q, of "reload_state plain_text (\<lambda>m c. True) q" plain_text "\<lambda>m c. True" 5] q
  show ?thesis by (auto simp: demo_graph)
qed

section \<open>Loops\<close>

text \<open>
  C28: The loops of a flow end: where no loop is inside one of its own name and the user's callables
  leave the counters of the loops alone and end themselves, no node runs out of the fuel of
  \<open>max_iterations + 1\<close> rounds for each loop, whatever its steps and stop predicates return.
\<close>

theorem loops_end:
  assumes "keeps_counters U" "loops_bounded (fe_rounds U) n"
    and "\<And>t. ends (fe_test U t)" "\<And>t. ends (fe_select U t)"
    and "\<forall>h\<in>set (step_heads n). ends (execute_step D X U h)"
  shows "fst (execute D X U n s) \<noteq> Inl out_of_fuel"
  using execute_ends[OF assms(1,3,4,2,5)] by (simp add: ends_def ends_at_def)

lemma demo_keeps_counters: "keeps_counters (demo_calls :: ('st, 'm, 'u) desk_world_scheme flow_calls)"
  by (simp add: keeps_counters_def moving_ret moving_raise)

theorem loops_end_witness:
  "fst (execute demo_desk demo_externals demo_calls demo_rounds (over_desk (demo_start []))) \<noteq> Inl out_of_fuel"
proof -
  have "loops_bounded (fe_rounds demo_calls) demo_rounds"
    by (simp add: demo_rounds_def loop_names_def)
  moreover have "\<forall>h\<in>set (step_heads demo_rounds). ends (execute_step demo_desk demo_externals demo_calls h)"
    by (simp add: demo_rounds_def)
  ultimately show ?thesis
    by (intro loops_end demo_keeps_counters) (simp_all add: ends_ret)
qed

text \<open>
  C29: A loop never counts beyond \<open>max_iterations\<close>: wherever its execution stops, returning or
  raising, the counter of the rounds it has begun is between zero and its limit.
\<close>

theorem loop_count_bounded:
  assumes "keeps_counters U" "lh_name h \<notin> loop_names ns" "1 \<le> lh_max h"
    and "execute D X U (Loop h ns) s = (r, s')"
  shows "loop_iteration (lh_name h) (fs_context s') \<in> {0..lh_max h}"
proof -
  let ?steps = "map (\<lambda>n. (n, execute D X U n)) ns"
  let ?s = "s\<lparr>fs_context := set_loop_iteration (lh_name h) 0 (fs_context s)\<rparr>"
  have "\<forall>nm\<in>set ?steps. moving (same_count (lh_name h)) (snd nm)"
    using executes_counted[OF assms(1,2)] by auto
  from iterations_bounded[OF assms(1) this, of ?s "fe_rounds U" "Loop h ns" "[]" 0 False] assms(3,4)
  show ?thesis
    by (auto simp: wp_def eseq_def run_on_context split: prod.splits sum.splits)
qed

theorem loop_count_bounded_witness:
  "\<exists>r s'. execute demo_desk demo_externals demo_calls demo_rounds (over_desk (demo_start [])) = (r, s')
     \<and> loop_iteration ''l'' (fs_context s') \<in> {0..2}"
proof -
  obtain r s' where r: "execute demo_desk demo_externals demo_calls demo_rounds (over_desk (demo_start [])) = (r, s')"
    by fastforce
  from loop_count_bounded[OF demo_keeps_counters _ _ r[unfolded demo_rounds_def]] r show ?thesis
    by (simp add: loop_names_def)
qed

end
