(* ===== verification/Session_Store.thy ===== *)
theory Session_Store
  imports Run_Store_Laws
begin

text \<open>
  The session stores of \<^verbatim>\<open>store/\<close>: the interface (\<^verbatim>\<open>session_store.py\<close>) as a record of operations, the
  in-memory store as two dictionaries, the SQLite store as two tables with their rows in rowid order.
  The readings of the clock are arguments.  The contract of a store is the locale \<open>session_store\<close>,
  which both implementations keep.  The identifiers of message rows, made of fresh UUIDs and read
  nowhere, are left out, as is closing.
\<close>

record session_record =
  sn_id :: string
  sn_worker :: string
  sn_created :: int
  sn_updated :: int
  sn_metadata :: "pyval dict"

record 'ss session_ops =
  ss_create :: "string \<Rightarrow> string \<Rightarrow> pyval dict option \<Rightarrow> int \<Rightarrow> 'ss \<Rightarrow> exc + 'ss"
  ss_update :: "string \<Rightarrow> pyval dict option \<Rightarrow> int \<Rightarrow> 'ss \<Rightarrow> exc + 'ss"
  ss_get :: "string \<Rightarrow> 'ss \<Rightarrow> exc + session_record option"
  ss_list :: "string option \<Rightarrow> int option \<Rightarrow> 'ss \<Rightarrow> exc + session_record list"
  ss_delete :: "string \<Rightarrow> 'ss \<Rightarrow> exc + 'ss"
  ss_add :: "string \<Rightarrow> message list \<Rightarrow> int \<Rightarrow> 'ss \<Rightarrow> exc + 'ss"
  ss_replace :: "string \<Rightarrow> message list \<Rightarrow> int \<Rightarrow> 'ss \<Rightarrow> exc + 'ss"
  ss_messages :: "string \<Rightarrow> 'ss \<Rightarrow> exc + message list"

definition new_session :: "string \<Rightarrow> string \<Rightarrow> pyval dict option \<Rightarrow> int \<Rightarrow> session_record" where
  "new_session i w md now =
     \<lparr>sn_id = i, sn_worker = w, sn_created = now, sn_updated = now,
      sn_metadata = (case md of Some d \<Rightarrow> d | None \<Rightarrow> [])\<rparr>"

text \<open>\<open>updated_metadata if metadata is not None\<close>, with the time of the update.\<close>

definition touched :: "pyval dict option \<Rightarrow> int \<Rightarrow> session_record \<Rightarrow> session_record" where
  "touched md now r =
     r\<lparr>sn_metadata := (case md of Some d \<Rightarrow> d | None \<Rightarrow> sn_metadata r), sn_updated := now\<rparr>"

definition check_limit :: "int option \<Rightarrow> exc option" where
  "check_limit limit =
     (if (case limit of Some n \<Rightarrow> n < 0 | None \<Rightarrow> False)
      then Some (ValueError ''limit must be non-negative'') else None)"

definition listed :: "string option \<Rightarrow> int option \<Rightarrow> session_record list \<Rightarrow> exc + session_record list" where
  "listed w limit rs =
     (case check_limit limit of
        Some e \<Rightarrow> Inl e
      | None \<Rightarrow> Inr (page limit 0 (sort_key (\<lambda>r. - sn_updated r)
          (filter (\<lambda>r. case w of None \<Rightarrow> True | Some x \<Rightarrow> sn_worker r = x) rs))))"

section \<open>In memory\<close>

record mem_sessions =
  mn_sessions :: "(string \<times> session_record) list"
  mn_messages :: "(string \<times> message list) list"

definition mem_create_session ::
  "string \<Rightarrow> string \<Rightarrow> pyval dict option \<Rightarrow> int \<Rightarrow> mem_sessions \<Rightarrow> exc + mem_sessions" where
  "mem_create_session i w md now s =
     Inr (s\<lparr>mn_sessions := dict_set i (new_session i w md now) (mn_sessions s),
            mn_messages := dict_set i [] (mn_messages s)\<rparr>)"

definition mem_update_session ::
  "string \<Rightarrow> pyval dict option \<Rightarrow> int \<Rightarrow> mem_sessions \<Rightarrow> exc + mem_sessions" where
  "mem_update_session i md now s =
     Inr (case dict_get (mn_sessions s) i of
            None \<Rightarrow> s
          | Some r \<Rightarrow> s\<lparr>mn_sessions := dict_set i (touched md now r) (mn_sessions s)\<rparr>)"

definition mem_get_session :: "string \<Rightarrow> mem_sessions \<Rightarrow> exc + session_record option" where
  "mem_get_session i s = Inr (dict_get (mn_sessions s) i)"

definition mem_list_sessions ::
  "string option \<Rightarrow> int option \<Rightarrow> mem_sessions \<Rightarrow> exc + session_record list" where
  "mem_list_sessions w limit s = listed w limit (map snd (mn_sessions s))"

definition mem_delete_session :: "string \<Rightarrow> mem_sessions \<Rightarrow> exc + mem_sessions" where
  "mem_delete_session i s =
     Inr (s\<lparr>mn_sessions := dict_pop i (mn_sessions s), mn_messages := dict_pop i (mn_messages s)\<rparr>)"

definition mem_add_messages ::
  "string \<Rightarrow> message list \<Rightarrow> int \<Rightarrow> mem_sessions \<Rightarrow> exc + mem_sessions" where
  "mem_add_messages i ms now s =
     Inr (s\<lparr>mn_messages := dict_set i (dict_get_or (mn_messages s) i [] @ ms) (mn_messages s)\<rparr>)"

definition mem_replace_messages ::
  "string \<Rightarrow> message list \<Rightarrow> int \<Rightarrow> mem_sessions \<Rightarrow> exc + mem_sessions" where
  "mem_replace_messages i ms now s = Inr (s\<lparr>mn_messages := dict_set i ms (mn_messages s)\<rparr>)"

definition mem_get_messages :: "string \<Rightarrow> mem_sessions \<Rightarrow> exc + message list" where
  "mem_get_messages i s = Inr (dict_get_or (mn_messages s) i [])"

definition mem_session_ops :: "mem_sessions session_ops" where
  "mem_session_ops =
     \<lparr>ss_create = mem_create_session, ss_update = mem_update_session, ss_get = mem_get_session,
      ss_list = mem_list_sessions, ss_delete = mem_delete_session, ss_add = mem_add_messages,
      ss_replace = mem_replace_messages, ss_messages = mem_get_messages\<rparr>"

section \<open>SQLite\<close>

text \<open>Metadata columns hold the value their JSON text encodes; messages their reloaded dump.\<close>

record history_row =
  mr_session :: string
  mr_message :: message
  mr_time :: int

record sql_sessions =
  sn_rows :: "session_record list"
  sn_message_rows :: "history_row list"

definition json_column :: "pyval dict \<Rightarrow> exc + pyval dict" where
  "json_column d =
     (if is_json (PDict d) then Inr d else Inl (TypeErr ''Object is not JSON serializable''))"

definition message_rows :: "string \<Rightarrow> message list \<Rightarrow> int \<Rightarrow> history_row list" where
  "message_rows i ms now =
     map (\<lambda>m. \<lparr>mr_session = i, mr_message = reload_message m, mr_time = now\<rparr>) ms"

definition sql_create_session ::
  "string \<Rightarrow> string \<Rightarrow> pyval dict option \<Rightarrow> int \<Rightarrow> sql_sessions \<Rightarrow> exc + sql_sessions" where
  "sql_create_session i w md now s =
     (case json_column (case md of Some d \<Rightarrow> d | None \<Rightarrow> []) of
        Inl e \<Rightarrow> Inl e
      | Inr d \<Rightarrow>
          if i \<in> set (map sn_id (sn_rows s))
          then Inl (Exc ''IntegrityError'' ''UNIQUE constraint failed: sessions.id'')
          else Inr (s\<lparr>sn_rows := sn_rows s @ [new_session i w (Some d) now]\<rparr>))"

definition sql_update_session ::
  "string \<Rightarrow> pyval dict option \<Rightarrow> int \<Rightarrow> sql_sessions \<Rightarrow> exc + sql_sessions" where
  "sql_update_session i md now s =
     (case (case md of Some d \<Rightarrow> map_sum id Some (json_column d) | None \<Rightarrow> Inr None) of
        Inl e \<Rightarrow> Inl e
      | Inr d \<Rightarrow>
          Inr (s\<lparr>sn_rows := map (\<lambda>r. if sn_id r = i then touched d now r else r) (sn_rows s)\<rparr>))"

definition sql_get_session :: "string \<Rightarrow> sql_sessions \<Rightarrow> exc + session_record option" where
  "sql_get_session i s = Inr (find (\<lambda>r. sn_id r = i) (sn_rows s))"

text \<open>\<open>ORDER BY updated_at DESC\<close> leaves the order of equal times open: here it is that of the rows.\<close>

definition sql_list_sessions ::
  "string option \<Rightarrow> int option \<Rightarrow> sql_sessions \<Rightarrow> exc + session_record list" where
  "sql_list_sessions w limit s = listed w limit (sn_rows s)"

definition sql_delete_session :: "string \<Rightarrow> sql_sessions \<Rightarrow> exc + sql_sessions" where
  "sql_delete_session i s =
     Inr (s\<lparr>sn_rows := filter (\<lambda>r. sn_id r \<noteq> i) (sn_rows s),
            sn_message_rows := filter (\<lambda>r. mr_session r \<noteq> i) (sn_message_rows s)\<rparr>)"

definition sql_add_messages ::
  "string \<Rightarrow> message list \<Rightarrow> int \<Rightarrow> sql_sessions \<Rightarrow> exc + sql_sessions" where
  "sql_add_messages i ms now s =
     Inr (s\<lparr>sn_message_rows := sn_message_rows s @ message_rows i ms now\<rparr>)"

definition sql_replace_messages ::
  "string \<Rightarrow> message list \<Rightarrow> int \<Rightarrow> sql_sessions \<Rightarrow> exc + sql_sessions" where
  "sql_replace_messages i ms now s =
     Inr (s\<lparr>sn_message_rows :=
        filter (\<lambda>r. mr_session r \<noteq> i) (sn_message_rows s) @ message_rows i ms now\<rparr>)"

text \<open>\<open>ORDER BY timestamp ASC, rowid ASC\<close>.\<close>

definition sql_get_messages :: "string \<Rightarrow> sql_sessions \<Rightarrow> exc + message list" where
  "sql_get_messages i s =
     Inr (map mr_message (sort_key mr_time (filter (\<lambda>r. mr_session r = i) (sn_message_rows s))))"

definition sql_session_ops :: "sql_sessions session_ops" where
  "sql_session_ops =
     \<lparr>ss_create = sql_create_session, ss_update = sql_update_session, ss_get = sql_get_session,
      ss_list = sql_list_sessions, ss_delete = sql_delete_session, ss_add = sql_add_messages,
      ss_replace = sql_replace_messages, ss_messages = sql_get_messages\<rparr>"

section \<open>The contract\<close>

text \<open>What a client relies on: \<open>entry s i\<close> is the record, \<open>hist s i\<close> the messages of a session, and
  \<open>load\<close> what storing does to a message.\<close>

locale session_store =
  fixes ops :: "'ss session_ops"
    and inv :: "'ss \<Rightarrow> bool"
    and entry :: "'ss \<Rightarrow> string \<Rightarrow> session_record option"
    and hist :: "'ss \<Rightarrow> string \<Rightarrow> message list"
    and load :: "message \<Rightarrow> message"
  assumes get: "ss_get ops i s = Inr (entry s i)"
    and messages: "ss_messages ops i s = Inr (hist s i)"
    and create: "inv s \<Longrightarrow> entry s i = None \<Longrightarrow> ss_create ops i w md now s = Inr s' \<Longrightarrow>
      inv s' \<and> (\<exists>r. entry s' i = Some r \<and> sn_id r = i \<and> sn_worker r = w) \<and>
      (hist s i = [] \<longrightarrow> hist s' i = []) \<and>
      (\<forall>k. k \<noteq> i \<longrightarrow> entry s' k = entry s k \<and> hist s' k = hist s k)"
    and update: "inv s \<Longrightarrow> ss_update ops i md now s = Inr s' \<Longrightarrow>
      inv s' \<and> hist s' = hist s \<and> (\<forall>k. k \<noteq> i \<longrightarrow> entry s' k = entry s k) \<and>
      map_option sn_worker (entry s' i) = map_option sn_worker (entry s i)"
    and delete: "inv s \<Longrightarrow> ss_delete ops i s = Inr s' \<Longrightarrow>
      inv s' \<and> entry s' i = None \<and> hist s' i = [] \<and>
      (\<forall>k. k \<noteq> i \<longrightarrow> entry s' k = entry s k \<and> hist s' k = hist s k)"
    and replace: "inv s \<Longrightarrow> ss_replace ops i ms now s = Inr s' \<Longrightarrow>
      inv s' \<and> entry s' = entry s \<and> hist s' i = map load ms \<and> (\<forall>k. k \<noteq> i \<longrightarrow> hist s' k = hist s k)"

definition mem_entries :: "mem_sessions \<Rightarrow> string \<Rightarrow> session_record option" where
  "mem_entries s = dict_get (mn_sessions s)"

definition mem_history :: "mem_sessions \<Rightarrow> string \<Rightarrow> message list" where
  "mem_history s i = dict_get_or (mn_messages s) i []"

definition sql_entries :: "sql_sessions \<Rightarrow> string \<Rightarrow> session_record option" where
  "sql_entries s i = find (\<lambda>r. sn_id r = i) (sn_rows s)"

definition sql_history :: "sql_sessions \<Rightarrow> string \<Rightarrow> message list" where
  "sql_history s i = map mr_message (sort_key mr_time (filter (\<lambda>r. mr_session r = i) (sn_message_rows s)))"

lemma touched_frame [simp]: "sn_id (touched md now r) = sn_id r" "sn_worker (touched md now r) = sn_worker r"
  by (simp_all add: touched_def)

lemma find_touched:
  "find (\<lambda>r. sn_id r = k) (map (\<lambda>r. if sn_id r = i then touched md now r else r) rs)
     = map_option (\<lambda>r. if k = i then touched md now r else r) (find (\<lambda>r. sn_id r = k) rs)"
  by (induction rs) auto

lemma find_filter_key: "find (\<lambda>r. sn_id r = k) (filter (\<lambda>r. sn_id r \<noteq> i) rs) = (if k = i then None else find (\<lambda>r. sn_id r = k) rs)"
  by (induction rs) auto

lemma same_time_sorted: "sort_key mr_time (message_rows i ms now) = message_rows i ms now"
  by (rule sort_key_id_if_sorted) (simp add: message_rows_def comp_def sorted_wrt_map)

lemma message_rows_of:
  "filter (\<lambda>r. mr_session r = k) (message_rows i ms now) = (if k = i then message_rows i ms now else [])"
  "map mr_message (message_rows i ms now) = map reload_message ms"
  by (auto simp: message_rows_def filter_empty_conv comp_def)

lemma other_rows:
  "filter (\<lambda>r. mr_session r = k) (filter (\<lambda>r. mr_session r \<noteq> i) rs) = (if k = i then [] else filter (\<lambda>r. mr_session r = k) rs)"
  by (induction rs) auto

lemmas mem_session_defs = mem_session_ops_def mem_entries_def mem_history_def mem_create_session_def
  mem_update_session_def mem_get_session_def mem_delete_session_def mem_replace_messages_def mem_get_messages_def
  new_session_def

lemmas sql_session_defs = sql_session_ops_def sql_entries_def sql_history_def sql_create_session_def
  sql_update_session_def sql_get_session_def sql_delete_session_def sql_replace_messages_def
  sql_get_messages_def new_session_def

interpretation mem_sn: session_store mem_session_ops "\<lambda>_. True" mem_entries mem_history "\<lambda>m. m"
proof (unfold_locales, goal_cases)
  case (4 s i md now s')
  then show ?case by (cases "dict_get (mn_sessions s) i") (auto simp: mem_session_defs fun_eq_iff)
qed (auto simp: mem_session_defs dict_get_or_def fun_eq_iff)

interpretation sql_sn: session_store sql_session_ops "\<lambda>_. True" sql_entries sql_history reload_message
proof (unfold_locales, goal_cases)
  case (3 s i w md now s')
  then show ?case by (auto simp: sql_session_defs find_append split: sum.splits if_splits option.splits)
next
  case (4 s i md now s')
  then show ?case
    by (auto simp: sql_session_defs find_touched option.map_comp comp_def option.map_ident fun_eq_iff split: sum.splits)
next
  case (5 s i s')
  then show ?case by (auto simp: sql_session_defs find_filter_key other_rows simp del: filter_filter)
next
  case (6 s i ms now s')
  then show ?case
    by (auto simp: sql_session_defs other_rows message_rows_of same_time_sorted simp del: filter_filter)
qed (simp_all add: sql_session_defs)

end
