(* ===== verification/Session.thy ===== *)
theory Session
  imports Session_Store Desk
begin

text \<open>
  \<open>WorkerSession\<close> of \<^verbatim>\<open>session.py\<close>: conversations of one worker that go on over several runs of a
  desk.  The state is the desk's with that of the session store, which is an interface here and SQLite
  in the code.  Closing is left out; \<open>stream_run\<close> is the session's run whose events are read to
  their end (\<open>session_stream_run\<close>); a reader who stops
  early is in \<^verbatim>\<open>Entry_Points\<close>.
\<close>

record ('w, 'ss) session_state =
  se_desk :: "'w desk_state"
  se_store :: 'ss

record session =
  se_id :: string
  se_worker :: crew_member

type_synonym ('st, 'm, 'u, 'ss, 'a) session_eff =
  "((('st, 'm, 'u) desk_world_scheme, 'ss) session_state, 'a) eff"

definition with_desk :: "('w desk_state, 'a) eff \<Rightarrow> (('w, 'ss) session_state, 'a) eff" where
  "with_desk m s = (case m (se_desk s) of (r, d) \<Rightarrow> (r, s\<lparr>se_desk := d\<rparr>))"

definition in_store :: "('ss \<Rightarrow> exc + 'ss) \<Rightarrow> (('w, 'ss) session_state, unit) eff" where
  "in_store f s = (case f (se_store s) of Inl e \<Rightarrow> (Inl e, s) | Inr st \<Rightarrow> (Inr (), s\<lparr>se_store := st\<rparr>))"

definition read_store :: "('ss \<Rightarrow> exc + 'a) \<Rightarrow> (('w, 'ss) session_state, 'a) eff" where
  "read_store f = ebind (gets (\<lambda>s. f (se_store s))) from_sum"

definition timed ::
  "(('st, 'm, 'u) desk_world_scheme, 'x) force_ext_scheme \<Rightarrow> (int \<Rightarrow> 'ss \<Rightarrow> exc + 'ss) \<Rightarrow>
   ('st, 'm, 'u, 'ss, unit) session_eff" where
  "timed X f = ebind (with_desk (ask (x_now X))) (\<lambda>now. in_store (f now))"

section \<open>Opening\<close>

definition session_open ::
  "(('st, 'm, 'u) desk_world_scheme, 'x) force_ext_scheme \<Rightarrow> 'ss session_ops \<Rightarrow> string \<Rightarrow> crew_member \<Rightarrow>
   pyval dict option \<Rightarrow> bool \<Rightarrow> ('st, 'm, 'u, 'ss, session option) session_eff" where
  "session_open X N sid m md create =
     (if str_strip sid = [] then raise (ValueError ''session_id must not be empty'')
      else ebind (read_store (ss_get N sid)) (\<lambda>record.
        case record of
          Some r \<Rightarrow>
            ret (if sn_worker r \<noteq> mb_name m then None else Some \<lparr>se_id = sid, se_worker = m\<rparr>)
        | None \<Rightarrow>
            if \<not> create then ret None
            else eseq (timed X (ss_create N sid (mb_name m) md)) (ret (Some \<lparr>se_id = sid, se_worker = m\<rparr>))))"

definition session_start ::
  "(('st, 'm, 'u) desk_world_scheme, 'x) force_ext_scheme \<Rightarrow> 'ss session_ops \<Rightarrow> crew_member \<Rightarrow>
   string option \<Rightarrow> pyval dict option \<Rightarrow> ('st, 'm, 'u, 'ss, session) session_eff" where
  "session_start X N m sid0 md =
     ebind (if truthy sid0 then ret (or_str sid0 []) else with_desk (ask (x_new_id X))) (\<lambda>sid.
     ebind (session_open X N sid m md True) (\<lambda>r.
     case r of
       Some S \<Rightarrow> ret S
     | None \<Rightarrow> raise (ValueError (''Session '' @ [char_of (39::nat)] @ sid @ [char_of (39::nat)] @
                  '' belongs to another worker''))))"

definition session_load ::
  "(('st, 'm, 'u) desk_world_scheme, 'x) force_ext_scheme \<Rightarrow> 'ss session_ops \<Rightarrow> string \<Rightarrow> crew_member \<Rightarrow>
   ('st, 'm, 'u, 'ss, session option) session_eff" where
  "session_load X N sid m = session_open X N sid m None False"

text \<open>\<open>Desk.session\<close>.\<close>

definition desk_session ::
  "(('st, 'm, 'u) desk_world_scheme, 'x) force_ext_scheme \<Rightarrow> 'ss session_ops \<Rightarrow> crew_member \<Rightarrow>
   string option \<Rightarrow> pyval dict option \<Rightarrow> bool \<Rightarrow> ('st, 'm, 'u, 'ss, session option) session_eff" where
  "desk_session X N m sid md create =
     eseq (with_desk ensure_open)
     (case sid of
        Some i \<Rightarrow> session_open X N i m md create
      | None \<Rightarrow>
          if \<not> create then raise (ValueError ''session_id is required when create is False'')
          else ebind (session_start X N m None md) (\<lambda>S. ret (Some S)))"

section \<open>The history\<close>

definition session_history :: "'ss session_ops \<Rightarrow> session \<Rightarrow> ('st, 'm, 'u, 'ss, message list) session_eff" where
  "session_history N S = read_store (ss_messages N (se_id S))"

text \<open>The job has the input and the keywords of the call.\<close>

definition build_job :: "'ss session_ops \<Rightarrow> session \<Rightarrow> job \<Rightarrow> ('st, 'm, 'u, 'ss, job) session_eff" where
  "build_job N S j =
     ebind (session_history N S) (\<lambda>ms.
     ret (j\<lparr>job_initial_messages := (if ms \<noteq> [] then Some ms else None)\<rparr>))"

definition is_summary :: "message \<Rightarrow> bool" where
  "is_summary m \<longleftrightarrow> msg_role m = System \<and> dict_get (msg_metadata m) ''summary'' = Some (PBool True)"

definition kept_message :: "message \<Rightarrow> bool" where
  "kept_message m \<longleftrightarrow> is_summary m \<or> msg_role m = User \<or> msg_role m = Assistant \<or>
     (msg_role m = ToolRole \<and> truthy (msg_tool_call_id m))"

text \<open>\<open>Message(**message.model_dump())\<close>, without the reasoning of an assistant that calls no tool; the
  dump serializes the results of tool calls.\<close>

definition remade_message :: "message \<Rightarrow> message" where
  "remade_message m =
     (let m' = m\<lparr>msg_tool_calls := map (\<lambda>c. c\<lparr>tc_result := to_json_value (tc_result c)\<rparr>) (msg_tool_calls m)\<rparr>
      in if msg_role m = Assistant \<and> msg_tool_calls m = []
         then m'\<lparr>msg_reasoning := None, msg_thinking := None\<rparr> else m')"

definition extract_messages :: "report \<Rightarrow> message list" where
  "extract_messages rep = map remade_message (filter kept_message (rep_messages rep))"

definition persist_report ::
  "(('st, 'm, 'u) desk_world_scheme, 'x) force_ext_scheme \<Rightarrow> 'ss session_ops \<Rightarrow> session \<Rightarrow> report \<Rightarrow>
   ('st, 'm, 'u, 'ss, report) session_eff" where
  "persist_report X N S rep =
     eseq (if rep_status rep = Completed
           then eseq (timed X (ss_replace N (se_id S) (extract_messages rep)))
                     (timed X (ss_update N (se_id S) None))
           else ret ())
       (ret rep)"

section \<open>Runs\<close>

definition session_arun ::
  "('st, 'm, 'u) desk \<Rightarrow> (('st, 'm, 'u) desk_world_scheme, 'x) force_ext_scheme \<Rightarrow> 'ss session_ops \<Rightarrow>
   session \<Rightarrow> job \<Rightarrow> bool \<Rightarrow> ('st, 'm, 'u, 'ss, report) session_eff" where
  "session_arun D X N S j0 stream =
     ebind (build_job N S j0) (\<lambda>j.
     ebind (with_desk (desk_arun D X (RWorker (se_worker S)) j (Some stream) None)) (persist_report X N S))"

definition session_aresume ::
  "('st, 'm, 'u) desk \<Rightarrow> (('st, 'm, 'u) desk_world_scheme, 'x) force_ext_scheme \<Rightarrow> 'ss session_ops \<Rightarrow>
   (nat \<Rightarrow> report \<Rightarrow> pyval \<Rightarrow> bool option \<Rightarrow> ('st, 'm, 'u, report) desk_eff) \<Rightarrow>
   session \<Rightarrow> report \<Rightarrow> pyval \<Rightarrow> bool option \<Rightarrow> ('st, 'm, 'u, 'ss, report) session_eff" where
  "session_aresume D X N fl S rep d stream =
     ebind (with_desk (desk_aresume D X fl rep d stream)) (persist_report X N S)"

text \<open>\<open>astream_run\<close> and \<open>stream_run\<close>, their events read to the end: \<open>h\<close> is the handler that queues the
  events of the run.  The report is kept also where the caller of the generator ignores it.\<close>

definition session_stream_run ::
  "('st, 'm, 'u) desk \<Rightarrow> (('st, 'm, 'u) desk_world_scheme, 'x) force_ext_scheme \<Rightarrow> 'ss session_ops \<Rightarrow>
   session \<Rightarrow> job \<Rightarrow> (string \<Rightarrow> nat) \<Rightarrow> ('st, 'm, 'u, 'ss, report) session_eff" where
  "session_stream_run D X N S j0 h =
     ebind (build_job N S j0) (\<lambda>j.
     ebind (with_desk (ask (x_new_id X))) (\<lambda>rid.
     eseq (with_desk (on_world (modify (bus_subscribe ''*'' (h rid)))))
    (ebind (with_desk (attempt (desk_arun D X (RWorker (se_worker S)) j (Some True) (Some rid)))) (\<lambda>r.
     eseq (with_desk (on_world (modify (bus_unsubscribe ''*'' (h rid)))))
     (case r of
        Inr rep \<Rightarrow> persist_report X N S rep
      | Inl e \<Rightarrow> raise e)))))"

definition session_delete :: "'ss session_ops \<Rightarrow> session \<Rightarrow> ('st, 'm, 'u, 'ss, unit) session_eff" where
  "session_delete N S = in_store (ss_delete N (se_id S))"

end
