(* ===== verification/Session_Properties.thy ===== *)
theory Session_Properties
  imports Session Desk_Properties Desk_Scenario
begin

text \<open>
  What a session keeps: the messages it stores are always a conversation a provider accepts, and they
  are those of the last run that completed.  The laws of the session store enter by the locale
  \<open>session_store\<close>; the runs are those of a desk over SQLite.
\<close>

section \<open>Extracting messages\<close>

lemma remade_frame [simp]:
  "msg_role (remade_message m) = msg_role m" "msg_tool_call_id (remade_message m) = msg_tool_call_id m"
  "map tc_id (msg_tool_calls (remade_message m)) = map tc_id (msg_tool_calls m)"
  by (simp_all add: remade_message_def Let_def comp_def)

lemma scan_remade: "scan (map remade_message ms) os = scan ms os"
proof (induction ms arbitrary: os)
  case (Cons m ms)
  have "scan_step (remade_message m) os = scan_step m os" by (simp add: scan_step.simps)
  with Cons show ?case by (simp split: option.split)
qed simp

lemma scan_kept: "scan ms os = Some o' \<Longrightarrow> scan (filter kept_message ms) os = Some o'"
proof (induction ms arbitrary: os)
  case (Cons m ms)
  then obtain o1 where o1: "scan_step m os = Some o1" "scan ms o1 = Some o'" by (auto split: option.splits)
  show ?case
  proof (cases "kept_message m")
    case True
    with Cons.IH[OF o1(2)] o1(1) show ?thesis by simp
  next
    case False
    have "msg_role m \<noteq> ToolRole"
    proof
      assume t: "msg_role m = ToolRole"
      with o1(1) have "truthy (msg_tool_call_id m)" by (auto simp: scan_step.simps split: option.splits if_splits)
      with t False show False by (simp add: kept_message_def)
    qed
    with False have "msg_role m = System" by (cases "msg_role m") (auto simp: kept_message_def)
    with o1(1) have "os = o1" by (auto simp: scan_step.simps split: if_splits)
    with Cons.IH[OF o1(2)] False show ?thesis by simp
  qed
qed simp

lemma extract_conversation: "conversation_ok (rep_messages rep) \<Longrightarrow> conversation_ok (extract_messages rep)"
  by (simp add: conversation_ok_def extract_messages_def scan_remade scan_kept)

section \<open>Storing\<close>

lemma with_desk_store: "with_desk m s = (r, s') \<Longrightarrow> se_store s' = se_store s \<and> m (se_desk s) = (r, se_desk s')"
  by (auto simp: with_desk_def split: prod.splits)

context session_store
begin

lemma timed_cases:
  assumes "timed X f s = (r, s')"
  shows "se_store s' = se_store s \<or> (\<exists>now. f now (se_store s) = Inr (se_store s'))"
    "r = Inr a \<Longrightarrow> \<exists>now. f now (se_store s) = Inr (se_store s')"
  using assms by (auto simp: timed_def ebind_def in_store_def ask_def with_desk_def on_world_def
      split: prod.splits sum.splits)

lemma timed_desk: "timed X f s = (r, s') \<Longrightarrow> \<exists>w. se_desk s' = (se_desk s)\<lparr>rt_world := w\<rparr>"
  by (auto simp: timed_def ebind_def in_store_def ask_def with_desk_def on_world_def split: prod.splits sum.splits)

text \<open>What is stored of a report: its messages when it is completed, and nothing else changes.\<close>

lemma persist_stores:
  assumes i: "inv (se_store s)" and p: "persist_report X ops S rep s = (r, s')"
  shows "inv (se_store s') \<and> (\<forall>k. k \<noteq> se_id S \<longrightarrow> hist (se_store s') k = hist (se_store s) k) \<and>
    (hist (se_store s') (se_id S) = hist (se_store s) (se_id S) \<or>
     rep_status rep = Completed \<and> hist (se_store s') (se_id S) = map load (extract_messages rep)) \<and>
    (\<forall>rep'. r = Inr rep' \<longrightarrow> rep' = rep \<and> hist (se_store s') (se_id S) =
       (if rep_status rep = Completed then map load (extract_messages rep) else hist (se_store s) (se_id S)))"
proof (cases "rep_status rep = Completed")
  case True
  obtain r1 s1 where 1: "timed X (ss_replace ops (se_id S) (extract_messages rep)) s = (r1, s1)" by fastforce
  obtain r2 s2 where 2: "timed X (ss_update ops (se_id S) None) s1 = (r2, s2)" by fastforce
  note rep1 = timed_cases(1)[OF 1] and rep2 = timed_cases(1)[OF 2]
  have h1: "inv (se_store s1)" "\<forall>k. k \<noteq> se_id S \<longrightarrow> hist (se_store s1) k = hist (se_store s) k"
    "hist (se_store s1) (se_id S) = hist (se_store s) (se_id S) \<or> hist (se_store s1) (se_id S) = map load (extract_messages rep)"
    using rep1 replace[OF i] i by auto
  have h2: "inv (se_store s2)" "hist (se_store s2) = hist (se_store s1)"
    using rep2 update[OF h1(1)] h1(1) by auto
  have done1: "hist (se_store s1) (se_id S) = map load (extract_messages rep)" if "r1 = Inr u" for u
    using timed_cases(2)[OF 1 that] replace[OF i] by auto
  from p True 1 2 show ?thesis
    using h1 h2 done1 by (cases r1; cases r2) (auto simp: persist_report_def eseq_def ebind_def ret_def)
next
  case False
  with p i show ?thesis by (auto simp: persist_report_def eseq_def ebind_def ret_def)
qed

end

section \<open>The life of a session\<close>

lemma ebind_run:
  "m s = (Inr a, s1) \<Longrightarrow> ebind m f s = f a s1" "m s = (Inl e, s1) \<Longrightarrow> ebind m f s = (Inl e, s1)"
  by (simp_all add: ebind_def)

lemma arun_with_new_id:
  assumes r: "desk_arun D X r j stream None s = (Inr rep, s')" and n: "x_new_id X (rt_world s) = (rid, w)" "rid \<noteq> []"
  shows "desk_arun D X r j stream (Some rid) (s\<lparr>rt_world := w\<rparr>) = (Inr rep, s')"
proof -
  have opn: "ensure_open s = (if dk_closed s then (Inl (Exc ''RuntimeError'' ''Desk is closed''), s) else (Inr (), s))"
    for s :: "('st, 'm, 'u) desk_world_scheme desk_state"
    by (simp add: ensure_open_def ebind_def gets_def raise_def ret_def)
  have ask: "ask (x_new_id X) s = (Inr rid, s\<lparr>rt_world := w\<rparr>)" by (simp add: ask_def on_world_def n)
  have "\<not> dk_closed s" using r by (auto simp: desk_arun_def eseq_def opn ebind_run(2))
  then show ?thesis
    using r n ask by (simp add: desk_arun_def eseq_def opn ebind_run(1) the_run_id_def ret_def)
qed

lemma arun_history:
  assumes D: "leaves_store D X" "good_ids X" and s: "sql_inv (stored s)" "conversation_ok (initial_messages j)"
    and r: "desk_arun D X (RWorker m) j stream None s = (Inr rep, s')"
  shows "\<exists>rid. worker_history D X rid rep s'"
proof -
  obtain rid w where n: "x_new_id X (rt_world s) = (rid, w)" by fastforce
  have "rid \<noteq> []" using D(2) n by (auto simp: good_ids_def) (metis fst_conv)
  moreover have "dw_store w = stored s"
    using D(1) world_moves.new_id[of same_store X "rt_world s"] n
    by (auto simp: leaves_store_def same_store_def force_moves_def)
  ultimately show ?thesis
    using worker_history.started[OF _ _ s(2) arun_with_new_id[OF r n]] s(1) by auto
qed

text \<open>The histories of one session: it is opened where it has no messages, runs, streamed or not, are
  started and resumed in it, whether they return or raise, and it is deleted; in between everything else
  may change, but for its messages.  A run is resumed with the report it paused with.\<close>

inductive session_life ::
  "(sql_store, 'm, 'u) desk \<Rightarrow> ((sql_store, 'm, 'u) desk_world_scheme, 'x) force_ext_scheme \<Rightarrow> string \<Rightarrow>
   ((sql_store, 'm, 'u) desk_world_scheme, sql_sessions) session_state \<Rightarrow> bool" for D X sid where
  opened: "sql_history (se_store st) sid = [] \<Longrightarrow>
    session_open X sql_session_ops sid m md create st = (r, st') \<Longrightarrow> session_life D X sid st'"
| ran: "session_life D X sid st \<Longrightarrow> se_id S = sid \<Longrightarrow> sql_inv (stored (se_desk st)) \<Longrightarrow>
    session_arun D X sql_session_ops S j stream st = (r, st') \<Longrightarrow> session_life D X sid st'"
| streamed: "session_life D X sid st \<Longrightarrow> se_id S = sid \<Longrightarrow> sql_inv (stored (se_desk st)) \<Longrightarrow>
    session_stream_run D X sql_session_ops S j h st = (r, st') \<Longrightarrow> session_life D X sid st'"
| resumed: "session_life D X sid st \<Longrightarrow> se_id S = sid \<Longrightarrow>
    worker_history D X rid rep (se_desk st) \<Longrightarrow> rep_status rep = Paused \<Longrightarrow> rep_run_id rep = rid \<Longrightarrow>
    session_aresume D X sql_session_ops fl S rep d stream st = (r, st') \<Longrightarrow> session_life D X sid st'"
| deleted: "session_life D X sid st \<Longrightarrow> se_id S = sid \<Longrightarrow>
    session_delete sql_session_ops S st = (r, st') \<Longrightarrow> session_life D X sid st'"
| elsewhere: "session_life D X sid st \<Longrightarrow> sql_history (se_store st') sid = sql_history (se_store st) sid \<Longrightarrow>
    session_life D X sid st'"

text \<open>The job a session builds, and the persisting of a run's result.\<close>

definition session_job :: "message list \<Rightarrow> job \<Rightarrow> job" where
  "session_job ms j = j\<lparr>job_initial_messages := (if ms \<noteq> [] then Some ms else None)\<rparr>"

lemma session_job_conversation: "conversation_ok ms \<Longrightarrow> conversation_ok (initial_messages (session_job ms j))"
  by (simp add: session_job_def initial_messages_def)

lemma run_build_job:
  "ebind (build_job sql_session_ops S j) f st = f (session_job (sql_history (se_store st) (se_id S)) j) st"
  by (simp add: build_job_def session_history_def read_store_def ebind_def gets_def from_sum_def ret_def
      sql_sn.messages session_job_def)

lemma persisted_conversation:
  assumes "conversation_ok (sql_history (se_store st) (se_id S))"
    and "rep_status rep = Completed \<longrightarrow> conversation_ok (rep_messages rep)"
    and "persist_report X sql_session_ops S rep st = (r, st')"
  shows "conversation_ok (sql_history (se_store st') (se_id S))"
  using sql_sn.persist_stores[OF TrueI assms(3)] assms(1,2) extract_conversation conversation_ok_reload by metis

lemma open_history:
  assumes "sql_history (se_store st) sid = []" "session_open X sql_session_ops sid m md create st = (r, st')"
  shows "sql_history (se_store st') sid = []"
proof -
  have timed: "sql_history (se_store s1) sid = []" if "timed X (ss_create sql_session_ops sid w md) st = (q, s1)"
    "sql_entries (se_store st) sid = None" for w q s1
    using sql_sn.timed_cases(1)[OF that(1)] sql_sn.create[OF TrueI that(2)] assms(1) by auto
  show ?thesis
    using assms timed
    by (cases "sql_entries (se_store st) sid")
      (auto simp: session_open_def read_store_def ebind_def gets_def from_sum_def eseq_def ret_def raise_def sql_sn.get
        split: if_splits prod.splits sum.splits)
qed

lemma after_desk:
  "ebind (with_desk m) f st = (case m (se_desk st) of
     (Inl e, d) \<Rightarrow> (Inl e, st\<lparr>se_desk := d\<rparr>) | (Inr a, d) \<Rightarrow> f a (st\<lparr>se_desk := d\<rparr>))"
  by (auto simp: ebind_def with_desk_def split: prod.split sum.split)

lemma arun_conversation:
  assumes D: "leaves_store D X" "ds_store D = sql_ops (reload_state P resolve)" "good_ids X"
    and st: "sql_inv (stored (se_desk st))" "conversation_ok (sql_history (se_store st) (se_id S))"
    and r: "session_arun D X sql_session_ops S j stream st = (r, st')"
  shows "conversation_ok (sql_history (se_store st') (se_id S))"
proof -
  let ?j = "session_job (sql_history (se_store st) (se_id S)) j"
  obtain q d where q: "desk_arun D X (RWorker (se_worker S)) ?j (Some stream) None (se_desk st) = (q, d)" by fastforce
  show ?thesis
  proof (cases q)
    case (Inl e)
    with r q st(2) show ?thesis by (auto simp: session_arun_def run_build_job after_desk)
  next
    case (Inr rep)
    from arun_history[OF D(1,3) st(1) session_job_conversation[OF st(2)] q[unfolded Inr]]
    obtain rid where "worker_history D X rid rep d" by blast
    with worker_history_facts[OF D(2,1,3)] have "rep_status rep = Completed \<longrightarrow> conversation_ok (rep_messages rep)" by blast
    with persisted_conversation[of "st\<lparr>se_desk := d\<rparr>" S rep X r st'] r q Inr st(2) show ?thesis
      by (simp add: session_arun_def run_build_job after_desk)
  qed
qed

lemma stream_conversation:
  assumes D: "leaves_store D X" "ds_store D = sql_ops (reload_state P resolve)" "good_ids X"
    and st: "sql_inv (stored (se_desk st))" "conversation_ok (sql_history (se_store st) (se_id S))"
    and r: "session_stream_run D X sql_session_ops S j h st = (r, st')"
  shows "conversation_ok (sql_history (se_store st') (se_id S))"
proof -
  let ?j = "session_job (sql_history (se_store st) (se_id S)) j"
  obtain rid w where n: "x_new_id X (rt_world (se_desk st)) = (rid, w)" by fastforce
  let ?d = "(se_desk st)\<lparr>rt_world := bus_subscribe ''*'' (h rid) w\<rparr>"
  have rid: "rid \<noteq> []" using D(3) n by (auto simp: good_ids_def) (metis fst_conv)
  have "dw_store w = stored (se_desk st)"
    using D(1) world_moves.new_id[of same_store X "rt_world (se_desk st)"] n
    by (auto simp: leaves_store_def same_store_def force_moves_def)
  then have inv: "sql_inv (stored ?d)" using st(1) by (simp add: bus_subscribe_def)
  obtain q d where q: "desk_arun D X (RWorker (se_worker S)) ?j (Some True) (Some rid) ?d = (q, d)" by fastforce
  define st1 where "st1 = st\<lparr>se_desk := d\<lparr>rt_world := bus_unsubscribe ''*'' (h rid) (rt_world d)\<rparr>\<rparr>"
  have run: "session_stream_run D X sql_session_ops S j h st =
      (case q of Inr rep \<Rightarrow> persist_report X sql_session_ops S rep st1 | Inl e \<Rightarrow> (Inl e, st1))"
    using q by (simp add: session_stream_run_def run_build_job eseq_def after_desk ask_def on_world_def n modify_def
        attempt_def st1_def raise_def split: sum.split)
  show ?thesis
  proof (cases q)
    case (Inl e)
    with r run st(2) show ?thesis by (auto simp: st1_def)
  next
    case (Inr rep)
    from worker_history.started[OF inv rid session_job_conversation[OF st(2)] q[unfolded Inr]]
    have "rep_status rep = Completed \<longrightarrow> conversation_ok (rep_messages rep)"
      using worker_history_facts[OF D(2,1,3)] by blast
    with persisted_conversation[of st1 S rep X r st'] r run Inr st(2) show ?thesis by (simp add: st1_def)
  qed
qed

lemma aresume_conversation:
  assumes D: "leaves_store D X" "ds_store D = sql_ops (reload_state P resolve)" "good_ids X"
    and st: "conversation_ok (sql_history (se_store st) (se_id S))"
    and w: "worker_history D X rid rep (se_desk st)" "rep_status rep = Paused" "rep_run_id rep = rid"
    and r: "session_aresume D X sql_session_ops fl S rep d stream st = (r, st')"
  shows "conversation_ok (sql_history (se_store st') (se_id S))"
proof -
  obtain q s where q: "desk_aresume D X fl rep d stream (se_desk st) = (q, s)" by fastforce
  show ?thesis
  proof (cases q)
    case (Inl e)
    with r q st show ?thesis by (auto simp: session_aresume_def after_desk)
  next
    case (Inr rep')
    from worker_history.resumed[OF w q[unfolded Inr]]
    have "rep_status rep' = Completed \<longrightarrow> conversation_ok (rep_messages rep')"
      using worker_history_facts[OF D(2,1,3)] by blast
    with persisted_conversation[of "st\<lparr>se_desk := s\<rparr>" S rep' X r st'] r q Inr st show ?thesis
      by (simp add: session_aresume_def after_desk)
  qed
qed

section \<open>A concrete session\<close>

definition demo_session :: session where
  "demo_session = \<lparr>se_id = ''s'', se_worker = demo_member\<rparr>"

definition session_demo :: "((sql_store, mem_memory, script) desk_world_scheme, sql_sessions) session_state" where
  "session_demo =
     \<lparr>se_desk = sql_start [say ''bye''], se_store = \<lparr>sn_rows = [], sn_message_rows = []\<rparr>\<rparr>"

definition session_opened :: "((sql_store, mem_memory, script) desk_world_scheme, sql_sessions) session_state" where
  "session_opened = snd (session_open demo_externals sql_session_ops ''s'' demo_member None True session_demo)"

lemmas demo_session_defs = session_arun_def build_job_def session_history_def read_store_def with_desk_def
  persist_report_def timed_def in_store_def session_open_def ask_def on_world_def from_sum_def
  ebind_def eseq_def ret_def gets_def demo_session_def session_demo_def

lemma session_opened_simp [simp]:
  "session_opened = session_demo\<lparr>se_store := \<lparr>sn_rows = [new_session ''s'' ''w'' (Some []) 0], sn_message_rows = []\<rparr>\<rparr>"
  by (simp add: session_opened_def demo_session_defs sql_session_ops_def sql_get_session_def sql_create_session_def
      json_column_def str_strip_def is_space_def demo_worker_def)

lemma session_demo_completes:
  "\<exists>rep st'. session_arun sql_desk demo_externals sql_session_ops demo_session demo_job False session_opened = (Inr rep, st') \<and>
     rep_status rep = Completed \<and> map msg_role (sql_history (se_store st') ''s'') = [User, Assistant]"
  by (simp add: demo_session_defs desk_defs scenario_defs dict_get_or_def validate_execution_limits_def sql_start_def
      sql_empty_def sql_create_run_def sql_add_event_def sql_update_run_def sql_serialize_def char_of_eq_iff
      tool_call_summaries_def content_value_def model_name_def sql_session_ops_def sql_get_messages_def
      sql_replace_messages_def sql_update_session_def new_session_def touched_def sql_history_def message_rows_of
      same_time_sorted extract_messages_def kept_message_def is_summary_def build_messages_def system_message_def
      render_input_def demo_job_def mk_message_def reload_message_def comp_def message_rows_def
      del: One_nat_def cong: run_weak_cong)

lemma session_demo_life:
  assumes "session_arun sql_desk demo_externals sql_session_ops demo_session demo_job False session_opened = (r, st')"
  shows "session_life sql_desk demo_externals ''s'' st'"
proof -
  obtain r0 where opn: "session_open demo_externals sql_session_ops ''s'' demo_member None True session_demo = (r0, session_opened)"
    by (metis prod.collapse session_opened_def)
  have "session_life sql_desk demo_externals ''s'' session_opened"
    by (rule session_life.opened[OF _ opn]) (simp add: session_demo_def sql_history_def)
  from session_life.ran[OF this _ _ assms] show ?thesis
    by (simp add: demo_session_def session_demo_def sql_start_def sql_empty_def sql_inv_def)
qed

text \<open>
  C30: The history of a session is at any time a conversation a provider accepts: every tool call in it
  is answered and nothing else is, however its runs, blocking, streamed or resumed, end, be it with
  an exception while the report is being stored.
\<close>

theorem session_keeps_conversation:
  assumes "leaves_store D X" "ds_store D = sql_ops (reload_state P resolve)" "good_ids X"
    and "session_life D X sid st"
  shows "conversation_ok (sql_history (se_store st) sid)"
  using assms(4)
proof induction
  case (opened st m md create r st')
  then show ?case using open_history[OF opened] by simp
next
  case (ran st S j stream r st')
  from arun_conversation[OF assms(1-3) ran(3)] ran show ?case by blast
next
  case (streamed st S j h r st')
  from stream_conversation[OF assms(1-3) streamed(3)] streamed show ?case by blast
next
  case (resumed st S rid rep fl d stream r st')
  from aresume_conversation[OF assms(1-3) _ resumed(3-5)] resumed show ?case by blast
next
  case (deleted st S r st')
  have "se_store st' = se_store st \<or> ss_delete sql_session_ops sid (se_store st) = Inr (se_store st')"
    using deleted(2,3) by (auto simp: session_delete_def in_store_def split: sum.splits)
  then show ?case using sql_sn.delete[OF TrueI] deleted(4) by auto
next
  case (elsewhere st st')
  then show ?case by simp
qed

theorem session_keeps_conversation_witness:
  "\<exists>rep st'. session_arun sql_desk demo_externals sql_session_ops demo_session demo_job False session_opened = (Inr rep, st') \<and>
     length (sql_history (se_store st') ''s'') = 2 \<and> conversation_ok (sql_history (se_store st') ''s'')"
proof -
  from session_demo_completes obtain rep st' where
    r: "session_arun sql_desk demo_externals sql_session_ops demo_session demo_job False session_opened = (Inr rep, st')"
    and h: "map msg_role (sql_history (se_store st') ''s'') = [User, Assistant]" by (elim exE conjE)
  from session_keeps_conversation[OF sql_desk_leaves sql_desk_simps(1) demo_externals_ids session_demo_life[OF r]]
  have "conversation_ok (sql_history (se_store st') ''s'')" .
  with r arg_cong[OF h, of length] show ?thesis by simp
qed

text \<open>
  C31: A run in a session starts with the session's history and leaves, when it completes, the messages
  of its report as the history, without system messages but for summaries and without the reasoning of
  the answers; where it fails or pauses the history stays.  Other sessions are left alone.
\<close>

theorem session_run_remembered:
  assumes "session_arun D X sql_session_ops S j stream st = (Inr rep, st')"
  shows "(\<exists>d. desk_arun D X (RWorker (se_worker S)) (session_job (sql_history (se_store st) (se_id S)) j) (Some stream) None
        (se_desk st) = (Inr rep, d)) \<and>
    sql_history (se_store st') (se_id S) =
      (if rep_status rep = Completed then map reload_message (extract_messages rep)
       else sql_history (se_store st) (se_id S)) \<and>
    (\<forall>k. k \<noteq> se_id S \<longrightarrow> sql_history (se_store st') k = sql_history (se_store st) k)"
proof -
  let ?j = "session_job (sql_history (se_store st) (se_id S)) j"
  obtain q d where q: "desk_arun D X (RWorker (se_worker S)) ?j (Some stream) None (se_desk st) = (q, d)" by fastforce
  with assms obtain rep' where q': "q = Inr rep'" "persist_report X sql_session_ops S rep' (st\<lparr>se_desk := d\<rparr>) = (Inr rep, st')"
    by (cases q) (auto simp: session_arun_def run_build_job after_desk)
  from sql_sn.persist_stores[OF TrueI q'(2)] q q'(1) show ?thesis by auto
qed

theorem session_run_remembered_witness:
  "\<exists>rep st'. session_arun sql_desk demo_externals sql_session_ops demo_session demo_job False session_opened = (Inr rep, st') \<and>
     sql_history (se_store st') ''s'' = map reload_message (extract_messages rep)"
proof -
  from session_demo_completes obtain rep st' where
    r: "session_arun sql_desk demo_externals sql_session_ops demo_session demo_job False session_opened = (Inr rep, st')"
    and c: "rep_status rep = Completed" by (elim exE conjE)
  have "sql_history (se_store st') (se_id demo_session) = map reload_message (extract_messages rep)"
    using session_run_remembered[OF r] c by simp
  with r show ?thesis by (auto simp: demo_session_def)
qed

end
