(* ===== verification/Adapter.thy ===== *)
theory Adapter
  imports Completion
begin

text \<open>
  The adapter over litellm (\<^verbatim>\<open>adapters/litellm.py\<close>, \<^verbatim>\<open>adapters/litellm_callbacks.py\<close>): how a request
  becomes the parameters of \<open>litellm.completion\<close>, how an answer is read, what happens where a provider
  does not take a response format, the attempts of a structured completion and the events that report
  each call.  litellm and instructor are arguments (\<open>litellm\<close>): a call gives an answer or an exception.
  Contents are strings or null and thinking blocks lists of dictionaries, as litellm documents them.
  The set-up of litellm's logging and its clean-up at exit are left out.
\<close>

section \<open>What is called\<close>

text \<open>\<open>lm_completion\<close> is \<open>acompletion\<close> where the flag is set; \<open>lm_instructor\<close> a call of the client of a
  model, with the value and the answer it was read from; \<open>lm_chunks\<close> what iterating over an answer
  gives, if it can be iterated.\<close>

record 'w litellm =
  lm_completion :: "bool \<Rightarrow> pyval dict \<Rightarrow> 'w \<Rightarrow> (exc + pyval) \<times> 'w"
  lm_instructor :: "bool \<Rightarrow> string \<Rightarrow> pyval list \<Rightarrow> schema \<Rightarrow> pyval dict \<Rightarrow> 'w \<Rightarrow> (exc + pyval \<times> pyval) \<times> 'w"
  lm_cost :: "pyval \<Rightarrow> pyval option"
  lm_model_cost :: pyval
  lm_chunks :: "pyval \<Rightarrow> (pyval list \<times> exc option) option"
  lm_time :: "'w \<Rightarrow> rat \<times> 'w"
  lm_json_schema :: "schema \<Rightarrow> pyval option"
  lm_schema_name :: "schema \<Rightarrow> string"
  lm_indented :: "pyval \<Rightarrow> string"

text \<open>The state of a call: the world, the events reported, and the \<open>callback_context\<close>: whether it is set,
  and the time it was started at.\<close>

record 'w ad =
  ad_world :: 'w
  ad_callbacks :: "callback list"
  ad_context :: bool
  ad_start :: "rat option"
  ad_usage :: "pyval dict"

definition ad_ask :: "('w \<Rightarrow> 'a \<times> 'w) \<Rightarrow> (('w, 'z) ad_scheme, 'a) eff" where
  "ad_ask f s = (case f (ad_world s) of (a, w) \<Rightarrow> (Inr a, s\<lparr>ad_world := w\<rparr>))"

definition ad_try :: "('w \<Rightarrow> (exc + 'a) \<times> 'w) \<Rightarrow> (('w, 'z) ad_scheme, 'a) eff" where
  "ad_try f s = (case f (ad_world s) of (r, w) \<Rightarrow> (r, s\<lparr>ad_world := w\<rparr>))"

definition report_event :: "event_type \<Rightarrow> pyval dict \<Rightarrow> (('w, 'z) ad_scheme, unit) eff" where
  "report_event ty payload =
     modify (\<lambda>s. s\<lparr>ad_callbacks := ad_callbacks s @ [(ty, ''litellm_adapter'', payload)]\<rparr>)"

section \<open>\<^verbatim>\<open>litellm_callbacks.py\<close>\<close>

text \<open>\<open>int(q)\<close>.\<close>

definition truncate_rat :: "rat \<Rightarrow> int" where
  "truncate_rat q = (if 0 \<le> q then \<lfloor>q\<rfloor> else \<lceil>q\<rceil>)"

text \<open>Times are those of \<open>time.time()\<close>; \<open>now\<close> is read where there is no end.\<close>

definition compute_latency_ms :: "rat option \<Rightarrow> rat option \<Rightarrow> rat option \<Rightarrow> rat \<Rightarrow> int" where
  "compute_latency_ms start_time end_time fallback_start now =
     (let start1 = (case start_time of None \<Rightarrow> fallback_start | Some t \<Rightarrow> Some t);
          end1 = (case end_time of None \<Rightarrow> now | Some t \<Rightarrow> t);
          start2 = (case start1 of None \<Rightarrow> end1 | Some t \<Rightarrow> t)
      in truncate_rat ((end1 - start2) * 1000))"

definition in_context :: "(('w, 'z) ad_scheme, unit) eff \<Rightarrow> (('w, 'z) ad_scheme, unit) eff" where
  "in_context m = ebind (gets ad_context) (\<lambda>b. if b then m else ret ())"

definition emit_llm_started :: "'w litellm \<Rightarrow> string \<Rightarrow> nat \<Rightarrow> nat \<Rightarrow> (('w, 'z) ad_scheme, unit) eff" where
  "emit_llm_started L model messages_count tools_count =
     in_context
       (ebind (ad_ask (lm_time L)) (\<lambda>t.
        eseq (modify (\<lambda>s. s\<lparr>ad_start := Some t\<rparr>))
        (report_event LLMStarted
          [(''model'', PStr model), (''messages_count'', PInt (int messages_count)),
           (''tools_count'', PInt (int tools_count))])))"

definition latency :: "'w litellm \<Rightarrow> (('w, 'z) ad_scheme, int) eff" where
  "latency L =
     ebind (gets ad_start) (\<lambda>start.
     ebind (ad_ask (lm_time L)) (\<lambda>t. ret (compute_latency_ms start (Some t) None t)))"

text \<open>\<open>hasattr(v, key)\<close>.\<close>

definition has_attr :: "pyval \<Rightarrow> string \<Rightarrow> bool" where
  "has_attr v key \<longleftrightarrow>
     (case v of
        PData c fs \<Rightarrow> key \<in> fst ` set fs
      | PModel c (PDict d) \<Rightarrow> key \<in> fst ` set d
      | _ \<Rightarrow> False)"

definition dumped_usage :: "pyval \<Rightarrow> pyval dict" where
  "dumped_usage v = (case v of PDict d \<Rightarrow> d | PModel c (PDict d) \<Rightarrow> d | _ \<Rightarrow> [])"

definition completed_usage :: "pyval \<Rightarrow> pyval dict" where
  "completed_usage response =
     (if has_attr response ''usage'' then dumped_usage (get_attr response ''usage'')
      else case response of
        PDict d \<Rightarrow> dumped_usage (let u = dict_get_or d ''usage'' (PDict []) in if py_bool u then u else PDict [])
      | _ \<Rightarrow> [])"

definition emit_llm_completed :: "'w litellm \<Rightarrow> string \<Rightarrow> pyval \<Rightarrow> (('w, 'z) ad_scheme, unit) eff" where
  "emit_llm_completed L model response =
     in_context
       (ebind (latency L) (\<lambda>ms.
        let usage = completed_usage response;
            tokens = (if usage \<noteq> []
              then [(''prompt_tokens'', dict_get_or usage ''prompt_tokens'' (PInt 0)),
                    (''completion_tokens'', dict_get_or usage ''completion_tokens'' (PInt 0)),
                    (''total_tokens'', dict_get_or usage ''total_tokens'' (PInt 0))]
              else []);
            cost = (case lm_cost L response of Some c \<Rightarrow> if c = PNone then [] else [(''cost'', c)] | None \<Rightarrow> [])
        in report_event LLMCompleted
             ([(''model'', PStr model), (''latency_ms'', PInt ms)] @ tokens @ cost)))"

definition emit_llm_failed :: "'w litellm \<Rightarrow> string \<Rightarrow> exc option \<Rightarrow> (('w, 'z) ad_scheme, unit) eff" where
  "emit_llm_failed L model e =
     in_context
       (ebind (latency L) (\<lambda>ms.
        report_event LLMFailed
          [(''model'', PStr model),
           (''error_type'', PStr (case e of Some x \<Rightarrow> exc_class x | None \<Rightarrow> ''UnknownError'')),
           (''error_message'', PStr (case e of Some x \<Rightarrow> exc_msg x | None \<Rightarrow> ''Unknown error'')),
           (''latency_ms'', PInt ms)]))"

section \<open>Reading an answer\<close>

text \<open>\<open>_get\<close>.\<close>

definition py_get :: "pyval \<Rightarrow> string \<Rightarrow> pyval \<Rightarrow> pyval" where
  "py_get v key dflt =
     (case v of
        PDict d \<Rightarrow> dict_get_or d key dflt
      | _ \<Rightarrow> if has_attr v key then get_attr v key else dflt)"

definition response_usage :: "pyval \<Rightarrow> pyval dict" where
  "response_usage response =
     (let u = py_get response ''usage'' (PDict [])
      in dumped_usage (if py_bool u then u else PDict []))"

definition response_message :: "pyval \<Rightarrow> exc + pyval" where
  "response_message response =
     (let choices = py_get response ''choices'' (PList [])
      in if py_bool choices
         then map_sum id (\<lambda>c. py_get c ''message'' PNone) (first_choice choices)
         else Inr PNone)"

definition message_field :: "pyval \<Rightarrow> string \<Rightarrow> pyval" where
  "message_field m key = (if py_bool m then py_get m key PNone else PNone)"

definition response_content :: "pyval \<Rightarrow> exc + pyval" where
  "response_content response = map_sum id (\<lambda>m. message_field m ''content'') (response_message response)"

definition call_like :: "pyval \<Rightarrow> bool" where
  "call_like c \<longleftrightarrow> (case c of PDict d \<Rightarrow> True | _ \<Rightarrow> has_attr c ''function'' \<or> has_attr c ''id'')"

definition function_like :: "pyval \<Rightarrow> bool" where
  "function_like f \<longleftrightarrow> (case f of PDict d \<Rightarrow> True | _ \<Rightarrow> has_attr f ''name'' \<or> has_attr f ''arguments'')"

definition missing_name :: "string option \<Rightarrow> string" where
  "missing_name e =
     (case e of None \<Rightarrow> ''Missing tool name'' | Some x \<Rightarrow> ''Missing tool name; '' @ x)"

text \<open>A call with the identifier it is given.\<close>

definition parsed_call :: "pytext \<Rightarrow> pyval \<Rightarrow> string \<Rightarrow> tool_call" where
  "parsed_call P call i =
     (let function0 = py_get call ''function'' (PDict []);
          function = (if function_like function0 then function0 else PDict []);
          name = (case py_get function ''name'' PNone of PStr s \<Rightarrow> str_strip s | _ \<Rightarrow> []);
          (arguments, error) = parse_tool_arguments P (py_get function ''arguments'' PNone) 100
      in \<lparr>tc_id = i, tc_name = name, tc_arguments = arguments, tc_result = PNone,
          tc_error = (if name = [] then Some (missing_name error) else error)\<rparr>)"

definition given_id :: "pyval \<Rightarrow> string option" where
  "given_id call = (case py_get call ''id'' PNone of PStr s \<Rightarrow> if s = [] then None else Some s | _ \<Rightarrow> None)"

definition parse_tool_call ::
  "('w, 'x) run_ext_scheme \<Rightarrow> pyval \<Rightarrow> (('w, 'z) ad_scheme, tool_call) eff" where
  "parse_tool_call X call =
     ebind (case given_id call of Some i \<Rightarrow> ret i | None \<Rightarrow> ad_ask (x_new_id X)) (\<lambda>i.
     ret (parsed_call (x_text X) call i))"

definition parse_tool_calls ::
  "('w, 'x) run_ext_scheme \<Rightarrow> pyval \<Rightarrow> (('w, 'z) ad_scheme, tool_call list) eff" where
  "parse_tool_calls X m =
     (let v = py_get m ''tool_calls'' (PList [])
      in case (if py_bool v then v else PList []) of
           PList calls \<Rightarrow> collect (parse_tool_call X) (filter call_like calls)
         | _ \<Rightarrow> ret [])"

definition text_or_none :: "pyval \<Rightarrow> string option" where
  "text_or_none v = (case v of PStr s \<Rightarrow> Some s | _ \<Rightarrow> None)"

definition blocks_or_none :: "pyval \<Rightarrow> pyval dict list option" where
  "blocks_or_none v =
     (case v of PList bs \<Rightarrow> those (map (\<lambda>b. case b of PDict d \<Rightarrow> Some d | _ \<Rightarrow> None) bs) | _ \<Rightarrow> None)"

definition parse_response ::
  "('w, 'x) run_ext_scheme \<Rightarrow> pyval \<Rightarrow> (('w, 'z) ad_scheme, model_response) eff" where
  "parse_response X response =
     ebind (from_sum (response_message response)) (\<lambda>m.
     ebind (if py_bool m then parse_tool_calls X m else ret []) (\<lambda>calls.
     ret \<lparr>mr_content = text_or_none (message_field m ''content''),
          mr_reasoning = text_or_none (message_field m ''reasoning_content''),
          mr_thinking = blocks_or_none (message_field m ''thinking_blocks''),
          mr_tool_calls = calls, mr_usage = PDict (response_usage response)\<rparr>))"

section \<open>The parameters of a call\<close>

definition response_format :: "'w litellm \<Rightarrow> schema \<Rightarrow> pyval option" where
  "response_format L sch =
     map_option (\<lambda>js. PDict [(''type'', PStr ''json_schema''),
         (''json_schema'', PDict [(''name'', PStr (lm_schema_name L sch)), (''schema'', js),
                                  (''strict'', PBool True)])])
       (lm_json_schema L sch)"

definition model_candidates :: "string \<Rightarrow> string list" where
  "model_candidates model =
     (let parts = str_split (CHR ''/'') model
      in model # (if length parts > 1
                  then map (\<lambda>i. str_join ''/'' (drop i parts)) [1..<length parts] else []))"

fun first_supported :: "pyval dict \<Rightarrow> string list \<Rightarrow> bool" where
  "first_supported costs [] = False"
| "first_supported costs (m # ms) =
     (case dict_get costs m of
        Some (PDict info) \<Rightarrow>
          (case dict_get info ''supports_parallel_function_calling'' of
             Some (PBool b) \<Rightarrow> b
           | _ \<Rightarrow> first_supported costs ms)
      | _ \<Rightarrow> first_supported costs ms)"

definition supports_parallel_function_calling :: "'w litellm \<Rightarrow> string \<Rightarrow> bool" where
  "supports_parallel_function_calling L model =
     (case lm_model_cost L of PDict d \<Rightarrow> first_supported d (model_candidates model) | _ \<Rightarrow> False)"

definition given :: "string \<Rightarrow> pyval \<Rightarrow> pyval dict" where
  "given key v = (if v = PNone then [] else [(key, v)])"

definition build_litellm_params :: "'w litellm \<Rightarrow> request \<Rightarrow> pyval dict" where
  "build_litellm_params L rq =
     (let tools = (case rq_tools rq of Some ts \<Rightarrow> ts | None \<Rightarrow> []);
          fmt = (case rq_schema rq of Some sch \<Rightarrow> response_format L sch | None \<Rightarrow> None)
      in [(''model'', PStr (rq_model rq)), (''messages'', PList (rq_messages rq)),
          (''stream'', PBool (rq_stream rq))] @
         (case fmt of Some f \<Rightarrow> [(''response_format'', f)] | None \<Rightarrow> []) @
         (if tools \<noteq> []
          then (''tools'', PList tools) #
               (case rq_tool_choice rq of Some c \<Rightarrow> [(''tool_choice'', PStr c)] | None \<Rightarrow> [])
          else []) @
         given ''temperature'' (rat_value (rq_temperature rq)) @
         given ''max_tokens'' (int_value (rq_max_tokens rq)) @
         (if rq_stream rq then given ''stream_options'' (dict_value (rq_stream_options rq)) else []) @
         given ''thinking'' (dict_value (rq_thinking rq)) @
         given ''drop_params'' (bool_value (rq_drop_params rq)) @
         given ''extra_body'' (dict_value (rq_extra_body rq)) @
         given ''num_retries'' (int_value (rq_num_retries rq)) @
         (if tools \<noteq> [] \<and> supports_parallel_function_calling L (rq_model rq)
          then [(''parallel_tool_calls'', PBool True)] else []))"

definition error_has :: "string list \<Rightarrow> exc \<Rightarrow> bool" where
  "error_has markers e \<longleftrightarrow> list_ex (\<lambda>k. str_contains k (str_lower (exc_msg e))) markers"

definition is_json_schema_unavailable_error :: "exc \<Rightarrow> bool" where
  "is_json_schema_unavailable_error =
     error_has [''response_format type is unavailable'', ''json_schema is not supported'',
       ''json schema is not supported'', ''does not support json_schema'']"

definition is_response_format_unsupported_error :: "exc \<Rightarrow> bool" where
  "is_response_format_unsupported_error e \<longleftrightarrow>
     is_json_schema_unavailable_error e \<or>
     error_has [''response_format unsupported'', ''unsupported response_format'',
       ''does not support response_format''] e"

definition build_json_object_prompt :: "'w litellm \<Rightarrow> schema \<Rightarrow> string" where
  "build_json_object_prompt L sch =
     (case lm_json_schema L sch of
        None \<Rightarrow> []
      | Some js \<Rightarrow> ''Respond with valid JSON matching this schema: '' @ lm_indented L js)"

definition user_message :: "string \<Rightarrow> pyval" where
  "user_message txt = PDict [(''role'', PStr ''user''), (''content'', PStr txt)]"

definition json_object_format :: pyval where
  "json_object_format = PDict [(''type'', PStr ''json_object'')]"

text \<open>\<open>messages\<close> are those of the parameters.\<close>

definition response_format_fallback_params ::
  "'w litellm \<Rightarrow> pyval dict \<Rightarrow> pyval list \<Rightarrow> schema option \<Rightarrow> exc \<Rightarrow> pyval dict option" where
  "response_format_fallback_params L params messages sch0 e =
     (case (sch0, dict_get params ''response_format'') of
        (Some sch, Some _) \<Rightarrow>
          (let prompt = build_json_object_prompt L sch
           in if is_json_schema_unavailable_error e \<and> prompt \<noteq> []
              then Some (dict_set ''response_format'' json_object_format
                     (dict_set ''messages'' (PList (messages @ [user_message prompt])) params))
              else if is_response_format_unsupported_error e
              then Some (filter (\<lambda>kv. fst kv \<noteq> ''response_format'') params)
              else None)
      | _ \<Rightarrow> None)"

end
