(* ===== verification/Adapter_Calls.thy ===== *)
theory Adapter_Calls
  imports Adapter
begin

text \<open>
  The calls of \<open>LiteLLMAdapter\<close> (\<^verbatim>\<open>adapters/litellm.py\<close>): completions with their second attempt, the
  wrappers that report the end of a stream, and the attempts of a structured completion, which the code
  writes as a generator that two loops drive, one for blocking and one for asynchronous calls; the
  generator's calls are made here where it yields them, with the flag \<open>async\<close>.
\<close>

section \<open>Completions\<close>

definition wrap_answer :: "'w litellm \<Rightarrow> pyval \<Rightarrow> completion" where
  "wrap_answer L response =
     (case lm_chunks L response of
        Some (chunks, failure) \<Rightarrow> CStream chunks failure
      | None \<Rightarrow> COther response)"

definition call_with_fallback ::
  "'w litellm \<Rightarrow> bool \<Rightarrow> request \<Rightarrow> (('w, 'z) ad_scheme, pyval) eff" where
  "call_with_fallback L async rq =
     (let params = build_litellm_params L rq
      in try_with (ad_try (lm_completion L async params)) (\<lambda>e.
           case response_format_fallback_params L params (rq_messages rq) (rq_schema rq) e of
             None \<Rightarrow> raise e
           | Some fallback \<Rightarrow> ad_try (lm_completion L async fallback)))"

text \<open>\<open>complete\<close> and \<open>acomplete\<close>.\<close>

definition litellm_complete ::
  "('w, 'x) run_ext_scheme \<Rightarrow> 'w litellm \<Rightarrow> bool \<Rightarrow> request \<Rightarrow> (('w, 'z) ad_scheme, completion) eff" where
  "litellm_complete X L async rq =
     eseq (emit_llm_started L (rq_model rq) (length (rq_messages rq))
             (case rq_tools rq of Some ts \<Rightarrow> length ts | None \<Rightarrow> 0))
       (try_with
         (ebind (call_with_fallback L async rq) (\<lambda>response.
          if rq_stream rq then ret (wrap_answer L response)
          else eseq (emit_llm_completed L (rq_model rq) response)
                 (ebind (parse_response X response) (\<lambda>m. ret (CResponse m)))))
         (\<lambda>e. eseq (emit_llm_failed L (rq_model rq) (Some e)) (raise e)))"

section \<open>Streams\<close>

text \<open>A wrapped stream: what is left of it, the failure it ends with, and the wrapper's own fields.\<close>

record 'w stream_wrap = "'w ad" +
  sw_left :: "pyval list"
  sw_failure :: "exc option"
  sw_usage :: "pyval dict"
  sw_finished :: bool
  sw_closed :: bool

definition stream_usage :: "pyval \<Rightarrow> pyval dict option" where
  "stream_usage chunk =
     (case py_get chunk ''usage'' PNone of
        PDict d \<Rightarrow> Some d
      | PModel c (PDict d) \<Rightarrow> Some d
      | _ \<Rightarrow> None)"

definition stream_completed :: "'w litellm \<Rightarrow> string \<Rightarrow> ('w stream_wrap, unit) eff" where
  "stream_completed L model =
     ebind (gets (\<lambda>s. (sw_finished s, sw_usage s))) (\<lambda>(finished, usage).
     if finished then ret ()
     else eseq (modify (\<lambda>s. s\<lparr>sw_finished := True\<rparr>))
            (emit_llm_completed L model (PDict [(''usage'', PDict usage)])))"

definition stream_failed :: "'w litellm \<Rightarrow> string \<Rightarrow> exc \<Rightarrow> ('w stream_wrap, unit) eff" where
  "stream_failed L model e =
     ebind (gets sw_finished) (\<lambda>finished.
     if finished then ret ()
     else eseq (modify (\<lambda>s. s\<lparr>sw_finished := True\<rparr>)) (emit_llm_failed L model (Some e)))"

text \<open>One \<open>next\<close> of the stream below: a chunk, its end (\<open>None\<close>), or its failure, once.\<close>

definition pull :: "('w stream_wrap, pyval option) eff" where
  "pull s =
     (case sw_left s of
        c # cs \<Rightarrow> (Inr (Some c), s\<lparr>sw_left := cs\<rparr>)
      | [] \<Rightarrow>
          (case sw_failure s of
             Some e \<Rightarrow> (Inl e, s\<lparr>sw_failure := None\<rparr>)
           | None \<Rightarrow> (Inr None, s)))"

definition next_chunk :: "'w litellm \<Rightarrow> string \<Rightarrow> ('w stream_wrap, pyval option) eff" where
  "next_chunk L model =
     ebind (attempt pull) (\<lambda>r.
     case r of
       Inl e \<Rightarrow> eseq (stream_failed L model e) (raise e)
     | Inr None \<Rightarrow> eseq (stream_completed L model) (ret None)
     | Inr (Some c) \<Rightarrow>
         eseq (case stream_usage c of
                 Some u \<Rightarrow> if u \<noteq> [] then modify (\<lambda>s. s\<lparr>sw_usage := u\<rparr>) else ret ()
               | None \<Rightarrow> ret ())
           (ret (Some c)))"

text \<open>\<open>__anext__\<close>: a finished wrapper does not pull again.\<close>

definition async_next :: "'w litellm \<Rightarrow> string \<Rightarrow> ('w stream_wrap, pyval option) eff" where
  "async_next L model =
     ebind (gets sw_finished) (\<lambda>finished. if finished then ret None else next_chunk L model)"

text \<open>\<open>close\<close>; \<open>close_fn\<close> closes the stream below, if it can be closed.  \<open>aclose\<close> prefers the asynchronous
  method.\<close>

definition close_stream ::
  "'w litellm \<Rightarrow> string \<Rightarrow> ('w \<Rightarrow> (exc + unit) \<times> 'w) option \<Rightarrow> ('w stream_wrap, unit) eff" where
  "close_stream L model close_fn =
     ebind (gets sw_closed) (\<lambda>closed.
     if closed then ret ()
     else eseq (modify (\<lambda>s. s\<lparr>sw_closed := True\<rparr>))
       (ebind (attempt (case close_fn of Some f \<Rightarrow> ad_try f | None \<Rightarrow> ret ())) (\<lambda>r.
        case r of
          Inl e \<Rightarrow> eseq (stream_failed L model e) (raise e)
        | Inr u \<Rightarrow> stream_completed L model)))"

definition aclose_stream ::
  "'w litellm \<Rightarrow> string \<Rightarrow> ('w \<Rightarrow> (exc + unit) \<times> 'w) option \<Rightarrow> ('w \<Rightarrow> (exc + unit) \<times> 'w) option \<Rightarrow>
   ('w stream_wrap, unit) eff" where
  "aclose_stream L model aclose_fn close_fn =
     close_stream L model (case aclose_fn of Some f \<Rightarrow> Some f | None \<Rightarrow> close_fn)"

section \<open>The clients of instructor\<close>

text \<open>\<open>InstructorClientPool\<close> of \<^verbatim>\<open>adapters/instructor_client.py\<close>; \<open>from_provider\<close> makes a client or raises.  The
  lock makes \<open>get\<close> one step.\<close>

record 'c client_pool =
  cp_sync :: "'c dict"
  cp_async :: "'c dict"

definition pool_get :: "(string \<Rightarrow> bool \<Rightarrow> exc + 'c) \<Rightarrow> string \<Rightarrow> bool \<Rightarrow> ('c client_pool, 'c) eff" where
  "pool_get from_provider model async =
     ebind (gets (\<lambda>p. dict_get (if async then cp_async p else cp_sync p) model)) (\<lambda>known.
     case known of
       Some c \<Rightarrow> ret c
     | None \<Rightarrow>
         ebind (from_sum (from_provider (''litellm/'' @ model) async)) (\<lambda>c.
         eseq (modify (\<lambda>p. if async then p\<lparr>cp_async := dict_set model c (cp_async p)\<rparr>
                           else p\<lparr>cp_sync := dict_set model c (cp_sync p)\<rparr>))
              (ret c)))"

text \<open>A client is made once for a model and kind, and then kept.\<close>

lemma pool_get_keeps:
  "wp (pool_get from_provider model async)
     (\<lambda>c p'. dict_get (if async then cp_async p' else cp_sync p') model = Some c \<and>
        (\<forall>m a k. dict_get (if a then cp_async p else cp_sync p) m = Some k \<longrightarrow>
           dict_get (if a then cp_async p' else cp_sync p') m = Some k))
     (\<lambda>e p'. p' = p) p"
  by (auto simp: pool_get_def from_sum_def wp_def ebind_def gets_def ret_def eseq_def modify_def
      split: option.splits sum.splits)

section \<open>Structured completions\<close>

record structured_call =
  sc_messages :: "pyval list"
  sc_format :: "pyval option"
  sc_instructor :: "schema option"

definition OPTION_KEYS :: "string list" where
  "OPTION_KEYS = [''temperature'', ''max_tokens'', ''thinking'', ''drop_params'', ''extra_body'', ''num_retries'']"

text \<open>The options that are given.\<close>

definition structured_options :: "pyval dict \<Rightarrow> pyval dict" where
  "structured_options opts = concat (map (\<lambda>k. given k (dict_get_or opts k PNone)) OPTION_KEYS)"

definition instructor_options :: "pyval dict \<Rightarrow> pyval dict" where
  "instructor_options options = filter (\<lambda>kv. fst kv \<noteq> ''thinking'') options"

definition structured_params :: "string \<Rightarrow> pyval dict \<Rightarrow> structured_call \<Rightarrow> pyval dict" where
  "structured_params model options call =
     (let params = dict_update [(''model'', PStr model), (''messages'', PList (sc_messages call))] options
      in case sc_format call of Some f \<Rightarrow> dict_set ''response_format'' f params | None \<Rightarrow> params)"

definition record_response :: "'w litellm \<Rightarrow> string \<Rightarrow> pyval \<Rightarrow> (('w, 'z) ad_scheme, unit) eff" where
  "record_response L model response =
     ebind (gets (\<lambda>s. add_token_usage (ad_usage s) (response_usage response))) (\<lambda>r.
     ebind (from_sum r) (\<lambda>u.
     eseq (modify (\<lambda>s. s\<lparr>ad_usage := u\<rparr>)) (emit_llm_completed L model response)))"

text \<open>\<open>_StructuredRequest.complete\<close> and \<open>acomplete\<close>.\<close>

definition structured_complete_call ::
  "'w litellm \<Rightarrow> bool \<Rightarrow> string \<Rightarrow> pyval dict \<Rightarrow> structured_call \<Rightarrow> (('w, 'z) ad_scheme, pyval) eff" where
  "structured_complete_call L async model options call =
     eseq (emit_llm_started L model (length (sc_messages call)) 0)
    (ebind (attempt (ad_try (case sc_instructor call of
         None \<Rightarrow> (\<lambda>w. map_prod (map_sum id (\<lambda>r. (r, r))) id
                        (lm_completion L async (structured_params model options call) w))
       | Some sch \<Rightarrow> lm_instructor L async model (sc_messages call) sch (instructor_options options)))) (\<lambda>r.
     case r of
       Inl e \<Rightarrow> eseq (emit_llm_failed L model (Some e)) (raise e)
     | Inr (result, response) \<Rightarrow> eseq (record_response L model response) (ret result)))"

definition parse_content :: "('w, 'x) run_ext_scheme \<Rightarrow> schema \<Rightarrow> pyval \<Rightarrow> exc + pyval" where
  "parse_content X sch content =
     (case content of
        PStr s \<Rightarrow> x_validate_json X sch s
      | _ \<Rightarrow> Inl (TypeErr ''JSON input should be string, bytes or bytearray''))"

text \<open>What an attempt comes to: whether the JSON schema was refused, and the value (\<open>PNone\<close>: none).  A
  content that can be read as a value that is \<open>None\<close> counts as no value.\<close>

definition schema_attempt_response ::
  "('w, 'x) run_ext_scheme \<Rightarrow> pyval \<Rightarrow> schema \<Rightarrow> exc + bool \<times> pyval" where
  "schema_attempt_response X response sch =
     (case response_content response of
        Inl e \<Rightarrow> Inl e
      | Inr content \<Rightarrow>
          Inr (if \<not> py_bool content then (False, PNone)
               else case parse_content X sch content of
                 Inl e \<Rightarrow> (True, PNone)
               | Inr v \<Rightarrow> (False, v)))"

definition schema_attempt_error :: "exc \<Rightarrow> (bool \<times> pyval) option" where
  "schema_attempt_error e =
     (if is_json_schema_unavailable_error e then Some (True, PNone)
      else if is_response_format_unsupported_error e then Some (False, PNone)
      else None)"

definition json_schema_attempt ::
  "('w, 'x) run_ext_scheme \<Rightarrow> exc + pyval \<Rightarrow> schema \<Rightarrow> exc + bool \<times> pyval" where
  "json_schema_attempt X outcome sch =
     (case outcome of
        Inr response \<Rightarrow> schema_attempt_response X response sch
      | Inl e \<Rightarrow> (case schema_attempt_error e of None \<Rightarrow> Inl e | Some a \<Rightarrow> Inr a))"

definition json_object_attempt ::
  "('w, 'x) run_ext_scheme \<Rightarrow> exc + pyval \<Rightarrow> schema \<Rightarrow> exc + pyval" where
  "json_object_attempt X outcome sch =
     (case outcome of
        Inl e \<Rightarrow> if is_response_format_unsupported_error e then Inr PNone else Inl e
      | Inr response \<Rightarrow>
          (case response_content response of
             Inl e \<Rightarrow> Inl e
           | Inr content \<Rightarrow>
               Inr (if \<not> py_bool content then PNone
                    else case parse_content X sch content of Inl e \<Rightarrow> PNone | Inr v \<Rightarrow> v)))"

definition parse_completion_response ::
  "('w, 'x) run_ext_scheme \<Rightarrow> pyval \<Rightarrow> schema \<Rightarrow> exc + pyval" where
  "parse_completion_response X response sch =
     (case response_content response of
        Inl e \<Rightarrow> Inl e
      | Inr content \<Rightarrow>
          if \<not> py_bool content then Inl (ValueError ''Empty response content'')
          else parse_content X sch content)"

definition structured_retry_prompt :: "exc \<Rightarrow> string" where
  "structured_retry_prompt e =
     ''Fix validation errors and return only JSON that matches the schema. '' @
     ''Do not output YAML. Do not wrap objects as strings. '' @
     ''If a field is a list, each item must be a JSON object, not a string. '' @
     ''Validation errors: '' @ exc_msg e"

definition is_base_model_schema :: "schema \<Rightarrow> bool" where
  "is_base_model_schema sch \<longleftrightarrow> (case sch of ModelSchema m q \<Rightarrow> True | _ \<Rightarrow> False)"

text \<open>One attempt of the generator's last loop.\<close>

definition instructor_attempt ::
  "('w, 'x) run_ext_scheme \<Rightarrow> (structured_call \<Rightarrow> (('w, 'z) ad_scheme, pyval) eff) \<Rightarrow> schema \<Rightarrow> pyval list \<Rightarrow>
   (('w, 'z) ad_scheme, exc + pyval) eff" where
  "instructor_attempt X send sch payload =
     (let model = (if is_base_model_schema sch then Some sch else None)
      in ebind (attempt (send \<lparr>sc_messages = payload, sc_format = None, sc_instructor = model\<rparr>)) (\<lambda>outcome.
         ret (case outcome of
                Inl e \<Rightarrow> Inl e
              | Inr v \<Rightarrow> if model \<noteq> None then Inr v else parse_completion_response X v sch)))"

text \<open>The loop itself, with the number of retries left.\<close>

primrec instructor_loop ::
  "('w, 'x) run_ext_scheme \<Rightarrow> (structured_call \<Rightarrow> (('w, 'z) ad_scheme, pyval) eff) \<Rightarrow> schema \<Rightarrow> nat \<Rightarrow>
   pyval list \<Rightarrow> (('w, 'z) ad_scheme, pyval) eff" where
  "instructor_loop X send sch 0 payload = ebind (instructor_attempt X send sch payload) from_sum"
| "instructor_loop X send sch (Suc n) payload =
     ebind (instructor_attempt X send sch payload) (\<lambda>outcome.
     case outcome of
       Inr v \<Rightarrow> ret v
     | Inl e \<Rightarrow> instructor_loop X send sch n (payload @ [user_message (structured_retry_prompt e)]))"

definition first_attempt ::
  "('w, 'x) run_ext_scheme \<Rightarrow> 'w litellm \<Rightarrow> (structured_call \<Rightarrow> (('w, 'z) ad_scheme, pyval) eff) \<Rightarrow> schema \<Rightarrow>
   pyval list \<Rightarrow> (('w, 'z) ad_scheme, bool \<times> pyval) eff" where
  "first_attempt X L send sch payload =
     (case response_format L sch of
        None \<Rightarrow> ret (False, PNone)
      | Some f \<Rightarrow>
          ebind (attempt (send \<lparr>sc_messages = payload, sc_format = Some f, sc_instructor = None\<rparr>)) (\<lambda>outcome.
          from_sum (json_schema_attempt X outcome sch)))"

definition second_attempt ::
  "('w, 'x) run_ext_scheme \<Rightarrow> (structured_call \<Rightarrow> (('w, 'z) ad_scheme, pyval) eff) \<Rightarrow> schema \<Rightarrow>
   pyval list \<Rightarrow> string \<Rightarrow> (('w, 'z) ad_scheme, pyval) eff" where
  "second_attempt X send sch payload prompt =
     (if prompt = [] then ret PNone
      else ebind (attempt (send \<lparr>sc_messages = payload @ [user_message prompt],
                                 sc_format = Some json_object_format, sc_instructor = None\<rparr>)) (\<lambda>outcome.
           from_sum (json_object_attempt X outcome sch)))"

definition structured_pipeline ::
  "('w, 'x) run_ext_scheme \<Rightarrow> 'w litellm \<Rightarrow> (structured_call \<Rightarrow> (('w, 'z) ad_scheme, pyval) eff) \<Rightarrow> schema \<Rightarrow>
   pyval list \<Rightarrow> int \<Rightarrow> (('w, 'z) ad_scheme, pyval) eff" where
  "structured_pipeline X L send sch payload retries =
     ebind (first_attempt X L send sch payload) (\<lambda>(failed, v).
     if v \<noteq> PNone then ret v
     else ebind (second_attempt X send sch payload (if failed then build_json_object_prompt L sch else []))
       (\<lambda>v'. if v' \<noteq> PNone then ret v'
             else instructor_loop X send sch (nat retries) payload))"

text \<open>\<open>structured_complete\<close> and \<open>astructured_complete\<close>; the usage is that of the request, which starts
  empty.\<close>

definition litellm_structured ::
  "('w, 'x) run_ext_scheme \<Rightarrow> 'w litellm \<Rightarrow> bool \<Rightarrow> structured_request \<Rightarrow> (('w, 'z) ad_scheme, structured) eff" where
  "litellm_structured X L async q =
     eseq (modify (\<lambda>s. s\<lparr>ad_usage := []\<rparr>))
    (ebind (structured_pipeline X L
        (structured_complete_call L async (sq_model q) (structured_options (sq_options q)))
        (sq_schema q) (sq_messages q) (sq_retries q)) (\<lambda>data.
     gets (\<lambda>s. SResponse data (PDict (ad_usage s)))))"

section \<open>The adapter of a run\<close>

text \<open>The externals of a run whose adapter is a \<open>LiteLLMAdapter\<close>, with its callback context set for each
  call.  Of a stream the events until it is returned are reported here; its end is reported by its
  wrapper.\<close>

definition in_call ::
  "('w ad, 'a) eff \<Rightarrow> 'w \<Rightarrow> ((exc + 'a) \<times> callback list) \<times> 'w" where
  "in_call m w =
     (case m \<lparr>ad_world = w, ad_callbacks = [], ad_context = True, ad_start = None, ad_usage = []\<rparr> of
        (r, s) \<Rightarrow> ((r, ad_callbacks s), ad_world s))"

definition with_litellm ::
  "'w litellm \<Rightarrow> ('w, 'x) run_ext_scheme \<Rightarrow> ('w, 'x) run_ext_scheme" where
  "with_litellm L X =
     X\<lparr>x_acomplete := (\<lambda>rq. in_call (litellm_complete X L True rq)),
       x_complete := (\<lambda>rq. in_call (litellm_complete X L False rq)),
       x_astructured := (\<lambda>q. in_call (litellm_structured X L True q)),
       x_structured := (\<lambda>q. in_call (litellm_structured X L False q)),
       x_accepts := (\<lambda>m key. True), x_has_callbacks := True\<rparr>"

end
