(* ===== verification/Adapter_Laws.thy ===== *)
theory Adapter_Laws
  imports Adapter_Calls Worker_Laws
begin

text \<open>
  What the adapter guarantees: the tool calls it reads have identifiers, every call it makes is
  reported by its events, and the attempts of a structured completion are bounded and accounted for.
\<close>

section \<open>Statements of the adapter\<close>

lemma wp_ad_ask [wp_simps, simp]:
  "wp (ad_ask f) Q E = (\<lambda>s. case f (ad_world s) of (a, w) \<Rightarrow> Q a (s\<lparr>ad_world := w\<rparr>))"
  by (auto simp: ad_ask_def wp_def fun_eq_iff split: prod.splits)

lemma wp_ad_try [wp_simps, simp]:
  "wp (ad_try f) Q E =
   (\<lambda>s. case f (ad_world s) of (Inl e, w) \<Rightarrow> E e (s\<lparr>ad_world := w\<rparr>) | (Inr a, w) \<Rightarrow> Q a (s\<lparr>ad_world := w\<rparr>))"
  by (auto simp: ad_try_def wp_def fun_eq_iff split: prod.splits sum.splits)

text \<open>What a statement adds to the events: \<open>P\<close> holds of its result and of the types of the events.\<close>

definition reports :: "(('w, 'z) ad_scheme, 'a) eff \<Rightarrow> (exc + 'a \<Rightarrow> event_type list \<Rightarrow> bool) \<Rightarrow> bool" where
  "reports m P \<longleftrightarrow>
     (\<forall>s r s'. ad_context s \<longrightarrow> m s = (r, s') \<longrightarrow>
        ad_context s' \<and> ad_usage s' = ad_usage s \<and>
        (\<exists>evs. ad_callbacks s' = ad_callbacks s @ evs \<and> P r (map fst evs)))"

lemma reportsI:
  "(\<And>s r s'. ad_context s \<Longrightarrow> m s = (r, s') \<Longrightarrow> ad_context s' \<and> ad_usage s' = ad_usage s \<and>
     (\<exists>evs. ad_callbacks s' = ad_callbacks s @ evs \<and> P r (map fst evs))) \<Longrightarrow> reports m P"
  unfolding reports_def by blast

lemma reportsD:
  assumes "reports m P" "ad_context s" "m s = (r, s')"
  obtains evs where "ad_context s'" "ad_usage s' = ad_usage s" "ad_callbacks s' = ad_callbacks s @ evs" "P r (map fst evs)"
  using assms(1)[unfolded reports_def, rule_format, OF assms(2,3)] by (elim conjE exE) (rule that)

abbreviation mute :: "(('w, 'z) ad_scheme, 'a) eff \<Rightarrow> bool" where
  "mute m \<equiv> reports m (\<lambda>r es. es = [])"

named_theorems muted "statements of the adapter that report nothing"

lemma reports_mono: "reports m P \<Longrightarrow> (\<And>r es. P r es \<Longrightarrow> P' r es) \<Longrightarrow> reports m P'"
  unfolding reports_def by blast

lemma reports_bind:
  assumes m: "reports m P" and f: "\<And>a. reports (f a) (Q a)"
    and raise: "\<And>e es. P (Inl e) es \<Longrightarrow> R (Inl e) es"
    and ret: "\<And>a r es es'. P (Inr a) es \<Longrightarrow> Q a r es' \<Longrightarrow> R r (es @ es')"
  shows "reports (ebind m f) R"
proof (rule reportsI)
  fix s r s' assume s: "ad_context s" "ebind m f s = (r, s')"
  obtain q s1 where q: "m s = (q, s1)" by fastforce
  from reportsD[OF m s(1) q] obtain evs where 1: "ad_context s1" "ad_usage s1 = ad_usage s"
    "ad_callbacks s1 = ad_callbacks s @ evs" "P q (map fst evs)" .
  show "ad_context s' \<and> ad_usage s' = ad_usage s \<and> (\<exists>evs. ad_callbacks s' = ad_callbacks s @ evs \<and> R r (map fst evs))"
  proof (cases q)
    case (Inl e)
    with s q 1 raise show ?thesis by (auto simp: ebind_def)
  next
    case (Inr a)
    with s q have "f a s1 = (r, s')" by (simp add: ebind_def)
    from reportsD[OF f 1(1) this] obtain evs' where 2: "ad_context s'" "ad_usage s' = ad_usage s1"
      "ad_callbacks s' = ad_callbacks s1 @ evs'" "Q a r (map fst evs')" .
    have "R r (map fst (evs @ evs'))" using ret[of a "map fst evs" r "map fst evs'"] 1(4) 2(4) Inr by simp
    with 1 2 show ?thesis by auto
  qed
qed

lemma reports_after: "mute m \<Longrightarrow> (\<And>a. reports (f a) P) \<Longrightarrow> (\<And>e. P (Inl e) []) \<Longrightarrow> reports (ebind m f) P"
  by (rule reports_bind[where P = "\<lambda>r es. es = []" and Q = "\<lambda>a. P"]) auto

lemma reports_try:
  assumes m: "reports m P" and h: "\<And>e. reports (h e) (Q e)"
    and ok: "\<And>a es. P (Inr a) es \<Longrightarrow> R (Inr a) es"
    and failed: "\<And>e r es es'. P (Inl e) es \<Longrightarrow> Q e r es' \<Longrightarrow> R r (es @ es')"
  shows "reports (try_with m h) R"
proof (rule reportsI)
  fix s r s' assume s: "ad_context s" "try_with m h s = (r, s')"
  obtain q s1 where q: "m s = (q, s1)" by fastforce
  from reportsD[OF m s(1) q] obtain evs where 1: "ad_context s1" "ad_usage s1 = ad_usage s"
    "ad_callbacks s1 = ad_callbacks s @ evs" "P q (map fst evs)" .
  show "ad_context s' \<and> ad_usage s' = ad_usage s \<and> (\<exists>evs. ad_callbacks s' = ad_callbacks s @ evs \<and> R r (map fst evs))"
  proof (cases q)
    case (Inr a)
    with s q 1 ok show ?thesis by (auto simp: try_with_def)
  next
    case (Inl e)
    with s q have "h e s1 = (r, s')" by (simp add: try_with_def)
    from reportsD[OF h 1(1) this] obtain evs' where 2: "ad_context s'" "ad_usage s' = ad_usage s1"
      "ad_callbacks s' = ad_callbacks s1 @ evs'" "Q e r (map fst evs')" .
    have "R r (map fst (evs @ evs'))" using failed[of e "map fst evs" r "map fst evs'"] 1(4) 2(4) Inl by simp
    with 1 2 show ?thesis by auto
  qed
qed

lemma reports_basics [muted]:
  "mute (ad_ask f)" "mute (ad_try g)" "mute (ret a)" "mute (raise e)" "mute (from_sum q)" "mute (gets h)"
  by (auto simp: reports_def ad_ask_def ad_try_def ret_def raise_def from_sum_def gets_def split: prod.splits)

lemma reports_ret: "reports (ret a) (\<lambda>r es. r = Inr a \<and> es = [])"
  by (simp add: reports_def ret_def)

lemma reports_raise: "reports (raise e) (\<lambda>r es. r = Inl e \<and> es = [])"
  by (simp add: reports_def raise_def)

lemma mute_bind [muted]: "mute m \<Longrightarrow> (\<And>a. mute (f a)) \<Longrightarrow> mute (ebind m f)"
  by (rule reports_after) simp_all

lemma mute_try [muted]: "mute m \<Longrightarrow> (\<And>e. mute (h e)) \<Longrightarrow> mute (try_with m h)"
  by (rule reports_try[where Q = "\<lambda>e r es. es = []"]) auto

lemma mute_collect [muted]: "(\<And>x. mute (f x)) \<Longrightarrow> mute (collect f xs)"
  by (induction xs) (auto intro!: muted)

lemma reports_started:
  "reports (emit_llm_started L model n k) (\<lambda>r es. r = Inr () \<and> es = [LLMStarted])"
  by (auto simp: reports_def emit_llm_started_def in_context_def ebind_def eseq_def gets_def ad_ask_def modify_def
      report_event_def split: prod.splits)

lemma reports_ended:
  "reports (emit_llm_completed L model v) (\<lambda>r es. r = Inr () \<and> es = [LLMCompleted])"
  "reports (emit_llm_failed L model e) (\<lambda>r es. r = Inr () \<and> es = [LLMFailed])"
  by (auto simp: reports_def emit_llm_completed_def emit_llm_failed_def latency_def in_context_def ebind_def gets_def
      ad_ask_def modify_def report_event_def ret_def Let_def split: prod.splits)

section \<open>Completions\<close>

lemma mute_fallback [muted]: "mute (call_with_fallback L async rq)"
  unfolding call_with_fallback_def Let_def by (intro muted) (auto split: option.split intro!: muted)

lemma mute_parse_call: "mute (parse_tool_call X c)"
  unfolding parse_tool_call_def by (intro muted) (auto intro!: muted split: option.split)

lemma mute_parse_calls: "mute (parse_tool_calls X m)"
proof -
  have "mute (case v of PList cs \<Rightarrow> collect (parse_tool_call X) (filter call_like cs) | _ \<Rightarrow> ret [])" for v
    by (cases v) (auto intro!: muted mute_parse_call)
  then show ?thesis by (simp only: parse_tool_calls_def Let_def)
qed

lemma mute_parse [muted]: "mute (parse_response X v)"
  unfolding parse_response_def by (intro muted mute_parse_calls) (auto intro!: muted mute_parse_calls)

text \<open>The events of a completion: one that starts and one that ends it.  After the answer came, a
  failure to read it is reported as a failed call too.\<close>

definition completion_events :: "bool \<Rightarrow> exc + completion \<Rightarrow> event_type list \<Rightarrow> bool" where
  "completion_events stream r es \<longleftrightarrow>
     (case r of
        Inr (CResponse m) \<Rightarrow> \<not> stream \<and> es = [LLMStarted, LLMCompleted]
      | Inr v \<Rightarrow> stream \<and> es = [LLMStarted]
      | Inl e \<Rightarrow> es = [LLMStarted, LLMFailed] \<or> \<not> stream \<and> es = [LLMStarted, LLMCompleted, LLMFailed])"

lemma complete_reports: "reports (litellm_complete X L async rq) (completion_events (rq_stream rq))"
proof -
  let ?answer = "\<lambda>response. eseq (emit_llm_completed L (rq_model rq) response)
      (ebind (parse_response X response) (\<lambda>m. ret (CResponse m)))"
  let ?read = "\<lambda>r es. (\<exists>m. r = Inr (CResponse m)) \<and> es = [LLMCompleted] \<or> (\<exists>e. r = Inl e) \<and> es = [LLMCompleted]"
  let ?attempted = "\<lambda>r es. if rq_stream rq then es = [] \<and> (\<forall>m. r \<noteq> Inr (CResponse m))
      else (\<exists>m. r = Inr (CResponse m)) \<and> es = [LLMCompleted] \<or> (\<exists>e. r = Inl e) \<and> (es = [] \<or> es = [LLMCompleted])"
  have wrapped: "wrap_answer L v \<noteq> CResponse m" for v m by (simp add: wrap_answer_def split: option.split prod.split)
  have parse: "reports (ebind (parse_response X v) (\<lambda>m. ret (CResponse m)))
      (\<lambda>r es. es = [] \<and> ((\<exists>m. r = Inr (CResponse m)) \<or> (\<exists>e. r = Inl e)))" for v
    by (rule reports_bind[OF mute_parse, where Q = "\<lambda>m r es. r = Inr (CResponse m) \<and> es = []"])
      (auto intro: reports_mono[OF reports_ret])
  have answer: "reports (?answer v) ?read" for v
    unfolding eseq_def
    by (rule reports_bind[OF reports_ended(1) parse]) auto
  have body: "reports (ebind (call_with_fallback L async rq) (\<lambda>response.
      if rq_stream rq then ret (wrap_answer L response) else ?answer response)) ?attempted"
  proof (rule reports_after[OF mute_fallback])
    fix v show "reports (if rq_stream rq then ret (wrap_answer L v) else ?answer v) ?attempted"
    proof (cases "rq_stream rq")
      case True
      then show ?thesis using wrapped by (simp, intro reports_mono[OF reports_ret]) simp
    next
      case False
      then show ?thesis by (simp, intro reports_mono[OF answer]) auto
    qed
  qed auto
  have failed: "reports (eseq (emit_llm_failed L (rq_model rq) (Some e)) (raise e)) (\<lambda>r es. r = Inl e \<and> es = [LLMFailed])" for e
    unfolding eseq_def
    by (rule reports_bind[OF reports_ended(2), where Q = "\<lambda>_ r es. r = Inl e \<and> es = []"]) (auto intro: reports_mono[OF reports_raise])
  have rest: "reports (try_with (ebind (call_with_fallback L async rq) (\<lambda>response.
        if rq_stream rq then ret (wrap_answer L response) else ?answer response))
        (\<lambda>e. eseq (emit_llm_failed L (rq_model rq) (Some e)) (raise e)))
      (\<lambda>r es. completion_events (rq_stream rq) r (LLMStarted # es))"
  proof (rule reports_try[OF body failed], goal_cases)
    case (1 a es)
    then show ?case by (cases a) (auto simp: completion_events_def split: if_splits)
  next
    case (2 e r es es')
    then show ?case by (auto simp: completion_events_def split: if_splits)
  qed
  show ?thesis
    unfolding litellm_complete_def eseq_def[of "emit_llm_started L (rq_model rq) n k" for n k]
    by (rule reports_bind[where P = "\<lambda>r es. r = Inr () \<and> es = [LLMStarted]" and
          Q = "\<lambda>_ r es. completion_events (rq_stream rq) r (LLMStarted # es)", OF reports_started rest]) simp_all
qed

section \<open>Identifiers\<close>

lemma wp_always: "(\<And>a s'. Q a s') \<Longrightarrow> (\<And>e s'. E e s') \<Longrightarrow> wp m Q E s"
  by (rule wpI) auto

lemma wp_collect_all:
  assumes "\<And>x s. wp (f x) (\<lambda>y _. R y) anything s"
  shows "wp (collect f xs) (\<lambda>ys _. \<forall>y\<in>set ys. R y) anything s"
proof (induction xs arbitrary: s)
  case (Cons x xs)
  show ?case
    by (simp, rule wp_mono[OF assms[of x]]) (auto intro: wp_mono[OF Cons])
qed simp

lemma parsed_call_id [simp]: "tc_id (parsed_call P c i) = i"
  by (simp add: parsed_call_def Let_def split: prod.split)

lemma wp_parse_response:
  assumes "\<forall>w. fst (x_new_id X w) \<noteq> []"
  shows "wp (parse_response X v) (\<lambda>m _. named_calls m) anything s"
proof -
  have call: "wp (parse_tool_call X c) (\<lambda>y _. tc_id y \<noteq> []) anything s" for c s
  proof (cases "given_id c")
    case None
    then show ?thesis
      using assms[rule_format, of "ad_world s"] by (auto simp: parse_tool_call_def split: prod.split)
  next
    case (Some i)
    then have "i \<noteq> []" by (auto simp: given_id_def split: pyval.splits if_splits)
    with Some show ?thesis by (simp add: parse_tool_call_def)
  qed
  have calls: "wp (parse_tool_calls X m) (\<lambda>ys _. \<forall>y\<in>set ys. tc_id y \<noteq> []) anything s" for m s
    by (auto simp: parse_tool_calls_def Let_def wp_collect_all[OF call] split: pyval.split)
  show ?thesis
    by (auto simp: parse_response_def named_calls_def calls split: sum.split)
qed

lemma wp_complete_named:
  assumes "\<forall>w. fst (x_new_id X w) \<noteq> []"
  shows "wp (litellm_complete X L async rq) (\<lambda>r _. named_completion r) anything s"
proof -
  have wrapped: "named_completion (wrap_answer L v)" for v by (simp add: wrap_answer_def split: option.split prod.split)
  have answer: "wp (if rq_stream rq then ret (wrap_answer L v) else eseq (emit_llm_completed L (rq_model rq) v)
      (ebind (parse_response X v) (\<lambda>m. ret (CResponse m)))) (\<lambda>r _. named_completion r)
      (\<lambda>e. wp (eseq (emit_llm_failed L (rq_model rq) (Some e)) (raise e)) (\<lambda>r _. named_completion r) anything) s" for v s
  proof (cases "rq_stream rq")
    case True
    with wrapped show ?thesis by simp
  next
    case False
    have p: "wp (parse_response X v) (\<lambda>m _. named_completion (CResponse m)) E s'"
      if "\<And>e s. E e s" for E s' using that by (intro wp_mono[OF wp_parse_response[OF assms]]) auto
    show ?thesis
      by (simp add: False, rule wp_always, rule p[simplified]) (auto intro!: wp_always)
  qed
  show ?thesis
    unfolding litellm_complete_def wp_eseq wp_try_with wp_ebind
    by (rule wp_always, rule wp_always, rule answer[unfolded wp_eseq]) (auto intro!: wp_always)
qed

lemma litellm_good_ids:
  assumes "\<forall>w. fst (x_new_id X w) \<noteq> []"
  shows "good_ids (with_litellm L X)"
proof -
  have "named_calls m" if "in_call (litellm_complete X L async rq) w = ((Inr (CResponse m), cbs), w')"
    for async rq w m cbs w'
  proof -
    obtain q s' where q: "litellm_complete X L async rq \<lparr>ad_world = w, ad_callbacks = [], ad_context = True,
        ad_start = None, ad_usage = []\<rparr> = (q, s')" by fastforce
    with that have "q = Inr (CResponse m)" by (simp add: in_call_def)
    with wpD(1)[OF wp_complete_named[OF assms]] q show ?thesis by fastforce
  qed
  with assms show ?thesis by (simp add: good_ids_def with_litellm_def)
qed

section \<open>Structured completions\<close>

text \<open>The answers of the calls: each starts and then completes or fails.\<close>

definition answered_calls :: "bool list \<Rightarrow> event_type list" where
  "answered_calls bs = concat (map (\<lambda>b. [LLMStarted, if b then LLMCompleted else LLMFailed]) bs)"

text \<open>The tokens the events report under a key.\<close>

definition reported_tokens :: "string \<Rightarrow> callback list \<Rightarrow> rat" where
  "reported_tokens k evs =
     sum_list (map (\<lambda>(ty, src, payload). if ty = LLMCompleted then count_at payload k else 0) evs)"

text \<open>After \<open>n\<close> calls since \<open>s0\<close>.\<close>

definition tally :: "('w, 'z) ad_scheme \<Rightarrow> nat \<Rightarrow> ('w, 'z) ad_scheme \<Rightarrow> bool" where
  "tally s0 n s \<longleftrightarrow> ad_context s \<and> numeric_at USAGE_KEYS (ad_usage s) \<and>
     (\<exists>evs bs. ad_callbacks s = ad_callbacks s0 @ evs \<and> map fst evs = answered_calls bs \<and> length bs = n \<and>
        (\<forall>k\<in>set USAGE_KEYS. count_at (ad_usage s) k = count_at (ad_usage s0) k + reported_tokens k evs))"

lemma response_usage_reported: "response_usage v = completed_usage v"
  by (auto simp: response_usage_def completed_usage_def py_get_def Let_def has_attr_def dumped_usage_def get_attr_def
      dict_get_or_def split: pyval.splits option.splits)

lemma payload_counts:
  assumes "k \<in> set USAGE_KEYS" "\<forall>kv\<in>set cost. fst kv = ''cost''"
  shows "count_at ([(''model'', a), (''latency_ms'', b)] @
    (if u \<noteq> [] then map (\<lambda>k. (k, dict_get_or u k (PInt 0))) USAGE_KEYS else []) @ cost) k = count_at u k"
proof -
  have c: "dict_get cost k = None" using assms by (induction cost) (auto simp: USAGE_KEYS_def)
  from assms(1) consider "k = ''prompt_tokens''" | "k = ''completion_tokens''" | "k = ''total_tokens''"
    by (auto simp: USAGE_KEYS_def)
  then show ?thesis
    by cases (use c in \<open>simp_all add: USAGE_KEYS_def count_at_def dict_get_or_def split: option.split\<close>)
qed

lemma completed_event:
  assumes "ad_context s"
  shows "\<exists>w p. emit_llm_completed L model v s =
      (Inr (), s\<lparr>ad_world := w, ad_callbacks := ad_callbacks s @ [(LLMCompleted, ''litellm_adapter'', p)]\<rparr>) \<and>
    (\<forall>k\<in>set USAGE_KEYS. count_at p k = count_at (response_usage v) k)"
proof -
  obtain t w where t: "lm_time L (ad_world s) = (t, w)" by fastforce
  let ?u = "completed_usage v"
  define p where "p = [(''model'', PStr model), (''latency_ms'', PInt (compute_latency_ms (ad_start s) (Some t) None t))] @
      (if ?u \<noteq> [] then map (\<lambda>k. (k, dict_get_or ?u k (PInt 0))) USAGE_KEYS else []) @
      (case lm_cost L v of Some c \<Rightarrow> if c = PNone then [] else [(''cost'', c)] | None \<Rightarrow> [])"
  have run: "emit_llm_completed L model v s =
      (Inr (), s\<lparr>ad_world := w, ad_callbacks := ad_callbacks s @ [(LLMCompleted, ''litellm_adapter'', p)]\<rparr>)"
    using assms t
    by (simp add: emit_llm_completed_def in_context_def latency_def ebind_def gets_def ad_ask_def ret_def report_event_def
        modify_def Let_def p_def USAGE_KEYS_def)
  have "count_at p k = count_at ?u k" if "k \<in> set USAGE_KEYS" for k
    unfolding p_def by (rule payload_counts[OF that]) (auto split: option.split)
  with run show ?thesis by (auto simp: response_usage_reported)
qed

lemma answered_snoc: "answered_calls (bs @ [b]) = answered_calls bs @ [LLMStarted, if b then LLMCompleted else LLMFailed]"
  by (simp add: answered_calls_def)

lemma reported_tokens_append [simp]:
  "reported_tokens k [] = 0" "reported_tokens k (evs @ evs') = reported_tokens k evs + reported_tokens k evs'"
  "reported_tokens k ((LLMCompleted, src, p) # evs) = count_at p k + reported_tokens k evs"
  by (simp_all add: reported_tokens_def)

lemma reported_tokens_other: "LLMCompleted \<notin> set (map fst evs) \<Longrightarrow> reported_tokens k evs = 0"
  by (induction evs) (auto simp: reported_tokens_def)

lemma recorded_response:
  assumes "ad_context s" "numeric_at USAGE_KEYS (ad_usage s)"
  shows "\<exists>s' p. record_response L model v s = (Inr (), s') \<and> ad_context s' \<and> numeric_at USAGE_KEYS (ad_usage s') \<and>
    ad_callbacks s' = ad_callbacks s @ [(LLMCompleted, ''litellm_adapter'', p)] \<and>
    (\<forall>k\<in>set USAGE_KEYS. count_at (ad_usage s') k = count_at (ad_usage s) k + count_at p k)"
proof -
  from add_token_usage_ok[OF assms(2), of "response_usage v"] obtain u where
    u: "add_token_usage (ad_usage s) (response_usage v) = Inr u"
      "\<forall>k\<in>set USAGE_KEYS. dict_get u k = key_sum (dict_get (ad_usage s) k) (dict_get (response_usage v) k)" by blast
  let ?s = "s\<lparr>ad_usage := u\<rparr>"
  have c: "ad_context ?s" using assms by simp
  from completed_event[OF c, of L model v] obtain w p where
    e: "emit_llm_completed L model v ?s =
      (Inr (), ?s\<lparr>ad_world := w, ad_callbacks := ad_callbacks ?s @ [(LLMCompleted, ''litellm_adapter'', p)]\<rparr>)"
      "\<forall>k\<in>set USAGE_KEYS. count_at p k = count_at (response_usage v) k" by blast
  have run: "record_response L model v s = (Inr (), ?s\<lparr>ad_world := w,
      ad_callbacks := ad_callbacks s @ [(LLMCompleted, ''litellm_adapter'', p)]\<rparr>)"
    using e(1) by (simp add: record_response_def ebind_def gets_def from_sum_def eseq_def modify_def u(1))
  have k: "opt_numeric (dict_get u k) \<and> count_at u k = count_at (ad_usage s) k + count_at p k" if "k \<in> set USAGE_KEYS" for k
    using that u(2) e(2) assms(2) key_sum_num by (simp add: count_at_opt_num numeric_at_iff)
  show ?thesis
    by (rule exI, rule exI[of _ p], rule conjI[OF run]) (simp add: numeric_at_iff k assms(1))
qed

lemma tally_step:
  assumes t: "tally s0 n s" and c: "ad_callbacks s' = ad_callbacks s @ evs"
    and e: "map fst evs = [LLMStarted, if b then LLMCompleted else LLMFailed]"
    and u: "ad_context s'" "numeric_at USAGE_KEYS (ad_usage s')"
      "\<forall>k\<in>set USAGE_KEYS. count_at (ad_usage s') k = count_at (ad_usage s) k + reported_tokens k evs"
  shows "tally s0 (Suc n) s'"
proof -
  from t obtain evs0 bs where 0: "ad_callbacks s = ad_callbacks s0 @ evs0" "map fst evs0 = answered_calls bs" "length bs = n"
    "\<forall>k\<in>set USAGE_KEYS. count_at (ad_usage s) k = count_at (ad_usage s0) k + reported_tokens k evs0"
    by (auto simp: tally_def)
  have "ad_callbacks s' = ad_callbacks s0 @ (evs0 @ evs) \<and> map fst (evs0 @ evs) = answered_calls (bs @ [b]) \<and>
      length (bs @ [b]) = Suc n \<and>
      (\<forall>k\<in>set USAGE_KEYS. count_at (ad_usage s') k = count_at (ad_usage s0) k + reported_tokens k (evs0 @ evs))"
    using 0 c e u(3) by (simp add: answered_snoc)
  with u(1,2) show ?thesis unfolding tally_def by blast
qed

lemma tally_call:
  assumes t: "tally s0 n s"
  shows "wp (structured_complete_call L async model opts call) (\<lambda>_. tally s0 (Suc n)) (\<lambda>_. tally s0 (Suc n)) s"
proof -
  have n: "ad_context s" "numeric_at USAGE_KEYS (ad_usage s)" using t by (simp_all add: tally_def)
  define f where "f = (case sc_instructor call of
         None \<Rightarrow> (\<lambda>w. map_prod (map_sum id (\<lambda>r. (r, r))) id (lm_completion L async (structured_params model opts call) w))
       | Some sch \<Rightarrow> lm_instructor L async model (sc_messages call) sch (instructor_options opts))"
  obtain q1 s1 where 1: "emit_llm_started L model (length (sc_messages call)) 0 s = (q1, s1)" by fastforce
  from reportsD[OF reports_started n(1) 1] obtain ev1 where st1: "ad_context s1" "ad_usage s1 = ad_usage s"
    "ad_callbacks s1 = ad_callbacks s @ ev1" "q1 = Inr () \<and> map fst ev1 = [LLMStarted]" .
  then have s1: "ad_context s1" "ad_usage s1 = ad_usage s" "ad_callbacks s1 = ad_callbacks s @ ev1" "q1 = Inr ()"
    "map fst ev1 = [LLMStarted]" by simp_all
  obtain r w where f: "f (ad_world s1) = (r, w)" by fastforce
  let ?s2 = "s1\<lparr>ad_world := w\<rparr>"
  have run: "structured_complete_call L async model opts call s = (case r of
      Inl e \<Rightarrow> eseq (emit_llm_failed L model (Some e)) (raise e) ?s2
    | Inr (result, response) \<Rightarrow> eseq (record_response L model response) (ret result) ?s2)"
    using 1 s1(4) f by (simp add: structured_complete_call_def eseq_def ebind_def attempt_def ad_try_def f_def[symmetric]
        split: sum.split prod.split)
  show ?thesis
  proof (cases r)
    case (Inl e)
    obtain q3 s3 where 3: "emit_llm_failed L model (Some e) ?s2 = (q3, s3)" by fastforce
    have c2: "ad_context ?s2" using s1 by simp
    from reportsD[OF reports_ended(2) c2 3] obtain ev3 where "ad_context s3" "ad_usage s3 = ad_usage ?s2"
      "ad_callbacks s3 = ad_callbacks ?s2 @ ev3" "q3 = Inr () \<and> map fst ev3 = [LLMFailed]" .
    then have s3: "ad_context s3" "ad_usage s3 = ad_usage s" "ad_callbacks s3 = ad_callbacks s @ (ev1 @ ev3)"
      "q3 = Inr ()" "map fst ev3 = [LLMFailed]" using s1 by simp_all
    have zero: "reported_tokens k (ev1 @ ev3) = 0" for k
      using s1(5) s3(5) by (intro reported_tokens_other) auto
    have "tally s0 (Suc n) s3"
      by (rule tally_step[OF t, of _ "ev1 @ ev3" False, OF s3(3)]) (use s1(5) s3 n zero in simp_all)
    with run Inl 3 s3(4) show ?thesis by (simp add: wp_def eseq_def ebind_def raise_def)
  next
    case (Inr p)
    obtain result response where p: "p = (result, response)" by fastforce
    have n2: "ad_context ?s2" "numeric_at USAGE_KEYS (ad_usage ?s2)" using s1 n by simp_all
    obtain s3 pl where 3: "record_response L model response ?s2 = (Inr (), s3) \<and> ad_context s3 \<and>
        numeric_at USAGE_KEYS (ad_usage s3) \<and> ad_callbacks s3 = ad_callbacks ?s2 @ [(LLMCompleted, ''litellm_adapter'', pl)] \<and>
        (\<forall>k\<in>set USAGE_KEYS. count_at (ad_usage s3) k = count_at (ad_usage ?s2) k + count_at pl k)"
      using recorded_response[OF n2, of L model response] by (elim exE) (rule that)
    then have s3: "record_response L model response ?s2 = (Inr (), s3)" "ad_context s3" "numeric_at USAGE_KEYS (ad_usage s3)"
        "ad_callbacks s3 = ad_callbacks s @ (ev1 @ [(LLMCompleted, ''litellm_adapter'', pl)])"
        "\<forall>k\<in>set USAGE_KEYS. count_at (ad_usage s3) k = count_at (ad_usage s) k + count_at pl k"
      using s1 by simp_all
    have zero: "reported_tokens k ev1 = 0" for k using s1(5) by (intro reported_tokens_other) auto
    have "tally s0 (Suc n) s3"
      by (rule tally_step[OF t, of _ "ev1 @ [(LLMCompleted, ''litellm_adapter'', pl)]" True, OF s3(4)]) (use s1(5) s3(2,3,5) zero in simp_all)
    with run Inr p s3(1) show ?thesis by (simp add: wp_def eseq_def ebind_def ret_def)
  qed
qed

text \<open>Where the value of a structured completion comes from: a content that is valid for the schema, or
  instructor, where the schema is a model class.\<close>

definition instructed :: "'w litellm \<Rightarrow> bool \<Rightarrow> string \<Rightarrow> schema \<Rightarrow> pyval \<Rightarrow> bool" where
  "instructed L async model sch v \<longleftrightarrow>
     (\<exists>ms opts w resp w'. lm_instructor L async model ms sch opts w = (Inr (v, resp), w'))"

definition valid_answer :: "('w, 'x) run_ext_scheme \<Rightarrow> 'w litellm \<Rightarrow> bool \<Rightarrow> string \<Rightarrow> schema \<Rightarrow> pyval \<Rightarrow> bool" where
  "valid_answer X L async model sch v \<longleftrightarrow>
     (\<exists>txt. x_validate_json X sch txt = Inr v) \<or> is_base_model_schema sch \<and> instructed L async model sch v"

lemma instructedI: "lm_instructor L async model ms sch opts w = (Inr (v, resp), w') \<Longrightarrow> instructed L async model sch v"
  unfolding instructed_def by blast

lemma parse_content_valid: "parse_content X sch c = Inr v \<Longrightarrow> \<exists>txt. x_validate_json X sch txt = Inr v"
  by (auto simp: parse_content_def split: pyval.splits)

lemma attempts_valid:
  "json_schema_attempt X q sch = Inr (b, v) \<Longrightarrow> v \<noteq> PNone \<Longrightarrow> \<exists>txt. x_validate_json X sch txt = Inr v"
  "json_object_attempt X q sch = Inr v \<Longrightarrow> v \<noteq> PNone \<Longrightarrow> \<exists>txt. x_validate_json X sch txt = Inr v"
  "parse_completion_response X r sch = Inr v \<Longrightarrow> \<exists>txt. x_validate_json X sch txt = Inr v"
  by (auto simp: json_schema_attempt_def schema_attempt_response_def schema_attempt_error_def json_object_attempt_def
      parse_completion_response_def split: sum.splits if_splits option.splits dest: parse_content_valid)

text \<open>Between \<open>lo\<close> and \<open>hi\<close> calls since \<open>s0\<close>.\<close>

definition called :: "('w, 'z) ad_scheme \<Rightarrow> nat \<Rightarrow> nat \<Rightarrow> ('w, 'z) ad_scheme \<Rightarrow> bool" where
  "called s0 lo hi s \<longleftrightarrow> (\<exists>n. lo \<le> n \<and> n \<le> hi \<and> tally s0 n s)"

lemma called_mono: "called s0 lo hi s \<Longrightarrow> lo' \<le> lo \<Longrightarrow> hi \<le> hi' \<Longrightarrow> called s0 lo' hi' s"
  unfolding called_def by (meson order_trans)

lemma wp_structured_call:
  assumes "called s0 lo hi s"
  shows "wp (structured_complete_call L async model opts call)
    (\<lambda>v s'. called s0 (Suc lo) (Suc hi) s' \<and> (\<forall>sch. sc_instructor call = Some sch \<longrightarrow> instructed L async model sch v))
    (\<lambda>_. called s0 (Suc lo) (Suc hi)) s"
proof -
  from assms obtain n where n: "lo \<le> n" "n \<le> hi" "tally s0 n s" by (auto simp: called_def)
  have ok: "called s0 (Suc lo) (Suc hi) s'" if "tally s0 (Suc n) s'" for s' using that n by (auto simp: called_def)
  have "wp (structured_complete_call L async model opts call)
    (\<lambda>v _. \<forall>sch. sc_instructor call = Some sch \<longrightarrow> instructed L async model sch v) anything s"
    by (cases "sc_instructor call")
      (auto simp: structured_complete_call_def intro!: wp_always instructedI split: prod.split sum.split)
  from wp_conj[OF tally_call[OF n(3)] this] show ?thesis by (rule wp_mono) (auto intro: ok)
qed

lemma wp_instructor_attempt:
  assumes "called s0 lo hi s"
  shows "wp (instructor_attempt X (structured_complete_call L async model opts) sch payload)
    (\<lambda>q s'. called s0 (Suc lo) (Suc hi) s' \<and> (\<forall>v. q = Inr v \<longrightarrow> valid_answer X L async model sch v))
    (\<lambda>_ _. False) s"
  unfolding instructor_attempt_def Let_def wp_ebind wp_attempt
  by (rule wp_mono[OF wp_structured_call[OF assms]]) (auto simp: valid_answer_def dest: attempts_valid)

lemma wp_instructor_loop:
  "called s0 lo hi s \<Longrightarrow> wp (instructor_loop X (structured_complete_call L async model opts) sch n payload)
    (\<lambda>v s'. called s0 (Suc lo) (hi + n + 1) s' \<and> valid_answer X L async model sch v)
    (\<lambda>_. called s0 (Suc lo) (hi + n + 1)) s"
proof (induction n arbitrary: lo hi payload s)
  case 0
  show ?case
    by (simp, rule wp_mono[OF wp_instructor_attempt[OF 0, where X = X and sch = sch]]) (auto split: sum.split)
next
  case (Suc n)
  have again: "wp (instructor_loop X (structured_complete_call L async model opts) sch n payload')
    (\<lambda>v s'. called s0 (Suc lo) (hi + Suc n + 1) s' \<and> valid_answer X L async model sch v)
    (\<lambda>_. called s0 (Suc lo) (hi + Suc n + 1)) s'" if "called s0 (Suc lo) (Suc hi) s'" for payload' s'
    by (rule wp_mono[OF Suc.IH[OF that]]) (auto elim: called_mono)
  show ?case
    by (simp, rule wp_mono[OF wp_instructor_attempt[OF Suc.prems, where X = X and sch = sch]])
      (use again in \<open>auto elim: called_mono split: sum.split\<close>)
qed

lemma wp_first_attempt:
  assumes "called s0 lo hi s"
  shows "wp (first_attempt X L (structured_complete_call L async model opts) sch payload)
    (\<lambda>(b, v) s'. called s0 lo (Suc hi) s' \<and> (v \<noteq> PNone \<longrightarrow> called s0 (Suc lo) (Suc hi) s' \<and> valid_answer X L async model sch v))
    (\<lambda>_. called s0 (Suc lo) (Suc hi)) s"
proof (cases "response_format L sch")
  case None
  with assms show ?thesis by (auto simp: first_attempt_def elim: called_mono)
next
  case (Some f)
  then show ?thesis
    unfolding first_attempt_def
    by (simp, intro wp_mono[OF wp_structured_call[OF assms]])
      (auto simp: valid_answer_def dest: attempts_valid elim: called_mono split: sum.split)
qed

lemma wp_second_attempt:
  assumes "called s0 lo hi s"
  shows "wp (second_attempt X (structured_complete_call L async model opts) sch payload prompt)
    (\<lambda>v s'. called s0 lo (Suc hi) s' \<and> (v \<noteq> PNone \<longrightarrow> called s0 (Suc lo) (Suc hi) s' \<and> valid_answer X L async model sch v))
    (\<lambda>_. called s0 (Suc lo) (Suc hi)) s"
proof (cases "prompt = []")
  case True
  with assms show ?thesis by (auto simp: second_attempt_def elim: called_mono)
next
  case False
  then show ?thesis
    unfolding second_attempt_def
    by (simp, intro wp_mono[OF wp_structured_call[OF assms]])
      (auto simp: valid_answer_def dest: attempts_valid elim: called_mono split: sum.split)
qed

lemma wp_structured_pipeline:
  assumes "called s0 lo hi s"
  shows "wp (structured_pipeline X L (structured_complete_call L async model opts) sch payload retries)
    (\<lambda>v s'. called s0 (Suc lo) (hi + nat retries + 3) s' \<and> valid_answer X L async model sch v)
    (\<lambda>_. called s0 (Suc lo) (hi + nat retries + 3)) s"
proof -
  let ?ok = "\<lambda>v s'. called s0 (Suc lo) (hi + nat retries + 3) s' \<and> valid_answer X L async model sch v"
  let ?failed = "\<lambda>_. called s0 (Suc lo) (hi + nat retries + 3)"
  let ?send = "structured_complete_call L async model opts"
  have loop: "wp (instructor_loop X ?send sch (nat retries) payload) ?ok ?failed s'" if "called s0 lo (hi + 2) s'" for s'
    by (rule wp_mono[OF wp_instructor_loop[OF that]]) (auto elim: called_mono)
  have two: "wp (second_attempt X ?send sch payload prompt)
      (\<lambda>v'. wp (if v' \<noteq> PNone then ret v' else instructor_loop X ?send sch (nat retries) payload) ?ok ?failed) ?failed s'"
    if "called s0 lo (Suc hi) s'" for prompt s'
    by (rule wp_mono[OF wp_second_attempt[OF that]]) (use loop in \<open>auto elim: called_mono\<close>)
  show ?thesis
    unfolding structured_pipeline_def wp_ebind
    by (rule wp_mono[OF wp_first_attempt[OF assms]]) (use two in \<open>auto elim: called_mono split: prod.splits\<close>)
qed

text \<open>A request starts without usage, so that what it returns is what its events report.\<close>

lemma structured_outcome:
  assumes r: "litellm_structured X L async q s = (r, s')" and c: "ad_context s"
  shows "(\<exists>evs bs. ad_callbacks s' = ad_callbacks s @ evs \<and> map fst evs = answered_calls bs \<and>
      length bs \<le> nat (sq_retries q) + 3 \<and>
      (\<forall>data u. r = Inr (SResponse data u) \<longrightarrow> bs \<noteq> [] \<and> (\<exists>d. u = PDict d \<and>
        (\<forall>k\<in>set USAGE_KEYS. count_at d k = reported_tokens k evs)))) \<and>
    (\<forall>v. r = Inr v \<longrightarrow> (\<exists>data d. v = SResponse data (PDict d) \<and> valid_answer X L async (sq_model q) (sq_schema q) data))"
proof -
  let ?s = "s\<lparr>ad_usage := []\<rparr>"
  let ?m = "structured_pipeline X L (structured_complete_call L async (sq_model q) (structured_options (sq_options q)))
      (sq_schema q) (sq_messages q) (sq_retries q)"
  have "tally ?s 0 ?s" using c by (simp add: tally_def numeric_at_def answered_calls_def)
  then have "called ?s 0 0 ?s" by (auto simp: called_def)
  note wp = wp_structured_pipeline[OF this, of X L async "sq_model q" "structured_options (sq_options q)" "sq_schema q"
      "sq_messages q" "sq_retries q"]
  obtain p s1 where p: "?m ?s = (p, s1)" by fastforce
  have run: "litellm_structured X L async q s =
      (case p of Inl e \<Rightarrow> (Inl e, s1) | Inr data \<Rightarrow> (Inr (SResponse data (PDict (ad_usage s1))), s1))"
    using p by (simp add: litellm_structured_def eseq_def ebind_def modify_def gets_def split: sum.split)
  have books: "\<exists>evs bs. ad_callbacks s1 = ad_callbacks s @ evs \<and> map fst evs = answered_calls bs \<and>
      lo \<le> length bs \<and> length bs \<le> nat (sq_retries q) + 3 \<and>
      (\<forall>k\<in>set USAGE_KEYS. count_at (ad_usage s1) k = reported_tokens k evs)"
    if "called ?s lo (0 + nat (sq_retries q) + 3) s1" for lo
    using that by (fastforce simp: called_def tally_def count_at_def)
  show ?thesis
  proof (cases p)
    case (Inl e)
    with wpD(2)[OF wp] p have "called ?s (Suc 0) (0 + nat (sq_retries q) + 3) s1" by simp
    from books[OF this] Inl r run show ?thesis by auto
  next
    case (Inr data)
    with wpD(1)[OF wp] p have "called ?s (Suc 0) (0 + nat (sq_retries q) + 3) s1"
      "valid_answer X L async (sq_model q) (sq_schema q) data" by simp_all
    with books[OF this(1)] Inr r run show ?thesis by fastforce
  qed
qed

section \<open>Streams\<close>

text \<open>What the consumer of a wrapped stream does: take chunks, from the blocking or the asynchronous
  wrapper, and close it, in any order.\<close>

definition stream_starts :: "'w stream_wrap \<Rightarrow> bool" where
  "stream_starts s \<longleftrightarrow> ad_context s \<and> \<not> sw_finished s \<and> \<not> sw_closed s \<and> sw_usage s = []"

inductive stream_life :: "'w litellm \<Rightarrow> string \<Rightarrow> 'w stream_wrap \<Rightarrow> 'w stream_wrap \<Rightarrow> bool" for L model s0 where
  start: "stream_starts s0 \<Longrightarrow> stream_life L model s0 s0"
| chunk: "stream_life L model s0 s \<Longrightarrow> next_chunk L model s = (r, s') \<Longrightarrow> stream_life L model s0 s'"
| async: "stream_life L model s0 s \<Longrightarrow> async_next L model s = (r, s') \<Longrightarrow> stream_life L model s0 s'"
| closed: "stream_life L model s0 s \<Longrightarrow> close_stream L model f s = (r, s') \<Longrightarrow> stream_life L model s0 s'"

text \<open>The events since \<open>s0\<close>: none while the wrapper is not finished, then the one that ends the call.\<close>

definition stream_reported :: "'w stream_wrap \<Rightarrow> 'w stream_wrap \<Rightarrow> bool" where
  "stream_reported s0 s \<longleftrightarrow> ad_context s \<and>
     (\<exists>evs. ad_callbacks s = ad_callbacks s0 @ evs \<and>
        (if sw_finished s then map fst evs = [LLMCompleted] \<or> map fst evs = [LLMFailed] else evs = []))"

lemma stream_completed_reports:
  assumes "stream_reported s0 s" "stream_completed L model s = (r, s')"
  shows "stream_reported s0 s' \<and> sw_finished s' \<and> r = Inr ()"
proof (cases "sw_finished s")
  case True
  with assms show ?thesis by (simp add: stream_completed_def ebind_def gets_def ret_def)
next
  case False
  obtain t w where "lm_time L (ad_world s) = (t, w)" by fastforce
  with False assms show ?thesis
    by (auto simp: stream_completed_def ebind_def gets_def eseq_def modify_def emit_llm_completed_def in_context_def
        latency_def ad_ask_def ret_def report_event_def Let_def stream_reported_def)
qed

lemma stream_failed_reports:
  assumes "stream_reported s0 s" "stream_failed L model e s = (r, s')"
  shows "stream_reported s0 s' \<and> sw_finished s' \<and> r = Inr ()"
proof (cases "sw_finished s")
  case True
  with assms show ?thesis by (simp add: stream_failed_def ebind_def gets_def ret_def)
next
  case False
  obtain t w where "lm_time L (ad_world s) = (t, w)" by fastforce
  with False assms show ?thesis
    by (auto simp: stream_failed_def ebind_def gets_def eseq_def modify_def emit_llm_failed_def in_context_def
        latency_def ad_ask_def ret_def report_event_def Let_def stream_reported_def)
qed

lemmas wp_stream_end = stream_completed_reports stream_failed_reports

lemma wp_stream_completed:
  "stream_reported s0 s \<Longrightarrow> wp (stream_completed L model) (\<lambda>_ s'. stream_reported s0 s' \<and> sw_finished s') (\<lambda>_ _. False) s"
  by (auto intro!: wpI dest: wp_stream_end)

lemma wp_stream_failed:
  "stream_reported s0 s \<Longrightarrow> wp (stream_failed L model e) (\<lambda>_ s'. stream_reported s0 s' \<and> sw_finished s') (\<lambda>_ _. False) s"
  by (auto intro!: wpI dest: wp_stream_end)

lemma stream_reported_frame [simp]:
  "stream_reported s0 (s\<lparr>sw_left := a\<rparr>) = stream_reported s0 s" "stream_reported s0 (s\<lparr>sw_failure := b\<rparr>) = stream_reported s0 s"
  "stream_reported s0 (s\<lparr>sw_usage := c\<rparr>) = stream_reported s0 s" "stream_reported s0 (s\<lparr>sw_closed := d\<rparr>) = stream_reported s0 s"
  "stream_reported s0 (s\<lparr>ad_world := w\<rparr>) = stream_reported s0 s"
  by (simp_all add: stream_reported_def)

text \<open>A chunk keeps the wrapper as it is; the end and the failure of the stream finish it, and so does
  closing.\<close>

definition stream_ok :: "'w stream_wrap \<Rightarrow> 'w stream_wrap \<Rightarrow> bool" where
  "stream_ok s0 s \<longleftrightarrow> stream_reported s0 s \<and> (sw_closed s \<longrightarrow> sw_finished s)"

lemma wp_next_chunk:
  assumes "stream_ok s0 s"
  shows "wp (next_chunk L model) (\<lambda>v s'. stream_ok s0 s' \<and> (v = None \<longrightarrow> sw_finished s'))
    (\<lambda>_ s'. stream_ok s0 s' \<and> sw_finished s') s"
proof (cases "sw_left s")
  case (Cons c cs)
  then have "pull s = (Inr (Some c), s\<lparr>sw_left := cs\<rparr>)" by (simp add: pull_def)
  with assms show ?thesis
    by (auto simp: next_chunk_def wp_def ebind_def attempt_def eseq_def ret_def modify_def stream_ok_def split: option.split)
next
  case Nil
  show ?thesis
  proof (cases "sw_failure s")
    case None
    with Nil have "pull s = (Inr None, s)" by (simp add: pull_def)
    moreover have "wp (eseq (stream_completed L model) (ret None)) (\<lambda>v s'. stream_ok s0 s' \<and> (v = None \<longrightarrow> sw_finished s'))
        (\<lambda>_ s'. stream_ok s0 s' \<and> sw_finished s') s"
      using assms by (simp, intro wp_mono[OF wp_stream_completed[of s0]]) (auto simp: stream_ok_def)
    ultimately show ?thesis by (simp add: next_chunk_def wp_def ebind_def attempt_def)
  next
    case (Some e)
    with Nil have "pull s = (Inl e, s\<lparr>sw_failure := None\<rparr>)" by (simp add: pull_def)
    moreover have "wp (eseq (stream_failed L model e) (raise e)) (\<lambda>v s'. stream_ok s0 s' \<and> (v = None \<longrightarrow> sw_finished s'))
        (\<lambda>_ s'. stream_ok s0 s' \<and> sw_finished s') (s\<lparr>sw_failure := None\<rparr>)"
      using assms by (simp, intro wp_mono[OF wp_stream_failed[of s0]]) (auto simp: stream_ok_def)
    ultimately show ?thesis by (simp add: next_chunk_def wp_def ebind_def attempt_def)
  qed
qed

lemma wp_async_next:
  assumes "stream_ok s0 s"
  shows "wp (async_next L model) (\<lambda>v s'. stream_ok s0 s' \<and> (v = None \<longrightarrow> sw_finished s'))
    (\<lambda>_ s'. stream_ok s0 s' \<and> sw_finished s') s"
  using assms wp_next_chunk[OF assms] by (simp add: async_next_def)

lemma wp_close_stream:
  assumes "stream_ok s0 s"
  shows "wp (close_stream L model f) (\<lambda>_ s'. stream_ok s0 s' \<and> sw_finished s') (\<lambda>_ s'. stream_ok s0 s' \<and> sw_finished s') s"
proof (cases "sw_closed s")
  case True
  with assms show ?thesis by (simp add: close_stream_def stream_ok_def)
next
  case False
  have ends: "wp (case r of Inl e \<Rightarrow> eseq (stream_failed L model e) (raise e) | Inr u \<Rightarrow> stream_completed L model)
      (\<lambda>_ s'. stream_ok s0 s' \<and> sw_finished s') (\<lambda>_ s'. stream_ok s0 s' \<and> sw_finished s') s'"
    if "stream_reported s0 s'" for r :: "exc + unit" and s'
    by (cases r)
      (simp_all, intro wp_mono[OF wp_stream_failed[OF that]] wp_mono[OF wp_stream_completed[OF that]], auto simp: stream_ok_def,
       intro wp_mono[OF wp_stream_completed[OF that]], auto simp: stream_ok_def)
  show ?thesis
  proof (cases f)
    case None
    with False assms ends[of "s\<lparr>sw_closed := True\<rparr>" "Inr ()"] show ?thesis by (simp add: close_stream_def stream_ok_def)
  next
    case (Some g)
    obtain r w where g: "g (ad_world s) = (r, w)" by fastforce
    from assms ends[of "s\<lparr>sw_closed := True, ad_world := w\<rparr>" r]
    have "wp (case r of Inl e \<Rightarrow> eseq (stream_failed L model e) (raise e) | Inr u \<Rightarrow> stream_completed L model)
      (\<lambda>_ s'. stream_ok s0 s' \<and> sw_finished s') (\<lambda>_ s'. stream_ok s0 s' \<and> sw_finished s')
      (s\<lparr>sw_closed := True, ad_world := w\<rparr>)" by (simp add: stream_ok_def)
    with False Some g show ?thesis
      by (cases r) (auto simp: close_stream_def wp_def ebind_def gets_def eseq_def modify_def attempt_def ad_try_def raise_def
          split: prod.splits sum.splits)
  qed
qed

lemma stream_life_ok: "stream_life L model s0 s \<Longrightarrow> stream_ok s0 s"
proof (induction rule: stream_life.induct)
  case start
  then show ?case by (simp add: stream_starts_def stream_ok_def stream_reported_def)
next
  case (chunk s r s')
  then show ?case using wpD[OF wp_next_chunk[OF chunk.IH]] by (cases r) blast+
next
  case (async s r s')
  then show ?case using wpD[OF wp_async_next[OF async.IH]] by (cases r) blast+
next
  case (closed s f r s')
  then show ?case using wpD[OF wp_close_stream[OF closed.IH]] by (cases r) blast+
qed

end
