(* ===== verification/Adapter_Properties.thy ===== *)
theory Adapter_Properties
  imports Adapter_Laws Scenario
begin

text \<open>
  The properties of the adapter, with a provider that refuses JSON schemas and answers every other call
  with one tool call without an identifier and the content \<open>1\<close>.
\<close>

section \<open>A concrete provider\<close>

definition demo_answer :: pyval where
  "demo_answer =
     PDict [(''choices'', PList [PDict [(''message'', PDict
              [(''content'', PStr ''1''),
               (''tool_calls'', PList [PDict [(''function'', PDict [(''name'', PStr ''echo'')])]])])]]),
            (''usage'', PDict [(''prompt_tokens'', PInt 7)])]"

definition demo_litellm :: "script litellm" where
  "demo_litellm =
     \<lparr>lm_completion = (\<lambda>async params w.
        if dict_get params ''response_format'' \<noteq> None \<and> dict_get params ''response_format'' \<noteq> Some json_object_format
        then (Inl (Exc ''BadRequestError'' ''json_schema is not supported''), w)
        else (Inr demo_answer, w)),
      lm_instructor = (\<lambda>async model ms sch opts w. (Inr (PInt 1, demo_answer), w)),
      lm_cost = (\<lambda>r. None), lm_model_cost = PDict [], lm_chunks = (\<lambda>r. None), lm_time = (\<lambda>w. (0, w)),
      lm_json_schema = (\<lambda>sch. Some (PDict [])), lm_schema_name = (\<lambda>sch. ''S''), lm_indented = (\<lambda>v. ''{}'')\<rparr>"

definition demo_numbers :: "script force_ext" where
  "demo_numbers = demo\<lparr>x_validate_json := (\<lambda>s t. if t = ''1'' then Inr (PInt 1) else Inl (ValueError ''no number''))\<rparr>"

definition demo_ad :: "script ad" where
  "demo_ad = \<lparr>ad_world = \<lparr>sc_next = 0, sc_replies = [], sc_log = []\<rparr>, ad_callbacks = [], ad_context = True,
     ad_start = None, ad_usage = []\<rparr>"

definition demo_request :: request where
  "demo_request = make_request plain_text demo_config ''m'' [mk_message User (CText ''hello'')] [echo] False demo_job
     (Some (OtherAdapter ''int''))"

definition demo_structured_request :: structured_request where
  "demo_structured_request =
     \<lparr>sq_model = ''m'', sq_messages = [], sq_schema = OtherAdapter ''int'', sq_retries = 2, sq_options = []\<rparr>"

lemmas adapter_defs = litellm_complete_def call_with_fallback_def emit_llm_started_def emit_llm_completed_def
  emit_llm_failed_def latency_def in_context_def ad_ask_def ad_try_def report_event_def
  ebind_def eseq_def ret_def raise_def gets_def modify_def try_with_def from_sum_def attempt_def

lemma demo_numbers_simps [simp]:
  "x_text demo_numbers = plain_text" "x_new_id demo_numbers = x_new_id demo"
  "x_validate_json demo_numbers sch t = (if t = ''1'' then Inr (PInt 1) else Inl (ValueError ''no number''))"
  by (simp_all add: demo_numbers_def)

lemma demo_litellm_simps [simp]:
  "lm_instructor demo_litellm async model ms sch opts w = (Inr (PInt 1, demo_answer), w)"
  "lm_cost demo_litellm r = None" "lm_model_cost demo_litellm = PDict []" "lm_chunks demo_litellm r = None"
  "lm_time demo_litellm w = (0, w)" "lm_json_schema demo_litellm sch = Some (PDict [])"
  "lm_schema_name demo_litellm sch = ''S''" "lm_indented demo_litellm v = ''{}''"
  by (simp_all add: demo_litellm_def)

lemma demo_completion:
  "lm_completion demo_litellm async params w =
     (case dict_get params ''response_format'' of
        Some f \<Rightarrow> if f = json_object_format then (Inr demo_answer, w)
                  else (Inl (Exc ''BadRequestError'' ''json_schema is not supported''), w)
      | None \<Rightarrow> (Inr demo_answer, w))"
  by (simp add: demo_litellm_def split: option.split)

lemma demo_format:
  "response_format demo_litellm sch = Some (PDict [(''type'', PStr ''json_schema''), (''json_schema'',
     PDict [(''name'', PStr ''S''), (''schema'', PDict []), (''strict'', PBool True)])])"
  by (simp add: response_format_def)

lemma demo_refusal:
  "is_json_schema_unavailable_error (Exc ''BadRequestError'' ''json_schema is not supported'')"
  by (simp add: is_json_schema_unavailable_error_def error_has_def str_lower_def char_lower_def)

lemma demo_request_simps [simp]:
  "rq_stream demo_request = False" "rq_schema demo_request = Some (OtherAdapter ''int'')"
  by (simp_all add: demo_request_def make_request_def)




lemma demo_structured_completes:
  "\<exists>s' u. litellm_structured demo_numbers demo_litellm True demo_structured_request demo_ad = (Inr (SResponse (PInt 1) u), s')"
  by (simp add: litellm_structured_def structured_pipeline_def first_attempt_def second_attempt_def demo_format
      structured_complete_call_def demo_structured_request_def structured_params_def structured_options_def OPTION_KEYS_def
      given_def demo_completion demo_ad_def adapter_defs json_schema_attempt_def schema_attempt_error_def demo_refusal
      json_object_attempt_def parse_content_def response_content_def response_message_def demo_answer_def
      py_get_def first_choice_def build_json_object_prompt_def record_response_def add_token_usage_def USAGE_KEYS_def
      add_key_def response_usage_def message_field_def dict_get_or_def dumped_usage_def py_add_def dict_update_def
      json_object_format_def Let_def cong: run_weak_cong)

definition demo_stream :: "script stream_wrap" where
  "demo_stream = \<lparr>ad_world = \<lparr>sc_next = 0, sc_replies = [], sc_log = []\<rparr>, ad_callbacks = [], ad_context = True,
     ad_start = None, ad_usage = [], sw_left = [demo_answer], sw_failure = None, sw_usage = [], sw_finished = False,
     sw_closed = False\<rparr>"

definition demo_taken :: "script stream_wrap" where
  "demo_taken = snd (next_chunk demo_litellm ''m'' (snd (next_chunk demo_litellm ''m'' demo_stream)))"

lemma demo_taken_life: "stream_life demo_litellm ''m'' demo_stream demo_taken"
proof -
  have "stream_life demo_litellm ''m'' demo_stream demo_stream"
    by (rule stream_life.start) (simp add: stream_starts_def demo_stream_def)
  then show ?thesis
    unfolding demo_taken_def by (metis stream_life.chunk prod.collapse)
qed

lemma demo_taken_finished: "sw_finished demo_taken"
  by (simp add: demo_taken_def next_chunk_def pull_def demo_stream_def adapter_defs(3-) stream_completed_def
      stream_usage_def demo_answer_def py_get_def dict_get_or_def Let_def cong: run_weak_cong)

section \<open>Properties\<close>

text \<open>
  C35: An adapter over litellm gives the worker what it relies on, whatever a provider answers: every tool
  call of a response has an identifier, a fresh one where the provider left it out.
\<close>

theorem litellm_names_calls:
  assumes "\<forall>w. fst (x_new_id X w) \<noteq> []"
  shows "good_ids (with_litellm L X)"
  by (rule litellm_good_ids[OF assms])

theorem litellm_names_calls_witness:
  "good_ids (with_litellm demo_litellm demo)"
  by (rule litellm_names_calls) (simp add: demo_def)



text \<open>
  C32: A structured completion makes at most \<open>retries + 3\<close> calls, at least one where it returns; each is
  reported as started and then as completed or failed.  It returns a value that is valid for the schema
  or that instructor made for the model class, with the tokens its events report.
\<close>

theorem structured_completion_bounded:
  assumes "litellm_structured X L async q s = (r, s')" "ad_context s"
  shows "(\<exists>evs bs. ad_callbacks s' = ad_callbacks s @ evs \<and> map fst evs = answered_calls bs \<and>
      length bs \<le> nat (sq_retries q) + 3 \<and>
      (\<forall>data u. r = Inr (SResponse data u) \<longrightarrow> bs \<noteq> [] \<and> (\<exists>d. u = PDict d \<and>
        (\<forall>k\<in>set USAGE_KEYS. count_at d k = reported_tokens k evs)))) \<and>
    (\<forall>v. r = Inr v \<longrightarrow> (\<exists>data d. v = SResponse data (PDict d) \<and> valid_answer X L async (sq_model q) (sq_schema q) data))"
  by (rule structured_outcome[OF assms])

theorem structured_completion_bounded_witness:
  "\<exists>u s'. litellm_structured demo_numbers demo_litellm True demo_structured_request demo_ad = (Inr (SResponse (PInt 1) u), s') \<and>
     (\<exists>bs. map fst (ad_callbacks s') = answered_calls bs \<and> bs \<noteq> [] \<and> length bs \<le> 5)"
proof -
  from demo_structured_completes obtain s' u where
    r: "litellm_structured demo_numbers demo_litellm True demo_structured_request demo_ad = (Inr (SResponse (PInt 1) u), s')"
    by (elim exE)
  have c: "ad_context demo_ad" "ad_callbacks demo_ad = []" "nat (sq_retries demo_structured_request) + 3 = 5"
    by (simp_all add: demo_ad_def demo_structured_request_def)
  from structured_completion_bounded[OF r c(1)] have b: "\<exists>bs. map fst (ad_callbacks s') = answered_calls bs \<and> bs \<noteq> [] \<and> length bs \<le> 5"
    unfolding c(2,3) by auto
  show ?thesis by (iprover intro: r b)
qed

text \<open>
  C34: A wrapped stream reports its end once: nothing before it is finished, then that the call completed
  or failed, however its chunks are taken and however often it is closed; it is finished when the stream
  has ended or failed, and when it was closed.
\<close>

theorem stream_reports_once:
  assumes "stream_life L model s0 s"
  shows "(\<exists>evs. ad_callbacks s = ad_callbacks s0 @ evs \<and>
      (if sw_finished s then map fst evs = [LLMCompleted] \<or> map fst evs = [LLMFailed] else evs = [])) \<and>
    (sw_closed s \<longrightarrow> sw_finished s) \<and>
    (\<forall>r s'. next_chunk L model s = (r, s') \<longrightarrow> (\<forall>c. r \<noteq> Inr (Some c)) \<longrightarrow> sw_finished s')"
proof -
  have ok: "stream_ok s0 s" by (rule stream_life_ok[OF assms])
  have "sw_finished s'" if "next_chunk L model s = (r, s')" "\<forall>c. r \<noteq> Inr (Some c)" for r s'
    using wpD[OF wp_next_chunk[OF ok]] that by (cases r) (blast, metis option.exhaust)
  with ok show ?thesis by (simp add: stream_ok_def stream_reported_def)
qed

theorem stream_reports_once_witness:
  "sw_finished demo_taken \<and> (map fst (ad_callbacks demo_taken) = [LLMCompleted] \<or> map fst (ad_callbacks demo_taken) = [LLMFailed])"
proof -
  have c: "ad_callbacks demo_stream = []" by (simp add: demo_stream_def)
  from stream_reports_once[OF demo_taken_life] demo_taken_finished show ?thesis by (auto simp: c)
qed

end
