(* ===== verification/Swarm_Tool.thy ===== *)
theory Swarm_Tool
  imports Desk
begin

text \<open>
  The tool that spawns subworkers (\<^verbatim>\<open>tools/swarm.py\<close>): each call runs a job of a new worker on a desk
  of its own, which shares the stores, the event bus and the adapter of the parent's.  The calls of one
  tool share a budget, read and written in sections that a lock makes atomic: \<open>admit\<close>, \<open>settle\<close> and
  \<open>release\<close>.  The state is the parent desk's with the two counters of the budget.
\<close>

record 'w spawn_state =
  sp_desk :: "'w desk_state"
  sp_spawned :: int
  sp_active :: int

record spawn_config =
  sf_belt :: toolbelt
  sf_default_model :: "string option"
  sf_allowed :: "string list option"
  sf_max_subworkers :: int
  sf_max_tools :: int
  sf_max_iterations :: int
  sf_max_tool_calls :: int
  sf_retries :: int

record spawn_input =
  si_name :: string
  si_instructions :: string
  si_task :: string
  si_tools :: "string list option"
  si_model :: "string option"

type_synonym ('st, 'm, 'u, 'a) spawn_eff = "(('st, 'm, 'u) desk_world_scheme spawn_state, 'a) eff"

section \<open>Making the tool\<close>

definition check_spawn_limits :: "int \<Rightarrow> int \<Rightarrow> int \<Rightarrow> int \<Rightarrow> int \<Rightarrow> exc option" where
  "check_spawn_limits subworkers tools iterations calls retries =
     (if subworkers < 1 then Some (ValueError ''max_subworkers must be >= 1'')
      else if tools < 0 then Some (ValueError ''max_tools_per_subworker must be >= 0'')
      else if iterations < 1 then Some (ValueError ''max_iterations must be >= 1'')
      else if calls < 1 then Some (ValueError ''max_tool_calls must be >= 1'')
      else if retries < 0 then Some (ValueError ''structured_output_retries must be >= 0'')
      else None)"

text \<open>\<open>schema\<close> is pydantic's schema of the input model.\<close>

definition subworker_tool :: "pyval dict \<Rightarrow> string \<Rightarrow> tool" where
  "subworker_tool schema name =
     \<lparr>tl_name = name, tl_description = ''Spawn a bounded autonomous subworker for delegated work.'',
      tl_schema = schema, tl_callable = ''spawn_subworker'', tl_input_model = ''SpawnSubworkerInput'',
      tl_requires_confirmation = False, tl_requires_user_input = False, tl_requires_handoff = False,
      tl_external_execution = False, tl_pre = [], tl_post = [], tl_confirmation_prompt = None,
      tl_user_input_prompt = None, tl_input_key = None, tl_timeout = None, tl_retries = 0,
      tl_retry_delay = 1, tl_output_type = None\<rparr>"

definition create_subworker_tool ::
  "pyval dict \<Rightarrow> tool list \<Rightarrow> string option \<Rightarrow> string list option \<Rightarrow> int \<Rightarrow> int \<Rightarrow> int \<Rightarrow> int \<Rightarrow> int \<Rightarrow>
   string \<Rightarrow> exc + spawn_config \<times> tool" where
  "create_subworker_tool schema available default_model allowed subworkers tools iterations calls retries name =
     (case check_spawn_limits subworkers tools iterations calls retries of
        Some e \<Rightarrow> Inl e
      | None \<Rightarrow>
          (case toolbelt_init (Some available) of
             Inl e \<Rightarrow> Inl e
           | Inr belt \<Rightarrow>
               (case tool_check (subworker_tool schema name) of
                  Some e \<Rightarrow> Inl e
                | None \<Rightarrow> Inr (\<lparr>sf_belt = belt, sf_default_model = default_model, sf_allowed = allowed,
                     sf_max_subworkers = subworkers, sf_max_tools = tools, sf_max_iterations = iterations,
                     sf_max_tool_calls = calls, sf_retries = retries\<rparr>, subworker_tool schema name))))"

definition create_swarm_tool ::
  "pyval dict \<Rightarrow> tool list \<Rightarrow> string option \<Rightarrow> string list option \<Rightarrow> int \<Rightarrow> int \<Rightarrow> int \<Rightarrow> int \<Rightarrow> int \<Rightarrow>
   exc + spawn_config \<times> tool" where
  "create_swarm_tool schema available default_model allowed subworkers tools iterations calls retries =
     create_subworker_tool schema available default_model allowed subworkers tools iterations calls retries
       ''spawn_agent''"

section \<open>The child\<close>

definition mode_str :: "stream_mode \<Rightarrow> string" where
  "mode_str m = (case m of StreamOff \<Rightarrow> ''off'' | StreamPreview \<Rightarrow> ''preview'')"

text \<open>\<open>_child_desk\<close>; the parent's cost budget is not handed on.\<close>

definition child_desk :: "('st, 'm, 'u) desk \<Rightarrow> string \<Rightarrow> spawn_config \<Rightarrow> exc + ('st, 'm, 'u) desk" where
  "child_desk D model C =
     make_desk (D\<lparr>ds_model := model, ds_stream := False, ds_structured_retries := sf_retries C,
                  ds_max_iterations := sf_max_iterations C, ds_max_tool_calls := sf_max_tool_calls C,
                  ds_max_cost_usd := None\<rparr>)
       (mode_str (ds_stream_mode D))"

text \<open>A new desk has no registrations; it works in the world of its parent.\<close>

definition child_start :: "'w \<Rightarrow> 'w desk_state" where
  "child_start w =
     \<lparr>rt_events = [], rt_totals = [], rt_world = w, dk_workers = [], dk_workforces = [], dk_flows = [],
      dk_overrides = [], dk_closed = False\<rparr>"

definition in_child :: "('w desk_state, 'a) eff \<Rightarrow> ('w spawn_state, 'a) eff" where
  "in_child m s =
     (case m (child_start (rt_world (sp_desk s))) of
        (r, c) \<Rightarrow> (r, s\<lparr>sp_desk := (sp_desk s)\<lparr>rt_world := rt_world c\<rparr>\<rparr>))"

definition in_parent :: "(('w desk_state), 'a) eff \<Rightarrow> ('w spawn_state, 'a) eff" where
  "in_parent m s = (case m (sp_desk s) of (r, d) \<Rightarrow> (r, s\<lparr>sp_desk := d\<rparr>))"

definition mark_child_run_failed ::
  "('st, 'm, 'u) desk \<Rightarrow> (('st, 'm, 'u) desk_world_scheme, 'x) force_ext_scheme \<Rightarrow> string \<Rightarrow> job \<Rightarrow> string \<Rightarrow>
   ('st, 'm, 'u, unit) desk_eff" where
  "mark_child_run_failed D X rid j error =
     (let look_up = ebind (gets (\<lambda>s. so_get (ds_store D) rid (dw_store (rt_world s)))) from_sum
      in ebind look_up (\<lambda>record0.
         ebind (if record0 = None
                then ebind (from_sum (ds_dump_job D j)) (\<lambda>dump. eseq (create_run D X rid dump) look_up)
                else ret record0) (\<lambda>record.
         if (case record of Some r \<Rightarrow> rc_status r \<noteq> Running | None \<Rightarrow> False) then ret ()
         else ebind (gets (\<lambda>s. so_events (ds_store D) rid (dw_store (rt_world s)))) (\<lambda>es.
              ebind (from_sum es) (\<lambda>events.
              eseq (modify (\<lambda>s. s\<lparr>rt_events := events\<rparr>))
             (eseq (desk_emit D X rid RunFailed [(''errors'', error_list [error])])
                   (update_run D X rid Failed None (PDict [(''error'', PStr error)]) None)))))))"

section \<open>What the call returns\<close>

definition join_errors :: "string list \<Rightarrow> string \<Rightarrow> string" where
  "join_errors errors fallback =
     (if errors = [] then fallback
      else let txt = str_join ''; '' (filter (\<lambda>e. e \<noteq> []) errors) in if txt = [] then fallback else txt)"

definition child_data :: "string \<Rightarrow> report \<Rightarrow> pyval dict" where
  "child_data name rep =
     [(''run_id'', PStr (rep_run_id rep)), (''status'', PStr (run_status_str (rep_status rep))),
      (''worker'', PStr name)] @
     (if rep_errors rep \<noteq> [] then [(''errors'', error_list (rep_errors rep))] else []) @
     (case rep_pending rep of
        Some a \<Rightarrow> [(''pending_action_type'', PStr (action_type_str (pa_type a)))] | None \<Rightarrow> [])"

text \<open>The result of a child's report.\<close>

definition child_result :: "pytext \<Rightarrow> string \<Rightarrow> report \<Rightarrow> tool_result" where
  "child_result P name rep =
     (let data = PDict (child_data name rep)
      in if rep_status rep = Paused
         then (error_result (''Subworker paused and requires '' @
                 (case rep_pending rep of None \<Rightarrow> ''unknown'' | Some a \<Rightarrow> action_type_str (pa_type a)) @
                 '' follow-up''))\<lparr>tr_data := data\<rparr>
         else if rep_status rep = Failed
         then (error_result (join_errors (rep_errors rep) ''Subworker failed''))\<lparr>tr_data := data\<rparr>
         else empty_result\<lparr>
           tr_content := Some (case rep_content rep of
                                 Some c \<Rightarrow> c
                               | None \<Rightarrow> if rep_data rep \<noteq> PNone then json_text P (rep_data rep) else []),
           tr_data := data\<rparr>)"

definition failed_child_result :: "string \<Rightarrow> string \<Rightarrow> string \<Rightarrow> tool_result" where
  "failed_child_result name rid error_message =
     (error_result (''Subworker execution failed: '' @ error_message))\<lparr>tr_data := PDict
        [(''run_id'', PStr rid), (''status'', PStr ''failed''), (''worker'', PStr name),
         (''errors'', error_list [error_message])]\<rparr>"

text \<open>The checks in front: a refusal, or the model and the tools of the subworker.\<close>

definition resolve_spawn_tools :: "toolbelt \<Rightarrow> string list \<Rightarrow> string list \<times> tool list" where
  "resolve_spawn_tools belt names =
     (filter (\<lambda>n. toolbelt_resolve belt n = None) names,
      List.map_filter (toolbelt_resolve belt) names)"

definition spawn_plan ::
  "spawn_config \<Rightarrow> string \<Rightarrow> spawn_input \<Rightarrow> tool_result + string \<times> tool list" where
  "spawn_plan C desk_model i =
     (let model = or_str (si_model i) (or_str (sf_default_model C) desk_model);
          names = (case si_tools i of Some ns \<Rightarrow> ns | None \<Rightarrow> []);
          (missing, tools) = resolve_spawn_tools (sf_belt C) names
      in if model = [] then Inl (error_result ''Subworker model is not configured'')
         else if (case sf_allowed C of Some ms \<Rightarrow> model \<notin> set ms | None \<Rightarrow> False)
         then Inl (error_result (''Model '' @ quoted model @ '' is not allowed for subworkers''))
         else if int (length names) > sf_max_tools C
         then Inl (error_result (''Too many tools requested for subworker: '' @ int_str (int (length names)) @
                '' > '' @ int_str (sf_max_tools C)))
         else if missing \<noteq> []
         then Inl (error_result (''Requested tools are not available: '' @ str_join '', '' missing))
         else Inr (model, tools))"

section \<open>The budget\<close>

text \<open>The sections under the lock.\<close>

definition admit :: "spawn_config \<Rightarrow> ('w spawn_state, bool) eff" where
  "admit C =
     ebind (gets (\<lambda>s. sp_spawned s + sp_active s \<ge> sf_max_subworkers C)) (\<lambda>full.
     if full then ret False else eseq (modify (\<lambda>s. s\<lparr>sp_active := sp_active s + 1\<rparr>)) (ret True))"

definition settle :: "('w spawn_state, unit) eff" where
  "settle = modify (\<lambda>s. s\<lparr>sp_active := sp_active s - 1, sp_spawned := sp_spawned s + 1\<rparr>)"

definition release :: "('w spawn_state, unit) eff" where
  "release = modify (\<lambda>s. s\<lparr>sp_active := sp_active s - 1\<rparr>)"

section \<open>The call\<close>

definition child_job :: "string \<Rightarrow> string \<Rightarrow> job" where
  "child_job i task =
     \<lparr>job_id = i, job_input = PStr task, job_expected_output = None, job_tools_override = None,
      job_response_schema = None, job_constraints = [], job_metadata = [], job_initial_messages = None,
      job_thinking = None, job_stream_mode = None, job_drop_params = None, job_extra_body = None\<rparr>"

text \<open>The run of an admitted child: its slot is settled where the result is a success, and released
  otherwise, whatever is raised.\<close>

definition run_child ::
  "(('st, 'm, 'u) desk_world_scheme, 'x) force_ext_scheme \<Rightarrow> ('st, 'm, 'u) desk \<Rightarrow> crew_member \<Rightarrow> job \<Rightarrow>
   string \<Rightarrow> ('st, 'm, 'u, tool_result) spawn_eff" where
  "run_child X CD m j rid =
     ebind (in_child (attempt (desk_arun CD X (RWorker m) j (Some False) (Some rid)))) (\<lambda>r.
     case r of
       Inl e \<Rightarrow>
         finally_do release
           (if is_cancelled e then raise e
            else eseq (in_child (mark_child_run_failed CD X rid j (exc_msg e)))
                   (ret (failed_child_result (mb_name m) rid (exc_msg e))))
     | Inr rep \<Rightarrow>
         (let result = child_result (x_text X) (mb_name m) rep
          in eseq (if rep_status rep = Paused \<or> rep_status rep = Failed then release else settle) (ret result)))"

definition spawn_subworker ::
  "('st, 'm, 'u) desk \<Rightarrow> (('st, 'm, 'u) desk_world_scheme, 'x) force_ext_scheme \<Rightarrow> spawn_config \<Rightarrow>
   spawn_input \<Rightarrow> ('st, 'm, 'u, tool_result) spawn_eff" where
  "spawn_subworker D X C i =
     (case spawn_plan C (ds_model D) i of
        Inl refused \<Rightarrow> ret refused
      | Inr (model, tools) \<Rightarrow>
          ebind (from_sum (make_worker 0 (si_name i) (Some tools) (Some model) (Some (si_instructions i)) None)) (\<lambda>m.
          ebind (from_sum (child_desk D model C)) (\<lambda>CD.
          ebind (in_parent (ask (x_new_id X))) (\<lambda>jid.
          ebind (in_parent (ask (x_new_id X))) (\<lambda>rid.
          ebind (admit C) (\<lambda>admitted.
          if \<not> admitted
          then ret (error_result (''Subworker budget exceeded: max_subworkers='' @ int_str (sf_max_subworkers C)))
          else run_child X CD m (child_job jid (si_task i)) rid))))))"

end
