(* ===== verification/Swarm_Laws.thy ===== *)
theory Swarm_Laws
  imports Swarm_Tool Desk_Laws
begin

text \<open>
  What a subworker leaves behind: its run is stored and not left running, no other run changes, and the
  budget counts the children at work and the ones that succeeded.
\<close>

section \<open>The child's desk\<close>

lemma child_desk_frame:
  assumes "child_desk D model C = Inr CD"
  shows "ds_store CD = ds_store D" "ds_handlers CD = ds_handlers D" "ds_model CD = model"
    "ds_max_iterations CD = sf_max_iterations C" "ds_max_tool_calls CD = sf_max_tool_calls C"
    "ds_max_cost_usd CD = None"
  using assms by (auto simp: child_desk_def make_desk_def split: if_splits option.splits)

lemma wp_in_child [simp]:
  "wp (in_child m) Q E = (\<lambda>s. wp m (\<lambda>a c. Q a (s\<lparr>sp_desk := (sp_desk s)\<lparr>rt_world := rt_world c\<rparr>\<rparr>))
     (\<lambda>e c. E e (s\<lparr>sp_desk := (sp_desk s)\<lparr>rt_world := rt_world c\<rparr>\<rparr>)) (child_start (rt_world (sp_desk s))))"
  by (auto simp: wp_def in_child_def fun_eq_iff split: prod.splits sum.splits)

lemma wp_in_parent_ask:
  "wp (in_parent (ask f)) Q E =
   (\<lambda>s. Q (fst (f (rt_world (sp_desk s)))) (s\<lparr>sp_desk := (sp_desk s)\<lparr>rt_world := snd (f (rt_world (sp_desk s)))\<rparr>\<rparr>))"
  by (auto simp: wp_def in_parent_def ask_def on_world_def apfst_def map_prod_def fun_eq_iff split: prod.splits)

lemma child_start_world [simp]: "rt_world (child_start w) = w"
  by (simp add: child_start_def)

text \<open>What the result of a call says of the stored run: a success that it is completed with this output, a
  failure its status, or that the run raised.\<close>

definition told :: "tool_result \<Rightarrow> run_record \<Rightarrow> bool" where
  "told res q \<longleftrightarrow> rc_status q \<noteq> Running \<and>
     (tr_error res = None \<longrightarrow> rc_status q = Completed \<and> (\<forall>c. rc_output q = Some c \<longrightarrow> tr_content res = Some c)) \<and>
     (\<exists>d st. tr_data res = PDict d \<and> dict_get d ''status'' = Some (PStr st) \<and>
        (st = run_status_str (rc_status q) \<or> st = ''failed'' \<and> tr_error res \<noteq> None))"

section \<open>Runs stay with their record\<close>

context desk_runs
begin

definition confined :: "string \<Rightarrow> ('st, 'm, 'u) desk_world_scheme \<Rightarrow> ('st, 'm, 'u) desk_world_scheme \<Rightarrow> bool" where
  "confined rid w w' \<longleftrightarrow> (inv (dw_store w) \<longrightarrow> others_kept rid (dw_store w) (dw_store w'))"

lemma pre_confined [simp]: "pre (confined rid)"
  by (auto simp: pre_def confined_def others_kept_def)

lemma kept_confined: "runs_kept w w' \<Longrightarrow> confined rid w w'" "same_store w w' \<Longrightarrow> confined rid w w'"
  by (auto simp: runs_kept_def confined_def others_kept_def same_store_def)

lemma moving_confined:
  "moving (via runs_kept) m \<Longrightarrow> moving (via (confined rid)) m"
  "moving (still runs_kept) m \<Longrightarrow> moving (via (confined rid)) m"
  "moving (still same_store) m \<Longrightarrow> moving (via (confined rid)) m"
  by (auto simp: moving_def via_def still_def intro: kept_confined)

lemma store_confined:
  assumes "\<And>s s'. inv s \<Longrightarrow> f s = Inr s' \<Longrightarrow> others_kept rid s s'"
  shows "moving (via (confined rid)) (on_world (on_store f))"
  using assms by (auto simp: moving_def via_def on_world_def on_store_def confined_def others_kept_def split: sum.split)

lemma ask_confined: "(\<And>w. same_store w (snd (f w))) \<Longrightarrow> moving (via (confined rid)) (ask f)"
  by (rule moving_ask[OF over_via]) (auto intro: kept_confined)

lemma externals_still: "same_store w (snd (x_now X w))" "same_store w (snd (x_new_id X w))"
  using externals world_moves.now[of same_store X w] world_moves.new_id[of same_store X w] by (auto simp: force_moves_def)

lemmas confining = moves ask_confined externals_still store_confined over_pre[OF over_via[OF pre_confined]]

lemma create_confined: "moving (via (confined rid)) (create_run D X rid v)"
  unfolding create_run_def
  using create by (intro confining) (auto simp: store others_kept_def)

lemma update_confined: "moving (via (confined rid)) (update_run D X rid status out json st)"
  unfolding update_run_def
  using update_frame by (intro confining) (auto simp: store others_kept_def)

lemma finalize_confined: "moving (via (confined rid)) (finalize_run D X m rid se out)"
  by (cases out)
    (auto simp: finalize_run_def Let_def remember_override_def pop_override_def
      intro!: confining update_confined moving_confined(2)[OF desk_emit_moves] moving_confined(3)[OF record_memory_moves]
      split: option.split)

lemma arun_confined: "rid \<noteq> [] \<Longrightarrow> moving (via (confined rid)) (desk_arun D X r j0 stream (Some rid))"
proof -
  have fail: "moving (via (confined rid)) (record_unexpected_failure D X rid e)" for e
    by (auto simp: record_unexpected_failure_def Let_def pop_override_def
        intro!: confining update_confined moving_confined(2)[OF desk_emit_moves])
  have guarded: "moving (via (confined rid)) (guarded_run D X r rid c j)" for c j
    by (auto simp: guarded_run_def intro!: confining fail moving_confined(1)[OF run_runner_moves])
  have prepared: "moving (via (confined rid)) (prepare_job D P r j0)" for P
    by (auto simp: prepare_job_def apply_memory_def intro!: confining split: runner.split option.split)
  assume "rid \<noteq> []"
  then show ?thesis
    by (auto simp: desk_arun_def ensure_open_def the_run_id_def start_run_def Let_def
        intro!: confining prepared create_confined guarded finalize_confined moving_confined(2)[OF desk_emit_moves])
qed

section \<open>The run of a child\<close>

text \<open>A stored run that is not left running.\<close>

definition at_rest :: "string \<Rightarrow> 'st \<Rightarrow> bool" where
  "at_rest rid st \<longleftrightarrow> (\<exists>q. view st rid = Some q \<and> rc_status q \<noteq> Running)"

lemma at_restI: "view st rid = Some q \<Longrightarrow> rc_status q \<noteq> Running \<Longrightarrow> at_rest rid st"
  by (simp add: at_rest_def)

lemma mark_confined: "moving (via (confined rid)) (mark_child_run_failed D X rid j msg)"
  by (auto simp: mark_child_run_failed_def Let_def intro!: confining create_confined update_confined
      moving_confined(2)[OF desk_emit_moves])

lemma marked:
  assumes "inv (stored s)"
  shows "wp (mark_child_run_failed D X rid j msg) (\<lambda>_ s'. at_rest rid (stored s')) anything s"
proof -
  let ?update = "eseq (desk_emit D X rid RunFailed pl) (update_run D X rid Failed None v None)"
  have fail: "wp (desk_emit D X rid RunFailed pl) (\<lambda>_. wp (update_run D X rid Failed None v None)
      (\<lambda>_ s'. at_rest rid (stored s')) anything) anything s1"
    if "inv (stored s1)" "view (stored s1) rid \<noteq> None" for s1 pl v
  proof (rule wp_mono[OF emit_appends])
    fix a s2 assume "still runs_kept s1 s2 \<and> (\<exists>e. rt_events s2 = rt_events s1 @ [e] \<and> ev_type e = RunFailed \<and> ev_run_id e = rid)"
    with that obtain r where "inv (stored s2)" "view (stored s2) rid = Some r" by (auto simp: still_def runs_kept_def)
    from update_records[OF this] show "wp (update_run D X rid Failed None v None) (\<lambda>_ s'. at_rest rid (stored s')) anything s2"
      by (rule wp_mono) (auto simp: at_rest_def)
  qed simp
  have tail: "wp (if (case rc of Some r \<Rightarrow> rc_status r \<noteq> Running | None \<Rightarrow> False) then ret ()
      else ebind (gets (\<lambda>s. so_events (ds_store D) rid (dw_store (rt_world s)))) (\<lambda>es.
           ebind (from_sum es) (\<lambda>events.
           eseq (modify (\<lambda>s. s\<lparr>rt_events := events\<rparr>))
          (eseq (desk_emit D X rid RunFailed pl) (update_run D X rid Failed None v None)))))
      (\<lambda>_ s'. at_rest rid (stored s')) anything s1"
    if "inv (stored s1)" "view (stored s1) rid = rc" "rc \<noteq> None" for s1 rc pl v
    using that by (auto intro!: fail at_restI split: sum.split)
  have look: "so_get (ds_store D) rid st = Inr (view st rid)" for st by (simp add: store get)
  show ?thesis
  proof (cases "view (stored s) rid")
    case (Some q)
    with tail[OF assms refl] show ?thesis by (simp add: mark_child_run_failed_def look Let_def)
  next
    case None
    then show ?thesis
      by (simp add: mark_child_run_failed_def look Let_def split: sum.split)
        (intro allI impI wp_mono[OF create_records[OF assms]],
         auto simp: others_kept_def intro: at_restI intro!: fail split: option.splits)
  qed
qed

lemma child_result_told:
  assumes "final_record load se (rep, st) q" "worker_end m (rep, st) s"
  shows "told (child_result P n rep) q"
proof -
  have "rc_status q = rep_status rep \<and> rep_status rep \<noteq> Running \<and> rc_output q = rep_content rep"
    using assms by (auto simp: final_record_def worker_end_def split: if_splits) (cases "rep_status rep"; simp)+
  then show ?thesis
    by (cases "rep_status rep") (auto simp: told_def child_result_def child_data_def Let_def empty_result_def)
qed

lemma child_run_told:
  assumes "inv (stored (sp_desk s))" "rid \<noteq> []" "good_ids X" "conversation_ok (initial_messages j)"
  shows "wp (run_child X D m j rid)
    (\<lambda>res s'. others_kept rid (stored (sp_desk s)) (stored (sp_desk s')) \<and>
       (\<exists>q. view (stored (sp_desk s')) rid = Some q \<and> told res q)) anything s"
proof -
  let ?c0 = "child_start (rt_world (sp_desk s))"
  let ?good = "\<lambda>res s'. others_kept rid (stored (sp_desk s)) (stored (sp_desk s')) \<and>
       (\<exists>q. view (stored (sp_desk s')) rid = Some q \<and> told res q)"
  have inv0: "inv (stored ?c0)" using assms(1) by simp
  note ran = wp_conj[OF worker_arun_records[OF inv0 assms(2,3,4), of m "Some False"] moving_wp[OF arun_confined[OF assms(2)]]]
  have conf: "others_kept rid (stored (sp_desk s)) (stored c)" if "via (confined rid) ?c0 c" for c
    using that assms(1) by (simp add: via_def confined_def)
  have mark: "wp (mark_child_run_failed D X rid j msg)
      (\<lambda>_ c'. others_kept rid (stored (sp_desk s)) (stored c') \<and> at_rest rid (stored c')) anything (child_start (rt_world c))"
    if c: "via (confined rid) ?c0 c" for msg c
  proof -
    have i: "inv (stored (child_start (rt_world c)))" using conf[OF c] by (simp add: others_kept_def)
    show ?thesis
      by (rule wp_mono[OF wp_conj[OF marked[OF i] moving_wp[OF mark_confined]]])
        (use conf[OF c] in \<open>auto simp: via_def confined_def others_kept_def\<close>)
  qed
  have failed: "told (failed_child_result n rid msg) q" if "rc_status q \<noteq> Running" for n msg q
    using that by (simp add: told_def failed_child_result_def)
  have raised: "wp (finally_do release (if is_cancelled e then raise e
      else eseq (in_child (mark_child_run_failed D X rid j (exc_msg e))) (ret (failed_child_result (mb_name m) rid (exc_msg e)))))
      ?good anything (s\<lparr>sp_desk := (sp_desk s)\<lparr>rt_world := rt_world c\<rparr>\<rparr>)"
    if c: "via (confined rid) ?c0 c" for e c
  proof (cases "is_cancelled e")
    case False
    show ?thesis
      by (simp add: False finally_do_def release_def, rule wp_mono[OF mark[OF c, of "exc_msg e"]])
        (auto simp: at_rest_def intro: failed)
  qed (simp add: finally_do_def release_def)
  show ?thesis
    unfolding run_child_def wp_ebind wp_in_child wp_attempt
    by (rule wp_mono[OF ran])
      (use raised conf in \<open>auto simp: Let_def settle_def release_def run_ended_def others_kept_def dest: child_result_told\<close>)
qed

end

section \<open>The budget\<close>

lemma wp_in_child_counts:
  "wp (in_child m) (\<lambda>a s'. sp_active s' = sp_active s \<and> sp_spawned s' = sp_spawned s)
     (\<lambda>e s'. sp_active s' = sp_active s \<and> sp_spawned s' = sp_spawned s) s"
  "wp (in_parent m') (\<lambda>a s'. sp_active s' = sp_active s \<and> sp_spawned s' = sp_spawned s)
     (\<lambda>e s'. sp_active s' = sp_active s \<and> sp_spawned s' = sp_spawned s) s"
  by (auto simp: wp_def in_child_def in_parent_def split: prod.splits sum.splits)

lemma wp_in_child_attempt:
  "wp (in_child (attempt m)) (\<lambda>a s'. sp_active s' = sp_active s \<and> sp_spawned s' = sp_spawned s) (\<lambda>_ _. False) s"
  by (auto simp: wp_def in_child_def attempt_def split: prod.splits sum.splits)

lemma child_result_error: "tr_error (child_result P n rep) = None \<longleftrightarrow> rep_status rep \<noteq> Paused \<and> rep_status rep \<noteq> Failed"
  by (simp add: child_result_def Let_def empty_result_def)

lemma run_child_counts:
  "wp (run_child X D m j rid)
    (\<lambda>res s'. sp_active s' = sp_active s - 1 \<and> sp_spawned s' = sp_spawned s + of_bool (tr_error res = None))
    (\<lambda>_ s'. sp_active s' = sp_active s - 1 \<and> sp_spawned s' = sp_spawned s) s"
proof -
  have raised: "wp (finally_do release (if is_cancelled e then raise e
      else eseq (in_child (mark_child_run_failed D X rid j msg)) (ret (failed_child_result n rid msg))))
    (\<lambda>res s'. sp_active s' = sp_active s - 1 \<and> sp_spawned s' = sp_spawned s + of_bool (tr_error res = None))
    (\<lambda>_ s'. sp_active s' = sp_active s - 1 \<and> sp_spawned s' = sp_spawned s) s1"
    if "sp_active s1 = sp_active s" "sp_spawned s1 = sp_spawned s" for e msg n s1
  proof (cases "is_cancelled e")
    case True
    with that show ?thesis by (simp add: finally_do_def release_def)
  next
    case False
    show ?thesis
      by (simp add: False finally_do_def release_def failed_child_result_def del: wp_in_child,
        rule wp_mono[OF wp_in_child_counts(1)]) (use that in auto)
  qed
  have settle_rep: "wp (let result = child_result (x_text X) (mb_name m) rep
        in eseq (if rep_status rep = Paused \<or> rep_status rep = Failed then release else settle) (ret result))
    (\<lambda>res s'. sp_active s' = sp_active s - 1 \<and> sp_spawned s' = sp_spawned s + of_bool (tr_error res = None))
    (\<lambda>_ s'. sp_active s' = sp_active s - 1 \<and> sp_spawned s' = sp_spawned s) s1"
    if "sp_active s1 = sp_active s" "sp_spawned s1 = sp_spawned s" for rep s1
    using that by (simp add: settle_def release_def Let_def child_result_error)
  show ?thesis
    unfolding run_child_def wp_ebind
    by (rule wp_mono[OF wp_in_child_attempt]; (split sum.split, intro conjI allI impI)?)
      (simp_all only: raised settle_rep)
qed

lemma spawn_counts:
  "wp (spawn_subworker D X C i)
    (\<lambda>res s'. sp_active s' = sp_active s \<and> sp_spawned s' = sp_spawned s + of_bool (tr_error res = None) \<and>
       (tr_error res = None \<longrightarrow> sp_spawned s + sp_active s < sf_max_subworkers C))
    (\<lambda>_ s'. sp_active s' = sp_active s \<and> sp_spawned s' = sp_spawned s) s"
proof -
  let ?ok = "\<lambda>res s'. sp_active s' = sp_active s \<and> sp_spawned s' = sp_spawned s + of_bool (tr_error res = None) \<and>
       (tr_error res = None \<longrightarrow> sp_spawned s + sp_active s < sf_max_subworkers C)"
  let ?failed = "\<lambda>_ s'. sp_active s' = sp_active s \<and> sp_spawned s' = sp_spawned s"
  let ?same = "\<lambda>s1. sp_active s1 = sp_active s \<and> sp_spawned s1 = sp_spawned s"
  have run: "wp (run_child X CD m j rid) ?ok ?failed (s1\<lparr>sp_active := sp_active s1 + 1\<rparr>)"
    if "?same s1" "\<not> sf_max_subworkers C \<le> sp_spawned s1 + sp_active s1" for CD m j rid s1
    by (rule wp_mono[OF run_child_counts]) (use that in auto)
  have admitted: "wp (ebind (admit C) (\<lambda>ok. if \<not> ok then ret (error_result msg) else run_child X CD m j rid)) ?ok ?failed s1"
    if "?same s1" for msg CD m j rid s1
  proof (cases "sf_max_subworkers C \<le> sp_spawned s1 + sp_active s1")
    case True
    with that show ?thesis by (simp add: admit_def)
  next
    case False
    show ?thesis
      unfolding admit_def wp_ebind wp_eseq wp_gets wp_modify wp_ret if_not_P[OF False]
      by (simp only: wp_eseq wp_modify wp_ret not_True_eq_False if_False) (rule run[OF that False])
  qed
  have asked: "wp (ebind (in_parent m) f) ?ok ?failed s1"
    if "?same s1" "\<And>a s2. ?same s2 \<Longrightarrow> wp (f a) ?ok ?failed s2" for m f s1
    unfolding wp_ebind by (rule wp_mono[OF wp_in_child_counts(2)]) (use that in auto)
  have plan: "tr_error res \<noteq> None" if "spawn_plan C n i = Inl res" for n res
    using that by (auto simp: spawn_plan_def Let_def split: if_splits prod.splits)
  show ?thesis
  proof (cases "spawn_plan C (ds_model D) i")
    case (Inl res)
    with plan[OF Inl] show ?thesis by (auto simp: spawn_subworker_def)
  next
    case (Inr p)
    obtain model tools where p: "p = (model, tools)" by (cases p)
    show ?thesis
      unfolding spawn_subworker_def Inr p sum.case prod.case wp_ebind[of "from_sum _"] wp_from_sum
      by (auto split: sum.split intro!: asked admitted simp del: wp_ebind)
  qed
qed

text \<open>Calls of one tool that run at the same time: each arrives, is admitted or refused, works, and then
  settles or releases its slot; while one works, the others take their steps.\<close>

datatype call_phase = Arrived | Working | Succeeded | Ended

inductive spawning :: "spawn_config \<Rightarrow> 'w spawn_state \<Rightarrow> call_phase list \<Rightarrow> bool" for C where
  start: "sp_spawned s = 0 \<Longrightarrow> sp_active s = 0 \<Longrightarrow> spawning C s []"
| arrive: "spawning C s ps \<Longrightarrow> spawning C s (ps @ [Arrived])"
| admitted: "spawning C s ps \<Longrightarrow> i < length ps \<Longrightarrow> ps ! i = Arrived \<Longrightarrow> admit C s = (Inr ok, s') \<Longrightarrow>
    spawning C s' (ps[i := if ok then Working else Ended])"
| settled: "spawning C s ps \<Longrightarrow> i < length ps \<Longrightarrow> ps ! i = Working \<Longrightarrow> settle s = (r, s') \<Longrightarrow>
    spawning C s' (ps[i := Succeeded])"
| released: "spawning C s ps \<Longrightarrow> i < length ps \<Longrightarrow> ps ! i = Working \<Longrightarrow> release s = (r, s') \<Longrightarrow>
    spawning C s' (ps[i := Ended])"
| elsewhere: "spawning C s ps \<Longrightarrow> sp_spawned s' = sp_spawned s \<Longrightarrow> sp_active s' = sp_active s \<Longrightarrow> spawning C s' ps"

lemma count_list_update:
  "i < length xs \<Longrightarrow> int (count_list (xs[i := y]) a) = int (count_list xs a) - of_bool (xs ! i = a) + of_bool (y = a)"
proof (induction xs arbitrary: i)
  case (Cons x xs)
  then show ?case by (cases i) simp_all
qed simp

lemma spawning_counts:
  assumes "spawning C s ps" "0 \<le> sf_max_subworkers C"
  shows "sp_spawned s = int (count_list ps Succeeded) \<and> sp_active s = int (count_list ps Working) \<and>
    sp_spawned s + sp_active s \<le> sf_max_subworkers C"
  using assms
proof induction
  case (admitted s ps i ok s')
  then show ?case
    by (auto simp: admit_def ebind_def gets_def eseq_def modify_def ret_def count_list_update split: if_splits)
qed (auto simp: settle_def release_def modify_def count_list_update)

end
