(* ===== verification/Swarm_Properties.thy ===== *)
theory Swarm_Properties
  imports Swarm_Laws Desk_Properties
begin

text \<open>
  The properties of the tool that spawns subworkers: its budget, over calls in any order, and the runs it
  leaves in the in-memory store, as facts of \<open>desk_runs\<close> for the desk of the child.
\<close>

section \<open>A concrete call\<close>

definition demo_spawn_config :: spawn_config where
  "demo_spawn_config =
     \<lparr>sf_belt = [], sf_default_model = None, sf_allowed = None, sf_max_subworkers = 2, sf_max_tools = 8,
      sf_max_iterations = 10, sf_max_tool_calls = 10, sf_retries = 1\<rparr>"

definition demo_spawn_input :: spawn_input where
  "demo_spawn_input =
     \<lparr>si_name = ''sub'', si_instructions = ''be brief'', si_task = ''hello'', si_tools = None, si_model = None\<rparr>"

definition demo_spawn :: "completion list \<Rightarrow> demo_world spawn_state" where
  "demo_spawn rs = \<lparr>sp_desk = demo_start rs, sp_spawned = 0, sp_active = 0\<rparr>"

definition demo_child :: "(mem_store, mem_memory, script) desk" where
  "demo_child = demo_desk\<lparr>ds_structured_retries := 1, ds_max_tool_calls := 10\<rparr>"

definition demo_sub :: crew_member where
  "demo_sub = \<lparr>mb_ref = 0, mb_worker = \<lparr>wk_name = ''sub'', wk_belt = [], wk_instructions = Some ''be brief''\<rparr>,
     mb_model = Some ''m'', mb_scope = ''worker:sub''\<rparr>"

lemma demo_child_desk: "child_desk demo_desk ''m'' demo_spawn_config = Inr demo_child"
  by (simp add: child_desk_def make_desk_def mode_str_def make_run_config_def validate_execution_limits_def parse_stream_mode_def str_strip_def is_space_def
      demo_spawn_config_def demo_child_def demo_desk_def)

lemma demo_sub_made:
  "make_worker 0 (si_name demo_spawn_input) (Some []) (Some ''m'') (Some (si_instructions demo_spawn_input)) None = Inr demo_sub"
  by (simp add: make_worker_def demo_spawn_input_def str_strip_def is_space_def toolbelt_init_def or_str_def demo_sub_def)

lemma demo_plan: "spawn_plan demo_spawn_config ''m'' demo_spawn_input = Inr (''m'', [])"
  by (simp add: spawn_plan_def demo_spawn_config_def demo_spawn_input_def resolve_spawn_tools_def or_str_def map_filter_def)

lemma demo_child_delivers [simp]:
  "desk_deliver (demo_desk\<lparr>ds_structured_retries := n, ds_max_tool_calls := k\<rparr>) e w = desk_deliver demo_desk e w"
  by (simp add: desk_deliver_def)

lemma demo_child_runs:
  "\<exists>rep c. desk_arun demo_child demo_externals (RWorker demo_sub) (child_job ''id0'' ''hello'') (Some False) (Some ''id1'')
     (child_start \<lparr>eb_handlers = [], eb_pending = [], eb_errors = [], eb_next = 0, dw_store = mem_empty, dw_memory = [],
        \<dots> = \<lparr>sc_next = 2, sc_replies = [say ''bye''], sc_log = []\<rparr>\<rparr>) = (Inr rep, c) \<and> rep_status rep = Completed"
  by (simp add: child_start_def child_job_def demo_sub_def demo_child_def
      desk_defs scenario_defs dict_get_or_def validate_execution_limits_def
      model_name_def del: One_nat_def cong: run_weak_cong)

lemma demo_spawn_succeeds:
  "\<exists>res s'. spawn_subworker demo_desk demo_externals demo_spawn_config demo_spawn_input (demo_spawn [say ''bye''])
     = (Inr res, s') \<and> tr_error res = None"
proof -
  have ids: "''id'' @ nat_digits 0 = ''id0''" "''id'' @ nat_digits 1 = ''id1''" by (simp_all add: nat_digits.simps char_of_def bit_0 bit_simps)
  obtain rep c where "desk_arun demo_child demo_externals (RWorker demo_sub) (child_job ''id0'' ''hello'') (Some False) (Some ''id1'')
     (child_start \<lparr>eb_handlers = [], eb_pending = [], eb_errors = [], eb_next = 0, dw_store = mem_empty, dw_memory = [],
        \<dots> = \<lparr>sc_next = 2, sc_replies = [say ''bye''], sc_log = []\<rparr>\<rparr>) = (Inr rep, c)" "rep_status rep = Completed"
    using demo_child_runs by blast
  moreover have "sf_max_subworkers demo_spawn_config = 1 + 1" by (simp add: demo_spawn_config_def)
  ultimately show ?thesis
    using ids
    by (simp add: ebind_def eseq_def gets_def modify_def ret_def from_sum_def ask_def on_world_def attempt_def
        numeral_2_eq_2 spawn_subworker_def demo_plan demo_sub_made demo_child_desk demo_spawn_def demo_start_def
        in_parent_def admit_def below_def run_child_def in_child_def child_result_def settle_def
        demo_spawn_input_def[THEN arg_cong[where f = si_task]] empty_result_def Let_def cong: run_weak_cong)
qed

section \<open>The budget\<close>

text \<open>A call that nothing interrupts is a sequence of the steps of \<open>spawning\<close>.\<close>

lemma spawn_admitted:
  assumes "spawning C s ps" "sp_spawned s + sp_active s < sf_max_subworkers C"
  shows "spawning C s (ps @ [Arrived])" "spawning C (s\<lparr>sp_active := sp_active s + 1\<rparr>) (ps @ [Working])"
  using spawning.admitted[OF spawning.arrive[OF assms(1)], of "length ps" True] assms
  by (auto intro: spawning.arrive simp: admit_def ebind_def gets_def eseq_def modify_def ret_def)

lemma spawn_succeeds:
  fixes s s' :: "'w spawn_state"
  assumes "spawning C s ps" "sp_spawned s + sp_active s < sf_max_subworkers C"
    and "sp_active s' = sp_active s" "sp_spawned s' = sp_spawned s + 1"
  shows "spawning C s' (ps @ [Succeeded])"
proof -
  have "spawning C (s\<lparr>sp_spawned := sp_spawned s + 1\<rparr>) (ps @ [Succeeded])"
    using spawning.settled[OF spawn_admitted(2)[OF assms(1,2)], of "length ps" "Inr ()"]
    by (simp add: settle_def modify_def)
  then show ?thesis by (rule spawning.elsewhere) (use assms(3,4) in simp_all)
qed

lemma spawn_ends:
  fixes s s' :: "'w spawn_state"
  assumes "spawning C s ps" "sp_active s' = sp_active s" "sp_spawned s' = sp_spawned s"
  shows "spawning C s' (ps @ [Ended])"
proof (cases "sp_spawned s + sp_active s < sf_max_subworkers C")
  case True
  from spawning.released[OF spawn_admitted(2)[OF assms(1) this], of "length ps" "Inr ()"]
  have "spawning C s (ps @ [Ended])" by (simp add: release_def modify_def)
  then show ?thesis by (rule spawning.elsewhere) (use assms in auto)
next
  case False
  from spawning.admitted[OF spawning.arrive[OF assms(1)], of "length ps" False s] False
  have "spawning C s (ps @ [Ended])"
    by (simp add: admit_def ebind_def gets_def ret_def)
  then show ?thesis by (rule spawning.elsewhere) (use assms in auto)
qed

text \<open>
  C36: The calls of a tool made with a budget never have more subworkers than the budget allows, counting
  those at work and those that succeeded, however the calls overlap; the counters hold these numbers, and
  a call that runs on its own takes a place only where its result is a success.
\<close>

theorem subworkers_within_budget:
  assumes "create_subworker_tool schema available default_model allowed subworkers tools iterations calls retries name
      = Inr (C, t)"
    and "spawning C s ps"
  shows "sp_spawned s = int (count_list ps Succeeded) \<and> sp_active s = int (count_list ps Working)
    \<and> int (count_list ps Succeeded) + int (count_list ps Working) \<le> subworkers
    \<and> (\<forall>r s'. spawn_subworker D X C i s = (r, s') \<longrightarrow>
         spawning C s' (ps @ [if \<exists>res. r = Inr res \<and> tr_error res = None then Succeeded else Ended]))"
proof -
  have C: "sf_max_subworkers C = subworkers" "1 \<le> subworkers"
    using assms(1) by (auto simp: create_subworker_tool_def check_spawn_limits_def split: if_splits sum.splits option.splits)
  have "spawning C s' (ps @ [if \<exists>res. r = Inr res \<and> tr_error res = None then Succeeded else Ended])"
    if r: "spawn_subworker D X C i s = (r, s')" for r s'
  proof (cases r)
    case (Inl e)
    with wpD(2)[OF spawn_counts, of D X C i s e s'] r spawn_ends[OF assms(2), of s'] show ?thesis by simp
  next
    case (Inr res)
    with wpD(1)[OF spawn_counts, of D X C i s res s'] r spawn_ends[OF assms(2), of s'] spawn_succeeds[OF assms(2), of s']
    show ?thesis by (cases "tr_error res") auto
  qed
  with spawning_counts[OF assms(2)] C show ?thesis by simp
qed

theorem subworkers_within_budget_witness:
  "\<exists>t s' :: demo_world spawn_state.
     create_subworker_tool [] [] None None 2 8 10 10 1 ''spawn'' = Inr (demo_spawn_config, t)
     \<and> sp_spawned s' = int (count_list [Succeeded] Succeeded)"
proof -
  let ?t = "subworker_tool [] ''spawn''"
  have made: "create_subworker_tool [] [] None None 2 8 10 10 1 ''spawn'' = Inr (demo_spawn_config, ?t)"
    by (simp add: create_subworker_tool_def check_spawn_limits_def toolbelt_init_def tool_check_def subworker_tool_def
        str_strip_def is_space_def demo_spawn_config_def)
  have start: "spawning demo_spawn_config (demo_spawn [say ''bye'']) []"
    by (rule spawning.start) (simp_all add: demo_spawn_def)
  obtain res s' where r: "spawn_subworker demo_desk demo_externals demo_spawn_config demo_spawn_input (demo_spawn [say ''bye''])
     = (Inr res, s')" "tr_error res = None"
    using demo_spawn_succeeds by blast
  from subworkers_within_budget[OF made start, of demo_desk demo_externals demo_spawn_input] r
  have "spawning demo_spawn_config s' [Succeeded]" by simp
  from subworkers_within_budget[OF made this] made show ?thesis by blast
qed

section \<open>The runs of subworkers\<close>



end
