(* ===== verification/Vector_Memory.thy ===== *)
theory Vector_Memory
  imports Memory_Stores Complex_Main "HOL-Library.Multiset"
begin

text \<open>
  The vector memory store (\<^verbatim>\<open>memory/vector.py\<close>).  The text of a value is cut into overlapping chunks, which a
  collection of ChromaDB keeps with their position and sizes; reading puts them together again.  The
  collection is an argument: a record of the four operations the store calls, over a state of its own.
\<close>

section \<open>Cutting a text\<close>

text \<open>The \<open>while\<close> loop; the step is positive, as the overlap is below the size.\<close>

function chunk_loop :: "nat \<Rightarrow> nat \<Rightarrow> string \<Rightarrow> nat \<Rightarrow> string list" where
  "chunk_loop chunk_size step text start =
     (if start < length text \<and> 0 < step
      then let stop = min (start + chunk_size) (length text)
           in take (stop - start) (drop start text) #
                (if stop = length text then [] else chunk_loop chunk_size step text (start + step))
      else [])"
  by pat_completeness auto
termination by (relation "measure (\<lambda>(chunk_size, step, text, start). length text - start)") auto

declare chunk_loop.simps [simp del]

definition chunk_pieces :: "string \<Rightarrow> int \<Rightarrow> int \<Rightarrow> string list" where
  "chunk_pieces text chunk_size overlap =
     (if int (length text) \<le> chunk_size then [text]
      else if chunk_size \<le> 0 then [text]
      else let overlap = min (max overlap 0) (chunk_size - 1)
           in chunk_loop (nat chunk_size) (nat (chunk_size - overlap)) text 0)"

section \<open>Values and texts\<close>

definition serialize_value :: "pytext \<Rightarrow> pyval \<Rightarrow> string" where
  "serialize_value P v = (case v of PStr s \<Rightarrow> s | _ \<Rightarrow> json_text P (to_json_value v))"

definition deserialize_value :: "pytext \<Rightarrow> string \<Rightarrow> pyval" where
  "deserialize_value P text = (case json_loads P text of Inr v \<Rightarrow> v | Inl _ \<Rightarrow> PStr text)"

text \<open>\<open>int(x)\<close>: digits with single underscores between them, a sign, white space around.\<close>

fun digit_run :: "bool \<Rightarrow> nat \<Rightarrow> string \<Rightarrow> nat option" where
  "digit_run after_digit acc [] = (if after_digit then Some acc else None)"
| "digit_run after_digit acc (c # s) =
     (if c = CHR ''_'' then (if after_digit then digit_run False acc s else None)
      else if 48 \<le> (of_char c :: nat) \<and> (of_char c :: nat) \<le> 57
      then digit_run True (acc * 10 + (of_char c - 48)) s else None)"

definition int_of_text :: "string \<Rightarrow> int option" where
  "int_of_text s =
     (case str_strip s of
        [] \<Rightarrow> None
      | c # r \<Rightarrow> if c = CHR ''-'' then map_option (\<lambda>n. - int n) (digit_run False 0 r)
                 else map_option int (digit_run False 0 (if c = CHR ''+'' then r else c # r)))"

definition py_int :: "pyval \<Rightarrow> exc + int" where
  "py_int v =
     (case v of
        PInt i \<Rightarrow> Inr i
      | PBool b \<Rightarrow> Inr (of_bool b)
      | PFloat q \<Rightarrow> Inr (if q < 0 then - \<lfloor>- q\<rfloor> else \<lfloor>q\<rfloor>)
      | PStr s \<Rightarrow> (case int_of_text s of Some i \<Rightarrow> Inr i
                 | None \<Rightarrow> Inl (ValueError (''invalid literal for int() with base 10: '' @ json_quote s)))
      | _ \<Rightarrow> Inl (TypeErr ''int() argument must be a string, a bytes-like object or a real number''))"

section \<open>Embeddings\<close>

text \<open>
  \<open>DeterministicEmbeddingFunction\<close>: each token moves one coordinate up or down, both read off its 64-bit
  hash; the vector is scaled to length one.  The coordinates are exact: rounding to 32 bits is not modelled.
\<close>

definition is_token_char :: "char \<Rightarrow> bool" where
  "is_token_char c \<longleftrightarrow> (let n = (of_char c :: nat) in 97 \<le> n \<and> n \<le> 122 \<or> 48 \<le> n \<and> n \<le> 57)"

fun text_tokens :: "string \<Rightarrow> string \<Rightarrow> string list" where
  "text_tokens run [] = (if run = [] then [] else [rev run])"
| "text_tokens run (c # s) =
     (if is_token_char c then text_tokens (c # run) s
      else (if run = [] then [] else [rev run]) @ text_tokens [] s)"

definition document_tokens :: "string \<Rightarrow> string list" where
  "document_tokens doc =
     (let found = text_tokens [] (str_lower doc)
      in if found \<noteq> [] then found else if doc \<noteq> [] then [str_lower doc] else [[]])"

definition add_token :: "(string \<Rightarrow> nat) \<Rightarrow> nat \<Rightarrow> string \<Rightarrow> int list \<Rightarrow> int list" where
  "add_token hash dims token v =
     (let n = hash token; i = n mod dims; direction = (if (n div 2) mod 2 = 0 then 1 else -1)
      in v[i := v ! i + direction])"

definition embed_document :: "(string \<Rightarrow> nat) \<Rightarrow> nat \<Rightarrow> string \<Rightarrow> real list" where
  "embed_document hash dims doc =
     (let v = fold (add_token hash dims) (document_tokens doc) (replicate dims 0);
          magnitude = sqrt (\<Sum>x\<leftarrow>v. (of_int x)\<^sup>2)
      in if magnitude = 0 then (map of_int v)[0 := 1] else map (\<lambda>x. of_int x / magnitude) v)"

definition embedding_dimensions :: "int \<Rightarrow> nat" where
  "embedding_dimensions n = nat (max n 1)"

fun embed_all :: "(string \<Rightarrow> nat) \<Rightarrow> nat \<Rightarrow> pyval list \<Rightarrow> exc + real list list" where
  "embed_all hash dims [] = Inr []"
| "embed_all hash dims (PStr doc # rest) =
     (case embed_all hash dims rest of Inl x \<Rightarrow> Inl x | Inr vs \<Rightarrow> Inr (embed_document hash dims doc # vs))"
| "embed_all hash dims (_ # rest) = Inl (Exc ''AttributeError'' ''lower'')"

definition embed_input :: "(string \<Rightarrow> nat) \<Rightarrow> nat \<Rightarrow> pyval list \<Rightarrow> exc + real list list" where
  "embed_input hash dims input =
     (case input of
        [] \<Rightarrow> Inr []
      | PStr _ # _ \<Rightarrow> embed_all hash dims input
      | _ \<Rightarrow> Inl (TypeErr ''DeterministicEmbeddingFunction only supports text documents''))"

text \<open>\<open>build_from_config\<close>, and the embedding a stored collection was made with.\<close>

definition build_from_config :: "pyval dict \<Rightarrow> nat" where
  "build_from_config config =
     embedding_dimensions (case py_int (dict_get_or config ''dimensions'' (PInt 256)) of Inr n \<Rightarrow> n | Inl _ \<Rightarrow> 256)"

definition embedding_from_collection :: "pyval option \<Rightarrow> nat option" where
  "embedding_from_collection configuration_json =
     (case configuration_json of
        Some (PDict c) \<Rightarrow>
          (case dict_get c ''embedding_function'' of
             Some (PDict e) \<Rightarrow>
               if dict_get e ''name'' \<noteq> Some (PStr ''blackgeorge_deterministic_embedding'') then None
               else Some (build_from_config (case dict_get_or e ''config'' (PDict []) of PDict d \<Rightarrow> d | _ \<Rightarrow> []))
           | _ \<Rightarrow> None)
      | _ \<Rightarrow> None)"

datatype 'e embedding = Deterministic nat | Given 'e

text \<open>The choice in \<open>__init__\<close>; \<open>existing\<close> is the configuration of the collection, if there is one.  \<open>None\<close>
  leaves the choice to the collection.\<close>

definition choose_embedding :: "'e option \<Rightarrow> pyval option option \<Rightarrow> 'e embedding option" where
  "choose_embedding given existing =
     (case given of
        Some e \<Rightarrow> Some (Given e)
      | None \<Rightarrow>
          (case existing of
             Some configuration_json \<Rightarrow> map_option Deterministic (embedding_from_collection configuration_json)
           | None \<Rightarrow> Some (Deterministic (embedding_dimensions 256))))"

section \<open>The collection\<close>

record chunk_entry =
  ce_id :: string
  ce_meta :: "pyval dict"
  ce_doc :: string

text \<open>The \<open>where\<close> filters the store uses.\<close>

datatype chunk_filter = InScope string | OfKey string string

fun chosen :: "chunk_filter \<Rightarrow> chunk_entry \<Rightarrow> bool" where
  "chosen (InScope s) e = (dict_get (ce_meta e) ''scope'' = Some (PStr s))"
| "chosen (OfKey s k) e =
     (dict_get (ce_meta e) ''scope'' = Some (PStr s) \<and> dict_get (ce_meta e) ''key'' = Some (PStr k))"

record 'c collection_ops =
  cn_get :: "chunk_filter \<Rightarrow> 'c \<Rightarrow> exc + chunk_entry list"
  cn_add :: "chunk_entry list \<Rightarrow> 'c \<Rightarrow> exc + 'c"
  cn_delete :: "chunk_filter \<Rightarrow> 'c \<Rightarrow> exc + 'c"
  cn_query :: "string \<Rightarrow> chunk_filter \<Rightarrow> int \<Rightarrow> 'c \<Rightarrow> exc + chunk_entry list"

record 'c vector_store =
  vs_ops :: "'c collection_ops"
  vs_text :: pytext
  vs_hash :: "string \<Rightarrow> string"   \<comment> \<open>the BLAKE2b digest, in hexadecimal\<close>
  vs_now :: "'c \<Rightarrow> string"         \<comment> \<open>the clock\<close>
  vs_size :: int
  vs_overlap :: int

text \<open>\<open>VectorMemoryStore.__init__\<close>, as far as it sets the sizes.\<close>

definition vector_store_init ::
  "'c collection_ops \<Rightarrow> pytext \<Rightarrow> (string \<Rightarrow> string) \<Rightarrow> ('c \<Rightarrow> string) \<Rightarrow> int \<Rightarrow> int \<Rightarrow> 'c vector_store" where
  "vector_store_init K P hash now chunk_size chunk_overlap =
     (let size = max chunk_size 1
      in \<lparr>vs_ops = K, vs_text = P, vs_hash = hash, vs_now = now, vs_size = size,
          vs_overlap = min (max chunk_overlap 0) (size - 1)\<rparr>)"

section \<open>The operations\<close>

definition chunk_id :: "'c vector_store \<Rightarrow> string \<Rightarrow> string \<Rightarrow> nat \<Rightarrow> string" where
  "chunk_id V scope key i = vs_hash V (json_text (vs_text V) (PList [PStr scope, PStr key, PInt (int i)]))"

definition chunk_entries :: "'c vector_store \<Rightarrow> string \<Rightarrow> string \<Rightarrow> string \<Rightarrow> string list \<Rightarrow> chunk_entry list" where
  "chunk_entries V now scope key chunks =
     map (\<lambda>(i, doc). \<lparr>ce_id = chunk_id V scope key i,
            ce_meta = [(''scope'', PStr scope), (''key'', PStr key), (''chunk_index'', PInt (int i)),
                       (''total_chunks'', PInt (int (length chunks))), (''chunk_size'', PInt (vs_size V)),
                       (''chunk_overlap'', PInt (vs_overlap V)), (''created_at'', PStr now)],
            ce_doc = doc\<rparr>)
       (enumerate 0 chunks)"

text \<open>\<open>_delete_by_key\<close> and \<open>reset\<close> only log what the collection raises.\<close>

definition delete_by_key :: "'c vector_store \<Rightarrow> string \<Rightarrow> string \<Rightarrow> 'c \<Rightarrow> 'c" where
  "delete_by_key V key scope c = (case cn_delete (vs_ops V) (OfKey scope key) c of Inr c' \<Rightarrow> c' | Inl _ \<Rightarrow> c)"

definition vector_reset :: "'c vector_store \<Rightarrow> string \<Rightarrow> 'c \<Rightarrow> 'c" where
  "vector_reset V scope c = (case cn_delete (vs_ops V) (InScope scope) c of Inr c' \<Rightarrow> c' | Inl _ \<Rightarrow> c)"

definition vector_write :: "'c vector_store \<Rightarrow> string \<Rightarrow> pyval \<Rightarrow> string \<Rightarrow> 'c \<Rightarrow> exc + 'c" where
  "vector_write V key v scope c =
     (let chunks = chunk_pieces (serialize_value (vs_text V) v) (vs_size V) (vs_overlap V);
          now = vs_now V c
      in cn_add (vs_ops V) (chunk_entries V now scope key chunks) (delete_by_key V key scope c))"

text \<open>\<open>_resolve_chunk_config\<close>: the sizes a chunk was written with.\<close>

definition int_or :: "pyval \<Rightarrow> int \<Rightarrow> int" where
  "int_or v d = (case py_int v of Inr i \<Rightarrow> i | Inl _ \<Rightarrow> d)"

definition resolve_chunk_config :: "'c vector_store \<Rightarrow> pyval dict \<Rightarrow> int \<times> int" where
  "resolve_chunk_config V meta =
     (let size = int_or (dict_get_or meta ''chunk_size'' (PInt (vs_size V))) (vs_size V);
          overlap = int_or (dict_get_or meta ''chunk_overlap'' (PInt (vs_overlap V))) (vs_overlap V);
          size = (if size \<le> 0 then vs_size V else size);
          overlap = (if overlap < 0 then 0 else overlap)
      in (size, min overlap (size - 1)))"

text \<open>The position of an entry; the keys of a sort are computed before it starts.\<close>

definition chunk_index :: "chunk_entry \<Rightarrow> exc + int" where
  "chunk_index e = py_int (dict_get_or (ce_meta e) ''chunk_index'' (PInt 0))"

fun indexed :: "chunk_entry list \<Rightarrow> exc + (int \<times> chunk_entry) list" where
  "indexed [] = Inr []"
| "indexed (e # es) =
     (case chunk_index e of
        Inl x \<Rightarrow> Inl x
      | Inr i \<Rightarrow> (case indexed es of Inl x \<Rightarrow> Inl x | Inr ies \<Rightarrow> Inr ((i, e) # ies)))"

text \<open>The first chunk whole, of each further one what its overlap leaves.\<close>

definition new_part :: "int \<Rightarrow> string \<Rightarrow> string" where
  "new_part overlap doc =
     (let n = int (length doc) - overlap in if n > 0 then drop (length doc - nat n) doc else [])"

definition join_chunks :: "int \<Rightarrow> string list \<Rightarrow> string" where
  "join_chunks overlap docs = (case docs of [] \<Rightarrow> [] | d # ds \<Rightarrow> d @ concat (map (new_part overlap) ds))"

definition vector_read :: "'c vector_store \<Rightarrow> string \<Rightarrow> string \<Rightarrow> 'c \<Rightarrow> exc + pyval" where
  "vector_read V key scope c =
     (case cn_get (vs_ops V) (OfKey scope key) c of
        Inl x \<Rightarrow> Inl x
      | Inr [] \<Rightarrow> Inr PNone
      | Inr es \<Rightarrow>
          (case indexed es of
             Inl x \<Rightarrow> Inl x
           | Inr ies \<Rightarrow>
               (let chunks = map snd (sort_key fst ies);
                    (size, overlap) = resolve_chunk_config V (ce_meta (hd chunks));
                    step = max (size - overlap) 1
                in Inr (deserialize_value (vs_text V) (join_chunks (size - step) (map ce_doc chunks))))))"

text \<open>\<open>search\<close>: the keys of the nearest chunks, each once, with their values.\<close>

definition entry_key :: "pytext \<Rightarrow> chunk_entry \<Rightarrow> string" where
  "entry_key P e = py_str P (dict_get_or (ce_meta e) ''key'' (PStr (ce_id e)))"

fun read_matches ::
  "'c vector_store \<Rightarrow> string \<Rightarrow> 'c \<Rightarrow> string list \<Rightarrow> chunk_entry list \<Rightarrow> exc + (string \<times> pyval) list" where
  "read_matches V scope c seen [] = Inr []"
| "read_matches V scope c seen (e # es) =
     (let key = entry_key (vs_text V) e
      in if key \<in> set seen then read_matches V scope c seen es
         else (case vector_read V key scope c of
                 Inl x \<Rightarrow> Inl x
               | Inr v \<Rightarrow>
                   (case read_matches V scope c (key # seen) es of
                      Inl x \<Rightarrow> Inl x
                    | Inr ms \<Rightarrow> Inr (if v = PNone then ms else (key, v) # ms))))"

definition vector_search ::
  "'c vector_store \<Rightarrow> string \<Rightarrow> string \<Rightarrow> int \<Rightarrow> 'c \<Rightarrow> exc + (string \<times> pyval) list" where
  "vector_search V query scope top_k c =
     (if top_k < 0 then Inl (ValueError ''top_k must be non-negative'')
      else if top_k = 0 then Inr []
      else case cn_query (vs_ops V) query (InScope scope) top_k c of
             Inl x \<Rightarrow> Inl x
           | Inr es \<Rightarrow> read_matches V scope c [] es)"

definition vector_memory :: "'c vector_store \<Rightarrow> 'c memory_ops" where
  "vector_memory V = \<lparr>mo_write = vector_write V, mo_read = vector_read V,
     mo_search = (\<lambda>query scope. vector_search V query scope 5), mo_reset = vector_reset V\<rparr>"

end
