(* ===== verification/Vector_Laws.thy ===== *)
theory Vector_Laws
  imports Vector_Memory
begin

text \<open>
  The chunks of a text give it back; the identifiers of chunks differ; and the store over a collection that
  behaves as documented is a memory store: \<open>vector_is_memory_store\<close>.
\<close>

section \<open>Chunks\<close>

lemma chunk_loop_Cons:
  "start < length text \<Longrightarrow> 0 < step \<Longrightarrow>
   chunk_loop n step text start = take n (drop start text) #
     (if length text \<le> start + n then [] else chunk_loop n step text (start + step))"
  by (subst chunk_loop.simps) (auto simp: Let_def min_def)

lemma new_part_long: "overlap < length doc \<Longrightarrow> new_part (int overlap) doc = drop overlap doc"
  by (simp add: new_part_def Let_def nat_diff_distrib' flip: of_nat_diff)

lemma join_chunk_loop:
  assumes "overlap < n" "start < length text"
  shows "join_chunks (int overlap) (chunk_loop n (n - overlap) text start) = drop start text"
  using assms(2)
proof (induction "length text - start" arbitrary: start rule: less_induct)
  case less
  let ?next = "start + (n - overlap)"
  show ?case
  proof (cases "length text \<le> start + n")
    case True
    with less.prems assms(1) show ?thesis by (simp add: chunk_loop_Cons join_chunks_def)
  next
    case False
    with assms(1) have next': "?next < length text" "length text - ?next < length text - start" by auto
    have first: "overlap < length (take n (drop ?next text))" using False assms(1) by auto
    from next'(1) assms(1) obtain cs where cs: "chunk_loop n (n - overlap) text ?next = take n (drop ?next text) # cs"
      by (simp add: chunk_loop_Cons)
    have "take n (drop ?next text) @ concat (map (new_part (int overlap)) cs) = drop ?next text"
      using less.hyps[OF next'(2,1)] by (simp add: cs join_chunks_def)
    then have "drop overlap (take n (drop ?next text)) @ concat (map (new_part (int overlap)) cs)
        = drop overlap (drop ?next text)"
      using first by (metis drop_append diff_is_0_eq' less_imp_le_nat drop0)
    also have "\<dots> = drop (start + n) text" using assms(1) by (simp add: add.commute)
    finally have "join_chunks (int overlap) (chunk_loop n (n - overlap) text start) = take n (drop start text) @ drop (start + n) text"
      using False less.prems assms(1) new_part_long[OF first]
      unfolding chunk_loop_Cons[OF less.prems zero_less_diff[THEN iffD2, OF assms(1)]] cs by (simp add: join_chunks_def)
    then show ?thesis using append_take_drop_id[of n "drop start text"] by (simp add: add.commute)
  qed
qed

lemma join_chunk_pieces:
  assumes "1 \<le> n" "0 \<le> overlap" "overlap < n"
  shows "join_chunks overlap (chunk_pieces text n overlap) = text"
proof (cases "int (length text) \<le> n")
  case True
  then show ?thesis by (simp add: chunk_pieces_def join_chunks_def)
next
  case False
  have "nat (n - overlap) = nat n - nat overlap" "nat overlap < nat n" "0 < length text" "min overlap (n - 1) = overlap"
    using assms False by auto
  then show ?thesis
    using join_chunk_loop[of "nat overlap" "nat n" 0 "text"] assms False
    by (simp add: chunk_pieces_def Let_def max_def)
qed

lemma chunk_loop_length: "c \<in> set (chunk_loop n step t start) \<Longrightarrow> length c \<le> n"
proof (induction n step t start rule: chunk_loop.induct)
  case (1 n step t start)
  then show ?case by (subst (asm) chunk_loop.simps) (auto simp: Let_def split: if_splits)
qed

lemma chunk_pieces_length:
  "1 \<le> n \<Longrightarrow> c \<in> set (chunk_pieces text n overlap) \<Longrightarrow> int (length c) \<le> n"
  by (auto simp: chunk_pieces_def Let_def split: if_splits dest: chunk_loop_length)

lemma chunk_pieces_not_empty: "chunk_pieces text n overlap \<noteq> []"
proof -
  have "chunk_loop (nat n) (nat (n - min (max overlap 0) (n - 1))) text 0 \<noteq> []" if "n < int (length text)" "0 < n"
    using that by (subst chunk_loop_Cons) auto
  then show ?thesis by (auto simp: chunk_pieces_def Let_def)
qed

section \<open>Identifiers\<close>

text \<open>A quoted text can be read back, whatever follows it: the character an escape stands for, and the rest.\<close>

definition hex_value :: "char \<Rightarrow> nat" where
  "hex_value c = (if of_char c < (58::nat) then of_char c - 48 else of_char c - 87)"

definition json_unchar :: "string \<Rightarrow> char \<times> string" where
  "json_unchar s =
     (if hd s \<noteq> char_of (92::nat) then (hd s, tl s)
      else if s ! 1 = CHR ''u'' then (char_of (16 * hex_value (s ! 4) + hex_value (s ! 5)), drop 6 s)
      else (if s ! 1 = CHR ''n'' then char_of (10::nat) else if s ! 1 = CHR ''r'' then char_of (13::nat)
            else if s ! 1 = CHR ''t'' then char_of (9::nat) else if s ! 1 = CHR ''f'' then char_of (12::nat)
            else if s ! 1 = CHR ''b'' then char_of (8::nat) else s ! 1, drop 2 s))"

lemma hex_value_digit: "n < 16 \<Longrightarrow> hex_value (hex_digit n) = n"
  by (auto simp: hex_value_def hex_digit_def)

lemma json_char_escaped:
  "json_char (char_of n) = (let e = (\<lambda>x. [char_of (92::nat), x]) in
     if n = 34 then e (char_of (34::nat)) else if n = 92 then e (char_of (92::nat)) else if n = 10 then e (CHR ''n'')
     else if n = 13 then e (CHR ''r'') else if n = 9 then e (CHR ''t'') else if n = 12 then e (CHR ''f'')
     else if n = 8 then e (CHR ''b'') else if 32 \<le> n \<and> n \<le> 126 then [char_of n]
     else char_of (92::nat) # ''u00'' @ [hex_digit (n div 16), hex_digit (n mod 16)])"
  if "n < 256" for n :: nat
  using that by (simp add: json_char_def Let_def)

lemma json_unchar_short:
  "x \<notin> set ''unrtfb'' \<Longrightarrow> json_unchar (char_of (92::nat) # x # s) = (x, s)"
  "json_unchar (char_of (92::nat) # CHR ''n'' # s) = (char_of (10::nat), s)"
  "json_unchar (char_of (92::nat) # CHR ''r'' # s) = (char_of (13::nat), s)"
  "json_unchar (char_of (92::nat) # CHR ''t'' # s) = (char_of (9::nat), s)"
  "json_unchar (char_of (92::nat) # CHR ''f'' # s) = (char_of (12::nat), s)"
  "json_unchar (char_of (92::nat) # CHR ''b'' # s) = (char_of (8::nat), s)"
  by (simp_all add: json_unchar_def)

lemma json_unchar_plain: "c \<noteq> char_of (92::nat) \<Longrightarrow> json_unchar (c # s) = (c, s)"
  by (simp add: json_unchar_def)

lemma json_unchar_hex:
  assumes "n < 256"
  shows "json_unchar (char_of (92::nat) # ''u00'' @ [hex_digit (n div 16), hex_digit (n mod 16)] @ s) = (char_of n, s)"
proof -
  have "hex_value (hex_digit (n div 16)) = n div 16" "hex_value (hex_digit (n mod 16)) = n mod 16"
    using assms by (auto intro: hex_value_digit)
  then show ?thesis unfolding json_unchar_def by (simp add: nth_Cons')
qed
lemma json_char_read: "json_unchar (json_char (char_of n) @ s) = (char_of n, s)" if n: "n < 256" for n :: nat
proof (cases "n \<in> {34, 92, 10, 13, 9, 12, 8}")
  case True
  then show ?thesis unfolding json_char_escaped[OF n] by (auto simp: json_unchar_short char_of_eq_iff)
next
  case False
  show ?thesis
  proof (cases "32 \<le> n \<and> n \<le> 126")
    case True
    with False n have "json_char (char_of n) = [char_of n]" "char_of n \<noteq> (char_of (92::nat) :: char)"
      by (simp_all add: json_char_escaped)
    then show ?thesis by (simp add: json_unchar_plain)
  next
    case 2: False
    with False n have "json_char (char_of n) = char_of (92::nat) # ''u00'' @ [hex_digit (n div 16), hex_digit (n mod 16)]"
      by (auto simp: json_char_escaped)
    then show ?thesis using json_unchar_hex[OF n] by simp
  qed
qed

lemma json_char_cong: "json_char c @ s = json_char d @ t \<Longrightarrow> c = d \<and> s = t"
  using json_char_read[of "of_char c" s] json_char_read[of "of_char d" t] by simp

lemma json_char_start: "json_char c \<noteq> [] \<and> hd (json_char c) \<noteq> char_of (34::nat)"
  by (auto simp: json_char_def Let_def char_of_eq_iff)

lemma json_chars_cong:
  "concat (map json_char s) @ char_of (34::nat) # r = concat (map json_char t) @ char_of (34::nat) # r' \<Longrightarrow> s = t \<and> r = r'"
proof (induction s arbitrary: t)
  case Nil
  then show ?case using json_char_start[of "hd t"] by (cases t) (auto simp: neq_Nil_conv)
next
  case (Cons c s)
  then obtain d t' where t: "t = d # t'" using json_char_start[of c] by (cases t) (auto simp: neq_Nil_conv)
  with Cons.prems json_char_cong[of c _ d] have "c = d \<and> concat (map json_char s) @ char_of (34::nat) # r
      = concat (map json_char t') @ char_of (34::nat) # r'" by simp
  with Cons.IH t show ?case by simp
qed

lemma json_quote_cong: "json_quote s @ r = json_quote t @ r' \<Longrightarrow> s = t \<and> r = r'"
  using json_chars_cong[of s r t r'] by (simp add: json_quote_def)

text \<open>So can a number.\<close>

lemma nat_digits_value: "foldl (\<lambda>a c. a * 10 + (of_char c - 48)) 0 (nat_digits n) = n"
proof (induction n rule: nat_digits.induct)
  case (1 n)
  then show ?case by (subst nat_digits.simps) (cases "n < 10"; simp)
qed

lemma int_str_nat_inj: "int_str (int i) = int_str (int j) \<Longrightarrow> i = j"
proof -
  assume "int_str (int i) = int_str (int j)"
  then have "nat_digits i = nat_digits j" by (simp add: int_str_def)
  then show ?thesis by (metis nat_digits_value)
qed

lemma identity_text_inj:
  "json_text P (PList [PStr s, PStr k, PInt (int i)]) = json_text P (PList [PStr s', PStr k', PInt (int j)])
   \<Longrightarrow> s = s' \<and> k = k' \<and> i = j"
proof -
  let ?tail = "\<lambda>k i. '', '' @ json_quote k @ '', '' @ int_str (int i) @ '']''"
  have shape: "json_text P (PList [PStr s, PStr k, PInt (int i)]) = ''['' @ json_quote s @ ?tail k i" for s k i
    by (simp add: json_text_def json_dumps_def)
  assume "json_text P (PList [PStr s, PStr k, PInt (int i)]) = json_text P (PList [PStr s', PStr k', PInt (int j)])"
  then have "json_quote s @ ?tail k i = json_quote s' @ ?tail k' j" by (simp only: shape append_same_eq same_append_eq)
  from json_quote_cong[OF this] have "s = s'" "json_quote k @ '', '' @ int_str (int i) @ '']'' = json_quote k' @ '', '' @ int_str (int j) @ '']''"
    by simp_all
  with json_quote_cong[OF this(2)] show ?thesis by (auto intro: int_str_nat_inj)
qed

section \<open>The collection\<close>

text \<open>What ChromaDB documents: \<open>items\<close> are the entries of the collection; entries come in any order; an entry
  under a new identifier is added; the nearest ones of a query are at most as many as asked for.\<close>

definition collection_laws :: "'c collection_ops \<Rightarrow> ('c \<Rightarrow> chunk_entry list) \<Rightarrow> bool" where
  "collection_laws K items \<longleftrightarrow>
     (\<forall>f c. \<exists>es. cn_get K f c = Inr es \<and> mset es = mset (filter (chosen f) (items c))) \<and>
     (\<forall>f c. \<exists>c'. cn_delete K f c = Inr c' \<and> mset (items c') = mset (filter (\<lambda>e. \<not> chosen f e) (items c))) \<and>
     (\<forall>es c c'. cn_add K es c = Inr c' \<longrightarrow> distinct (map ce_id (items c @ es)) \<longrightarrow>
        mset (items c') = mset (items c @ es)) \<and>
     (\<forall>q f n c es. 0 \<le> n \<longrightarrow> cn_query K q f n c = Inr es \<longrightarrow>
        int (length es) \<le> n \<and> (\<forall>e\<in>set es. e \<in> set (items c) \<and> chosen f e))"

definition collision_free :: "'c vector_store \<Rightarrow> bool" where
  "collision_free V \<longleftrightarrow> (\<forall>a b. vs_hash V a = vs_hash V b \<longrightarrow> a = b)"

definition proper_sizes :: "'c vector_store \<Rightarrow> bool" where
  "proper_sizes V \<longleftrightarrow> 1 \<le> vs_size V \<and> 0 \<le> vs_overlap V \<and> vs_overlap V < vs_size V"

lemma init_proper_sizes: "proper_sizes (vector_store_init K P hash now n overlap)"
  by (auto simp: proper_sizes_def vector_store_init_def Let_def)

lemma chunk_id_inj: "collision_free V \<Longrightarrow> chunk_id V s k i = chunk_id V s' k' j \<Longrightarrow> s = s' \<and> k = k' \<and> i = j"
  unfolding collision_free_def chunk_id_def using identity_text_inj by metis

text \<open>Every entry is a chunk of some key, under its identifier and with its position.\<close>

definition names_chunk :: "'c vector_store \<Rightarrow> chunk_entry \<Rightarrow> string \<Rightarrow> string \<Rightarrow> nat \<Rightarrow> bool" where
  "names_chunk V e s k i \<longleftrightarrow> ce_id e = chunk_id V s k i \<and> dict_get (ce_meta e) ''scope'' = Some (PStr s) \<and>
     dict_get (ce_meta e) ''key'' = Some (PStr k) \<and> dict_get (ce_meta e) ''chunk_index'' = Some (PInt (int i))"

definition vector_inv :: "'c vector_store \<Rightarrow> ('c \<Rightarrow> chunk_entry list) \<Rightarrow> 'c \<Rightarrow> bool" where
  "vector_inv V items c \<longleftrightarrow>
     distinct (map ce_id (items c)) \<and> (\<forall>e\<in>set (items c). \<exists>s k i. names_chunk V e s k i)"

text \<open>The position of an entry that has one.\<close>

definition pos :: "chunk_entry \<Rightarrow> int" where
  "pos e = (case chunk_index e of Inr i \<Rightarrow> i | Inl _ \<Rightarrow> 0)"

lemma names_chunk_index: "names_chunk V e s k i \<Longrightarrow> chunk_index e = Inr (int i)"
  by (simp add: names_chunk_def chunk_index_def dict_get_or_def py_int_def)

lemma names_chunk_chosen: "names_chunk V e s k i \<Longrightarrow> chosen (OfKey s' k') e \<longleftrightarrow> s = s' \<and> k = k'"
  "names_chunk V e s k i \<Longrightarrow> chosen (InScope s') e \<longleftrightarrow> s = s'"
  by (auto simp: names_chunk_def)

declare chosen.simps [simp del]

lemma chosen_named:
  "vector_inv V items c \<Longrightarrow> e \<in> set (items c) \<Longrightarrow> chosen (OfKey s k) e \<Longrightarrow> \<exists>i. names_chunk V e s k i"
proof -
  assume inv: "vector_inv V items c" and e: "e \<in> set (items c)" "chosen (OfKey s k) e"
  from inv e(1) obtain s' k' i where n: "names_chunk V e s' k' i" unfolding vector_inv_def by blast
  from names_chunk_chosen(1)[OF n, of s k] e(2) have "s' = s" "k' = k" by simp_all
  with n show ?thesis by auto
qed

section \<open>Reading\<close>

lemma indexed_total: "\<forall>e\<in>set es. \<exists>i. chunk_index e = Inr i \<Longrightarrow> indexed es = Inr (map (\<lambda>e. (pos e, e)) es)"
  by (induction es) (auto simp: pos_def)

definition read_entries :: "'c vector_store \<Rightarrow> chunk_entry list \<Rightarrow> pyval" where
  "read_entries V es =
     (if es = [] then PNone
      else let (n, overlap) = resolve_chunk_config V (ce_meta (hd es))
           in deserialize_value (vs_text V) (join_chunks (n - max (n - overlap) 1) (map ce_doc es)))"

lemma vector_read_found:
  "cn_get (vs_ops V) (OfKey s k) c = Inr es \<Longrightarrow> es \<noteq> [] \<Longrightarrow> indexed es = Inr ies \<Longrightarrow>
   vector_read V k s c =
     (let chunks = map snd (sort_key fst ies); (n, overlap) = resolve_chunk_config V (ce_meta (hd chunks))
      in Inr (deserialize_value (vs_text V) (join_chunks (n - max (n - overlap) 1) (map ce_doc chunks))))"
  by (cases es) (simp_all add: vector_read_def Let_def del: indexed.simps)

lemma vector_inv_pos_inj:
  assumes "vector_inv V items c"
  shows "inj_on pos (set (filter (chosen (OfKey s k)) (items c)))"
proof (rule inj_onI)
  fix a b assume a: "a \<in> set (filter (chosen (OfKey s k)) (items c))" and b: "b \<in> set (filter (chosen (OfKey s k)) (items c))"
    and "pos a = pos b"
  moreover from a b assms obtain i j where "names_chunk V a s k i" "names_chunk V b s k j"
    by (auto dest!: chosen_named[OF assms])
  ultimately have "ce_id a = ce_id b" by (auto simp: pos_def names_chunk_index names_chunk_def)
  with a b assms show "a = b" by (auto simp: vector_inv_def distinct_map inj_on_def)
qed

lemma read_sorted:
  assumes laws: "collection_laws (vs_ops V) items" and inv: "vector_inv V items c"
    and ys: "mset ys = mset (filter (chosen (OfKey s k)) (items c))" "sorted (map pos ys)"
  shows "vector_read V k s c = Inr (read_entries V ys)"
proof -
  obtain es where es: "cn_get (vs_ops V) (OfKey s k) c = Inr es" "mset es = mset (filter (chosen (OfKey s k)) (items c))"
    using laws unfolding collection_laws_def by blast
  then have sets: "set es = set (filter (chosen (OfKey s k)) (items c))" by (metis set_mset_mset)
  with inv have "\<forall>e\<in>set es. \<exists>i. chunk_index e = Inr i"
    by (auto simp: vector_inv_def dest!: bspec names_chunk_index)
  note ix = indexed_total[OF this]
  have sorted_es: "sort_key pos es = ys"
    using sort_key_inj_key_eq[of es ys pos] es(2) ys vector_inv_pos_inj[OF inv, of s k] sets by simp
  show ?thesis
  proof (cases "es = []")
    case True
    with es ys(1) show ?thesis by (simp add: vector_read_def read_entries_def)
  next
    case False
    then have "ys \<noteq> []" using es(2) ys(1) by (metis mset_zero_iff)
    have "map snd (sort_key fst (map (\<lambda>e. (pos e, e)) es)) = ys"
      using sorted_es by (simp add: sort_key_map comp_def)
    with \<open>ys \<noteq> []\<close> vector_read_found[OF es(1) False ix] show ?thesis
      by (simp add: read_entries_def Let_def split: prod.splits)
  qed
qed

section \<open>Writing\<close>

lemma distinct_ids_mset:
  "mset xs = mset ys \<Longrightarrow> distinct (map ce_id xs) = distinct (map ce_id ys)"
  using mset_eq_imp_distinct_iff[of "map ce_id xs" "map ce_id ys"] by simp

lemma vector_inv_subset:
  assumes "vector_inv V items c" "mset (items c') = mset (filter Q (items c))"
  shows "vector_inv V items c'"
  using assms distinct_ids_mset[OF assms(2)] mset_eq_setD[OF assms(2)]
  by (auto simp: vector_inv_def distinct_map_filter)

lemma delete_by_key_items:
  assumes "collection_laws (vs_ops V) items"
  shows "mset (items (delete_by_key V k s c)) = mset (filter (\<lambda>e. \<not> chosen (OfKey s k) e) (items c))"
    and "mset (items (vector_reset V s c)) = mset (filter (\<lambda>e. \<not> chosen (InScope s) e) (items c))"
proof -
  have del: "\<exists>c'. cn_delete (vs_ops V) f c = Inr c' \<and> mset (items c') = mset (filter (\<lambda>e. \<not> chosen f e) (items c))" for f
    using assms unfolding collection_laws_def by blast
  from del[of "OfKey s k"] show "mset (items (delete_by_key V k s c)) = mset (filter (\<lambda>e. \<not> chosen (OfKey s k) e) (items c))"
    by (auto simp: delete_by_key_def)
  from del[of "InScope s"] show "mset (items (vector_reset V s c)) = mset (filter (\<lambda>e. \<not> chosen (InScope s) e) (items c))"
    by (auto simp: vector_reset_def)
qed

lemma chunk_entries_nth:
  assumes "e \<in> set (chunk_entries V now s k chunks)"
  shows "\<exists>i. names_chunk V e s k i"
  using assms by (auto simp: chunk_entries_def names_chunk_def in_set_enumerate_eq)

lemma chunk_entries_ids:
  "map ce_id (chunk_entries V now s k chunks) = map (chunk_id V s k) [0..<length chunks]"
  "map pos (chunk_entries V now s k chunks) = map int [0..<length chunks]"
  "map ce_doc (chunk_entries V now s k chunks) = chunks"
  by (auto simp: chunk_entries_def pos_def chunk_index_def dict_get_or_def py_int_def enumerate_eq_zip comp_def
      intro!: nth_equalityI split: prod.split)

lemma read_entries_written:
  assumes "proper_sizes V"
  shows "read_entries V (chunk_entries V now s k (chunk_pieces text (vs_size V) (vs_overlap V)))
    = deserialize_value (vs_text V) text"
proof -
  let ?chunks = "chunk_pieces text (vs_size V) (vs_overlap V)"
  obtain d ds where c: "?chunks = d # ds" using chunk_pieces_not_empty by (cases ?chunks) auto
  have "resolve_chunk_config V (ce_meta (hd (chunk_entries V now s k ?chunks))) = (vs_size V, vs_overlap V)"
    using assms by (simp add: c chunk_entries_def resolve_chunk_config_def int_or_def py_int_def dict_get_or_def Let_def
        proper_sizes_def)
  moreover have "vs_size V - max (vs_size V - vs_overlap V) 1 = vs_overlap V" using assms by (simp add: proper_sizes_def)
  moreover have "chunk_entries V now s k ?chunks \<noteq> []" by (simp add: c chunk_entries_def)
  ultimately show ?thesis
    using join_chunk_pieces[of "vs_size V" "vs_overlap V" "text"] assms
    by (simp add: read_entries_def chunk_entries_ids(3) proper_sizes_def)
qed

text \<open>Two states with the same entries of a key read the same under it.\<close>

lemma same_entries_read:
  assumes "collection_laws (vs_ops V) items" "vector_inv V items c" "vector_inv V items c'"
    and "mset (filter (chosen (OfKey s k)) (items c')) = mset (filter (chosen (OfKey s k)) (items c))"
  shows "vector_read V k s c' = vector_read V k s c"
  using read_sorted[OF assms(1,2), of "sort_key pos (filter (chosen (OfKey s k)) (items c))" s k]
    read_sorted[OF assms(1,3), of "sort_key pos (filter (chosen (OfKey s k)) (items c))" s k] assms(4)
  by simp

lemma vector_write_entries:
  assumes V: "collection_laws (vs_ops V) items" "collision_free V"
    and inv: "vector_inv V items c" and w: "vector_write V k v s c = Inr c'"
  defines "new \<equiv> chunk_entries V (vs_now V c) s k (chunk_pieces (serialize_value (vs_text V) v) (vs_size V) (vs_overlap V))"
  shows "vector_inv V items c'"
    and "mset (items c') = mset (filter (\<lambda>e. \<not> chosen (OfKey s k) e) (items c)) + mset new"
proof -
  let ?c1 = "delete_by_key V k s c"
  note del = delete_by_key_items(1)[OF V(1), of k s c]
  have inv1: "vector_inv V items ?c1" by (rule vector_inv_subset[OF inv del])
  have others: "ce_id e \<noteq> chunk_id V s k i" if "e \<in> set (items ?c1)" for e i
  proof
    assume id: "ce_id e = chunk_id V s k i"
    from inv1 that obtain s' k' j where n: "names_chunk V e s' k' j" by (auto simp: vector_inv_def)
    with id chunk_id_inj[OF V(2), of s' k' j s k i] have "s' = s" "k' = k" by (simp_all add: names_chunk_def)
    with names_chunk_chosen(1)[OF n] that mset_eq_setD[OF del] show False by auto
  qed
  have fresh: "distinct (map ce_id (items ?c1 @ new))"
    unfolding map_append new_def chunk_entries_ids(1) distinct_append
  proof (intro conjI)
    show "distinct (map ce_id (items ?c1))" using inv1 by (simp add: vector_inv_def)
    show "distinct (map (chunk_id V s k) [0..<length (chunk_pieces (serialize_value (vs_text V) v) (vs_size V) (vs_overlap V))])"
      by (auto simp: distinct_map inj_on_def dest: chunk_id_inj[OF V(2)])
  qed (use others in auto)
  from w have "cn_add (vs_ops V) new ?c1 = Inr c'" by (simp add: vector_write_def new_def Let_def)
  with V(1) fresh have c': "mset (items c') = mset (items ?c1 @ new)" unfolding collection_laws_def by blast
  with del show "mset (items c') = mset (filter (\<lambda>e. \<not> chosen (OfKey s k) e) (items c)) + mset new" by simp
  have "distinct (map ce_id (items c'))" using fresh distinct_ids_mset[OF c'] by blast
  moreover have "\<exists>s k i. names_chunk V e s k i" if "e \<in> set (items c')" for e
    using that inv1 chunk_entries_nth[of e V] unfolding mset_eq_setD[OF c'] set_append new_def vector_inv_def by blast
  ultimately show "vector_inv V items c'" by (simp add: vector_inv_def)
qed

lemma vector_write_docs:
  assumes "collection_laws (vs_ops V) items" "collision_free V" "vector_inv V items c" "vector_write V k v s c = Inr c'"
    and "e \<in> set (items c')" "chosen (OfKey s k) e"
  shows "ce_doc e \<in> set (chunk_pieces (serialize_value (vs_text V) v) (vs_size V) (vs_overlap V))"
proof -
  let ?chunks = "chunk_pieces (serialize_value (vs_text V) v) (vs_size V) (vs_overlap V)"
  from mset_eq_setD[of "items c'" "filter (\<lambda>e. \<not> chosen (OfKey s k) e) (items c) @ chunk_entries V (vs_now V c) s k ?chunks"]
    vector_write_entries(2)[OF assms(1-4)] assms(5,6)
  have "ce_doc e \<in> set (map ce_doc (chunk_entries V (vs_now V c) s k ?chunks))" by auto
  then show ?thesis by (simp only: chunk_entries_ids(3))
qed

definition vector_kept :: "'c vector_store \<Rightarrow> pyval \<Rightarrow> pyval" where
  "vector_kept V v = deserialize_value (vs_text V) (serialize_value (vs_text V) v)"

lemma vector_is_memory_store:
  assumes "collection_laws (vs_ops V) items" "collision_free V" "proper_sizes V"
  shows "memory_store (vector_memory V) (vector_kept V) (vector_inv V items)"
proof
  fix c c' k v s k' s'
  assume inv: "vector_inv V items c" and "mo_write (vector_memory V) k v s c = Inr c'"
  then have w: "vector_write V k v s c = Inr c'" by (simp add: vector_memory_def)
  note inv' = vector_write_entries(1)[OF assms(1,2) inv w]
  let ?new = "chunk_entries V (vs_now V c) s k (chunk_pieces (serialize_value (vs_text V) v) (vs_size V) (vs_overlap V))"
  have new: "filter (chosen (OfKey s' k')) ?new = (if s' = s \<and> k' = k then ?new else [])" for s' k'
    by (auto simp: filter_id_conv filter_empty_conv dest!: chunk_entries_nth names_chunk_chosen(1))
  have entries: "mset (filter (chosen (OfKey s' k')) (items c')) =
      (if s' = s \<and> k' = k then mset ?new else mset (filter (chosen (OfKey s' k')) (items c)))" for s' k'
  proof -
    have "filter_mset (chosen (OfKey s' k')) (filter_mset (\<lambda>e. \<not> chosen (OfKey s k) e) (mset (items c)))
        = (if s' = s \<and> k' = k then {#} else filter_mset (chosen (OfKey s' k')) (mset (items c)))"
      by (auto simp: filter_filter_mset chosen.simps intro!: filter_mset_cong)
    moreover have "mset (filter (chosen (OfKey s' k')) (items c')) = filter_mset (chosen (OfKey s' k')) (mset (items c'))"
      by simp
    moreover have "\<dots> = filter_mset (chosen (OfKey s' k')) (filter_mset (\<lambda>e. \<not> chosen (OfKey s k) e) (mset (items c)))
        + mset (filter (chosen (OfKey s' k')) ?new)"
      unfolding vector_write_entries(2)[OF assms(1,2) inv w] by simp
    ultimately show ?thesis unfolding new by simp
  qed
  have "vector_read V k s c' = Inr (vector_kept V v)"
    using read_sorted[OF assms(1) inv', of ?new s k] entries[of s k] read_entries_written[OF assms(3)]
    by (simp add: vector_kept_def chunk_entries_ids sorted_wrt_map strict_sorted_imp_sorted)
  moreover have "vector_read V k' s' c' = vector_read V k' s' c" if "(k', s') \<noteq> (k, s)"
    by (rule same_entries_read[OF assms(1) inv inv']) (use entries[of s' k'] that in auto)
  ultimately show "vector_inv V items c' \<and> mo_read (vector_memory V) k s c' = Inr (vector_kept V v) \<and>
      ((k', s') \<noteq> (k, s) \<longrightarrow> mo_read (vector_memory V) k' s' c' = mo_read (vector_memory V) k' s' c)"
    using inv' by (simp add: vector_memory_def)
next
  fix c s k s'
  assume inv: "vector_inv V items c"
  note gone = delete_by_key_items(2)[OF assms(1), of s c]
  have inv': "vector_inv V items (vector_reset V s c)" by (rule vector_inv_subset[OF inv gone])
  have none: "mset (filter (chosen (OfKey s' k)) (items (vector_reset V s c))) =
      (if s' = s then {#} else mset (filter (chosen (OfKey s' k)) (items c)))" for s'
    using gone by (auto simp: filter_filter_mset chosen.simps intro!: filter_mset_cong)
  show "vector_inv V items (mo_reset (vector_memory V) s c)" using inv' by (simp add: vector_memory_def)
  show "mo_read (vector_memory V) k s (mo_reset (vector_memory V) s c) = Inr PNone"
    using read_sorted[OF assms(1) inv', of "[]" s k] none[of s] by (simp add: vector_memory_def read_entries_def)
  show "s' \<noteq> s \<Longrightarrow> mo_read (vector_memory V) k s' (mo_reset (vector_memory V) s c) = mo_read (vector_memory V) k s' c"
    using same_entries_read[OF assms(1) inv inv', of s' k] none[of s'] by (simp add: vector_memory_def)
qed

section \<open>Searching\<close>

lemma read_matches_ok:
  assumes "read_matches V scope c seen es = Inr ms"
  shows "distinct (map fst ms) \<and> length ms \<le> length es \<and> set (map fst ms) \<inter> set seen = {}
    \<and> (\<forall>(k, v)\<in>set ms. vector_read V k scope c = Inr v \<and> v \<noteq> PNone)"
  using assms
proof (induction es arbitrary: seen ms)
  case (Cons e es)
  show ?case
  proof (cases "entry_key (vs_text V) e \<in> set seen")
    case True
    with Cons show ?thesis by (force simp: Let_def)
  next
    case False
    with Cons.prems obtain v ms' where *: "vector_read V (entry_key (vs_text V) e) scope c = Inr v"
      "read_matches V scope c (entry_key (vs_text V) e # seen) es = Inr ms'"
      "ms = (if v = PNone then ms' else (entry_key (vs_text V) e, v) # ms')"
      by (auto simp: Let_def split: sum.splits)
    from Cons.IH[OF *(2)] *(1,3) False show ?thesis by auto
  qed
qed simp

lemma vector_search_ok:
  assumes "collection_laws (vs_ops V) items" "vector_search V query scope top_k c = Inr ms"
  shows "distinct (map fst ms) \<and> int (length ms) \<le> top_k
    \<and> (\<forall>(k, v)\<in>set ms. vector_read V k scope c = Inr v \<and> v \<noteq> PNone)"
proof (cases "top_k = 0")
  case True
  with assms(2) show ?thesis by (simp add: vector_search_def)
next
  case False
  with assms(2) obtain es where "0 \<le> top_k" and es: "cn_query (vs_ops V) query (InScope scope) top_k c = Inr es"
    "read_matches V scope c [] es = Inr ms"
    by (auto simp: vector_search_def split: if_splits sum.splits)
  have "int (length es) \<le> top_k" using assms(1) es(1) \<open>0 \<le> top_k\<close> unfolding collection_laws_def by blast
  with read_matches_ok[OF es(2)] show ?thesis by auto
qed

text \<open>A text that is also JSON does not come back as it was written.\<close>

lemma json_like_text_changes: "json_loads (vs_text V) t = Inr v \<Longrightarrow> vector_kept V (PStr t) = v"
  by (simp add: vector_kept_def serialize_value_def deserialize_value_def)

text \<open>Where deleting fails, which is only logged, and the collection ignores identifiers it has, as ChromaDB
  does, a write reports success and the old chunks stay.\<close>

lemma failed_delete_keeps_old:
  assumes "cn_delete (vs_ops V) (OfKey scope key) c = Inl x"
    and "cn_add (vs_ops V) (chunk_entries V (vs_now V c) scope key
           (chunk_pieces (serialize_value (vs_text V) v) (vs_size V) (vs_overlap V))) c = Inr c"
  shows "vector_write V key v scope c = Inr c"
  using assms by (simp add: vector_write_def delete_by_key_def Let_def)

section \<open>Embeddings\<close>

lemma add_token_length [simp]: "length (add_token h d t v) = length v"
  by (simp add: add_token_def Let_def)

lemma fold_add_token_length [simp]: "length (fold (add_token h d) ts v) = length v"
  by (induction ts arbitrary: v) simp_all

lemma embed_document_length [simp]: "length (embed_document h d doc) = d"
  by (simp add: embed_document_def Let_def)

lemma sum_squares_nonneg: "0 \<le> (\<Sum>x\<leftarrow>v. (of_int x :: real)\<^sup>2)"
  by (induction v) simp_all

lemma sum_list_square_zero: "(\<Sum>x\<leftarrow>v. (of_int x :: real)\<^sup>2) = 0 \<Longrightarrow> x \<in> set v \<Longrightarrow> x = 0"
  by (induction v) (auto simp: add_nonneg_eq_0_iff sum_squares_nonneg)

text \<open>Every embedding is a vector of length one, also where the tokens cancel out.\<close>

lemma embed_document_unit:
  assumes "0 < d"
  shows "(\<Sum>x\<leftarrow>embed_document h d doc. x\<^sup>2) = 1"
proof -
  define v where "v = fold (add_token h d) (document_tokens doc) (replicate d 0)"
  define q where "q = (\<Sum>x\<leftarrow>v. (of_int x :: real)\<^sup>2)"
  have len: "length v = d" by (simp add: v_def)
  have nonneg: "0 \<le> q" by (simp add: q_def sum_squares_nonneg)
  show ?thesis
  proof (cases "q = 0")
    case True
    then have "v = replicate d 0"
      using sum_list_square_zero[of v] len by (auto simp: q_def intro!: replicate_eqI)
    with assms have "(map of_int v)[0 := 1] = (1 :: real) # replicate (d - 1) 0" by (cases d) auto
    with True show ?thesis by (simp add: embed_document_def Let_def v_def[symmetric] q_def[symmetric] sum_list_replicate)
  next
    case False
    have "(\<Sum>x\<leftarrow>v. (of_int x / r)\<^sup>2) = (\<Sum>x\<leftarrow>v. (of_int x)\<^sup>2) / r\<^sup>2" for r :: real
      by (induction v) (simp_all add: power_divide add_divide_distrib)
    from this[of "sqrt q"] have "(\<Sum>x\<leftarrow>v. (of_int x / sqrt q)\<^sup>2) = q / q"
      using nonneg by (simp flip: q_def)
    with False nonneg show ?thesis
      by (simp add: embed_document_def Let_def v_def[symmetric] q_def[symmetric] comp_def)
  qed
qed

end
