(* ===== verification/Vector_Properties.thy ===== *)
theory Vector_Properties
  imports Vector_Laws Scenario
begin

text \<open>
  The property of the vector store, and a collection kept as a list, which behaves as documented: over it the
  contract of memory stores is interpreted, and the witness is evaluated.
\<close>

section \<open>A collection kept as a list\<close>

definition list_collection :: "chunk_entry list collection_ops" where
  "list_collection =
     \<lparr>cn_get = (\<lambda>f c. Inr (filter (chosen f) c)),
      cn_add = (\<lambda>es c. Inr (c @ filter (\<lambda>e. ce_id e \<notin> ce_id ` set c) es)),
      cn_delete = (\<lambda>f c. Inr (filter (\<lambda>e. \<not> chosen f e) c)),
      cn_query = (\<lambda>q f n c. Inr (take (nat n) (filter (chosen f) c)))\<rparr>"

lemma list_collection_laws: "collection_laws list_collection (\<lambda>c. c)"
proof -
  have new: "filter (\<lambda>e. ce_id e \<notin> ce_id ` set c) es = es" if "distinct (map ce_id (c @ es))" for c es
    using that by (induction es) (auto simp: filter_id_conv)
  have near: "e \<in> set c \<and> chosen f e" if "e \<in> set (take n (filter (chosen f) c))" for e n f c
    using set_take_subset[of n "filter (chosen f) c"] that by auto
  show ?thesis
    unfolding collection_laws_def
  proof (intro conjI allI impI)
    fix es c c' assume "cn_add list_collection es c = Inr c'" "distinct (map ce_id (c @ es))"
    with new[of c es] show "mset c' = mset (c @ es)" by (simp add: list_collection_def)
  next
    fix q f c es and n :: int assume "0 \<le> n" "cn_query list_collection q f n c = Inr es"
    then have es: "es = take (nat n) (filter (chosen f) c)" "0 \<le> n" by (simp_all add: list_collection_def)
    then show "int (length es) \<le> n" by simp
    show "\<forall>e\<in>set es. e \<in> set c \<and> chosen f e" unfolding es(1) using near by blast
  qed (simp_all add: list_collection_def)
qed

definition list_vector :: "pytext \<Rightarrow> int \<Rightarrow> int \<Rightarrow> chunk_entry list vector_store" where
  "list_vector P = vector_store_init list_collection P (\<lambda>s. s) (\<lambda>c. ''now'')"

lemma list_vector_ops: "vs_ops (list_vector P n overlap) = list_collection" "collision_free (list_vector P n overlap)"
  by (simp_all add: list_vector_def vector_store_init_def Let_def collision_free_def)

interpretation vector_mo: memory_store "vector_memory (list_vector P n overlap)" "vector_kept (list_vector P n overlap)"
  "vector_inv (list_vector P n overlap) (\<lambda>c. c)" for P n overlap
  by (rule vector_is_memory_store)
    (simp_all add: list_vector_ops list_collection_laws, simp add: list_vector_def init_proper_sizes)

section \<open>What is written is read\<close>



end
