(* ===== verification/Mcp_Tools.thy ===== *)
theory Mcp_Tools
  imports Workforce_Modes Event_Bus
begin

text \<open>
  Tools of an MCP server (\<^verbatim>\<open>tools/mcp.py\<close>): the connection a provider holds, how a tool the server lists
  becomes a tool of the framework, and a call.  The transport, the client session and the JSON-schema
  validator are packages: the record \<open>mcp_ext\<close>.  Effects work on the provider's fields and a world
  below them.
\<close>

datatype mcp_content = TextItem string | ImageItem string | EmbeddedItem | OtherItem

record mcp_result =
  cr_items :: "mcp_content list"
  cr_structured :: pyval     \<comment> \<open>\<open>None\<close> also where the result has no such field\<close>
  cr_is_error :: bool

record mcp_tool =
  mt_name :: string
  mt_description :: "string option"
  mt_schema :: pyval

text \<open>A context manager is named by a string; the session opened over its streams has its name.\<close>

record 'w mcp_ext =
  mc_enter_transport :: "string \<Rightarrow> ('w, unit) eff"
  mc_exit_transport :: "string \<Rightarrow> ('w, unit) eff"
  mc_enter_session :: "string \<Rightarrow> ('w, unit) eff"
  mc_exit_session :: "string \<Rightarrow> ('w, unit) eff"
  mc_initialize :: "string \<Rightarrow> ('w, unit) eff"
  mc_list_tools :: "string \<Rightarrow> ('w, mcp_tool list) eff"
  mc_call_tool :: "string \<Rightarrow> string \<Rightarrow> pyval dict \<Rightarrow> ('w, mcp_result) eff"
  mc_check_schema :: "pyval dict \<Rightarrow> exc option"
  mc_schema_errors :: "pyval dict \<Rightarrow> pyval \<Rightarrow> string list"

record 'w provider =
  mp_session :: "string option"
  mp_context :: "string option"
  mp_session_context :: "string option"
  mp_tools :: "tool list"
  mp_world :: 'w

definition new_provider :: "'w \<Rightarrow> 'w provider" where
  "new_provider w = \<lparr>mp_session = None, mp_context = None, mp_session_context = None, mp_tools = [], mp_world = w\<rparr>"

definition outside :: "('w, 'a) eff \<Rightarrow> ('w provider, 'a) eff" where
  "outside m s = (case m (mp_world s) of (r, w) \<Rightarrow> (r, s\<lparr>mp_world := w\<rparr>))"

section \<open>The input model of a schema\<close>

datatype json_kind = KStr | KInt | KFloat | KBool | KList | KDict | KNone | KAny

text \<open>A field: the union of its types, and its default, \<open>None\<close> where it is required.\<close>

type_synonym model_field = "json_kind list \<times> pyval option"

definition type_mapping :: "string \<Rightarrow> json_kind option" where
  "type_mapping t =
     map_of [(''string'', KStr), (''integer'', KInt), (''number'', KFloat), (''boolean'', KBool),
       (''array'', KList), (''object'', KDict), (''null'', KNone)] t"

definition str_of :: "pyval \<Rightarrow> string option" where
  "str_of v = (case v of PStr s \<Rightarrow> Some s | _ \<Rightarrow> None)"

definition json_schema_field :: "pyval dict \<Rightarrow> model_field" where
  "json_schema_field schema =
     (let dflt = dict_get schema ''default''
      in case dict_get schema ''type'' of
           Some (PList items) \<Rightarrow>
             (let available = List.map_filter (\<lambda>v. Option.bind (str_of v) type_mapping) items
              in (if available \<noteq> [] then available else [KAny], dflt))
         | Some (PStr t) \<Rightarrow> ([case type_mapping t of Some k \<Rightarrow> k | None \<Rightarrow> KAny], dflt)
         | _ \<Rightarrow> ([KAny], dflt))"

text \<open>\<open>required\<close> is a list of strings once the schema has been checked.\<close>

definition input_fields :: "pyval dict \<Rightarrow> (string \<times> model_field) list" where
  "input_fields parameters =
     (let properties = (case dict_get parameters ''properties'' of Some (PDict d) \<Rightarrow> d | _ \<Rightarrow> []);
          required = (case dict_get parameters ''required'' of
                        Some (PList xs) \<Rightarrow> List.map_filter str_of xs | _ \<Rightarrow> [])
      in List.map_filter (\<lambda>(name, prop).
           case prop of
             PDict p \<Rightarrow>
               (case json_schema_field p of
                  (types, dflt) \<Rightarrow>
                    Some (name,
                      if name \<in> set required then (types, None)
                      else case dflt of
                             None \<Rightarrow> (types @ [KNone], Some PNone)
                           | Some d \<Rightarrow> (types, Some d)))
           | _ \<Rightarrow> None) properties)"

text \<open>\<open>title()\<close> of a name with \<^verbatim>\<open>-\<close> and \<^verbatim>\<open>.\<close> replaced.\<close>

definition is_letter :: "char \<Rightarrow> bool" where
  "is_letter c \<longleftrightarrow> (let n = (of_char (char_lower c) :: nat) in 97 \<le> n \<and> n \<le> 122)"

definition char_upper :: "char \<Rightarrow> char" where
  "char_upper c = (let n = (of_char c :: nat) in if 97 \<le> n \<and> n \<le> 122 then char_of (n - 32) else c)"

fun str_title :: "bool \<Rightarrow> string \<Rightarrow> string" where
  "str_title inside [] = []"
| "str_title inside (c # s) = (if inside then char_lower c else char_upper c) # str_title (is_letter c) s"

definition input_model_name :: "string \<Rightarrow> string" where
  "input_model_name name =
     str_title False (map (\<lambda>c. if c = CHR ''-'' \<or> c = CHR ''.'' then CHR ''_'' else c) name) @ ''Input''"

definition build_input_model :: "'w mcp_ext \<Rightarrow> string \<Rightarrow> pyval dict \<Rightarrow> exc + string \<times> (string \<times> model_field) list" where
  "build_input_model X name parameters =
     (case mc_check_schema X parameters of
        Some e \<Rightarrow> Inl e
      | None \<Rightarrow> Inr (input_model_name name, input_fields parameters))"

text \<open>The validator that runs before the fields are read.\<close>

definition validate_json_schema :: "'w mcp_ext \<Rightarrow> pyval dict \<Rightarrow> pyval \<Rightarrow> exc + pyval" where
  "validate_json_schema X parameters value =
     (case mc_schema_errors X parameters value of [] \<Rightarrow> Inr value | e # _ \<Rightarrow> Inl (ValueError e))"

section \<open>The tools of the server\<close>

definition convert_mcp_tool :: "'w mcp_ext \<Rightarrow> mcp_tool \<Rightarrow> exc + tool" where
  "convert_mcp_tool X m =
     (let parameters = (case mt_schema m of PDict d \<Rightarrow> d | _ \<Rightarrow> [])
      in case build_input_model X (mt_name m) parameters of
           Inl e \<Rightarrow> Inl e
         | Inr (model, _) \<Rightarrow>
             (let t = \<lparr>tl_name = mt_name m, tl_description = or_str (mt_description m) [], tl_schema = parameters,
                       tl_callable = ''call_mcp_tool'', tl_input_model = model,
                       tl_requires_confirmation = False, tl_requires_user_input = False, tl_requires_handoff = False,
                       tl_external_execution = True, tl_pre = [], tl_post = [], tl_confirmation_prompt = None,
                       tl_user_input_prompt = None, tl_input_key = None, tl_timeout = None, tl_retries = 0,
                       tl_retry_delay = 1, tl_output_type = None\<rparr>
              in case tool_check t of Some e \<Rightarrow> Inl e | None \<Rightarrow> Inr t))"

definition discover_tools :: "'w mcp_ext \<Rightarrow> ('w provider, unit) eff" where
  "discover_tools X =
     ebind (gets mp_session) (\<lambda>session.
     case session of
       None \<Rightarrow> ret ()
     | Some h \<Rightarrow>
         ebind (outside (mc_list_tools X h)) (\<lambda>listed.
         eseq (modify (\<lambda>s. s\<lparr>mp_tools := []\<rparr>))
              (each (\<lambda>m. ebind (from_sum (convert_mcp_tool X m)) (\<lambda>t.
                       modify (\<lambda>s. s\<lparr>mp_tools := mp_tools s @ [t]\<rparr>))) listed)))"

section \<open>The connection\<close>

text \<open>\<open>close\<close>: the fields are cleared first; the transport is left even where leaving the session raises.\<close>

definition mcp_close :: "'w mcp_ext \<Rightarrow> ('w provider, unit) eff" where
  "mcp_close X =
     ebind (gets mp_session_context) (\<lambda>session_context.
     ebind (gets mp_context) (\<lambda>context_manager.
     eseq (modify (\<lambda>s. s\<lparr>mp_session_context := None, mp_context := None, mp_session := None, mp_tools := []\<rparr>))
          (finally_do
             (case context_manager of Some h \<Rightarrow> outside (mc_exit_transport X h) | None \<Rightarrow> ret ())
             (case session_context of Some h \<Rightarrow> outside (mc_exit_session X h) | None \<Rightarrow> ret ()))))"

text \<open>\<open>_connect\<close>: on any exception the connection is closed, and what closing raises is dropped, unless it
  is a cancellation.\<close>

definition mcp_connect :: "'w mcp_ext \<Rightarrow> string \<Rightarrow> ('w provider, unit) eff" where
  "mcp_connect X h =
     eseq (mcp_close X)
    (eseq (modify (\<lambda>s. s\<lparr>mp_context := Some h\<rparr>))
          (try_with
             (eseq (outside (mc_enter_transport X h))
             (eseq (modify (\<lambda>s. s\<lparr>mp_session_context := Some h\<rparr>))
             (eseq (outside (mc_enter_session X h))
             (eseq (modify (\<lambda>s. s\<lparr>mp_session := Some h\<rparr>))
             (eseq (outside (mc_initialize X h))
                   (discover_tools X))))))
             (\<lambda>e. eseq (try_with (mcp_close X) (\<lambda>x. if is_cancelled x then raise x else ret ())) (raise e))))"

text \<open>The three ways to connect: each makes a context manager of the client library.\<close>

definition connect_stdio ::
  "'w mcp_ext \<Rightarrow> (string \<Rightarrow> string list \<Rightarrow> string dict option \<Rightarrow> string) \<Rightarrow> string \<Rightarrow> string list option \<Rightarrow>
   string dict option \<Rightarrow> ('w provider, unit) eff" where
  "connect_stdio X stdio_client command args env =
     mcp_connect X (stdio_client command (case args of Some a \<Rightarrow> a | None \<Rightarrow> []) env)"

definition connect_sse :: "'w mcp_ext \<Rightarrow> (string \<Rightarrow> string) \<Rightarrow> string \<Rightarrow> ('w provider, unit) eff" where
  "connect_sse X sse_client url = mcp_connect X (sse_client url)"

definition connect_streamable_http ::
  "'w mcp_ext \<Rightarrow> (string \<Rightarrow> 'h option \<Rightarrow> string) \<Rightarrow> string \<Rightarrow> 'h option \<Rightarrow> ('w provider, unit) eff" where
  "connect_streamable_http X streamable_http_client url http_client =
     mcp_connect X (streamable_http_client url http_client)"

section \<open>Calls\<close>

definition content_part :: "mcp_content \<Rightarrow> string option" where
  "content_part c =
     (case c of
        TextItem t \<Rightarrow> Some t
      | ImageItem mime \<Rightarrow> Some (''[Image: '' @ mime @ '']'')
      | EmbeddedItem \<Rightarrow> Some ''[Embedded Resource]''
      | OtherItem \<Rightarrow> None)"

definition mcp_tool_result :: "mcp_result \<Rightarrow> tool_result" where
  "mcp_tool_result r =
     (let parts = List.map_filter content_part (cr_items r);
          content = (if parts \<noteq> [] then Some (str_join [char_of (10::nat)] parts) else None)
      in empty_result\<lparr>tr_content := content, tr_data := cr_structured r,
           tr_error := (if cr_is_error r then Some (or_str content ''MCP tool returned an error'') else None)\<rparr>)"

definition mcp_execute_tool :: "'w mcp_ext \<Rightarrow> string \<Rightarrow> pyval dict \<Rightarrow> ('w provider, tool_result) eff" where
  "mcp_execute_tool X name arguments =
     ebind (gets mp_session) (\<lambda>session.
     case session of
       None \<Rightarrow> ret (error_result ''MCP session not connected'')
     | Some h \<Rightarrow>
         try_with (ebind (outside (mc_call_tool X h name arguments)) (\<lambda>r. ret (mcp_tool_result r)))
           (\<lambda>e. if is_cancelled e then raise e else ret (error_result (exc_msg e))))"

definition alist_tools :: "'w mcp_ext \<Rightarrow> ('w provider, tool list) eff" where
  "alist_tools X =
     ebind (gets mp_session) (\<lambda>session.
     eseq (if session \<noteq> None then discover_tools X else ret ()) (gets mp_tools))"

definition list_mcp_tools :: "('w provider, tool list) eff" where
  "list_mcp_tools = gets mp_tools"

definition acall_tool :: "'w mcp_ext \<Rightarrow> string \<Rightarrow> pyval dict \<Rightarrow> ('w provider, tool_result) eff" where
  "acall_tool X name arguments = mcp_execute_tool X name arguments"

text \<open>The provider as a context manager: leaving it closes the connection, whatever happened inside.\<close>

definition provider_exit :: "'w mcp_ext \<Rightarrow> ('w provider, unit) eff" where
  "provider_exit X = mcp_close X"

end
