(* ===== verification/Mcp_Properties.thy ===== *)
theory Mcp_Properties
  imports Mcp_Tools
begin

text \<open>
  What an MCP provider holds is what it opened and has not closed: \<open>tidy\<close>.  The client library is described by
  \<open>mcp_laws\<close>: which connections are open in a world, and how its calls change them.
\<close>

datatype connection = Transport string | Session string

definition mcp_laws :: "'w mcp_ext \<Rightarrow> ('w \<Rightarrow> connection set) \<Rightarrow> bool" where
  "mcp_laws X live \<longleftrightarrow>
     (\<forall>h w. wp (mc_enter_transport X h) (\<lambda>_ w'. live w' = insert (Transport h) (live w)) (\<lambda>_ w'. live w' = live w) w) \<and>
     (\<forall>h w. wp (mc_enter_session X h) (\<lambda>_ w'. live w' = insert (Session h) (live w)) (\<lambda>_ w'. live w' = live w) w) \<and>
     (\<forall>h w. live (snd (mc_exit_transport X h w)) = live w - {Transport h}) \<and>
     (\<forall>h w. live (snd (mc_exit_session X h w)) = live w - {Session h}) \<and>
     (\<forall>h w. live (snd (mc_initialize X h w)) = live w) \<and>
     (\<forall>h w. live (snd (mc_list_tools X h w)) = live w) \<and>
     (\<forall>h n args w. live (snd (mc_call_tool X h n args w)) = live w)"

text \<open>The connections of the provider; \<open>B\<close> are those of others.\<close>

definition held :: "'w provider \<Rightarrow> connection set" where
  "held s = Transport ` set_option (mp_context s) \<union> Session ` set_option (mp_session_context s)"

definition tidy :: "('w \<Rightarrow> connection set) \<Rightarrow> connection set \<Rightarrow> 'w provider \<Rightarrow> bool" where
  "tidy live B s \<longleftrightarrow> live (mp_world s) \<subseteq> B \<union> held s \<and>
     (mp_session s = None \<longrightarrow> mp_tools s = []) \<and>
     (\<forall>h. mp_session s = Some h \<longrightarrow> mp_context s = Some h \<and> mp_session_context s = Some h)"

definition disconnected :: "('w \<Rightarrow> connection set) \<Rightarrow> connection set \<Rightarrow> 'w provider \<Rightarrow> bool" where
  "disconnected live B s \<longleftrightarrow> live (mp_world s) \<subseteq> B \<and> mp_session s = None \<and> mp_context s = None \<and>
     mp_session_context s = None \<and> mp_tools s = []"

lemma disconnected_tidy: "disconnected live B s \<Longrightarrow> tidy live B s"
  by (auto simp: disconnected_def tidy_def)

lemma held_world [simp]: "held (s\<lparr>mp_world := w\<rparr>) = held s"
  by (simp add: held_def)

lemma tidy_world: "live w = live (mp_world s) \<Longrightarrow> tidy live B (s\<lparr>mp_world := w\<rparr>) \<longleftrightarrow> tidy live B s"
  by (simp add: tidy_def)

lemma new_provider_disconnected: "disconnected live (live w) (new_provider w)"
  by (simp add: disconnected_def new_provider_def)

lemma wp_outside: "wp (outside m) Q E = (\<lambda>s. wp m (\<lambda>a w. Q a (s\<lparr>mp_world := w\<rparr>)) (\<lambda>e w. E e (s\<lparr>mp_world := w\<rparr>)) (mp_world s))"
  by (auto simp: wp_def outside_def fun_eq_iff split: prod.splits sum.splits)

lemma wp_snd: "P (snd (m s)) \<Longrightarrow> wp m (\<lambda>_. P) (\<lambda>_. P) s"
  by (auto simp: wp_def split: prod.splits sum.splits)

lemma wp_finally:
  "wp (finally_do f m) Q E s \<longleftrightarrow> wp m (\<lambda>a. wp f (\<lambda>_. Q a) E) (\<lambda>e. wp f (\<lambda>_. E e) E) s"
  by (simp add: finally_do_def)

section \<open>Closing and connecting\<close>

lemma close_disconnects:
  assumes "mcp_laws X live" "live (mp_world s) \<subseteq> B \<union> held s"
  shows "wp (mcp_close X) (\<lambda>_. disconnected live B) (\<lambda>_. disconnected live B) s"
proof -
  let ?cleared = "s\<lparr>mp_session_context := None, mp_context := None, mp_session := None, mp_tools := []\<rparr>"
  have leave_transport: "wp (case mp_context s of Some h \<Rightarrow> outside (mc_exit_transport X h) | None \<Rightarrow> ret ())
      (\<lambda>_. disconnected live B) (\<lambda>_. disconnected live B) (?cleared\<lparr>mp_world := w\<rparr>)"
    if "live w \<subseteq> B \<union> Transport ` set_option (mp_context s)" for w
  proof (cases "mp_context s")
    case (Some h)
    have "live (snd (mc_exit_transport X h w)) \<subseteq> B" using assms(1) that Some by (auto simp: mcp_laws_def)
    then show ?thesis by (simp add: Some wp_outside) (rule wp_snd, simp add: disconnected_def)
  qed (use that in \<open>simp add: disconnected_def\<close>)
  have "wp (case mp_session_context s of Some h \<Rightarrow> outside (mc_exit_session X h) | None \<Rightarrow> ret ())
      (\<lambda>_ s'. \<exists>w. s' = ?cleared\<lparr>mp_world := w\<rparr> \<and> live w \<subseteq> B \<union> Transport ` set_option (mp_context s))
      (\<lambda>_ s'. \<exists>w. s' = ?cleared\<lparr>mp_world := w\<rparr> \<and> live w \<subseteq> B \<union> Transport ` set_option (mp_context s)) ?cleared"
  proof (cases "mp_session_context s")
    case None
    with assms(2) show ?thesis by (auto simp: held_def intro!: exI[of _ "mp_world s"])
  next
    case (Some h)
    have "live (snd (mc_exit_session X h (mp_world s))) \<subseteq> B \<union> Transport ` set_option (mp_context s)"
      using assms Some by (auto simp: mcp_laws_def held_def)
    then show ?thesis by (simp add: Some wp_outside) (rule wp_snd, auto)
  qed
  then show ?thesis
    unfolding mcp_close_def wp_ebind wp_gets wp_eseq wp_modify wp_finally
    by (rule wp_mono) (use leave_transport in auto)
qed

lemma each_tools_frame:
  "wp (each (\<lambda>m. ebind (from_sum (convert_mcp_tool X m)) (\<lambda>t. modify (\<lambda>s. s\<lparr>mp_tools := mp_tools s @ [t]\<rparr>))) ms)
    (\<lambda>_ s'. \<exists>ts. s' = s\<lparr>mp_tools := ts\<rparr>) (\<lambda>_ s'. \<exists>ts. s' = s\<lparr>mp_tools := ts\<rparr>) s"
  by (rule wp_each[where I = "\<lambda>s'. \<exists>ts. s' = s\<lparr>mp_tools := ts\<rparr>"]) (auto split: sum.split intro: exI[of _ "mp_tools s"])

lemma discover_keeps:
  assumes "mcp_laws X live" "tidy live B s"
  shows "wp (discover_tools X) (\<lambda>_ s'. tidy live B s' \<and> mp_session s' = mp_session s)
    (\<lambda>_ s'. tidy live B s' \<and> mp_session s' = mp_session s) s"
proof (cases "mp_session s")
  case None
  with assms(2) show ?thesis by (simp add: discover_tools_def)
next
  case (Some h)
  let ?w = "snd (mc_list_tools X h (mp_world s))"
  have "live ?w = live (mp_world s)" using assms(1) by (simp add: mcp_laws_def)
  with assms(2) Some have t: "tidy live B (s\<lparr>mp_world := ?w, mp_tools := ts\<rparr>)" for ts
    by (auto simp: tidy_def held_def)
  have "wp (mc_list_tools X h) (\<lambda>_ w. w = ?w) (\<lambda>_ w. w = ?w) (mp_world s)" by (rule wp_snd) simp
  then show ?thesis
    unfolding discover_tools_def wp_ebind wp_gets Some option.case wp_outside
    by (rule wp_mono)
      (use t[of "mp_tools s"] in \<open>auto intro!: wp_mono[OF each_tools_frame] simp: t Some\<close>)
qed

text \<open>The statements of \<open>_connect\<close> after the transport has been named.\<close>

lemma connecting:
  assumes "mcp_laws X live" "live (mp_world s) \<subseteq> B" "mp_context s = Some h" "mp_session_context s = None"
    "mp_session s = None" "mp_tools s = []"
  shows "wp (eseq (outside (mc_enter_transport X h))
             (eseq (modify (\<lambda>s. s\<lparr>mp_session_context := Some h\<rparr>))
             (eseq (outside (mc_enter_session X h))
             (eseq (modify (\<lambda>s. s\<lparr>mp_session := Some h\<rparr>))
             (eseq (outside (mc_initialize X h)) (discover_tools X))))))
    (\<lambda>_ s'. tidy live B s' \<and> mp_session s' = Some h) (\<lambda>_ s'. live (mp_world s') \<subseteq> B \<union> held s') s"
proof -
  have enter: "wp (mc_enter_transport X h) (\<lambda>_ w'. live w' = insert (Transport h) (live w)) (\<lambda>_ w'. live w' = live w) w"
    "wp (mc_enter_session X h) (\<lambda>_ w'. live w' = insert (Session h) (live w)) (\<lambda>_ w'. live w' = live w) w" for w
    using assms(1) by (auto simp: mcp_laws_def)
  have tools: "wp (discover_tools X) (\<lambda>_ s'. tidy live B s' \<and> mp_session s' = Some h) (\<lambda>_ s'. live (mp_world s') \<subseteq> B \<union> held s') s1"
    if "tidy live B s1" "mp_session s1 = Some h" for s1
    by (rule wp_mono[OF discover_keeps[OF assms(1) that(1)]]) (use that(2) in \<open>auto simp: tidy_def\<close>)
  have init: "wp (eseq (outside (mc_initialize X h)) (discover_tools X)) (\<lambda>_ s'. tidy live B s' \<and> mp_session s' = Some h)
      (\<lambda>_ s'. live (mp_world s') \<subseteq> B \<union> held s') s1"
    if s1: "tidy live B s1" "mp_session s1 = Some h" for s1
  proof -
    have "live (snd (mc_initialize X h (mp_world s1))) = live (mp_world s1)" using assms(1) by (simp add: mcp_laws_def)
    then have "wp (mc_initialize X h) (\<lambda>_ w. live w = live (mp_world s1)) (\<lambda>_ w. live w = live (mp_world s1)) (mp_world s1)"
      by (rule wp_snd)
    then show ?thesis
      unfolding wp_eseq wp_outside by (rule wp_mono) (use s1 tidy_world[of live _ s1 B] in \<open>auto intro!: tools simp: tidy_def[of live B s1]\<close>)
  qed
  have entered: "wp (eseq (outside (mc_enter_session X h)) (eseq (modify (\<lambda>s. s\<lparr>mp_session := Some h\<rparr>))
        (eseq (outside (mc_initialize X h)) (discover_tools X))))
      (\<lambda>_ s'. tidy live B s' \<and> mp_session s' = Some h) (\<lambda>_ s'. live (mp_world s') \<subseteq> B \<union> held s') s1"
    if s1: "live (mp_world s1) \<subseteq> insert (Transport h) B" "mp_context s1 = Some h" "mp_session_context s1 = Some h" for s1
    unfolding wp_eseq[of "outside (mc_enter_session X h)"] wp_outside
  proof (rule wp_mono[OF enter(2)])
    fix a w assume "live w = insert (Session h) (live (mp_world s1))"
    with s1 have "tidy live B (s1\<lparr>mp_world := w, mp_session := Some h\<rparr>)" by (auto simp: tidy_def held_def)
    then show "wp (eseq (modify (\<lambda>s. s\<lparr>mp_session := Some h\<rparr>)) (eseq (outside (mc_initialize X h)) (discover_tools X)))
      (\<lambda>_ s'. tidy live B s' \<and> mp_session s' = Some h) (\<lambda>_ s'. live (mp_world s') \<subseteq> B \<union> held s') (s1\<lparr>mp_world := w\<rparr>)"
      unfolding wp_eseq[of "modify _"] wp_modify by (rule init) simp
  next
    fix e w assume "live w = live (mp_world s1)"
    with s1 show "live (mp_world (s1\<lparr>mp_world := w\<rparr>)) \<subseteq> B \<union> held (s1\<lparr>mp_world := w\<rparr>)" by (auto simp: held_def)
  qed
  show ?thesis
    unfolding wp_eseq[of "outside (mc_enter_transport X h)"] wp_outside
  proof (rule wp_mono[OF enter(1)])
    fix a w assume "live w = insert (Transport h) (live (mp_world s))"
    with assms(2,3) show "wp (eseq (modify (\<lambda>s. s\<lparr>mp_session_context := Some h\<rparr>)) (eseq (outside (mc_enter_session X h))
        (eseq (modify (\<lambda>s. s\<lparr>mp_session := Some h\<rparr>)) (eseq (outside (mc_initialize X h)) (discover_tools X)))))
      (\<lambda>_ s'. tidy live B s' \<and> mp_session s' = Some h) (\<lambda>_ s'. live (mp_world s') \<subseteq> B \<union> held s') (s\<lparr>mp_world := w\<rparr>)"
      unfolding wp_eseq[of "modify (\<lambda>s. s\<lparr>mp_session_context := Some h\<rparr>)"] wp_modify by (intro entered) auto
  next
    fix e w assume "live w = live (mp_world s)"
    with assms(2) show "live (mp_world (s\<lparr>mp_world := w\<rparr>)) \<subseteq> B \<union> held (s\<lparr>mp_world := w\<rparr>)" by auto
  qed
qed

lemma connect_tidy:
  assumes "mcp_laws X live" "tidy live B s"
  shows "wp (mcp_connect X h) (\<lambda>_ s'. tidy live B s' \<and> mp_session s' = Some h) (\<lambda>_. disconnected live B) s"
proof -
  have close: "wp (mcp_close X) (\<lambda>_. disconnected live B) (\<lambda>_. disconnected live B) s1" if "live (mp_world s1) \<subseteq> B \<union> held s1" for s1
    by (rule close_disconnects[OF assms(1) that])
  have failed: "wp (eseq (try_with (mcp_close X) (\<lambda>x. if is_cancelled x then raise x else ret ())) (raise e)) Q (\<lambda>_. disconnected live B) s1"
    if "live (mp_world s1) \<subseteq> B \<union> held s1" for e Q s1
    unfolding wp_eseq wp_try_with by (rule wp_mono[OF close[OF that]]) auto
  show ?thesis
    unfolding mcp_connect_def wp_eseq[of "mcp_close X"]
  proof (rule wp_mono[OF close])
    show "live (mp_world s) \<subseteq> B \<union> held s" using assms(2) by (simp add: tidy_def)
  next
    fix a s1 assume s1: "disconnected live B s1"
    show "wp (eseq (modify (\<lambda>s. s\<lparr>mp_context := Some h\<rparr>)) (try_with
       (eseq (outside (mc_enter_transport X h)) (eseq (modify (\<lambda>s. s\<lparr>mp_session_context := Some h\<rparr>))
       (eseq (outside (mc_enter_session X h)) (eseq (modify (\<lambda>s. s\<lparr>mp_session := Some h\<rparr>))
       (eseq (outside (mc_initialize X h)) (discover_tools X))))))
       (\<lambda>e. eseq (try_with (mcp_close X) (\<lambda>x. if is_cancelled x then raise x else ret ())) (raise e))))
      (\<lambda>_ s'. tidy live B s' \<and> mp_session s' = Some h) (\<lambda>_. disconnected live B) s1"
      unfolding wp_eseq[of "modify (\<lambda>s. s\<lparr>mp_context := Some h\<rparr>)"] wp_modify wp_try_with
      by (rule wp_mono[OF connecting[OF assms(1)]]) (use s1 failed in \<open>auto simp: disconnected_def\<close>)
  qed
qed

section \<open>Calls\<close>

lemma execute_tidy:
  assumes "mcp_laws X live" "tidy live B s"
  shows "wp (mcp_execute_tool X name args)
    (\<lambda>r s'. tidy live B s' \<and> mp_session s' = mp_session s \<and> (mp_session s = None \<longrightarrow> r = error_result ''MCP session not connected''))
    (\<lambda>e s'. tidy live B s' \<and> is_cancelled e) s"
proof (cases "mp_session s")
  case None
  with assms(2) show ?thesis by (simp add: mcp_execute_tool_def)
next
  case (Some h)
  have "wp (mc_call_tool X h name args) (\<lambda>_ w. live w = live (mp_world s)) (\<lambda>_ w. live w = live (mp_world s)) (mp_world s)"
    by (rule wp_snd) (use assms(1) in \<open>simp add: mcp_laws_def\<close>)
  then show ?thesis
    unfolding mcp_execute_tool_def wp_ebind wp_gets Some option.case wp_try_with wp_outside
    by (rule wp_mono) (use assms(2) tidy_world[of live _ s B] Some in auto)
qed

section \<open>Any sequence of operations\<close>

datatype mcp_op = Connect string | Close | ListTools | CallTool string "pyval dict"

fun mcp_step :: "'w mcp_ext \<Rightarrow> mcp_op \<Rightarrow> 'w provider \<Rightarrow> 'w provider" where
  "mcp_step X (Connect h) s = snd (mcp_connect X h s)"
| "mcp_step X Close s = snd (mcp_close X s)"
| "mcp_step X ListTools s = snd (alist_tools X s)"
| "mcp_step X (CallTool name args) s = snd (mcp_execute_tool X name args s)"

lemma wp_after: "wp m (\<lambda>_. P) (\<lambda>_. P) s \<Longrightarrow> P (snd (m s))"
  by (auto simp: wp_def split: prod.splits sum.splits)

lemma step_tidy:
  assumes "mcp_laws X live" "tidy live B s"
  shows "tidy live B (mcp_step X a s)"
proof (cases a)
  case (Connect h)
  have "tidy live B (snd (mcp_connect X h s))"
    by (rule wp_after, rule wp_mono[OF connect_tidy[OF assms]]) (auto intro: disconnected_tidy)
  with Connect show ?thesis by simp
next
  case Close
  have "tidy live B (snd (mcp_close X s))"
    by (rule wp_after, rule wp_mono[OF close_disconnects[OF assms(1), of s B]])
      (use assms(2) in \<open>auto simp: tidy_def[of live B s] intro: disconnected_tidy\<close>)
  with Close show ?thesis by simp
next
  case ListTools
  have "tidy live B (snd (alist_tools X s))"
    unfolding alist_tools_def
    by (rule wp_after, simp, intro conjI impI) (use assms(2) in \<open>auto intro: wp_mono[OF discover_keeps[OF assms]]\<close>)
  with ListTools show ?thesis by simp
next
  case (CallTool n args)
  have "tidy live B (snd (mcp_execute_tool X n args s))"
    by (rule wp_after, rule wp_mono[OF execute_tidy[OF assms]]) auto
  with CallTool show ?thesis by simp
qed

lemma steps_tidy: "mcp_laws X live \<Longrightarrow> tidy live (live w) (fold (mcp_step X) ops (new_provider w))"
proof (induction ops rule: rev_induct)
  case Nil
  show ?case by (simp add: disconnected_tidy[OF new_provider_disconnected])
next
  case (snoc a ops)
  then show ?case by (simp add: step_tidy)
qed

text \<open>
  C39: Whatever a provider has been used for, with any of the calls failing: closing it leaves no connection
  open that was not open before it was made; a connection attempt that raises leaves the provider closed, and
  one that returns leaves it connected; a call without a connection is answered with an error, and a call
  never raises but for a cancellation.
\<close>

theorem mcp_provider_leaks_nothing:
  assumes "mcp_laws X live" "s = fold (mcp_step X) ops (new_provider w)"
  shows "disconnected live (live w) (snd (mcp_close X s))
    \<and> (\<forall>h e s'. mcp_connect X h s = (Inl e, s') \<longrightarrow> disconnected live (live w) s')
    \<and> (\<forall>h s'. mcp_connect X h s = (Inr (), s') \<longrightarrow> mp_session s' = Some h \<and> live (mp_world s') \<subseteq> live w \<union> held s')
    \<and> (\<forall>name args r s'. mp_session s = None \<longrightarrow> mcp_execute_tool X name args s = (Inr r, s') \<longrightarrow>
         r = error_result ''MCP session not connected'')
    \<and> (\<forall>name args e s'. mcp_execute_tool X name args s = (Inl e, s') \<longrightarrow> is_cancelled e)"
proof (intro conjI allI impI)
  note t = steps_tidy[OF assms(1), of w ops, folded assms(2)]
  show "disconnected live (live w) (snd (mcp_close X s))"
    by (rule wp_after, rule close_disconnects[OF assms(1)]) (use t in \<open>simp add: tidy_def\<close>)
  show "mcp_connect X h s = (Inl e, s') \<Longrightarrow> disconnected live (live w) s'" for h e s'
    by (rule wpD(2)[OF connect_tidy[OF assms(1) t]])
  fix h s' assume "mcp_connect X h s = (Inr (), s')"
  from wpD(1)[OF connect_tidy[OF assms(1) t] this]
  show "mp_session s' = Some h" "live (mp_world s') \<subseteq> live w \<union> held s'" by (auto simp: tidy_def)
next
  note t = steps_tidy[OF assms(1), of w ops, folded assms(2)]
  show "r = error_result ''MCP session not connected''"
    if "mp_session s = None" "mcp_execute_tool X name args s = (Inr r, s')" for name args r s'
    using wpD(1)[OF execute_tidy[OF assms(1) t] that(2)] that(1) by simp
  show "is_cancelled e" if "mcp_execute_tool X name args s = (Inl e, s')" for name args e s'
    using wpD(2)[OF execute_tidy[OF assms(1) t] that] by simp
qed

text \<open>A library whose server refuses the handshake; its world is the set of open connections.\<close>

definition refusing_library :: "connection set mcp_ext" where
  "refusing_library =
     \<lparr>mc_enter_transport = (\<lambda>h w. (Inr (), insert (Transport h) w)), mc_exit_transport = (\<lambda>h w. (Inr (), w - {Transport h})),
      mc_enter_session = (\<lambda>h w. (Inr (), insert (Session h) w)), mc_exit_session = (\<lambda>h w. (Inl (ValueError ''exit''), w - {Session h})),
      mc_initialize = (\<lambda>h. raise (ValueError ''refused'')), mc_list_tools = (\<lambda>h. ret []),
      mc_call_tool = (\<lambda>h n args. raise (ValueError ''call'')), mc_check_schema = (\<lambda>d. None), mc_schema_errors = (\<lambda>d v. [])\<rparr>"

theorem mcp_provider_leaks_nothing_witness:
  "\<exists>s'. mcp_connect refusing_library ''srv'' (new_provider {Transport ''other''}) = (Inl (ValueError ''refused''), s')
     \<and> mp_session s' = None \<and> mp_world s' \<subseteq> {Transport ''other''}"
proof -
  have laws: "mcp_laws refusing_library (\<lambda>w. w)"
    by (simp add: mcp_laws_def refusing_library_def wp_def raise_def ret_def)
  have "\<exists>s'. mcp_connect refusing_library ''srv'' (new_provider {Transport ''other''}) = (Inl (ValueError ''refused''), s')"
    by (simp add: mcp_connect_def mcp_close_def refusing_library_def new_provider_def finally_do_def outside_def ebind_def
        eseq_def try_with_def attempt_def from_sum_def gets_def modify_def ret_def raise_def is_cancelled_def)
  then obtain s' where s': "mcp_connect refusing_library ''srv'' (new_provider {Transport ''other''}) = (Inl (ValueError ''refused''), s')"
    by blast
  from mcp_provider_leaks_nothing[OF laws, of _ "[]" "{Transport ''other''}"] s' show ?thesis
    by (auto simp: disconnected_def)
qed

end
