(* ===== verification/Tool_Functions.thy ===== *)
theory Tool_Functions
  imports Mcp_Tools
begin

text \<open>
  Tools made of functions (\<^verbatim>\<open>tools/decorators.py\<close>, \<^verbatim>\<open>tools/schema.py\<close>) and the two tools of this kind the
  package brings, which generate an image (\<^verbatim>\<open>tools/image_generation.py\<close>).
\<close>

section \<open>The decorator\<close>

datatype param_kind = PositionalOnly | PositionalOrKeyword | VarPositional | KeywordOnly | VarKeyword

record fn_param =
  pm_name :: string
  pm_kind :: param_kind
  pm_default :: "pyval option"

text \<open>A function as \<open>inspect\<close> and \<open>get_type_hints\<close> show it; an annotation is named by a string.\<close>

record py_function =
  fn_name :: string
  fn_doc :: "string option"
  fn_params :: "fn_param list"
  fn_hints :: "string dict"

type_synonym fn_field = "string \<times> string \<times> pyval option"

fun input_model_fields :: "string dict \<Rightarrow> fn_param list \<Rightarrow> exc + fn_field list" where
  "input_model_fields hints [] = Inr []"
| "input_model_fields hints (p # ps) =
     (if pm_kind p = PositionalOnly
      then Inl (TypeErr (''Tool parameter '' @ quoted (pm_name p) @ '' must accept keyword arguments''))
      else case input_model_fields hints ps of
             Inl e \<Rightarrow> Inl e
           | Inr fs \<Rightarrow>
               if pm_kind p = VarPositional \<or> pm_kind p = VarKeyword then Inr fs
               else Inr ((pm_name p, dict_get_or hints (pm_name p) ''Any'', pm_default p) # fs))"

definition build_fn_input_model :: "py_function \<Rightarrow> exc + string \<times> fn_field list" where
  "build_fn_input_model f =
     (case input_model_fields (fn_hints f) (fn_params f) of
        Inl e \<Rightarrow> Inl e
      | Inr fs \<Rightarrow> Inr (str_title False (fn_name f) @ ''Input'', fs))"

text \<open>The options of the decorator are those of a tool: \<open>t\<close> is a tool with the options, of any name,
  description, function and model; \<open>schema_of\<close> is pydantic's schema of a model.\<close>

definition decorate ::
  "(string \<times> fn_field list \<Rightarrow> pyval dict) \<Rightarrow> string option \<Rightarrow> string option \<Rightarrow> tool \<Rightarrow> py_function \<Rightarrow> exc + tool" where
  "decorate schema_of name description t f =
     (case build_fn_input_model f of
        Inl e \<Rightarrow> Inl e
      | Inr model \<Rightarrow>
          (let made = t\<lparr>tl_name := (case name of None \<Rightarrow> fn_name f | Some n \<Rightarrow> n),
                        tl_description := (case description of None \<Rightarrow> or_str (fn_doc f) [] | Some d \<Rightarrow> d),
                        tl_schema := schema_of model, tl_callable := fn_name f, tl_input_model := fst model\<rparr>
           in case tool_check made of Some e \<Rightarrow> Inl e | None \<Rightarrow> Inr made))"

lemma input_model_fields_names:
  "input_model_fields hints ps = Inr fs \<Longrightarrow>
   map fst fs = map pm_name (filter (\<lambda>p. pm_kind p = PositionalOrKeyword \<or> pm_kind p = KeywordOnly) ps)"
proof (induction ps arbitrary: fs)
  case (Cons p ps)
  then show ?case by (cases "pm_kind p") (auto split: sum.splits if_splits)
qed simp

section \<open>Reading an image response\<close>

text \<open>\<open>_value\<close>: a key of a mapping, an attribute of anything else.\<close>

definition value_at :: "pyval \<Rightarrow> string \<Rightarrow> pyval" where
  "value_at obj key =
     (case obj of
        PDict d \<Rightarrow> dict_get_or d key PNone
      | PData c fs \<Rightarrow> dict_get_or fs key PNone
      | PModel c (PDict d) \<Rightarrow> dict_get_or d key PNone
      | _ \<Rightarrow> PNone)"

text \<open>A sequence that is no text.\<close>

definition items_of :: "pyval \<Rightarrow> pyval list option" where
  "items_of v = (case v of PList xs \<Rightarrow> Some xs | PTuple xs \<Rightarrow> Some xs | _ \<Rightarrow> None)"

definition text_of :: "pyval \<Rightarrow> string option" where
  "text_of v = (case v of PStr s \<Rightarrow> if s = [] then None else Some s | _ \<Rightarrow> None)"

definition text_entry :: "string \<Rightarrow> pyval \<Rightarrow> (string \<times> string) list" where
  "text_entry key v = (case text_of v of Some s \<Rightarrow> [(key, s)] | None \<Rightarrow> [])"

definition extract_image_generation_response :: "pyval \<Rightarrow> (string \<times> string) list" where
  "extract_image_generation_response response =
     (case items_of (value_at response ''data'') of
        Some (img # rest) \<Rightarrow>
          text_entry ''url'' (value_at img ''url'') @ text_entry ''b64_json'' (value_at img ''b64_json'') @
          text_entry ''revised_prompt'' (value_at img ''revised_prompt'')
      | _ \<Rightarrow> [])"

text \<open>The type of a block is looked up in a set; containers and instances are not hashable.\<close>

fun hashable :: "pyval \<Rightarrow> bool" where
  "hashable (PList xs) = False"
| "hashable (PDict d) = False"
| "hashable (PModel c d) = False"
| "hashable (PData c fs) = False"
| "hashable (PTuple xs) = (\<forall>x\<in>set xs. hashable x)"
| "hashable v = True"

fun url_from_blocks :: "pyval list \<Rightarrow> exc + string option" where
  "url_from_blocks [] = Inr None"
| "url_from_blocks (block # rest) =
     (let block_type = value_at block ''type'';
          image_url = value_at block ''image_url''
      in if \<not> hashable block_type then Inl (TypeErr (''unhashable type: '' @ quoted (type_name block_type)))
         else if block_type \<notin> {PStr ''image_url'', PStr ''input_image'', PStr ''output_image''} \<and>
                 image_url = PNone \<and> value_at block ''url'' = PNone
         then url_from_blocks rest
         else case text_of image_url of
                Some s \<Rightarrow> Inr (Some s)
              | None \<Rightarrow>
                  (case text_of (value_at image_url ''url'') of
                     Some s \<Rightarrow> Inr (Some s)
                   | None \<Rightarrow>
                       (case text_of (value_at block ''url'') of
                          Some s \<Rightarrow> Inr (Some s)
                        | None \<Rightarrow> url_from_blocks rest)))"

definition url_from_content_blocks :: "pyval \<Rightarrow> exc + string option" where
  "url_from_content_blocks content =
     (case items_of content of Some blocks \<Rightarrow> url_from_blocks blocks | None \<Rightarrow> Inr None)"

definition first_image_url :: "pyval \<Rightarrow> string option" where
  "first_image_url message =
     (case items_of (value_at message ''images'') of
        Some (img # rest) \<Rightarrow>
          (let image_url = value_at img ''image_url'';
               url = (if image_url \<noteq> PNone then value_at image_url ''url'' else PNone)
           in text_of (if url = PNone then value_at img ''url'' else url))
      | _ \<Rightarrow> None)"

definition extract_chat_image_response :: "pyval \<Rightarrow> exc + (string \<times> string) list" where
  "extract_chat_image_response response =
     (case items_of (value_at response ''choices'') of
        Some (choice # rest) \<Rightarrow>
          (let message = value_at choice ''message'';
               content = value_at message ''content''
           in case first_image_url message of
                Some url \<Rightarrow> Inr [(''url'', url)]
              | None \<Rightarrow>
                  (case content of
                     PStr s \<Rightarrow> Inr (if prefix ''data:image/'' s then [(''url'', s)] else [])
                   | _ \<Rightarrow>
                       (case url_from_content_blocks content of
                          Inl e \<Rightarrow> Inl e
                        | Inr (Some url) \<Rightarrow> Inr [(''url'', url)]
                        | Inr None \<Rightarrow> Inr [])))
      | _ \<Rightarrow> Inr [])"

section \<open>Generating an image\<close>

text \<open>What the model is shown leaves out the image data; the data of the result keeps it.\<close>

definition compact_payload :: "(string \<times> string) list \<Rightarrow> (string \<times> string) list" where
  "compact_payload payload =
     (let c1 = (case dict_get payload ''url'' of
                  Some url \<Rightarrow> if prefix ''data:image/'' url then dict_set ''url'' ''[data-url omitted]'' payload else payload
                | None \<Rightarrow> payload)
      in case dict_get c1 ''b64_json'' of
           Some b \<Rightarrow> if b \<noteq> [] then dict_set ''b64_json'' ''[b64_json omitted]'' c1 else c1
         | None \<Rightarrow> c1)"

definition as_dict :: "(string \<times> string) list \<Rightarrow> pyval" where
  "as_dict d = PDict (map (\<lambda>(k, v). (k, PStr v)) d)"

definition image_tool_result :: "pytext \<Rightarrow> (string \<times> string) list \<Rightarrow> tool_result" where
  "image_tool_result P payload =
     empty_result\<lparr>tr_content := Some (json_text P (as_dict (compact_payload payload))), tr_data := as_dict payload\<rparr>"

text \<open>The two calls of litellm, of a prompt, a model and, for the first, a size and a quality.\<close>

record 'w image_client =
  ic_generate :: "string \<Rightarrow> string \<Rightarrow> string \<Rightarrow> string \<Rightarrow> ('w, pyval) eff"
  ic_complete :: "string \<Rightarrow> string \<Rightarrow> ('w, pyval) eff"

definition generate_via_chat_completion :: "'w image_client \<Rightarrow> string \<Rightarrow> string \<Rightarrow> ('w, (string \<times> string) list) eff" where
  "generate_via_chat_completion L prompt model =
     ebind (ic_complete L prompt model) (\<lambda>response. from_sum (extract_chat_image_response response))"

definition generate_image ::
  "pytext \<Rightarrow> 'w image_client \<Rightarrow> string \<Rightarrow> string \<Rightarrow> string \<Rightarrow> string \<Rightarrow> ('w, tool_result) eff" where
  "generate_image P L prompt model size' quality =
     (let fallback = (\<lambda>err.
            ebind (generate_via_chat_completion L prompt model) (\<lambda>result.
            if result \<noteq> [] then ret (image_tool_result P result)
            else case err of Some e \<Rightarrow> raise e | None \<Rightarrow> ret (image_tool_result P [])))
      in ebind (attempt (ebind (ic_generate L prompt model size' quality) (\<lambda>response.
                 ret (extract_image_generation_response response)))) (\<lambda>r.
         case r of
           Inl e \<Rightarrow> if is_cancelled e then raise e else fallback (Some e)
         | Inr result \<Rightarrow> if result \<noteq> [] then ret (image_tool_result P result) else fallback None))"

text \<open>The asynchronous tool does the same with the asynchronous calls of the client.\<close>

definition agenerate_image ::
  "pytext \<Rightarrow> 'w image_client \<Rightarrow> string \<Rightarrow> string \<Rightarrow> string \<Rightarrow> string \<Rightarrow> ('w, tool_result) eff" where
  "agenerate_image P L prompt model size' quality = generate_image P L prompt model size' quality"

text \<open>No data URL and no base64 text reaches the model.\<close>

lemma compact_payload_light:
  "dict_get (compact_payload payload) ''url'' = Some url \<Longrightarrow> \<not> prefix ''data:image/'' url"
  "dict_get (compact_payload payload) ''b64_json'' = Some b \<Longrightarrow> b = [] \<or> b = ''[b64_json omitted]''"
  by (auto simp: compact_payload_def Let_def split: option.splits if_splits)

lemma generate_image_outcome:
  "wp (generate_image P L prompt model size' quality)
     (\<lambda>r s'. \<exists>payload. r = image_tool_result P payload) anything s"
proof -
  have fallback: "wp (ebind (generate_via_chat_completion L prompt model) (\<lambda>result.
      if result \<noteq> [] then ret (image_tool_result P result)
      else case err of Some e \<Rightarrow> raise e | None \<Rightarrow> ret (image_tool_result P []))) 
      (\<lambda>r s'. \<exists>payload. r = image_tool_result P payload) anything s1" for err s1
    unfolding wp_ebind by (rule wp_mono[OF wp_true]) (auto split: option.split)
  show ?thesis
    unfolding generate_image_def Let_def wp_ebind wp_attempt wp_ret
    by (rule wp_mono[OF wp_true]) (auto simp del: wp_ebind intro: fallback)
qed

end
