(* ===== verification/Entry_Points.thy ===== *)
theory Entry_Points
  imports Session Flow
begin

text \<open>
  The blocking entry points, which refuse to run inside an event loop (\<^verbatim>\<open>async_utils.py\<close>), a streamed run
  of a session whose reader may stop early, and the command line (\<^verbatim>\<open>cli.py\<close>).
\<close>

section \<open>Blocking calls\<close>

text \<open>\<open>running\<close> says whether the calling thread is inside an event loop; \<open>asyncio.run\<close> runs the coroutine to its
  end.\<close>

definition ensure_not_running_loop :: "bool \<Rightarrow> string \<Rightarrow> string \<Rightarrow> ('s, unit) eff" where
  "ensure_not_running_loop running action async_action =
     (if running
      then raise (Exc ''RuntimeError''
             (action @ '' cannot be called from a running event loop. Use '' @ async_action @ '' instead.''))
      else ret ())"

definition desk_run ::
  "bool \<Rightarrow> ('st, 'm, 'u) desk \<Rightarrow> (('st, 'm, 'u) desk_world_scheme, 'x) force_ext_scheme \<Rightarrow> runner \<Rightarrow> job \<Rightarrow>
   bool option \<Rightarrow> string option \<Rightarrow> ('st, 'm, 'u, report) desk_eff" where
  "desk_run running D X r j stream rid =
     eseq (ensure_not_running_loop running ''Desk.run'' ''Desk.arun'') (desk_arun D X r j stream rid)"

definition desk_resume ::
  "bool \<Rightarrow> ('st, 'm, 'u) desk \<Rightarrow> (('st, 'm, 'u) desk_world_scheme, 'x) force_ext_scheme \<Rightarrow>
   (nat \<Rightarrow> report \<Rightarrow> pyval \<Rightarrow> bool option \<Rightarrow> ('st, 'm, 'u, report) desk_eff) \<Rightarrow> report \<Rightarrow> pyval \<Rightarrow>
   bool option \<Rightarrow> ('st, 'm, 'u, report) desk_eff" where
  "desk_resume running D X fl rep d stream =
     eseq (ensure_not_running_loop running ''Desk.resume'' ''Desk.aresume'') (desk_aresume D X fl rep d stream)"

definition worker_run ::
  "bool \<Rightarrow> ('w, 'x) run_ext_scheme \<Rightarrow> worker \<Rightarrow> run_config \<Rightarrow> job \<Rightarrow> string option \<Rightarrow>
   (('w, 'z) rt_scheme, report \<times> run_state option) eff" where
  "worker_run running X wk c j model = eseq (ensure_not_running_loop running ''run'' ''arun'') (arun X wk c j model)"

definition worker_resume ::
  "bool \<Rightarrow> ('w, 'x) run_ext_scheme \<Rightarrow> worker \<Rightarrow> run_config \<Rightarrow> run_state \<Rightarrow> pyval \<Rightarrow> string option \<Rightarrow>
   (('w, 'z) rt_scheme, report \<times> run_state option) eff" where
  "worker_resume running X wk c st d model =
     eseq (ensure_not_running_loop running ''resume'' ''aresume'') (aresume X wk c st d model)"

definition workforce_run ::
  "bool \<Rightarrow> ('w, 'x) force_ext_scheme \<Rightarrow> ('w, 'z) member_run \<Rightarrow> workforce \<Rightarrow> run_config \<Rightarrow> job \<Rightarrow>
   (('w, 'z) rt_scheme, unit) eff option \<Rightarrow> (('w, 'z) rt_scheme, report \<times> run_state option) eff" where
  "workforce_run running X run crew c j drain =
     eseq (ensure_not_running_loop running ''run'' ''arun'') (workforce_arun X run crew c j drain)"

definition workforce_resume ::
  "bool \<Rightarrow> ('w, 'x) force_ext_scheme \<Rightarrow> ('w, 'z) member_run \<Rightarrow> ('w, 'z) member_resume \<Rightarrow> workforce \<Rightarrow>
   run_config \<Rightarrow> run_state \<Rightarrow> pyval \<Rightarrow> (('w, 'z) rt_scheme, report \<times> run_state option) eff" where
  "workforce_resume running X run resume crew c st d =
     eseq (ensure_not_running_loop running ''resume'' ''aresume'') (workforce_aresume X run resume crew c st d)"

definition flow_run ::
  "bool \<Rightarrow> ('st, 'm, 'u) desk \<Rightarrow> (('st, 'm, 'u) desk_world_scheme, 'x) force_ext_scheme \<Rightarrow>
   ('st, 'm, 'u) desk_world_scheme flow_calls \<Rightarrow> flow \<Rightarrow> job \<Rightarrow> ('st, 'm, 'u, report) flow_eff" where
  "flow_run running D X U F j =
     eseq (ensure_not_running_loop running ''Flow.run'' ''Flow.arun'') (flow_arun D X U F j)"

definition flow_resume ::
  "bool \<Rightarrow> ('st, 'm, 'u) desk \<Rightarrow> (('st, 'm, 'u) desk_world_scheme, 'x) force_ext_scheme \<Rightarrow>
   ('st, 'm, 'u) desk_world_scheme flow_calls \<Rightarrow> flow \<Rightarrow> report \<Rightarrow> pyval \<Rightarrow> bool option \<Rightarrow>
   ('st, 'm, 'u, report) flow_eff" where
  "flow_resume running D X U F rep d stream =
     eseq (ensure_not_running_loop running ''Flow.resume'' ''Flow.aresume'') (flow_aresume D X U F rep d stream)"

text \<open>\<open>Desk.flow\<close>: a closed desk makes no flow.\<close>

definition desk_flow :: "node list \<Rightarrow> string option \<Rightarrow> nat \<Rightarrow> ('w desk_state, flow) eff" where
  "desk_flow steps name key = eseq ensure_open (ret (make_flow steps name key))"

lemma not_running [simp]: "ensure_not_running_loop False a b = ret ()"
  by (simp add: ensure_not_running_loop_def)

lemma running_changes_nothing: "eseq (ensure_not_running_loop True a b) m s = (Inl e, s') \<Longrightarrow> s' = s"
  by (simp add: ensure_not_running_loop_def eseq_def raise_def)

section \<open>Sessions\<close>

text \<open>A session's calls that block, over the desk's.\<close>

definition session_run ::
  "bool \<Rightarrow> ('st, 'm, 'u) desk \<Rightarrow> (('st, 'm, 'u) desk_world_scheme, 'x) force_ext_scheme \<Rightarrow> 'ss session_ops \<Rightarrow>
   session \<Rightarrow> job \<Rightarrow> bool \<Rightarrow> ('st, 'm, 'u, 'ss, report) session_eff" where
  "session_run running D X N S j0 stream =
     ebind (build_job N S j0) (\<lambda>j.
     ebind (with_desk (desk_run running D X (RWorker (se_worker S)) j (Some stream) None)) (persist_report X N S))"

definition session_resume ::
  "bool \<Rightarrow> ('st, 'm, 'u) desk \<Rightarrow> (('st, 'm, 'u) desk_world_scheme, 'x) force_ext_scheme \<Rightarrow> 'ss session_ops \<Rightarrow>
   (nat \<Rightarrow> report \<Rightarrow> pyval \<Rightarrow> bool option \<Rightarrow> ('st, 'm, 'u, report) desk_eff) \<Rightarrow>
   session \<Rightarrow> report \<Rightarrow> pyval \<Rightarrow> bool option \<Rightarrow> ('st, 'm, 'u, 'ss, report) session_eff" where
  "session_resume running D X N fl S rep d stream =
     ebind (with_desk (desk_resume running D X fl rep d stream)) (persist_report X N S)"

text \<open>
  \<open>stream_run\<close>, a generator, with a reader that stops after \<open>stop\<close> events, or reads to the end.  The thread that runs the job
  puts the events of the run into the queue, in the order of the run's list of events, and the mark of its end
  behind them; it is waited for in either case.  A generator that is closed before it started does nothing.
  The thread is outside an event loop, and only an \<open>Exception\<close> is handed on.
\<close>

definition read_events :: "nat option \<Rightarrow> event list \<Rightarrow> event list \<times> bool" where
  "read_events stop es =
     (case stop of
        Some n \<Rightarrow> if n \<le> length es then (take n es, False) else (es, True)
      | None \<Rightarrow> (es, True))"

definition session_stream_read ::
  "('st, 'm, 'u) desk \<Rightarrow> (('st, 'm, 'u) desk_world_scheme, 'x) force_ext_scheme \<Rightarrow> 'ss session_ops \<Rightarrow>
   session \<Rightarrow> job \<Rightarrow> (string \<Rightarrow> nat) \<Rightarrow> nat option \<Rightarrow> ('st, 'm, 'u, 'ss, event list) session_eff" where
  "session_stream_read D X N S j0 h stop =
    (if stop = Some 0 then ret [] else
     ebind (build_job N S j0) (\<lambda>j.
     ebind (with_desk (ask (x_new_id X))) (\<lambda>rid.
     eseq (with_desk (on_world (modify (bus_subscribe ''*'' (h rid)))))
    (ebind (with_desk (attempt (desk_run False D X (RWorker (se_worker S)) j (Some True) (Some rid)))) (\<lambda>r.
     ebind (gets (\<lambda>s. filter (\<lambda>e. ev_run_id e = rid) (rt_events (se_desk s)))) (\<lambda>es.
     eseq (with_desk (on_world (modify (bus_unsubscribe ''*'' (h rid)))))
    (eseq (case r of Inr rep \<Rightarrow> ebind (persist_report X N S rep) (\<lambda>_. ret ()) | Inl e \<Rightarrow> ret ())
     (case read_events stop es of
        (read, completed) \<Rightarrow>
          if \<not> completed then ret read
          else case r of
                 Inr rep \<Rightarrow> ret read
               | Inl e \<Rightarrow> raise (if is_cancelled e then Exc ''RuntimeError'' ''Run did not produce a report'' else e)))))))))"

lemma same_state_ebind:
  assumes "\<And>a s. snd (f a s) = snd (g a s)"
  shows "snd (ebind m f s) = snd (ebind m g s)"
  unfolding ebind_def by (auto split: prod.split sum.split intro: assms)

lemma same_state_eseq: "(\<And>s. snd (k s) = snd (k' s)) \<Longrightarrow> snd (eseq m k s) = snd (eseq m k' s)"
  unfolding eseq_def by (rule same_state_ebind)

text \<open>How far the events are read does not matter for what is stored.\<close>

lemma stream_read_state:
  "stop \<noteq> Some 0 \<Longrightarrow> stop' \<noteq> Some 0 \<Longrightarrow>
   snd (session_stream_read D X N S j0 h stop s) = snd (session_stream_read D X N S j0 h stop' s)"
proof -
  assume some: "stop \<noteq> Some 0" "stop' \<noteq> Some 0"
  have last: "snd ((case read_events p es of (read, completed) \<Rightarrow>
        if \<not> completed then ret read else case r of Inr rep \<Rightarrow> ret read | Inl e \<Rightarrow> raise (x e)) s1) = s1"
    for p es x s1 and r :: "exc + report"
    by (simp add: ret_def raise_def split: prod.split sum.split)
  show ?thesis
    unfolding session_stream_read_def if_not_P[OF some(1)] if_not_P[OF some(2)]
    by (rule same_state_ebind, rule same_state_ebind, rule same_state_eseq, rule same_state_ebind,
      rule same_state_ebind, rule same_state_eseq, rule same_state_eseq) (simp only: last)
qed

section \<open>The command line\<close>

text \<open>The parsed arguments; what is printed to the two streams, and the exit status.\<close>

datatype cli_command =
    RunsList "run_status option" "int option"
  | RunsShow string
  | SessionsList "string option" "int option"

record cli_result =
  cl_out :: "string list"
  cl_err :: "string list"
  cl_status :: int

text \<open>\<open>isoformat\<close> of a time is an argument; \<open>dumps\<close> is \<open>json.dumps(..., indent=2, default=str)\<close>.\<close>

definition run_payload :: "(int \<Rightarrow> string) \<Rightarrow> run_record \<Rightarrow> pyval dict" where
  "run_payload isoformat r =
     [(''run_id'', PStr (rc_id r)), (''status'', PStr (run_status_str (rc_status r))), (''input'', rc_input r),
      (''output'', case rc_output r of Some c \<Rightarrow> PStr c | None \<Rightarrow> PNone), (''output_json'', rc_output_json r),
      (''created_at'', PStr (isoformat (rc_created r))), (''updated_at'', PStr (isoformat (rc_updated r)))] @
     (case rc_state r of
        Some st \<Rightarrow> if rs_metrics st \<noteq> [] then [(''metrics'', to_json_value (PDict (rs_metrics st)))] else []
      | None \<Rightarrow> [])"

definition printed :: "string list \<Rightarrow> cli_result" where
  "printed ls = \<lparr>cl_out = ls, cl_err = [], cl_status = 0\<rparr>"

definition failed_with :: "string \<Rightarrow> cli_result" where
  "failed_with message = \<lparr>cl_out = [], cl_err = [message], cl_status = 1\<rparr>"

text \<open>\<open>db\<close> is the two stores the file holds, if it exists.\<close>

definition cli_main ::
  "(int \<Rightarrow> string) \<Rightarrow> (pyval \<Rightarrow> string) \<Rightarrow> 'st store_ops \<Rightarrow> 'ss session_ops \<Rightarrow> string \<Rightarrow> ('st \<times> 'ss) option \<Rightarrow>
   cli_command \<Rightarrow> exc + cli_result" where
  "cli_main isoformat dumps R N path db command =
     (case db of
        None \<Rightarrow> Inr (failed_with (''error: no database at '' @ path))
      | Some (runs, sessions) \<Rightarrow>
          (case command of
             RunsList status limit \<Rightarrow>
               (case so_list R status limit 0 runs of
                  Inl e \<Rightarrow> Inl e
                | Inr rs \<Rightarrow> Inr (printed (map (\<lambda>r. rc_id r @ ''  '' @ run_status_str (rc_status r) @ ''  '' @ isoformat (rc_updated r)) rs)))
           | RunsShow i \<Rightarrow>
               (case so_get R i runs of
                  Inl e \<Rightarrow> Inl e
                | Inr None \<Rightarrow> Inr (failed_with (''error: run not found: '' @ i))
                | Inr (Some r) \<Rightarrow> Inr (printed [dumps (PDict (run_payload isoformat r))]))
           | SessionsList w limit \<Rightarrow>
               (case ss_list N w limit sessions of
                  Inl e \<Rightarrow> Inl e
                | Inr ss \<Rightarrow> Inr (printed (map (\<lambda>x. sn_id x @ ''  '' @ sn_worker x @ ''  '' @ isoformat (sn_updated x)) ss)))))"

text \<open>The status is 0 or 1, and exactly the second comes with a message.\<close>

lemma cli_status:
  "cli_main isoformat dumps R N path db command = Inr res \<Longrightarrow>
   cl_status res = 0 \<and> cl_err res = [] \<or> cl_status res = 1 \<and> cl_err res \<noteq> [] \<and> cl_out res = []"
  by (auto simp: cli_main_def printed_def failed_with_def split: option.splits cli_command.splits sum.splits)

end
