(* ===== verification/Evals.thy ===== *)
theory Evals
  imports Entry_Points
begin

text \<open>
  The evaluation harness (\<^verbatim>\<open>evals.py\<close>), which runs cases on a desk and judges their reports, and the adapter
  for tests that replays a script (\<^verbatim>\<open>testing.py\<close>).
\<close>

section \<open>Evaluation\<close>

text \<open>\<open>check\<close> is the user's function of a report.\<close>

record 's eval_case =
  ec_name :: string
  ec_job :: job
  ec_contains :: "string list"
  ec_check :: "(report \<Rightarrow> ('s, bool) eff) option"

record eval_result =
  er_name :: string
  er_passed :: bool
  er_failures :: "string list"
  er_report :: report
  er_score :: "rat option"

text \<open>The \<open>repr\<close> of a string and the format \<^verbatim>\<open>.2f\<close>.\<close>

record eval_text =
  et_repr :: "string \<Rightarrow> string"
  et_f2 :: "rat \<Rightarrow> string"

definition judge_schema :: schema where
  "judge_schema = ModelSchema ''JudgeScore'' ''JudgeScore''"

definition judge_job :: "string \<Rightarrow> string \<Rightarrow> pyval \<Rightarrow> string option \<Rightarrow> job" where
  "judge_job i rubric task answer =
     \<lparr>job_id = i,
      job_input = PDict [(''rubric'', PStr rubric), (''task'', task),
                         (''answer'', case answer of Some a \<Rightarrow> PStr a | None \<Rightarrow> PNone)],
      job_expected_output = Some ''A score from 0.0 to 1.0 with reasoning'', job_tools_override = None,
      job_response_schema = Some judge_schema, job_constraints = [], job_metadata = [], job_initial_messages = None,
      job_thinking = None, job_stream_mode = None, job_drop_params = None, job_extra_body = None\<rparr>"

text \<open>\<open>float(data.score)\<close>.\<close>

definition score_of :: "pyval \<Rightarrow> exc + rat" where
  "score_of data =
     (case data of
        PModel c (PDict d) \<Rightarrow>
          (case Option.bind (dict_get d ''score'') as_num of
             Some v \<Rightarrow> Inr (num_of v)
           | None \<Rightarrow> Inl (TypeErr ''score''))
      | _ \<Rightarrow> Inl (Exc ''AttributeError'' ''score''))"

definition judge_score ::
  "('st, 'm, 'u) desk \<Rightarrow> (('st, 'm, 'u) desk_world_scheme, 'x) force_ext_scheme \<Rightarrow> crew_member \<Rightarrow> string \<Rightarrow>
   job \<Rightarrow> report \<Rightarrow> ('st, 'm, 'u, rat) desk_eff" where
  "judge_score D X judge rubric j rep =
     ebind (ask (x_new_id X)) (\<lambda>i.
     ebind (desk_arun D X (RWorker judge) (judge_job i rubric (job_input j) (rep_content rep)) None None) (\<lambda>judged.
     if rep_status judged = Completed \<and> rep_data judged \<noteq> PNone then from_sum (score_of (rep_data judged))
     else ret 0))"

definition case_failures ::
  "eval_text \<Rightarrow> rat \<Rightarrow> 's eval_case \<Rightarrow> report \<Rightarrow> rat option \<Rightarrow> ('s, string list) eff" where
  "case_failures T min_score c rep score =
     (let content = or_str (rep_content rep) [];
          before = (if rep_status rep \<noteq> Completed
                    then [''status: expected completed, got '' @ run_status_str (rep_status rep)] else []) @
            map (\<lambda>needle. ''missing content substring: '' @ et_repr T needle)
              (filter (\<lambda>needle. \<not> str_contains needle content) (ec_contains c));
          after = (case score of
                     Some q \<Rightarrow> if q < min_score then [''score '' @ et_f2 T q @ '' below '' @ et_f2 T min_score] else []
                   | None \<Rightarrow> [])
      in case ec_check c of
           None \<Rightarrow> ret (before @ after)
         | Some check \<Rightarrow>
             ebind (check rep) (\<lambda>ok. ret (before @ (if ok then [] else [''check returned False'']) @ after)))"

definition evaluate_case ::
  "eval_text \<Rightarrow> ('st, 'm, 'u) desk \<Rightarrow> (('st, 'm, 'u) desk_world_scheme, 'x) force_ext_scheme \<Rightarrow> runner \<Rightarrow>
   (crew_member \<times> string) option \<Rightarrow> rat \<Rightarrow> ('st, 'm, 'u) desk_world_scheme desk_state eval_case \<Rightarrow>
   ('st, 'm, 'u, eval_result) desk_eff" where
  "evaluate_case T D X r judge min_score c =
     ebind (desk_arun D X r (ec_job c) None None) (\<lambda>rep.
     ebind (case judge of
              Some (m, rubric) \<Rightarrow>
                if rep_status rep = Completed
                then ebind (judge_score D X m rubric (ec_job c) rep) (\<lambda>q. ret (Some q)) else ret None
            | None \<Rightarrow> ret None) (\<lambda>score.
     ebind (case_failures T min_score c rep score) (\<lambda>failures.
     ret \<lparr>er_name = ec_name c, er_passed = (failures = []), er_failures = failures, er_report = rep,
          er_score = score\<rparr>)))"

definition aevaluate ::
  "eval_text \<Rightarrow> ('st, 'm, 'u) desk \<Rightarrow> (('st, 'm, 'u) desk_world_scheme, 'x) force_ext_scheme \<Rightarrow> runner \<Rightarrow>
   ('st, 'm, 'u) desk_world_scheme desk_state eval_case list \<Rightarrow> crew_member option \<Rightarrow> string option \<Rightarrow> rat \<Rightarrow>
   ('st, 'm, 'u, eval_result list) desk_eff" where
  "aevaluate T D X r cases judge rubric min_score =
     (if (judge = None) \<noteq> (rubric = None) then raise (ValueError ''judge and rubric must be provided together'')
      else collect (evaluate_case T D X r
             (case (judge, rubric) of (Some m, Some t) \<Rightarrow> Some (m, t) | _ \<Rightarrow> None) min_score) cases)"

definition evaluate ::
  "bool \<Rightarrow> eval_text \<Rightarrow> ('st, 'm, 'u) desk \<Rightarrow> (('st, 'm, 'u) desk_world_scheme, 'x) force_ext_scheme \<Rightarrow> runner \<Rightarrow>
   ('st, 'm, 'u) desk_world_scheme desk_state eval_case list \<Rightarrow> crew_member option \<Rightarrow> string option \<Rightarrow> rat \<Rightarrow>
   ('st, 'm, 'u, eval_result list) desk_eff" where
  "evaluate running T D X r cases judge rubric min_score =
     eseq (ensure_not_running_loop running ''evaluate'' ''aevaluate'') (aevaluate T D X r cases judge rubric min_score)"

section \<open>The scripted adapter\<close>

datatype scripted_call = CompleteCall request | StructuredCall structured_request

record scripted =
  sa_responses :: "model_response list"
  sa_calls :: "scripted_call list"

definition next_response :: "string \<Rightarrow> (scripted, model_response) eff" where
  "next_response kind =
     ebind (gets sa_responses) (\<lambda>rs.
     case rs of
       [] \<Rightarrow> raise (Exc ''RuntimeError''
                (''ScriptedAdapter received a '' @ kind @ '' call but no scripted responses remain''))
     | r # rest \<Rightarrow> eseq (modify (\<lambda>s. s\<lparr>sa_responses := rest\<rparr>)) (ret r))"

text \<open>\<open>validate\<close> is pydantic's \<open>validate_json\<close> of a schema.\<close>

definition structured_value :: "(schema \<Rightarrow> string \<Rightarrow> exc + pyval) \<Rightarrow> model_response \<Rightarrow> schema \<Rightarrow> exc + structured" where
  "structured_value validate r schema =
     (case mr_content r of
        None \<Rightarrow> Inl (Exc ''RuntimeError'' ''Scripted structured responses must define content'')
      | Some content \<Rightarrow>
          (case validate schema content of Inl e \<Rightarrow> Inl e | Inr v \<Rightarrow> Inr (SResponse v (mr_usage r))))"

definition scripted_complete :: "request \<Rightarrow> (scripted, completion) eff" where
  "scripted_complete rq =
     eseq (modify (\<lambda>s. s\<lparr>sa_calls := sa_calls s @ [CompleteCall rq]\<rparr>))
       (ebind (next_response ''completion'') (\<lambda>r. ret (CResponse r)))"

definition scripted_structured ::
  "(schema \<Rightarrow> string \<Rightarrow> exc + pyval) \<Rightarrow> structured_request \<Rightarrow> (scripted, structured) eff" where
  "scripted_structured validate rq =
     eseq (modify (\<lambda>s. s\<lparr>sa_calls := sa_calls s @ [StructuredCall rq]\<rparr>))
       (ebind (next_response ''structured completion'') (\<lambda>r. from_sum (structured_value validate r (sq_schema rq))))"

text \<open>The asynchronous methods do the same.\<close>

definition scripted_acomplete :: "request \<Rightarrow> (scripted, completion) eff" where
  "scripted_acomplete rq = scripted_complete rq"

definition scripted_astructured ::
  "(schema \<Rightarrow> string \<Rightarrow> exc + pyval) \<Rightarrow> structured_request \<Rightarrow> (scripted, structured) eff" where
  "scripted_astructured validate rq = scripted_structured validate rq"

text \<open>Every call is recorded, also one that fails; a call takes the next response if there is one.\<close>

lemma scripted_complete_records:
  "wp (scripted_complete rq)
     (\<lambda>a s'. sa_calls s' = sa_calls s @ [CompleteCall rq] \<and>
        (\<exists>r. sa_responses s = r # sa_responses s' \<and> a = CResponse r))
     (\<lambda>e s'. sa_calls s' = sa_calls s @ [CompleteCall rq] \<and> sa_responses s = [] \<and> sa_responses s' = []) s"
  by (auto simp: scripted_complete_def next_response_def split: list.split)

lemma scripted_structured_records:
  "wp (scripted_structured validate rq)
     (\<lambda>a s'. sa_calls s' = sa_calls s @ [StructuredCall rq] \<and>
        (\<exists>r. sa_responses s = r # sa_responses s' \<and> Inr a = structured_value validate r (sq_schema rq)))
     (\<lambda>e s'. sa_calls s' = sa_calls s @ [StructuredCall rq] \<and> sa_responses s' = tl (sa_responses s)) s"
  by (auto simp: scripted_structured_def next_response_def split: list.split sum.split)

end
