(* ===== verification/Eval_Properties.thy ===== *)
theory Eval_Properties
  imports Evals Desk_Scenario
begin

text \<open>What the results of an evaluation say of the cases.\<close>

text \<open>A case whose report completed with the content it asks for and the score it needs.\<close>

definition case_met :: "rat \<Rightarrow> 's eval_case \<Rightarrow> report \<Rightarrow> rat option \<Rightarrow> bool" where
  "case_met min_score c rep score \<longleftrightarrow>
     rep_status rep = Completed \<and>
     (\<forall>needle\<in>set (ec_contains c). str_contains needle (or_str (rep_content rep) [])) \<and>
     (\<forall>q. score = Some q \<longrightarrow> min_score \<le> q)"

definition judged :: "bool \<Rightarrow> rat \<Rightarrow> 's eval_case \<Rightarrow> eval_result \<Rightarrow> bool" where
  "judged with_judge min_score c res \<longleftrightarrow>
     er_name res = ec_name c \<and> (er_passed res \<longleftrightarrow> er_failures res = []) \<and>
     (er_score res \<noteq> None \<longleftrightarrow> with_judge \<and> rep_status (er_report res) = Completed) \<and>
     (case ec_check c of
        None \<Rightarrow> er_passed res \<longleftrightarrow> case_met min_score c (er_report res) (er_score res)
      | Some check \<Rightarrow>
          (\<exists>s ok s'. check (er_report res) s = (Inr ok, s') \<and>
             (er_passed res \<longleftrightarrow> case_met min_score c (er_report res) (er_score res) \<and> ok)))"

lemma wp_collect_all2:
  assumes "\<And>x s. x \<in> set xs \<Longrightarrow> wp (f x) (\<lambda>y _. R x y) anything s"
  shows "wp (collect f xs) (\<lambda>ys _. list_all2 R xs ys) anything s"
  using assms
proof (induction xs arbitrary: s)
  case (Cons a as s)
  have "wp (f a) (\<lambda>y _. R a y) anything s" using Cons.prems[of a] by simp
  moreover have "wp (collect f as) (\<lambda>ys _. list_all2 R as ys) anything s'" for s'
    using Cons.IH Cons.prems by simp
  ultimately show ?case by (simp, elim wp_mono) (auto elim!: wp_mono)
qed simp

lemma case_failures_met:
  "wp (case_failures T min_score c rep score)
     (\<lambda>failures _. case ec_check c of
        None \<Rightarrow> failures = [] \<longleftrightarrow> case_met min_score c rep score
      | Some check \<Rightarrow> (\<exists>s ok s'. check rep s = (Inr ok, s') \<and> (failures = [] \<longleftrightarrow> case_met min_score c rep score \<and> ok)))
     anything s"
proof -
  note met = case_met_def filter_empty_conv not_less
  show ?thesis
  proof (cases "ec_check c")
    case None
    then show ?thesis by (auto simp: case_failures_def Let_def met split: option.split)
  next
    case (Some check)
    have "wp (check rep) (\<lambda>ok _. \<exists>s s'. check rep s = (Inr ok, s')) anything s" by (rule wpI) auto
    then show ?thesis
      unfolding case_failures_def Let_def Some option.case wp_ebind
      by (rule wp_mono) (auto simp: met split: option.split)
  qed
qed

lemma evaluate_case_judged:
  "wp (evaluate_case T D X r judge min_score c) (\<lambda>res _. judged (judge \<noteq> None) min_score c res) anything s"
proof -
  have scored: "wp (case judge of Some (m, rubric) \<Rightarrow>
        if rep_status rep = Completed then ebind (judge_score D X m rubric (ec_job c) rep) (\<lambda>q. ret (Some q)) else ret None
      | None \<Rightarrow> ret None)
      (\<lambda>score _. score \<noteq> None \<longleftrightarrow> judge \<noteq> None \<and> rep_status rep = Completed) anything s1" for rep s1
    by (auto simp: wpI[where E = anything] split: option.split prod.split intro: wp_mono[OF wp_true])
  show ?thesis
    unfolding evaluate_case_def wp_ebind
    by (rule wp_mono[OF wp_true], rule wp_mono[OF scored], rule wp_mono[OF case_failures_met])
      (auto simp: judged_def split: option.splits)
qed

text \<open>
  C40: An evaluation that returns has one result per case, in their order and under their names.  A result
  passed exactly if its report is completed, has every text the case asks for, satisfies the check of the
  case and has no score below the minimum; it is scored exactly if there is a judge and it completed.
\<close>

theorem evaluation_judges_each_case:
  assumes "aevaluate T D X r cases judge rubric min_score s = (Inr results, s')"
  shows "(judge = None \<longleftrightarrow> rubric = None) \<and> list_all2 (judged (judge \<noteq> None) min_score) cases results"
proof -
  have given: "judge = None \<longleftrightarrow> rubric = None" using assms by (auto simp: aevaluate_def raise_def split: if_splits)
  then have "((case (judge, rubric) of (Some m, Some t) \<Rightarrow> Some (m, t) | _ \<Rightarrow> None) \<noteq> None) = (judge \<noteq> None)"
    by (cases judge; cases rubric) simp_all
  with wp_collect_all2[of cases "evaluate_case T D X r (case (judge, rubric) of (Some m, Some t) \<Rightarrow> Some (m, t) | _ \<Rightarrow> None) min_score",
      OF evaluate_case_judged] assms given
  show ?thesis by (auto simp: aevaluate_def dest: wpD(1))
qed

definition demo_case :: "demo_world desk_state eval_case" where
  "demo_case = \<lparr>ec_name = ''says bye'', ec_job = demo_job, ec_contains = [''bye''], ec_check = None\<rparr>"

definition plain_eval :: eval_text where
  "plain_eval = \<lparr>et_repr = (\<lambda>s. s), et_f2 = (\<lambda>q. ''0.00'')\<rparr>"

lemma demo_case_runs:
  "\<exists>rep s'. desk_arun demo_desk demo_externals (RWorker demo_member) demo_job None None (demo_start [say ''bye'']) = (Inr rep, s')
     \<and> rep_status rep = Completed \<and> rep_content rep = Some ''bye''"
  by (simp add: desk_defs scenario_defs dict_get_or_def validate_execution_limits_def
      model_name_def del: One_nat_def cong: run_weak_cong)

theorem evaluation_judges_each_case_witness:
  "\<exists>res s'. aevaluate plain_eval demo_desk demo_externals (RWorker demo_member) [demo_case] None None (1/2) (demo_start [say ''bye''])
     = (Inr [res], s') \<and> er_name res = ''says bye'' \<and> er_passed res"
proof -
  obtain rep s1 where r: "desk_arun demo_desk demo_externals (RWorker demo_member) demo_job None None (demo_start [say ''bye'']) = (Inr rep, s1)"
    "rep_status rep = Completed" "rep_content rep = Some ''bye''"
    using demo_case_runs by blast
  have "\<exists>res s'. aevaluate plain_eval demo_desk demo_externals (RWorker demo_member) [demo_case] None None (1/2) (demo_start [say ''bye''])
      = (Inr [res], s') \<and> er_report res = rep"
    using r(1) by (simp add: aevaluate_def evaluate_case_def case_failures_def demo_case_def ebind_def ret_def Let_def)
  then obtain res s' where run: "aevaluate plain_eval demo_desk demo_externals (RWorker demo_member) [demo_case] None None (1/2) (demo_start [say ''bye''])
      = (Inr [res], s')" "er_report res = rep" by blast
  from evaluation_judges_each_case[OF run(1)] run r(2,3) show ?thesis
    by (auto simp: judged_def case_met_def demo_case_def)
qed

end
