(* ===== verification/Event_Payloads.thy ===== *)
theory Event_Payloads
  imports Flow Adapter
begin

text \<open>
  The payload types of \<^verbatim>\<open>core/event_payloads.py\<close>: for each event that has one, the fields its dataclass
  requires and those with a default; \<open>WorkforcePausedPayload\<close> belongs to no event.  A payload fits where the dataclass can be built from it.
\<close>

definition payload_fields :: "event_type \<Rightarrow> (string list \<times> string list) option" where
  "payload_fields ty =
     (case ty of
        RunStarted \<Rightarrow> Some ([''job_id''], [])
      | RunFailed \<Rightarrow> Some ([''errors''], [])
      | WorkerPaused \<Rightarrow> Some ([''pending_action_type''], [])
      | WorkerFailed \<Rightarrow> Some ([''error''], [])
      | WorkerContextSummarized \<Rightarrow>
          Some ([''model'', ''summarized_messages'', ''kept_messages''], [''unregistered_model'', ''registration_hint''])
      | ToolStarted \<Rightarrow> Some ([''tool_call_id''], [])
      | ToolCompleted \<Rightarrow>
          Some ([''tool_call_id''], [''result_preview'', ''result_truncated'', ''timed_out'', ''cancelled''])
      | ToolFailed \<Rightarrow> Some ([''tool_call_id'', ''error''], [])
      | StreamToken \<Rightarrow> Some ([''token''], [''type''])
      | AssistantMessage \<Rightarrow> Some ([''content''], [''tool_calls''])
      | LLMCompleted \<Rightarrow>
          Some ([''model'', ''latency_ms''], [''prompt_tokens'', ''completion_tokens'', ''total_tokens'', ''cost''])
      | LLMFailed \<Rightarrow> Some ([''model'', ''latency_ms'', ''error_type'', ''error_message''], [])
      | StepCompleted \<Rightarrow> Some ([''status''], [])
      | StepPaused \<Rightarrow> Some ([''status''], [])
      | _ \<Rightarrow> None)"

definition payload_fits :: "event_type \<Rightarrow> pyval dict \<Rightarrow> bool" where
  "payload_fits ty payload \<longleftrightarrow>
     (case payload_fields ty of
        None \<Rightarrow> True
      | Some (required, optional) \<Rightarrow>
          set required \<subseteq> fst ` set payload \<and> fst ` set payload \<subseteq> set required \<union> set optional)"

lemmas payload_defs = payload_fits_def payload_fields_def

text \<open>What the worker and the desk emit fits.\<close>

lemma worker_payloads_fit:
  "payload_fits ToolCompleted (tool_event_payload P call r)"
  "payload_fits ToolStarted [(''tool_call_id'', PStr i)]"
  "payload_fits WorkerContextSummarized (summary_info model head tail registered)"
  "payload_fits StreamToken [(''token'', t), (''type'', PStr kind)]"
  "payload_fits WorkerPaused [(''pending_action_type'', PStr a)]"
  "payload_fits WorkerFailed [(''error'', PStr e)]"
  by (auto simp: payload_defs tool_event_payload_def summary_info_def split: option.split)

lemma desk_payloads_fit:
  "payload_fits RunStarted [(''job_id'', PStr i)]" "payload_fits RunFailed [(''errors'', error_list es)]"
  "payload_fits StepCompleted [(''status'', PStr st)]" "payload_fits StepPaused [(''status'', PStr st)]"
  by (simp_all add: payload_defs)

text \<open>Two failures do not: the one of a flow, which says nothing, and the one of a run that raised, which
  has the class of the exception as well.\<close>

lemma flow_failure_does_not_fit: "\<not> payload_fits RunFailed []"
  by (simp add: payload_defs)

lemma raised_failure_does_not_fit: "\<not> payload_fits RunFailed [(''errors'', es), (''error_type'', ty)]"
  by (simp add: payload_defs)

end
