(* ===== verification/Multimodal.thy ===== *)
theory Multimodal
  imports Effects "HOL-Library.Word"
begin

text \<open>
  Files as data URLs (\<^verbatim>\<open>multimodal.py\<close>): the MIME type and the Base64 encoding of the content.  Bytes are
  words of 8 bits; reading a file and \<open>mimetypes.guess_type\<close> are arguments.  The reference is a decoder of
  Base64 and of data URLs, which gives the type and the content back.
\<close>

type_synonym byte = "8 word"

section \<open>Base64\<close>

definition B64_ALPHABET :: string where
  "B64_ALPHABET = ''ABCDEFGHIJKLMNOPQRSTUVWXYZabcdefghijklmnopqrstuvwxyz0123456789+/''"

definition sextet_char :: "nat \<Rightarrow> char" where
  "sextet_char i = B64_ALPHABET ! i"

text \<open>Three bytes are four digits of 6 bits, the first ones first; what is missing at the end is padded.\<close>

fun b64encode :: "byte list \<Rightarrow> string" where
  "b64encode [] = []"
| "b64encode [a] =
     [sextet_char (unat a div 4), sextet_char (unat a mod 4 * 16), CHR ''='', CHR ''='']"
| "b64encode [a, b] =
     [sextet_char (unat a div 4), sextet_char (unat a mod 4 * 16 + unat b div 16),
      sextet_char (unat b mod 16 * 4), CHR ''='']"
| "b64encode (a # b # c # rest) =
     [sextet_char (unat a div 4), sextet_char (unat a mod 4 * 16 + unat b div 16),
      sextet_char (unat b mod 16 * 4 + unat c div 64), sextet_char (unat c mod 64)] @ b64encode rest"

section \<open>The type of a file\<close>

text \<open>\<open>Path(p).suffix\<close>: from the last dot of the last component, unless it is its first or last character.\<close>

definition path_name :: "string \<Rightarrow> string" where
  "path_name p =
     (case rev (filter (\<lambda>c. c \<noteq> [] \<and> c \<noteq> ''.'') (str_split (CHR ''/'') p)) of [] \<Rightarrow> [] | c # cs \<Rightarrow> c)"

definition path_suffix :: "string \<Rightarrow> string" where
  "path_suffix p =
     (let name = path_name p;
          ext = rev (takeWhile (\<lambda>c. c \<noteq> CHR ''.'') (rev name));
          i = length name - length ext - 1
      in if length ext < length name \<and> 0 < i \<and> ext \<noteq> [] then CHR ''.'' # ext else [])"

definition MIME_TYPES :: "string dict" where
  "MIME_TYPES =
     [(''.jpg'', ''image/jpeg''), (''.jpeg'', ''image/jpeg''), (''.png'', ''image/png''), (''.gif'', ''image/gif''),
      (''.webp'', ''image/webp''), (''.mp4'', ''video/mp4''), (''.avi'', ''video/x-msvideo''),
      (''.mov'', ''video/quicktime''), (''.mp3'', ''audio/mp3''), (''.wav'', ''audio/wav''),
      (''.pdf'', ''application/pdf''), (''.csv'', ''text/csv''), (''.doc'', ''application/msword''),
      (''.docx'', ''application/vnd.openxmlformats-officedocument.wordprocessingml.document''),
      (''.xls'', ''application/vnd.ms-excel''),
      (''.xlsx'', ''application/vnd.openxmlformats-officedocument.spreadsheetml.sheet''),
      (''.html'', ''text/html''), (''.txt'', ''text/plain''), (''.md'', ''text/markdown'')]"

definition mime_type_of :: "(string \<Rightarrow> string option) \<Rightarrow> string \<Rightarrow> string option \<Rightarrow> string" where
  "mime_type_of guess path given =
     (case given of
        Some m \<Rightarrow> m
      | None \<Rightarrow>
          (case guess path of
             Some m \<Rightarrow> m
           | None \<Rightarrow> dict_get_or MIME_TYPES (str_lower (path_suffix path)) ''application/octet-stream''))"

definition encode_file ::
  "(string \<Rightarrow> string option) \<Rightarrow> (string \<Rightarrow> ('w, byte list) eff) \<Rightarrow> string \<Rightarrow> string option \<Rightarrow> ('w, string) eff" where
  "encode_file guess read_bytes path given =
     (let mime = mime_type_of guess path given
      in ebind (read_bytes path) (\<lambda>bs. ret (''data:'' @ mime @ '';base64,'' @ b64encode bs)))"

section \<open>Decoding\<close>

definition char_sextet :: "char \<Rightarrow> nat option" where
  "char_sextet c = (let n = length (takeWhile (\<lambda>x. x \<noteq> c) B64_ALPHABET) in if n < 64 then Some n else None)"

definition sextet :: "char \<Rightarrow> nat" where
  "sextet c = (case char_sextet c of Some n \<Rightarrow> n | None \<Rightarrow> 0)"

definition byte_of :: "nat \<Rightarrow> byte" where
  "byte_of n = of_nat (n mod 256)"

text \<open>The three bytes of four digits; each padding character stands for a byte that is not there.\<close>

fun b64decode :: "string \<Rightarrow> byte list" where
  "b64decode (p # q # r # t # rest) =
     take (if r = CHR ''='' then 1 else if t = CHR ''='' then 2 else 3)
       [byte_of (sextet p * 4 + sextet q div 16), byte_of (sextet q mod 16 * 16 + sextet r div 4),
        byte_of (sextet r mod 4 * 64 + sextet t)] @ b64decode rest"
| "b64decode _ = []"

definition decode_data_url :: "string \<Rightarrow> string \<times> byte list" where
  "decode_data_url url =
     (let header = takeWhile (\<lambda>c. c \<noteq> CHR '','') url
      in (drop 5 (take (length header - 7) header), b64decode (drop (length header + 1) url)))"

lemma sextet_char_table:
  "\<forall>i<64. sextet (sextet_char i) = i \<and> sextet_char i \<noteq> CHR ''=''"
  by code_simp

lemma sextet_of_char [simp]: "i < 64 \<Longrightarrow> sextet (sextet_char i) = i"
  and sextet_char_pad [simp]: "i < 64 \<Longrightarrow> sextet_char i \<noteq> CHR ''=''"
  using sextet_char_table by blast+

lemma byte_bound: "unat (a :: byte) < 256"
  using unsigned_less[of a] by simp

lemma byte_parts [simp]:
  "unat (a :: byte) div 4 < 64" "unat (a :: byte) div 16 < 16" "unat (a :: byte) div 64 < 4"
  using byte_bound[of a] by (simp_all add: less_mult_imp_div_less)

lemma byte_of_unat [simp]: "byte_of (unat a) = a"
  using byte_bound[of a] by (simp add: byte_of_def)

text \<open>Two parts of a number put together, and taken apart again.\<close>

lemma parts_bound: "m < k \<Longrightarrow> d < n \<Longrightarrow> m * n + d < k * (n :: nat)"
  using mult_le_mono1[of "Suc m" k n] by simp

lemma parts_apart [simp]:
  fixes d n :: nat
  assumes "d < n"
  shows "(m * n + d) div n = m" "(m * n + d) mod n = d"
  using assms by simp_all

lemma digit_bounds [simp]:
  fixes a b :: byte
  shows "unat a mod 4 * 16 < 64" "unat a mod 4 * 16 + unat b div 16 < 64"
    and "unat a mod 16 * 4 < 64" "unat a mod 16 * 4 + unat b div 64 < 64"
  using parts_bound[of "unat a mod 4" 4 "unat b div 16" 16] parts_bound[of "unat a mod 16" 16 "unat b div 64" 4]
  by simp_all

lemma b64_round_trip: "b64decode (b64encode bs) = bs"
  by (induction bs rule: b64encode.induct) simp_all

lemma b64_length: "length (b64encode bs) = 4 * ((length bs + 2) div 3)"
  by (induction bs rule: b64encode.induct) (simp_all, presburger)

lemma takeWhile_header: "CHR '','' \<notin> set h \<Longrightarrow> takeWhile (\<lambda>c. c \<noteq> CHR '','') (h @ CHR '','' # x) = h"
  by (induction h) auto

text \<open>The content of the file and its type are read back, however the type was found; an error of reading is
  passed on.\<close>

lemma encode_file_round_trip:
  assumes "CHR '','' \<notin> set (mime_type_of guess path given)"
  shows "wp (encode_file guess read_bytes path given)
     (\<lambda>url w'. \<exists>bs. read_bytes path w = (Inr bs, w') \<and>
        decode_data_url url = (mime_type_of guess path given, bs))
     (\<lambda>e w'. read_bytes path w = (Inl e, w')) w"
proof (cases "read_bytes path w")
  case (Pair r w')
  let ?m = "mime_type_of guess path given"
  have "decode_data_url (''data:'' @ ?m @ '';base64,'' @ b64encode bs) = (?m, bs)" for bs
    using takeWhile_header[of "''data:'' @ ?m @ '';base64''" "b64encode bs"] assms
    by (simp add: decode_data_url_def b64_round_trip)
  with Pair show ?thesis
    by (cases r) (simp_all add: encode_file_def ebind_def ret_def wp_def Let_def)
qed

text \<open>The types of the table need no further condition.\<close>

lemma mime_table_plain: "\<forall>m\<in>snd ` set MIME_TYPES. CHR '','' \<notin> set m \<and> CHR '';'' \<notin> set m"
  by code_simp

lemma path_suffix_examples:
  "path_suffix ''/a.b/c.tar.GZ'' = ''.GZ''" "path_suffix ''x/.bashrc'' = []" "path_suffix ''x.y/'' = ''.y''"
  "path_suffix ''x.'' = []"
  by code_simp+

end
