(* ===== verification/Spec2Isabelle.thy ===== *)
theory Spec2Isabelle
  imports Worker_Properties Workforce_Properties Support_Properties Desk_Properties Flow_Properties Session_Properties
    Adapter_Properties Swarm_Properties Vector_Properties Mcp_Properties Tool_Functions Eval_Properties Event_Payloads
    Multimodal
begin

text \<open>
  A model of blackgeorge (\<^verbatim>\<open>src/blackgeorge/\<close>), a framework that runs language-model workers: a
  \<^emph>\<open>worker\<close> talks with a model in a loop and executes the tools it calls, a \<^emph>\<open>workforce\<close> lets several
  workers share a job, a \<^emph>\<open>flow\<close> runs jobs along a graph of steps, a \<^emph>\<open>session\<close> keeps the conversation of
  one worker over several runs, and the \<^emph>\<open>desk\<close> runs all of them over a run store, a memory store and an
  event bus.  A run ends \<open>Completed\<close>, \<open>Failed\<close> or \<open>Paused\<close>: paused runs wait for a confirmation or an
  input, are stored, and are resumed with the answer, also by another process.  That a run can be
  resumed wherever it paused, with a conversation the model's provider accepts, is the thread of the
  properties.

  \<^bold>\<open>How the code is read.\<close>  Every operation is a HOL function.  A statement that may raise is a function
  from a state to \<open>Inl\<close> an exception or \<open>Inr\<close> a value, with the state it leaves (\<^verbatim>\<open>Effects\<close>: \<open>ebind\<close> is
  sequencing, \<open>attempt\<close> is try, \<open>raise\<close>, \<open>ret\<close>); what a raising statement has changed stays changed.
  Python values are the datatype \<open>pyval\<close> (\<^verbatim>\<open>Values\<close>), dictionaries are association lists in insertion
  order (\<^verbatim>\<open>Prelude\<close>).  Everything outside the source is a field of the record \<open>force_ext\<close>
  (\<^verbatim>\<open>Runtime\<close>): the model adapter, the tools' and hooks' callables, pydantic's validation, the clock,
  fresh identifiers, tokens and prices, and the order in which concurrent tasks get to run; each works on
  a world of its own type, about which a theorem assumes what it names.  \<^verbatim>\<open>Scenario\<close>,
  \<^verbatim>\<open>Workforce_Scenario\<close>, \<^verbatim>\<open>Desk_Scenario\<close> and \<^verbatim>\<open>Flow_Scenario\<close> are instances in which the model is
  evaluated; the witnesses run in them.

  \<^bold>\<open>Data.\<close>  \<^verbatim>\<open>Core_Types\<close> has the records and enumerations of \<^verbatim>\<open>core/\<close>, \<^verbatim>\<open>tools/base.py\<close> and
  \<^verbatim>\<open>store/state.py\<close> with what storing as JSON does to them (\<open>reload_message\<close>, \<open>reload_state\<close>);
  \<^verbatim>\<open>Usage\<close> the accounting of \<^verbatim>\<open>core/usage.py\<close> and \<^verbatim>\<open>adapters/cost.py\<close> and the limits of \<^verbatim>\<open>config.py\<close>.

  \<^bold>\<open>The worker.\<close>  \<^verbatim>\<open>Tools\<close> (\<^verbatim>\<open>tools/base.py\<close>, \<^verbatim>\<open>registry.py\<close>, \<^verbatim>\<open>handoff.py\<close>, \<^verbatim>\<open>worker_tools.py\<close>),
  \<^verbatim>\<open>Tool_Execution\<close> (\<^verbatim>\<open>tools/execution.py\<close>: hooks, validation, retries, time limits), \<^verbatim>\<open>Worker_Messages\<close>,
  \<^verbatim>\<open>Streaming\<close> (\<^verbatim>\<open>runner/streaming.py\<close>), \<^verbatim>\<open>Worker_Context\<close> (\<^verbatim>\<open>worker_context.py\<close>: summarizing a history
  that is too long), \<^verbatim>\<open>Completion\<close> (the model calls of \<^verbatim>\<open>worker_runner.py\<close>), \<^verbatim>\<open>Worker_Plan\<close>
  (\<^verbatim>\<open>worker_runner_helpers.py\<close>: which calls of a response run, wait or are skipped) and \<^verbatim>\<open>Worker_Loop\<close>
  (\<^verbatim>\<open>worker_runner.py\<close>, \<^verbatim>\<open>worker.py\<close>: \<open>turn\<close>, \<open>arun_loop\<close>, \<open>arun\<close>, \<open>aresume\<close>).  \<^verbatim>\<open>Conversation\<close> is the
  specification: \<open>scan\<close> reads a message list with the calls still unanswered, \<open>conversation_ok\<close> is a list
  that leaves none.  \<^verbatim>\<open>Worker_Laws\<close>, \<^verbatim>\<open>Worker_Invariant\<close> and \<^verbatim>\<open>Worker_Outcome\<close> prove the loop's
  invariant (\<open>loop_inv\<close>) and the three outcomes (\<open>good_outcome\<close>).  C1 to C11 (\<^verbatim>\<open>Worker_Properties\<close>).

  \<^bold>\<open>The workforce.\<close>  \<^verbatim>\<open>Workforce_Helpers\<close>, \<^verbatim>\<open>Workforce\<close> and \<^verbatim>\<open>Workforce_Modes\<close> (\<^verbatim>\<open>workforce.py\<close>,
  \<^verbatim>\<open>workforce_helpers.py\<close>): the managed, collaborate and swarm modes and the four stages of resumption.  A
  workforce relies on its members by the locale \<open>member_contract\<close> (\<^verbatim>\<open>Member_Contract\<close>), which is
  interpreted on the worker's \<open>member_arun\<close> and \<open>member_aresume\<close>; \<^verbatim>\<open>Workforce_Laws\<close>,
  \<^verbatim>\<open>Workforce_Resume\<close>, \<^verbatim>\<open>Workforce_Outcome\<close> and \<^verbatim>\<open>Workforce_Totals\<close> prove in it what a run and a
  resumption end with.  C12 to C17 (\<^verbatim>\<open>Workforce_Properties\<close>).

  \<^bold>\<open>Stores, channel, blackboard, bus.\<close>  \<^verbatim>\<open>Run_Store\<close> (\<^verbatim>\<open>store/base.py\<close>, \<^verbatim>\<open>in_memory.py\<close>, \<^verbatim>\<open>sqlite.py\<close>)
  and \<^verbatim>\<open>Memory_Stores\<close> (\<^verbatim>\<open>memory/\<close>) have the interface as a record of operations and both
  implementations; \<^verbatim>\<open>Run_Store_Laws\<close> the contract \<open>run_store\<close>, its two interpretations, and the
  refinement between the stores.  \<^verbatim>\<open>Channel\<close>, \<^verbatim>\<open>Blackboard\<close> and \<^verbatim>\<open>Collaboration_Tools\<close> model
  \<^verbatim>\<open>collaboration/\<close>, \<^verbatim>\<open>Event_Bus\<close> models \<^verbatim>\<open>event_bus.py\<close>.  C18 to C21 (\<^verbatim>\<open>Support_Properties\<close>).

  \<^bold>\<open>The desk.\<close>  \<^verbatim>\<open>Sanitize\<close> and \<^verbatim>\<open>Desk\<close> (\<^verbatim>\<open>desk.py\<close>): memory and configuration of a job, the run as a
  record of the store, its events, pausing and resuming, failures.  The lemmas live in the locale
  \<open>desk_runs\<close> (\<^verbatim>\<open>Desk_Laws\<close>), which takes a store with the contract \<open>run_store\<close> and externals that
  leave it alone (\<open>force_moves\<close> of \<^verbatim>\<open>World_Moves\<close>); \<open>worker_history\<close> are the histories of one run:
  started once, resumed any number of times, with anything happening to other runs in between.
  C22 to C25 (\<^verbatim>\<open>Desk_Properties\<close>).

  \<^bold>\<open>Flows.\<close>  \<^verbatim>\<open>Workflow_Context\<close>, \<^verbatim>\<open>Workflow_Nodes\<close>, \<^verbatim>\<open>Workflow_Graph\<close> and \<^verbatim>\<open>Flow\<close>
  (\<^verbatim>\<open>workflow/\<close>): the nodes and how each executes, what is left of one that pauses (a continuation), how
  continuations are written as paths into the graph and read back, and the runs of a flow.
  \<^verbatim>\<open>Node_Moves\<close>, \<^verbatim>\<open>Loop_Laws\<close>, \<^verbatim>\<open>Workflow_Graph_Laws\<close>, \<^verbatim>\<open>Flow_Laws\<close>, \<^verbatim>\<open>Flow_Runs\<close> (the locale
  \<open>flow_runs\<close> extends \<open>desk_runs\<close>) and \<^verbatim>\<open>Flow_Outcome\<close> prove what is recorded, what is read back and that
  loops end.  C26 to C29 (\<^verbatim>\<open>Flow_Properties\<close>).

  \<^bold>\<open>Sessions.\<close>  \<^verbatim>\<open>Session_Store\<close> (\<^verbatim>\<open>store/session_store.py\<close> and its two implementations, with the
  contract \<open>session_store\<close>) and \<^verbatim>\<open>Session\<close> (\<^verbatim>\<open>session.py\<close>, \<open>Desk.session\<close>).  C30 and C31
  (\<^verbatim>\<open>Session_Properties\<close>).  \<^verbatim>\<open>Entry_Points\<close> has the blocking forms of the runs, the stream of a session
  whose reader may stop early, and the commands of \<^verbatim>\<open>cli.py\<close>.

  \<^bold>\<open>The adapter.\<close>  \<^verbatim>\<open>Adapter\<close> (requests, answers and events of \<^verbatim>\<open>adapters/litellm.py\<close>) and
  \<^verbatim>\<open>Adapter_Calls\<close> (its completions, its stream wrappers and the attempts of a structured completion, over
  the calls of litellm and instructor as arguments).  \<^verbatim>\<open>Adapter_Laws\<close> follows the events reported, the calls
  counted and the life of a stream.  C32 to C35 (\<^verbatim>\<open>Adapter_Properties\<close>).

  \<^bold>\<open>Tools that bring a system of their own.\<close>  \<^verbatim>\<open>Swarm_Tool\<close> (\<^verbatim>\<open>tools/swarm.py\<close>): each call runs a worker
  on a desk of its own; \<^verbatim>\<open>Swarm_Laws\<close> accounts for the budget the calls share in any interleaving of their
  locked sections.  C36 and C37 (\<^verbatim>\<open>Swarm_Properties\<close>).  \<^verbatim>\<open>Mcp_Tools\<close> (\<^verbatim>\<open>tools/mcp.py\<close>): the connection to a
  server and its tools; C39 (\<^verbatim>\<open>Mcp_Properties\<close>) follows every connection opened to its end, under the laws
  \<open>mcp_laws\<close> of the client library.  \<^verbatim>\<open>Tool_Functions\<close> (\<^verbatim>\<open>tools/decorators.py\<close>, \<^verbatim>\<open>schema.py\<close>,
  \<^verbatim>\<open>image_generation.py\<close>): tools made of functions.

  \<^bold>\<open>Memory by similarity.\<close>  \<^verbatim>\<open>Vector_Memory\<close> (\<^verbatim>\<open>memory/vector.py\<close>): a text is kept as overlapping chunks in
  a collection of ChromaDB, which is an argument with its documented laws.  \<^verbatim>\<open>Vector_Laws\<close> shows that the
  chunks give the text back and interprets the contract \<open>memory_store\<close> on the store.  C38
  (\<^verbatim>\<open>Vector_Properties\<close>).

  \<^bold>\<open>Evaluation.\<close>  \<^verbatim>\<open>Evals\<close> (\<^verbatim>\<open>evals.py\<close>, \<^verbatim>\<open>testing.py\<close>): cases run on a desk and judged by their reports or
  by a worker, and the adapter that replays a script.  C40 (\<^verbatim>\<open>Eval_Properties\<close>).  \<^verbatim>\<open>Event_Payloads\<close> says
  which fields the payload of an event has, \<^verbatim>\<open>Multimodal\<close> how a file becomes a data URL, which decodes to the
  file's type and content.

  \<^bold>\<open>Loops and fuel.\<close>  Loops over data are structural.  The worker loop is given the iterations left plus
  one (\<open>loop_fuel\<close>; C4 shows that it is enough for every answer of the model), the swarm loop the handoffs
  left plus one (\<open>swarm_loop_terminates\<close>), a \<open>Loop\<close> of a flow \<open>fe_rounds\<close>, which suffices above its
  \<open>max_iterations\<close> (C28); running out of fuel is a result of its own, which these properties exclude.
  \<open>ds_rounds\<close> bounds how often the desk waits for asynchronous handlers that start further ones.

  \<^bold>\<open>Not modelled.\<close>  Threads and the interleaving inside concurrent tasks: tasks that \<open>asyncio.gather\<close> runs
  together (workers of a parallel collaboration, steps of a \<open>Parallel\<close>, asynchronous handlers) run one
  after the other in any order, each to its end.  Cancellation of the task that runs the framework, and
  exceptions outside \<open>Exception\<close> other than \<open>CancelledError\<close>.  What \<open>asyncio.run\<close> cancels when a
  blocking run ends, the handlers still pending.  Aliasing of a
  mutable value a caller goes on to change; circular values, infinities and NaN; objects whose dump the
  caller's own class defines.  Tools that call the desk they run in.  Executables of the user's own
  classes in a flow.  The closing of stores.
  The digest of a flow's shape (SHA-256 in the code) is an argument.  The rounding of floats: numbers are
  rationals.
  Of \<^verbatim>\<open>adapters/litellm.py\<close> the set-up and clean-up of the library are left out, of \<^verbatim>\<open>cli.py\<close> the parsing of arguments, of \<^verbatim>\<open>async_utils.py\<close> the
  thread a coroutine is run in.  Left out altogether: \<^verbatim>\<open>logging.py\<close> and what is logged, the re-exports of the packages, and \<^verbatim>\<open>examples/\<close>, programs that use the
  framework.
\<close>

end
